(* ===== verification/Prelude.thy ===== *)
theory Prelude
  imports Complex_Main "HOL-Library.List_Lexorder" "HOL-Library.Char_ord" "HOL-Library.Sublist"
begin

text \<open>
  What every component theory shares: the collections the development's facts are gathered in,
  Python's decimal rendering of an integer, the small string operations of the code
  (\<open>str.join\<close>, \<open>str.endswith\<close>), association lists with the update rule of a Python dict, and the
  generic facts on filtered and updated lists that the table operations rest on.

  Strings are byte strings (HOL's \<open>string\<close>); a UUID is its textual form, so \<open>str(id)\<close> is the
  identity; a point in time is an integer number of seconds since the Unix epoch.
\<close>

named_theorems run_simps "equations that execute a step of a modelled operation"
named_theorems inv_intros "an operation preserves an invariant"
named_theorems row_simps "what the table operations return"

type_synonym uuid = string
type_synonym time = int

subsection \<open>Decimal rendering of integers\<close>

text \<open>\<open>str(n)\<close> of a natural number, most significant digit first.\<close>

fun str_nat :: "nat \<Rightarrow> string" where
  "str_nat n = (if n < 10 then [''0123456789'' ! n] else str_nat (n div 10) @ [''0123456789'' ! (n mod 10)])"

declare str_nat.simps [simp del]

definition str_int :: "int \<Rightarrow> string" where
  "str_int i = (if i < 0 then CHR ''-'' # str_nat (nat (- i)) else str_nat (nat i))"

text \<open>The value of a digit string, to show that rendering loses nothing.\<close>

definition digit_val :: "char \<Rightarrow> nat" where
  "digit_val c = of_char c - 48"

definition nat_val :: "string \<Rightarrow> nat" where
  "nat_val cs = foldl (\<lambda>a c. a * 10 + digit_val c) 0 cs"

lemma digit_val_nth: "d < 10 \<Longrightarrow> digit_val (''0123456789'' ! d) = d"
proof -
  have "\<forall>d \<in> set [0..<10]. digit_val (''0123456789'' ! d) = d"
    by (simp add: upt_rec digit_val_def)
  then show "d < 10 \<Longrightarrow> digit_val (''0123456789'' ! d) = d"
    by simp
qed

lemma nat_val_snoc [simp]: "nat_val (cs @ [c]) = nat_val cs * 10 + digit_val c"
  by (simp add: nat_val_def)

lemma nat_val_str_nat [simp]: "nat_val (str_nat n) = n"
proof (induction n rule: str_nat.induct)
  case (1 n)
  show ?case
  proof (cases "n < 10")
    case True
    then have "nat_val (str_nat n) = digit_val (''0123456789'' ! n)"
      by (subst str_nat.simps) (simp add: nat_val_def del: nth.simps)
    with True show ?thesis
      by (simp only: digit_val_nth)
  next
    case False
    have "digit_val (''0123456789'' ! (n mod 10)) = n mod 10"
      by (rule digit_val_nth) simp
    with False 1 have "nat_val (str_nat n) = n div 10 * 10 + n mod 10"
      by (subst str_nat.simps) simp
    then show ?thesis by simp
  qed
qed

lemma str_nat_inj [simp]: "str_nat m = str_nat n \<longleftrightarrow> m = n"
  by (metis nat_val_str_nat)

lemma str_nat_digits: "c \<in> set (str_nat n) \<Longrightarrow> c \<in> set ''0123456789''"
proof (induction n rule: str_nat.induct)
  case (1 n)
  have digit: "d < 10 \<Longrightarrow> ''0123456789'' ! d \<in> set ''0123456789''" for d :: nat
    by (rule nth_mem) simp
  show ?case
  proof (cases "n < 10")
    case True
    with 1(2) have "c = ''0123456789'' ! n"
      by (subst (asm) str_nat.simps) (simp del: nth.simps)
    with True digit show ?thesis by blast
  next
    case False
    with 1(2) have "c \<in> set (str_nat (n div 10)) \<or> c = ''0123456789'' ! (n mod 10)"
      by (subst (asm) str_nat.simps) (auto simp del: nth.simps)
    moreover have "''0123456789'' ! (n mod 10) \<in> set ''0123456789''"
      by (rule digit) simp
    ultimately show ?thesis using False 1(1) by blast
  qed
qed

lemma str_nat_not_Nil [simp]: "str_nat n \<noteq> []"
  by (subst str_nat.simps) simp

lemma str_int_inj [simp]: "str_int i = str_int j \<longleftrightarrow> i = j"
proof
  assume eq: "str_int i = str_int j"
  have minus: "CHR ''-'' # cs \<noteq> str_nat n" for cs n
    using str_nat_digits [of "CHR ''-''" n] by (auto simp: eq_commute)
  show "i = j"
    using eq minus [of _ "nat j"] minus [of _ "nat i", THEN not_sym]
    by (auto simp: str_int_def split: if_splits)
qed simp

subsection \<open>Strings\<close>

text \<open>\<open>sep.join(parts)\<close>.\<close>

fun join_str :: "string \<Rightarrow> string list \<Rightarrow> string" where
  "join_str sep [] = []"
| "join_str sep [x] = x"
| "join_str sep (x # y # zs) = x @ sep @ join_str sep (y # zs)"

definition ends_with :: "string \<Rightarrow> string \<Rightarrow> bool" where
  "ends_with s t = suffix t s"

definition starts_with :: "string \<Rightarrow> string \<Rightarrow> bool" where
  "starts_with s t = prefix t s"

definition is_space :: "char \<Rightarrow> bool" where
  "is_space c = (c \<in> set [CHR '' '', CHR 0x09, CHR 0x0A, CHR 0x0B, CHR 0x0C, CHR 0x0D])"

text \<open>\<open>s.strip()\<close>, \<open>s.lstrip()\<close> and \<open>s.rstrip()\<close> on ASCII white space.\<close>

definition lstrip :: "string \<Rightarrow> string" where
  "lstrip s = dropWhile is_space s"

definition rstrip :: "string \<Rightarrow> string" where
  "rstrip s = rev (dropWhile is_space (rev s))"

definition strip :: "string \<Rightarrow> string" where
  "strip s = rstrip (lstrip s)"

text \<open>\<open>needle in haystack\<close>.\<close>

fun contains_str :: "string \<Rightarrow> string \<Rightarrow> bool" where
  "contains_str needle [] = (needle = [])"
| "contains_str needle (c # cs) = (prefix needle (c # cs) \<or> contains_str needle cs)"

lemma contains_str_sublist: "contains_str needle hay \<longleftrightarrow> sublist needle hay"
  by (induction hay) (auto simp: sublist_Cons_right)

definition lower_char :: "char \<Rightarrow> char" where
  "lower_char c = (let n = (of_char c :: nat) in if 65 \<le> n \<and> n \<le> 90 then char_of (n + 32) else c)"

text \<open>\<open>s.lower()\<close> on ASCII text.\<close>

definition lower_str :: "string \<Rightarrow> string" where
  "lower_str s = map lower_char s"

lemma append_prefix_cancel: "a @ [c] @ b = a' @ [c] @ b' \<Longrightarrow> c \<notin> set a \<Longrightarrow> c \<notin> set a' \<Longrightarrow> a = a' \<and> b = b'"
proof (induction a arbitrary: a')
  case Nil
  then show ?case by (cases a') auto
next
  case (Cons x a)
  then show ?case by (cases a') auto
qed

lemma append_suffix_cancel:
  assumes eq: "a @ [c] @ b = a' @ [c] @ b'" and b: "c \<notin> set b" and b': "c \<notin> set b'"
  shows "a = a' \<and> b = b'"
proof -
  have "rev b @ [c] @ rev a = rev b' @ [c] @ rev a'"
    using arg_cong [OF eq, of rev] by simp
  from append_prefix_cancel [OF this] b b' show ?thesis by simp
qed

subsection \<open>Python dictionaries\<close>

text \<open>A dict keeps the insertion order of its keys: writing an existing key keeps its place,
  writing a new key appends it.\<close>

type_synonym ('k, 'v) pydict = "('k \<times> 'v) list"

fun dict_get :: "('k, 'v) pydict \<Rightarrow> 'k \<Rightarrow> 'v option" where
  "dict_get [] k = None"
| "dict_get ((k', v) # d) k = (if k' = k then Some v else dict_get d k)"

fun dict_set :: "('k, 'v) pydict \<Rightarrow> 'k \<Rightarrow> 'v \<Rightarrow> ('k, 'v) pydict" where
  "dict_set [] k v = [(k, v)]"
| "dict_set ((k', v') # d) k v = (if k' = k then (k', v) # d else (k', v') # dict_set d k v)"

definition dict_pop :: "('k, 'v) pydict \<Rightarrow> 'k \<Rightarrow> ('k, 'v) pydict" where
  "dict_pop d k = filter (\<lambda>kv. fst kv \<noteq> k) d"

text \<open>\<open>d.update(e)\<close>: the entries of \<open>e\<close> written one after the other.\<close>

definition dict_update :: "('k, 'v) pydict \<Rightarrow> ('k, 'v) pydict \<Rightarrow> ('k, 'v) pydict" where
  "dict_update d e = foldl (\<lambda>a kv. dict_set a (fst kv) (snd kv)) d e"

lemma dict_get_set [simp]: "dict_get (dict_set d k v) k' = (if k = k' then Some v else dict_get d k')"
  by (induction d) auto

lemma dict_get_map_of: "dict_get d k = map_of d k"
  by (induction d) auto

lemma dict_get_pop [simp]: "dict_get (dict_pop d k) k' = (if k = k' then None else dict_get d k')"
  unfolding dict_pop_def by (induction d) auto

lemma dict_keys_set: "fst ` set (dict_set d k v) = insert k (fst ` set d)"
proof (induction d)
  case (Cons kv d)
  then show ?case by (cases kv) (simp add: insert_commute insert_absorb2)
qed simp

lemma dict_set_distinct [simp]: "distinct (map fst d) \<Longrightarrow> distinct (map fst (dict_set d k v))"
proof (induction d)
  case (Cons kv d)
  then show ?case
    by (cases kv) (auto simp: dict_keys_set)
qed simp

lemma dict_get_SomeD: "dict_get d k = Some v \<Longrightarrow> (k, v) \<in> set d"
  by (simp add: dict_get_map_of map_of_SomeD)

lemma dict_get_distinct: "distinct (map fst d) \<Longrightarrow> (k, v) \<in> set d \<Longrightarrow> dict_get d k = Some v"
  by (simp add: dict_get_map_of)

lemma dict_get_None_iff: "dict_get d k = None \<longleftrightarrow> k \<notin> fst ` set d"
  by (simp add: dict_get_map_of map_of_eq_None_iff)

lemma dict_get_update:
  "dict_get (dict_update d e) k = (case dict_get (rev e) k of None \<Rightarrow> dict_get d k | Some v \<Rightarrow> Some v)"
proof (induction e arbitrary: d rule: rev_induct)
  case (snoc kv e)
  then show ?case by (cases kv) (simp add: dict_update_def)
qed (simp add: dict_update_def)

subsection \<open>Lists and options\<close>

text \<open>\<open>result.scalar_one_or_none()\<close> of a query: no row, one row, or more than one.\<close>

definition at_most_one :: "'a list \<Rightarrow> bool" where
  "at_most_one xs = (case xs of [] \<Rightarrow> True | [_] \<Rightarrow> True | _ \<Rightarrow> False)"

lemma at_most_one_filter:
  "(\<And>x y. x \<in> set xs \<Longrightarrow> y \<in> set xs \<Longrightarrow> P x \<Longrightarrow> P y \<Longrightarrow> x = y) \<Longrightarrow> distinct xs \<Longrightarrow> at_most_one (filter P xs)"
proof (induction xs)
  case (Cons a xs)
  show ?case
  proof (cases "P a")
    case True
    have "filter P xs = []"
    proof (rule ccontr)
      assume "filter P xs \<noteq> []"
      then obtain x where "x \<in> set xs" "P x" by (auto simp: filter_empty_conv)
      with True Cons.prems show False by (metis distinct.simps(2) list.set_intros)
    qed
    with True show ?thesis by (simp add: at_most_one_def)
  next
    case False
    with Cons show ?thesis by simp
  qed
qed (simp add: at_most_one_def)

lemma find_append: "find P (xs @ ys) = (case find P xs of None \<Rightarrow> find P ys | Some x \<Rightarrow> Some x)"
  by (induction xs) auto

lemma find_SomeD: "find P xs = Some x \<Longrightarrow> x \<in> set xs \<and> P x"
  by (induction xs) (auto split: if_splits)

lemma find_map_preserve:
  "(\<And>x. P (f x) = P x) \<Longrightarrow> find P (map f xs) = map_option f (find P xs)"
  by (induction xs) auto

lemma filter_map_preserve:
  "(\<And>x. P (f x) = P x) \<Longrightarrow> filter P (map f xs) = map f (filter P xs)"
  by (induction xs) auto

end
