(* ===== verification/Effects.thy ===== *)
theory Effects
  imports Prelude
begin

text \<open>
  JSON values as Python holds them, the domain errors of \<open>app/core/exceptions.py\<close> and
  \<open>app/knowledge/exceptions.py\<close>, and the effect type every stateful operation of the development
  has: a function from the state to a result (an error or a value) and the state it leaves. An
  exception keeps what was written before it: undoing it is the business of the transaction.
\<close>

subsection \<open>JSON\<close>

datatype json =
    JNull
  | JBool bool
  | JInt int
  | JFloat real
  | JStr string
  | JList "json list"
  | JObj "(string \<times> json) list"

text \<open>\<open>bool(x)\<close>.\<close>

fun truthy :: "json \<Rightarrow> bool" where
  "truthy JNull = False"
| "truthy (JBool b) = b"
| "truthy (JInt i) = (i \<noteq> 0)"
| "truthy (JFloat r) = (r \<noteq> 0)"
| "truthy (JStr s) = (s \<noteq> [])"
| "truthy (JList xs) = (xs \<noteq> [])"
| "truthy (JObj kvs) = (kvs \<noteq> [])"

text \<open>\<open>d.get(key)\<close> for a JSON object; every other value has no such key.\<close>

fun jget :: "json \<Rightarrow> string \<Rightarrow> json option" where
  "jget (JObj kvs) k = dict_get kvs k"
| "jget _ k = None"

text \<open>\<open>str(x)\<close>; how Python renders floats, lists and dicts is the parameter \<open>other\<close>.\<close>

fun py_str :: "(json \<Rightarrow> string) \<Rightarrow> json \<Rightarrow> string" where
  "py_str other JNull = ''None''"
| "py_str other (JBool b) = (if b then ''True'' else ''False'')"
| "py_str other (JInt i) = str_int i"
| "py_str other (JStr s) = s"
| "py_str other j = other j"

fun is_JObj :: "json \<Rightarrow> bool" where
  "is_JObj (JObj _) = True"
| "is_JObj _ = False"

fun opt_str :: "string option \<Rightarrow> json" where
  "opt_str None = JNull"
| "opt_str (Some s) = JStr s"

text \<open>The truth value of an optional string, as in \<open>if not user_id\<close>.\<close>

fun truthy_str :: "string option \<Rightarrow> bool" where
  "truthy_str None = False"
| "truthy_str (Some s) = (s \<noteq> [])"

text \<open>\<open>a or b\<close> on optional strings.\<close>

definition or_str :: "string option \<Rightarrow> string option \<Rightarrow> string option" where
  "or_str a b = (if truthy_str a then a else b)"

subsection \<open>Errors\<close>

text \<open>The exception classes of the platform; \<open>PyException\<close> is any other Python exception, by the
  name of its class.\<close>

datatype error_class =
    AgnoRuntimeError
  | QuotaExceededError
  | NotFoundError
  | ConflictError
  | ValidationFailedError
  | CapabilityResolutionError
  | MCPGatewayError
  | RuntimeExecutionError
  | KnowledgeServiceError
  | KnowledgeConfigError
  | KnowledgeTimeoutError
  | KnowledgeUnavailableError
  | PyException string

datatype app_error = AppError (err_class: error_class) (err_message: string) (err_details: "(string \<times> json) list")

definition mk_error :: "error_class \<Rightarrow> string \<Rightarrow> app_error" where
  "mk_error c m = AppError c m []"

lemma mk_error_sel [simp]:
  "err_class (mk_error c m) = c" "err_message (mk_error c m) = m" "err_details (mk_error c m) = []"
  by (simp_all add: mk_error_def)

lemma mk_error_eq [simp]: "mk_error c m = mk_error c' m' \<longleftrightarrow> c = c' \<and> m = m'"
  by (simp add: mk_error_def)

fun http_status :: "error_class \<Rightarrow> nat" where
  "http_status AgnoRuntimeError = 500"
| "http_status QuotaExceededError = 429"
| "http_status NotFoundError = 404"
| "http_status ConflictError = 409"
| "http_status ValidationFailedError = 422"
| "http_status CapabilityResolutionError = 422"
| "http_status MCPGatewayError = 502"
| "http_status RuntimeExecutionError = 500"
| "http_status KnowledgeServiceError = 502"
| "http_status KnowledgeConfigError = 422"
| "http_status KnowledgeTimeoutError = 504"
| "http_status KnowledgeUnavailableError = 502"
| "http_status (PyException _) = 500"

fun error_code :: "error_class \<Rightarrow> string" where
  "error_code AgnoRuntimeError = ''internal_error''"
| "error_code QuotaExceededError = ''quota_exceeded''"
| "error_code NotFoundError = ''not_found''"
| "error_code ConflictError = ''conflict''"
| "error_code ValidationFailedError = ''validation_failed''"
| "error_code CapabilityResolutionError = ''capability_resolution_failed''"
| "error_code MCPGatewayError = ''mcp_gateway_error''"
| "error_code RuntimeExecutionError = ''runtime_execution_failed''"
| "error_code KnowledgeServiceError = ''knowledge_service_error''"
| "error_code KnowledgeConfigError = ''knowledge_config_error''"
| "error_code KnowledgeTimeoutError = ''knowledge_timeout''"
| "error_code KnowledgeUnavailableError = ''knowledge_unavailable''"
| "error_code (PyException _) = ''''"

text \<open>\<open>isinstance(exc, AgnoRuntimeError)\<close> and \<open>isinstance(exc, KnowledgeServiceError)\<close>.\<close>

fun is_domain_error :: "app_error \<Rightarrow> bool" where
  "is_domain_error (AppError (PyException _) _ _) = False"
| "is_domain_error (AppError _ _ _) = True"

definition is_knowledge_error :: "app_error \<Rightarrow> bool" where
  "is_knowledge_error e = (err_class e \<in>
     {KnowledgeServiceError, KnowledgeConfigError, KnowledgeTimeoutError, KnowledgeUnavailableError})"

text \<open>What the exception handler of \<open>app/main.py\<close> answers; an exception that is not a domain error
  is not handled there and becomes the framework's 500.\<close>

definition agno_runtime_error_handler :: "app_error \<Rightarrow> string option \<Rightarrow> (nat \<times> json) option" where
  "agno_runtime_error_handler e correlation_id =
     (if is_domain_error e
      then Some (http_status (err_class e),
                 JObj [(''error_code'', JStr (error_code (err_class e))),
                       (''message'', JStr (err_message e)),
                       (''details'', JObj (err_details e)),
                       (''correlation_id'', opt_str correlation_id)])
      else None)"

subsection \<open>Effectful operations\<close>

type_synonym ('s, 'a) prog = "'s \<Rightarrow> (app_error + 'a) \<times> 's"

definition mret :: "'a \<Rightarrow> ('s, 'a) prog" where
  "mret x = (\<lambda>s. (Inr x, s))"

definition mraise :: "app_error \<Rightarrow> ('s, 'a) prog" where
  "mraise e = (\<lambda>s. (Inl e, s))"

definition mbind :: "('s, 'a) prog \<Rightarrow> ('a \<Rightarrow> ('s, 'b) prog) \<Rightarrow> ('s, 'b) prog" where
  "mbind m k = (\<lambda>s. case m s of (Inl e, s') \<Rightarrow> (Inl e, s') | (Inr x, s') \<Rightarrow> k x s')"

text \<open>\<open>try: m except Exception as exc: h exc\<close>.\<close>

definition mcatch :: "('s, 'a) prog \<Rightarrow> (app_error \<Rightarrow> ('s, 'a) prog) \<Rightarrow> ('s, 'a) prog" where
  "mcatch m h = (\<lambda>s. case m s of (Inl e, s') \<Rightarrow> h e s' | (Inr x, s') \<Rightarrow> (Inr x, s'))"

definition mget :: "('s \<Rightarrow> 'a) \<Rightarrow> ('s, 'a) prog" where
  "mget f = (\<lambda>s. (Inr (f s), s))"

definition mmod :: "('s \<Rightarrow> 's) \<Rightarrow> ('s, unit) prog" where
  "mmod f = (\<lambda>s. (Inr (), f s))"

text \<open>A computation without effects that may fail, run on a projection of the state.\<close>

definition mlift :: "('s \<Rightarrow> app_error + 'a) \<Rightarrow> ('s, 'a) prog" where
  "mlift f = (\<lambda>s. (f s, s))"

definition mwhen :: "bool \<Rightarrow> ('s, unit) prog \<Rightarrow> ('s, unit) prog" where
  "mwhen b m = (if b then m else mret ())"

text \<open>\<open>for x in xs: f x\<close>, and the comprehension collecting the results.\<close>

fun mfor :: "'a list \<Rightarrow> ('a \<Rightarrow> ('s, unit) prog) \<Rightarrow> ('s, unit) prog" where
  "mfor [] f = mret ()"
| "mfor (x # xs) f = mbind (f x) (\<lambda>_. mfor xs f)"

fun mmap :: "('a \<Rightarrow> ('s, 'b) prog) \<Rightarrow> 'a list \<Rightarrow> ('s, 'b list) prog" where
  "mmap f [] = mret []"
| "mmap f (x # xs) = mbind (f x) (\<lambda>y. mbind (mmap f xs) (\<lambda>ys. mret (y # ys)))"

lemma run_basic [simp, run_simps]:
  "mret x s = (Inr x, s)"
  "mraise e s = (Inl e, s)"
  "mget f s = (Inr (f s), s)"
  "mmod g s = (Inr (), g s)"
  "mlift h s = (h s, s)"
  by (simp_all add: mret_def mraise_def mget_def mmod_def mlift_def)

lemma run_bind_basic [simp, run_simps]:
  "mbind (mret x) k = k x"
  "mbind (mraise e) k' = mraise e"
  "mbind (mget f) k2 s = k2 (f s) s"
  "mbind (mmod g) k3 s = k3 () (g s)"
  "mbind (mlift h) k4 s = (case h s of Inl e \<Rightarrow> (Inl e, s) | Inr y \<Rightarrow> k4 y s)"
  by (auto simp: mbind_def fun_eq_iff split: sum.splits)

lemma run_bind_Inr [run_simps]: "m s = (Inr x, s') \<Longrightarrow> mbind m k s = k x s'"
  by (simp add: mbind_def)

lemma run_bind_Inl [run_simps]: "m s = (Inl e, s') \<Longrightarrow> mbind m k s = (Inl e, s')"
  by (simp add: mbind_def)

lemma run_catch_Inr [run_simps]: "m s = (Inr x, s') \<Longrightarrow> mcatch m h s = (Inr x, s')"
  by (simp add: mcatch_def)

lemma run_catch_Inl [run_simps]: "m s = (Inl e, s') \<Longrightarrow> mcatch m h s = h e s'"
  by (simp add: mcatch_def)

lemma mbind_assoc: "mbind (mbind m f) g = mbind m (\<lambda>x. mbind (f x) g)"
  by (auto simp: mbind_def fun_eq_iff split: sum.splits prod.splits)

lemma mbind_ret_right [simp]: "mbind m mret = m"
  by (auto simp: mbind_def mret_def fun_eq_iff split: sum.splits prod.splits)

lemma run_when [simp, run_simps]: "mwhen True m = m" "mwhen False m = mret ()"
  by (simp_all add: mwhen_def)

text \<open>The same sequencing for computations that only read.\<close>

definition rbind :: "'e + 'a \<Rightarrow> ('a \<Rightarrow> 'e + 'b) \<Rightarrow> 'e + 'b" where
  "rbind m k = (case m of Inl e \<Rightarrow> Inl e | Inr x \<Rightarrow> k x)"

fun rmap :: "('a \<Rightarrow> 'e + 'b) \<Rightarrow> 'a list \<Rightarrow> 'e + 'b list" where
  "rmap f [] = Inr []"
| "rmap f (x # xs) = rbind (f x) (\<lambda>y. rbind (rmap f xs) (\<lambda>ys. Inr (y # ys)))"

lemma rbind_simps [simp]: "rbind (Inl e) k = Inl e" "rbind (Inr x) k = k x"
  by (simp_all add: rbind_def)

lemma rbind_eq_Inr: "rbind m k = Inr y \<longleftrightarrow> (\<exists>x. m = Inr x \<and> k x = Inr y)"
  by (cases m) simp_all

lemma rbind_eq_Inl: "rbind m k = Inl e \<longleftrightarrow> m = Inl e \<or> (\<exists>x. m = Inr x \<and> k x = Inl e)"
  by (cases m) simp_all

lemma rmap_eq_Inr: "rmap f xs = Inr ys \<longleftrightarrow> list_all2 (\<lambda>x y. f x = Inr y) xs ys"
proof (induction xs arbitrary: ys)
  case (Cons x xs)
  then show ?case by (cases ys) (auto simp: rbind_eq_Inr list_all2_Cons1)
qed auto

lemma rmap_member: "rmap f xs = Inr ys \<Longrightarrow> y \<in> set ys \<Longrightarrow> \<exists>x \<in> set xs. f x = Inr y"
proof (induction xs arbitrary: ys)
  case (Cons x xs)
  then show ?case by (auto simp: rbind_eq_Inr)
qed simp

lemma rmap_length: "rmap f xs = Inr ys \<Longrightarrow> length ys = length xs"
  by (simp add: rmap_eq_Inr list_all2_lengthD)

subsection \<open>Weakest preconditions\<close>

text \<open>\<open>wp m P E s\<close>: run from \<open>s\<close>, the operation either returns a value and a state satisfying
  \<open>P\<close> or raises an error and leaves a state satisfying \<open>E\<close>.\<close>

definition wp :: "('s, 'a) prog \<Rightarrow> ('a \<Rightarrow> 's \<Rightarrow> bool) \<Rightarrow> (app_error \<Rightarrow> 's \<Rightarrow> bool) \<Rightarrow> 's \<Rightarrow> bool" where
  "wp m P E s = (case m s of (Inl e, s') \<Rightarrow> E e s' | (Inr x, s') \<Rightarrow> P x s')"

named_theorems wp_simps "weakest preconditions of the operations"

lemma wp_basic [wp_simps]:
  "wp (mret x) P E s = P x s"
  "wp (mraise e) P E s = E e s"
  "wp (mget f) P E s = P (f s) s"
  "wp (mlift h) P E s = (case h s of Inl e \<Rightarrow> E e s | Inr x \<Rightarrow> P x s)"
  by (auto simp: wp_def split: sum.splits)

lemma wp_mod [wp_simps]: "wp (mmod g) P E s = P () (g s)"
  by (simp add: wp_def)

lemma wp_bind [wp_simps]: "wp (mbind m k) P E s = wp m (\<lambda>x. wp (k x) P E) E s"
  by (auto simp: wp_def mbind_def split: sum.splits prod.splits)

lemma wp_catch [wp_simps]: "wp (mcatch m h) P E s = wp m P (\<lambda>e. wp (h e) P E) s"
  by (auto simp: wp_def mcatch_def split: sum.splits prod.splits)

lemma wp_when [wp_simps]: "wp (mwhen b m) P E s = (if b then wp m P E s else P () s)"
  by (simp add: mwhen_def wp_simps)

lemma wp_mono:
  "wp m P E s \<Longrightarrow> (\<And>x s'. P x s' \<Longrightarrow> P' x s') \<Longrightarrow> (\<And>e s'. E e s' \<Longrightarrow> E' e s') \<Longrightarrow> wp m P' E' s"
  by (auto simp: wp_def split: sum.splits prod.splits)

lemma wp_run: "wp m (\<lambda>x s'. m s = (Inr x, s')) (\<lambda>e s'. m s = (Inl e, s')) s"
  by (auto simp: wp_def split: sum.splits prod.splits)

text \<open>An operation keeps a predicate of the state when it holds afterwards on both outcomes.\<close>

definition keeps :: "('s, 'a) prog \<Rightarrow> ('s \<Rightarrow> bool) \<Rightarrow> bool" where
  "keeps m I = (\<forall>s. I s \<longrightarrow> wp m (\<lambda>_. I) (\<lambda>_. I) s)"

lemma keepsI [intro?]: "(\<And>s. I s \<Longrightarrow> wp m (\<lambda>_. I) (\<lambda>_. I) s) \<Longrightarrow> keeps m I"
  by (simp add: keeps_def)

lemma keepsD: "keeps m I \<Longrightarrow> m s = (r, s') \<Longrightarrow> I s \<Longrightarrow> I s'"
  by (cases r) (auto simp: keeps_def wp_def dest!: spec [of _ s])

lemma keeps_ret [inv_intros]: "keeps (mret x) I"
  by (simp add: keeps_def wp_simps)

lemma keeps_raise [inv_intros]: "keeps (mraise e) I"
  by (simp add: keeps_def wp_simps)

lemma keeps_get [inv_intros]: "keeps (mget f) I"
  by (simp add: keeps_def wp_simps)

lemma keeps_lift [inv_intros]: "keeps (mlift f) I"
  by (simp add: keeps_def wp_simps split: sum.splits)

lemma keeps_mod: "(\<And>s. I s \<Longrightarrow> I (g s)) \<Longrightarrow> keeps (mmod g) I"
  by (simp add: keeps_def wp_simps)

lemma keeps_bind [inv_intros]: "keeps m I \<Longrightarrow> (\<And>x. keeps (k x) I) \<Longrightarrow> keeps (mbind m k) I"
  unfolding keeps_def wp_bind by (blast intro: wp_mono)

lemma keeps_catch [inv_intros]: "keeps m I \<Longrightarrow> (\<And>e. keeps (h e) I) \<Longrightarrow> keeps (mcatch m h) I"
  unfolding keeps_def wp_catch by (blast intro: wp_mono)

lemma keeps_when [inv_intros]: "keeps m I \<Longrightarrow> keeps (mwhen b m) I"
  by (simp add: mwhen_def keeps_ret)

lemma keeps_for [inv_intros]: "(\<And>x. x \<in> set xs \<Longrightarrow> keeps (f x) I) \<Longrightarrow> keeps (mfor xs f) I"
  by (induction xs) (auto intro: inv_intros)

lemma keeps_map [inv_intros]: "(\<And>x. keeps (f x) I) \<Longrightarrow> keeps (mmap f xs) I"
  by (induction xs) (auto intro: inv_intros)

lemma mmap_pure: "(\<And>x. x \<in> set xs \<Longrightarrow> f x s = (Inr (g x), s)) \<Longrightarrow> mmap f xs s = (Inr (map g xs), s)"
  by (induction xs) (auto simp: mbind_def)

end
