(* ===== verification/Models.thy ===== *)
theory Models
  imports Effects
begin

text \<open>
  The tables of \<open>app/models\<close>. The mixins of \<open>app/db/base.py\<close> are record extensions: \<open>row\<close> is the
  UUID primary key with the creation stamp, \<open>soft_row\<close> adds the soft-delete stamp, \<open>coded_row\<close> the
  human-readable code; a table's row type extends the mixins its class inherits. Columns read by no
  modelled operation (\<open>updated_at\<close>, relationships, which SQLAlchemy fills from the foreign keys) are
  left out. The database is the record \<open>db\<close>, one list of rows per table in insertion order.
\<close>

subsection \<open>Mixins\<close>

record row =
  row_id :: uuid
  created_at :: time

record soft_row = row +
  deleted_at :: "time option"

record coded_row = soft_row +
  code :: string

subsection \<open>Hierarchy: AgentOS, Team, Agent, their capabilities and skills\<close>

record agent_os = coded_row +
  os_name :: string
  os_description :: "string option"
  default_model_id :: "uuid option"
  shared_prompt_id :: "uuid option"
  os_enabled :: bool

record team = coded_row +
  tm_agent_os_id :: uuid
  tm_name :: string
  tm_description :: "string option"
  team_prompt_id :: "uuid option"
  tm_enabled :: bool

record agent = coded_row +
  ag_team_id :: uuid
  ag_name :: string
  ag_description :: "string option"
  ag_prompt_id :: "uuid option"
  ag_model_id :: "uuid option"
  ag_temperature :: "real option"
  ag_enabled :: bool

record agent_os_capability = row +
  oc_agent_os_id :: uuid
  oc_capability_code :: string

record team_capability = row +
  tc_team_id :: uuid
  tc_capability_code :: string

record agent_capability = row +
  ac_agent_id :: uuid
  ac_capability_code :: string

datatype skill_type = SkMcp | SkWorkflow | SkPrompt | SkCustom | SkKnowledge | SkUi

record skill = coded_row +
  sk_name :: string
  sk_description :: "string option"
  sk_instructions :: "string option"
  sk_type :: skill_type
  sk_config :: "json option"

record skill_capability = row +
  sc_skill_id :: uuid
  sc_capability_code :: string

record agent_skill = row +
  as_agent_id :: uuid
  as_skill_id :: uuid

subsection \<open>Prompts and models\<close>

datatype prompt_status = PromptDraft | PromptActive | PromptArchived

record prompt = coded_row +
  pr_name :: string
  pr_content :: string
  pr_version :: int
  pr_status :: prompt_status

record model_registry = soft_row +
  mr_provider :: string
  mr_model :: string
  mr_temperature :: real
  mr_max_tokens :: int
  mr_enabled :: bool
  cost_per_1k_input_tokens :: "real option"
  cost_per_1k_output_tokens :: "real option"
  mr_base_url :: "string option"
  mr_api_key :: "string option"
  mr_extra_client_params :: "(string \<times> json) list option"

subsection \<open>Sessions, runs and events\<close>

datatype message_role = RoleUser | RoleAssistant | RoleSystem | RoleTool

record chat_session = soft_row +
  cs_agent_os_id :: uuid
  cs_team_id :: "uuid option"
  cs_agent_id :: "uuid option"
  cs_user_id :: "string option"
  cs_title :: "string option"
  cs_context :: "json option"

record chat_message = row +
  cm_session_id :: uuid
  cm_run_id :: "uuid option"
  cm_role :: message_role
  cm_content :: string
  cm_metadata :: "json option"

datatype run_status =
    RunPending | RunRunning | RunToolCalling | RunWaiting | RunCompleted | RunFailed | RunCancelled

datatype event_type =
    EvAgentStarted | EvReasoningStarted | EvToolSelected | EvToolCallStarted | EvToolCallCompleted
  | EvAgentResponse | EvAgentCompleted | EvMemoryUpdateStarted | EvMemoryUpdateCompleted | EvError
  | EvRunCancelled

record agent_run = row +
  ar_session_id :: uuid
  ar_agent_id :: "uuid option"
  ar_status :: run_status
  ar_input :: string
  ar_output :: "string option"
  ar_error_message :: "string option"
  ar_started_at :: "time option"
  ar_finished_at :: "time option"

record agent_event = row +
  ae_run_id :: uuid
  ae_event_type :: event_type
  ae_payload :: "json option"

subsection \<open>Quota\<close>

datatype quota_scope_type = ScopeGlobal | ScopeGroup | ScopeUser

datatype quota_period = Daily | Monthly | FixedWindow

datatype quota_metric = MRequests | MTokens | MCostUsd

record quota_policy = soft_row +
  qp_scope_type :: quota_scope_type
  qp_scope_value :: string
  qp_model_id :: "uuid option"
  qp_metric :: quota_metric
  qp_period :: quota_period
  qp_window_seconds :: "int option"
  qp_limit_value :: int
  qp_priority :: int
  qp_enabled :: bool

record quota_usage_event = row +
  qu_run_id :: "uuid option"
  qu_user_id :: string
  qu_groups :: "string list"
  qu_model_id :: "uuid option"
  qu_input_tokens :: int
  qu_output_tokens :: int
  qu_cost_usd :: "real option"

subsection \<open>Memory\<close>

datatype memory_type = MemConversation | MemSummary | MemFact | MemPreference | MemWorking

record agent_memory = row +
  am_agent_id :: uuid
  am_user_id :: "string option"
  am_memory_type :: memory_type
  am_content :: string
  am_source_memory_id :: "string option"

subsection \<open>Workflows\<close>

datatype workflow_step_type = StepAgent | StepTeam

record workflow = coded_row +
  wf_agent_os_id :: uuid
  wf_name :: string
  wf_description :: "string option"
  wf_team_id :: "uuid option"
  wf_enabled :: bool
  wf_metadata :: "json option"
  wf_created_by :: "string option"

record workflow_step = row +
  ws_workflow_id :: uuid
  ws_step_order :: int
  ws_step_type :: workflow_step_type
  ws_agent_id :: "uuid option"
  ws_team_id :: "uuid option"
  ws_step_config :: "json option"

datatype workflow_run_status = WfPending | WfRunning | WfCompleted | WfFailed

datatype workflow_step_status = StPending | StRunning | StCompleted | StFailed

datatype workflow_event_type =
    WorkflowStarted | WorkflowStepStarted | WorkflowStepCompleted | WorkflowCompleted | WorkflowFailed

record workflow_run = row +
  wr_workflow_id :: uuid
  wr_session_id :: uuid
  wr_status :: workflow_run_status
  wr_input :: string
  wr_result :: "string option"
  wr_error_message :: "string option"
  wr_started_at :: "time option"
  wr_completed_at :: "time option"
  wr_created_by :: "string option"

record workflow_event = row +
  we_workflow_run_id :: uuid
  we_event_type :: workflow_event_type
  we_payload :: "json option"

record workflow_run_step = row +
  wrs_workflow_run_id :: uuid
  wrs_workflow_step_id :: uuid
  wrs_step_order :: int
  wrs_status :: workflow_step_status
  wrs_started_at :: "time option"
  wrs_completed_at :: "time option"
  wrs_input :: "json option"
  wrs_output :: "json option"
  wrs_error_message :: "string option"

datatype schedule_type = SchedCron | SchedInterval

record workflow_schedule = soft_row +
  sd_workflow_id :: uuid
  sd_schedule_type :: schedule_type
  sd_cron_expression :: "string option"
  sd_interval_seconds :: "int option"
  sd_timezone :: string
  sd_input_template :: string
  sd_user_id :: "string option"
  sd_enabled :: bool
  sd_next_run_at :: "time option"
  sd_last_run_at :: "time option"
  sd_last_status :: "string option"
  sd_last_error :: "string option"
  sd_last_workflow_run_id :: "uuid option"

record workflow_webhook = soft_row +
  wh_workflow_id :: uuid
  wh_webhook_token :: string
  wh_secret :: "string option"
  wh_input_field_path :: "string option"
  wh_allowed_source_ips :: "string list option"
  wh_user_id :: "string option"
  wh_enabled :: bool

subsection \<open>Versioned metadata\<close>

record business_object_definition = coded_row +
  bo_name :: string
  bo_description :: "string option"
  bo_version :: int
  bo_payload :: json
  bo_enabled :: bool

datatype ui_metadata_kind =
    UiApplication | UiPage | UiForm | UiDialog | UiGrid | UiBusinessObject | UiField
  | UiValidationRule | UiLookup | UiBusinessRule | UiComponent | UiPermission | UiEvent

record ui_metadata_entry = coded_row +
  ui_kind :: ui_metadata_kind
  ui_name :: string
  ui_description :: "string option"
  ui_version :: int
  ui_parent_code :: "string option"
  ui_payload :: json
  ui_schema_version :: string
  ui_enabled :: bool

subsection \<open>Execution plans\<close>

datatype execution_plan_run_status = EpPending | EpRunning | EpCompleted | EpFailed

datatype execution_step_status = EsPending | EsRunning | EsRetrying | EsCompleted | EsFailed

record execution_plan_run = row +
  ep_session_id :: "uuid option"
  ep_input :: string
  ep_rationale :: "string option"
  ep_status :: execution_plan_run_status
  ep_result :: "string option"
  ep_error_message :: "string option"
  ep_started_at :: "time option"
  ep_completed_at :: "time option"

record execution_plan_step_run = row +
  es_plan_run_id :: uuid
  es_step_order :: int
  es_target_type :: string
  es_target_code :: string
  es_status :: execution_step_status
  es_attempt_count :: int
  es_input :: "string option"
  es_output :: "string option"
  es_error_message :: "string option"
  es_started_at :: "time option"
  es_completed_at :: "time option"

subsection \<open>Attachments, observations and runtime events\<close>

datatype attachment_status = AttUploaded | AttProcessing | AttReady | AttFailed

datatype attachment_kind = KindImage | KindPdf | KindDocx | KindXlsx | KindOther

record attachment = row +
  at_session_id :: "uuid option"
  at_user_id :: "string option"
  at_filename :: string
  at_mime_type :: string
  at_kind :: attachment_kind
  at_size_bytes :: int
  at_storage_bucket :: string
  at_storage_key :: string
  at_status :: attachment_status
  at_extracted_text :: "string option"
  at_extraction_raw :: "json option"
  at_error_message :: "string option"

datatype observation_type =
    ObsKnowledgeRetrieval | ObsSkillOutput | ObsBusinessResponse | ObsUiResult | ObsWarning | ObsError

record runtime_observation = row +
  ob_run_id :: "uuid option"
  ob_workflow_run_id :: "uuid option"
  ob_agent_id :: "uuid option"
  ob_type :: observation_type
  ob_source :: "string option"
  ob_payload :: json
  ob_execution_time_ms :: "real option"

record runtime_event = row +
  re_entity_type :: string
  re_entity_id :: string
  re_event_name :: string
  re_payload :: json
  re_correlation_id :: "string option"

subsection \<open>The database\<close>

record db =
  t_agent_os :: "agent_os list"
  t_teams :: "team list"
  t_agents :: "agent list"
  t_os_caps :: "agent_os_capability list"
  t_team_caps :: "team_capability list"
  t_agent_caps :: "agent_capability list"
  t_skills :: "skill list"
  t_skill_caps :: "skill_capability list"
  t_agent_skills :: "agent_skill list"
  t_prompts :: "prompt list"
  t_models :: "model_registry list"
  t_sessions :: "chat_session list"
  t_messages :: "chat_message list"
  t_runs :: "agent_run list"
  t_events :: "agent_event list"
  t_policies :: "quota_policy list"
  t_usage :: "quota_usage_event list"
  t_memories :: "agent_memory list"
  t_workflows :: "workflow list"
  t_wsteps :: "workflow_step list"
  t_wruns :: "workflow_run list"
  t_wrun_steps :: "workflow_run_step list"
  t_wevents :: "workflow_event list"
  t_schedules :: "workflow_schedule list"
  t_webhooks :: "workflow_webhook list"
  t_business_objects :: "business_object_definition list"
  t_ui_metadata :: "ui_metadata_entry list"
  t_plan_runs :: "execution_plan_run list"
  t_plan_steps :: "execution_plan_step_run list"
  t_attachments :: "attachment list"
  t_observations :: "runtime_observation list"
  t_runtime_events :: "runtime_event list"

definition empty_db :: db where
  "empty_db = \<lparr>t_agent_os = [], t_teams = [], t_agents = [], t_os_caps = [], t_team_caps = [],
     t_agent_caps = [], t_skills = [], t_skill_caps = [], t_agent_skills = [], t_prompts = [],
     t_models = [], t_sessions = [], t_messages = [], t_runs = [], t_events = [], t_policies = [],
     t_usage = [], t_memories = [], t_workflows = [], t_wsteps = [], t_wruns = [],
     t_wrun_steps = [], t_wevents = [], t_schedules = [], t_webhooks = [],
     t_business_objects = [], t_ui_metadata = [], t_plan_runs = [], t_plan_steps = [],
     t_attachments = [], t_observations = [], t_runtime_events = []\<rparr>"

subsection \<open>Enumeration values\<close>

text \<open>The string values of the enumerations that reach messages, payloads and counter keys.\<close>

fun run_status_value :: "run_status \<Rightarrow> string" where
  "run_status_value RunPending = ''pending''"
| "run_status_value RunRunning = ''running''"
| "run_status_value RunToolCalling = ''tool_calling''"
| "run_status_value RunWaiting = ''waiting''"
| "run_status_value RunCompleted = ''completed''"
| "run_status_value RunFailed = ''failed''"
| "run_status_value RunCancelled = ''cancelled''"

fun event_type_value :: "event_type \<Rightarrow> string" where
  "event_type_value EvAgentStarted = ''agent_started''"
| "event_type_value EvReasoningStarted = ''reasoning_started''"
| "event_type_value EvToolSelected = ''tool_selected''"
| "event_type_value EvToolCallStarted = ''tool_call_started''"
| "event_type_value EvToolCallCompleted = ''tool_call_completed''"
| "event_type_value EvAgentResponse = ''agent_response''"
| "event_type_value EvAgentCompleted = ''agent_completed''"
| "event_type_value EvMemoryUpdateStarted = ''memory_update_started''"
| "event_type_value EvMemoryUpdateCompleted = ''memory_update_completed''"
| "event_type_value EvError = ''error''"
| "event_type_value EvRunCancelled = ''run_cancelled''"

text \<open>\<open>EventType(value)\<close>: the member with that value, or a \<open>ValueError\<close>.\<close>

definition all_event_types :: "event_type list" where
  "all_event_types = [EvAgentStarted, EvReasoningStarted, EvToolSelected, EvToolCallStarted,
     EvToolCallCompleted, EvAgentResponse, EvAgentCompleted, EvMemoryUpdateStarted,
     EvMemoryUpdateCompleted, EvError, EvRunCancelled]"

definition event_type_of :: "string \<Rightarrow> event_type option" where
  "event_type_of v = find (\<lambda>t. event_type_value t = v) all_event_types"

lemma event_type_of_value [simp]: "event_type_of (event_type_value t) = Some t"
  by (cases t) (simp_all add: event_type_of_def all_event_types_def)

fun scope_value :: "quota_scope_type \<Rightarrow> string" where
  "scope_value ScopeGlobal = ''GLOBAL''"
| "scope_value ScopeGroup = ''GROUP''"
| "scope_value ScopeUser = ''USER''"

fun period_value :: "quota_period \<Rightarrow> string" where
  "period_value Daily = ''DAILY''"
| "period_value Monthly = ''MONTHLY''"
| "period_value FixedWindow = ''FIXED_WINDOW''"

fun metric_value :: "quota_metric \<Rightarrow> string" where
  "metric_value MRequests = ''REQUESTS''"
| "metric_value MTokens = ''TOKENS''"
| "metric_value MCostUsd = ''COST_USD''"

lemma metric_value_inj [simp]: "metric_value a = metric_value b \<longleftrightarrow> a = b"
  by (cases a; cases b) simp_all

lemma period_value_inj [simp]: "period_value a = period_value b \<longleftrightarrow> a = b"
  by (cases a; cases b) simp_all

lemma scope_value_inj [simp]: "scope_value a = scope_value b \<longleftrightarrow> a = b"
  by (cases a; cases b) simp_all

fun step_type_value :: "workflow_step_type \<Rightarrow> string" where
  "step_type_value StepAgent = ''AGENT''"
| "step_type_value StepTeam = ''TEAM''"

text \<open>A quota scope ranks by how specific it is: USER before GROUP before GLOBAL
  (\<open>scope_rank\<close> of \<open>QuotaService._select_effective_policies\<close>).\<close>

fun scope_rank :: "quota_scope_type \<Rightarrow> nat" where
  "scope_rank ScopeUser = 0"
| "scope_rank ScopeGroup = 1"
| "scope_rank ScopeGlobal = 2"

lemma scope_rank_inj [simp]: "scope_rank a = scope_rank b \<longleftrightarrow> a = b"
  by (cases a; cases b) simp_all

instantiation quota_scope_type :: linorder
begin

definition less_eq_quota_scope_type :: "quota_scope_type \<Rightarrow> quota_scope_type \<Rightarrow> bool" where
  "less_eq_quota_scope_type a b = (scope_rank a \<le> scope_rank b)"

definition less_quota_scope_type :: "quota_scope_type \<Rightarrow> quota_scope_type \<Rightarrow> bool" where
  "less_quota_scope_type a b = (scope_rank a < scope_rank b)"

instance
  by standard (auto simp: less_eq_quota_scope_type_def less_quota_scope_type_def)

end

end
