(* ===== verification/Session.thy ===== *)
theory Session
  imports Models
begin

text \<open>
  The SQLAlchemy session and the generic repository (\<open>app/db/session.py\<close>,
  \<open>app/repositories/base.py\<close>). A session sees the tables as its own transaction left them (\<open>work\<close>);
  other sessions, and this one after a rollback, see what was last committed (\<open>durable\<close>). The request
  also holds the time it runs at, a supply of fresh UUIDs and the state of the Redis server, which is
  outside every transaction.
\<close>

record 'r sess =
  work :: db
  durable :: db
  now :: time
  seed :: nat
  redis :: 'r

subsection \<open>Transactions\<close>

definition commit :: "('r sess, unit) prog" where
  "commit = mmod (\<lambda>s. s\<lparr>durable := work s\<rparr>)"

definition rollback :: "('r sess, unit) prog" where
  "rollback = mmod (\<lambda>s. s\<lparr>work := durable s\<rparr>)"

text \<open>\<open>get_db\<close> around a request handler: commit on a normal end, roll back and re-raise otherwise.\<close>

definition get_db :: "('r sess, 'a) prog \<Rightarrow> ('r sess, 'a) prog" where
  "get_db handler =
     mcatch (mbind handler (\<lambda>x. mbind commit (\<lambda>_. mret x)))
            (\<lambda>e. mbind rollback (\<lambda>_. mraise e))"

text \<open>\<open>session_scope\<close>, the same discipline outside the request cycle.\<close>

definition session_scope :: "('r sess, 'a) prog \<Rightarrow> ('r sess, 'a) prog" where
  "session_scope body =
     mcatch (mbind body (\<lambda>x. mbind commit (\<lambda>_. mret x)))
            (\<lambda>e. mbind rollback (\<lambda>_. mraise e))"

lemma run_commit [simp, run_simps]: "commit s = (Inr (), s\<lparr>durable := work s\<rparr>)"
  by (simp add: commit_def)

lemma run_rollback [simp, run_simps]: "rollback s = (Inr (), s\<lparr>work := durable s\<rparr>)"
  by (simp add: rollback_def)

lemma wp_commit [wp_simps]: "wp commit P E s = P () (s\<lparr>durable := work s\<rparr>)"
  by (simp add: wp_def)

lemma wp_rollback [wp_simps]: "wp rollback P E s = P () (s\<lparr>work := durable s\<rparr>)"
  by (simp add: wp_def)

lemma get_db_Inr: "m s = (Inr x, s') \<Longrightarrow> get_db m s = (Inr x, s'\<lparr>durable := work s'\<rparr>)"
  by (simp add: get_db_def mbind_def mcatch_def)

lemma get_db_Inl: "m s = (Inl e, s') \<Longrightarrow> get_db m s = (Inl e, s'\<lparr>work := durable s'\<rparr>)"
  by (simp add: get_db_def mbind_def mcatch_def)

text \<open>Nothing an operation does between commits survives a failing request.\<close>

lemma get_db_error_durable:
  assumes "get_db m s = (Inl e, s')"
  shows "\<exists>s''. m s = (Inl e, s'') \<and> durable s' = durable s'' \<and> work s' = durable s''"
proof (cases "m s")
  case (Pair r s'')
  with assms show ?thesis
    by (cases r) (auto simp: get_db_Inl get_db_Inr)
qed

subsection \<open>Fresh identifiers\<close>

definition new_uuid :: "nat \<Rightarrow> uuid" where
  "new_uuid n = ''uuid-'' @ str_nat n"

lemma new_uuid_inj [simp]: "new_uuid m = new_uuid n \<longleftrightarrow> m = n"
  by (simp add: new_uuid_def)

lemma new_uuid_not_Nil [simp]: "new_uuid n \<noteq> []"
  by (simp add: new_uuid_def)

definition uuid4 :: "('r sess, uuid) prog" where
  "uuid4 = (\<lambda>s. (Inr (new_uuid (seed s)), s\<lparr>seed := Suc (seed s)\<rparr>))"

lemma run_uuid4 [simp, run_simps]: "uuid4 s = (Inr (new_uuid (seed s)), s\<lparr>seed := Suc (seed s)\<rparr>)"
  by (simp add: uuid4_def)

lemma wp_uuid4 [wp_simps]: "wp uuid4 P E s = P (new_uuid (seed s)) (s\<lparr>seed := Suc (seed s)\<rparr>)"
  by (simp add: wp_def)

text \<open>No row of a table has an identifier that the supply may still hand out.\<close>

definition ids_below :: "nat \<Rightarrow> ('a row_scheme) list \<Rightarrow> bool" where
  "ids_below n rows = (\<forall>r \<in> set rows. \<forall>m \<ge> n. row_id r \<noteq> new_uuid m)"

lemma ids_below_Nil [simp]: "ids_below n []"
  by (simp add: ids_below_def)

lemma ids_below_mono: "ids_below n rows \<Longrightarrow> n \<le> m \<Longrightarrow> ids_below m rows"
  by (auto simp: ids_below_def)

lemma ids_below_snoc:
  "ids_below n rows \<Longrightarrow> row_id r = new_uuid n \<Longrightarrow> ids_below (Suc n) (rows @ [r])"
  by (auto simp: ids_below_def)

lemma ids_below_notin: "ids_below n rows \<Longrightarrow> r \<in> set rows \<Longrightarrow> row_id r \<noteq> new_uuid n"
  by (auto simp: ids_below_def)

subsection \<open>Queries\<close>

text \<open>\<open>result.scalar_one_or_none()\<close>.\<close>

fun scalar_one_or_none :: "'a list \<Rightarrow> app_error + 'a option" where
  "scalar_one_or_none [] = Inr None"
| "scalar_one_or_none [x] = Inr (Some x)"
| "scalar_one_or_none (_ # _ # _) =
     Inl (mk_error (PyException ''MultipleResultsFound'') ''Multiple rows were found when one or none was required'')"

lemma scalar_one_or_none_Some: "scalar_one_or_none xs = Inr (Some x) \<Longrightarrow> x \<in> set xs"
  by (cases xs rule: scalar_one_or_none.cases) auto

lemma scalar_one_or_none_None: "scalar_one_or_none xs = Inr None \<longleftrightarrow> xs = []"
  by (cases xs rule: scalar_one_or_none.cases) auto

lemma scalar_at_most_one: "at_most_one xs \<Longrightarrow> \<exists>r. scalar_one_or_none xs = Inr r"
  by (cases xs rule: scalar_one_or_none.cases) (auto simp: at_most_one_def)

definition live :: "('a soft_row_scheme) \<Rightarrow> bool" where
  "live r = (deleted_at r = None)"

text \<open>\<open>BaseRepository.get\<close>, on tables with and without soft delete.\<close>

definition repo_get :: "uuid \<Rightarrow> ('a soft_row_scheme) list \<Rightarrow> app_error + ('a soft_row_scheme) option" where
  "repo_get i rows = scalar_one_or_none (filter (\<lambda>r. row_id r = i \<and> live r) rows)"

definition repo_get_any :: "uuid \<Rightarrow> ('a row_scheme) list \<Rightarrow> app_error + ('a row_scheme) option" where
  "repo_get_any i rows = scalar_one_or_none (filter (\<lambda>r. row_id r = i) rows)"

text \<open>\<open>BaseRepository.get_or_404\<close> of the class called \<open>cls\<close>.\<close>

definition repo_get_or_404 ::
  "string \<Rightarrow> uuid \<Rightarrow> ('a soft_row_scheme) list \<Rightarrow> app_error + ('a soft_row_scheme)" where
  "repo_get_or_404 cls i rows =
     (case repo_get i rows of
        Inl e \<Rightarrow> Inl e
      | Inr None \<Rightarrow> Inl (mk_error NotFoundError (cls @ '' with id='' @ i @ '' not found''))
      | Inr (Some r) \<Rightarrow> Inr r)"

definition repo_get_any_or_404 ::
  "string \<Rightarrow> uuid \<Rightarrow> ('a row_scheme) list \<Rightarrow> app_error + ('a row_scheme)" where
  "repo_get_any_or_404 cls i rows =
     (case repo_get_any i rows of
        Inl e \<Rightarrow> Inl e
      | Inr None \<Rightarrow> Inl (mk_error NotFoundError (cls @ '' with id='' @ i @ '' not found''))
      | Inr (Some r) \<Rightarrow> Inr r)"

text \<open>\<open>BaseRepository.list\<close>: a filter left at None does not restrict, so the caller's filter is a
  list of optional tests; the page and the total number of matches.\<close>

definition matches :: "('b \<Rightarrow> bool) option list \<Rightarrow> 'b \<Rightarrow> bool" where
  "matches fs r = (\<forall>f \<in> set fs. case f of None \<Rightarrow> True | Some p \<Rightarrow> p r)"

definition page :: "nat \<Rightarrow> nat \<Rightarrow> 'a list \<Rightarrow> 'a list" where
  "page offset limit xs = take limit (drop offset xs)"

definition repo_list ::
  "nat \<Rightarrow> nat \<Rightarrow> (('a soft_row_scheme) \<Rightarrow> bool) option list \<Rightarrow> ('a soft_row_scheme) list
     \<Rightarrow> ('a soft_row_scheme) list \<times> nat" where
  "repo_list offset limit fs rows =
     (let hits = filter (\<lambda>r. live r \<and> matches fs r) rows in (page offset limit hits, length hits))"

definition repo_list_any ::
  "nat \<Rightarrow> nat \<Rightarrow> (('a row_scheme) \<Rightarrow> bool) option list \<Rightarrow> ('a row_scheme) list
     \<Rightarrow> ('a row_scheme) list \<times> nat" where
  "repo_list_any offset limit fs rows =
     (let hits = filter (matches fs) rows in (page offset limit hits, length hits))"

text \<open>The pages of a listing: what the routers report as \<open>has_next\<close>, and the number of rows shown.\<close>

definition has_next :: "nat \<Rightarrow> nat \<Rightarrow> nat \<Rightarrow> bool" where
  "has_next offset limit n = (offset + limit < n)"

lemma page_rest: "drop (offset + limit) xs = [] \<longleftrightarrow> \<not> has_next offset limit (length xs)"
  by (auto simp: has_next_def)

lemma pages_partition: "page o1 n xs @ drop (o1 + n) xs = drop o1 xs"
  by (simp add: page_def add.commute flip: drop_drop)

lemma repo_get_member: "repo_get i rows = Inr (Some r) \<Longrightarrow> r \<in> set rows \<and> row_id r = i \<and> live r"
  unfolding repo_get_def by (drule scalar_one_or_none_Some) auto

lemma repo_get_any_member: "repo_get_any i rows = Inr (Some r) \<Longrightarrow> r \<in> set rows \<and> row_id r = i"
  unfolding repo_get_any_def by (drule scalar_one_or_none_Some) auto

subsection \<open>Writes\<close>

definition modify_work :: "(db \<Rightarrow> db) \<Rightarrow> ('r sess, unit) prog" where
  "modify_work f = mmod (\<lambda>s. s\<lparr>work := f (work s)\<rparr>)"

lemma run_modify_work [simp, run_simps]: "modify_work f s = (Inr (), s\<lparr>work := f (work s)\<rparr>)"
  by (simp add: modify_work_def)

lemma wp_modify_work [wp_simps]: "wp (modify_work f) P E s = P () (s\<lparr>work := f (work s)\<rparr>)"
  by (simp add: wp_def)

text \<open>The error the database raises when a unique constraint or the primary key is violated.\<close>

definition integrity_error :: app_error where
  "integrity_error = mk_error (PyException ''IntegrityError'') ''duplicate key value violates unique constraint''"

text \<open>\<open>BaseRepository.create\<close>: the row built from its identifier and creation stamp is added unless
  a row of the table clashes with it; the identifier is a fresh one unless the caller gives it.\<close>

definition repo_create_as ::
  "uuid \<Rightarrow> (db \<Rightarrow> ('a row_scheme) list) \<Rightarrow> ((('a row_scheme) list \<Rightarrow> ('a row_scheme) list) \<Rightarrow> db \<Rightarrow> db)
     \<Rightarrow> (('a row_scheme) \<Rightarrow> ('a row_scheme) \<Rightarrow> bool) \<Rightarrow> (uuid \<Rightarrow> time \<Rightarrow> 'a row_scheme)
     \<Rightarrow> ('r sess, 'a row_scheme) prog" where
  "repo_create_as i tbl upd clash mk = (\<lambda>s.
     let r = mk i (now s)
     in if list_ex (clash r) (tbl (work s)) then (Inl integrity_error, s)
        else (Inr r, s\<lparr>work := upd (\<lambda>rs. rs @ [r]) (work s)\<rparr>))"

definition repo_create ::
  "(db \<Rightarrow> ('a row_scheme) list) \<Rightarrow> ((('a row_scheme) list \<Rightarrow> ('a row_scheme) list) \<Rightarrow> db \<Rightarrow> db)
     \<Rightarrow> (('a row_scheme) \<Rightarrow> ('a row_scheme) \<Rightarrow> bool) \<Rightarrow> (uuid \<Rightarrow> time \<Rightarrow> 'a row_scheme)
     \<Rightarrow> ('r sess, 'a row_scheme) prog" where
  "repo_create tbl upd clash mk = mbind uuid4 (\<lambda>i. repo_create_as i tbl upd clash mk)"

definition no_clash :: "'b \<Rightarrow> 'b \<Rightarrow> bool" where
  "no_clash r x = False"

lemma run_create_no_clash [run_simps]:
  "repo_create tbl upd no_clash mk s =
     (Inr (mk (new_uuid (seed s)) (now s)),
      s\<lparr>seed := Suc (seed s), work := upd (\<lambda>rs. rs @ [mk (new_uuid (seed s)) (now s)]) (work s)\<rparr>)"
  by (simp add: repo_create_def repo_create_as_def no_clash_def mbind_def list_ex_iff Let_def)

text \<open>An attribute written on a loaded object and flushed: the object's row becomes the object
  (\<open>BaseRepository.update\<close> and the services that assign attributes directly).\<close>

definition put_row :: "('a row_scheme) \<Rightarrow> ('a row_scheme) list \<Rightarrow> ('a row_scheme) list" where
  "put_row r rows = map (\<lambda>x. if row_id x = row_id r then r else x) rows"

definition repo_save ::
  "((('a row_scheme) list \<Rightarrow> ('a row_scheme) list) \<Rightarrow> db \<Rightarrow> db) \<Rightarrow> ('a row_scheme)
     \<Rightarrow> ('r sess, 'a row_scheme) prog" where
  "repo_save upd r = mbind (modify_work (upd (put_row r))) (\<lambda>_. mret r)"

lemma run_save [run_simps]: "repo_save upd r s = (Inr r, s\<lparr>work := upd (put_row r) (work s)\<rparr>)"
  by (simp add: repo_save_def run_simps)

lemma wp_save [wp_simps]: "wp (repo_save upd r) P E s = P r (s\<lparr>work := upd (put_row r) (work s)\<rparr>)"
  by (simp add: wp_def run_save)

text \<open>\<open>BaseRepository.update\<close> writes a keyword argument only when it is not None.\<close>

fun set_if :: "'v option \<Rightarrow> ('v \<Rightarrow> 'a \<Rightarrow> 'a) \<Rightarrow> 'a \<Rightarrow> 'a" where
  "set_if None f x = x"
| "set_if (Some v) f x = f v x"

text \<open>\<open>BaseRepository.soft_delete\<close>.\<close>

definition repo_soft_delete ::
  "((('a soft_row_scheme) list \<Rightarrow> ('a soft_row_scheme) list) \<Rightarrow> db \<Rightarrow> db) \<Rightarrow> ('a soft_row_scheme)
     \<Rightarrow> ('r sess, 'a soft_row_scheme) prog" where
  "repo_soft_delete upd r = (\<lambda>s. repo_save upd (r\<lparr>deleted_at := Some (now s)\<rparr>) s)"

text \<open>\<open>BaseRepository.hard_delete\<close>.\<close>

definition repo_hard_delete ::
  "((('a row_scheme) list \<Rightarrow> ('a row_scheme) list) \<Rightarrow> db \<Rightarrow> db) \<Rightarrow> ('a row_scheme) \<Rightarrow> ('r sess, unit) prog" where
  "repo_hard_delete upd r = modify_work (upd (filter (\<lambda>x. row_id x \<noteq> row_id r)))"

subsection \<open>Redis\<close>

text \<open>
  The Redis client calls the program makes, as functions of the server's state; the server is not
  part of the program. A counter is read as the number \<open>float\<close> makes of its text.
\<close>

record 'r redis_ops =
  rds_get :: "string \<Rightarrow> 'r \<Rightarrow> app_error + real option"
  rds_incrbyfloat :: "string \<Rightarrow> real \<Rightarrow> 'r \<Rightarrow> (app_error + unit) \<times> 'r"
  rds_expire :: "string \<Rightarrow> int \<Rightarrow> 'r \<Rightarrow> (app_error + unit) \<times> 'r"
  rds_set :: "string \<Rightarrow> int \<Rightarrow> 'r \<Rightarrow> (app_error + unit) \<times> 'r"
  rds_set_nx :: "string \<Rightarrow> int \<Rightarrow> 'r \<Rightarrow> (app_error + bool) \<times> 'r"
  rds_exists :: "string \<Rightarrow> 'r \<Rightarrow> app_error + bool"
  rds_delete :: "string \<Rightarrow> 'r \<Rightarrow> (app_error + unit) \<times> 'r"

definition on_redis :: "('r \<Rightarrow> (app_error + 'a) \<times> 'r) \<Rightarrow> ('r sess, 'a) prog" where
  "on_redis f = (\<lambda>s. case f (redis s) of (r, rd) \<Rightarrow> (r, s\<lparr>redis := rd\<rparr>))"

text \<open>What the program relies on: the documented behaviour of the commands on a server that answers
  and within the life of the keys.\<close>

definition counter_of :: "'r redis_ops \<Rightarrow> string \<Rightarrow> 'r \<Rightarrow> real" where
  "counter_of ops k r = (case rds_get ops k r of Inr (Some v) \<Rightarrow> v | _ \<Rightarrow> 0)"

definition redis_counters_ok :: "'r redis_ops \<Rightarrow> bool" where
  "redis_counters_ok ops \<longleftrightarrow>
     (\<forall>k r. \<exists>v. rds_get ops k r = Inr v) \<and>
     (\<forall>k d r. fst (rds_incrbyfloat ops k d r) = Inr ()) \<and>
     (\<forall>k t r. fst (rds_expire ops k t r) = Inr ()) \<and>
     (\<forall>k d r k'. counter_of ops k' (snd (rds_incrbyfloat ops k d r))
                  = (if k' = k then counter_of ops k r + d else counter_of ops k' r)) \<and>
     (\<forall>k t r k'. 0 < t \<longrightarrow> counter_of ops k' (snd (rds_expire ops k t r)) = counter_of ops k' r)"

text \<open>A server that satisfies it: a dict of counters and one of flags whose keys do not expire.\<close>

type_synonym mem_redis = "(string, real) pydict"

definition mem_redis_ops :: "mem_redis redis_ops" where
  "mem_redis_ops = \<lparr>
     rds_get = (\<lambda>k r. Inr (dict_get r k)),
     rds_incrbyfloat = (\<lambda>k d r. (Inr (), dict_set r k ((case dict_get r k of None \<Rightarrow> 0 | Some v \<Rightarrow> v) + d))),
     rds_expire = (\<lambda>k t r. (Inr (), if t \<le> 0 then dict_pop r k else r)),
     rds_set = (\<lambda>k t r. (Inr (), dict_set r k 1)),
     rds_set_nx = (\<lambda>k t r. case dict_get r k of None \<Rightarrow> (Inr True, dict_set r k 1) | Some _ \<Rightarrow> (Inr False, r)),
     rds_exists = (\<lambda>k r. Inr (dict_get r k \<noteq> None)),
     rds_delete = (\<lambda>k r. (Inr (), dict_pop r k))\<rparr>"

lemma mem_redis_counters_ok: "redis_counters_ok mem_redis_ops"
  by (auto simp: redis_counters_ok_def counter_of_def mem_redis_ops_def)

subsection \<open>The interface of a table\<close>

text \<open>
  What the services rely on about a table they reach through a repository: creating appends a row,
  saving replaces the rows with the same key, and nothing else changes. The lemmas below are what
  the run tracking, workflow and plan services use of it.
\<close>

locale table =
  fixes rows :: "db \<Rightarrow> ('a row_scheme) list"
    and upd :: "(('a row_scheme) list \<Rightarrow> ('a row_scheme) list) \<Rightarrow> db \<Rightarrow> db"
  assumes rows_upd: "rows (upd f d) = f (rows d)"
begin

definition lookup :: "uuid \<Rightarrow> db \<Rightarrow> ('a row_scheme) option" where
  "lookup i d = find (\<lambda>r. row_id r = i) (rows d)"

lemma lookup_create:
  assumes "ids_below n (rows d)" "row_id r = new_uuid n"
  shows "lookup i (upd (\<lambda>rs. rs @ [r]) d) = (if i = new_uuid n then Some r else lookup i d)"
proof (cases "i = new_uuid n")
  case True
  then have "find (\<lambda>r. row_id r = i) (rows d) = None"
    using ids_below_notin [OF assms(1)] by (auto simp: find_None_iff)
  with True assms(2) show ?thesis
    by (simp add: lookup_def rows_upd find_append)
next
  case False
  with assms(2) show ?thesis
    by (simp add: lookup_def rows_upd find_append split: option.splits)
qed

lemma lookup_save:
  "lookup i (upd (put_row r) d)
     = (if i = row_id r then map_option (\<lambda>_. r) (lookup i d) else lookup i d)"
proof -
  let ?f = "\<lambda>x. if row_id x = row_id r then r else x"
  have "find (\<lambda>x. row_id x = i) (map ?f (rows d)) = map_option ?f (find (\<lambda>x. row_id x = i) (rows d))"
    by (rule find_map_preserve) simp
  then show ?thesis
    by (cases "find (\<lambda>x. row_id x = i) (rows d)")
       (auto simp: lookup_def rows_upd put_row_def dest: find_SomeD)
qed

lemma lookup_save_same: "lookup (row_id r) d = Some r0 \<Longrightarrow> lookup (row_id r) (upd (put_row r) d) = Some r"
  by (simp add: lookup_save)

lemma ids_below_save: "ids_below n (rows d) \<Longrightarrow> ids_below n [r] \<Longrightarrow> ids_below n (rows (upd (put_row r) d))"
  by (auto simp: ids_below_def rows_upd put_row_def)

lemma ids_below_create:
  "ids_below n (rows d) \<Longrightarrow> row_id r = new_uuid n \<Longrightarrow> ids_below (Suc n) (rows (upd (\<lambda>rs. rs @ [r]) d))"
  by (simp add: rows_upd ids_below_snoc)

lemma keys_save: "map row_id (rows (upd (put_row r) d)) = map row_id (rows d)"
  by (simp add: rows_upd put_row_def)

lemma lookup_row_id: "lookup i d = Some r \<Longrightarrow> row_id r = i"
  by (auto simp: lookup_def dest: find_SomeD)

lemma lookup_ids_below: "lookup i d = Some r \<Longrightarrow> ids_below n (rows d) \<Longrightarrow> ids_below n [r]"
  by (auto simp: lookup_def ids_below_def dest: find_SomeD)

end

interpretation runs: table t_runs t_runs_update
  by unfold_locales simp

interpretation wruns: table t_wruns t_wruns_update
  by unfold_locales simp

interpretation wrun_steps: table t_wrun_steps t_wrun_steps_update
  by unfold_locales simp

interpretation plan_runs: table t_plan_runs t_plan_runs_update
  by unfold_locales simp

interpretation plan_steps: table t_plan_steps t_plan_steps_update
  by unfold_locales simp

interpretation schedules: table t_schedules t_schedules_update
  by unfold_locales simp

end
