(* ===== verification/Calendar.thy ===== *)
theory Calendar
  imports Prelude
begin

text \<open>
  The part of Python's \<open>datetime\<close> the quota buckets use: the civil date of a UTC time stamp in whole
  seconds since the epoch, the time stamp of the first second of a date, and the \<open>strftime\<close> formats
  \<open>%Y-%m-%d\<close> and \<open>%Y-%m\<close>. Time stamps are natural numbers: nothing here looks before 1970.
\<close>

definition leap_year :: "nat \<Rightarrow> bool" where
  "leap_year y = (y mod 4 = 0 \<and> (y mod 100 \<noteq> 0 \<or> y mod 400 = 0))"

definition year_len :: "nat \<Rightarrow> nat" where
  "year_len y = (if leap_year y then 366 else 365)"

definition month_len :: "nat \<Rightarrow> nat \<Rightarrow> nat" where
  "month_len y m = (if m = 2 then (if leap_year y then 29 else 28)
                    else if m \<in> {4, 6, 9, 11} then 30 else 31)"

lemma year_len_pos [simp]: "0 < year_len y"
  by (simp add: year_len_def)

lemma month_len_pos [simp]: "0 < month_len y m"
  by (simp add: month_len_def)

text \<open>The year a day counted from the first of January of year \<open>y\<close> falls in, and the day within it.\<close>

function year_from :: "nat \<Rightarrow> nat \<Rightarrow> nat \<times> nat" where
  "year_from y d = (if d < year_len y then (y, d) else year_from (Suc y) (d - year_len y))"
  by pat_completeness auto

termination
proof (relation "measure snd")
  fix y d
  assume "\<not> d < year_len y"
  then have "0 < d" by (metis gr0I year_len_pos)
  then show "((Suc y, d - year_len y), y, d) \<in> measure snd" by simp
qed simp

declare year_from.simps [simp del]

text \<open>The month a day counted from the first of month \<open>m\<close> falls in, at most December.\<close>

function month_from :: "nat \<Rightarrow> nat \<Rightarrow> nat \<Rightarrow> nat \<times> nat" where
  "month_from y m d = (if d < month_len y m \<or> 12 \<le> m then (m, d) else month_from y (Suc m) (d - month_len y m))"
  by pat_completeness auto

termination
  by (relation "measure (\<lambda>(y, m, d). 12 - m)") auto

declare month_from.simps [simp del]

definition epoch_year :: nat where
  "epoch_year = 1970"

text \<open>Year, month and day of the month (from 1) of a day number.\<close>

definition civil :: "nat \<Rightarrow> nat \<times> nat \<times> nat" where
  "civil z = (let (y, d) = year_from epoch_year z; (m, e) = month_from y 1 d in (y, m, Suc e))"

fun days_before_year :: "nat \<Rightarrow> nat" where
  "days_before_year 0 = 0"
| "days_before_year (Suc y) = (if Suc y \<le> epoch_year then 0 else days_before_year y + year_len y)"

declare days_before_year.simps [simp del]

definition days_before_month :: "nat \<Rightarrow> nat \<Rightarrow> nat" where
  "days_before_month y m = sum_list (map (month_len y) [1..<m])"

definition day_number :: "nat \<Rightarrow> nat \<Rightarrow> nat \<Rightarrow> nat" where
  "day_number y m d = days_before_year y + days_before_month y m + (d - 1)"

subsection \<open>The civil date and the day number are inverse\<close>

lemma days_before_epoch [simp]: "days_before_year epoch_year = 0"
  by (simp add: epoch_year_def days_before_year.simps eval_nat_numeral)

lemma days_before_year_Suc: "epoch_year \<le> y \<Longrightarrow> days_before_year (Suc y) = days_before_year y + year_len y"
  by (simp add: days_before_year.simps)

lemma year_from_spec:
  "epoch_year \<le> y \<Longrightarrow> year_from y d = (y', d') \<Longrightarrow>
     y \<le> y' \<and> d' < year_len y' \<and> days_before_year y' + d' = days_before_year y + d"
proof (induction y d arbitrary: y' d' rule: year_from.induct)
  case (1 y d)
  show ?case
  proof (cases "d < year_len y")
    case True
    with 1(3) show ?thesis by (simp add: year_from.simps)
  next
    case False
    with 1(3) have "year_from (Suc y) (d - year_len y) = (y', d')"
      by (simp add: year_from.simps [of y])
    with 1(1) [OF False, of y' d'] 1(2) False show ?thesis
      by (simp add: days_before_year_Suc)
  qed
qed

lemma days_before_month_Suc: "1 \<le> m \<Longrightarrow> days_before_month y (Suc m) = days_before_month y m + month_len y m"
  by (simp add: days_before_month_def)

lemma days_before_13: "days_before_month y 13 = year_len y"
  by (simp add: days_before_month_def upt_rec month_len_def year_len_def)

lemma month_from_spec:
  "1 \<le> m \<Longrightarrow> m \<le> 12 \<Longrightarrow> days_before_month y m + d < year_len y \<Longrightarrow> month_from y m d = (m', d') \<Longrightarrow>
     m \<le> m' \<and> m' \<le> 12 \<and> d' < month_len y m' \<and> days_before_month y m' + d' = days_before_month y m + d"
proof (induction y m d arbitrary: m' d' rule: month_from.induct)
  case (1 y m d)
  show ?case
  proof (cases "d < month_len y m \<or> 12 \<le> m")
    case True
    have "d < month_len y m"
    proof (cases "m = 12")
      case True
      have "days_before_month y 12 + month_len y 12 = year_len y"
        using days_before_month_Suc [of 12 y] days_before_13 [of y] by simp
      with 1(4) True show ?thesis by simp
    next
      case False
      with True 1(3) show ?thesis by simp
    qed
    with 1 True show ?thesis by (auto simp: month_from.simps)
  next
    case False
    with 1(5) have "month_from y (Suc m) (d - month_len y m) = (m', d')"
      by (simp add: month_from.simps [of y m])
    with 1(1) [OF False, of m' d'] 1(2-4) False show ?thesis
      by (simp add: days_before_month_Suc)
  qed
qed

lemma civil_spec:
  assumes "civil z = (y, m, d)"
  shows "epoch_year \<le> y \<and> 1 \<le> m \<and> m \<le> 12 \<and> 1 \<le> d \<and> d \<le> month_len y m \<and> day_number y m d = z"
proof -
  obtain y' d' where yd: "year_from epoch_year z = (y', d')" by force
  obtain m' e where me: "month_from y' 1 d' = (m', e)" by force
  from assms yd me have eqs: "y = y'" "m = m'" "d = Suc e"
    by (auto simp: civil_def)
  have Y: "epoch_year \<le> y'" "d' < year_len y'" "days_before_year y' + d' = z"
    using year_from_spec [OF order.refl yd] by auto
  have "days_before_month y' 1 + d' < year_len y'"
    using Y(2) by (simp add: days_before_month_def)
  from month_from_spec [OF _ _ this me] have
    "1 \<le> m'" "m' \<le> 12" "e < month_len y' m'" "days_before_month y' m' + e = d'"
    by (simp_all add: days_before_month_def)
  with Y show ?thesis
    unfolding eqs by (simp add: day_number_def)
qed

lemma civil_inj: "civil z = civil z' \<Longrightarrow> z = z'"
  by (cases "civil z") (metis civil_spec)

text \<open>The first day of the month after the month of \<open>z\<close>.\<close>

definition next_month_day :: "nat \<Rightarrow> nat" where
  "next_month_day z = (let (y, m, d) = civil z in
     if m = 12 then day_number (y + 1) 1 1 else day_number y (m + 1) 1)"

lemma next_month_day:
  assumes "civil z = (y, m, d)"
  shows "next_month_day z = z + (month_len y m - d) + 1"
proof -
  note S = civil_spec [OF assms]
  have "days_before_month y 12 + month_len y 12 = year_len y"
    using days_before_month_Suc [of 12 y] days_before_13 [of y] by simp
  with S assms show ?thesis
    by (auto simp: next_month_day_def day_number_def days_before_year_Suc days_before_month_Suc
        days_before_month_def [of _ "Suc 0"] le_Suc_eq)
qed

lemma next_month_after: "z < next_month_day z"
  using next_month_day by (cases "civil z") force

text \<open>Two days of the same month have the same next month, so both lie before its first day.\<close>

lemma same_month_bound:
  assumes "civil z = (y, m, d)" "civil z' = (y, m, d')"
  shows "z' < next_month_day z"
proof -
  have "next_month_day z' = next_month_day z"
    using assms by (simp add: next_month_day_def)
  with next_month_after [of z'] show ?thesis by simp
qed

subsection \<open>Formats\<close>

definition two_digits :: "nat \<Rightarrow> string" where
  "two_digits n = (if n < 10 then CHR ''0'' # str_nat n else str_nat n)"

lemma two_digits_inj [simp]: "two_digits m = two_digits n \<longleftrightarrow> m = n"
proof -
  have zero: "nat_val (CHR ''0'' # cs) = nat_val cs" for cs
    by (simp add: nat_val_def digit_val_def)
  have "nat_val (two_digits k) = k" for k
    by (simp add: two_digits_def zero)
  then show ?thesis by metis
qed

lemma two_digits_no_dash: "CHR ''-'' \<notin> set (two_digits n)"
  using str_nat_digits [of "CHR ''-''" n] by (auto simp: two_digits_def)

lemma str_nat_no_dash: "CHR ''-'' \<notin> set (str_nat n)"
  using str_nat_digits [of "CHR ''-''" n] by auto

definition fmt_ymd :: "nat \<times> nat \<times> nat \<Rightarrow> string" where
  "fmt_ymd = (\<lambda>(y, m, d). str_nat y @ ''-'' @ two_digits m @ ''-'' @ two_digits d)"

definition fmt_ym :: "nat \<times> nat \<times> nat \<Rightarrow> string" where
  "fmt_ym = (\<lambda>(y, m, d). str_nat y @ ''-'' @ two_digits m)"

lemma fmt_ym_inj: "fmt_ym (y, m, d) = fmt_ym (y', m', d') \<Longrightarrow> y = y' \<and> m = m'"
proof -
  assume "fmt_ym (y, m, d) = fmt_ym (y', m', d')"
  then have "str_nat y @ [CHR ''-''] @ two_digits m = str_nat y' @ [CHR ''-''] @ two_digits m'"
    by (simp add: fmt_ym_def)
  from append_prefix_cancel [OF this str_nat_no_dash str_nat_no_dash] show ?thesis
    by simp
qed

lemma fmt_ymd_inj: "fmt_ymd (y, m, d) = fmt_ymd (y', m', d') \<Longrightarrow> y = y' \<and> m = m' \<and> d = d'"
proof -
  assume "fmt_ymd (y, m, d) = fmt_ymd (y', m', d')"
  then have "str_nat y @ [CHR ''-''] @ (two_digits m @ [CHR ''-''] @ two_digits d)
           = str_nat y' @ [CHR ''-''] @ (two_digits m' @ [CHR ''-''] @ two_digits d')"
    by (simp add: fmt_ymd_def)
  note A = append_prefix_cancel [OF this str_nat_no_dash str_nat_no_dash]
  note B = append_prefix_cancel [OF A [THEN conjunct2] two_digits_no_dash two_digits_no_dash]
  from A B show ?thesis
    by simp
qed

end
