(* ===== verification/Quota.thy ===== *)
theory Quota
  imports Session Calendar
begin

text \<open>
  \<open>app/services/quota_service.py\<close> and \<open>app/repositories/quota_repository.py\<close>: which policies apply to a
  caller, which of them is effective, the Redis counter each is charged to, the check before a chat
  turn and the record after it.
\<close>

record 'r quota_env =
  feature_quota :: bool
  q_redis :: "'r redis_ops"
  q_float_str :: "real \<Rightarrow> string"
  q_insert_refused :: "quota_usage_event \<Rightarrow> app_error option"

subsection \<open>Buckets and counter keys\<close>

definition seconds_per_day :: int where
  "seconds_per_day = 86400"

definition day_of :: "time \<Rightarrow> nat" where
  "day_of t = nat (t div seconds_per_day)"

text \<open>\<open>_period_bucket\<close>: the label of the current period and the life time given to the counter.\<close>

definition period_bucket :: "quota_period \<Rightarrow> int option \<Rightarrow> time \<Rightarrow> string \<times> int" where
  "period_bucket period window_seconds t =
     (case period of
        Daily \<Rightarrow>
          (let end_of_day = (int (day_of t) + 1) * seconds_per_day
           in (fmt_ymd (civil (day_of t)), max (end_of_day - t + 60) 60))
      | Monthly \<Rightarrow>
          (let next_month = int (next_month_day (day_of t)) * seconds_per_day
           in (fmt_ym (civil (day_of t)), max (next_month - t + 60) 60))
      | FixedWindow \<Rightarrow>
          (let window = (case window_seconds of None \<Rightarrow> 3600 | Some w \<Rightarrow> if w = 0 then 3600 else w)
           in (str_int (t div window), window + 60)))"

text \<open>\<open>_policy_key\<close>.\<close>

definition policy_key :: "quota_policy \<Rightarrow> string \<Rightarrow> string" where
  "policy_key p bucket =
     ''quota:usage:'' @ scope_value (qp_scope_type p) @ '':'' @ qp_scope_value p @ '':'' @
     (case qp_model_id p of None \<Rightarrow> ''any'' | Some i \<Rightarrow> if i = [] then ''any'' else i) @ '':'' @
     metric_value (qp_metric p) @ '':'' @ period_value (qp_period p) @ '':'' @ bucket"

definition counter_key :: "quota_policy \<Rightarrow> time \<Rightarrow> string" where
  "counter_key p t = policy_key p (fst (period_bucket (qp_period p) (qp_window_seconds p) t))"

subsection \<open>Which policies apply\<close>

text \<open>\<open>QuotaPolicyRepository.list_matching\<close>.\<close>

definition policy_matches :: "string \<Rightarrow> string list \<Rightarrow> uuid option \<Rightarrow> quota_policy \<Rightarrow> bool" where
  "policy_matches user_id groups model_id p =
     (deleted_at p = None \<and> qp_enabled p \<and>
      (qp_scope_type p = ScopeUser \<and> qp_scope_value p = user_id \<or>
       qp_scope_type p = ScopeGlobal \<or>
       groups \<noteq> [] \<and> qp_scope_type p = ScopeGroup \<and> qp_scope_value p \<in> set groups) \<and>
      (if truthy_str model_id then qp_model_id p = None \<or> qp_model_id p = model_id
       else qp_model_id p = None))"

definition list_matching :: "string \<Rightarrow> string list \<Rightarrow> uuid option \<Rightarrow> quota_policy list \<Rightarrow> quota_policy list" where
  "list_matching user_id groups model_id rows = filter (policy_matches user_id groups model_id) rows"

type_synonym policy_slot = "quota_metric \<times> quota_period"

definition slot :: "quota_policy \<Rightarrow> policy_slot" where
  "slot p = (qp_metric p, qp_period p)"

text \<open>The comparison inside the loop of \<open>_select_effective_policies\<close>: does \<open>policy\<close> replace \<open>current\<close>?\<close>

definition policy_beats :: "quota_policy \<Rightarrow> quota_policy \<Rightarrow> bool" where
  "policy_beats p c =
     (if qp_scope_type p < qp_scope_type c then True
      else if qp_scope_type p = qp_scope_type c then
        (if qp_priority p > qp_priority c then True
         else qp_priority p = qp_priority c \<and> qp_limit_value p < qp_limit_value c)
      else False)"

text \<open>The loop itself: a dict from slots to the best candidate seen so far.\<close>

definition keep_best ::
  "('a \<Rightarrow> 'k) \<Rightarrow> ('a \<Rightarrow> 'a \<Rightarrow> bool) \<Rightarrow> ('k, 'a) pydict \<Rightarrow> 'a \<Rightarrow> ('k, 'a) pydict" where
  "keep_best key beats best p =
     (case dict_get best (key p) of
        None \<Rightarrow> dict_set best (key p) p
      | Some c \<Rightarrow> if beats p c then dict_set best (key p) p else best)"

definition select_effective_policies ::
  "string \<Rightarrow> string list \<Rightarrow> uuid option \<Rightarrow> quota_policy list \<Rightarrow> quota_policy list" where
  "select_effective_policies user_id groups model_id rows =
     map snd (foldl (keep_best slot policy_beats) [] (list_matching user_id groups model_id rows))"

subsection \<open>Enforcement\<close>

definition quota_exceeded :: "'r quota_env \<Rightarrow> quota_policy \<Rightarrow> real \<Rightarrow> app_error" where
  "quota_exceeded env p used =
     AppError QuotaExceededError
       (''Quota exceeded for '' @ metric_value (qp_metric p) @ '' ('' @ period_value (qp_period p) @ ''): '' @
        q_float_str env used @ ''/'' @ str_int (qp_limit_value p) @ '' used.'')
       [(''scope_type'', JStr (scope_value (qp_scope_type p))),
        (''scope_value'', JStr (qp_scope_value p)),
        (''metric'', JStr (metric_value (qp_metric p))),
        (''period'', JStr (period_value (qp_period p))),
        (''used'', JFloat used),
        (''limit'', JInt (qp_limit_value p))]"

definition check_policy :: "'r quota_env \<Rightarrow> quota_policy \<Rightarrow> ('r sess, unit) prog" where
  "check_policy env p =
     mbind (mlift (\<lambda>s. rds_get (q_redis env) (counter_key p (now s)) (redis s)))
       (\<lambda>raw. let current = (case raw of None \<Rightarrow> 0 | Some v \<Rightarrow> v)
               in mwhen (current \<ge> of_int (qp_limit_value p)) (mraise (quota_exceeded env p current)))"

definition assert_within_quota ::
  "'r quota_env \<Rightarrow> string option \<Rightarrow> string list \<Rightarrow> uuid option \<Rightarrow> ('r sess, unit) prog" where
  "assert_within_quota env user_id groups model_id =
     (if \<not> feature_quota env \<or> \<not> truthy_str user_id then mret ()
      else mbind (mget (\<lambda>s. select_effective_policies (the user_id) groups model_id (t_policies (work s))))
             (\<lambda>policies. mfor policies (check_policy env)))"

subsection \<open>Recording\<close>

definition usage_event ::
  "uuid option \<Rightarrow> string \<Rightarrow> string list \<Rightarrow> uuid option \<Rightarrow> int \<Rightarrow> int \<Rightarrow> real option \<Rightarrow> uuid \<Rightarrow> time
     \<Rightarrow> quota_usage_event" where
  "usage_event run_id user_id groups model_id inp out cost i t =
     \<lparr>row_id = i, created_at = t, qu_run_id = run_id, qu_user_id = user_id, qu_groups = groups,
      qu_model_id = model_id, qu_input_tokens = inp, qu_output_tokens = out, qu_cost_usd = cost\<rparr>"

text \<open>The insert of the audit row, which the database may refuse.\<close>

definition insert_usage ::
  "'r quota_env \<Rightarrow> (uuid \<Rightarrow> time \<Rightarrow> quota_usage_event) \<Rightarrow> ('r sess, unit) prog" where
  "insert_usage env mk =
     mbind (repo_create t_usage t_usage_update no_clash mk)
       (\<lambda>r. case q_insert_refused env r of Some e \<Rightarrow> mraise e | None \<Rightarrow> commit)"

definition metric_delta :: "int \<Rightarrow> int \<Rightarrow> real option \<Rightarrow> quota_metric \<Rightarrow> real" where
  "metric_delta inp out cost m =
     (case m of MRequests \<Rightarrow> 1
      | MTokens \<Rightarrow> of_int (inp + out)
      | MCostUsd \<Rightarrow> (case cost of None \<Rightarrow> 0 | Some c \<Rightarrow> c))"

definition charge_policy ::
  "'r quota_env \<Rightarrow> int \<Rightarrow> int \<Rightarrow> real option \<Rightarrow> quota_policy \<Rightarrow> ('r sess, unit) prog" where
  "charge_policy env inp out cost p = (\<lambda>s.
     let delta = metric_delta inp out cost (qp_metric p);
         (bucket, ttl) = period_bucket (qp_period p) (qp_window_seconds p) (now s);
         key = policy_key p bucket
     in if delta = 0 then (Inr (), s)
        else mbind (on_redis (rds_incrbyfloat (q_redis env) key delta))
               (\<lambda>_. on_redis (rds_expire (q_redis env) key ttl)) s)"

definition record_usage ::
  "'r quota_env \<Rightarrow> uuid option \<Rightarrow> string option \<Rightarrow> string list \<Rightarrow> uuid option \<Rightarrow> int \<Rightarrow> int
     \<Rightarrow> real option \<Rightarrow> ('r sess, unit) prog" where
  "record_usage env run_id user_id groups model_id inp out cost =
     (if \<not> feature_quota env \<or> \<not> truthy_str user_id then mret ()
      else mbind (mcatch (insert_usage env (usage_event run_id (the user_id) groups model_id inp out cost))
                         (\<lambda>_. rollback))
             (\<lambda>_. mcatch
                (mbind (mget (\<lambda>s. select_effective_policies (the user_id) groups model_id (t_policies (work s))))
                   (\<lambda>policies. mfor policies (charge_policy env inp out cost)))
                (\<lambda>_. mret ())))"

text \<open>\<open>QuotaUsageEventRepository.sum_since\<close> and \<open>get_usage_snapshot\<close>.\<close>

record usage_totals =
  u_tokens :: real
  u_requests :: real
  u_cost_usd :: real

definition sum_since :: "string \<Rightarrow> time \<Rightarrow> uuid option \<Rightarrow> quota_usage_event list \<Rightarrow> usage_totals" where
  "sum_since user_id since model_id rows =
     (let hits = filter (\<lambda>e. qu_user_id e = user_id \<and> since \<le> created_at e \<and>
                              (case model_id of None \<Rightarrow> True | Some m \<Rightarrow> qu_model_id e = Some m)) rows
      in \<lparr>u_tokens = of_int (sum_list (map (\<lambda>e. qu_input_tokens e + qu_output_tokens e) hits)),
          u_requests = of_nat (length hits),
          u_cost_usd = sum_list (map (\<lambda>e. case qu_cost_usd e of None \<Rightarrow> 0 | Some c \<Rightarrow> c) hits)\<rparr>)"

definition get_usage_snapshot :: "string \<Rightarrow> int \<Rightarrow> ('r sess, usage_totals) prog" where
  "get_usage_snapshot user_id since_days =
     mget (\<lambda>s. sum_since user_id (now s - since_days * seconds_per_day) None (t_usage (work s)))"

subsection \<open>Choosing the best per key\<close>

text \<open>
  What the selection loop needs of the order it compares with: that it is a strict partial order.
  Then the dict holds, for every key seen, a candidate no other candidate of that key beats.
\<close>

locale preference =
  fixes key :: "'a \<Rightarrow> 'k"
    and beats :: "'a \<Rightarrow> 'a \<Rightarrow> bool"
  assumes beats_irrefl: "\<not> beats x x"
    and beats_trans: "beats x y \<Longrightarrow> beats y z \<Longrightarrow> beats x z"
begin

lemma beats_asym: "beats x y \<Longrightarrow> \<not> beats y x"
  using beats_irrefl beats_trans by blast

definition best_for :: "'a set \<Rightarrow> ('k, 'a) pydict \<Rightarrow> bool" where
  "best_for seen d \<longleftrightarrow>
     distinct (map fst d) \<and>
     (\<forall>k c. (k, c) \<in> set d \<longrightarrow> c \<in> seen \<and> key c = k) \<and>
     (\<forall>x \<in> seen. \<exists>c. dict_get d (key x) = Some c \<and> \<not> beats x c)"

lemma dict_set_entries: "(k', c) \<in> set (dict_set d k v) \<Longrightarrow> (k', c) \<in> set d \<or> k' = k \<and> c = v"
  by (induction d) (auto split: if_splits)

lemma best_for_set:
  assumes d: "best_for seen d" and old: "\<And>c. dict_get d (key p) = Some c \<Longrightarrow> beats p c"
  shows "best_for (insert p seen) (dict_set d (key p) p)"
proof -
  have "\<exists>c. dict_get (dict_set d (key p) p) (key x) = Some c \<and> \<not> beats x c" if "x \<in> insert p seen" for x
  proof (cases "key x = key p")
    case True
    have "\<not> beats x p"
    proof (cases "x = p")
      case False
      with that have "x \<in> seen" by simp
      with d obtain c where "dict_get d (key x) = Some c" "\<not> beats x c"
        by (auto simp: best_for_def)
      with True old beats_trans show ?thesis by metis
    qed (simp add: beats_irrefl)
    with True show ?thesis by simp
  next
    case False
    with that have "x \<in> seen" by auto
    with d False show ?thesis by (auto simp: best_for_def)
  qed
  moreover have "\<forall>k c. (k, c) \<in> set (dict_set d (key p) p) \<longrightarrow> c \<in> insert p seen \<and> key c = k"
    using d by (auto simp: best_for_def dest!: dict_set_entries)
  ultimately show ?thesis
    using d by (simp add: best_for_def)
qed

lemma best_for_skip:
  assumes "best_for seen d" "dict_get d (key p) = Some c" "\<not> beats p c"
  shows "best_for (insert p seen) d"
  using assms by (fastforce simp: best_for_def)

lemma best_for_step: "best_for seen d \<Longrightarrow> best_for (insert p seen) (keep_best key beats d p)"
  by (auto simp: keep_best_def intro: best_for_set best_for_skip split: option.split)

lemma best_for_foldl: "best_for seen d \<Longrightarrow> best_for (set xs \<union> seen) (foldl (keep_best key beats) d xs)"
proof (induction xs arbitrary: seen d)
  case (Cons x xs)
  then show ?case
    using best_for_step [of seen d x] by (auto dest!: Cons.IH [of "insert x seen"])
qed simp

lemma best_for_all: "best_for (set xs) (foldl (keep_best key beats) [] xs)"
  using best_for_foldl [of "{}" "[]" xs] by (simp add: best_for_def)

lemma chosen_member: "c \<in> snd ` set (foldl (keep_best key beats) [] xs) \<Longrightarrow> c \<in> set xs"
  using best_for_all [of xs] by (auto simp: best_for_def)

lemma chosen_keys: "distinct (map key (map snd (foldl (keep_best key beats) [] xs)))"
proof -
  let ?d = "foldl (keep_best key beats) [] xs"
  have "map (key \<circ> snd) ?d = map fst ?d"
    using best_for_all [of xs] by (auto simp: best_for_def)
  moreover have "distinct (map fst ?d)"
    using best_for_all [of xs] unfolding best_for_def by blast
  ultimately show ?thesis by (metis map_map)
qed

lemma chosen_unbeaten:
  assumes "x \<in> set xs"
  shows "\<exists>c \<in> snd ` set (foldl (keep_best key beats) [] xs). key c = key x \<and> \<not> beats x c"
proof -
  let ?d = "foldl (keep_best key beats) [] xs"
  from assms best_for_all [of xs] obtain c where c: "dict_get ?d (key x) = Some c" "\<not> beats x c"
    by (auto simp: best_for_def)
  then have "(key x, c) \<in> set ?d" by (simp add: dict_get_SomeD)
  with best_for_all [of xs] c show ?thesis
    by (force simp: best_for_def)
qed

end

interpretation policies: preference slot policy_beats
proof
  show "\<not> policy_beats x x" for x
    by (simp add: policy_beats_def)
  show "policy_beats x z" if "policy_beats x y" "policy_beats y z" for x y z
    using that by (auto simp: policy_beats_def split: if_splits)
qed

lemma effective_subset: "set (select_effective_policies u g m rows) \<subseteq> set (list_matching u g m rows)"
  by (auto simp: select_effective_policies_def dest!: policies.chosen_member)

lemma effective_slots: "distinct (map slot (select_effective_policies u g m rows))"
  unfolding select_effective_policies_def by (rule policies.chosen_keys)

text \<open>C36. The policies enforced for a caller: each applies to the caller, there is one per metric and
  period in which any policy applies, and no applicable policy of the same metric and period is more
  specific in scope, or of equal scope and higher priority, or of equal scope and priority with a
  stricter limit.\<close>

theorem effective_policies_best:
  "distinct (map slot (select_effective_policies u g m rows)) \<and>
   (\<forall>p \<in> set (select_effective_policies u g m rows). p \<in> set rows \<and> policy_matches u g m p) \<and>
   (\<forall>q \<in> set rows. policy_matches u g m q \<longrightarrow>
      (\<exists>p \<in> set (select_effective_policies u g m rows). slot p = slot q \<and>
         qp_scope_type p \<le> qp_scope_type q \<and>
         (qp_scope_type p = qp_scope_type q \<longrightarrow>
            qp_priority q \<le> qp_priority p \<and>
            (qp_priority q = qp_priority p \<longrightarrow> qp_limit_value p \<le> qp_limit_value q))))"
proof (intro conjI ballI impI)
  show "distinct (map slot (select_effective_policies u g m rows))"
    by (rule effective_slots)
next
  fix p
  assume "p \<in> set (select_effective_policies u g m rows)"
  with effective_subset have "p \<in> set (list_matching u g m rows)" by blast
  then show "p \<in> set rows" and "policy_matches u g m p"
    by (simp_all add: list_matching_def)
next
  fix q
  assume "q \<in> set rows" "policy_matches u g m q"
  then have "q \<in> set (list_matching u g m rows)"
    by (simp add: list_matching_def)
  from policies.chosen_unbeaten [OF this] obtain p
    where p: "p \<in> set (select_effective_policies u g m rows)" "slot p = slot q" "\<not> policy_beats q p"
    by (auto simp: select_effective_policies_def)
  then have "qp_scope_type p \<le> qp_scope_type q \<and>
         (qp_scope_type p = qp_scope_type q \<longrightarrow>
            qp_priority q \<le> qp_priority p \<and>
            (qp_priority q = qp_priority p \<longrightarrow> qp_limit_value p \<le> qp_limit_value q))"
    by (auto simp: policy_beats_def split: if_splits)
  with p show "\<exists>p \<in> set (select_effective_policies u g m rows). slot p = slot q \<and>
         qp_scope_type p \<le> qp_scope_type q \<and>
         (qp_scope_type p = qp_scope_type q \<longrightarrow>
            qp_priority q \<le> qp_priority p \<and>
            (qp_priority q = qp_priority p \<longrightarrow> qp_limit_value p \<le> qp_limit_value q))"
    by blast
qed

definition demo_policy :: "uuid \<Rightarrow> quota_scope_type \<Rightarrow> string \<Rightarrow> quota_metric \<Rightarrow> int \<Rightarrow> int \<Rightarrow> quota_policy" where
  "demo_policy i sc v m l prio =
     \<lparr>row_id = i, created_at = 0, deleted_at = None, qp_scope_type = sc, qp_scope_value = v,
      qp_model_id = None, qp_metric = m, qp_period = Daily, qp_window_seconds = None,
      qp_limit_value = l, qp_priority = prio, qp_enabled = True\<rparr>"

definition demo_policies :: "quota_policy list" where
  "demo_policies =
     [demo_policy ''p1'' ScopeGlobal '''' MRequests 100 0,
      demo_policy ''p2'' ScopeGroup ''sales'' MRequests 50 1,
      demo_policy ''p3'' ScopeGroup ''staff'' MRequests 40 1,
      demo_policy ''p4'' ScopeUser ''bob'' MRequests 5 0]"

text \<open>Ann, in two groups, is held to the stricter of the two equal-priority group policies; the
  policy of user Bob does not concern her.\<close>

theorem effective_policies_best_witness:
  "\<exists>p \<in> set (select_effective_policies ''ann'' [''sales'', ''staff''] None demo_policies).
     slot p = (MRequests, Daily) \<and> qp_scope_type p = ScopeGroup \<and> qp_limit_value p \<le> 50"
proof -
  have q: "demo_policy ''p2'' ScopeGroup ''sales'' MRequests 50 1 \<in> set demo_policies"
    by (simp add: demo_policies_def)
  have m: "policy_matches ''ann'' [''sales'', ''staff''] None (demo_policy ''p2'' ScopeGroup ''sales'' MRequests 50 1)"
    by (simp add: policy_matches_def demo_policy_def)
  from effective_policies_best [of "''ann''" "[''sales'', ''staff'']" None demo_policies] q m
  obtain p where p: "p \<in> set (select_effective_policies ''ann'' [''sales'', ''staff''] None demo_policies)"
    "slot p = (MRequests, Daily)"
    by (auto simp: slot_def demo_policy_def)
  then show ?thesis
    by (auto simp: select_effective_policies_def list_matching_def demo_policies_def demo_policy_def
        policy_matches_def keep_best_def policy_beats_def slot_def less_quota_scope_type_def)
qed

subsection \<open>Counter keys and their life time\<close>

lemma str_int_no_colon: "CHR '':'' \<notin> set (str_int i)"
  using str_nat_digits [of "CHR '':''"] by (auto simp: str_int_def)

lemma two_digits_no_colon: "CHR '':'' \<notin> set (two_digits n)"
  using str_nat_digits [of "CHR '':''"] by (auto simp: two_digits_def)

lemma bucket_no_colon: "CHR '':'' \<notin> set (fst (period_bucket period w t))"
  using str_nat_digits [of "CHR '':''"] str_int_no_colon two_digits_no_colon
  by (cases "civil (day_of t)"; cases period)
     (auto simp: period_bucket_def Let_def fmt_ymd_def fmt_ym_def)

lemma values_no_colon: "CHR '':'' \<notin> set (metric_value m)" "CHR '':'' \<notin> set (period_value d)"
  by (cases m; simp) (cases d; simp)

lemma policy_key_slot:
  assumes eq: "policy_key p b = policy_key q b'"
    and b: "CHR '':'' \<notin> set b" "CHR '':'' \<notin> set b'"
  shows "slot p = slot q"
proof -
  define hd where "hd = (\<lambda>p::quota_policy. ''quota:usage:'' @ scope_value (qp_scope_type p) @ '':'' @ qp_scope_value p @ '':'' @
     (case qp_model_id p of None \<Rightarrow> ''any'' | Some i \<Rightarrow> if i = [] then ''any'' else i))"
  have key: "policy_key p b = ((hd p @ [CHR '':''] @ metric_value (qp_metric p)) @ [CHR '':''] @ period_value (qp_period p)) @ [CHR '':''] @ b" for p b
    by (simp add: policy_key_def hd_def)
  from append_suffix_cancel [OF eq [unfolded key] b]
  have 1: "(hd p @ [CHR '':''] @ metric_value (qp_metric p)) @ [CHR '':''] @ period_value (qp_period p)
         = (hd q @ [CHR '':''] @ metric_value (qp_metric q)) @ [CHR '':''] @ period_value (qp_period q)"
    by simp
  note 2 = append_suffix_cancel [OF 1 values_no_colon(2) values_no_colon(2)]
  note 3 = append_suffix_cancel [OF 2 [THEN conjunct1] values_no_colon(1) values_no_colon(1)]
  from 2 3 show ?thesis by (simp add: slot_def)
qed

lemma counter_key_slot: "counter_key p t = counter_key q t' \<Longrightarrow> slot p = slot q"
  unfolding counter_key_def by (rule policy_key_slot [OF _ bucket_no_colon bucket_no_colon])

lemma effective_keys: "distinct (map (\<lambda>p. counter_key p t) (select_effective_policies u g m rows))"
proof -
  let ?ps = "select_effective_policies u g m rows"
  have "inj_on (\<lambda>p. counter_key p t) (set ?ps)"
    using effective_slots [of u g m rows] counter_key_slot
    by (metis (no_types, lifting) distinct_map inj_on_def)
  with effective_slots [of u g m rows] show ?thesis
    by (simp add: distinct_map)
qed

definition window_ok :: "quota_period \<Rightarrow> int option \<Rightarrow> bool" where
  "window_ok period w = (period = FixedWindow \<longrightarrow> (case w of None \<Rightarrow> True | Some w \<Rightarrow> 0 \<le> w))"

lemma day_of_bounds: "0 \<le> t \<Longrightarrow> int (day_of t) * 86400 \<le> t \<and> t < (int (day_of t) + 1) * 86400"
proof -
  assume "0 \<le> t"
  then have "int (day_of t) = t div 86400"
    by (simp add: day_of_def seconds_per_day_def pos_imp_zdiv_nonneg_iff)
  then have split: "int (day_of t) * 86400 + t mod 86400 = t"
    using div_mult_mod_eq [of t 86400] by simp
  define r where "r = t mod 86400"
  have "0 \<le> r" "r < 86400"
    by (simp_all add: r_def)
  with split [folded r_def] show ?thesis by auto
qed

lemma bucket_ttl_pos: "window_ok period w \<Longrightarrow> 0 < snd (period_bucket period w t)"
  by (cases period) (auto simp: period_bucket_def Let_def window_ok_def split: option.split)

text \<open>A counter outlives its period: at every later moment with the same bucket label, that is at
  every moment whose usage is charged to the same key, the life time given to the key has not run
  out. So a period is never split in two by an expiry.\<close>

theorem counter_outlives_period:
  assumes "0 \<le> t" "t \<le> t'" "window_ok period w"
    and same: "fst (period_bucket period w t') = fst (period_bucket period w t)"
  shows "t' < t + snd (period_bucket period w t)"
proof (cases period)
  case Daily
  obtain y m d where c: "civil (day_of t) = (y, m, d)" by (cases "civil (day_of t)") auto
  obtain y' m' d' where c': "civil (day_of t') = (y', m', d')" by (cases "civil (day_of t')") auto
  from same Daily c c' have "civil (day_of t') = civil (day_of t)"
    by (auto simp: period_bucket_def Let_def dest!: fmt_ymd_inj)
  then have "day_of t' = day_of t" by (rule civil_inj)
  with day_of_bounds [of t'] assms Daily show ?thesis
    by (simp add: period_bucket_def Let_def seconds_per_day_def)
next
  case Monthly
  obtain y m d where c: "civil (day_of t) = (y, m, d)" by (cases "civil (day_of t)") auto
  obtain y' m' d' where c': "civil (day_of t') = (y', m', d')" by (cases "civil (day_of t')") auto
  from same Monthly c c' have "y' = y \<and> m' = m"
    by (auto simp: period_bucket_def Let_def dest!: fmt_ym_inj)
  with same_month_bound [OF c] c' have "day_of t' < next_month_day (day_of t)" by simp
  then have "int (day_of t') + 1 \<le> int (next_month_day (day_of t))" by simp
  with day_of_bounds [of t'] assms(1,2)
  have "t' < int (next_month_day (day_of t)) * 86400"
    by (smt (verit) mult_right_mono)
  with Monthly show ?thesis
    by (simp add: period_bucket_def Let_def seconds_per_day_def)
next
  case FixedWindow
  define v where "v = (case w of None \<Rightarrow> 3600 | Some w \<Rightarrow> if w = 0 then 3600 else w)"
  have v: "0 < v" using assms(3) FixedWindow by (auto simp: v_def window_ok_def split: option.splits)
  from same FixedWindow have "t' div v = t div v"
    by (simp add: period_bucket_def Let_def v_def)
  with v have "t' - t < v"
    by (smt (verit) mult_div_mod_eq pos_mod_bound pos_mod_sign)
  with FixedWindow show ?thesis
    by (simp add: period_bucket_def Let_def v_def)
qed

theorem counter_outlives_period_witness:
  "(2678399::int) < 86400 + snd (period_bucket Monthly None 86400)"
proof (rule counter_outlives_period)
  have "civil 1 = (1970, 1, 2)" "civil 30 = (1970, 1, 31)"
    by (simp_all add: civil_def epoch_year_def year_from.simps month_from.simps year_len_def
        month_len_def leap_year_def)
  then show "fst (period_bucket Monthly None 2678399) = fst (period_bucket Monthly None 86400)"
    by (simp add: period_bucket_def day_of_def seconds_per_day_def fmt_ym_def)
qed (simp_all add: window_ok_def)

subsection \<open>Enforcement against the counters\<close>

lemma redis_get_ok: "redis_counters_ok ops \<Longrightarrow> \<exists>v. rds_get ops k r = Inr v"
  by (simp add: redis_counters_ok_def)

definition used_of :: "'r quota_env \<Rightarrow> 'r sess \<Rightarrow> quota_policy \<Rightarrow> real" where
  "used_of env s p = counter_of (q_redis env) (counter_key p (now s)) (redis s)"

definition over_limit :: "'r quota_env \<Rightarrow> 'r sess \<Rightarrow> quota_policy \<Rightarrow> bool" where
  "over_limit env s p = (of_int (qp_limit_value p) \<le> used_of env s p)"

lemma check_policy_run:
  assumes "redis_counters_ok (q_redis env)"
  shows "check_policy env p s =
    (if over_limit env s p then (Inl (quota_exceeded env p (used_of env s p)), s) else (Inr (), s))"
proof -
  from redis_get_ok [OF assms] obtain v where
    "rds_get (q_redis env) (counter_key p (now s)) (redis s) = Inr v" by blast
  then show ?thesis
    by (cases v) (simp_all add: check_policy_def over_limit_def used_of_def counter_of_def Let_def mwhen_def)
qed

lemma check_policies_run:
  assumes "redis_counters_ok (q_redis env)"
  shows "mfor ps (check_policy env) s =
    (case find (over_limit env s) ps of
       None \<Rightarrow> (Inr (), s) | Some p \<Rightarrow> (Inl (quota_exceeded env p (used_of env s p)), s))"
  by (induction ps) (simp_all add: mbind_def check_policy_run [OF assms])

definition effective_now :: "string \<Rightarrow> string list \<Rightarrow> uuid option \<Rightarrow> 'r sess \<Rightarrow> quota_policy list" where
  "effective_now u g m s = select_effective_policies u g m (t_policies (work s))"

text \<open>C4. The check before a chat turn reads the counters and changes nothing: it refuses the turn,
  with status 429 and the figures of the policy concerned, exactly when the counter of some effective
  policy has reached its limit.\<close>

theorem assert_within_quota_spec:
  assumes "redis_counters_ok (q_redis env)" "feature_quota env" "u \<noteq> []"
  shows "assert_within_quota env (Some u) g m s =
           (case find (over_limit env s) (effective_now u g m s) of
              None \<Rightarrow> (Inr (), s)
            | Some p \<Rightarrow> (Inl (quota_exceeded env p (used_of env s p)), s))
         \<and> (fst (assert_within_quota env (Some u) g m s) = Inr () \<longleftrightarrow>
              (\<forall>p \<in> set (effective_now u g m s). used_of env s p < of_int (qp_limit_value p)))"
proof
  show eq: "assert_within_quota env (Some u) g m s =
    (case find (over_limit env s) (effective_now u g m s) of
       None \<Rightarrow> (Inr (), s) | Some p \<Rightarrow> (Inl (quota_exceeded env p (used_of env s p)), s))"
    using assms by (simp add: assert_within_quota_def check_policies_run effective_now_def)
  have "find (over_limit env s) (effective_now u g m s) = None
          \<longleftrightarrow> (\<forall>p \<in> set (effective_now u g m s). \<not> over_limit env s p)"
    by (auto simp: find_None_iff)
  then show "fst (assert_within_quota env (Some u) g m s) = Inr () \<longleftrightarrow>
         (\<forall>p \<in> set (effective_now u g m s). used_of env s p < of_int (qp_limit_value p))"
    unfolding eq by (auto simp: over_limit_def not_le split: option.splits)
qed

definition demo_sess :: "mem_redis sess" where
  "demo_sess = \<lparr>work = empty_db\<lparr>t_policies := demo_policies\<rparr>, durable = empty_db\<lparr>t_policies := demo_policies\<rparr>,
                now = 86400, seed = 0, redis = []\<rparr>"

definition demo_env :: "mem_redis quota_env" where
  "demo_env = \<lparr>feature_quota = True, q_redis = mem_redis_ops, q_float_str = (\<lambda>r. ''5.0''),
               q_insert_refused = (\<lambda>_. None)\<rparr>"

lemma demo_env_simps [simp]:
  "feature_quota demo_env" "q_redis demo_env = mem_redis_ops" "q_insert_refused demo_env = (\<lambda>_. None)"
  by (simp_all add: demo_env_def)

theorem assert_within_quota_spec_witness:
  "fst (assert_within_quota demo_env (Some ''bob'') [] None demo_sess) = Inr ()"
proof -
  have "\<forall>p \<in> set (effective_now ''bob'' [] None demo_sess).
          used_of demo_env demo_sess p < of_int (qp_limit_value p)"
    by (simp add: effective_now_def demo_sess_def select_effective_policies_def list_matching_def demo_policies_def
        demo_policy_def policy_matches_def keep_best_def policy_beats_def slot_def
        less_quota_scope_type_def used_of_def counter_of_def mem_redis_ops_def)
  then show ?thesis
    using assert_within_quota_spec [of demo_env "''bob''" "[]" None demo_sess, THEN conjunct2]
    by (simp add: mem_redis_counters_ok)
qed

subsection \<open>Recording and the counters\<close>

definition charges :: "int \<Rightarrow> int \<Rightarrow> real option \<Rightarrow> quota_policy list \<Rightarrow> time \<Rightarrow> string \<Rightarrow> real" where
  "charges inp out cost ps t k =
     sum_list (map (\<lambda>p. if counter_key p t = k then metric_delta inp out cost (qp_metric p) else 0) ps)"

definition windows_ok :: "quota_policy list \<Rightarrow> bool" where
  "windows_ok ps = (\<forall>p \<in> set ps. window_ok (qp_period p) (qp_window_seconds p))"

lemma charge_policy_run:
  assumes R: "redis_counters_ok (q_redis env)" and W: "window_ok (qp_period p) (qp_window_seconds p)"
  shows "\<exists>r'. charge_policy env inp out cost p s = (Inr (), s\<lparr>redis := r'\<rparr>) \<and>
    (\<forall>k. counter_of (q_redis env) k r' = counter_of (q_redis env) k (redis s) +
       (if counter_key p (now s) = k then metric_delta inp out cost (qp_metric p) else 0))"
proof (cases "metric_delta inp out cost (qp_metric p) = 0")
  case True
  then show ?thesis
    by (intro exI [of _ "redis s"]) (simp add: charge_policy_def Let_def split: prod.split)
next
  case False
  define d where "d = metric_delta inp out cost (qp_metric p)"
  obtain b ttl where bt: "period_bucket (qp_period p) (qp_window_seconds p) (now s) = (b, ttl)" by force
  define k where "k = policy_key p b"
  have ttl: "0 < ttl" using bucket_ttl_pos [OF W, of "now s"] bt by simp
  obtain x1 r1 where 1: "rds_incrbyfloat (q_redis env) k d (redis s) = (x1, r1)" by force
  obtain x2 r2 where 2: "rds_expire (q_redis env) k ttl r1 = (x2, r2)" by force
  have "x1 = Inr ()" "x2 = Inr ()"
    using R 1 2 unfolding redis_counters_ok_def by (metis fst_conv)+
  moreover have "counter_of (q_redis env) k' r2 = (if k' = k then counter_of (q_redis env) k (redis s) + d
      else counter_of (q_redis env) k' (redis s))" for k'
    using R 1 2 ttl unfolding redis_counters_ok_def by (metis snd_conv)
  moreover have "counter_key p (now s) = k" by (simp add: counter_key_def k_def bt)
  ultimately show ?thesis
    using False 1 2
    by (intro exI [of _ r2])
       (auto simp: charge_policy_def Let_def bt mbind_def on_redis_def d_def [symmetric] k_def [symmetric])
qed

lemma charge_policies_run:
  assumes R: "redis_counters_ok (q_redis env)"
  shows "windows_ok ps \<Longrightarrow>
    \<exists>r'. mfor ps (charge_policy env inp out cost) s = (Inr (), s\<lparr>redis := r'\<rparr>) \<and>
    (\<forall>k. counter_of (q_redis env) k r' = counter_of (q_redis env) k (redis s) + charges inp out cost ps (now s) k)"
proof (induction ps arbitrary: s)
  case Nil
  then show ?case by (intro exI [of _ "redis s"]) (simp add: charges_def)
next
  case (Cons p ps)
  from Cons.prems have W: "window_ok (qp_period p) (qp_window_seconds p)" "windows_ok ps"
    by (simp_all add: windows_ok_def)
  from charge_policy_run [OF R W(1), of inp out cost s] obtain r1 where
    1: "charge_policy env inp out cost p s = (Inr (), s\<lparr>redis := r1\<rparr>)"
       "\<forall>k. counter_of (q_redis env) k r1 = counter_of (q_redis env) k (redis s) +
          (if counter_key p (now s) = k then metric_delta inp out cost (qp_metric p) else 0)" by blast
  from Cons.IH [OF W(2), of "s\<lparr>redis := r1\<rparr>"] obtain r2 where
    2: "mfor ps (charge_policy env inp out cost) (s\<lparr>redis := r1\<rparr>) = (Inr (), s\<lparr>redis := r2\<rparr>)"
       "\<forall>k. counter_of (q_redis env) k r2 = counter_of (q_redis env) k r1 + charges inp out cost ps (now s) k"
    by auto
  from 1 2 show ?case
    by (intro exI [of _ r2]) (simp add: mbind_def charges_def)
qed

lemma charges_single:
  assumes "p \<in> set ps" "distinct (map (\<lambda>p. counter_key p t) ps)"
  shows "charges inp out cost ps t (counter_key p t) = metric_delta inp out cost (qp_metric p)"
  using assms
proof (induction ps)
  case (Cons q ps)
  have zero: "charges inp out cost ps t k = 0" if "k \<notin> (\<lambda>p. counter_key p t) ` set ps" for k
    using that by (induction ps) (auto simp: charges_def)
  show ?case
  proof (cases "p = q")
    case True
    with Cons.prems zero [of "counter_key p t"] show ?thesis by (simp add: charges_def)
  next
    case False
    with Cons show ?thesis by (auto simp: charges_def)
  qed
qed simp

lemma record_usage_run:
  assumes R: "redis_counters_ok (q_redis env)" "feature_quota env" "u \<noteq> []"
    and ok: "\<And>r. q_insert_refused env r = None" and W: "windows_ok (t_policies (work s))"
    and row_def: "row = usage_event run u g m inp out cost (new_uuid (seed s)) (now s)"
  shows "\<exists>r'. record_usage env run (Some u) g m inp out cost s =
      (Inr (), s\<lparr>seed := Suc (seed s), work := t_usage_update (\<lambda>rs. rs @ [row]) (work s),
                 durable := t_usage_update (\<lambda>rs. rs @ [row]) (work s), redis := r'\<rparr>) \<and>
    (\<forall>k. counter_of (q_redis env) k r' = counter_of (q_redis env) k (redis s) +
       charges inp out cost (effective_now u g m s) (now s) k)"
proof -
  let ?d = "t_usage_update (\<lambda>rs. rs @ [row]) (work s)"
  let ?s1 = "s\<lparr>seed := Suc (seed s), work := ?d, durable := ?d\<rparr>"
  have ins: "insert_usage env (usage_event run u g m inp out cost) s = (Inr (), ?s1)"
    by (simp add: insert_usage_def run_create_no_clash run_bind_Inr ok row_def)
  have "windows_ok (effective_now u g m s)"
    using W effective_subset [of u g m "t_policies (work s)"]
    by (auto simp: windows_ok_def effective_now_def list_matching_def)
  from charge_policies_run [OF R(1) this, of inp out cost ?s1]
  obtain r' where
    c: "mfor (effective_now u g m s) (charge_policy env inp out cost) ?s1 = (Inr (), ?s1\<lparr>redis := r'\<rparr>)"
       "\<forall>k. counter_of (q_redis env) k r' = counter_of (q_redis env) k (redis s) +
          charges inp out cost (effective_now u g m s) (now s) k"
    by auto
  have "record_usage env run (Some u) g m inp out cost s = (Inr (), ?s1\<lparr>redis := r'\<rparr>)"
    using R(2,3) c(1)
    by (simp add: record_usage_def mbind_def mcatch_def ins effective_now_def)
  with c(2) show ?thesis by auto
qed

text \<open>C5. Recording a completed run, with a server that answers and a database that accepts the row:
  the audit row is committed together with everything the request wrote before, and the counter each
  effective policy will be checked against has grown by exactly the run's figure for its metric.\<close>

theorem record_usage_spec:
  assumes "redis_counters_ok (q_redis env)" "feature_quota env" "u \<noteq> []"
    "\<forall>r. q_insert_refused env r = None" "windows_ok (t_policies (work s))"
  shows "\<exists>s'. record_usage env run (Some u) g m inp out cost s = (Inr (), s') \<and>
     work s' = t_usage_update (\<lambda>rs. rs @ [usage_event run u g m inp out cost (new_uuid (seed s)) (now s)]) (work s) \<and>
     durable s' = work s' \<and> now s' = now s \<and>
     (\<forall>p \<in> set (effective_now u g m s).
        used_of env s' p = used_of env s p + metric_delta inp out cost (qp_metric p))"
proof -
  obtain r' where r:
    "record_usage env run (Some u) g m inp out cost s =
      (Inr (), s\<lparr>seed := Suc (seed s),
        work := t_usage_update (\<lambda>rs. rs @ [usage_event run u g m inp out cost (new_uuid (seed s)) (now s)]) (work s),
        durable := t_usage_update (\<lambda>rs. rs @ [usage_event run u g m inp out cost (new_uuid (seed s)) (now s)]) (work s),
        redis := r'\<rparr>)"
    "\<forall>k. counter_of (q_redis env) k r' = counter_of (q_redis env) k (redis s) +
       charges inp out cost (effective_now u g m s) (now s) k"
    using record_usage_run [OF assms(1-3) _ assms(5) refl, of run g m inp out cost] assms(4) by auto
  have "charges inp out cost (effective_now u g m s) (now s) (counter_key p (now s)) = metric_delta inp out cost (qp_metric p)"
    if "p \<in> set (effective_now u g m s)" for p
    using that effective_keys unfolding effective_now_def by (rule charges_single)
  with r show ?thesis
    by (auto simp: used_of_def)
qed

lemma demo_windows: "windows_ok (t_policies (work demo_sess))"
  by (simp add: windows_ok_def demo_sess_def demo_policies_def demo_policy_def window_ok_def)

theorem record_usage_spec_witness:
  "\<exists>s'. record_usage demo_env (Some ''r1'') (Some ''bob'') [] None 10 20 None demo_sess = (Inr (), s') \<and>
     durable s' = work s' \<and> length (t_usage (work s')) = 1"
proof -
  from record_usage_spec [of demo_env "''bob''" demo_sess "Some ''r1''" "[]" None 10 20 None]
  obtain s' where
    "record_usage demo_env (Some ''r1'') (Some ''bob'') [] None 10 20 None demo_sess = (Inr (), s')"
    "work s' = t_usage_update (\<lambda>rs. rs @ [usage_event (Some ''r1'') ''bob'' [] None 10 20 None (new_uuid (seed demo_sess)) (now demo_sess)]) (work demo_sess)"
    "durable s' = work s'"
    by (auto simp: mem_redis_counters_ok demo_windows)
  then show ?thesis
    by (intro exI [of _ s']) (simp add: demo_sess_def empty_db_def)
qed

text \<open>Callers that cannot be identified are neither refused nor metered, and with the feature
  switched off nobody is: both operations then leave the state as it is.\<close>

theorem quota_not_applicable:
  assumes "\<not> feature_quota env \<or> \<not> truthy_str u"
  shows "assert_within_quota env u g m s = (Inr (), s) \<and>
         record_usage env run u g m inp out cost s = (Inr (), s)"
  using assms by (auto simp: assert_within_quota_def record_usage_def)

theorem quota_not_applicable_witness:
  "record_usage demo_env None None [''sales''] None 10 20 None demo_sess = (Inr (), demo_sess)"
  using quota_not_applicable [of demo_env None] by simp

text \<open>A turn as the chat service brackets it: check, then (the run itself left out) record.\<close>

definition metered_turn ::
  "'r quota_env \<Rightarrow> string \<Rightarrow> string list \<Rightarrow> uuid option \<Rightarrow> int \<Rightarrow> int \<Rightarrow> real option \<Rightarrow> ('r sess, unit) prog" where
  "metered_turn env u g m inp out cost =
     mbind (assert_within_quota env (Some u) g m)
       (\<lambda>_. record_usage env None (Some u) g m inp out cost)"

lemma metered_turn_step:
  assumes R: "redis_counters_ok (q_redis env)" "feature_quota env" "u \<noteq> []"
    and ok: "\<And>r. q_insert_refused env r = None" and W: "windows_ok (t_policies (work s))"
    and run: "metered_turn env u g m inp out cost s = (Inr (), s')"
  shows "now s' = now s \<and> t_policies (work s') = t_policies (work s) \<and>
    (\<forall>p \<in> set (effective_now u g m s). used_of env s p < of_int (qp_limit_value p) \<and>
       used_of env s' p = used_of env s p + metric_delta inp out cost (qp_metric p))"
proof -
  obtain r sa where a: "assert_within_quota env (Some u) g m s = (r, sa)" by force
  have chk: "assert_within_quota env (Some u) g m s =
      (case find (over_limit env s) (effective_now u g m s) of
       None \<Rightarrow> (Inr (), s) | Some p \<Rightarrow> (Inl (quota_exceeded env p (used_of env s p)), s))"
    using R by (simp add: assert_within_quota_def check_policies_run effective_now_def)
  have none: "find (over_limit env s) (effective_now u g m s) = None"
    using run unfolding metered_turn_def mbind_def chk by (auto split: option.splits)
  with run chk have rec: "record_usage env None (Some u) g m inp out cost s = (Inr (), s')"
    by (simp add: metered_turn_def mbind_def)
  from record_usage_run [OF R ok W refl, of None g m inp out cost] rec
  have s': "now s' = now s" "t_policies (work s') = t_policies (work s)"
    "\<forall>k. counter_of (q_redis env) k (redis s') = counter_of (q_redis env) k (redis s) +
       charges inp out cost (effective_now u g m s) (now s) k"
    by auto
  have "charges inp out cost (effective_now u g m s) (now s) (counter_key p (now s)) = metric_delta inp out cost (qp_metric p)"
    if "p \<in> set (effective_now u g m s)" for p
    using that effective_keys unfolding effective_now_def by (rule charges_single)
  with s' none show ?thesis
    by (auto simp: used_of_def over_limit_def find_None_iff not_le)
qed

lemma metered_turn_admitted:
  assumes R: "redis_counters_ok (q_redis env)" "feature_quota env" "u \<noteq> []"
    and ok: "\<And>r. q_insert_refused env r = None" and W: "windows_ok (t_policies (work s))"
    and below: "\<And>p. p \<in> set (effective_now u g m s) \<Longrightarrow> used_of env s p < of_int (qp_limit_value p)"
  shows "\<exists>s'. metered_turn env u g m inp out cost s = (Inr (), s')"
proof -
  have "find (over_limit env s) (effective_now u g m s) = None"
    using below by (auto simp: find_None_iff over_limit_def not_le)
  then have "assert_within_quota env (Some u) g m s = (Inr (), s)"
    using R by (simp add: assert_within_quota_def check_policies_run effective_now_def)
  with record_usage_run [OF R ok W refl, of None g m inp out cost] show ?thesis
    by (auto simp: metered_turn_def mbind_def)
qed



text \<open>C38. The audit row is written in the request's own transaction: when the database refuses it,
  recording still reports success, but the rollback takes with it everything the request had written
  since its last commit.\<close>

theorem refused_usage_discards_turn:
  assumes R: "redis_counters_ok (q_redis env)" "feature_quota env" "u \<noteq> []"
    and refused: "\<forall>r. q_insert_refused env r \<noteq> None"
    and W: "windows_ok (t_policies (durable s))"
  shows "\<exists>s'. record_usage env run (Some u) g m inp out cost s = (Inr (), s') \<and>
           work s' = durable s \<and> durable s' = durable s"
proof -
  let ?s1 = "s\<lparr>seed := Suc (seed s), work := durable s\<rparr>"
  have ins: "mcatch (insert_usage env (usage_event run u g m inp out cost)) (\<lambda>_. rollback) s = (Inr (), ?s1)"
  proof -
    obtain e where "q_insert_refused env (usage_event run u g m inp out cost (new_uuid (seed s)) (now s)) = Some e"
      using refused by blast
    then show ?thesis
      by (simp add: insert_usage_def mbind_def mcatch_def run_create_no_clash)
  qed
  have "windows_ok (effective_now u g m ?s1)"
    using W effective_subset [of u g m "t_policies (durable s)"]
    by (auto simp: windows_ok_def effective_now_def list_matching_def)
  from charge_policies_run [OF R(1) this, of inp out cost ?s1] obtain r' where
    "mfor (effective_now u g m ?s1) (charge_policy env inp out cost) ?s1 = (Inr (), ?s1\<lparr>redis := r'\<rparr>)"
    by blast
  with R(2,3) ins show ?thesis
    by (simp add: record_usage_def effective_now_def run_bind_Inr mcatch_def)
qed

theorem refused_usage_discards_turn_witness:
  "\<exists>s'. record_usage (demo_env\<lparr>q_insert_refused := (\<lambda>_. Some integrity_error)\<rparr>) None (Some ''bob'') [] None 1 1 None
          (demo_sess\<lparr>work := empty_db\<rparr>) = (Inr (), s') \<and> work s' = durable demo_sess"
  using refused_usage_discards_turn [of "demo_env\<lparr>q_insert_refused := (\<lambda>_. Some integrity_error)\<rparr>" "''bob''"
      "demo_sess\<lparr>work := empty_db\<rparr>" None "[]" None 1 1 None] demo_windows
  by (auto simp: mem_redis_counters_ok demo_sess_def)

end
