(* ===== verification/Hierarchy.thy ===== *)
theory Hierarchy
  imports Session
begin

text \<open>
  The metadata hierarchy: the repositories of \<open>app/repositories\<close> for AgentOS, Team, Agent, Skill,
  capability assignments, prompts and models, and the three services that resolve a chat target
  from it: capability intersection (\<open>capability_service.py\<close>), prompt composition
  (\<open>prompt_service.py\<close>) and model resolution (\<open>model_service.py\<close>).
\<close>

subsection \<open>Repositories\<close>

definition agent_os_by_code :: "string \<Rightarrow> agent_os list \<Rightarrow> app_error + agent_os option" where
  "agent_os_by_code c rows = scalar_one_or_none (filter (\<lambda>r. code r = c \<and> live r) rows)"

definition team_by_code :: "uuid \<Rightarrow> string \<Rightarrow> team list \<Rightarrow> app_error + team option" where
  "team_by_code os c rows =
     scalar_one_or_none (filter (\<lambda>r. tm_agent_os_id r = os \<and> code r = c \<and> live r) rows)"

definition agent_by_code :: "uuid \<Rightarrow> string \<Rightarrow> agent list \<Rightarrow> app_error + agent option" where
  "agent_by_code tm c rows =
     scalar_one_or_none (filter (\<lambda>r. ag_team_id r = tm \<and> code r = c \<and> live r) rows)"

text \<open>\<open>AgentRepository.get_first_enabled_in_team\<close>: the oldest live, enabled agent of the team.\<close>

definition first_enabled_in_team :: "uuid \<Rightarrow> agent list \<Rightarrow> app_error + agent option" where
  "first_enabled_in_team tm rows =
     scalar_one_or_none
       (take 1 (sort_key created_at (filter (\<lambda>r. ag_team_id r = tm \<and> ag_enabled r \<and> live r) rows)))"

definition skill_by_code :: "string \<Rightarrow> skill list \<Rightarrow> app_error + skill option" where
  "skill_by_code c rows = scalar_one_or_none (filter (\<lambda>r. code r = c \<and> live r) rows)"

text \<open>\<open>SkillRepository.get_capability_codes_for_agent\<close>: a join of the two link tables; the skill row
  itself is not consulted. The Python list of a set has no order of its own.\<close>

definition capability_codes_for_agent :: "uuid \<Rightarrow> db \<Rightarrow> string list" where
  "capability_codes_for_agent ag d =
     remdups (concat (map (\<lambda>l. map sc_capability_code
                (filter (\<lambda>c. sc_skill_id c = as_skill_id l) (t_skill_caps d)))
       (filter (\<lambda>l. as_agent_id l = ag) (t_agent_skills d))))"

text \<open>\<open>SkillRepository.list_skills_for_agent\<close>.\<close>

definition list_skills_for_agent :: "uuid \<Rightarrow> db \<Rightarrow> skill list" where
  "list_skills_for_agent ag d =
     sort_key code (filter live
       (concat (map (\<lambda>l. filter (\<lambda>k. row_id k = as_skill_id l) (t_skills d))
          (filter (\<lambda>l. as_agent_id l = ag) (t_agent_skills d)))))"

definition agent_os_capabilities :: "uuid \<Rightarrow> db \<Rightarrow> string list" where
  "agent_os_capabilities os d = map oc_capability_code (filter (\<lambda>r. oc_agent_os_id r = os) (t_os_caps d))"

definition team_capabilities :: "uuid \<Rightarrow> db \<Rightarrow> string list" where
  "team_capabilities tm d = map tc_capability_code (filter (\<lambda>r. tc_team_id r = tm) (t_team_caps d))"

definition agent_capabilities :: "uuid \<Rightarrow> db \<Rightarrow> string list" where
  "agent_capabilities ag d = map ac_capability_code (filter (\<lambda>r. ac_agent_id r = ag) (t_agent_caps d))"

text \<open>The four \<open>set_\<dots>_capabilities\<close> methods have one shape: delete the owner's assignments, insert one
  row per distinct code, flush.\<close>

definition replace_codes ::
  "(db \<Rightarrow> ('a row_scheme) list) \<Rightarrow> ((('a row_scheme) list \<Rightarrow> ('a row_scheme) list) \<Rightarrow> db \<Rightarrow> db)
     \<Rightarrow> (('a row_scheme) \<Rightarrow> uuid) \<Rightarrow> (uuid \<Rightarrow> string \<Rightarrow> uuid \<Rightarrow> time \<Rightarrow> 'a row_scheme)
     \<Rightarrow> uuid \<Rightarrow> string list \<Rightarrow> ('r sess, unit) prog" where
  "replace_codes tbl upd owner mk o' codes =
     mbind (modify_work (upd (filter (\<lambda>r. owner r \<noteq> o'))))
       (\<lambda>_. mfor (remdups codes) (\<lambda>c. mbind (repo_create tbl upd no_clash (mk o' c)) (\<lambda>_. mret ())))"

definition new_os_cap :: "uuid \<Rightarrow> string \<Rightarrow> uuid \<Rightarrow> time \<Rightarrow> agent_os_capability" where
  "new_os_cap o' c i t = \<lparr>row_id = i, created_at = t, oc_agent_os_id = o', oc_capability_code = c\<rparr>"

definition new_team_cap :: "uuid \<Rightarrow> string \<Rightarrow> uuid \<Rightarrow> time \<Rightarrow> team_capability" where
  "new_team_cap o' c i t = \<lparr>row_id = i, created_at = t, tc_team_id = o', tc_capability_code = c\<rparr>"

definition new_agent_cap :: "uuid \<Rightarrow> string \<Rightarrow> uuid \<Rightarrow> time \<Rightarrow> agent_capability" where
  "new_agent_cap o' c i t = \<lparr>row_id = i, created_at = t, ac_agent_id = o', ac_capability_code = c\<rparr>"

definition new_skill_cap :: "uuid \<Rightarrow> string \<Rightarrow> uuid \<Rightarrow> time \<Rightarrow> skill_capability" where
  "new_skill_cap o' c i t = \<lparr>row_id = i, created_at = t, sc_skill_id = o', sc_capability_code = c\<rparr>"

definition set_agent_os_capabilities :: "uuid \<Rightarrow> string list \<Rightarrow> ('r sess, unit) prog" where
  "set_agent_os_capabilities = replace_codes t_os_caps t_os_caps_update oc_agent_os_id new_os_cap"

definition set_team_capabilities :: "uuid \<Rightarrow> string list \<Rightarrow> ('r sess, unit) prog" where
  "set_team_capabilities = replace_codes t_team_caps t_team_caps_update tc_team_id new_team_cap"

definition set_agent_capabilities :: "uuid \<Rightarrow> string list \<Rightarrow> ('r sess, unit) prog" where
  "set_agent_capabilities = replace_codes t_agent_caps t_agent_caps_update ac_agent_id new_agent_cap"

definition set_capability_codes :: "uuid \<Rightarrow> string list \<Rightarrow> ('r sess, unit) prog" where
  "set_capability_codes = replace_codes t_skill_caps t_skill_caps_update sc_skill_id new_skill_cap"

definition skill_capability_codes :: "uuid \<Rightarrow> db \<Rightarrow> string list" where
  "skill_capability_codes sk d = map sc_capability_code (filter (\<lambda>r. sc_skill_id r = sk) (t_skill_caps d))"

text \<open>\<open>assign_to_agent\<close> hits the unique constraint on a second assignment; \<open>unassign_from_agent\<close>
  deletes.\<close>

definition assign_to_agent :: "uuid \<Rightarrow> uuid \<Rightarrow> ('r sess, agent_skill) prog" where
  "assign_to_agent ag sk =
     repo_create t_agent_skills t_agent_skills_update
       (\<lambda>r x. as_agent_id x = as_agent_id r \<and> as_skill_id x = as_skill_id r)
       (\<lambda>i t. \<lparr>row_id = i, created_at = t, as_agent_id = ag, as_skill_id = sk\<rparr>)"

definition unassign_from_agent :: "uuid \<Rightarrow> uuid \<Rightarrow> ('r sess, unit) prog" where
  "unassign_from_agent ag sk =
     modify_work (t_agent_skills_update (filter (\<lambda>r. \<not> (as_agent_id r = ag \<and> as_skill_id r = sk))))"

subsection \<open>Capability resolution\<close>

record capability_result =
  cr_agent_os :: "string list"
  cr_team :: "string list"
  cr_agent :: "string list"
  cr_effective :: "string list"

text \<open>\<open>sorted(set(xs))\<close>.\<close>

definition sorted_set :: "string list \<Rightarrow> string list" where
  "sorted_set xs = sort (remdups xs)"

lemma set_sorted_set [simp]: "set (sorted_set xs) = set xs"
  by (simp add: sorted_set_def)

lemma sorted_set_sorted [simp]: "sorted (sorted_set xs)" "distinct (sorted_set xs)"
  by (simp_all add: sorted_set_def)

definition usable :: "('a \<Rightarrow> bool) \<Rightarrow> 'a option \<Rightarrow> bool" where
  "usable enabled r = (case r of None \<Rightarrow> False | Some x \<Rightarrow> enabled x)"

definition cap_error :: "string \<Rightarrow> uuid \<Rightarrow> app_error" where
  "cap_error cls i = mk_error CapabilityResolutionError (cls @ '' '' @ i @ '' not found or disabled'')"

definition resolve_capabilities :: "uuid \<Rightarrow> uuid \<Rightarrow> uuid \<Rightarrow> db \<Rightarrow> app_error + capability_result" where
  "resolve_capabilities os tm ag d =
     (case (repo_get os (t_agent_os d), repo_get tm (t_teams d), repo_get ag (t_agents d)) of
        (Inl e, _, _) \<Rightarrow> Inl e
      | (_, Inl e, _) \<Rightarrow> Inl e
      | (_, _, Inl e) \<Rightarrow> Inl e
      | (Inr o', Inr t, Inr a) \<Rightarrow>
          (if \<not> usable os_enabled o' then Inl (cap_error ''AgentOS'' os)
           else if \<not> usable tm_enabled t then Inl (cap_error ''Team'' tm)
           else if \<not> usable ag_enabled a then Inl (cap_error ''Agent'' ag)
           else let os_caps = agent_os_capabilities os d;
                    tm_caps = team_capabilities tm d;
                    ag_caps = agent_capabilities ag d @ capability_codes_for_agent ag d
                in Inr \<lparr>cr_agent_os = sorted_set os_caps, cr_team = sorted_set tm_caps,
                        cr_agent = sorted_set ag_caps,
                        cr_effective = sorted_set (filter (\<lambda>c. c \<in> set tm_caps \<and> c \<in> set ag_caps) os_caps)\<rparr>))"

subsection \<open>Prompt composition\<close>

definition prompt_content :: "uuid option \<Rightarrow> db \<Rightarrow> app_error + string option" where
  "prompt_content pid d =
     (case pid of None \<Rightarrow> Inr None
      | Some i \<Rightarrow> (case repo_get i (t_prompts d) of
                     Inl e \<Rightarrow> Inl e
                   | Inr None \<Rightarrow> Inr None
                   | Inr (Some p) \<Rightarrow> Inr (Some (pr_content p))))"

definition newline :: string where
  "newline = [CHR 0x0A]"

definition section_of :: "string \<Rightarrow> string \<Rightarrow> string option \<Rightarrow> string list" where
  "section_of title c content =
     (if truthy_str content then [''# '' @ title @ '' ('' @ c @ '')'' @ newline @ the content] else [])"

definition or_default :: "string list \<Rightarrow> string \<Rightarrow> string" where
  "or_default sections d = (if sections = [] then d else join_str (newline @ newline) sections)"

definition compose_prompt :: "agent_os \<Rightarrow> team \<Rightarrow> agent \<Rightarrow> db \<Rightarrow> app_error + string" where
  "compose_prompt os tm ag d =
     (case prompt_content (shared_prompt_id os) d of Inl e \<Rightarrow> Inl e | Inr po \<Rightarrow>
      (case prompt_content (team_prompt_id tm) d of Inl e \<Rightarrow> Inl e | Inr pt \<Rightarrow>
       (case prompt_content (ag_prompt_id ag) d of Inl e \<Rightarrow> Inl e | Inr pa \<Rightarrow>
          Inr (or_default
                 (section_of ''Organization Context'' (code os) po @
                  section_of ''Team Context'' (code tm) pt @
                  section_of ''Agent Instructions'' (code ag) pa)
                 (''You are '' @ ag_name ag @ '', an agent within team '' @ tm_name tm @ ''.'')))))"

definition compose_team_only :: "agent_os \<Rightarrow> team \<Rightarrow> db \<Rightarrow> app_error + string" where
  "compose_team_only os tm d =
     (case prompt_content (shared_prompt_id os) d of Inl e \<Rightarrow> Inl e | Inr po \<Rightarrow>
      (case prompt_content (team_prompt_id tm) d of Inl e \<Rightarrow> Inl e | Inr pt \<Rightarrow>
         Inr (or_default
                (section_of ''Organization Context'' (code os) po @
                 section_of ''Team Context'' (code tm) pt)
                (''You are the coordinator for team '' @ tm_name tm @ ''. '' @
                 ''Delegate to your team members as appropriate and synthesize their responses.''))))"

definition compose_root_only :: "agent_os \<Rightarrow> db \<Rightarrow> app_error + string" where
  "compose_root_only os d =
     (case prompt_content (shared_prompt_id os) d of Inl e \<Rightarrow> Inl e | Inr po \<Rightarrow>
        Inr (or_default
               (section_of ''Organization Context'' (code os) po)
               (''You are the router for this AgentOS. '' @
                ''Inspect the incoming request and delegate it to the most appropriate team.'')))"

subsection \<open>Model resolution\<close>

text \<open>The part of the settings the provider clients are built from.\<close>

record model_settings =
  openai_api_key :: "string option"
  anthropic_api_key :: "string option"

text \<open>The Agno model wrapper that is constructed, with the arguments it is given.\<close>

datatype agno_model =
    OpenAIChat string real int "string option" "string option" "(string \<times> json) list"
  | OpenAILike string string real int string string "(string \<times> json) list"
  | Claude string real int "string option" "(string \<times> json) list option"

definition resolve_registry_entry :: "uuid option \<Rightarrow> uuid option \<Rightarrow> db \<Rightarrow> app_error + model_registry" where
  "resolve_registry_entry agent_model_id os_default d =
     (case or_str agent_model_id os_default of
        None \<Rightarrow> Inl (mk_error ValidationFailedError
                  ''No model_id resolvable: neither Agent.model_id nor AgentOS.default_model_id is set'')
      | Some i \<Rightarrow>
          (case repo_get i (t_models d) of
             Inl e \<Rightarrow> Inl e
           | Inr r \<Rightarrow> (if usable mr_enabled r then Inr (the r)
                       else Inl (mk_error ValidationFailedError
                              (''ModelRegistry entry '' @ i @ '' not found or disabled'')))))"

text \<open>Passing a keyword twice, once by name and once through \<open>**extra_params\<close>, is a \<open>TypeError\<close>.\<close>

definition keyword_clash :: "string list \<Rightarrow> (string \<times> json) list \<Rightarrow> bool" where
  "keyword_clash names extra = list_ex (\<lambda>kv. fst kv \<in> set names) extra"

definition type_error :: app_error where
  "type_error = mk_error (PyException ''TypeError'') ''got multiple values for keyword argument''"

definition quoted :: "string \<Rightarrow> string" where
  "quoted s = [CHR 0x27] @ s @ [CHR 0x27]"

definition build_agno_model :: "model_settings \<Rightarrow> model_registry \<Rightarrow> real option \<Rightarrow> app_error + agno_model" where
  "build_agno_model st e temperature_override =
     (let temperature = (case temperature_override of None \<Rightarrow> mr_temperature e | Some t \<Rightarrow> t);
          extra = (case mr_extra_client_params e of None \<Rightarrow> [] | Some x \<Rightarrow> x);
          provider = lower_str (mr_provider e)
      in if provider = ''openai'' then
           (if keyword_clash [''id'', ''temperature'', ''max_tokens'', ''api_key'', ''base_url''] extra
            then Inl type_error
            else Inr (OpenAIChat (mr_model e) temperature (mr_max_tokens e)
                        (or_str (mr_api_key e) (openai_api_key st)) (mr_base_url e) extra))
         else if provider = ''openai_like'' then
           (case mr_base_url e of
              Some url \<Rightarrow>
                if url = [] then Inl (mk_error ValidationFailedError
                  (''ModelRegistry entries with provider='' @ quoted ''openai_like'' @ '' require base_url '' @
                   ''(e.g. http://localhost:11434/v1 for a local Ollama server).''))
                else if keyword_clash [''id'', ''name'', ''temperature'', ''max_tokens'', ''api_key'', ''base_url''] extra
                then Inl type_error
                else Inr (OpenAILike (mr_model e) (''openai_like:'' @ mr_model e) temperature (mr_max_tokens e)
                       (case or_str (mr_api_key e) (openai_api_key st) of
                          Some k \<Rightarrow> if k = [] then ''not-provided'' else k
                        | None \<Rightarrow> ''not-provided'') url extra)
            | None \<Rightarrow> Inl (mk_error ValidationFailedError
                  (''ModelRegistry entries with provider='' @ quoted ''openai_like'' @ '' require base_url '' @
                   ''(e.g. http://localhost:11434/v1 for a local Ollama server).'')))
         else if provider = ''anthropic'' then
           (let params = (if truthy_str (mr_base_url e)
                          then dict_set extra ''base_url'' (opt_str (mr_base_url e)) else extra)
            in Inr (Claude (mr_model e) temperature (mr_max_tokens e)
                      (or_str (mr_api_key e) (anthropic_api_key st))
                      (if params = [] then None else Some params)))
         else Inl (mk_error ValidationFailedError
                (''Unsupported model provider in registry: '' @ quoted (mr_provider e) @ ''. '' @
                 ''Use '' @ quoted ''openai'' @ '', '' @ quoted ''anthropic'' @ '', or '' @ quoted ''openai_like'' @
                 '' (for local/custom OpenAI-compatible endpoints).'')))"

subsection \<open>Assignment tables\<close>

text \<open>What a capability table owes its callers: a new row belongs to the owner and carries the code it
  was made for.\<close>

locale assignment_table = table rows upd
  for rows :: "db \<Rightarrow> ('a row_scheme) list"
    and upd :: "(('a row_scheme) list \<Rightarrow> ('a row_scheme) list) \<Rightarrow> db \<Rightarrow> db" +
  fixes owner :: "('a row_scheme) \<Rightarrow> uuid"
    and code_of :: "('a row_scheme) \<Rightarrow> string"
    and mk :: "uuid \<Rightarrow> string \<Rightarrow> uuid \<Rightarrow> time \<Rightarrow> 'a row_scheme"
  assumes owner_mk: "owner (mk o' c i t) = o'"
    and code_mk: "code_of (mk o' c i t) = c"
begin

definition codes :: "uuid \<Rightarrow> db \<Rightarrow> string list" where
  "codes o' d = map code_of (filter (\<lambda>r. owner r = o') (rows d))"

lemma insert_codes:
  "\<exists>s'. mfor cs (\<lambda>c. mbind (repo_create rows upd no_clash (mk o' c)) (\<lambda>_. mret ())) s = (Inr (), s') \<and>
     codes o' (work s') = codes o' (work s) @ cs \<and>
     (\<forall>o2. o2 \<noteq> o' \<longrightarrow> codes o2 (work s') = codes o2 (work s)) \<and> durable s' = durable s"
proof (induction cs arbitrary: s)
  case (Cons c cs)
  let ?s1 = "s\<lparr>seed := Suc (seed s),
      work := upd (\<lambda>rs. rs @ [mk o' c (new_uuid (seed s)) (now s)]) (work s)\<rparr>"
  have 1: "codes o' (work ?s1) = codes o' (work s) @ [c]"
    "o2 \<noteq> o' \<Longrightarrow> codes o2 (work ?s1) = codes o2 (work s)" for o2
    by (simp_all add: codes_def rows_upd owner_mk code_mk)
  from Cons [of ?s1] 1 show ?case
    by (auto simp: mbind_def run_create_no_clash)
qed simp

lemma replace_codes_spec:
  "\<exists>s'. replace_codes rows upd owner mk o' cs s = (Inr (), s') \<and>
     codes o' (work s') = remdups cs \<and>
     (\<forall>o2. o2 \<noteq> o' \<longrightarrow> codes o2 (work s') = codes o2 (work s)) \<and> durable s' = durable s"
proof -
  let ?s1 = "s\<lparr>work := upd (filter (\<lambda>r. owner r \<noteq> o')) (work s)\<rparr>"
  have "codes o' (work ?s1) = []"
    by (auto simp: codes_def rows_upd filter_empty_conv)
  moreover have "codes o2 (work ?s1) = codes o2 (work s)" if "o2 \<noteq> o'" for o2
  proof -
    have "filter (\<lambda>r. owner r = o2) (filter (\<lambda>r. owner r \<noteq> o') xs) = filter (\<lambda>r. owner r = o2) xs" for xs
      using that by (induction xs) auto
    then show ?thesis by (simp add: codes_def rows_upd)
  qed
  ultimately show ?thesis
    using insert_codes [of "remdups cs" o' ?s1] by (auto simp: replace_codes_def mbind_def)
qed

end

interpretation os_caps: assignment_table t_os_caps t_os_caps_update oc_agent_os_id oc_capability_code new_os_cap
  by unfold_locales (simp_all add: new_os_cap_def)

interpretation team_caps: assignment_table t_team_caps t_team_caps_update tc_team_id tc_capability_code new_team_cap
  by unfold_locales (simp_all add: new_team_cap_def)

interpretation agent_caps: assignment_table t_agent_caps t_agent_caps_update ac_agent_id ac_capability_code new_agent_cap
  by unfold_locales (simp_all add: new_agent_cap_def)

interpretation skill_caps: assignment_table t_skill_caps t_skill_caps_update sc_skill_id sc_capability_code new_skill_cap
  by unfold_locales (simp_all add: new_skill_cap_def)

text \<open>C14. The capabilities an agent may use are exactly those assigned at all three levels: to its
  AgentOS, to its Team, and to the Agent itself directly or through a linked skill. No level can add
  to what another withholds, and nothing is resolved when one of the three is missing, soft-deleted
  or disabled.\<close>

theorem effective_capabilities_intersection:
  assumes "resolve_capabilities os tm ag d = Inr r"
  shows "set (cr_effective r) = set (agent_os_capabilities os d) \<inter> set (team_capabilities tm d) \<inter>
           (set (agent_capabilities ag d) \<union> set (capability_codes_for_agent ag d)) \<and>
         sorted (cr_effective r) \<and> distinct (cr_effective r) \<and>
         (\<exists>o' \<in> set (t_agent_os d). row_id o' = os \<and> live o' \<and> os_enabled o') \<and>
         (\<exists>t \<in> set (t_teams d). row_id t = tm \<and> live t \<and> tm_enabled t) \<and>
         (\<exists>a \<in> set (t_agents d). row_id a = ag \<and> live a \<and> ag_enabled a)"
  using assms
  by (auto simp: resolve_capabilities_def usable_def Let_def split: sum.splits if_splits option.splits
      dest!: repo_get_member)

text \<open>Replacing the capabilities of an AgentOS: reading them back gives each given code once, no
  other AgentOS is affected, and nothing is committed yet.\<close>

theorem set_get_os_capabilities:
  "\<exists>s'. set_agent_os_capabilities os cs s = (Inr (), s') \<and>
     agent_os_capabilities os (work s') = remdups cs \<and>
     (\<forall>o2. o2 \<noteq> os \<longrightarrow> agent_os_capabilities o2 (work s') = agent_os_capabilities o2 (work s)) \<and>
     durable s' = durable s"
  using os_caps.replace_codes_spec [of os cs s]
  by (simp add: set_agent_os_capabilities_def agent_os_capabilities_def os_caps.codes_def)

text \<open>Soft-deleting a skill takes it off its agents' skill lists but not out of their capability
  set: the codes of a deleted skill still count as the agent's own.\<close>

theorem deleted_skill_keeps_capabilities:
  "let d' = t_skills_update (put_row (k\<lparr>deleted_at := Some t\<rparr>)) d in
     (\<forall>k' \<in> set (list_skills_for_agent ag d'). row_id k' \<noteq> row_id k) \<and>
     capability_codes_for_agent ag d' = capability_codes_for_agent ag d"
  by (auto simp: Let_def list_skills_for_agent_def capability_codes_for_agent_def put_row_def live_def
      split: if_splits)

subsection \<open>A small platform\<close>

text \<open>One AgentOS with one team of one agent and one model, used where a property is shown to apply.\<close>

definition demo_os :: agent_os where
  "demo_os = \<lparr>row_id = ''os1'', created_at = 0, deleted_at = None, code = ''acme'', os_name = ''Acme'',
     os_description = None, default_model_id = Some ''m1'', shared_prompt_id = None, os_enabled = True\<rparr>"

definition demo_team :: team where
  "demo_team = \<lparr>row_id = ''t1'', created_at = 0, deleted_at = None, code = ''sales'', tm_agent_os_id = ''os1'',
     tm_name = ''Sales'', tm_description = None, team_prompt_id = None, tm_enabled = True\<rparr>"

definition demo_agent :: agent where
  "demo_agent = \<lparr>row_id = ''a1'', created_at = 0, deleted_at = None, code = ''seller'', ag_team_id = ''t1'',
     ag_name = ''Seller'', ag_description = None, ag_prompt_id = None, ag_model_id = None,
     ag_temperature = None, ag_enabled = True\<rparr>"

definition demo_model :: model_registry where
  "demo_model = \<lparr>row_id = ''m1'', created_at = 0, deleted_at = None, mr_provider = ''openai'',
     mr_model = ''gpt-4o-mini'', mr_temperature = 0, mr_max_tokens = 4096, mr_enabled = True,
     cost_per_1k_input_tokens = Some 1, cost_per_1k_output_tokens = None, mr_base_url = None,
     mr_api_key = None, mr_extra_client_params = None\<rparr>"

definition demo_skill :: skill where
  "demo_skill = \<lparr>row_id = ''k1'', created_at = 0, deleted_at = None, code = ''crm'', sk_name = ''CRM'',
     sk_description = None, sk_instructions = None, sk_type = SkMcp, sk_config = None\<rparr>"

definition demo_db :: db where
  "demo_db = empty_db\<lparr>
     t_agent_os := [demo_os], t_teams := [demo_team], t_agents := [demo_agent], t_models := [demo_model],
     t_skills := [demo_skill],
     t_skill_caps := [\<lparr>row_id = ''kc1'', created_at = 0, sc_skill_id = ''k1'', sc_capability_code = ''customer.read''\<rparr>],
     t_agent_skills := [\<lparr>row_id = ''ak1'', created_at = 0, as_agent_id = ''a1'', as_skill_id = ''k1''\<rparr>],
     t_os_caps := [new_os_cap ''os1'' ''customer.read'' ''oc1'' 0, new_os_cap ''os1'' ''customer.create'' ''oc2'' 0],
     t_team_caps := [new_team_cap ''t1'' ''customer.read'' ''tc1'' 0, new_team_cap ''t1'' ''order.read'' ''tc2'' 0]\<rparr>"

lemmas demo_rows = demo_os_def demo_team_def demo_agent_def demo_model_def demo_skill_def
  new_os_cap_def new_team_cap_def

lemma demo_db_simps [simp]:
  "t_agent_os demo_db = [demo_os]" "t_teams demo_db = [demo_team]" "t_agents demo_db = [demo_agent]"
  "t_models demo_db = [demo_model]" "t_skills demo_db = [demo_skill]" "t_policies demo_db = []"
  "t_sessions demo_db = []" "t_runs demo_db = []" "t_events demo_db = []" "t_messages demo_db = []"
  "t_agent_caps demo_db = []" "t_prompts demo_db = []"
  by (simp_all add: demo_db_def empty_db_def)

lemma demo_capabilities:
  "resolve_capabilities ''os1'' ''t1'' ''a1'' demo_db =
     Inr \<lparr>cr_agent_os = [''customer.create'', ''customer.read''], cr_team = [''customer.read'', ''order.read''],
          cr_agent = [''customer.read''], cr_effective = [''customer.read'']\<rparr>"
  by code_simp

theorem effective_capabilities_intersection_witness:
  "\<exists>r. resolve_capabilities ''os1'' ''t1'' ''a1'' demo_db = Inr r \<and>
     set (cr_effective r) = set (agent_os_capabilities ''os1'' demo_db) \<inter> set (team_capabilities ''t1'' demo_db) \<inter>
       (set (agent_capabilities ''a1'' demo_db) \<union> set (capability_codes_for_agent ''a1'' demo_db))"
  using effective_capabilities_intersection [OF demo_capabilities] demo_capabilities by blast

theorem set_get_os_capabilities_witness:
  "\<exists>s'. set_agent_os_capabilities ''os1'' [''a'', ''b'', ''a'']
          \<lparr>work = demo_db, durable = demo_db, now = 0, seed = 0, redis = ()\<rparr> = (Inr (), s') \<and>
     agent_os_capabilities ''os1'' (work s') = [''b'', ''a'']"
  using set_get_os_capabilities [of "''os1''" "[''a'', ''b'', ''a'']"
      "\<lparr>work = demo_db, durable = demo_db, now = 0, seed = 0, redis = ()\<rparr>"]
  by auto

theorem deleted_skill_keeps_capabilities_witness:
  "capability_codes_for_agent ''a1'' (t_skills_update (put_row (demo_skill\<lparr>deleted_at := Some 5\<rparr>)) demo_db)
     = [''customer.read'']"
proof -
  have "capability_codes_for_agent ''a1'' demo_db = [''customer.read'']"
    by code_simp
  with deleted_skill_keeps_capabilities [where k = demo_skill and t = 5 and d = demo_db and ag = "''a1''"] show ?thesis
    by (simp add: Let_def)
qed

end
