(* ===== verification/Identity.thy ===== *)
theory Identity
  imports Effects
begin

text \<open>
  Who the caller is. \<open>app/core/identity.py\<close> verifies a bearer token against Keycloak's published keys
  and never raises; \<open>app/core/identity_context.py\<close> decides which user id a request counts as;
  \<open>app/core/auth_context.py\<close> keeps the raw credentials that are forwarded unchanged;
  \<open>app/core/middleware.py\<close> fills both contexts at the start of a request. The JOSE library and the
  HTTP fetch of the keys are parameters.
\<close>

subsection \<open>Propagated credentials\<close>

record propagated_auth =
  pa_authorization :: "string option"
  pa_api_key :: "string option"
  pa_correlation_id :: "string option"

definition empty_auth :: propagated_auth where
  "empty_auth = \<lparr>pa_authorization = None, pa_api_key = None, pa_correlation_id = None\<rparr>"

definition put_header :: "string \<Rightarrow> string option \<Rightarrow> (string, string) pydict \<Rightarrow> (string, string) pydict" where
  "put_header k v h = (if truthy_str v then dict_set h k (the v) else h)"

definition as_forward_headers :: "propagated_auth \<Rightarrow> (string, string) pydict" where
  "as_forward_headers a =
     put_header ''X-Correlation-ID'' (pa_correlation_id a)
       (put_header ''X-API-Key'' (pa_api_key a)
         (put_header ''Authorization'' (pa_authorization a) []))"

definition has_credentials :: "propagated_auth \<Rightarrow> bool" where
  "has_credentials a = (truthy_str (pa_authorization a) \<or> truthy_str (pa_api_key a))"

subsection \<open>Verified identity\<close>

record verified_identity =
  vi_user_id :: string
  vi_username :: "json option"
  vi_email :: "json option"
  vi_groups :: "string list"
  vi_realm :: "string option"

record identity_settings =
  feature_keycloak_auth :: bool
  keycloak_audience :: "string option"
  keycloak_issuer_url :: "string option"
  keycloak_realm :: "string option"

text \<open>The key cache, and what the library calls and the key server answer: \<open>fetch n\<close> is the answer to
  the \<open>n\<close>-th fetch made during the request.\<close>

record jwks_cache =
  jc_jwks :: "json option"
  jc_fetched_at :: time

record jose_ops =
  jo_unverified_header :: "string \<Rightarrow> app_error + json"
  jo_decode :: "string \<Rightarrow> json \<Rightarrow> json option \<Rightarrow> string option \<Rightarrow> string option \<Rightarrow> app_error + json"
  jo_fetch :: "nat \<Rightarrow> app_error + json"
  jo_str :: "json \<Rightarrow> string"

definition jwks_ttl :: int where
  "jwks_ttl = 300"

text \<open>\<open>_JWKSCache.get\<close>; the counter numbers the fetches.\<close>

definition jwks_get :: "jose_ops \<Rightarrow> time \<Rightarrow> nat \<Rightarrow> jwks_cache \<Rightarrow> (app_error + json) \<times> nat \<times> jwks_cache" where
  "jwks_get ops t n cache =
     (case jc_jwks cache of
        Some k \<Rightarrow>
          if t - jc_fetched_at cache < jwks_ttl then (Inr k, n, cache)
          else (case jo_fetch ops n of
                  Inl e \<Rightarrow> (Inl e, Suc n, cache)
                | Inr j \<Rightarrow> (Inr j, Suc n, \<lparr>jc_jwks = Some j, jc_fetched_at = t\<rparr>))
      | None \<Rightarrow>
          (case jo_fetch ops n of
             Inl e \<Rightarrow> (Inl e, Suc n, cache)
           | Inr j \<Rightarrow> (Inr j, Suc n, \<lparr>jc_jwks = Some j, jc_fetched_at = t\<rparr>)))"

definition attribute_error :: app_error where
  "attribute_error = mk_error (PyException ''AttributeError'') ''object has no attribute get''"

text \<open>\<open>next((k for k in jwks.get("keys", []) if k.get("kid") == kid), None)\<close>, where a missing \<open>kid\<close> is
  None on either side and an entry that is not an object raises when it is reached.\<close>

fun first_key :: "json option \<Rightarrow> json list \<Rightarrow> app_error + json option" where
  "first_key kid [] = Inr None"
| "first_key kid (k # ks) =
     (if \<not> is_JObj k then Inl attribute_error
      else if jget k ''kid'' = kid then Inr (Some k) else first_key kid ks)"

definition find_key :: "json \<Rightarrow> json option \<Rightarrow> app_error + json option" where
  "find_key jwks kid =
     (if \<not> is_JObj jwks then Inl attribute_error
      else case jget jwks ''keys'' of
             None \<Rightarrow> Inr None
           | Some (JList ks) \<Rightarrow> first_key kid ks
           | Some _ \<Rightarrow> Inl attribute_error)"

definition is_JList :: "json \<Rightarrow> bool" where
  "is_JList j = (case j of JList _ \<Rightarrow> True | _ \<Rightarrow> False)"

fun list_items :: "json \<Rightarrow> json list" where
  "list_items (JList xs) = xs"
| "list_items _ = []"

text \<open>\<open>_extract_groups\<close>.\<close>

definition extract_groups :: "(json \<Rightarrow> string) \<Rightarrow> json \<Rightarrow> string list" where
  "extract_groups str' claims =
     (case jget claims ''groups'' of
        Some (JList gs) \<Rightarrow> map (\<lambda>g. dropWhile (\<lambda>c. c = CHR ''/'') (py_str str' g)) gs
      | _ \<Rightarrow> (case jget claims ''realm_access'' of
                Some ra \<Rightarrow> (case jget ra ''roles'' of
                              Some (JList rs) \<Rightarrow> map (py_str str') rs
                            | _ \<Rightarrow> [])
              | None \<Rightarrow> []))"

text \<open>The token of an \<open>Authorization\<close> header, when it is a bearer header with one.\<close>

definition bearer_token :: "string option \<Rightarrow> string option" where
  "bearer_token authorization =
     (case authorization of
        None \<Rightarrow> None
      | Some a \<Rightarrow>
          if \<not> starts_with (lower_str a) ''bearer '' then None
          else let token = strip (drop 7 a) in if token = [] then None else Some token)"

text \<open>The guarded part of \<open>verify_bearer_token\<close>: find the signing key, refetching the key set once when
  the cached one does not know it, and decode.\<close>

definition decode_claims ::
  "identity_settings \<Rightarrow> jose_ops \<Rightarrow> time \<Rightarrow> string \<Rightarrow> jwks_cache \<Rightarrow> (app_error + json option) \<times> jwks_cache" where
  "decode_claims st ops t token cache =
     (let (r0, n0, c0) = jwks_get ops t 0 cache in
      case r0 of Inl e \<Rightarrow> (Inl e, c0) | Inr jwks0 \<Rightarrow>
      (case jo_unverified_header ops token of Inl e \<Rightarrow> (Inl e, c0) | Inr hdr \<Rightarrow>
       (case find_key jwks0 (jget hdr ''kid'') of Inl e \<Rightarrow> (Inl e, c0) | Inr k0 \<Rightarrow>
        (let (r1, c1) =
           (case k0 of
              Some k \<Rightarrow> (Inr (Some k), c0)
            | None \<Rightarrow>
                (let (r, n1, c1) = jwks_get ops t n0 (c0\<lparr>jc_jwks := None\<rparr>)
                 in (case r of Inl e \<Rightarrow> (Inl e, c1)
                     | Inr jwks1 \<Rightarrow> (find_key jwks1 (jget hdr ''kid''), c1))))
         in case r1 of
              Inl e \<Rightarrow> (Inl e, c1)
            | Inr None \<Rightarrow> (Inr None, c1)
            | Inr (Some k) \<Rightarrow>
                ((case jo_decode ops token k
                         (Some (case jget hdr ''alg'' of None \<Rightarrow> JStr ''RS256'' | Some a \<Rightarrow> a))
                         (or_str (keycloak_audience st) None) (or_str (keycloak_issuer_url st) None) of
                    Inl e \<Rightarrow> Inl e | Inr claims \<Rightarrow> Inr (Some claims)), c1)))))"

definition verify_bearer_token ::
  "identity_settings \<Rightarrow> jose_ops \<Rightarrow> time \<Rightarrow> string option \<Rightarrow> jwks_cache \<Rightarrow> verified_identity option \<times> jwks_cache" where
  "verify_bearer_token st ops t authorization cache =
     (if \<not> feature_keycloak_auth st then (None, cache)
      else case bearer_token authorization of
        None \<Rightarrow> (None, cache)
      | Some token \<Rightarrow>
          (case decode_claims st ops t token cache of
             (Inr (Some claims), c) \<Rightarrow>
               (case jget claims ''sub'' of
                  None \<Rightarrow> (None, c)
                | Some sub \<Rightarrow>
                    if \<not> truthy sub then (None, c)
                    else (Some \<lparr>vi_user_id = py_str (jo_str ops) sub,
                                vi_username = jget claims ''preferred_username'',
                                vi_email = jget claims ''email'',
                                vi_groups = extract_groups (jo_str ops) claims,
                                vi_realm = keycloak_realm st\<rparr>, c))
           | (_, c) \<Rightarrow> (None, c)))"

subsection \<open>The effective user of a request\<close>

datatype auth_mode = TrustClientUserId | KeycloakRequired

definition resolve_effective_user_id ::
  "verified_identity option \<Rightarrow> string option \<Rightarrow> auth_mode \<Rightarrow> string option \<times> string list" where
  "resolve_effective_user_id identity client_supplied_user_id mode =
     (case identity of
        Some i \<Rightarrow> (Some (vi_user_id i), vi_groups i)
      | None \<Rightarrow> if mode = KeycloakRequired then (None, []) else (client_supplied_user_id, []))"

text \<open>What \<open>RequestContextMiddleware.dispatch\<close> puts into the request's contexts: the raw credentials
  with a correlation id, and the verified identity.\<close>

record request_context =
  rc_auth :: propagated_auth
  rc_identity :: "verified_identity option"
  rc_cache :: jwks_cache

definition dispatch_context ::
  "identity_settings \<Rightarrow> jose_ops \<Rightarrow> time \<Rightarrow> uuid \<Rightarrow> (string \<Rightarrow> string option) \<Rightarrow> jwks_cache \<Rightarrow> request_context" where
  "dispatch_context st ops t fresh_id header cache =
     (let correlation_id = (if truthy_str (header ''X-Correlation-ID'') then the (header ''X-Correlation-ID'') else fresh_id);
          auth = \<lparr>pa_authorization = header ''Authorization'', pa_api_key = header ''X-API-Key'',
                  pa_correlation_id = Some correlation_id\<rparr>;
          (identity, c) = verify_bearer_token st ops t (pa_authorization auth) cache
      in \<lparr>rc_auth = auth, rc_identity = identity, rc_cache = c\<rparr>)"

subsection \<open>Facts\<close>

lemma first_key_member: "first_key kid ks = Inr (Some k) \<Longrightarrow> k \<in> set ks \<and> jget k ''kid'' = kid"
  by (induction ks) (auto split: if_splits)

text \<open>C15. An identity is never made up: it comes from a token that the JOSE library decoded under a key
  with the key id the token names, and the user id and groups are the ones of the decoded claims.\<close>

theorem verified_identity_sound:
  assumes "verify_bearer_token st ops t authorization cache = (Some vi, cache')"
  shows "\<exists>token hdr k alg claims sub.
    feature_keycloak_auth st \<and> bearer_token authorization = Some token \<and>
    jo_unverified_header ops token = Inr hdr \<and> jget k ''kid'' = jget hdr ''kid'' \<and>
    jo_decode ops token k alg (or_str (keycloak_audience st) None) (or_str (keycloak_issuer_url st) None) = Inr claims \<and>
    jget claims ''sub'' = Some sub \<and> truthy sub \<and> vi_user_id vi = py_str (jo_str ops) sub \<and>
    vi_groups vi = extract_groups (jo_str ops) claims"
proof -
  have key: "find_key j kid = Inr (Some k) \<Longrightarrow> jget k ''kid'' = kid" for j kid k
    by (auto simp: find_key_def split: if_splits option.splits json.splits dest!: first_key_member)
  from assms obtain token where tok: "feature_keycloak_auth st" "bearer_token authorization = Some token"
    by (auto simp: verify_bearer_token_def split: if_splits option.splits)
  with assms obtain claims sub where c:
    "decode_claims st ops t token cache = (Inr (Some claims), cache')"
    "jget claims ''sub'' = Some sub" "truthy sub" "vi_user_id vi = py_str (jo_str ops) sub"
    "vi_groups vi = extract_groups (jo_str ops) claims"
    by (auto simp: verify_bearer_token_def split: if_splits option.splits sum.splits prod.splits)
  from c(1) obtain hdr k alg where
    "jo_unverified_header ops token = Inr hdr" "jget k ''kid'' = jget hdr ''kid''"
    "jo_decode ops token k alg (or_str (keycloak_audience st) None) (or_str (keycloak_issuer_url st) None) = Inr claims"
    by (auto simp: decode_claims_def Let_def split: sum.splits prod.splits option.splits dest!: key)
  with tok c show ?thesis by blast
qed

text \<open>With Keycloak required, what the client claims about itself has no influence on the user id
  and groups a request runs under, and a request without a verified identity is anonymous.\<close>

theorem no_spoofing_when_keycloak_required:
  "resolve_effective_user_id identity client1 KeycloakRequired
     = resolve_effective_user_id identity client2 KeycloakRequired \<and>
   (fst (resolve_effective_user_id identity client1 KeycloakRequired) = Some u \<longleftrightarrow>
      (\<exists>i. identity = Some i \<and> vi_user_id i = u)) \<and>
   fst (resolve_effective_user_id None client1 KeycloakRequired) = None"
  by (auto simp: resolve_effective_user_id_def split: option.splits)

text \<open>The credentials of a request reach the MCP Gateway unchanged: each forwarded header has the
  value the request came with, an absent or empty one is not invented, and nothing else is forwarded.\<close>

theorem forward_headers_verbatim:
  "dict_get (as_forward_headers a) k =
     (if k = ''Authorization'' \<and> truthy_str (pa_authorization a) then pa_authorization a
      else if k = ''X-API-Key'' \<and> truthy_str (pa_api_key a) then pa_api_key a
      else if k = ''X-Correlation-ID'' \<and> truthy_str (pa_correlation_id a) then pa_correlation_id a
      else None)"
proof -
  have the_truthy: "truthy_str v \<Longrightarrow> Some (the v) = v" for v
    by (cases v) auto
  show ?thesis
    by (auto simp: as_forward_headers_def put_header_def the_truthy)
qed

text \<open>Key rotation: a token signed with a key the cached key set does not have yet is verified all
  the same, at the price of one fetch, and the fetched key set replaces the cached one.\<close>

theorem key_rotation_recovers:
  assumes "feature_keycloak_auth st" "bearer_token authorization = Some token"
    and cached: "jc_jwks cache = Some old_keys" "t - jc_fetched_at cache < jwks_ttl"
    and hdr: "jo_unverified_header ops token = Inr hdr"
    and stale: "find_key old_keys (jget hdr ''kid'') = Inr None"
    and fresh: "jo_fetch ops 0 = Inr new_keys" "find_key new_keys (jget hdr ''kid'') = Inr (Some k)"
    and dec: "\<And>alg. jo_decode ops token k alg (or_str (keycloak_audience st) None) (or_str (keycloak_issuer_url st) None)
                = Inr claims"
    and sub: "jget claims ''sub'' = Some (JStr u)" "u \<noteq> []"
  shows "\<exists>vi. verify_bearer_token st ops t authorization cache
                = (Some vi, \<lparr>jc_jwks = Some new_keys, jc_fetched_at = t\<rparr>) \<and> vi_user_id vi = u"
  using assms
  by (simp add: verify_bearer_token_def decode_claims_def jwks_get_def Let_def)

definition demo_jose :: jose_ops where
  "demo_jose = \<lparr>
     jo_unverified_header = (\<lambda>_. Inr (JObj [(''alg'', JStr ''RS256''), (''kid'', JStr ''key2'')])),
     jo_decode = (\<lambda>_ _ _ _ _. Inr (JObj [(''sub'', JStr ''ann''), (''groups'', JList [JStr ''/sales''])])),
     jo_fetch = (\<lambda>_. Inr (JObj [(''keys'', JList [JObj [(''kid'', JStr ''key2'')]])])),
     jo_str = (\<lambda>_. [])\<rparr>"

definition demo_identity :: identity_settings where
  "demo_identity = \<lparr>feature_keycloak_auth = True, keycloak_audience = None, keycloak_issuer_url = None,
     keycloak_realm = None\<rparr>"

definition demo_cache :: jwks_cache where
  "demo_cache = \<lparr>jc_jwks = Some (JObj [(''keys'', JList [JObj [(''kid'', JStr ''key1'')]])]), jc_fetched_at = 0\<rparr>"

lemma demo_bearer: "bearer_token (Some ''Bearer abc'') = Some ''abc''"
  by code_simp

theorem key_rotation_recovers_witness:
  "\<exists>vi. verify_bearer_token demo_identity demo_jose 10 (Some ''Bearer abc'') demo_cache
          = (Some vi, \<lparr>jc_jwks = Some (JObj [(''keys'', JList [JObj [(''kid'', JStr ''key2'')]])]), jc_fetched_at = 10\<rparr>)
        \<and> vi_user_id vi = ''ann''"
  by (rule key_rotation_recovers [OF _ demo_bearer, where
        old_keys = "JObj [(''keys'', JList [JObj [(''kid'', JStr ''key1'')]])]" and
        hdr = "JObj [(''alg'', JStr ''RS256''), (''kid'', JStr ''key2'')]" and
        k = "JObj [(''kid'', JStr ''key2'')]" and
        claims = "JObj [(''sub'', JStr ''ann''), (''groups'', JList [JStr ''/sales''])]"])
     (simp_all add: demo_identity_def demo_jose_def demo_cache_def jwks_ttl_def find_key_def)

theorem verified_identity_sound_witness:
  "\<exists>vi claims. fst (verify_bearer_token demo_identity demo_jose 10 (Some ''Bearer abc'') demo_cache) = Some vi \<and>
     vi_groups vi = extract_groups (jo_str demo_jose) claims"
proof -
  have "fst (verify_bearer_token demo_identity demo_jose 10 (Some ''Bearer abc'') demo_cache) \<noteq> None"
    by (simp add: verify_bearer_token_def demo_bearer decode_claims_def jwks_get_def Let_def
        demo_identity_def demo_jose_def demo_cache_def jwks_ttl_def find_key_def)
  then obtain vi c where
    v: "verify_bearer_token demo_identity demo_jose 10 (Some ''Bearer abc'') demo_cache = (Some vi, c)"
    by (metis not_None_eq prod.collapse)
  from verified_identity_sound [OF v] show ?thesis
    by (metis v fst_conv)
qed

text \<open>While the cached key set is fresh and knows the key, no fetch is made.\<close>

lemma cached_keys_no_fetch:
  assumes "jc_jwks cache = Some jwks" "t - jc_fetched_at cache < jwks_ttl"
    "jo_unverified_header ops token = Inr hdr" "find_key jwks (jget hdr ''kid'') = Inr (Some k)"
  shows "decode_claims st ops t token cache = decode_claims st (ops\<lparr>jo_fetch := f\<rparr>) t token cache"
  using assms by (simp add: decode_claims_def jwks_get_def Let_def)

end
