(* ===== verification/Knowledge.thy ===== *)
theory Knowledge
  imports Hierarchy Identity
begin

text \<open>
  The Knowledge Skill (\<open>app/knowledge\<close>): the configuration a skill row carries, the tolerant reading of
  a search response, the rendered context block, and the service that runs every knowledge skill of
  an agent. The HTTP exchange with the Knowledge Platform and pydantic's reading of numbers written
  as text are parameters.
\<close>

subsection \<open>Configuration\<close>

record knowledge_config =
  kc_base_url :: string
  kc_search_api :: string
  kc_source_api :: string
  kc_collection_id :: string
  kc_agent_id :: "string option"
  kc_embedding_model_code :: "string option"
  kc_top_k :: int
  kc_timeout :: real

record pydantic_ops =
  pd_int :: "string \<Rightarrow> int option"
  pd_float :: "string \<Rightarrow> real option"
  pd_str :: "json \<Rightarrow> string"

definition validation_error :: "string \<Rightarrow> app_error" where
  "validation_error field = mk_error (PyException ''ValidationError'') (''validation error for '' @ field)"

definition field_str :: "string \<Rightarrow> json \<Rightarrow> app_error + string" where
  "field_str k raw = (case jget raw k of Some (JStr s) \<Rightarrow> if s = [] then Inl (validation_error k) else Inr s
                                       | _ \<Rightarrow> Inl (validation_error k))"

definition field_str_default :: "string \<Rightarrow> string \<Rightarrow> json \<Rightarrow> app_error + string" where
  "field_str_default k d raw = (case jget raw k of None \<Rightarrow> Inr d | Some (JStr s) \<Rightarrow> Inr s
                                                 | _ \<Rightarrow> Inl (validation_error k))"

definition as_opt_str :: "string \<Rightarrow> json option \<Rightarrow> app_error + string option" where
  "as_opt_str k j = (case j of None \<Rightarrow> Inr None | Some JNull \<Rightarrow> Inr None | Some (JStr s) \<Rightarrow> Inr (Some s)
                             | _ \<Rightarrow> Inl (validation_error k))"

definition json_int :: "pydantic_ops \<Rightarrow> json \<Rightarrow> int option" where
  "json_int pd j = (case j of JInt i \<Rightarrow> Some i
                            | JBool b \<Rightarrow> Some (if b then 1 else 0)
                            | JFloat r \<Rightarrow> (if of_int \<lfloor>r\<rfloor> = r then Some \<lfloor>r\<rfloor> else None)
                            | JStr s \<Rightarrow> pd_int pd s
                            | _ \<Rightarrow> None)"

definition json_float :: "pydantic_ops \<Rightarrow> json \<Rightarrow> real option" where
  "json_float pd j = (case j of JInt i \<Rightarrow> Some (of_int i)
                              | JBool b \<Rightarrow> Some (if b then 1 else 0)
                              | JFloat r \<Rightarrow> Some r
                              | JStr s \<Rightarrow> pd_float pd s
                              | _ \<Rightarrow> None)"

definition strip_trailing_slash :: "string \<Rightarrow> string" where
  "strip_trailing_slash s = rev (dropWhile (\<lambda>c. c = CHR ''/'') (rev s))"

definition leading_slash :: "string \<Rightarrow> string" where
  "leading_slash s = (if starts_with s ''/'' then s else ''/'' @ s)"

definition bounded_int :: "string \<Rightarrow> int \<Rightarrow> (json \<Rightarrow> int option) \<Rightarrow> json \<Rightarrow> app_error + int" where
  "bounded_int k d rd raw =
     (case jget raw k of None \<Rightarrow> Inr d
      | Some j \<Rightarrow> (case rd j of Some i \<Rightarrow> if 1 \<le> i \<and> i \<le> 100 then Inr i else Inl (validation_error k)
                              | None \<Rightarrow> Inl (validation_error k)))"

definition bounded_float :: "string \<Rightarrow> real \<Rightarrow> (json \<Rightarrow> real option) \<Rightarrow> json \<Rightarrow> app_error + real" where
  "bounded_float k d rd raw =
     (case jget raw k of None \<Rightarrow> Inr d
      | Some j \<Rightarrow> (case rd j of Some r \<Rightarrow> if 0 < r \<and> r \<le> 300 then Inr r else Inl (validation_error k)
                              | None \<Rightarrow> Inl (validation_error k)))"

text \<open>\<open>KnowledgeSkillConfig.model_validate\<close>; the reserved \<open>stream\<close> flag is not read by the program.\<close>

definition validate_knowledge_config :: "pydantic_ops \<Rightarrow> json \<Rightarrow> app_error + knowledge_config" where
  "validate_knowledge_config pd raw =
     (if \<not> is_JObj raw then Inl (validation_error ''KnowledgeSkillConfig'') else
      case field_str ''knowledgeBaseUrl'' raw of Inl e \<Rightarrow> Inl e | Inr url \<Rightarrow>
      (case field_str_default ''searchApi'' ''/api/v1/search'' raw of Inl e \<Rightarrow> Inl e | Inr search \<Rightarrow>
      (case field_str_default ''sourceApi'' ''/api/v1/chunks/{chunk_id}/source'' raw of Inl e \<Rightarrow> Inl e | Inr source \<Rightarrow>
      (case field_str ''collectionId'' raw of Inl e \<Rightarrow> Inl e | Inr coll \<Rightarrow>
      (case as_opt_str ''agentId'' (jget raw ''agentId'') of Inl e \<Rightarrow> Inl e | Inr ag \<Rightarrow>
      (case as_opt_str ''embeddingModelCode'' (jget raw ''embeddingModelCode'') of Inl e \<Rightarrow> Inl e | Inr em \<Rightarrow>
      (case bounded_int ''topK'' 10 (json_int pd) raw of Inl e \<Rightarrow> Inl e | Inr k \<Rightarrow>
      (case bounded_float ''timeout'' 30 (json_float pd) raw of Inl e \<Rightarrow> Inl e | Inr t \<Rightarrow>
        Inr \<lparr>kc_base_url = strip_trailing_slash url, kc_search_api = leading_slash search,
             kc_source_api = leading_slash source, kc_collection_id = coll, kc_agent_id = ag,
             kc_embedding_model_code = em, kc_top_k = k, kc_timeout = t\<rparr>))))))))"

definition search_url :: "knowledge_config \<Rightarrow> string" where
  "search_url c = kc_base_url c @ kc_search_api c"

subsection \<open>Reading a search response\<close>

definition content_keys :: "string list" where
  "content_keys = [''content'', ''text'', ''chunk'', ''chunk_text'', ''passage'', ''body'', ''answer'']"

definition id_keys :: "string list" where
  "id_keys = [''id'', ''chunk_id'', ''chunkId'', ''_id'']"

definition title_keys :: "string list" where
  "title_keys = [''document_title'', ''documentTitle'', ''title'', ''document_name'', ''source'', ''filename'', ''file_name'']"

definition page_keys :: "string list" where
  "page_keys = [''page'', ''page_number'', ''pageNumber'']"

definition score_keys :: "string list" where
  "score_keys = [''score'', ''similarity'', ''relevance_score'']"

definition list_keys :: "string list" where
  "list_keys = [''results'', ''chunks'', ''documents'', ''items'', ''hits'', ''matches'', ''data'']"

text \<open>\<open>_first_present\<close>: the value of the first key that is there and not null.\<close>

fun first_present :: "json \<Rightarrow> string list \<Rightarrow> json option" where
  "first_present item [] = None"
| "first_present item (k # ks) =
     (case jget item k of None \<Rightarrow> first_present item ks
      | Some JNull \<Rightarrow> first_present item ks
      | Some v \<Rightarrow> Some v)"

fun first_nonempty :: "'a list list \<Rightarrow> 'a list" where
  "first_nonempty [] = []"
| "first_nonempty (x # xs) = (if x \<noteq> [] then x else first_nonempty xs)"

text \<open>\<open>_find_item_list\<close>; the argument counts the levels left, five from the top (\<open>depth > 4\<close> stops).\<close>

fun find_item_list :: "nat \<Rightarrow> json \<Rightarrow> json list" where
  "find_item_list 0 node = []"
| "find_item_list (Suc n) node =
     (case node of
        JList xs \<Rightarrow> xs
      | JObj kvs \<Rightarrow> first_nonempty (map (\<lambda>k. case dict_get kvs k of
                                                None \<Rightarrow> [] | Some JNull \<Rightarrow> [] | Some v \<Rightarrow> find_item_list n v) list_keys)
      | _ \<Rightarrow> [])"

definition max_levels :: nat where
  "max_levels = 5"

datatype page_ref = PageInt int | PageStr string

record knowledge_chunk =
  ch_content :: string
  ch_chunk_id :: "string option"
  ch_document_title :: "string option"
  ch_page :: "page_ref option"
  ch_score :: "real option"
  ch_metadata :: json

record knowledge_result =
  kr_chunks :: "knowledge_chunk list"
  kr_token_usage :: "json option"

definition as_page :: "pydantic_ops \<Rightarrow> json option \<Rightarrow> app_error + page_ref option" where
  "as_page pd j =
     (case j of None \<Rightarrow> Inr None
      | Some (JStr s) \<Rightarrow> Inr (Some (PageStr s))
      | Some v \<Rightarrow> (case json_int pd v of Some i \<Rightarrow> Inr (Some (PageInt i)) | None \<Rightarrow> Inl (validation_error ''page'')))"

definition as_score :: "pydantic_ops \<Rightarrow> json option \<Rightarrow> app_error + real option" where
  "as_score pd j =
     (case j of None \<Rightarrow> Inr None
      | Some v \<Rightarrow> (case json_float pd v of Some r \<Rightarrow> Inr (Some r) | None \<Rightarrow> Inl (validation_error ''score'')))"

fun without_keys :: "string list \<Rightarrow> json \<Rightarrow> json" where
  "without_keys ks (JObj kvs) = JObj (filter (\<lambda>kv. fst kv \<notin> set ks) kvs)"
| "without_keys ks j = j"

text \<open>One item of the response: skipped when it is not an object or has no content, otherwise a chunk,
  unless a field does not have the type pydantic wants.\<close>

definition parse_item :: "pydantic_ops \<Rightarrow> json \<Rightarrow> app_error + knowledge_chunk option" where
  "parse_item pd item =
     (if \<not> is_JObj item then Inr None else
      case first_present item content_keys of None \<Rightarrow> Inr None | Some c \<Rightarrow>
      if \<not> truthy c then Inr None else
      (case as_opt_str ''chunk_id'' (first_present item id_keys) of Inl e \<Rightarrow> Inl e | Inr i \<Rightarrow>
      (case as_opt_str ''document_title'' (first_present item title_keys) of Inl e \<Rightarrow> Inl e | Inr t \<Rightarrow>
      (case as_page pd (first_present item page_keys) of Inl e \<Rightarrow> Inl e | Inr p \<Rightarrow>
      (case as_score pd (first_present item score_keys) of Inl e \<Rightarrow> Inl e | Inr sc \<Rightarrow>
         Inr (Some \<lparr>ch_content = py_str (pd_str pd) c, ch_chunk_id = i, ch_document_title = t,
                    ch_page = p, ch_score = sc, ch_metadata = without_keys content_keys item\<rparr>))))))"

fun parse_items :: "pydantic_ops \<Rightarrow> json list \<Rightarrow> app_error + knowledge_chunk list" where
  "parse_items pd [] = Inr []"
| "parse_items pd (x # xs) =
     (case parse_item pd x of Inl e \<Rightarrow> Inl e | Inr c \<Rightarrow>
        (case parse_items pd xs of Inl e \<Rightarrow> Inl e
         | Inr cs \<Rightarrow> Inr (case c of None \<Rightarrow> cs | Some c \<Rightarrow> c # cs)))"

definition parse_search_response :: "pydantic_ops \<Rightarrow> json \<Rightarrow> app_error + knowledge_result" where
  "parse_search_response pd raw =
     (case parse_items pd (find_item_list max_levels raw) of Inl e \<Rightarrow> Inl e | Inr cs \<Rightarrow>
        (case jget raw ''usage'' of
           None \<Rightarrow> Inr \<lparr>kr_chunks = cs, kr_token_usage = None\<rparr>
         | Some JNull \<Rightarrow> Inr \<lparr>kr_chunks = cs, kr_token_usage = None\<rparr>
         | Some (JObj u) \<Rightarrow> Inr \<lparr>kr_chunks = cs, kr_token_usage = Some (JObj u)\<rparr>
         | Some _ \<Rightarrow> Inl (validation_error ''raw_token_usage'')))"

subsection \<open>Rendering the context block\<close>

definition rule_line :: string where
  "rule_line = replicate 40 CHR ''-''"

definition source_hint :: string where
  "source_hint =
     ''Neu nguoi dung yeu cau xem/tai tai lieu goc cua mot doan, hay goi tool '' @
     ''get_document_source voi chunk_id tuong ung o tren de lay duong dan chinh xac - '' @
     ''khong tu bia duong dan tai lieu.''"

fun page_str :: "page_ref \<Rightarrow> string" where
  "page_str (PageInt i) = str_int i"
| "page_str (PageStr s) = s"

definition chunk_sections :: "knowledge_chunk \<Rightarrow> string list" where
  "chunk_sections c =
     (if truthy_str (ch_document_title c) then [''Document: '' @ the (ch_document_title c)] else []) @
     (case ch_page c of None \<Rightarrow> [] | Some p \<Rightarrow> [''Page: '' @ page_str p]) @
     [strip (ch_content c)] @
     (if truthy_str (ch_chunk_id c) then [''Ma doan (chunk_id): '' @ the (ch_chunk_id c)] else []) @
     [rule_line]"

definition render_context :: "knowledge_result \<Rightarrow> string" where
  "render_context r =
     (if kr_chunks r = [] then []
      else join_str newline
        ([''Knowledge Context'', rule_line] @ concat (map chunk_sections (kr_chunks r)) @
         (if list_ex (\<lambda>c. truthy_str (ch_chunk_id c)) (kr_chunks r) then [source_hint] else [])))"

subsection \<open>Client and executor\<close>

text \<open>What an HTTP exchange with the Knowledge Platform can come to.\<close>

datatype http_outcome =
    HttpTimeout
  | HttpStatusError int
  | HttpTransportError string
  | HttpBadJson string
  | HttpOk json

record knowledge_env =
  ke_post :: "string \<Rightarrow> json \<Rightarrow> (string, string) pydict \<Rightarrow> http_outcome"
  ke_get :: "string \<Rightarrow> (string, string) pydict \<Rightarrow> http_outcome"
  ke_pydantic :: pydantic_ops
  ke_float_str :: "real \<Rightarrow> string"
  ke_format_source :: "string \<Rightarrow> string \<Rightarrow> string"

definition http_result :: "knowledge_env \<Rightarrow> knowledge_config \<Rightarrow> http_outcome \<Rightarrow> app_error + json" where
  "http_result env c r =
     (case r of
        HttpTimeout \<Rightarrow> Inl (mk_error KnowledgeTimeoutError
          (''Knowledge Platform did not respond within '' @ ke_float_str env (kc_timeout c) @ ''s''))
      | HttpStatusError n \<Rightarrow> Inl (mk_error KnowledgeUnavailableError (''Knowledge Platform returned HTTP '' @ str_int n))
      | HttpTransportError m \<Rightarrow> Inl (mk_error KnowledgeUnavailableError (''Failed to reach Knowledge Platform: '' @ m))
      | HttpBadJson m \<Rightarrow> Inl (mk_error (PyException ''JSONDecodeError'') m)
      | HttpOk j \<Rightarrow> Inr j)"

definition client_search :: "knowledge_env \<Rightarrow> knowledge_config \<Rightarrow> (string, string) pydict \<Rightarrow> string \<Rightarrow> app_error + json" where
  "client_search env c fwd query =
     (let body0 = [(''query'', JStr query), (''collectionId'', JStr (kc_collection_id c)), (''topK'', JInt (kc_top_k c))];
          body1 = (if truthy_str (kc_agent_id c) then dict_set body0 ''agentId'' (opt_str (kc_agent_id c)) else body0);
          body2 = (if truthy_str (kc_embedding_model_code c)
                   then dict_set body1 ''embeddingModelCode'' (opt_str (kc_embedding_model_code c)) else body1);
          headers = dict_update [(''Content-Type'', ''application/json'')] fwd
      in http_result env c (ke_post env (search_url c) (JObj body2) headers))"

definition client_get_chunk_source ::
  "knowledge_env \<Rightarrow> knowledge_config \<Rightarrow> (string, string) pydict \<Rightarrow> string \<Rightarrow> app_error + json" where
  "client_get_chunk_source env c fwd chunk_id =
     (let headers = dict_update [(''Accept'', ''application/json'')] fwd
      in http_result env c (ke_get env (kc_base_url c @ ke_format_source env (kc_source_api c) chunk_id) headers))"

record knowledge_execution_result =
  kx_ok :: bool
  kx_context :: string
  kx_chunk_count :: nat
  kx_error :: "string option"

definition failed_execution :: "string \<Rightarrow> knowledge_execution_result" where
  "failed_execution m = \<lparr>kx_ok = False, kx_context = [], kx_chunk_count = 0, kx_error = Some m\<rparr>"

text \<open>\<open>KnowledgeSkillExecutor.execute\<close>: only knowledge errors are turned into a result.\<close>

definition executor_execute ::
  "knowledge_env \<Rightarrow> knowledge_config \<Rightarrow> (string, string) pydict \<Rightarrow> string \<Rightarrow> app_error + knowledge_execution_result" where
  "executor_execute env c fwd query =
     (let outcome =
        (case client_search env c fwd query of Inl e \<Rightarrow> Inl e | Inr raw \<Rightarrow>
          (case parse_search_response (ke_pydantic env) raw of Inl e \<Rightarrow> Inl e | Inr r \<Rightarrow>
             Inr \<lparr>kx_ok = True, kx_context = render_context r, kx_chunk_count = length (kr_chunks r), kx_error = None\<rparr>))
      in case outcome of
           Inr x \<Rightarrow> Inr x
         | Inl e \<Rightarrow> if is_knowledge_error e then Inr (failed_execution (err_message e)) else Inl e)"

record chunk_source =
  src_page :: "page_ref option"
  src_url :: string

text \<open>\<open>fetch_source\<close>: every failure, also one of validation, degrades to None.\<close>

definition executor_fetch_source ::
  "knowledge_env \<Rightarrow> knowledge_config \<Rightarrow> (string, string) pydict \<Rightarrow> string \<Rightarrow> chunk_source option" where
  "executor_fetch_source env c fwd chunk_id =
     (case client_get_chunk_source env c fwd chunk_id of
        Inl e \<Rightarrow> None
      | Inr raw \<Rightarrow>
          (case (as_opt_str ''document_id'' (jget raw ''document_id''), as_page (ke_pydantic env) (first_present raw [''page'']),
                 jget raw ''bbox'', jget raw ''source_url'') of
             (Inr _, Inr p, b, Some (JStr u)) \<Rightarrow>
               (case b of None \<Rightarrow> Some \<lparr>src_page = p, src_url = u\<rparr>
                | Some JNull \<Rightarrow> Some \<lparr>src_page = p, src_url = u\<rparr>
                | Some (JObj _) \<Rightarrow> Some \<lparr>src_page = p, src_url = u\<rparr>
                | _ \<Rightarrow> None)
           | _ \<Rightarrow> None))"

subsection \<open>The service\<close>

definition knowledge_skills :: "uuid \<Rightarrow> db \<Rightarrow> skill list" where
  "knowledge_skills ag d = filter (\<lambda>k. sk_type k = SkKnowledge) (list_skills_for_agent ag d)"

definition build_executor :: "knowledge_env \<Rightarrow> skill \<Rightarrow> app_error + knowledge_config" where
  "build_executor env k =
     (if sk_type k \<noteq> SkKnowledge
      then Inl (mk_error KnowledgeConfigError (''Skill '' @ quoted (code k) @ '' is not a KNOWLEDGE skill''))
      else let raw = (case sk_config k of Some j \<Rightarrow> if truthy j then j else JObj [] | None \<Rightarrow> JObj [])
           in case validate_knowledge_config (ke_pydantic env) raw of
                Inl e \<Rightarrow> Inl (mk_error KnowledgeConfigError (''Invalid Knowledge Skill config: '' @ err_message e))
              | Inr c \<Rightarrow> Inr c)"

definition execute_by_skill ::
  "knowledge_env \<Rightarrow> propagated_auth \<Rightarrow> skill \<Rightarrow> string \<Rightarrow> app_error + knowledge_execution_result" where
  "execute_by_skill env auth k query =
     (case build_executor env k of
        Inl e \<Rightarrow> if err_class e = KnowledgeConfigError then Inr (failed_execution (err_message e)) else Inl e
      | Inr c \<Rightarrow> executor_execute env c (as_forward_headers auth) query)"

fun collect_contexts ::
  "knowledge_env \<Rightarrow> propagated_auth \<Rightarrow> skill list \<Rightarrow> string \<Rightarrow> app_error + string list" where
  "collect_contexts env auth [] query = Inr []"
| "collect_contexts env auth (k # ks) query =
     (case execute_by_skill env auth k query of Inl e \<Rightarrow> Inl e | Inr r \<Rightarrow>
        (case collect_contexts env auth ks query of Inl e \<Rightarrow> Inl e
         | Inr cs \<Rightarrow> Inr (if kx_ok r \<and> kx_context r \<noteq> [] then kx_context r # cs else cs)))"

definition execute_for_agent ::
  "knowledge_env \<Rightarrow> propagated_auth \<Rightarrow> uuid \<Rightarrow> string \<Rightarrow> db \<Rightarrow> app_error + string" where
  "execute_for_agent env auth ag query d =
     (case collect_contexts env auth (knowledge_skills ag d) query of
        Inl e \<Rightarrow> Inl e | Inr cs \<Rightarrow> Inr (join_str (newline @ newline) cs))"

text \<open>The executors behind the \<open>get_document_source\<close> tool: skills with an invalid configuration are left
  out, and without any executor there is no tool.\<close>

definition source_executors :: "knowledge_env \<Rightarrow> uuid \<Rightarrow> db \<Rightarrow> knowledge_config list" where
  "source_executors env ag d =
     concat (map (\<lambda>k. case build_executor env k of Inr c \<Rightarrow> [c] | Inl _ \<Rightarrow> []) (knowledge_skills ag d))"

fun first_source ::
  "knowledge_env \<Rightarrow> (string, string) pydict \<Rightarrow> knowledge_config list \<Rightarrow> string \<Rightarrow> chunk_source option" where
  "first_source env fwd [] chunk_id = None"
| "first_source env fwd (c # cs) chunk_id =
     (case executor_fetch_source env c fwd chunk_id of Some s \<Rightarrow> Some s | None \<Rightarrow> first_source env fwd cs chunk_id)"

definition get_document_source ::
  "knowledge_env \<Rightarrow> propagated_auth \<Rightarrow> knowledge_config list \<Rightarrow> string \<Rightarrow> string" where
  "get_document_source env auth cs chunk_id =
     (case first_source env (as_forward_headers auth) cs chunk_id of
        Some s \<Rightarrow> ''T'' @ [CHR 0xC3, CHR 0xA0] @ ''i li'' @ [CHR 0xE1, CHR 0xBB, CHR 0x87] @ ''u g'' @ [CHR 0xE1,
     CHR 0xBB, CHR 0x91] @ ''c'' @ (case src_page s of None \<Rightarrow> [] | Some p \<Rightarrow> '' (trang '' @ page_str p @ '')'') @
                  '': '' @ src_url s
      | None \<Rightarrow> ''Kh'' @ [CHR 0xC3, CHR 0xB4] @ ''ng t'' @ [CHR 0xC3, CHR 0xAC] @ ''m th'' @ [CHR 0xE1, CHR
     0xBA, CHR 0xA5] @ ''y t'' @ [CHR 0xC3, CHR 0xA0] @ ''i li'' @ [CHR 0xE1, CHR 0xBB, CHR 0x87] @
     ''u g'' @ [CHR 0xE1, CHR 0xBB, CHR 0x91] @ ''c cho '' @ [CHR 0xC4, CHR 0x91] @ ''o'' @ [CHR
     0xE1, CHR 0xBA, CHR 0xA1] @ ''n n'' @ [CHR 0xC3, CHR 0xA0] @ ''y.'')"

subsection \<open>Facts\<close>

text \<open>An envelope: the items below a path of wrapper keys.\<close>

fun envelope :: "string list \<Rightarrow> json \<Rightarrow> json" where
  "envelope [] j = j"
| "envelope (k # ks) j = JObj [(k, envelope ks j)]"

lemma first_nonempty_single:
  "k \<in> set ks \<Longrightarrow> f k \<noteq> [] \<Longrightarrow> (\<And>k'. k' \<noteq> k \<Longrightarrow> f k' = []) \<Longrightarrow> first_nonempty (map f ks) = f k"
proof (induction ks)
  case (Cons a ks)
  then show ?case by (cases "a = k") auto
qed simp

lemma first_nonempty_none: "(\<And>k. k \<in> set ks \<Longrightarrow> f k = []) \<Longrightarrow> first_nonempty (map f ks) = []"
  by (induction ks) auto

lemma envelope_not_null: "envelope path (JList items) \<noteq> JNull"
  by (cases path) simp_all

lemma find_item_list_envelope:
  "set path \<subseteq> set list_keys \<Longrightarrow> length path < n \<Longrightarrow> items \<noteq> [] \<Longrightarrow>
     find_item_list n (envelope path (JList items)) = items"
proof (induction path arbitrary: n)
  case Nil
  then show ?case by (cases n) auto
next
  case (Cons k ks)
  then obtain n' where n: "n = Suc n'" by (cases n) auto
  let ?inner = "envelope ks (JList items)"
  let ?f = "\<lambda>k'. case dict_get [(k, ?inner)] k' of None \<Rightarrow> [] | Some JNull \<Rightarrow> [] | Some v \<Rightarrow> find_item_list n' v"
  have inner: "find_item_list n' ?inner = items"
    using Cons n by simp
  have k: "?f k = items"
    using inner envelope_not_null [of ks items] by (cases ?inner) auto
  have "first_nonempty (map ?f list_keys) = ?f k"
    by (rule first_nonempty_single) (use Cons.prems k in auto)
  with n k show ?case by simp
qed

text \<open>However the platform wraps its hits, up to four levels of known wrapper keys, the reader finds
  the same items, so the parsed result does not depend on the envelope.\<close>

theorem envelope_transparent:
  assumes "set path \<subseteq> set list_keys" "length path \<le> 4" "items \<noteq> []"
  shows "find_item_list max_levels (envelope path (JList items)) = items \<and>
         map_sum id kr_chunks (parse_search_response pd (envelope path (JList items)))
           = map_sum id id (parse_items pd items)"
proof
  show f: "find_item_list max_levels (envelope path (JList items)) = items"
    using assms by (intro find_item_list_envelope) (auto simp: max_levels_def)
  have "jget (envelope path (JList items)) ''usage'' = None"
    using assms(1) by (cases path) (auto simp: list_keys_def)
  with f show "map_sum id kr_chunks (parse_search_response pd (envelope path (JList items)))
           = map_sum id id (parse_items pd items)"
    by (simp add: parse_search_response_def split: sum.split)
qed

definition demo_pydantic :: pydantic_ops where
  "demo_pydantic = \<lparr>pd_int = (\<lambda>_. None), pd_float = (\<lambda>_. None), pd_str = (\<lambda>_. [])\<rparr>"

theorem envelope_transparent_witness:
  "find_item_list max_levels (JObj [(''data'', JObj [(''results'', JList [JObj [(''text'', JStr ''a'')]])])])
     = [JObj [(''text'', JStr ''a'')]]"
  using envelope_transparent [of "[''data'', ''results'']" "[JObj [(''text'', JStr ''a'')]]" demo_pydantic]
  by (simp add: list_keys_def)

text \<open>The envelope \<open>{"result": {"chunks": [\<dots>]}}\<close>, which the reader is documented to accept, yields
  no chunk at all: \<open>result\<close> is not one of the wrapper keys.\<close>

theorem result_envelope_lost:
  "parse_search_response pd (JObj [(''result'', JObj [(''chunks'', JList items)])])
     = Inr \<lparr>kr_chunks = [], kr_token_usage = None\<rparr>"
  by (simp add: parse_search_response_def max_levels_def list_keys_def eval_nat_numeral)

lemma is_knowledge_mk [simp]:
  "is_knowledge_error (mk_error KnowledgeTimeoutError m)" "is_knowledge_error (mk_error KnowledgeUnavailableError m)"
  "\<not> is_knowledge_error (mk_error (PyException c) m)"
  by (simp_all add: is_knowledge_error_def)

lemma build_executor_error: "build_executor env k = Inl e \<Longrightarrow> err_class e = KnowledgeConfigError"
  by (auto simp: build_executor_def Let_def split: if_splits sum.splits)

text \<open>An outage of the Knowledge Platform never reaches the agent: whatever skills the agent has,
  with valid or invalid configurations, when every exchange times out, fails in transport or is
  answered with an error status, the context is empty and nothing is raised.\<close>

theorem knowledge_outage_harmless:
  assumes "\<forall>u b h. ke_post env u b h \<in> {HttpTimeout} \<union> range HttpStatusError \<union> range HttpTransportError"
  shows "execute_for_agent env auth ag query d = Inr []"
proof -
  have post: "\<exists>e. http_result env c (ke_post env u b h) = Inl e \<and> is_knowledge_error e" for c u b h
    using assms [rule_format, of u b h] by (auto simp: http_result_def)
  have ex: "\<exists>r. executor_execute env c fwd query = Inr r \<and> \<not> kx_ok r" for c fwd
  proof -
    have "\<exists>u b h. client_search env c fwd query = http_result env c (ke_post env u b h)"
      unfolding client_search_def Let_def by blast
    with post [of c] obtain e where "client_search env c fwd query = Inl e" "is_knowledge_error e"
      by metis
    then show ?thesis by (simp add: executor_execute_def failed_execution_def)
  qed
  have skill: "\<exists>r. execute_by_skill env auth k query = Inr r \<and> \<not> kx_ok r" for k
    using ex build_executor_error [of env k]
    by (auto simp: execute_by_skill_def failed_execution_def split: sum.split)
  have "collect_contexts env auth ks query = Inr []" for ks
  proof (induction ks)
    case (Cons k ks)
    with skill [of k] show ?case by auto
  qed simp
  then show ?thesis by (simp add: execute_for_agent_def)
qed

definition demo_knowledge_env :: "http_outcome \<Rightarrow> knowledge_env" where
  "demo_knowledge_env r = \<lparr>ke_post = (\<lambda>_ _ _. r), ke_get = (\<lambda>_ _. r), ke_pydantic = demo_pydantic,
     ke_float_str = (\<lambda>_. ''30.0''), ke_format_source = (\<lambda>t i. t @ i)\<rparr>"

definition demo_knowledge_skill :: skill where
  "demo_knowledge_skill = \<lparr>row_id = ''k2'', created_at = 0, deleted_at = None, code = ''kb'', sk_name = ''KB'',
     sk_description = None, sk_instructions = None, sk_type = SkKnowledge,
     sk_config = Some (JObj [(''knowledgeBaseUrl'', JStr ''http://kb/''), (''collectionId'', JStr ''c1'')])\<rparr>"

definition demo_knowledge_db :: db where
  "demo_knowledge_db = demo_db\<lparr>t_skills := [demo_knowledge_skill],
     t_agent_skills := [\<lparr>row_id = ''ak2'', created_at = 0, as_agent_id = ''a1'', as_skill_id = ''k2''\<rparr>]\<rparr>"

theorem knowledge_outage_harmless_witness:
  "execute_for_agent (demo_knowledge_env HttpTimeout) empty_auth ''a1'' ''hello'' demo_knowledge_db = Inr []"
  by (rule knowledge_outage_harmless) (simp add: demo_knowledge_env_def)

text \<open>What is not an outage does reach it: one knowledge skill whose platform answers with a body that
  is not JSON, or with a hit whose id is a number, makes the whole context resolution raise.\<close>

theorem malformed_answer_raises:
  assumes "knowledge_skills ag d = [k]" "build_executor env k = Inr c"
    and "(\<forall>u b h. ke_post env u b h = HttpBadJson m) \<or>
         (\<forall>u b h. ke_post env u b h = HttpOk (JList [JObj [(''id'', JInt n), (''text'', JStr t)]]) \<and> t \<noteq> [])"
  shows "\<exists>e. execute_for_agent env auth ag query d = Inl e \<and> \<not> is_domain_error e"
  using assms
  by (auto simp: execute_for_agent_def execute_by_skill_def executor_execute_def client_search_def Let_def
      http_result_def parse_search_response_def max_levels_def eval_nat_numeral parse_item_def
      content_keys_def id_keys_def as_opt_str_def validation_error_def mk_error_def is_knowledge_error_def)

theorem malformed_answer_raises_witness:
  "\<exists>e. execute_for_agent (demo_knowledge_env (HttpBadJson ''Expecting value'')) empty_auth ''a1'' ''hello''
         demo_knowledge_db = Inl e \<and> \<not> is_domain_error e"
proof (rule malformed_answer_raises)
  show "knowledge_skills ''a1'' demo_knowledge_db = [demo_knowledge_skill]"
    by (simp add: knowledge_skills_def list_skills_for_agent_def demo_knowledge_db_def demo_knowledge_skill_def live_def)
  show "build_executor (demo_knowledge_env (HttpBadJson ''Expecting value'')) demo_knowledge_skill
      = Inr \<lparr>kc_base_url = ''http://kb'', kc_search_api = ''/api/v1/search'',
             kc_source_api = ''/api/v1/chunks/{chunk_id}/source'', kc_collection_id = ''c1'', kc_agent_id = None,
             kc_embedding_model_code = None, kc_top_k = 10, kc_timeout = 30\<rparr>"
    by (simp add: build_executor_def demo_knowledge_skill_def validate_knowledge_config_def field_str_def
        field_str_default_def as_opt_str_def bounded_int_def bounded_float_def strip_trailing_slash_def
        leading_slash_def starts_with_def)
  show "(\<forall>u b h. ke_post (demo_knowledge_env (HttpBadJson ''Expecting value'')) u b h = HttpBadJson ''Expecting value'') \<or>
     (\<forall>u b h. ke_post (demo_knowledge_env (HttpBadJson ''Expecting value'')) u b h
        = HttpOk (JList [JObj [(''id'', JInt 0), (''text'', JStr [])]]) \<and> [] \<noteq> [])"
    by (simp add: demo_knowledge_env_def)
qed

lemma join_str_sublist: "x \<in> set xs \<Longrightarrow> sublist x (join_str sep xs)"
proof (induction sep xs rule: join_str.induct)
  case (3 sep x' y zs)
  have rest: "sublist (join_str sep (y # zs)) (x' @ sep @ join_str sep (y # zs))"
    using sublist_append_leftI [of "join_str sep (y # zs)" "x' @ sep"] by simp
  show ?case
  proof (cases "x = x'")
    case False
    with 3 have "sublist x (join_str sep (y # zs))" by simp
    from sublist_order.order_trans [OF this rest] show ?thesis by simp
  qed simp
qed simp_all

text \<open>The context block leaves nothing out and invents nothing from emptiness: it is empty exactly
  when there are no chunks, and otherwise it contains the text of every chunk and the id of every
  chunk that has one.\<close>

theorem render_context_complete:
  "(render_context r = [] \<longleftrightarrow> kr_chunks r = []) \<and>
   (\<forall>c \<in> set (kr_chunks r). sublist (strip (ch_content c)) (render_context r) \<and>
      (truthy_str (ch_chunk_id c) \<longrightarrow> sublist (the (ch_chunk_id c)) (render_context r)))"
proof (intro conjI ballI impI)
  show "render_context r = [] \<longleftrightarrow> kr_chunks r = []"
    by (auto simp: render_context_def neq_Nil_conv)
next
  fix c assume c: "c \<in> set (kr_chunks r)"
  then have ne: "kr_chunks r \<noteq> []" by auto
  let ?parts = "[''Knowledge Context'', rule_line] @ concat (map chunk_sections (kr_chunks r)) @
         (if list_ex (\<lambda>c. truthy_str (ch_chunk_id c)) (kr_chunks r) then [source_hint] else [])"
  have part: "sublist x (render_context r)" if "x \<in> set (chunk_sections c)" for x
  proof -
    have "x \<in> set ?parts" using that c by auto
    from join_str_sublist [OF this, of newline] ne show ?thesis
      by (simp add: render_context_def)
  qed
  show "sublist (strip (ch_content c)) (render_context r)"
    by (rule part) (simp add: chunk_sections_def)
  assume "truthy_str (ch_chunk_id c)"
  then have "''Ma doan (chunk_id): '' @ the (ch_chunk_id c) \<in> set (chunk_sections c)"
    by (simp add: chunk_sections_def)
  then have "sublist (''Ma doan (chunk_id): '' @ the (ch_chunk_id c)) (render_context r)"
    by (rule part)
  moreover have "sublist (the (ch_chunk_id c)) (''Ma doan (chunk_id): '' @ the (ch_chunk_id c))"
    by (rule sublist_append_leftI)
  ultimately show "sublist (the (ch_chunk_id c)) (render_context r)"
    by (rule sublist_order.order_trans [rotated])
qed

definition demo_chunk :: knowledge_chunk where
  "demo_chunk = \<lparr>ch_content = '' Paris '', ch_chunk_id = Some ''c7'', ch_document_title = None, ch_page = None,
     ch_score = None, ch_metadata = JObj []\<rparr>"

theorem render_context_complete_witness:
  "sublist ''Paris'' (render_context \<lparr>kr_chunks = [demo_chunk], kr_token_usage = None\<rparr>)"
proof -
  have "strip (ch_content demo_chunk) = ''Paris''"
    by (simp add: demo_chunk_def strip_def lstrip_def rstrip_def is_space_def)
  with render_context_complete [of "\<lparr>kr_chunks = [demo_chunk], kr_token_usage = None\<rparr>"] show ?thesis
    by simp
qed

end
