(* ===== verification/Skills.thy ===== *)
theory Skills
  imports Knowledge
begin

text \<open>
  What an agent is given beside its MCP tools: proposed UI actions (\<open>app/uiaction\<close>), the text of
  uploaded attachments (\<open>app/attachments/service.py\<close>), the business-object tools' switch
  (\<open>app/businessobjects/service.py\<close>), and the workflow trigger tools with their depth and cycle guard
  (\<open>app/workflowskill\<close>, \<open>app/core/workflow_trigger_context.py\<close>).
\<close>

subsection \<open>UI actions\<close>

datatype action_type =
    FillForm | SetValue | SelectValue | ClickButton | Navigate | OpenDialog | CloseDialog | UploadFile
  | DownloadFile | FocusComponent | HighlightComponent | ExpandTree | CollapseTree | RefreshGrid | ValidateForm

definition action_types :: "(string \<times> action_type) list" where
  "action_types =
     [(''FILL_FORM'', FillForm), (''SET_VALUE'', SetValue), (''SELECT_VALUE'', SelectValue),
      (''CLICK_BUTTON'', ClickButton), (''NAVIGATE'', Navigate), (''OPEN_DIALOG'', OpenDialog),
      (''CLOSE_DIALOG'', CloseDialog), (''UPLOAD_FILE'', UploadFile), (''DOWNLOAD_FILE'', DownloadFile),
      (''FOCUS_COMPONENT'', FocusComponent), (''HIGHLIGHT_COMPONENT'', HighlightComponent),
      (''EXPAND_TREE'', ExpandTree), (''COLLAPSE_TREE'', CollapseTree), (''REFRESH_GRID'', RefreshGrid),
      (''VALIDATE_FORM'', ValidateForm)]"

record ui_action =
  ua_action_type :: action_type
  ua_target :: string
  ua_business_meaning :: "string option"
  ua_value :: "string option"
  ua_reason :: "string option"
  ua_confidence :: real
  ua_execution_order :: int

record ui_action_plan =
  up_dsl_version :: int
  up_run_id :: "string option"
  up_actions :: "ui_action list"

definition dsl_version :: int where
  "dsl_version = 1"

definition upper_char :: "char \<Rightarrow> char" where
  "upper_char c = (let n = (of_char c :: nat) in if 97 \<le> n \<and> n \<le> 122 then char_of (n - 32) else c)"

definition upper_str :: "string \<Rightarrow> string" where
  "upper_str s = map upper_char s"

text \<open>The tool \<open>propose_ui_action\<close>: its reply, and the collector it appends to. A confidence outside
  \<open>[0, 1]\<close> fails pydantic's validation of the action.\<close>

definition propose_ui_action ::
  "string \<Rightarrow> string \<Rightarrow> string option \<Rightarrow> string option \<Rightarrow> string option \<Rightarrow> real \<Rightarrow> ui_action list
     \<Rightarrow> (app_error + string) \<times> ui_action list" where
  "propose_ui_action ty target val reason meaning confidence actions =
     (case dict_get action_types (upper_str ty) of
        None \<Rightarrow> (Inr (''Unknown actionType '' @ quoted ty @ '' - not added to the plan.''), actions)
      | Some a \<Rightarrow>
          if confidence < 0 \<or> 1 < confidence then (Inl (validation_error ''confidence''), actions)
          else (Inr (''Action '' @ quoted (upper_str ty) @ '' on '' @ quoted target @ '' added to the UI action plan.''),
                actions @ [\<lparr>ua_action_type = a, ua_target = target, ua_business_meaning = meaning, ua_value = val,
                            ua_reason = reason, ua_confidence = confidence, ua_execution_order = int (length actions)\<rparr>]))"

text \<open>\<open>_aggregate_ui_action_plan\<close>: the actions of every collector, stably sorted by their order.\<close>

definition aggregate_ui_action_plan :: "string option \<Rightarrow> ui_action list list \<Rightarrow> ui_action_plan" where
  "aggregate_ui_action_plan run_id collectors =
     \<lparr>up_dsl_version = dsl_version, up_run_id = run_id, up_actions = sort_key ua_execution_order (concat collectors)\<rparr>"

record feature_flags =
  feature_ui_skills :: bool
  feature_business_objects :: bool

definition has_ui_action_tool :: "feature_flags \<Rightarrow> uuid \<Rightarrow> db \<Rightarrow> bool" where
  "has_ui_action_tool ff ag d =
     (feature_ui_skills ff \<and> list_ex (\<lambda>k. sk_type k = SkUi) (list_skills_for_agent ag d))"

text \<open>\<open>BusinessObjectSkillService._is_enabled_for_agent\<close>.\<close>

definition business_objects_enabled :: "feature_flags \<Rightarrow> uuid \<Rightarrow> db \<Rightarrow> bool" where
  "business_objects_enabled ff ag d =
     (feature_business_objects ff \<and>
      list_ex (\<lambda>k. case sk_config k of
                 Some (JObj kvs) \<Rightarrow> (case dict_get kvs ''businessObjectLookup'' of Some v \<Rightarrow> truthy v | None \<Rightarrow> False)
               | _ \<Rightarrow> False) (list_skills_for_agent ag d))"

subsection \<open>Attachments\<close>

fun attachment_status_value :: "attachment_status \<Rightarrow> string" where
  "attachment_status_value AttUploaded = ''UPLOADED''"
| "attachment_status_value AttProcessing = ''PROCESSING''"
| "attachment_status_value AttReady = ''READY''"
| "attachment_status_value AttFailed = ''FAILED''"

text \<open>The phrase of an unreadable attachment, which the engine later looks for; the Vietnamese texts are
  written as their UTF-8 bytes.\<close>

definition unreadable_phrase :: string where
  "unreadable_phrase = ''KH'' @ [CHR 0xC3, CHR 0x94] @ ''NG '' @ [CHR 0xC4, CHR 0x91, CHR 0xE1, CHR 0xBB, CHR 0x8D] @
     ''c '' @ [CHR 0xC4, CHR 0x91, CHR 0xC6, CHR 0xB0, CHR 0xE1, CHR 0xBB, CHR 0xA3] @ ''c''"

definition missing_section :: "uuid \<Rightarrow> string" where
  "missing_section i = ''[File '' @ [CHR 0xC4, CHR 0x91, CHR 0xC3, CHR 0xAD] @ ''nh k'' @ [CHR 0xC3, CHR 0xA8] @ ''m '' @ i @ '': KH'' @ [CHR 0xC3, CHR 0x94] @ ''NG T'' @ [CHR 0xE1, CHR 0xBB, CHR 0x92] @ ''N T'' @ [CHR
     0xE1, CHR 0xBA, CHR 0xA0] @ ''I trong h'' @ [CHR 0xE1, CHR 0xBB, CHR 0x87] @ '' th'' @ [CHR
     0xE1, CHR 0xBB, CHR 0x91] @ ''ng]''"

definition unreadable_section :: "attachment \<Rightarrow> string" where
  "unreadable_section a =
     ''[File '' @ [CHR 0xC4, CHR 0x91, CHR 0xC3, CHR 0xAD] @ ''nh k'' @ [CHR 0xC3, CHR 0xA8] @ ''m '' @ quoted (at_filename a) @ '': '' @ unreadable_phrase @ '' n'' @ [CHR 0xE1, CHR 0xBB, CHR 0x99] @ ''i dung '' @
     ''(tr'' @ [CHR 0xE1, CHR 0xBA, CHR 0xA1] @ ''ng th'' @ [CHR 0xC3, CHR 0xA1] @ ''i: '' @ attachment_status_value (at_status a) @ ''). '' @
     ''TUY'' @ [CHR 0xE1, CHR 0xBB, CHR 0x86] @ ''T '' @ [CHR 0xC4, CHR 0x90, CHR 0xE1, CHR 0xBB,
     CHR 0x90] @ ''I KH'' @ [CHR 0xC3, CHR 0x94] @ ''NG '' @ [CHR 0xC4, CHR 0x91, CHR 0xC6, CHR
     0xB0, CHR 0xE1, CHR 0xBB, CHR 0xA3] @ ''c t'' @ [CHR 0xE1, CHR 0xBB, CHR 0xB1] @ '' suy '' @
     [CHR 0xC4, CHR 0x91] @ ''o'' @ [CHR 0xC3, CHR 0xA1] @ ''n, b'' @ [CHR 0xE1, CHR 0xBB, CHR 0x8B]
     @ ''a n'' @ [CHR 0xE1, CHR 0xBB, CHR 0x99] @ ''i dung, ho'' @ [CHR 0xE1, CHR 0xBA, CHR 0xB7] @
     ''c t'' @ [CHR 0xC3, CHR 0xAC] @ ''m ki'' @ [CHR 0xE1, CHR 0xBA, CHR 0xBF] @ ''m '' @
     ''t'' @ [CHR 0xC3, CHR 0xA0] @ ''i li'' @ [CHR 0xE1, CHR 0xBB, CHR 0x87] @ ''u kh'' @ [CHR
     0xC3, CHR 0xA1] @ ''c thay th'' @ [CHR 0xE1, CHR 0xBA, CHR 0xBF] @ '' cho file n'' @ [CHR 0xC3,
     CHR 0xA0] @ ''y. H'' @ [CHR 0xC3, CHR 0xA3] @ ''y b'' @ [CHR 0xC3, CHR 0xA1] @ ''o v'' @ [CHR
     0xE1, CHR 0xBB, CHR 0x9B] @ ''i ng'' @ [CHR 0xC6, CHR 0xB0, CHR 0xE1, CHR 0xBB, CHR 0x9D] @ ''i d'' @ [CHR 0xC3, CHR 0xB9] @ ''ng r'' @ [CHR 0xE1, CHR 0xBA, CHR 0xB1] @ ''ng '' @
     ''file ch'' @ [CHR 0xC6, CHR 0xB0] @ ''a x'' @ [CHR 0xE1, CHR 0xBB, CHR 0xAD] @ '' l'' @ [CHR
     0xC3, CHR 0xBD] @ '' '' @ [CHR 0xC4, CHR 0x91, CHR 0xC6, CHR 0xB0, CHR 0xE1, CHR 0xBB, CHR
     0xA3] @ ''c v'' @ [CHR 0xC3, CHR 0xA0] @ '' '' @ [CHR 0xC4, CHR 0x91, CHR 0xE1, CHR 0xBB, CHR
     0x81] @ '' ngh'' @ [CHR 0xE1, CHR 0xBB, CHR 0x8B] @ '' h'' @ [CHR 0xE1, CHR 0xBB, CHR 0x8D] @
     '' t'' @ [CHR 0xE1, CHR 0xBA, CHR 0xA3] @ ''i l'' @ [CHR 0xE1, CHR 0xBA, CHR 0xA1] @ ''i.''"

definition ready_section :: "attachment \<Rightarrow> string" where
  "ready_section a =
     ''[File '' @ [CHR 0xC4, CHR 0x91, CHR 0xC3, CHR 0xAD] @ ''nh k'' @ [CHR 0xC3, CHR 0xA8] @ ''m '' @ quoted (at_filename a) @ '']'' @ newline @ strip (the (at_extracted_text a))"

text \<open>\<open>by_id.get(att_id)\<close> of the dict built from the rows: the last row with that id.\<close>

definition attachment_by_id :: "uuid \<Rightarrow> db \<Rightarrow> attachment option" where
  "attachment_by_id i d = find (\<lambda>a. row_id a = i) (rev (t_attachments d))"

definition attachment_section :: "db \<Rightarrow> uuid \<Rightarrow> string" where
  "attachment_section d i =
     (case attachment_by_id i d of
        None \<Rightarrow> missing_section i
      | Some a \<Rightarrow> if at_status a \<noteq> AttReady \<or> \<not> truthy_str (at_extracted_text a)
                  then unreadable_section a else ready_section a)"

definition attachment_header :: string where
  "attachment_header = ''=== NG'' @ [CHR 0xE1, CHR 0xBB, CHR 0xAE] @ '' C'' @ [CHR 0xE1, CHR 0xBA, CHR 0xA2] @ ''NH FILE NG'' @ [CHR 0xC6, CHR 0xAF, CHR 0xE1, CHR 0xBB, CHR 0x9C] @ ''I D'' @ [CHR 0xC3, CHR 0x99]
     @ ''NG V'' @ [CHR 0xE1, CHR 0xBB, CHR 0xAA] @ ''A '' @ [CHR 0xC4, CHR 0x90, CHR 0xC3, CHR 0x8D]
     @ ''NH K'' @ [CHR 0xC3, CHR 0x88] @ ''M (KH'' @ [CHR 0xC3, CHR 0x94] @ ''NG PH'' @ [CHR 0xE1,
     CHR 0xBA, CHR 0xA2] @ ''I Knowledge Base) ===''"

definition attachment_footer :: string where
  "attachment_footer = ''=== H'' @ [CHR 0xE1, CHR 0xBA, CHR 0xBE] @ ''T NG'' @ [CHR 0xE1, CHR 0xBB, CHR 0xAE] @ '' C''
     @ [CHR 0xE1, CHR 0xBA, CHR 0xA2] @ ''NH FILE '' @ [CHR 0xC4, CHR 0x90, CHR 0xC3, CHR 0x8D] @
     ''NH K'' @ [CHR 0xC3, CHR 0x88] @ ''M ===''"

definition render_attachments :: "uuid list \<Rightarrow> db \<Rightarrow> string" where
  "render_attachments ids d =
     (if ids = [] then []
      else attachment_header @ newline @ join_str (newline @ newline) (map (attachment_section d) ids) @
           newline @ attachment_footer)"

text \<open>The part of \<open>upload_and_extract\<close> after the file is stored: the outcome of the extractor of the
  file's kind decides the status. The extractors call external services and libraries.\<close>

datatype extraction =
    ExUnsupported
  | ExOk string json
  | ExError string
  | ExRaised string

definition kind_by_mime :: "string \<Rightarrow> attachment_kind" where
  "kind_by_mime m =
     (if m \<in> {''image/png'', ''image/jpeg'', ''image/jpg''} then KindImage
      else if m = ''application/pdf'' then KindPdf
      else if m = ''application/vnd.openxmlformats-officedocument.wordprocessingml.document'' then KindDocx
      else if m = ''application/vnd.openxmlformats-officedocument.spreadsheetml.sheet'' then KindXlsx
      else KindOther)"

record attachment_env =
  ax_bucket :: string
  ax_store :: "string \<Rightarrow> string \<Rightarrow> string \<Rightarrow> app_error + string"
  ax_extract :: "attachment_kind \<Rightarrow> string \<Rightarrow> string \<Rightarrow> string \<Rightarrow> extraction"

definition settle_attachment :: "string \<Rightarrow> extraction \<Rightarrow> attachment \<Rightarrow> attachment" where
  "settle_attachment mime r a =
     (case r of
        ExUnsupported \<Rightarrow> a\<lparr>at_status := AttFailed, at_error_message := Some (''Kh'' @ [CHR 0xC3, CHR 0xB4] @ ''ng h'' @ [CHR 0xE1, CHR 0xBB, CHR 0x97] @ '' tr'' @ [CHR
     0xE1, CHR 0xBB, CHR 0xA3] @ '' lo'' @ [CHR 0xE1, CHR 0xBA, CHR 0xA1] @ ''i file: '' @ mime)\<rparr>
      | ExOk t raw \<Rightarrow> a\<lparr>at_status := AttReady, at_extracted_text := Some t, at_extraction_raw := Some raw\<rparr>
      | ExError m \<Rightarrow> a\<lparr>at_status := AttFailed, at_error_message := Some m\<rparr>
      | ExRaised m \<Rightarrow> a\<lparr>at_status := AttFailed, at_error_message := Some m\<rparr>)"

definition upload_and_extract ::
  "attachment_env \<Rightarrow> string \<Rightarrow> string \<Rightarrow> string \<Rightarrow> uuid option \<Rightarrow> string option \<Rightarrow> ('r sess, attachment) prog" where
  "upload_and_extract env file_bytes filename mime session_id user_id =
     (let kind = kind_by_mime mime in
      mbind (mlift (\<lambda>_. ax_store env file_bytes filename mime)) (\<lambda>storage_key.
      mbind (repo_create t_attachments t_attachments_update no_clash
        (\<lambda>i t. \<lparr>row_id = i, created_at = t, at_session_id = session_id, at_user_id = user_id, at_filename = filename,
               at_mime_type = mime, at_kind = kind, at_size_bytes = int (length file_bytes),
               at_storage_bucket = ax_bucket env, at_storage_key = storage_key, at_status = AttProcessing,
               at_extracted_text = None, at_extraction_raw = None, at_error_message = None\<rparr>)) (\<lambda>a.
      repo_save t_attachments_update
        (settle_attachment mime (if kind = KindOther then ExUnsupported else ax_extract env kind file_bytes filename mime) a))))"

subsection \<open>Workflow triggers\<close>

record trigger_ctx =
  tx_depth :: int
  tx_visited :: "string set"

definition initial_trigger_ctx :: trigger_ctx where
  "initial_trigger_ctx = \<lparr>tx_depth = 0, tx_visited = {}\<rparr>"

definition max_global_depth :: int where
  "max_global_depth = 5"

text \<open>\<open>enter_workflow_trigger\<close>: the context the body runs in; on exit the caller's context is restored.\<close>

definition enter_workflow_trigger :: "string \<Rightarrow> int \<Rightarrow> trigger_ctx \<Rightarrow> app_error + trigger_ctx" where
  "enter_workflow_trigger workflow_code max_depth ctx =
     (let effective_max = min max_depth max_global_depth in
      if tx_depth ctx \<ge> effective_max then
        Inl (mk_error RuntimeExecutionError
          (''Workflow trigger depth limit reached ('' @ str_int (tx_depth ctx) @ ''/'' @ str_int effective_max @ '') '' @
           ''while attempting to trigger '' @ quoted workflow_code))
      else if workflow_code \<in> tx_visited ctx then
        Inl (mk_error RuntimeExecutionError
          (''Cycle detected: workflow '' @ quoted workflow_code @ '' is already running in this call chain''))
      else Inr \<lparr>tx_depth = tx_depth ctx + 1, tx_visited = insert workflow_code (tx_visited ctx)\<rparr>)"

definition workflow_by_code :: "uuid \<Rightarrow> string \<Rightarrow> workflow list \<Rightarrow> app_error + workflow option" where
  "workflow_by_code os c rows =
     scalar_one_or_none (filter (\<lambda>r. wf_agent_os_id r = os \<and> code r = c \<and> live r) rows)"

record workflow_skill_config =
  wc_workflow_code :: string
  wc_max_trigger_depth :: int

definition validate_workflow_skill_config :: "pydantic_ops \<Rightarrow> json \<Rightarrow> app_error + workflow_skill_config" where
  "validate_workflow_skill_config pd raw =
     (if \<not> is_JObj raw then Inl (validation_error ''WorkflowSkillConfig'') else
      case field_str ''workflowCode'' raw of Inl e \<Rightarrow> Inl e | Inr c \<Rightarrow>
      (case jget raw ''maxTriggerDepth'' of
         None \<Rightarrow> Inr \<lparr>wc_workflow_code = c, wc_max_trigger_depth = 1\<rparr>
       | Some j \<Rightarrow> (case json_int pd j of
                      Some n \<Rightarrow> if 0 \<le> n \<and> n \<le> 5 then Inr \<lparr>wc_workflow_code = c, wc_max_trigger_depth = n\<rparr>
                                else Inl (validation_error ''maxTriggerDepth'')
                    | None \<Rightarrow> Inl (validation_error ''maxTriggerDepth''))))"

record trigger_tool =
  tt_workflow_id :: uuid
  tt_workflow_code :: string
  tt_max_depth :: int
  tt_session_id :: string
  tt_user_id :: "string option"

definition trigger_tool_name :: "trigger_tool \<Rightarrow> string" where
  "trigger_tool_name t = ''trigger_workflow_'' @ tt_workflow_code t"

fun build_trigger_tools_from ::
  "pydantic_ops \<Rightarrow> uuid \<Rightarrow> string \<Rightarrow> string option \<Rightarrow> db \<Rightarrow> skill list \<Rightarrow> app_error + trigger_tool list" where
  "build_trigger_tools_from pd os session_id user_id d [] = Inr []"
| "build_trigger_tools_from pd os session_id user_id d (k # ks) =
     (case validate_workflow_skill_config pd (case sk_config k of Some j \<Rightarrow> if truthy j then j else JObj [] | None \<Rightarrow> JObj []) of
        Inl e \<Rightarrow> build_trigger_tools_from pd os session_id user_id d ks
      | Inr c \<Rightarrow>
          (case workflow_by_code os (wc_workflow_code c) (t_workflows d) of
             Inl e \<Rightarrow> Inl e
           | Inr w \<Rightarrow>
               if \<not> usable wf_enabled w then build_trigger_tools_from pd os session_id user_id d ks
               else (case build_trigger_tools_from pd os session_id user_id d ks of Inl e \<Rightarrow> Inl e
                     | Inr ts \<Rightarrow> Inr (\<lparr>tt_workflow_id = row_id (the w), tt_workflow_code = code (the w),
                                     tt_max_depth = wc_max_trigger_depth c, tt_session_id = session_id,
                                     tt_user_id = user_id\<rparr> # ts))))"

definition build_trigger_tools ::
  "pydantic_ops \<Rightarrow> uuid \<Rightarrow> uuid \<Rightarrow> string \<Rightarrow> string option \<Rightarrow> db \<Rightarrow> app_error + trigger_tool list" where
  "build_trigger_tools pd ag os session_id user_id d =
     build_trigger_tools_from pd os session_id user_id d
       (filter (\<lambda>k. sk_type k = SkWorkflow) (list_skills_for_agent ag d))"

text \<open>The chains of nested triggers that can be active at once: each runs inside the one before.\<close>

inductive trigger_chain :: "string list \<Rightarrow> trigger_ctx \<Rightarrow> bool" where
  top: "trigger_chain [] initial_trigger_ctx"
| nested: "trigger_chain cs ctx \<Longrightarrow> enter_workflow_trigger c m ctx = Inr ctx' \<Longrightarrow> trigger_chain (c # cs) ctx'"

inductive_cases trigger_chain_ConsE: "trigger_chain (c # cs) ctx"

lemma enter_workflow_triggerD:
  "enter_workflow_trigger c m ctx = Inr ctx' \<Longrightarrow>
     tx_depth ctx < min m max_global_depth \<and> c \<notin> tx_visited ctx \<and>
     ctx' = \<lparr>tx_depth = tx_depth ctx + 1, tx_visited = insert c (tx_visited ctx)\<rparr>"
  by (auto simp: enter_workflow_trigger_def Let_def split: if_splits)

lemma trigger_chain_inv:
  "trigger_chain cs ctx \<Longrightarrow>
     tx_depth ctx = int (length cs) \<and> tx_visited ctx = set cs \<and> distinct cs \<and> int (length cs) \<le> max_global_depth"
proof (induction rule: trigger_chain.induct)
  case top
  then show ?case by (simp add: initial_trigger_ctx_def max_global_depth_def)
next
  case (nested cs ctx c m ctx')
  from enter_workflow_triggerD [OF nested.hyps(2)] nested.IH show ?case
    by simp
qed

text \<open>C26. Agents triggering workflows whose agents trigger workflows: a chain of nested triggers is never
  longer than the global ceiling of five, whatever depths the skills are configured with, no workflow
  occurs twice in it, and a skill configured with depth \<open>m\<close> never starts at depth \<open>m\<close> or below.\<close>

theorem trigger_chain_safe:
  assumes "trigger_chain (c # cs) ctx"
  shows "length (c # cs) \<le> 5 \<and> distinct (c # cs) \<and>
    (\<exists>ctx0 m. trigger_chain cs ctx0 \<and> int (length cs) < m \<and> enter_workflow_trigger c m ctx0 = Inr ctx)"
proof -
  have "int (length (c # cs)) \<le> 5" "distinct (c # cs)"
    using trigger_chain_inv [OF assms] by (simp_all add: max_global_depth_def)
  moreover obtain ctx0 m where "trigger_chain cs ctx0" "enter_workflow_trigger c m ctx0 = Inr ctx"
    using assms by (rule trigger_chain_ConsE)
  moreover from this have "int (length cs) < m"
    using trigger_chain_inv [of cs ctx0] enter_workflow_triggerD [of c m ctx0 ctx] by auto
  ultimately show ?thesis by auto
qed

text \<open>C27. Nested workflow triggers cannot go on forever: entering a trigger is a well-founded step, so whatever the
  agents ask for and however the skills are configured, every sequence of triggers that run inside each other
  ends (the guard's purpose; the depth left below the ceiling is the measure).\<close>

theorem trigger_nesting_terminates:
  "wf {(inner, outer). \<exists>workflow_code max_depth. enter_workflow_trigger workflow_code max_depth outer = Inr inner}"
proof (rule wf_subset)
  show "wf (measure (\<lambda>ctx. nat (max_global_depth - tx_depth ctx)))" by simp
  show "{(inner, outer). \<exists>c m. enter_workflow_trigger c m outer = Inr inner}
      \<subseteq> measure (\<lambda>ctx. nat (max_global_depth - tx_depth ctx))"
    by (auto dest!: enter_workflow_triggerD)
qed

theorem trigger_chain_safe_witness:
  "\<exists>ctx. trigger_chain [''b'', ''a''] ctx \<and> length [''b'', ''a''] \<le> 5 \<and> distinct [''b'', ''a'']"
proof -
  have 1: "trigger_chain [''a''] \<lparr>tx_depth = 1, tx_visited = {''a''}\<rparr>"
    by (rule trigger_chain.nested [where m = 5, OF trigger_chain.top])
       (simp add: enter_workflow_trigger_def initial_trigger_ctx_def max_global_depth_def)
  have "trigger_chain [''b'', ''a''] \<lparr>tx_depth = 2, tx_visited = {''b'', ''a''}\<rparr>"
    by (rule trigger_chain.nested [where m = 5, OF 1])
       (simp add: enter_workflow_trigger_def max_global_depth_def)
  with trigger_chain_safe show ?thesis by blast
qed

end
