(* ===== verification/Engine.thy ===== *)
theory Engine
  imports Skills
begin

text \<open>
  \<open>app/agno_runtime/engine.py\<close>: resolving a chat target into a runtime context, assembling the Agno
  agent or team with its tools and instructions, and running it, as one text or as a stream of
  events. The Agno library and the MCP connection are parameters: a run is the list of events it
  yields, the exception it ends with if it does, and the metrics and UI actions it leaves behind.
\<close>

subsection \<open>Contexts\<close>

record runtime_ctx =
  rx_agent_os :: agent_os
  rx_team :: team
  rx_agent :: agent
  rx_final_prompt :: string
  rx_effective :: "string list"

record team_ctx =
  tmx_agent_os :: agent_os
  tmx_team :: team
  tmx_prompt :: string
  tmx_members :: "runtime_ctx list"

record root_ctx =
  rtx_agent_os :: agent_os
  rtx_prompt :: string
  rtx_teams :: "team_ctx list"

datatype dispatch_ctx = DispatchAgent runtime_ctx | DispatchTeam team_ctx | DispatchRoot root_ctx

definition runtime_error :: "string \<Rightarrow> app_error" where
  "runtime_error m = mk_error RuntimeExecutionError m"

definition require :: "('a \<Rightarrow> bool) \<Rightarrow> app_error \<Rightarrow> 'a option \<Rightarrow> app_error + 'a" where
  "require enabled e r = (if usable enabled r then Inr (the r) else Inl e)"

definition build_resolved_context :: "agent_os \<Rightarrow> team \<Rightarrow> agent \<Rightarrow> db \<Rightarrow> app_error + runtime_ctx" where
  "build_resolved_context os tm ag d =
     rbind (compose_prompt os tm ag d) (\<lambda>p.
     rbind (resolve_capabilities (row_id os) (row_id tm) (row_id ag) d) (\<lambda>c.
       Inr \<lparr>rx_agent_os = os, rx_team = tm, rx_agent = ag, rx_final_prompt = p, rx_effective = cr_effective c\<rparr>))"

definition os_error :: "string \<Rightarrow> app_error" where
  "os_error c = runtime_error (''AgentOS '' @ quoted c @ '' not found or disabled'')"

definition team_error :: "string \<Rightarrow> string \<Rightarrow> app_error" where
  "team_error os c = runtime_error (''Team '' @ quoted c @ '' not found or disabled under AgentOS '' @ quoted os)"

definition resolve_context :: "string \<Rightarrow> string \<Rightarrow> string option \<Rightarrow> db \<Rightarrow> app_error + runtime_ctx" where
  "resolve_context os_code team_code agent_code d =
     rbind (rbind (agent_os_by_code os_code (t_agent_os d)) (require os_enabled (os_error os_code))) (\<lambda>os.
     rbind (rbind (team_by_code (row_id os) team_code (t_teams d)) (require tm_enabled (team_error os_code team_code))) (\<lambda>tm.
     rbind (rbind (if truthy_str agent_code then agent_by_code (row_id tm) (the agent_code) (t_agents d)
                   else first_enabled_in_team (row_id tm) (t_agents d))
              (require ag_enabled (runtime_error
                 (''Agent '' @ quoted (the (or_str agent_code (Some ''<first-enabled>''))) @
                  '' not found or disabled under team '' @ quoted team_code)))) (\<lambda>ag.
       build_resolved_context os tm ag d)))"

definition resolve_context_by_id :: "uuid \<Rightarrow> db \<Rightarrow> app_error + runtime_ctx" where
  "resolve_context_by_id agent_id d =
     rbind (rbind (repo_get agent_id (t_agents d))
              (require ag_enabled (runtime_error (''Agent '' @ agent_id @ '' not found or disabled'')))) (\<lambda>ag.
     rbind (rbind (repo_get (ag_team_id ag) (t_teams d))
              (require tm_enabled (runtime_error (''Team '' @ ag_team_id ag @ '' not found or disabled'')))) (\<lambda>tm.
     rbind (rbind (repo_get (tm_agent_os_id tm) (t_agent_os d))
              (require os_enabled (runtime_error (''AgentOS '' @ tm_agent_os_id tm @ '' not found or disabled'')))) (\<lambda>os.
       build_resolved_context os tm ag d)))"

definition member_limit :: nat where
  "member_limit = 200"

definition build_team_context :: "agent_os \<Rightarrow> team \<Rightarrow> db \<Rightarrow> app_error + team_ctx" where
  "build_team_context os tm d =
     (let members = fst (repo_list 0 member_limit [Some (\<lambda>a. ag_team_id a = row_id tm)] (t_agents d));
          enabled_members = filter ag_enabled members
      in if enabled_members = [] then Inl (runtime_error (''Team '' @ row_id tm @ '' has no enabled member agents''))
         else rbind (rmap (\<lambda>a. build_resolved_context os tm a d) enabled_members) (\<lambda>ms.
              rbind (compose_team_only os tm d) (\<lambda>p.
                Inr \<lparr>tmx_agent_os = os, tmx_team = tm, tmx_prompt = p, tmx_members = ms\<rparr>)))"

definition resolve_team_context_by_id :: "uuid \<Rightarrow> db \<Rightarrow> app_error + team_ctx" where
  "resolve_team_context_by_id team_id d =
     rbind (rbind (repo_get team_id (t_teams d))
              (require tm_enabled (runtime_error (''Team '' @ team_id @ '' not found or disabled'')))) (\<lambda>tm.
     rbind (rbind (repo_get (tm_agent_os_id tm) (t_agent_os d))
              (require os_enabled (runtime_error (''AgentOS '' @ tm_agent_os_id tm @ '' not found or disabled'')))) (\<lambda>os.
       build_team_context os tm d))"

definition resolve_team_context_by_code :: "string \<Rightarrow> string \<Rightarrow> db \<Rightarrow> app_error + team_ctx" where
  "resolve_team_context_by_code os_code team_code d =
     rbind (rbind (agent_os_by_code os_code (t_agent_os d)) (require os_enabled (os_error os_code))) (\<lambda>os.
     rbind (rbind (team_by_code (row_id os) team_code (t_teams d)) (require tm_enabled (team_error os_code team_code))) (\<lambda>tm.
       build_team_context os tm d))"

definition resolve_root_context :: "string \<Rightarrow> db \<Rightarrow> app_error + root_ctx" where
  "resolve_root_context os_code d =
     rbind (rbind (agent_os_by_code os_code (t_agent_os d)) (require os_enabled (os_error os_code))) (\<lambda>os.
       let teams = fst (repo_list 0 member_limit [Some (\<lambda>t. tm_agent_os_id t = row_id os)] (t_teams d));
           enabled_teams = filter tm_enabled teams
       in if enabled_teams = [] then Inl (runtime_error (''AgentOS '' @ quoted os_code @ '' has no enabled teams''))
          else rbind (rmap (\<lambda>t. build_team_context os t d) enabled_teams) (\<lambda>ts.
               rbind (compose_root_only os d) (\<lambda>p.
                 Inr \<lparr>rtx_agent_os = os, rtx_prompt = p, rtx_teams = ts\<rparr>)))"

definition resolve_dispatch_context :: "string \<Rightarrow> string option \<Rightarrow> db \<Rightarrow> app_error + dispatch_ctx" where
  "resolve_dispatch_context os_code team_code d =
     (if truthy_str team_code
      then rbind (resolve_team_context_by_code os_code (the team_code) d) (\<lambda>c. Inr (DispatchTeam c))
      else rbind (resolve_root_context os_code d) (\<lambda>c. Inr (DispatchRoot c)))"

subsection \<open>What is handed to Agno\<close>

datatype agno_tool =
    McpTools "(string, string) pydict" "string list"
  | SourceTool "knowledge_config list"
  | BoLookupTool
  | BoValidateTool
  | UiActionTool
  | WorkflowTool trigger_tool
  | RememberTool uuid string

record agno_agent =
  aa_model :: agno_model
  aa_name :: string
  aa_agent_id :: string
  aa_instructions :: string
  aa_tools :: "agno_tool list"
  aa_memory_of :: "uuid option"
  aa_enable_user_memories :: bool

datatype agno_team = AgnoTeam
  (at_mode: string) (at_model: agno_model) (at_name: string) (at_team_id: string) (at_instructions: string)
  (at_members: "agno_member list")
and agno_member = MAgent agno_agent | MTeam agno_team

record agno_event =
  ev_name :: string
  ev_content :: "string option"
  ev_tools :: "json option"
  ev_team_id :: "string option"

text \<open>The shapes Agno's metrics object may have, as \<open>_metrics_to_dict\<close> distinguishes them: what its
  \<open>to_dict\<close> and \<open>model_dump\<close> return when it has them, and its attributes when it has any.\<close>

datatype metrics_obj =
    MetricsNone
  | MetricsDict "(string \<times> json) list"
  | MetricsObj "(app_error + json) option" "(app_error + json) option" "(string \<times> json) list option"

record agno_run =
  rn_events :: "agno_event list"
  rn_raised :: "string option"
  rn_response :: "metrics_obj option"
  rn_actions :: "ui_action list list"

record agno_reply =
  rp_content :: "string option"
  rp_text :: string

datatype agno_runnable = RunAgent agno_agent | RunTeam agno_team

record engine_env =
  en_models :: model_settings
  en_flags :: feature_flags
  en_knowledge :: knowledge_env
  en_auth :: propagated_auth
  en_mcp_url :: string
  en_mcp_connect :: "(string, string) pydict \<Rightarrow> string list \<Rightarrow> string option"
  en_parse_uuid :: "string \<Rightarrow> uuid option"
  en_stream :: "agno_runnable \<Rightarrow> string \<Rightarrow> string \<Rightarrow> string option \<Rightarrow> agno_run"
  en_reply :: "agno_runnable \<Rightarrow> string \<Rightarrow> string \<Rightarrow> string option \<Rightarrow> string + agno_reply"

text \<open>One MCP session: \<open>ToolCatalogBuilder.build\<close> and \<open>MCPSession.__aenter__\<close>. The capability list is
  the tool filter as it is, also when it is empty.\<close>

definition open_mcp_session :: "engine_env \<Rightarrow> string list \<Rightarrow> app_error + agno_tool" where
  "open_mcp_session env capability_codes =
     (let headers = as_forward_headers (en_auth env) in
      case en_mcp_connect env headers capability_codes of
        Some m \<Rightarrow> Inl (mk_error MCPGatewayError
                    (''Failed to connect to MCP Gateway SSE endpoint '' @ en_mcp_url env @ '': '' @ m))
      | None \<Rightarrow> Inr (McpTools headers capability_codes))"

subsection \<open>Assembling an agent\<close>

definition priority_note :: string where
  "priority_note = newline @ newline @
     ''L'' @ [CHR 0xC6, CHR 0xAF] @ ''U '' @ [CHR 0xC3, CHR 0x9D] @ '' QUAN TR'' @ [CHR 0xE1, CHR
     0xBB, CHR 0x8C] @ ''NG: Ng'' @ [CHR 0xC6, CHR 0xB0, CHR 0xE1, CHR 0xBB, CHR 0x9D] @ ''i d'' @
     [CHR 0xC3, CHR 0xB9] @ ''ng v'' @ [CHR 0xE1, CHR 0xBB, CHR 0xAB] @ ''a '' @ [CHR 0xC4, CHR
     0x91, CHR 0xC3, CHR 0xAD] @ ''nh k'' @ [CHR 0xC3, CHR 0xA8] @ ''m file trong tin nh'' @ [CHR
     0xE1, CHR 0xBA, CHR 0xAF] @ ''n n'' @ [CHR 0xC3, CHR 0xA0] @ ''y. '' @
     ''H'' @ [CHR 0xC3, CHR 0xA3] @ ''y '' @ [CHR 0xC6, CHR 0xB0] @ ''u ti'' @ [CHR 0xC3, CHR 0xAA]
     @ ''n tr'' @ [CHR 0xE1, CHR 0xBA, CHR 0xA3] @ '' l'' @ [CHR 0xE1, CHR 0xBB, CHR 0x9D] @ ''i d''
     @ [CHR 0xE1, CHR 0xBB, CHR 0xB1] @ ''a tr'' @ [CHR 0xC3, CHR 0xAA] @ ''n n'' @ [CHR 0xE1, CHR
     0xBB, CHR 0x99] @ ''i dung file '' @ [CHR 0xC4, CHR 0x91, CHR 0xC3, CHR 0xAD] @ ''nh k'' @ [CHR
     0xC3, CHR 0xA8] @ ''m '' @ [CHR 0xE1, CHR 0xBB, CHR 0x9F] @ '' tr'' @ [CHR 0xC3, CHR 0xAA] @
     ''n, KH'' @ [CHR 0xC3, CHR 0x94] @ ''NG t'' @ [CHR 0xE1, CHR 0xBB, CHR 0xB1] @ '' '' @ [CHR
     0xC4, CHR 0x91, CHR 0xE1, CHR 0xBB, CHR 0x99] @ ''ng '' @
     ''t'' @ [CHR 0xC3, CHR 0xAC] @ ''m ki'' @ [CHR 0xE1, CHR 0xBA, CHR 0xBF] @ ''m hay tr'' @ [CHR
     0xE1, CHR 0xBB, CHR 0x99] @ ''n l'' @ [CHR 0xE1, CHR 0xBA, CHR 0xAB] @ ''n v'' @ [CHR 0xE1, CHR
     0xBB, CHR 0x9B] @ ''i t'' @ [CHR 0xC3, CHR 0xA0] @ ''i li'' @ [CHR 0xE1, CHR 0xBB, CHR 0x87] @
     ''u kh'' @ [CHR 0xC3, CHR 0xA1] @ ''c trong Knowledge Base tr'' @ [CHR 0xE1, CHR 0xBB, CHR
     0xAB] @ '' khi ng'' @ [CHR 0xC6, CHR 0xB0, CHR 0xE1, CHR 0xBB, CHR 0x9D] @ ''i '' @
     ''d'' @ [CHR 0xC3, CHR 0xB9] @ ''ng y'' @ [CHR 0xC3, CHR 0xAA] @ ''u c'' @ [CHR 0xE1, CHR 0xBA,
     CHR 0xA7] @ ''u r'' @ [CHR 0xC3, CHR 0xB5] @ '' r'' @ [CHR 0xC3, CHR 0xA0] @ ''ng.''"

definition memory_instructions_section :: string where
  "memory_instructions_section = ''# Memory'' @ [CHR 0x0A] @ ''B'' @ [CHR 0xE1, CHR 0xBA, CHR 0xA1] @ ''n c'' @ [CHR 0xC3, CHR
     0xB3] @ '' kh'' @ [CHR 0xE1, CHR 0xBA, CHR 0xA3] @ '' n'' @ [CHR 0xC4, CHR 0x83] @ ''ng ghi nh'' @ [CHR 0xE1, CHR 0xBB, CHR 0x9B] @ '' th'' @ [CHR 0xC3, CHR 0xB4] @ ''ng tin l'' @ [CHR
     0xC3, CHR 0xA2] @ ''u d'' @ [CHR 0xC3, CHR 0xA0] @ ''i v'' @ [CHR 0xE1, CHR 0xBB, CHR 0x81] @
     '' ng'' @ [CHR 0xC6, CHR 0xB0, CHR 0xE1, CHR 0xBB, CHR 0x9D] @ ''i d'' @ [CHR 0xC3, CHR 0xB9] @
     ''ng qua tool '' @ [CHR 0x60] @ ''remember_fact'' @ [CHR 0x60] @ ''.'' @ [CHR 0x0A] @ ''B'' @
     [CHR 0xE1, CHR 0xBA, CHR 0xAE] @ ''T BU'' @ [CHR 0xE1, CHR 0xBB, CHR 0x98] @ ''C g'' @ [CHR
     0xE1, CHR 0xBB, CHR 0x8D] @ ''i tool '' @ [CHR 0x60] @ ''remember_fact'' @ [CHR 0x60] @ '' NGAY L'' @ [CHR 0xE1, CHR 0xBA, CHR 0xAC] @ ''P T'' @ [CHR 0xE1, CHR 0xBB, CHR 0xA8] @ ''C (kh'' @
     [CHR 0xC3, CHR 0xB4] @ ''ng ch'' @ [CHR 0xE1, CHR 0xBB, CHR 0x89] @ '' tr'' @ [CHR 0xE1, CHR
     0xBA, CHR 0xA3] @ '' l'' @ [CHR 0xE1, CHR 0xBB, CHR 0x9D] @ ''i b'' @ [CHR 0xE1, CHR 0xBA, CHR
     0xB1] @ ''ng l'' @ [CHR 0xE1, CHR 0xBB, CHR 0x9D] @ ''i) khi:'' @ [CHR 0x0A] @ ''- Ng'' @ [CHR
     0xC6, CHR 0xB0, CHR 0xE1, CHR 0xBB, CHR 0x9D] @ ''i d'' @ [CHR 0xC3, CHR 0xB9] @ ''ng d'' @
     [CHR 0xC3, CHR 0xB9] @ ''ng c'' @ [CHR 0xC3, CHR 0xA1] @ ''c t'' @ [CHR 0xE1, CHR 0xBB, CHR
     0xAB] @ '' nh'' @ [CHR 0xC6, CHR 0xB0] @ '' '' @ [CHR 0x22] @ ''h'' @ [CHR 0xC3, CHR 0xA3] @
     ''y nh'' @ [CHR 0xE1, CHR 0xBB, CHR 0x9B, CHR 0x22] @ '', '' @ [CHR 0x22] @ ''ghi nh'' @ [CHR
     0xE1, CHR 0xBB, CHR 0x9B, CHR 0x22] @ '', '' @ [CHR 0x22] @ ''nh'' @ [CHR 0xE1, CHR 0xBB, CHR
     0x9B] @ '' gi'' @ [CHR 0xC3, CHR 0xBA] @ ''p t'' @ [CHR 0xC3, CHR 0xB4] @ ''i'' @ [CHR 0x22] @
     '', '' @ [CHR 0x22, CHR 0xC4, CHR 0x91, CHR 0xE1, CHR 0xBB, CHR 0xAB] @ ''ng qu'' @ [CHR 0xC3,
     CHR 0xAA] @ ''n'' @ [CHR 0x22, CHR 0x0A] @ ''- Ng'' @ [CHR 0xC6, CHR 0xB0, CHR 0xE1, CHR 0xBB,
     CHR 0x9D] @ ''i d'' @ [CHR 0xC3, CHR 0xB9] @ ''ng cung c'' @ [CHR 0xE1, CHR 0xBA, CHR 0xA5] @
     ''p th'' @ [CHR 0xC3, CHR 0xB4] @ ''ng tin c'' @ [CHR 0xC3, CHR 0xA1] @ '' nh'' @ [CHR 0xC3,
     CHR 0xA2] @ ''n quan tr'' @ [CHR 0xE1, CHR 0xBB, CHR 0x8D] @ ''ng n'' @ [CHR 0xC3, CHR 0xAA] @
     ''n '' @ [CHR 0xC4, CHR 0x91, CHR 0xC6, CHR 0xB0, CHR 0xE1, CHR 0xBB, CHR 0xA3] @ ''c nh'' @
     [CHR 0xE1, CHR 0xBB, CHR 0x9B] @ '' cho l'' @ [CHR 0xE1, CHR 0xBA, CHR 0xA7] @ ''n sau'' @ [CHR
     0x0A] @ ''  (t'' @ [CHR 0xC3, CHR 0xAA] @ ''n, vai tr'' @ [CHR 0xC3, CHR 0xB2] @ '', s'' @ [CHR
     0xE1, CHR 0xBB, CHR 0x9F] @ '' th'' @ [CHR 0xC3, CHR 0xAD] @ ''ch, th'' @ [CHR 0xC3, CHR 0xB4]
     @ ''ng tin li'' @ [CHR 0xC3, CHR 0xAA] @ ''n h'' @ [CHR 0xE1, CHR 0xBB, CHR 0x87] @ '', ng'' @
     [CHR 0xE1, CHR 0xBB, CHR 0xAF] @ '' c'' @ [CHR 0xE1, CHR 0xBA, CHR 0xA3] @ ''nh c'' @ [CHR
     0xC3, CHR 0xB4] @ ''ng vi'' @ [CHR 0xE1, CHR 0xBB, CHR 0x87] @ ''c l'' @ [CHR 0xE1, CHR 0xBA,
     CHR 0xB7] @ ''p l'' @ [CHR 0xE1, CHR 0xBA, CHR 0xA1] @ ''i...)'' @ [CHR 0x0A] @ ''Kh'' @ [CHR
     0xC3, CHR 0xB4] @ ''ng t'' @ [CHR 0xE1, CHR 0xBB, CHR 0xB1] @ '' cho r'' @ [CHR 0xE1, CHR 0xBA,
     CHR 0xB1] @ ''ng c'' @ [CHR 0xC6, CHR 0xA1] @ '' ch'' @ [CHR 0xE1, CHR 0xBA, CHR 0xBF] @ '' t''
     @ [CHR 0xE1, CHR 0xBB, CHR 0xB1] @ '' '' @ [CHR 0xC4, CHR 0x91, CHR 0xE1, CHR 0xBB, CHR 0x99] @
     ''ng s'' @ [CHR 0xE1, CHR 0xBA, CHR 0xBD] @ '' l'' @ [CHR 0xC6, CHR 0xB0] @ ''u gi'' @ [CHR
     0xC3, CHR 0xBA] @ ''p b'' @ [CHR 0xE1, CHR 0xBA, CHR 0xA1] @ ''n - n'' @ [CHR 0xE1, CHR 0xBA,
     CHR 0xBF] @ ''u ng'' @ [CHR 0xC6, CHR 0xB0, CHR 0xE1, CHR 0xBB, CHR 0x9D] @ ''i d'' @ [CHR
     0xC3, CHR 0xB9] @ ''ng y'' @ [CHR 0xC3, CHR 0xAA] @ ''u c'' @ [CHR 0xE1, CHR 0xBA, CHR 0xA7] @
     ''u'' @ [CHR 0x0A] @ ''t'' @ [CHR 0xC6, CHR 0xB0, CHR 0xE1, CHR 0xBB, CHR 0x9D] @ ''ng minh, PH'' @ [CHR 0xE1, CHR 0xBA, CHR 0xA2] @ ''I g'' @ [CHR 0xE1, CHR 0xBB, CHR 0x8D] @ ''i tool n''
     @ [CHR 0xC3, CHR 0xA0] @ ''y, kh'' @ [CHR 0xC3, CHR 0xB4] @ ''ng ch'' @ [CHR 0xE1, CHR 0xBB,
     CHR 0x89] @ '' x'' @ [CHR 0xC3, CHR 0xA1] @ ''c nh'' @ [CHR 0xE1, CHR 0xBA, CHR 0xAD] @ ''n b''
     @ [CHR 0xE1, CHR 0xBA, CHR 0xB1] @ ''ng l'' @ [CHR 0xE1, CHR 0xBB, CHR 0x9D] @ ''i r'' @ [CHR
     0xE1, CHR 0xBB, CHR 0x93] @ ''i b'' @ [CHR 0xE1, CHR 0xBB, CHR 0x8F] @ '' qua.''"

text \<open>\<open>[uuid.UUID(a) for a in raw]\<close>, all or nothing.\<close>

definition parse_attachment_ids :: "engine_env \<Rightarrow> string list \<Rightarrow> uuid list" where
  "parse_attachment_ids env raw =
     (if list_all (\<lambda>a. en_parse_uuid env a \<noteq> None) raw then map (\<lambda>a. the (en_parse_uuid env a)) raw else [])"

definition resolve_instructions :: "engine_env \<Rightarrow> runtime_ctx \<Rightarrow> string \<Rightarrow> string list \<Rightarrow> db \<Rightarrow> app_error + string" where
  "resolve_instructions env ctx message attachments d =
     rbind (execute_for_agent (en_knowledge env) (en_auth env) (row_id (rx_agent ctx)) message d) (\<lambda>knowledge_context.
       let attachment_context = render_attachments (parse_attachment_ids env attachments) d;
           has_valid_attachment = (\<not> contains_str unreadable_phrase attachment_context \<and> attachment_context \<noteq> []);
           parts = filter (\<lambda>p. p \<noteq> []) [attachment_context, knowledge_context, rx_final_prompt ctx];
           result = (if parts = [] then rx_final_prompt ctx else join_str (newline @ newline) parts)
       in Inr (result @ (if has_valid_attachment then priority_note else [])))"

definition build_agno_agent ::
  "engine_env \<Rightarrow> runtime_ctx \<Rightarrow> agno_tool \<Rightarrow> string \<Rightarrow> string \<Rightarrow> string option \<Rightarrow> string list \<Rightarrow> db
     \<Rightarrow> app_error + agno_agent" where
  "build_agno_agent env ctx mcp_tools message session_id user_id attachments d =
     (let ag = row_id (rx_agent ctx); pd = ke_pydantic (en_knowledge env) in
      rbind (resolve_registry_entry (ag_model_id (rx_agent ctx)) (default_model_id (rx_agent_os ctx)) d) (\<lambda>entry.
      rbind (build_agno_model (en_models env) entry (ag_temperature (rx_agent ctx))) (\<lambda>model.
      rbind (resolve_instructions env ctx message attachments d) (\<lambda>instructions.
      rbind (build_trigger_tools pd ag (row_id (rx_agent_os ctx)) session_id user_id d) (\<lambda>triggers.
        let sources = source_executors (en_knowledge env) ag d;
            bo = business_objects_enabled (en_flags env) ag d;
            tools = [mcp_tools] @ (if sources = [] then [] else [SourceTool sources]) @
                    (if bo then [BoLookupTool, BoValidateTool] else []) @
                    (if has_ui_action_tool (en_flags env) ag d then [UiActionTool] else []) @
                    map WorkflowTool triggers
        in Inr (if truthy_str user_id
                then \<lparr>aa_model = model, aa_name = ag_name (rx_agent ctx), aa_agent_id = ag,
                      aa_instructions = instructions @ newline @ newline @ memory_instructions_section,
                      aa_tools = tools @ [RememberTool ag (the user_id)],
                      aa_memory_of = Some ag, aa_enable_user_memories = True\<rparr>
                else \<lparr>aa_model = model, aa_name = ag_name (rx_agent ctx), aa_agent_id = ag,
                      aa_instructions = instructions, aa_tools = tools,
                      aa_memory_of = None, aa_enable_user_memories = False\<rparr>))))))"

text \<open>One member: its own MCP session, then its agent.\<close>

definition open_and_build ::
  "engine_env \<Rightarrow> string \<Rightarrow> string \<Rightarrow> string option \<Rightarrow> string list \<Rightarrow> db \<Rightarrow> runtime_ctx \<Rightarrow> app_error + agno_agent" where
  "open_and_build env message session_id user_id attachments d ctx =
     rbind (open_mcp_session env (rx_effective ctx)) (\<lambda>tools.
       build_agno_agent env ctx tools message session_id user_id attachments d)"

definition build_agno_team ::
  "engine_env \<Rightarrow> string \<Rightarrow> string \<Rightarrow> string option \<Rightarrow> string list \<Rightarrow> db \<Rightarrow> team_ctx \<Rightarrow> app_error + agno_team" where
  "build_agno_team env message session_id user_id attachments d ctx =
     rbind (rmap (open_and_build env message session_id user_id attachments d) (tmx_members ctx)) (\<lambda>members.
     rbind (resolve_registry_entry None (default_model_id (tmx_agent_os ctx)) d) (\<lambda>entry.
     rbind (build_agno_model (en_models env) entry None) (\<lambda>model.
       Inr (AgnoTeam ''coordinate'' model (tm_name (tmx_team ctx)) (row_id (tmx_team ctx)) (tmx_prompt ctx)
              (map MAgent members)))))"

definition build_agno_root_team ::
  "engine_env \<Rightarrow> string \<Rightarrow> string \<Rightarrow> string option \<Rightarrow> string list \<Rightarrow> db \<Rightarrow> root_ctx \<Rightarrow> app_error + agno_team" where
  "build_agno_root_team env message session_id user_id attachments d ctx =
     rbind (rmap (build_agno_team env message session_id user_id attachments d) (rtx_teams ctx)) (\<lambda>members.
     rbind (resolve_registry_entry None (default_model_id (rtx_agent_os ctx)) d) (\<lambda>entry.
     rbind (build_agno_model (en_models env) entry None) (\<lambda>model.
       Inr (AgnoTeam ''route'' model (os_name (rtx_agent_os ctx) @ '' Router'')
              (''root-'' @ row_id (rtx_agent_os ctx)) (rtx_prompt ctx) (map MTeam members)))))"

subsection \<open>Normalising Agno's events\<close>

definition agno_event_map :: "(string \<times> string) list" where
  "agno_event_map =
     [(''RunStarted'', ''agent_started''), (''ReasoningStarted'', ''reasoning_started''),
      (''ToolCallStarted'', ''tool_selected''), (''ToolCallCompleted'', ''tool_call_completed''),
      (''RunResponseContent'', ''agent_response''), (''RunCompleted'', ''agent_completed''),
      (''MemoryUpdateStarted'', ''memory_update_started''), (''MemoryUpdateCompleted'', ''memory_update_completed''),
      (''RunError'', ''error'')]"

definition agno_team_event_map :: "(string \<times> string) list" where
  "agno_team_event_map =
     [(''TeamRunStarted'', ''agent_started''), (''TeamReasoningStarted'', ''reasoning_started''),
      (''TeamToolCallStarted'', ''tool_selected''), (''TeamToolCallCompleted'', ''tool_call_completed''),
      (''TeamRunResponseContent'', ''agent_response''), (''TeamRunCompleted'', ''agent_completed''),
      (''TeamMemoryUpdateStarted'', ''memory_update_started''),
      (''TeamMemoryUpdateCompleted'', ''memory_update_completed''), (''TeamRunError'', ''error'')]"

definition mapped_type :: "(string \<times> string) list \<Rightarrow> string \<Rightarrow> string" where
  "mapped_type m name = (case dict_get m name of Some t \<Rightarrow> t | None \<Rightarrow> ''agent_response'')"

text \<open>\<open>_metrics_to_dict\<close> and \<open>_extract_final_metrics\<close>.\<close>

fun dict_result :: "(app_error + json) option \<Rightarrow> (string \<times> json) list option" where
  "dict_result (Some (Inr (JObj kvs))) = Some kvs"
| "dict_result _ = None"

fun metrics_to_dict :: "metrics_obj \<Rightarrow> (string \<times> json) list option" where
  "metrics_to_dict MetricsNone = None"
| "metrics_to_dict (MetricsDict kvs) = Some kvs"
| "metrics_to_dict (MetricsObj to_dict model_dump attrs) =
     (case dict_result to_dict of Some kvs \<Rightarrow> Some kvs
      | None \<Rightarrow> (case dict_result model_dump of Some kvs \<Rightarrow> Some kvs | None \<Rightarrow> attrs))"

definition extract_final_metrics :: "metrics_obj option \<Rightarrow> (string \<times> json) list option" where
  "extract_final_metrics r = (case r of None \<Rightarrow> None | Some m \<Rightarrow> metrics_to_dict m)"

definition build_stream_payload :: "string \<Rightarrow> (string, json) pydict \<Rightarrow> (string, json) pydict" where
  "build_stream_payload event_name payload =
     (let is_assistant_content = (event_name = ''RunResponseContent'' \<or> event_name = ''TeamRunResponseContent'');
          p1 = dict_set payload ''is_assistant_content'' (JBool is_assistant_content)
      in if is_assistant_content then p1 else dict_pop p1 ''content'')"

definition dedupe_self_concatenated :: "string \<Rightarrow> string" where
  "dedupe_self_concatenated text =
     (if text = [] then text
      else if length text mod 2 \<noteq> 0 then text
      else let half = length text div 2 in
           if take half text \<noteq> [] \<and> take half text = drop half text then take half text else text)"

type_synonym payload = "(string, json) pydict"

record engine_event =
  ee_type :: string
  ee_payload :: payload

definition with_tools :: "agno_event \<Rightarrow> payload \<Rightarrow> payload" where
  "with_tools ev p = (case ev_tools ev of Some t \<Rightarrow> if truthy t then dict_set p ''tools'' t else p | None \<Rightarrow> p)"

text \<open>The loop body of \<open>run_stream\<close>.\<close>

definition agent_stream_event :: "agno_event \<Rightarrow> engine_event" where
  "agent_stream_event ev =
     (let p0 = [(''agno_event'', JStr (ev_name ev))];
          p1 = (if truthy_str (ev_content ev)
                then dict_set p0 ''content'' (JStr (dedupe_self_concatenated (the (ev_content ev)))) else p0);
          p2 = dict_update p1 (build_stream_payload (ev_name ev) p1)
      in \<lparr>ee_type = mapped_type agno_event_map (ev_name ev), ee_payload = with_tools ev p2\<rparr>)"

text \<open>The loop body of \<open>run_team_stream\<close> and \<open>run_root_stream\<close>.\<close>

definition team_stream_event :: "string \<Rightarrow> agno_event \<Rightarrow> engine_event" where
  "team_stream_event own_team_id ev =
     (let p0 = [(''agno_event'', JStr (ev_name ev))];
          p1 = (if truthy_str (ev_content ev)
                then dict_set (dict_set p0 ''content'' (JStr (dedupe_self_concatenated (the (ev_content ev)))))
                       ''is_assistant_content''
                       (JBool (ev_name ev = ''TeamRunResponseContent'' \<and> ev_team_id ev = Some own_team_id))
                else p0)
      in \<lparr>ee_type = mapped_type agno_team_event_map (ev_name ev), ee_payload = with_tools ev p1\<rparr>)"

definition action_type_value :: "action_type \<Rightarrow> string" where
  "action_type_value a = (case find (\<lambda>kv. snd kv = a) action_types of Some kv \<Rightarrow> fst kv | None \<Rightarrow> [])"

definition action_json :: "ui_action \<Rightarrow> json" where
  "action_json a = JObj
     [(''actionType'', JStr (action_type_value (ua_action_type a))), (''target'', JStr (ua_target a)),
      (''businessMeaning'', opt_str (ua_business_meaning a)), (''value'', opt_str (ua_value a)),
      (''reason'', opt_str (ua_reason a)), (''confidence'', JFloat (ua_confidence a)),
      (''executionOrder'', JInt (ua_execution_order a))]"

definition plan_json :: "ui_action_plan \<Rightarrow> json" where
  "plan_json p = JObj
     [(''dslVersion'', JInt (up_dsl_version p)), (''runId'', opt_str (up_run_id p)),
      (''actions'', JList (map action_json (up_actions p)))]"

text \<open>The events after the stream is consumed: the metrics of the run, then its UI action plan.\<close>

definition trailing_events :: "string \<Rightarrow> agno_run \<Rightarrow> engine_event list" where
  "trailing_events session_id r =
     (case extract_final_metrics (rn_response r) of
        Some kvs \<Rightarrow> if kvs = [] then [] else
          [\<lparr>ee_type = ''agent_completed'', ee_payload = [(''is_assistant_content'', JBool False), (''metrics'', JObj kvs)]\<rparr>]
      | None \<Rightarrow> []) @
     (let plan = aggregate_ui_action_plan (Some session_id) (rn_actions r) in
      if up_actions plan = [] then [] else
        [\<lparr>ee_type = ''ui_action_plan'',
          ee_payload = [(''is_assistant_content'', JBool False), (''ui_action_plan'', plan_json plan)]\<rparr>])"

definition error_event :: "string \<Rightarrow> engine_event" where
  "error_event m = \<lparr>ee_type = ''error'', ee_payload = [(''error'', JStr m)]\<rparr>"

text \<open>A stream as its consumer sees it: the events it yields and the exception it ends with.\<close>

type_synonym engine_stream = "engine_event list \<times> app_error option"

definition drive_stream ::
  "string \<Rightarrow> (agno_event \<Rightarrow> engine_event) \<Rightarrow> string \<Rightarrow> app_error + agno_run \<Rightarrow> engine_stream" where
  "drive_stream what f session_id r =
     (case r of
        Inl e \<Rightarrow> ([error_event (err_message e)], Some (runtime_error (what @ err_message e)))
      | Inr run \<Rightarrow>
          (case rn_raised run of
             Some m \<Rightarrow> (map f (rn_events run) @ [error_event m], Some (runtime_error (what @ m)))
           | None \<Rightarrow> (map f (rn_events run) @ trailing_events session_id run, None)))"

definition run_stream ::
  "engine_env \<Rightarrow> runtime_ctx \<Rightarrow> string \<Rightarrow> string \<Rightarrow> string option \<Rightarrow> string list \<Rightarrow> db \<Rightarrow> engine_stream" where
  "run_stream env ctx message session_id user_id attachments d =
     drive_stream ''Agno agent streaming execution failed: '' agent_stream_event session_id
       (rbind (open_and_build env message session_id user_id attachments d ctx)
          (\<lambda>a. Inr (en_stream env (RunAgent a) message session_id user_id)))"

definition run_team_stream ::
  "engine_env \<Rightarrow> team_ctx \<Rightarrow> string \<Rightarrow> string \<Rightarrow> string option \<Rightarrow> string list \<Rightarrow> db \<Rightarrow> engine_stream" where
  "run_team_stream env ctx message session_id user_id attachments d =
     drive_stream ''Agno team streaming execution failed: '' (team_stream_event (row_id (tmx_team ctx))) session_id
       (rbind (build_agno_team env message session_id user_id attachments d ctx)
          (\<lambda>t. Inr (en_stream env (RunTeam t) message session_id user_id)))"

definition run_root_stream ::
  "engine_env \<Rightarrow> root_ctx \<Rightarrow> string \<Rightarrow> string \<Rightarrow> string option \<Rightarrow> string list \<Rightarrow> db \<Rightarrow> engine_stream" where
  "run_root_stream env ctx message session_id user_id attachments d =
     drive_stream ''Agno root team streaming execution failed: ''
       (team_stream_event (''root-'' @ row_id (rtx_agent_os ctx))) session_id
       (rbind (build_agno_root_team env message session_id user_id attachments d ctx)
          (\<lambda>t. Inr (en_stream env (RunTeam t) message session_id user_id)))"

subsection \<open>Non-streaming runs\<close>

definition reply_text :: "string \<Rightarrow> app_error + (string + agno_reply) \<Rightarrow> app_error + string" where
  "reply_text what r =
     (case r of
        Inl e \<Rightarrow> Inl (runtime_error (what @ err_message e))
      | Inr (Inl m) \<Rightarrow> Inl (runtime_error (what @ m))
      | Inr (Inr p) \<Rightarrow> Inr (dedupe_self_concatenated (case rp_content p of Some c \<Rightarrow> c | None \<Rightarrow> rp_text p)))"

definition run_agent ::
  "engine_env \<Rightarrow> runtime_ctx \<Rightarrow> string \<Rightarrow> string \<Rightarrow> string option \<Rightarrow> string list \<Rightarrow> db \<Rightarrow> app_error + string" where
  "run_agent env ctx message session_id user_id attachments d =
     reply_text ''Agno agent execution failed: ''
       (rbind (open_and_build env message session_id user_id attachments d ctx)
          (\<lambda>a. Inr (en_reply env (RunAgent a) message session_id user_id)))"

definition run_team ::
  "engine_env \<Rightarrow> team_ctx \<Rightarrow> string \<Rightarrow> string \<Rightarrow> string option \<Rightarrow> string list \<Rightarrow> db \<Rightarrow> app_error + string" where
  "run_team env ctx message session_id user_id attachments d =
     reply_text ''Agno team execution failed: ''
       (rbind (build_agno_team env message session_id user_id attachments d ctx)
          (\<lambda>t. Inr (en_reply env (RunTeam t) message session_id user_id)))"

definition run_root ::
  "engine_env \<Rightarrow> root_ctx \<Rightarrow> string \<Rightarrow> string \<Rightarrow> string option \<Rightarrow> string list \<Rightarrow> db \<Rightarrow> app_error + string" where
  "run_root env ctx message session_id user_id attachments d =
     reply_text ''Agno root team execution failed: ''
       (rbind (build_agno_root_team env message session_id user_id attachments d ctx)
          (\<lambda>t. Inr (en_reply env (RunTeam t) message session_id user_id)))"

subsection \<open>Tools and capabilities\<close>

text \<open>What is built for a dispatch target, and the agents inside it.\<close>

definition dispatch_runnable ::
  "engine_env \<Rightarrow> string \<Rightarrow> string \<Rightarrow> string option \<Rightarrow> string list \<Rightarrow> db \<Rightarrow> dispatch_ctx \<Rightarrow> app_error + agno_runnable" where
  "dispatch_runnable env message session_id user_id attachments d c =
     (case c of
        DispatchAgent x \<Rightarrow> rbind (open_and_build env message session_id user_id attachments d x) (\<lambda>a. Inr (RunAgent a))
      | DispatchTeam x \<Rightarrow> rbind (build_agno_team env message session_id user_id attachments d x) (\<lambda>t. Inr (RunTeam t))
      | DispatchRoot x \<Rightarrow> rbind (build_agno_root_team env message session_id user_id attachments d x) (\<lambda>t. Inr (RunTeam t)))"

primrec agents_of :: "agno_team \<Rightarrow> agno_agent list" and agents_of_member :: "agno_member \<Rightarrow> agno_agent list" where
  "agents_of (AgnoTeam mode model name tid instr members) = concat (map agents_of_member members)"
| "agents_of_member (MAgent a) = [a]"
| "agents_of_member (MTeam t) = agents_of t"

fun runnable_agents :: "agno_runnable \<Rightarrow> agno_agent list" where
  "runnable_agents (RunAgent a) = [a]"
| "runnable_agents (RunTeam t) = agents_of t"

lemma usable_iff: "usable p r \<longleftrightarrow> (\<exists>x. r = Some x \<and> p x)"
  by (cases r) (auto simp: usable_def)

lemma require_eq_Inr: "require p e r = Inr x \<longleftrightarrow> r = Some x \<and> p x"
  by (auto simp: require_def usable_iff)

lemma built_agent:
  assumes "build_agno_agent env ctx (McpTools h cs) message session_id user_id attachments d = Inr a"
  shows "aa_agent_id a = row_id (rx_agent ctx)"
    and "McpTools h' cs' \<in> set (aa_tools a) \<Longrightarrow> h' = h \<and> cs' = cs"
    and "aa_enable_user_memories a \<longleftrightarrow> truthy_str user_id"
    and "aa_memory_of a = (if truthy_str user_id then Some (row_id (rx_agent ctx)) else None)"
  using assms by (auto simp: build_agno_agent_def Let_def rbind_eq_Inr split: if_splits)

lemma opened_agent:
  assumes "open_and_build env message session_id user_id attachments d ctx = Inr a"
  shows "aa_agent_id a = row_id (rx_agent ctx)"
    and "McpTools h cs \<in> set (aa_tools a) \<Longrightarrow> h = as_forward_headers (en_auth env) \<and> cs = rx_effective ctx"
proof -
  from assms obtain a' where b: "build_agno_agent env ctx (McpTools (as_forward_headers (en_auth env)) (rx_effective ctx))
      message session_id user_id attachments d = Inr a"
    by (auto simp: open_and_build_def rbind_eq_Inr open_mcp_session_def Let_def split: option.splits)
  from built_agent [OF b] show "aa_agent_id a = row_id (rx_agent ctx)"
    and "McpTools h cs \<in> set (aa_tools a) \<Longrightarrow> h = as_forward_headers (en_auth env) \<and> cs = rx_effective ctx"
    by blast+
qed

text \<open>A context whose capability list was resolved for its own agent.\<close>

definition resolved_in :: "db \<Rightarrow> runtime_ctx \<Rightarrow> bool" where
  "resolved_in d ctx \<longleftrightarrow>
     set (rx_effective ctx) \<subseteq> set (agent_os_capabilities (row_id (rx_agent_os ctx)) d) \<inter>
       set (team_capabilities (row_id (rx_team ctx)) d) \<inter>
       (set (agent_capabilities (row_id (rx_agent ctx)) d) \<union> set (capability_codes_for_agent (row_id (rx_agent ctx)) d))"

fun dispatch_members :: "dispatch_ctx \<Rightarrow> runtime_ctx list" where
  "dispatch_members (DispatchAgent c) = [c]"
| "dispatch_members (DispatchTeam c) = tmx_members c"
| "dispatch_members (DispatchRoot c) = concat (map tmx_members (rtx_teams c))"

lemma capabilities_subset:
  "resolve_capabilities os tm ag d = Inr r \<Longrightarrow>
     set (cr_effective r) \<subseteq> set (agent_os_capabilities os d) \<inter> set (team_capabilities tm d) \<inter>
       (set (agent_capabilities ag d) \<union> set (capability_codes_for_agent ag d))"
  by (auto simp: resolve_capabilities_def Let_def split: sum.splits if_splits option.splits)

lemma build_resolved_context_resolved:
  "build_resolved_context os tm ag d = Inr ctx \<Longrightarrow>
     resolved_in d ctx \<and> rx_agent_os ctx = os \<and> rx_team ctx = tm \<and> rx_agent ctx = ag"
  using capabilities_subset [of "row_id os" "row_id tm" "row_id ag" d]
  by (auto simp: build_resolved_context_def rbind_eq_Inr resolved_in_def)

definition sound_member :: "db \<Rightarrow> runtime_ctx \<Rightarrow> bool" where
  "sound_member d m \<longleftrightarrow> resolved_in d m \<and> rx_agent m \<in> set (t_agents d) \<and> ag_enabled (rx_agent m) \<and>
     live (rx_agent m) \<and> rx_team m \<in> set (t_teams d) \<and> ag_team_id (rx_agent m) = row_id (rx_team m) \<and>
     tm_agent_os_id (rx_team m) = row_id (rx_agent_os m)"

lemma build_team_context_resolved:
  assumes "build_team_context os tm d = Inr c"
  shows "tmx_members c \<noteq> []"
    and "m \<in> set (tmx_members c) \<Longrightarrow> tm \<in> set (t_teams d) \<Longrightarrow> tm_agent_os_id tm = row_id os \<Longrightarrow> sound_member d m"
proof -
  let ?es = "filter ag_enabled (fst (repo_list 0 member_limit [Some (\<lambda>a. ag_team_id a = row_id tm)] (t_agents d)))"
  from assms obtain ms where es: "?es \<noteq> []" and rm: "rmap (\<lambda>a. build_resolved_context os tm a d) ?es = Inr ms"
    and ms: "tmx_members c = ms"
    by (auto simp: build_team_context_def Let_def rbind_eq_Inr split: if_splits)
  show "tmx_members c \<noteq> []" using es ms rmap_length [OF rm] by auto
  have x: "x \<in> set (t_agents d) \<and> ag_enabled x \<and> ag_team_id x = row_id tm \<and> live x" if "x \<in> set ?es" for x
    using that by (auto simp: repo_list_def page_def matches_def Let_def dest!: in_set_takeD in_set_dropD)
  show "sound_member d m" if m: "m \<in> set (tmx_members c)" and tm: "tm \<in> set (t_teams d)" "tm_agent_os_id tm = row_id os"
  proof -
    from m ms rmap_member [OF rm, of m] obtain a where a: "a \<in> set ?es" "build_resolved_context os tm a d = Inr m" by blast
    from x [OF a(1)] build_resolved_context_resolved [OF a(2)] tm show ?thesis unfolding sound_member_def by auto
  qed
qed

lemma team_by_code_member:
  "team_by_code os c rows = Inr (Some t) \<Longrightarrow> t \<in> set rows \<and> tm_agent_os_id t = os \<and> code t = c \<and> live t"
  unfolding team_by_code_def by (drule scalar_one_or_none_Some) auto

lemma team_context_by_code_sound:
  assumes "resolve_team_context_by_code os_code team_code d = Inr c"
  shows "tmx_members c \<noteq> [] \<and> (\<forall>m \<in> set (tmx_members c). sound_member d m)"
proof -
  from assms obtain os tm where tm: "team_by_code (row_id os) team_code (t_teams d) = Inr (Some tm)"
    "build_team_context os tm d = Inr c"
    by (auto simp: resolve_team_context_by_code_def rbind_eq_Inr require_eq_Inr)
  from build_team_context_resolved [OF tm(2)] team_by_code_member [OF tm(1)] show ?thesis by blast
qed

lemma root_context_sound:
  assumes "resolve_root_context os_code d = Inr c"
  shows "rtx_teams c \<noteq> [] \<and> (\<forall>t \<in> set (rtx_teams c). tmx_members t \<noteq> [] \<and> (\<forall>m \<in> set (tmx_members t). sound_member d m))"
proof -
  from assms obtain os where nz: "filter tm_enabled (fst (repo_list 0 member_limit [Some (\<lambda>t. tm_agent_os_id t = row_id os)] (t_teams d))) \<noteq> []"
    and rm: "rmap (\<lambda>t. build_team_context os t d)
       (filter tm_enabled (fst (repo_list 0 member_limit [Some (\<lambda>t. tm_agent_os_id t = row_id os)] (t_teams d)))) = Inr (rtx_teams c)"
    by (auto simp: resolve_root_context_def Let_def rbind_eq_Inr split: if_splits)
  have "tmx_members t \<noteq> [] \<and> (\<forall>m \<in> set (tmx_members t). sound_member d m)" if t: "t \<in> set (rtx_teams c)" for t
  proof -
    from rmap_member [OF rm t] obtain tm where tm: "tm \<in> set (t_teams d)" "tm_agent_os_id tm = row_id os"
        "build_team_context os tm d = Inr t"
      by (auto simp: repo_list_def page_def matches_def Let_def dest!: in_set_takeD in_set_dropD)
    from build_team_context_resolved [OF tm(3)] tm(1,2) show ?thesis by blast
  qed
  with nz rmap_length [OF rm] show ?thesis by auto
qed

lemma dispatch_eq_Inr:
  "resolve_dispatch_context os_code team_code d = Inr c \<longleftrightarrow>
     (if truthy_str team_code then \<exists>x. resolve_team_context_by_code os_code (the team_code) d = Inr x \<and> c = DispatchTeam x
      else \<exists>x. resolve_root_context os_code d = Inr x \<and> c = DispatchRoot x)"
  by (auto simp: resolve_dispatch_context_def rbind_eq_Inr)

lemma dispatch_members_ok:
  assumes "resolve_dispatch_context os_code team_code d = Inr c"
  shows "dispatch_members c \<noteq> [] \<and> (\<forall>m \<in> set (dispatch_members c). sound_member d m)"
proof (cases "truthy_str team_code")
  case True
  with assms obtain x where "resolve_team_context_by_code os_code (the team_code) d = Inr x" "c = DispatchTeam x"
    by (auto simp: dispatch_eq_Inr)
  with team_context_by_code_sound show ?thesis by simp
next
  case False
  with assms obtain x where x: "resolve_root_context os_code d = Inr x" "c = DispatchRoot x"
    by (auto simp: dispatch_eq_Inr)
  from root_context_sound [OF x(1)] x(2) show ?thesis by (cases "rtx_teams x") auto
qed

lemma built_team_agents:
  assumes "build_agno_team env message session_id user_id attachments d c = Inr t" "a \<in> set (agents_of t)"
  shows "\<exists>m \<in> set (tmx_members c). open_and_build env message session_id user_id attachments d m = Inr a"
  using assms by (auto simp: build_agno_team_def rbind_eq_Inr dest!: rmap_member)

lemma dispatch_agents:
  assumes "dispatch_runnable env message session_id user_id attachments d c = Inr r" "a \<in> set (runnable_agents r)"
  shows "\<exists>m \<in> set (dispatch_members c). open_and_build env message session_id user_id attachments d m = Inr a"
proof (cases c)
  case (DispatchAgent x)
  with assms show ?thesis by (auto simp: dispatch_runnable_def rbind_eq_Inr)
next
  case (DispatchTeam x)
  with assms show ?thesis
    by (auto simp: dispatch_runnable_def rbind_eq_Inr dest: built_team_agents)
next
  case (DispatchRoot x)
  with assms obtain ts t where ts: "rmap (build_agno_team env message session_id user_id attachments d) (rtx_teams x) = Inr ts"
    and t: "t \<in> set ts" "a \<in> set (agents_of t)"
    by (auto simp: dispatch_runnable_def rbind_eq_Inr build_agno_root_team_def)
  from rmap_member [OF ts t(1)] obtain tc where tc: "tc \<in> set (rtx_teams x)"
    "build_agno_team env message session_id user_id attachments d tc = Inr t" by blast
  from built_team_agents [OF tc(2) t(2)] tc(1) DispatchRoot show ?thesis by auto
qed

text \<open>C3. Least privilege: whatever a chat request is dispatched to, a single team or the whole AgentOS,
  every agent that is built is a stored agent whose MCP tool set is filtered to capabilities that were
  assigned to it (directly or by a skill), to its own Team and to that Team's AgentOS, and carries exactly
  the caller's credentials.\<close>

theorem agent_tools_within_capabilities:
  assumes "resolve_dispatch_context os_code team_code d = Inr c"
    and "dispatch_runnable env message session_id user_id attachments d c = Inr r"
    and "a \<in> set (runnable_agents r)" "McpTools headers caps \<in> set (aa_tools a)"
  shows "headers = as_forward_headers (en_auth env) \<and>
    (\<exists>ag \<in> set (t_agents d). \<exists>tm \<in> set (t_teams d). row_id ag = aa_agent_id a \<and> row_id tm = ag_team_id ag \<and>
       set caps \<subseteq> set (agent_os_capabilities (tm_agent_os_id tm) d) \<inter> set (team_capabilities (row_id tm) d) \<inter>
         (set (agent_capabilities (row_id ag) d) \<union> set (capability_codes_for_agent (row_id ag) d)))"
proof -
  from dispatch_agents [OF assms(2,3)] obtain m where
    m: "m \<in> set (dispatch_members c)" "open_and_build env message session_id user_id attachments d m = Inr a" by blast
  from dispatch_members_ok [OF assms(1)] m(1) have "sound_member d m" by blast
  with opened_agent(1) [OF m(2)] opened_agent(2) [OF m(2) assms(4)] show ?thesis
    unfolding sound_member_def resolved_in_def
    by (intro conjI bexI [of _ "rx_agent m"] bexI [of _ "rx_team m"]) simp_all
qed

text \<open>The chat entry point never resolves a single agent: a request is dispatched to a team it names,
  or else to the whole AgentOS, and every member that can be reached is live and enabled.\<close>

theorem dispatch_never_single_agent:
  assumes "resolve_dispatch_context os_code team_code d = Inr c"
  shows "(\<forall>x. c \<noteq> DispatchAgent x) \<and> dispatch_members c \<noteq> [] \<and>
    (\<forall>m \<in> set (dispatch_members c). ag_enabled (rx_agent m) \<and> live (rx_agent m))"
proof -
  have "\<forall>x. c \<noteq> DispatchAgent x" using assms by (auto simp: dispatch_eq_Inr split: if_splits)
  with dispatch_members_ok [OF assms] show ?thesis by (simp add: sound_member_def)
qed

subsection \<open>Streams\<close>

lemma drive_stream_error:
  "drive_stream what f session_id r = (es, Some e) \<Longrightarrow> err_class e = RuntimeExecutionError \<and> (\<exists>pre m. es = pre @ [error_event m])"
  by (auto simp: drive_stream_def runtime_error_def mk_error_def split: sum.splits option.splits)

lemma team_run_error_class:
  "run_team_stream env ctx message session_id user_id attachments d = (es, Some e) \<Longrightarrow> err_class e = RuntimeExecutionError"
  "run_root_stream env rctx message session_id user_id attachments d = (es, Some e) \<Longrightarrow> err_class e = RuntimeExecutionError"
  "run_stream env actx message session_id user_id attachments d = (es, Some e) \<Longrightarrow> err_class e = RuntimeExecutionError"
  unfolding run_team_stream_def run_root_stream_def run_stream_def by (drule drive_stream_error, blast)+

text \<open>The text that the chat service appends for one event (\<open>chat_service.py\<close>): its content, when the
  event is marked as assistant content.\<close>

definition payload_get :: "string \<Rightarrow> payload \<Rightarrow> json" where
  "payload_get k p = (case dict_get p k of Some v \<Rightarrow> v | None \<Rightarrow> JNull)"

definition assistant_content :: "(json \<Rightarrow> string) \<Rightarrow> payload \<Rightarrow> string list" where
  "assistant_content other p =
     (if truthy (payload_get ''content'' p) \<and> truthy (payload_get ''is_assistant_content'' p)
      then [py_str other (payload_get ''content'' p)] else [])"

definition assistant_parts :: "(json \<Rightarrow> string) \<Rightarrow> engine_event list \<Rightarrow> string list" where
  "assistant_parts other es = concat (map (assistant_content other \<circ> ee_payload) es)"

definition leader_parts :: "string \<Rightarrow> agno_event list \<Rightarrow> string list" where
  "leader_parts own evs = concat (map (\<lambda>ev.
     if ev_name ev = ''TeamRunResponseContent'' \<and> ev_team_id ev = Some own \<and> truthy_str (ev_content ev)
     then [dedupe_self_concatenated (the (ev_content ev))] else []) evs)"

lemma payload_get_set [simp]: "payload_get k (dict_set p k' v) = (if k = k' then v else payload_get k p)"
  by (simp add: payload_get_def dict_get_set)

lemma payload_get_simps [simp]:
  "payload_get k [] = JNull"
  "payload_get k ((k', v) # p) = (if k = k' then v else payload_get k p)"
  by (auto simp: payload_get_def)

lemma payload_get_tools [simp]: "k \<noteq> ''tools'' \<Longrightarrow> payload_get k (with_tools ev p) = payload_get k p"
  by (auto simp: with_tools_def split: option.splits)

lemma dedupe_nonempty [simp]: "dedupe_self_concatenated s = [] \<longleftrightarrow> s = []"
  by (auto simp: dedupe_self_concatenated_def Let_def)

lemma dedupe_doubled: "h \<noteq> [] \<Longrightarrow> dedupe_self_concatenated (h @ h) = h"
  by (simp add: dedupe_self_concatenated_def Let_def)

lemma dedupe_other: "\<nexists>h. h \<noteq> [] \<and> s = h @ h \<Longrightarrow> dedupe_self_concatenated s = s"
  unfolding dedupe_self_concatenated_def Let_def by (metis append_take_drop_id)

lemma assistant_content_team [simp]:
  "assistant_content other (ee_payload (team_stream_event own ev)) = leader_parts own [ev]"
  by (cases "ev_content ev")
    (auto simp: assistant_content_def team_stream_event_def leader_parts_def Let_def)

lemma assistant_parts_simps [simp]:
  "assistant_parts other [] = []"
  "assistant_parts other (es @ es') = assistant_parts other es @ assistant_parts other es'"
  "assistant_parts other [error_event m] = []"
  "assistant_parts other (trailing_events session_id r) = []"
  by (auto simp: assistant_parts_def assistant_content_def error_event_def trailing_events_def payload_get_def Let_def
      split: option.splits)

lemma assistant_parts_team:
  "assistant_parts other (map (team_stream_event own) evs) = leader_parts own evs"
  by (induction evs) (auto simp: assistant_parts_def leader_parts_def)

lemma drive_team_parts:
  "assistant_parts other (fst (drive_stream what (team_stream_event own) session_id r)) =
     (case r of Inl _ \<Rightarrow> [] | Inr x \<Rightarrow> leader_parts own (rn_events x))"
  by (auto simp: drive_stream_def assistant_parts_team split: sum.split option.split)

text \<open>The text of a streamed team turn is exactly what the leader itself said, each piece once and in
  order: no member's or sub-team's content, no reasoning, tool or completion event and no error event is
  ever counted as assistant text, whatever Agno emits and however the run ends.\<close>

theorem leader_speaks_alone:
  "assistant_parts other (fst (run_team_stream env ctx message session_id user_id attachments d)) =
     (case build_agno_team env message session_id user_id attachments d ctx of Inl _ \<Rightarrow> []
      | Inr t \<Rightarrow> leader_parts (row_id (tmx_team ctx)) (rn_events (en_stream env (RunTeam t) message session_id user_id))) \<and>
   assistant_parts other (fst (run_root_stream env rctx message session_id user_id attachments d)) =
     (case build_agno_root_team env message session_id user_id attachments d rctx of Inl _ \<Rightarrow> []
      | Inr t \<Rightarrow> leader_parts (''root-'' @ row_id (rtx_agent_os rctx))
                   (rn_events (en_stream env (RunTeam t) message session_id user_id)))"
  unfolding run_team_stream_def run_root_stream_def drive_team_parts
  by (auto simp: rbind_eq_Inr split: sum.splits)

text \<open>The duplicate-text filter removes exactly one thing, a text that is some non-empty text written
  twice, and leaves every other text as it is. It is applied to streamed deltas too, so a delta that is
  legitimately of that form is cut: "11" arrives as "1".\<close>

theorem dedupe_spec:
  "(if \<exists>h. h \<noteq> [] \<and> s = h @ h
    then dedupe_self_concatenated s @ dedupe_self_concatenated s = s
    else dedupe_self_concatenated s = s) \<and>
   ee_payload (agent_stream_event \<lparr>ev_name = ''RunResponseContent'', ev_content = Some ''11'', ev_tools = None, ev_team_id = None\<rparr>)
     = [(''agno_event'', JStr ''RunResponseContent''), (''content'', JStr ''1''), (''is_assistant_content'', JBool True)]"
  (is "?A \<and> ?B")
proof
  show ?A using dedupe_doubled dedupe_other by (auto; blast)
  show ?B by code_simp
qed

text \<open>In a single-agent stream the content of every event reaches the client, also of the events that
  \<open>_build_stream_payload\<close> means to strip of it (reasoning, tool and completion events): the content is
  removed from a copy and \<open>dict.update\<close> does not remove it from the payload.\<close>

theorem intermediate_content_forwarded:
  assumes "ev_content ev = Some c" "c \<noteq> []"
  shows "dict_get (ee_payload (agent_stream_event ev)) ''content'' = Some (JStr (dedupe_self_concatenated c))"
  using assms
  by (auto simp: agent_stream_event_def build_stream_payload_def Let_def dict_get_set
      dict_get_update dict_pop_def with_tools_def split: option.splits)

subsection \<open>Witnesses\<close>

definition demo_run :: agno_run where
  "demo_run = \<lparr>rn_events = [\<lparr>ev_name = ''TeamRunResponseContent'', ev_content = Some ''Hi'', ev_tools = None, ev_team_id = Some ''t1''\<rparr>],
     rn_raised = None, rn_response = Some (MetricsDict [(''input_tokens'', JList [JInt 120, JInt 45])]), rn_actions = []\<rparr>"

definition demo_engine :: engine_env where
  "demo_engine = \<lparr>en_models = \<lparr>openai_api_key = Some ''sk'', anthropic_api_key = None\<rparr>,
     en_flags = \<lparr>feature_ui_skills = False, feature_business_objects = False\<rparr>,
     en_knowledge = demo_knowledge_env (HttpTimeout),
     en_auth = \<lparr>pa_authorization = Some ''Bearer abc'', pa_api_key = None, pa_correlation_id = None\<rparr>,
     en_mcp_url = ''http://gateway/sse'', en_mcp_connect = (\<lambda>_ _. None), en_parse_uuid = (\<lambda>s. Some s),
     en_stream = (\<lambda>_ _ _ _. demo_run), en_reply = (\<lambda>_ _ _ _. Inr \<lparr>rp_content = Some ''Hi'', rp_text = []\<rparr>)\<rparr>"

definition demo_team_ctx :: team_ctx where
  "demo_team_ctx = (case resolve_team_context_by_code ''acme'' ''sales'' demo_db of Inr c \<Rightarrow> c
     | Inl _ \<Rightarrow> \<lparr>tmx_agent_os = demo_os, tmx_team = demo_team, tmx_prompt = [], tmx_members = []\<rparr>)"

lemma demo_dispatch: "resolve_dispatch_context ''acme'' (Some ''sales'') demo_db = Inr (DispatchTeam demo_team_ctx)"
  by code_simp

lemma demo_members:
  "map rx_effective (tmx_members demo_team_ctx) = [[''customer.read'']]"
  by code_simp

theorem dispatch_never_single_agent_witness:
  "\<exists>c. resolve_dispatch_context ''acme'' (Some ''sales'') demo_db = Inr c \<and> dispatch_members c \<noteq> [] \<and>
     (\<forall>m \<in> set (dispatch_members c). ag_enabled (rx_agent m) \<and> live (rx_agent m))"
  using dispatch_never_single_agent [OF demo_dispatch] demo_dispatch by blast

theorem intermediate_content_forwarded_witness:
  "dict_get (ee_payload (agent_stream_event
     \<lparr>ev_name = ''ReasoningStarted'', ev_content = Some ''secret'', ev_tools = None, ev_team_id = None\<rparr>)) ''content'' =
     Some (JStr (dedupe_self_concatenated ''secret''))"
  by (rule intermediate_content_forwarded) simp_all


fun mcp_filters :: "agno_tool list \<Rightarrow> ((string, string) pydict \<times> string list) list" where
  "mcp_filters [] = []"
| "mcp_filters (McpTools h cs # ts) = (h, cs) # mcp_filters ts"
| "mcp_filters (_ # ts) = mcp_filters ts"

lemma mcp_filters_member: "(h, cs) \<in> set (mcp_filters ts) \<longleftrightarrow> McpTools h cs \<in> set ts"
  by (induction ts rule: mcp_filters.induct) auto

lemma demo_runnable:
  "(case dispatch_runnable demo_engine ''Hello'' ''s1'' (Some ''ann'') [] demo_db (DispatchTeam demo_team_ctx) of
     Inr r \<Rightarrow> map (mcp_filters \<circ> aa_tools) (runnable_agents r) | Inl _ \<Rightarrow> [])
   = [[([(''Authorization'', ''Bearer abc'')], [''customer.read''])]]"
  by code_simp

theorem agent_tools_within_capabilities_witness:
  "\<exists>r a. dispatch_runnable demo_engine ''Hello'' ''s1'' (Some ''ann'') [] demo_db (DispatchTeam demo_team_ctx) = Inr r \<and>
     a \<in> set (runnable_agents r) \<and> McpTools [(''Authorization'', ''Bearer abc'')] [''customer.read''] \<in> set (aa_tools a) \<and>
     (\<exists>ag \<in> set (t_agents demo_db). \<exists>tm \<in> set (t_teams demo_db). row_id ag = aa_agent_id a \<and> row_id tm = ag_team_id ag \<and>
       set [''customer.read''] \<subseteq> set (agent_os_capabilities (tm_agent_os_id tm) demo_db))"
proof -
  obtain r where r: "dispatch_runnable demo_engine ''Hello'' ''s1'' (Some ''ann'') [] demo_db (DispatchTeam demo_team_ctx) = Inr r"
    using demo_runnable by (auto split: sum.splits)
  with demo_runnable obtain a where a: "a \<in> set (runnable_agents r)"
    "mcp_filters (aa_tools a) = [([(''Authorization'', ''Bearer abc'')], [''customer.read''])]"
    by (auto simp: map_eq_Cons_conv)
  then have t: "McpTools [(''Authorization'', ''Bearer abc'')] [''customer.read''] \<in> set (aa_tools a)"
    by (simp add: mcp_filters_member [symmetric])
  from agent_tools_within_capabilities [OF demo_dispatch r a(1) t] r a(1) t show ?thesis by blast
qed

end
