(* ===== verification/Agui.thy ===== *)
theory Agui
  imports Engine
begin

text \<open>
  \<open>app/agno_runtime/agui_interface.py\<close>: the AG-UI progress events put beside each streamed event, and
  the merging of streamed text pieces into the message that is stored.
\<close>

subsection \<open>Progress events\<close>

definition normalize_status :: "string \<Rightarrow> string option \<Rightarrow> string" where
  "normalize_status event_name status =
     (if truthy_str status then the status
      else let lowered = lower_str event_name in
        if contains_str ''error'' lowered then ''error''
        else if contains_str ''tool'' lowered then ''tool_call''
        else if contains_str ''reason'' lowered then ''thinking''
        else if contains_str ''completed'' lowered \<or> contains_str ''complete'' lowered then ''completed''
        else if contains_str ''started'' lowered then ''running''
        else ''running'')"

definition default_message :: "string \<Rightarrow> string" where
  "default_message event_name =
     (if contains_str ''error'' (lower_str event_name) then ''The agent hit an error while processing the request.''
      else if contains_str ''tool'' (lower_str event_name) then ''The agent is using a tool to continue.''
      else if contains_str ''reason'' (lower_str event_name) then ''The agent is thinking through the request.''
      else ''The agent is processing your request.'')"

text \<open>\<open>build_event\<close>; how Python renders a content that is not a string is a parameter.\<close>

definition build_event ::
  "(json \<Rightarrow> string) \<Rightarrow> string \<Rightarrow> payload \<Rightarrow> json \<Rightarrow> bool \<Rightarrow> string option \<Rightarrow> string option \<Rightarrow> payload" where
  "build_event other event_name payload content is_assistant_content status message =
     (let event_name = (if event_name = [] then ''event'' else event_name);
          normalized_status = normalize_status event_name status
      in if content \<noteq> JNull \<and> is_assistant_content
         then [(''type'', JStr ''message''), (''status'', JStr normalized_status),
               (''message'', JObj [(''role'', JStr ''assistant''), (''content'', JStr (py_str other content))]),
               (''event'', JStr event_name), (''payload'', JObj payload)]
         else [(''type'', JStr ''status''), (''status'', JStr normalized_status),
               (''message'', JStr (if truthy_str message then the message else default_message event_name)),
               (''event'', JStr event_name), (''payload'', JObj payload)])"

subsection \<open>Merging streamed text\<close>

definition blank :: "char \<Rightarrow> bool" where
  "blank c = (c = CHR '' '' \<or> c = CHR 0x0A \<or> c = CHR 0x09)"

definition merge_text_chunks :: "string \<Rightarrow> string \<Rightarrow> string" where
  "merge_text_chunks existing_text text =
     (if text = [] then existing_text
      else if existing_text = [] then text
      else if existing_text = text then existing_text
      else if ends_with existing_text text then existing_text
      else if blank (last existing_text) \<or> blank (hd text) then existing_text @ text
      else if last existing_text \<in> set ''.!?:;)]}'' \<and> hd text \<notin> set ''.,!?;:)]}'' then existing_text @ '' '' @ text
      else existing_text @ '' '' @ text)"

text \<open>\<open>ChatService._merge_content_parts\<close>.\<close>

definition merge_content_parts :: "string list \<Rightarrow> string" where
  "merge_content_parts content_parts = foldl merge_text_chunks [] content_parts"

lemma merge_keeps: "prefix a (merge_text_chunks a b) \<and> suffix b (merge_text_chunks a b)"
  by (auto simp: merge_text_chunks_def ends_with_def suffix_def)

lemma merge_empty_iff [simp]: "merge_text_chunks a b = [] \<longleftrightarrow> a = [] \<and> b = []"
  by (auto simp: merge_text_chunks_def)

lemma merge_parts_snoc: "merge_content_parts (ps @ [p]) = merge_text_chunks (merge_content_parts ps) p"
  by (simp add: merge_content_parts_def)

lemma merge_parts_sublist: "p \<in> set ps \<Longrightarrow> sublist p (merge_content_parts ps)"
proof (induction ps rule: rev_induct)
  case (snoc q ps)
  from merge_keeps [of "merge_content_parts ps" q] have
    "sublist (merge_content_parts ps) (merge_content_parts (ps @ [q]))" "sublist q (merge_content_parts (ps @ [q]))"
    by (auto simp: merge_parts_snoc intro: prefix_imp_sublist suffix_imp_sublist)
  with snoc show ?case by (auto intro: sublist_order.order.trans)
qed simp

text \<open>Every piece of text the model streamed occurs in the stored message, a longer stream only extends
  it, and the message is empty only if every piece was. It need not be their concatenation: a separating
  space is put between two deltas of one word, and a delta that the text already ends with is lost.\<close>

theorem merged_text_keeps_pieces:
  "(\<forall>p. p \<in> set ps \<longrightarrow> sublist p (merge_content_parts ps)) \<and>
   prefix (merge_content_parts ps) (merge_content_parts (ps @ qs)) \<and>
   (merge_content_parts ps = [] \<longleftrightarrow> set ps \<subseteq> {[]}) \<and>
   merge_content_parts [''Hel'', ''lo''] = ''Hel lo'' \<and> merge_content_parts [''10'', ''0''] = ''10''"
proof (intro conjI)
  show "\<forall>p. p \<in> set ps \<longrightarrow> sublist p (merge_content_parts ps)" using merge_parts_sublist by blast
  show "prefix (merge_content_parts ps) (merge_content_parts (ps @ qs))"
  proof (induction qs rule: rev_induct)
    case (snoc q qs)
    then show ?case using merge_keeps merge_parts_snoc [of "ps @ qs" q] by (metis append_assoc prefix_order.trans)
  qed simp
  show "merge_content_parts ps = [] \<longleftrightarrow> set ps \<subseteq> {[]}"
    by (induction ps rule: rev_induct) (auto simp: merge_parts_snoc merge_content_parts_def)
  show "merge_content_parts [''Hel'', ''lo''] = ''Hel lo''" "merge_content_parts [''10'', ''0''] = ''10''"
    by code_simp+
qed

theorem merged_text_keeps_pieces_witness:
  "sublist ''B'' (merge_content_parts [''A'', ''B''])"
  using merged_text_keeps_pieces [of "[''A'', ''B'']" "[]"] by simp

text \<open>The last two branches of the merge are the same: a space is inserted whatever the punctuation.\<close>

lemma merge_inserts_space:
  "text \<noteq> [] \<Longrightarrow> existing \<noteq> [] \<Longrightarrow> \<not> ends_with existing text \<Longrightarrow> \<not> blank (last existing) \<Longrightarrow> \<not> blank (hd text) \<Longrightarrow>
     merge_text_chunks existing text = existing @ '' '' @ text"
  by (auto simp: merge_text_chunks_def ends_with_def)

end
