(* ===== verification/Runs.thy ===== *)
theory Runs
  imports Session
begin

text \<open>
  Tracking of agent runs (\<open>app/services/run_service.py\<close>), the Redis signal that stops one
  (\<open>app/core/run_control.py\<close>) and the endpoints that read, stop and tail a run (\<open>app/api/v1/runs.py\<close>).
\<close>

subsection \<open>Run tracking\<close>

definition new_run :: "uuid \<Rightarrow> uuid \<Rightarrow> string \<Rightarrow> uuid \<Rightarrow> time \<Rightarrow> agent_run" where
  "new_run session_id agent_id input_text i t =
     \<lparr>row_id = i, created_at = t, ar_session_id = session_id, ar_agent_id = Some agent_id, ar_status = RunPending,
      ar_input = input_text, ar_output = None, ar_error_message = None, ar_started_at = None, ar_finished_at = None\<rparr>"

definition new_event :: "uuid \<Rightarrow> event_type \<Rightarrow> json \<Rightarrow> uuid \<Rightarrow> time \<Rightarrow> agent_event" where
  "new_event run_id event_type p i t =
     \<lparr>row_id = i, created_at = t, ae_run_id = run_id, ae_event_type = event_type, ae_payload = Some p\<rparr>"

definition emit_event :: "uuid \<Rightarrow> event_type \<Rightarrow> json \<Rightarrow> ('r sess, agent_event) prog" where
  "emit_event run_id event_type p = repo_create t_events t_events_update no_clash (new_event run_id event_type p)"

definition create_run :: "uuid \<Rightarrow> uuid \<Rightarrow> string \<Rightarrow> ('r sess, agent_run) prog" where
  "create_run session_id agent_id input_text =
     mbind (repo_create t_runs t_runs_update no_clash (new_run session_id agent_id input_text)) (\<lambda>run.
     mbind (emit_event (row_id run) EvAgentStarted (JObj [(''input'', JStr input_text)])) (\<lambda>_.
       mret run))"

definition mark_running :: "agent_run \<Rightarrow> ('r sess, agent_run) prog" where
  "mark_running run = mbind (mget now) (\<lambda>t.
     repo_save t_runs_update (run\<lparr>ar_status := RunRunning, ar_started_at := Some t\<rparr>))"

definition mark_tool_calling :: "agent_run \<Rightarrow> ('r sess, agent_run) prog" where
  "mark_tool_calling run = repo_save t_runs_update (run\<lparr>ar_status := RunToolCalling\<rparr>)"

definition mark_completed :: "agent_run \<Rightarrow> string \<Rightarrow> ('r sess, agent_run) prog" where
  "mark_completed run output = mbind (mget now) (\<lambda>t.
     mbind (repo_save t_runs_update (run\<lparr>ar_status := RunCompleted, ar_output := Some output, ar_finished_at := Some t\<rparr>)) (\<lambda>run.
     mbind (emit_event (row_id run) EvAgentCompleted (JObj [(''output_length'', JInt (int (length output)))])) (\<lambda>_.
       mret run)))"

definition mark_failed :: "agent_run \<Rightarrow> string \<Rightarrow> ('r sess, agent_run) prog" where
  "mark_failed run error_message = mbind (mget now) (\<lambda>t.
     mbind (repo_save t_runs_update (run\<lparr>ar_status := RunFailed, ar_error_message := Some error_message, ar_finished_at := Some t\<rparr>)) (\<lambda>run.
     mbind (emit_event (row_id run) EvError (JObj [(''error'', JStr error_message)])) (\<lambda>_.
       mret run)))"

definition mark_cancelled :: "agent_run \<Rightarrow> string \<Rightarrow> string \<Rightarrow> ('r sess, agent_run) prog" where
  "mark_cancelled run output reason = mbind (mget now) (\<lambda>t.
     mbind (repo_save t_runs_update (run\<lparr>ar_status := RunCancelled, ar_output := (if output = [] then None else Some output),
              ar_error_message := Some reason, ar_finished_at := Some t\<rparr>)) (\<lambda>run.
     mbind (emit_event (row_id run) EvRunCancelled
              (JObj [(''reason'', JStr reason), (''output_length'', JInt (int (length output)))])) (\<lambda>_.
       mret run)))"

definition list_by_run :: "uuid \<Rightarrow> db \<Rightarrow> agent_event list" where
  "list_by_run run_id d = sort_key created_at (filter (\<lambda>e. ae_run_id e = run_id) (t_events d))"

subsection \<open>Stopping a run\<close>

definition cancel_key :: "string \<Rightarrow> string" where
  "cancel_key run_id = ''run:cancel:'' @ run_id"

definition cancel_ttl :: int where
  "cancel_ttl = 3600"

definition request_cancel :: "'r redis_ops \<Rightarrow> uuid \<Rightarrow> ('r sess, unit) prog" where
  "request_cancel ops run_id = on_redis (rds_set ops (cancel_key run_id) cancel_ttl)"

definition is_cancelled :: "'r redis_ops \<Rightarrow> uuid \<Rightarrow> ('r sess, bool) prog" where
  "is_cancelled ops run_id = mlift (\<lambda>s. rds_exists ops (cancel_key run_id) (redis s))"

definition clear_cancel :: "'r redis_ops \<Rightarrow> uuid \<Rightarrow> ('r sess, unit) prog" where
  "clear_cancel ops run_id = on_redis (rds_delete ops (cancel_key run_id))"

definition terminal_status :: "run_status \<Rightarrow> bool" where
  "terminal_status st = (st \<in> {RunCompleted, RunFailed, RunCancelled})"

text \<open>\<open>POST /runs/{id}/cancel\<close>: the status it reports and whether it sent the signal.\<close>

definition cancel_run :: "'r redis_ops \<Rightarrow> uuid \<Rightarrow> ('r sess, run_status \<times> bool) prog" where
  "cancel_run ops run_id =
     mbind (mlift (\<lambda>s. repo_get_any_or_404 ''AgentRun'' run_id (t_runs (work s)))) (\<lambda>run.
       if terminal_status (ar_status run) then mret (ar_status run, False)
       else mbind (request_cancel ops run_id) (\<lambda>_. mret (ar_status run, True)))"

definition list_runs :: "uuid option \<Rightarrow> nat \<Rightarrow> nat \<Rightarrow> db \<Rightarrow> (agent_run list \<times> nat) \<times> bool" where
  "list_runs session_id offset limit d =
     (let r = repo_list_any offset limit [map_option (\<lambda>i r. ar_session_id r = i) session_id] (t_runs d)
      in (r, has_next offset limit (snd r)))"

definition get_run :: "uuid \<Rightarrow> db \<Rightarrow> app_error + agent_run" where
  "get_run run_id d = repo_get_any_or_404 ''AgentRun'' run_id (t_runs d)"

subsection \<open>Tailing a run\<close>

datatype sse =
    SseEvent agent_event
  | SseNotFound
  | SseClosed run_status

text \<open>
  The generator of \<open>GET /runs/{id}/stream\<close>, over what the database holds at each of its polls. It asks for
  the run through one SQLAlchemy session, which gives back the object it already has for a primary key and
  does not overwrite its loaded attributes (\<open>loaded\<close>); event rows never change. \<open>seen\<close> is \<open>seen_ids\<close>.
\<close>

fun emit_unseen :: "uuid list \<Rightarrow> agent_event list \<Rightarrow> sse list \<times> uuid list" where
  "emit_unseen seen [] = ([], seen)"
| "emit_unseen seen (e # es) =
     (if row_id e \<in> set seen then emit_unseen seen es
      else case emit_unseen (row_id e # seen) es of (out, seen') \<Rightarrow> (SseEvent e # out, seen'))"

fun tail_run :: "uuid \<Rightarrow> agent_run option \<Rightarrow> uuid list \<Rightarrow> db list \<Rightarrow> sse list \<times> app_error option" where
  "tail_run run_id loaded seen [] = ([], None)"
| "tail_run run_id loaded seen (d # polls) =
     (case repo_get_any run_id (t_runs d) of
        Inl e \<Rightarrow> ([], Some e)
      | Inr None \<Rightarrow> ([SseNotFound], None)
      | Inr (Some row) \<Rightarrow>
          (let run = (case loaded of Some r \<Rightarrow> r | None \<Rightarrow> row) in
           case emit_unseen seen (list_by_run run_id d) of (out, seen') \<Rightarrow>
             if terminal_status (ar_status run) then (out @ [SseClosed (ar_status run)], None)
             else case tail_run run_id (Some run) seen' polls of (rest, e) \<Rightarrow> (out @ rest, e)))"

definition stream_run_events :: "uuid \<Rightarrow> db list \<Rightarrow> sse list \<times> app_error option" where
  "stream_run_events run_id polls = tail_run run_id None [] polls"


subsection \<open>Facts about run tracking\<close>

lemma run_emit_event [run_simps]:
  "emit_event i ty p s =
     (Inr (new_event i ty p (new_uuid (seed s)) (now s)),
      s\<lparr>seed := Suc (seed s), work := t_events_update (\<lambda>es. es @ [new_event i ty p (new_uuid (seed s)) (now s)]) (work s)\<rparr>)"
  by (simp add: emit_event_def run_simps)

lemma wp_emit_event [wp_simps]:
  "wp (emit_event i ty p) P E s = P (new_event i ty p (new_uuid (seed s)) (now s))
     (s\<lparr>seed := Suc (seed s), work := t_events_update (\<lambda>es. es @ [new_event i ty p (new_uuid (seed s)) (now s)]) (work s)\<rparr>)"
  by (simp add: wp_def run_emit_event)

lemma wp_create_no_clash [wp_simps]:
  "wp (repo_create tbl upd no_clash mk) P E s = P (mk (new_uuid (seed s)) (now s))
     (s\<lparr>seed := Suc (seed s), work := upd (\<lambda>rs. rs @ [mk (new_uuid (seed s)) (now s)]) (work s)\<rparr>)"
  by (simp add: wp_def run_create_no_clash)

lemma new_run_sel [simp]:
  "row_id (new_run a b c i t) = i" "ar_status (new_run a b c i t) = RunPending" "ar_session_id (new_run a b c i t) = a"
  "ar_input (new_run a b c i t) = c" "ar_agent_id (new_run a b c i t) = Some b"
  by (simp_all add: new_run_def)

lemma new_event_sel [simp]:
  "row_id (new_event a ty p i t) = i" "ae_run_id (new_event a ty p i t) = a" "ae_event_type (new_event a ty p i t) = ty"
  "ae_payload (new_event a ty p i t) = Some p"
  by (simp_all add: new_event_def)

lemma marks_keep_id:
  "mark_running r s = (Inr r', s') \<Longrightarrow> row_id r' = row_id r"
  "mark_completed r out s = (Inr r', s') \<Longrightarrow> row_id r' = row_id r"
  "mark_failed r m s = (Inr r', s') \<Longrightarrow> row_id r' = row_id r"
  by (auto simp: mark_running_def mark_completed_def mark_failed_def run_simps)

subsection \<open>The stop signal\<close>

text \<open>What is relied on of the flag commands of Redis, within the life of the key.\<close>

definition redis_flags_ok :: "'r redis_ops \<Rightarrow> bool" where
  "redis_flags_ok ops \<longleftrightarrow>
     (\<forall>k r. \<exists>b. rds_exists ops k r = Inr b) \<and>
     (\<forall>k t r. 0 < t \<longrightarrow> fst (rds_set ops k t r) = Inr ()) \<and>
     (\<forall>k r. fst (rds_delete ops k r) = Inr ()) \<and>
     (\<forall>k t r k'. 0 < t \<longrightarrow>
        rds_exists ops k' (snd (rds_set ops k t r)) = (if k' = k then Inr True else rds_exists ops k' r)) \<and>
     (\<forall>k r k'. rds_exists ops k' (snd (rds_delete ops k r)) = (if k' = k then Inr False else rds_exists ops k' r))"

lemma mem_redis_flags_ok: "redis_flags_ok mem_redis_ops"
  by (auto simp: redis_flags_ok_def mem_redis_ops_def)

lemma cancel_key_inj [simp]: "cancel_key i = cancel_key j \<longleftrightarrow> i = j"
  by (simp add: cancel_key_def)

lemma flags_totals:
  assumes "redis_flags_ok ops"
  shows "\<exists>r'. rds_set ops (cancel_key i) cancel_ttl r = (Inr (), r') \<and>
           (\<forall>j. rds_exists ops (cancel_key j) r' = (if j = i then Inr True else rds_exists ops (cancel_key j) r))"
    and "\<exists>r'. rds_delete ops (cancel_key i) r = (Inr (), r') \<and>
           (\<forall>j. rds_exists ops (cancel_key j) r' = (if j = i then Inr False else rds_exists ops (cancel_key j) r))"
proof -
  have ttl: "0 < cancel_ttl" by (simp add: cancel_ttl_def)
  from assms ttl show "\<exists>r'. rds_set ops (cancel_key i) cancel_ttl r = (Inr (), r') \<and>
           (\<forall>j. rds_exists ops (cancel_key j) r' = (if j = i then Inr True else rds_exists ops (cancel_key j) r))"
    unfolding redis_flags_ok_def by (intro exI [of _ "snd (rds_set ops (cancel_key i) cancel_ttl r)"]) (simp add: prod_eq_iff)
  from assms show "\<exists>r'. rds_delete ops (cancel_key i) r = (Inr (), r') \<and>
           (\<forall>j. rds_exists ops (cancel_key j) r' = (if j = i then Inr False else rds_exists ops (cancel_key j) r))"
    unfolding redis_flags_ok_def by (intro exI [of _ "snd (rds_delete ops (cancel_key i) r)"]) (simp add: prod_eq_iff)
qed

text \<open>The stop signal: a request to cancel a run that has not ended raises the flag that exactly the
  executor of that run sees; for a run that has ended it sends nothing. Neither touches the database or the
  flag of another run, and once the executor clears it the run is no longer marked.\<close>

theorem cancel_signal:
  assumes "redis_flags_ok ops" and "get_run run_id (work s) = Inr run"
  shows "\<exists>s'. cancel_run ops run_id s = (Inr (ar_status run, \<not> terminal_status (ar_status run)), s') \<and>
     work s' = work s \<and> durable s' = durable s \<and>
     (\<forall>j. is_cancelled ops j s' =
        (if j = run_id \<and> \<not> terminal_status (ar_status run) then Inr True else fst (is_cancelled ops j s), s')) \<and>
     (\<exists>s''. clear_cancel ops run_id s' = (Inr (), s'') \<and> fst (is_cancelled ops run_id s'') = Inr False)"
proof -
  obtain r1 where r1: "rds_set ops (cancel_key run_id) cancel_ttl (redis s) = (Inr (), r1)"
    "\<forall>j. rds_exists ops (cancel_key j) r1 = (if j = run_id then Inr True else rds_exists ops (cancel_key j) (redis s))"
    using flags_totals(1) [OF assms(1)] by blast
  obtain r2 where r2: "rds_delete ops (cancel_key run_id) (if terminal_status (ar_status run) then redis s else r1) = (Inr (), r2)"
    "rds_exists ops (cancel_key run_id) r2 = Inr False"
    using flags_totals(2) [OF assms(1)] by (metis (full_types))
  show ?thesis
    using assms(2) r1 r2
    by (cases "terminal_status (ar_status run)")
      (auto simp: cancel_run_def get_run_def request_cancel_def is_cancelled_def clear_cancel_def on_redis_def run_simps mbind_def)
qed

subsection \<open>Facts about tailing\<close>

definition sse_events :: "sse list \<Rightarrow> agent_event list" where
  "sse_events out = concat (map (\<lambda>x. case x of SseEvent e \<Rightarrow> [e] | _ \<Rightarrow> []) out)"

lemma sse_events_simps [simp]:
  "sse_events [] = []" "sse_events (xs @ ys) = sse_events xs @ sse_events ys"
  "sse_events (SseEvent e # xs) = e # sse_events xs" "sse_events (SseNotFound # xs) = sse_events xs"
  "sse_events (SseClosed st # xs) = sse_events xs"
  by (simp_all add: sse_events_def)

lemma emit_unseen_ids:
  "set (snd (emit_unseen seen es)) = set seen \<union> row_id ` set es"
  "row_id ` set (sse_events (fst (emit_unseen seen es))) = row_id ` set es - set seen"
  by (induction seen es rule: emit_unseen.induct) (auto simp: case_prod_beta)

lemma emit_unseen_distinct: "distinct (map row_id (sse_events (fst (emit_unseen seen es))))"
proof (induction seen es rule: emit_unseen.induct)
  case (2 seen e es)
  then show ?case
    using emit_unseen_ids(2) [of "row_id e # seen" es] by (auto simp: case_prod_beta)
qed simp

lemma emit_unseen_open: "SseClosed st \<notin> set (fst (emit_unseen seen es))"
  by (induction seen es rule: emit_unseen.induct) (auto simp: case_prod_beta)

lemma emit_unseen_fresh:
  "distinct (map row_id es) \<Longrightarrow> row_id ` set es \<inter> set seen = {} \<Longrightarrow>
     fst (emit_unseen seen es) = map SseEvent es"
proof (induction es arbitrary: seen)
  case (Cons e es)
  then have "fst (emit_unseen (row_id e # seen) es) = map SseEvent es" by auto
  with Cons.prems show ?case by (simp add: case_prod_beta)
qed simp

lemma tail_run_once:
  "distinct (map row_id (sse_events (fst (tail_run i l seen polls)))) \<and>
   row_id ` set (sse_events (fst (tail_run i l seen polls))) \<inter> set seen = {}"
proof (induction polls arbitrary: l seen)
  case (Cons d polls)
  show ?case
  proof (cases "repo_get_any i (t_runs d)")
    case (Inr r)
    then show ?thesis
    proof (cases r)
      case (Some row)
      obtain out seen' where e: "emit_unseen seen (list_by_run i d) = (out, seen')" by fastforce
      from emit_unseen_ids [of seen "list_by_run i d"] emit_unseen_distinct [of seen "list_by_run i d"] have es: "set seen' = set seen \<union> row_id ` set (list_by_run i d)"
        "row_id ` set (sse_events out) = row_id ` set (list_by_run i d) - set seen" "distinct (map row_id (sse_events out))"
        by (simp_all add: e)
      let ?run = "case l of None \<Rightarrow> row | Some r \<Rightarrow> r"
      have t: "tail_run i l seen (d # polls) =
          (if terminal_status (ar_status ?run) then (out @ [SseClosed (ar_status ?run)], None)
           else (out @ fst (tail_run i (Some ?run) seen' polls), snd (tail_run i (Some ?run) seen' polls)))"
        using Inr Some e by (simp add: Let_def case_prod_beta split: option.split)
      let ?B = "sse_events (fst (tail_run i (Some ?run) seen' polls))"
      have "row_id ` set (sse_events out) \<inter> row_id ` set ?B = {}" "row_id ` set ?B \<inter> set seen = {}"
        using es Cons [of "Some ?run" seen'] by blast+
      with es Cons [of "Some ?run" seen'] show ?thesis
        unfolding t by auto
    qed simp
  qed simp
qed simp

lemma tail_run_open:
  "\<not> terminal_status (ar_status r) \<Longrightarrow> SseClosed st \<notin> set (fst (tail_run i (Some r) seen polls))"
proof (induction polls arbitrary: seen)
  case (Cons d polls)
  obtain out seen' where e: "emit_unseen seen (list_by_run i d) = (out, seen')" by fastforce
  then have "SseClosed st \<notin> set out" using emit_unseen_open by (metis fst_conv)
  with Cons.IH [OF Cons.prems, of seen'] Cons.prems e show ?case
    by (auto simp: Let_def case_prod_beta split: sum.splits option.splits)
qed simp

text \<open>Opened on a run that has ended, the tail replays the run's whole event log in order of creation,
  each event once, and closes with the run's status.\<close>

theorem tail_replays_finished_run:
  assumes "get_run run_id d = Inr run" "terminal_status (ar_status run)" "distinct (map row_id (t_events d))"
  shows "stream_run_events run_id (d # polls) =
    (map SseEvent (list_by_run run_id d) @ [SseClosed (ar_status run)], None)"
proof -
  have r: "repo_get_any run_id (t_runs d) = Inr (Some run)"
    using assms(1) by (auto simp: get_run_def repo_get_any_or_404_def split: sum.splits option.splits)
  have "distinct (map row_id (list_by_run run_id d))"
    using assms(3) by (auto simp: list_by_run_def distinct_map intro: inj_on_subset)
  then have "fst (emit_unseen [] (list_by_run run_id d)) = map SseEvent (list_by_run run_id d)"
    by (simp add: emit_unseen_fresh)
  with r assms(2) show ?thesis by (simp add: stream_run_events_def Let_def case_prod_beta)
qed

text \<open>Opened on a run that is still in progress, the tail sends every event at most once but never closes:
  the session returns the run it loaded at the first poll, so however the run ends later and however long
  the client waits, no \<open>stream_closed\<close> is sent.\<close>

theorem tail_of_live_run_never_closes:
  assumes "get_run run_id d = Inr run" "\<not> terminal_status (ar_status run)"
  shows "SseClosed st \<notin> set (fst (stream_run_events run_id (d # polls))) \<and>
    distinct (map row_id (sse_events (fst (stream_run_events run_id (d # polls)))))"
proof
  have r: "repo_get_any run_id (t_runs d) = Inr (Some run)"
    using assms(1) by (auto simp: get_run_def repo_get_any_or_404_def split: sum.splits option.splits)
  obtain out seen' where e: "emit_unseen [] (list_by_run run_id d) = (out, seen')" by fastforce
  then have "SseClosed st \<notin> set out" using emit_unseen_open by (metis fst_conv)
  with r e assms(2) tail_run_open [OF assms(2)] show "SseClosed st \<notin> set (fst (stream_run_events run_id (d # polls)))"
    by (simp add: stream_run_events_def Let_def case_prod_beta)
  show "distinct (map row_id (sse_events (fst (stream_run_events run_id (d # polls)))))"
    using tail_run_once unfolding stream_run_events_def by blast
qed

subsection \<open>Witnesses\<close>

definition demo_agent_run :: "run_status \<Rightarrow> agent_run" where
  "demo_agent_run st = (new_run ''s1'' ''a1'' ''Hello'' ''r1'' 0)\<lparr>ar_status := st\<rparr>"

definition demo_run_db :: "run_status \<Rightarrow> db" where
  "demo_run_db st = empty_db\<lparr>t_runs := [demo_agent_run st],
     t_events := [new_event ''r1'' EvAgentResponse JNull ''e2'' 2, new_event ''r1'' EvAgentStarted JNull ''e1'' 1]\<rparr>"

lemma demo_get_run: "get_run ''r1'' (demo_run_db st) = Inr (demo_agent_run st)"
  by (simp add: get_run_def repo_get_any_or_404_def repo_get_any_def demo_run_db_def demo_agent_run_def new_run_def)

theorem cancel_signal_witness:
  "\<exists>s'. cancel_run mem_redis_ops ''r1''
       \<lparr>work = demo_run_db RunRunning, durable = demo_run_db RunRunning, now = 0, seed = 0, redis = []\<rparr> = (Inr (RunRunning, True), s') \<and>
     is_cancelled mem_redis_ops ''r1'' s' = (Inr True, s')"
proof -
  have "get_run ''r1'' (work \<lparr>work = demo_run_db RunRunning, durable = demo_run_db RunRunning, now = 0, seed = 0, redis = []::mem_redis\<rparr>)
      = Inr (demo_agent_run RunRunning)"
    by (simp add: demo_get_run)
  from cancel_signal [OF mem_redis_flags_ok this] show ?thesis
    by (auto simp: demo_agent_run_def terminal_status_def)
qed

theorem tail_replays_finished_run_witness:
  "\<exists>e1 e2. stream_run_events ''r1'' [demo_run_db RunCompleted] = ([SseEvent e1, SseEvent e2, SseClosed RunCompleted], None)"
  using tail_replays_finished_run [OF demo_get_run [of RunCompleted], of "[]"]
  by (simp add: demo_agent_run_def terminal_status_def demo_run_db_def list_by_run_def)

theorem tail_of_live_run_never_closes_witness:
  "SseClosed RunCompleted \<notin> set (fst (stream_run_events ''r1'' [demo_run_db RunRunning, demo_run_db RunCompleted]))"
  using tail_of_live_run_never_closes [OF demo_get_run [of RunRunning], of RunCompleted "[demo_run_db RunCompleted]"]
  by (simp add: demo_agent_run_def terminal_status_def)

end
