(* ===== verification/Chat.thy ===== *)
theory Chat
  imports Quota Identity Agui Runs
begin

text \<open>
  \<open>app/services/chat_service.py\<close>: one chat turn, answered in one piece (\<open>handle_chat\<close>) or as a stream of
  server-sent events (\<open>handle_chat_stream\<close>). What other requests do meanwhile to Redis, where the signal
  to stop a run is raised, is the environment's \<open>ce_others\<close>; their database writes are not modelled within
  a turn. A stream that is not read to its end by its client is not modelled.
\<close>

record chat_request =
  cq_agent_os :: string
  cq_team :: "string option"
  cq_agent :: "string option"
  cq_message :: string
  cq_session_id :: "uuid option"
  cq_user_id :: "string option"
  cq_attachments :: "string list"

record 'r chat_env =
  ce_engine :: engine_env
  ce_quota :: "'r quota_env"
  ce_redis :: "'r redis_ops"
  ce_identity :: "verified_identity option"
  ce_auth_mode :: auth_mode
  ce_int :: "string \<Rightarrow> int option"
  ce_str :: "json \<Rightarrow> string"
  ce_others :: "nat \<Rightarrow> 'r \<Rightarrow> 'r"

subsection \<open>Token accounting\<close>

text \<open>\<open>_sum_metric_field\<close>: a value Python can neither add nor convert is skipped.\<close>

fun json_number :: "json \<Rightarrow> real option" where
  "json_number (JInt i) = Some (of_int i)"
| "json_number (JBool b) = Some (if b then 1 else 0)"
| "json_number (JFloat r) = Some r"
| "json_number _ = None"

definition py_trunc :: "real \<Rightarrow> int" where
  "py_trunc r = (if 0 \<le> r then \<lfloor>r\<rfloor> else \<lceil>r\<rceil>)"

definition json_sum :: "json list \<Rightarrow> real option" where
  "json_sum xs = fold (\<lambda>v acc. case (acc, json_number v) of (Some a, Some n) \<Rightarrow> Some (a + n) | _ \<Rightarrow> None)
     (filter (\<lambda>v. v \<noteq> JNull) xs) (Some 0)"

fun metric_value_int :: "(string \<Rightarrow> int option) \<Rightarrow> json \<Rightarrow> int option" where
  "metric_value_int parse (JList xs) = map_option py_trunc (json_sum xs)"
| "metric_value_int parse (JStr s) = parse s"
| "metric_value_int parse j = map_option py_trunc (json_number j)"

fun sum_metric_field :: "(string \<Rightarrow> int option) \<Rightarrow> json \<Rightarrow> string list \<Rightarrow> int" where
  "sum_metric_field parse container [] = 0"
| "sum_metric_field parse container (k # ks) =
     (case jget container k of
        None \<Rightarrow> sum_metric_field parse container ks
      | Some v \<Rightarrow>
          if v = JNull then sum_metric_field parse container ks
          else (case metric_value_int parse v of
                  Some n \<Rightarrow> n | None \<Rightarrow> sum_metric_field parse container ks))"

definition extract_token_usage :: "(string \<Rightarrow> int option) \<Rightarrow> payload \<Rightarrow> int \<times> int" where
  "extract_token_usage parse p =
     (let metrics = payload_get ''metrics'' p in
      if metrics = JNull then (0, 0)
      else (sum_metric_field parse metrics [''input_tokens'', ''prompt_tokens''],
            sum_metric_field parse metrics [''output_tokens'', ''completion_tokens'']))"

text \<open>\<open>_compute_cost_usd\<close>.\<close>

definition compute_cost_usd :: "uuid option \<Rightarrow> int \<Rightarrow> int \<Rightarrow> db \<Rightarrow> real option" where
  "compute_cost_usd model_id inp out d =
     (case model_id of
        None \<Rightarrow> None
      | Some i \<Rightarrow>
          (case repo_get i (t_models d) of
             Inr (Some entry) \<Rightarrow>
               (if cost_per_1k_input_tokens entry = None \<and> cost_per_1k_output_tokens entry = None then None
                else let cost_in = (case cost_per_1k_input_tokens entry of Some c \<Rightarrow> c | None \<Rightarrow> 0);
                         cost_out = (case cost_per_1k_output_tokens entry of Some c \<Rightarrow> c | None \<Rightarrow> 0)
                     in Some (of_int inp / 1000 * cost_in + of_int out / 1000 * cost_out))
           | _ \<Rightarrow> None))"

subsection \<open>Starting a turn\<close>

definition new_session :: "chat_request \<Rightarrow> uuid \<Rightarrow> uuid \<Rightarrow> uuid \<Rightarrow> uuid \<Rightarrow> time \<Rightarrow> chat_session" where
  "new_session rq os tm ag i t =
     \<lparr>row_id = i, created_at = t, deleted_at = None, cs_agent_os_id = os, cs_team_id = Some tm, cs_agent_id = Some ag,
      cs_user_id = cq_user_id rq, cs_title = Some (take 80 (cq_message rq)), cs_context = None\<rparr>"

definition same_id :: "('a row_scheme) \<Rightarrow> ('a row_scheme) \<Rightarrow> bool" where
  "same_id r x = (row_id r = row_id x)"

definition get_or_create_session :: "chat_request \<Rightarrow> uuid \<Rightarrow> uuid \<Rightarrow> uuid \<Rightarrow> ('r sess, chat_session) prog" where
  "get_or_create_session rq os tm ag =
     (case cq_session_id rq of
        Some i \<Rightarrow>
          mbind (mlift (\<lambda>s. repo_get i (t_sessions (work s)))) (\<lambda>existing.
            case existing of
              Some cs \<Rightarrow>
                if cs_user_id cs \<noteq> cq_user_id rq
                then mraise (mk_error NotFoundError (''ChatSession '' @ i @ '' not found for this user_id''))
                else mret cs
            | None \<Rightarrow> repo_create_as i t_sessions t_sessions_update same_id (new_session rq os tm ag))
      | None \<Rightarrow> repo_create t_sessions t_sessions_update no_clash (new_session rq os tm ag))"

definition new_message :: "uuid \<Rightarrow> uuid \<Rightarrow> message_role \<Rightarrow> string \<Rightarrow> uuid \<Rightarrow> time \<Rightarrow> chat_message" where
  "new_message session_id run_id role content i t =
     \<lparr>row_id = i, created_at = t, cm_session_id = session_id, cm_run_id = Some run_id, cm_role = role,
      cm_content = content, cm_metadata = None\<rparr>"

definition add_message :: "uuid \<Rightarrow> uuid \<Rightarrow> message_role \<Rightarrow> string \<Rightarrow> ('r sess, chat_message) prog" where
  "add_message session_id run_id role content =
     repo_create t_messages t_messages_update no_clash (new_message session_id run_id role content)"

definition first_of :: "'a list \<Rightarrow> app_error + 'a" where
  "first_of xs = (case xs of [] \<Rightarrow> Inl (mk_error (PyException ''IndexError'') ''list index out of range'') | x # _ \<Rightarrow> Inr x)"

text \<open>The AgentOS, and the team and agent a run is booked under: the representative of a team is its first
  member, that of an AgentOS the first member of its first team.\<close>

fun representative :: "dispatch_ctx \<Rightarrow> app_error + (agent_os \<times> team \<times> agent)" where
  "representative (DispatchAgent c) = Inr (rx_agent_os c, rx_team c, rx_agent c)"
| "representative (DispatchTeam c) =
     rbind (first_of (tmx_members c)) (\<lambda>m. Inr (tmx_agent_os c, tmx_team c, rx_agent m))"
| "representative (DispatchRoot c) =
     rbind (first_of (rtx_teams c)) (\<lambda>t.
     rbind (first_of (tmx_members t)) (\<lambda>m. Inr (rtx_agent_os c, tmx_team t, rx_agent m)))"

definition quota_model :: "agent_os \<Rightarrow> agent \<Rightarrow> uuid option" where
  "quota_model os ag = or_str (ag_model_id ag) (default_model_id os)"

text \<open>\<open>_resolve_identity\<close>: the request with the effective user, and the verified groups.\<close>

definition resolve_identity :: "'r chat_env \<Rightarrow> chat_request \<Rightarrow> chat_request \<times> string list" where
  "resolve_identity env rq =
     (case resolve_effective_user_id (ce_identity env) (cq_user_id rq) (ce_auth_mode env) of
        (u, groups) \<Rightarrow> (rq\<lparr>cq_user_id := u\<rparr>, groups))"

text \<open>The common beginning: the quota is checked before a session, a run and the user's message exist. In
  the streaming entry point the two steps are committed (\<open>save\<close>).\<close>

definition begin_turn ::
  "'r chat_env \<Rightarrow> ('r sess, unit) prog \<Rightarrow> chat_request \<Rightarrow> string list \<Rightarrow> agent_os \<Rightarrow> team \<Rightarrow> agent
     \<Rightarrow> ('r sess, chat_session \<times> agent_run) prog" where
  "begin_turn env save rq groups os tm ag =
     mbind (assert_within_quota (ce_quota env) (cq_user_id rq) groups (quota_model os ag)) (\<lambda>_.
     mbind (get_or_create_session rq (row_id os) (row_id tm) (row_id ag)) (\<lambda>cs.
     mbind (create_run (row_id cs) (row_id ag) (cq_message rq)) (\<lambda>run.
     mbind (add_message (row_id cs) (row_id run) RoleUser (cq_message rq)) (\<lambda>_.
     mbind save (\<lambda>_.
     mbind (mark_running run) (\<lambda>run.
     mbind save (\<lambda>_.
       mret (cs, run))))))))"

subsection \<open>Ending a turn\<close>

definition record_turn ::
  "'r chat_env \<Rightarrow> chat_request \<Rightarrow> string list \<Rightarrow> uuid option \<Rightarrow> agent_run \<Rightarrow> int \<times> int \<Rightarrow> ('r sess, unit) prog" where
  "record_turn env rq groups model_id run tokens =
     mbind (mget (\<lambda>s. compute_cost_usd model_id (fst tokens) (snd tokens) (work s))) (\<lambda>cost_usd.
       record_usage (ce_quota env) (Some (row_id run)) (cq_user_id rq) groups model_id (fst tokens) (snd tokens) cost_usd)"

definition complete_turn ::
  "'r chat_env \<Rightarrow> ('r sess, unit) prog \<Rightarrow> chat_request \<Rightarrow> string list \<Rightarrow> uuid option \<Rightarrow> chat_session \<Rightarrow> agent_run
     \<Rightarrow> string \<Rightarrow> int \<times> int \<Rightarrow> ('r sess, unit) prog" where
  "complete_turn env save rq groups model_id cs run output tokens =
     mbind (add_message (row_id cs) (row_id run) RoleAssistant output) (\<lambda>_.
     mbind (mark_completed run output) (\<lambda>run.
     mbind save (\<lambda>_.
       record_turn env rq groups model_id run tokens)))"

text \<open>The accumulators of the streaming loops: the assistant's text pieces and the tokens so far.\<close>

type_synonym turn_acc = "string list \<times> int \<times> int"

definition accumulate :: "'r chat_env \<Rightarrow> payload \<Rightarrow> turn_acc \<Rightarrow> turn_acc" where
  "accumulate env p acc =
     (case acc of (parts, inp, out) \<Rightarrow>
        (case extract_token_usage (ce_int env) p of (i, j) \<Rightarrow>
           (parts @ assistant_content (ce_str env) p, inp + i, out + j)))"

definition safe_event_type :: "string \<Rightarrow> event_type" where
  "safe_event_type event_name =
     (case event_type_of event_name of
        Some t \<Rightarrow> t
      | None \<Rightarrow> if contains_str ''tool'' event_name then EvToolCallStarted
                else if contains_str ''error'' (lower_str event_name) then EvError
                else EvAgentResponse)"

subsection \<open>The turn answered in one piece\<close>

record chat_response =
  cr_session_id :: uuid
  cr_run_id :: uuid
  cr_agent_os_code :: string
  cr_team_code :: string
  cr_agent_code :: string
  cr_message :: string

fun consume_stream :: "'r chat_env \<Rightarrow> agent_run \<Rightarrow> engine_event list \<Rightarrow> turn_acc \<Rightarrow> ('r sess, turn_acc) prog" where
  "consume_stream env run [] acc = mret acc"
| "consume_stream env run (ev # evs) acc =
     mbind (emit_event (row_id run) (safe_event_type (ee_type ev)) (JObj (ee_payload ev))) (\<lambda>_.
       consume_stream env run evs (accumulate env (ee_payload ev) acc))"

text \<open>\<open>except RuntimeExecutionError as exc\<close>.\<close>

definition on_runtime_error :: "('s, 'a) prog \<Rightarrow> (app_error \<Rightarrow> ('s, 'a) prog) \<Rightarrow> ('s, 'a) prog" where
  "on_runtime_error m h = mcatch m (\<lambda>e. if err_class e = RuntimeExecutionError then h e else mraise e)"

definition drain_stream :: "'r chat_env \<Rightarrow> agent_run \<Rightarrow> (db \<Rightarrow> engine_stream) \<Rightarrow> ('r sess, turn_acc) prog" where
  "drain_stream env run stream =
     on_runtime_error
       (mbind (mget (\<lambda>s. stream (work s))) (\<lambda>st.
        mbind (consume_stream env run (fst st) ([], 0, 0)) (\<lambda>acc.
          case snd st of Some e \<Rightarrow> mraise e | None \<Rightarrow> mret acc)))
       (\<lambda>e. mbind (mark_failed run (err_message e)) (\<lambda>_. mraise e))"

definition no_save :: "('r sess, unit) prog" where
  "no_save = mret ()"

definition chat_reply :: "chat_session \<Rightarrow> agent_run \<Rightarrow> agent_os \<Rightarrow> team \<Rightarrow> agent \<Rightarrow> string \<Rightarrow> chat_response" where
  "chat_reply cs run os tm ag output =
     \<lparr>cr_session_id = row_id cs, cr_run_id = row_id run, cr_agent_os_code = code os, cr_team_code = code tm,
      cr_agent_code = code ag, cr_message = output\<rparr>"

text \<open>A turn over a stream that is only aggregated, and one over the text of \<open>run_team\<close>.\<close>

definition aggregated_turn ::
  "'r chat_env \<Rightarrow> chat_request \<Rightarrow> string list \<Rightarrow> dispatch_ctx \<Rightarrow> (string \<Rightarrow> db \<Rightarrow> engine_stream)
     \<Rightarrow> ('r sess, chat_response) prog" where
  "aggregated_turn env rq groups ctx stream =
     mbind (mlift (\<lambda>s. representative ctx)) (\<lambda>(os, tm, ag).
     mbind (begin_turn env no_save rq groups os tm ag) (\<lambda>(cs, run).
     mbind (drain_stream env run (stream (row_id cs))) (\<lambda>(parts, tokens).
       let output = merge_content_parts parts in
       mbind (complete_turn env no_save rq groups (quota_model os ag) cs run output tokens) (\<lambda>_.
         mret (chat_reply cs run os tm ag output)))))"

definition text_turn ::
  "'r chat_env \<Rightarrow> chat_request \<Rightarrow> string list \<Rightarrow> dispatch_ctx \<Rightarrow> (string \<Rightarrow> db \<Rightarrow> app_error + string)
     \<Rightarrow> ('r sess, chat_response) prog" where
  "text_turn env rq groups ctx answer =
     mbind (mlift (\<lambda>s. representative ctx)) (\<lambda>(os, tm, ag).
     mbind (begin_turn env no_save rq groups os tm ag) (\<lambda>(cs, run).
     mbind (mlift (\<lambda>s. answer (row_id cs) (work s))) (\<lambda>output.
     mbind (complete_turn env no_save rq groups (quota_model os ag) cs run output (0, 0)) (\<lambda>_.
       mret (chat_reply cs run os tm ag output)))))"

definition handle_chat :: "'r chat_env \<Rightarrow> chat_request \<Rightarrow> ('r sess, chat_response) prog" where
  "handle_chat env rq0 =
     (case resolve_identity env rq0 of (rq, groups) \<Rightarrow>
      mbind (mlift (\<lambda>s. resolve_dispatch_context (cq_agent_os rq) (cq_team rq) (work s))) (\<lambda>ctx.
        case ctx of
          DispatchAgent c \<Rightarrow> aggregated_turn env rq groups ctx
            (\<lambda>sid. run_stream (ce_engine env) c (cq_message rq) sid (cq_user_id rq) (cq_attachments rq))
        | DispatchTeam c \<Rightarrow> text_turn env rq groups ctx
            (\<lambda>sid. run_team (ce_engine env) c (cq_message rq) sid (cq_user_id rq) (cq_attachments rq))
        | DispatchRoot c \<Rightarrow> aggregated_turn env rq groups ctx
            (\<lambda>sid. run_root_stream (ce_engine env) c (cq_message rq) sid (cq_user_id rq) [])))"

subsection \<open>The streamed turn\<close>

record chat_out =
  co_type :: string
  co_run_id :: uuid
  co_session_id :: uuid
  co_data :: payload

text \<open>The state of a streamed turn: the request's session and what has been yielded to the client.\<close>

record 'r turn =
  tn_sess :: "'r sess"
  tn_out :: "chat_out list"

definition on_db :: "('r sess, 'a) prog \<Rightarrow> ('r turn, 'a) prog" where
  "on_db m = (\<lambda>t. case m (tn_sess t) of (r, s) \<Rightarrow> (r, t\<lparr>tn_sess := s\<rparr>))"

definition myield :: "agent_run \<Rightarrow> chat_session \<Rightarrow> string \<Rightarrow> payload \<Rightarrow> ('r turn, unit) prog" where
  "myield run cs ty p = mmod (\<lambda>t. t\<lparr>tn_out := tn_out t @
     [\<lparr>co_type = ty, co_run_id = row_id run, co_session_id = row_id cs, co_data = p\<rparr>]\<rparr>)"

definition handle_cancellation :: "'r chat_env \<Rightarrow> agent_run \<Rightarrow> uuid \<Rightarrow> string list \<Rightarrow> ('r sess, payload) prog" where
  "handle_cancellation env run session_id parts =
     (let partial_output = merge_content_parts parts in
      mbind (if partial_output \<noteq> []
             then mbind (add_message session_id (row_id run) RoleAssistant partial_output) (\<lambda>_. mret ())
             else mret ()) (\<lambda>_.
      mbind (mark_cancelled run partial_output ''Cancelled by user'') (\<lambda>_.
      mbind commit (\<lambda>_.
      mbind (clear_cancel (ce_redis env) (row_id run)) (\<lambda>_.
        mret [(''message'', JStr ''Run cancelled by user''), (''partial_message'', JStr partial_output)])))))"

definition forwarded_payload :: "'r chat_env \<Rightarrow> engine_event \<Rightarrow> payload" where
  "forwarded_payload env ev =
     (let p = ee_payload ev;
          agui = build_event (ce_str env) (ee_type ev) p (payload_get ''content'' p)
                   (truthy (payload_get ''is_assistant_content'' p)) None None
      in dict_set (dict_set p ''agui'' (JObj agui)) ''ui_status'' (payload_get ''status'' agui))"

text \<open>The loop over the events; the result is None when the run was stopped in it.\<close>

fun stream_loop ::
  "'r chat_env \<Rightarrow> chat_session \<Rightarrow> agent_run \<Rightarrow> nat \<Rightarrow> engine_event list \<Rightarrow> turn_acc \<Rightarrow> ('r turn, turn_acc option) prog" where
  "stream_loop env cs run n [] acc = mret (Some acc)"
| "stream_loop env cs run n (ev # evs) acc =
     mbind (on_db (mmod (\<lambda>s. s\<lparr>redis := ce_others env n (redis s)\<rparr>))) (\<lambda>_.
     mbind (on_db (is_cancelled (ce_redis env) (row_id run))) (\<lambda>stop.
       if stop
       then mbind (on_db (handle_cancellation env run (row_id cs) (fst acc))) (\<lambda>p.
            mbind (myield run cs ''run_cancelled'' p) (\<lambda>_. mret None))
       else mbind (on_db (emit_event (row_id run) (safe_event_type (ee_type ev)) (JObj (ee_payload ev)))) (\<lambda>_.
            mbind (on_db commit) (\<lambda>_.
            mbind (myield run cs (ee_type ev) (forwarded_payload env ev)) (\<lambda>_.
              stream_loop env cs run (Suc n) evs (accumulate env (ee_payload ev) acc))))))"

definition drive_turn ::
  "'r chat_env \<Rightarrow> chat_session \<Rightarrow> agent_run \<Rightarrow> (db \<Rightarrow> engine_stream) \<Rightarrow> ('r turn, turn_acc option) prog" where
  "drive_turn env cs run stream =
     on_runtime_error
       (mbind (on_db (mget (\<lambda>s. stream (work s)))) (\<lambda>st.
        mbind (stream_loop env cs run 0 (fst st) ([], 0, 0)) (\<lambda>r.
          case r of
            None \<Rightarrow> mret None
          | Some acc \<Rightarrow> (case snd st of None \<Rightarrow> mret (Some acc) | Some e \<Rightarrow> mraise e))))
       (\<lambda>e. mbind (on_db (mark_failed run (err_message e))) (\<lambda>_.
            mbind (on_db commit) (\<lambda>_.
            mbind (myield run cs ''error'' [(''error'', JStr (err_message e))]) (\<lambda>_.
              mret None))))"

definition streamed_turn ::
  "'r chat_env \<Rightarrow> chat_request \<Rightarrow> string list \<Rightarrow> dispatch_ctx \<Rightarrow> (string \<Rightarrow> db \<Rightarrow> engine_stream) \<Rightarrow> ('r turn, unit) prog" where
  "streamed_turn env rq groups ctx stream =
     mbind (mlift (\<lambda>s. representative ctx)) (\<lambda>(os, tm, ag).
     mbind (on_db (begin_turn env commit rq groups os tm ag)) (\<lambda>(cs, run).
     mbind (myield run cs ''agent_started'' [(''agent'', JStr (code ag)), (''team'', JStr (code tm))]) (\<lambda>_.
     mbind (drive_turn env cs run (stream (row_id cs))) (\<lambda>r.
       case r of
         None \<Rightarrow> mret ()
       | Some (parts, tokens) \<Rightarrow>
           (let final_output = merge_content_parts parts in
            mbind (on_db (complete_turn env commit rq groups (quota_model os ag) cs run final_output tokens)) (\<lambda>_.
              myield run cs ''agent_completed'' [(''message'', JStr final_output)]))))))"

definition handle_chat_stream :: "'r chat_env \<Rightarrow> chat_request \<Rightarrow> ('r turn, unit) prog" where
  "handle_chat_stream env rq0 =
     (case resolve_identity env rq0 of (rq, groups) \<Rightarrow>
      mbind (on_db (mlift (\<lambda>s. resolve_dispatch_context (cq_agent_os rq) (cq_team rq) (work s)))) (\<lambda>ctx.
        let st = (case ctx of
            DispatchAgent c \<Rightarrow> (\<lambda>sid. run_stream (ce_engine env) c (cq_message rq) sid (cq_user_id rq) (cq_attachments rq))
          | DispatchTeam c \<Rightarrow> (\<lambda>sid. run_team_stream (ce_engine env) c (cq_message rq) sid (cq_user_id rq) (cq_attachments rq))
          | DispatchRoot c \<Rightarrow> (\<lambda>sid. run_root_stream (ce_engine env) c (cq_message rq) sid (cq_user_id rq) (cq_attachments rq)))
        in streamed_turn env rq groups ctx st))"



subsection \<open>What the steps of a turn leave alone\<close>

lemma wp_keeps:
  "keeps m I \<Longrightarrow> I s \<Longrightarrow> (\<And>x s'. I s' \<Longrightarrow> P x s') \<Longrightarrow> (\<And>e s'. I s' \<Longrightarrow> E e s') \<Longrightarrow> wp m P E s"
  unfolding keeps_def by (blast intro: wp_mono)

lemma keeps_create:
  "(\<And>s n f. I s \<Longrightarrow> I (s\<lparr>seed := n, work := upd f (work s)\<rparr>)) \<Longrightarrow> (\<And>s n. I s \<Longrightarrow> I (s\<lparr>seed := n\<rparr>)) \<Longrightarrow>
     keeps (repo_create tbl upd clash mk) I"
  by (auto simp: keeps_def wp_def repo_create_def repo_create_as_def mbind_def Let_def split: prod.splits sum.splits if_splits)

lemma keeps_create_as:
  "(\<And>s f. I s \<Longrightarrow> I (s\<lparr>work := upd f (work s)\<rparr>)) \<Longrightarrow> keeps (repo_create_as i tbl upd clash mk) I"
  by (auto simp: keeps_def wp_def repo_create_as_def Let_def)

lemma keeps_save: "(\<And>s f. I s \<Longrightarrow> I (s\<lparr>work := upd f (work s)\<rparr>)) \<Longrightarrow> keeps (repo_save upd r) I"
  by (auto simp: keeps_def wp_save)

lemma keeps_on_redis: "(\<And>s r. I s \<Longrightarrow> I (s\<lparr>redis := r\<rparr>)) \<Longrightarrow> keeps (on_redis f) I"
  by (auto simp: keeps_def wp_def on_redis_def split: prod.splits sum.splits)

lemma keeps_check_policy: "keeps (check_policy env p) I"
  unfolding check_policy_def by (auto intro!: inv_intros simp: Let_def)

lemma keeps_assert_within_quota [inv_intros]: "keeps (assert_within_quota env u g m) I"
  unfolding assert_within_quota_def by (auto intro!: inv_intros keeps_check_policy)

text \<open>Nothing before the end of a turn commits.\<close>

abbreviation durable_is :: "db \<Rightarrow> 'r sess \<Rightarrow> bool" where
  "durable_is D \<equiv> (\<lambda>s. durable s = D)"

lemma durable_steps [inv_intros]:
  "keeps (get_or_create_session rq os tm ag) (durable_is D)"
  "keeps (create_run sid aid inp) (durable_is D)"
  "keeps (add_message sid rid role content) (durable_is D)"
  "keeps (mark_running run) (durable_is D)"
  "keeps (mark_completed run out) (durable_is D)"
  "keeps (mark_failed run m) (durable_is D)"
  "keeps (emit_event rid ty p) (durable_is D)"
  "keeps no_save (durable_is D)"
  unfolding get_or_create_session_def create_run_def add_message_def mark_running_def mark_completed_def mark_failed_def
    emit_event_def no_save_def
  by (auto intro!: inv_intros keeps_create keeps_create_as keeps_save split: option.splits)

lemma durable_begin [inv_intros]: "keeps (begin_turn env no_save rq g os tm ag) (durable_is D)"
  unfolding begin_turn_def by (auto intro!: inv_intros)

lemma durable_consume [inv_intros]: "keeps (consume_stream env run evs acc) (durable_is D)"
proof (induction evs arbitrary: acc)
  case (Cons ev evs)
  show ?case unfolding consume_stream.simps by (intro inv_intros Cons)
qed (simp add: keeps_ret)

lemma durable_drain [inv_intros]: "keeps (drain_stream env run stream) (durable_is D)"
  unfolding drain_stream_def on_runtime_error_def by (auto intro!: inv_intros split: option.splits)

text \<open>Recording usage never fails, whatever the database or Redis do.\<close>

lemma wp_total: "wp m (\<lambda>_ _. True) (\<lambda>_ _. True) s"
  by (auto simp: wp_def split: prod.splits sum.splits)

lemma wp_catch_total: "(\<And>e s'. wp (h e) (\<lambda>_ _. True) (\<lambda>_ _. False) s') \<Longrightarrow> wp (mcatch m h) (\<lambda>_ _. True) (\<lambda>_ _. False) s"
  unfolding wp_catch by (rule wp_mono [OF wp_total]) auto

lemma record_usage_no_error: "wp (record_usage env run u g m inp out cost) (\<lambda>_ _. True) (\<lambda>_ _. False) s"
proof -
  have ins: "wp (mcatch (insert_usage env x) (\<lambda>_. rollback)) (\<lambda>_ _. True) (\<lambda>_ _. False) s'" for x s'
    by (rule wp_catch_total) (simp add: wp_rollback)
  have charge: "wp (mcatch y (\<lambda>_. mret ())) (\<lambda>_ _. True) (\<lambda>_ _. False) s'" for y :: "('a sess, unit) prog" and s'
    by (rule wp_catch_total) (simp add: wp_basic)
  show ?thesis
    unfolding record_usage_def by (auto simp: wp_basic wp_bind charge intro!: wp_mono [OF ins])
qed

lemma record_turn_no_error: "wp (record_turn env rq g m run tokens) (\<lambda>_ _. True) (\<lambda>_ _. False) s"
  unfolding record_turn_def by (simp add: wp_simps record_usage_no_error)

lemma wp_bind_keeps:
  "keeps m I \<Longrightarrow> I s \<Longrightarrow> (\<And>x s'. I s' \<Longrightarrow> wp (k x) P E s') \<Longrightarrow> (\<And>e s'. I s' \<Longrightarrow> E e s') \<Longrightarrow> wp (mbind m k) P E s"
  unfolding wp_bind by (rule wp_keeps)

lemma complete_turn_error:
  assumes "durable s = D"
  shows "wp (complete_turn env no_save rq g m cs run output tokens) (\<lambda>_ _. True) (\<lambda>_. durable_is D) s"
  unfolding complete_turn_def using assms
  by (intro wp_bind_keeps [where I = "durable_is D"] inv_intros wp_mono [OF record_turn_no_error]) simp_all

lemma complete_reply_error:
  "durable s = D \<Longrightarrow>
     wp (mbind (complete_turn env no_save rq g m cs run output tokens) (\<lambda>_. mret y)) (\<lambda>_ _. True) (\<lambda>_. durable_is D) s"
  unfolding wp_bind by (rule wp_mono [OF complete_turn_error]) (auto simp: wp_basic)

lemma aggregated_turn_error:
  assumes "durable s = D"
  shows "wp (aggregated_turn env rq g ctx st) (\<lambda>_ _. True) (\<lambda>_. durable_is D) s"
  unfolding aggregated_turn_def using assms
  by (auto simp: Let_def split: prod.splits
      intro!: complete_reply_error wp_bind_keeps [where I = "durable_is D"] inv_intros)

lemma text_turn_error:
  assumes "durable s = D"
  shows "wp (text_turn env rq g ctx ans) (\<lambda>_ _. True) (\<lambda>_. durable_is D) s"
  unfolding text_turn_def using assms
  by (auto simp: Let_def split: prod.splits
      intro!: complete_reply_error wp_bind_keeps [where I = "durable_is D"] inv_intros)

lemma handle_chat_error:
  "wp (handle_chat env rq) (\<lambda>_ _. True) (\<lambda>_. durable_is (durable s)) s"
  by (auto simp: handle_chat_def wp_simps aggregated_turn_error text_turn_error split: prod.splits sum.splits dispatch_ctx.splits)

subsection \<open>Admission\<close>

text \<open>Who a request runs for, and under which model its quota is checked.\<close>

definition effective_request :: "'r chat_env \<Rightarrow> chat_request \<Rightarrow> chat_request" where
  "effective_request env rq = fst (resolve_identity env rq)"

definition effective_groups :: "'r chat_env \<Rightarrow> chat_request \<Rightarrow> string list" where
  "effective_groups env rq = snd (resolve_identity env rq)"

lemma resolve_identity_sel:
  "cq_agent_os (effective_request env rq) = cq_agent_os rq" "cq_team (effective_request env rq) = cq_team rq"
  "cq_session_id (effective_request env rq) = cq_session_id rq" "cq_message (effective_request env rq) = cq_message rq"
  by (simp_all add: effective_request_def resolve_identity_def split: prod.split)

lemma resolve_identity_eq: "resolve_identity env rq = (effective_request env rq, effective_groups env rq)"
  by (simp add: effective_request_def effective_groups_def)

lemma check_policy_state: "check_policy env p s = (r, s') \<Longrightarrow> s' = s"
  by (auto simp: check_policy_def mwhen_def Let_def split: sum.splits if_splits)

lemma check_policies_state: "mfor ps (check_policy env) s = (r, s') \<Longrightarrow> s' = s"
proof (induction ps)
  case (Cons p ps)
  then show ?case
    by (auto simp: mbind_def split: sum.splits prod.splits dest: check_policy_state)
qed simp

lemma assert_within_quota_state: "assert_within_quota env u g m s = (r, s') \<Longrightarrow> s' = s"
  by (auto simp: assert_within_quota_def dest: check_policies_state split: if_splits)

lemma begin_turn_refused:
  "assert_within_quota (ce_quota env) (cq_user_id rq) g (quota_model os ag) s = (Inl e, s') \<Longrightarrow>
     begin_turn env sv rq g os tm ag s = (Inl e, s)"
  using assert_within_quota_state by (fastforce simp: begin_turn_def run_bind_Inl)

text \<open>The beginning of either entry point up to the point where the turn starts.\<close>

definition turn_start :: "'r chat_env \<Rightarrow> chat_request \<Rightarrow> ('r sess, unit) prog \<Rightarrow> ('r sess, chat_session \<times> agent_run) prog" where
  "turn_start env rq save =
     mbind (mlift (\<lambda>s. rbind (resolve_dispatch_context (cq_agent_os rq) (cq_team rq) (work s)) representative)) (\<lambda>(os, tm, ag).
       begin_turn env save (effective_request env rq) (effective_groups env rq) os tm ag)"

lemma handle_chat_start_error:
  "turn_start env rq no_save s = (Inl e, s') \<Longrightarrow> handle_chat env rq s = (Inl e, s')"
  by (auto simp: turn_start_def handle_chat_def resolve_identity_eq resolve_identity_sel aggregated_turn_def text_turn_def
      mbind_def split: sum.splits dispatch_ctx.splits prod.splits)

lemma on_db_run: "m (tn_sess t) = (r, s) \<Longrightarrow> on_db m t = (r, t\<lparr>tn_sess := s\<rparr>)"
  by (simp add: on_db_def)

lemma handle_chat_stream_start_error:
  "turn_start env rq commit (tn_sess t) = (Inl e, s') \<Longrightarrow>
     handle_chat_stream env rq t = (Inl e, t\<lparr>tn_sess := s'\<rparr>)"
  by (auto simp: turn_start_def handle_chat_stream_def resolve_identity_eq resolve_identity_sel streamed_turn_def on_db_def
      mbind_def Let_def split: sum.splits dispatch_ctx.splits prod.splits)

lemma turn_start_refused:
  assumes "resolve_dispatch_context (cq_agent_os rq) (cq_team rq) (work s) = Inr ctx" "representative ctx = Inr (os, tm, ag)"
    "assert_within_quota (ce_quota env) (cq_user_id (effective_request env rq)) (effective_groups env rq) (quota_model os ag) s = (Inl e, s1)"
  shows "turn_start env rq save s = (Inl e, s)"
  using assms begin_turn_refused [OF assms(3)] by (simp add: turn_start_def)

lemma turn_start_foreign_session:
  assumes "cq_session_id rq = Some i" "repo_get i (t_sessions (work s)) = Inr (Some cs)"
    "cs_user_id cs \<noteq> cq_user_id (effective_request env rq)"
  shows "\<exists>e. \<forall>save. turn_start env rq save s = (Inl e, s)"
proof -
  have b: "\<exists>e. \<forall>save. begin_turn env save (effective_request env rq) g os tm ag s = (Inl e, s)" for g os tm ag
  proof (cases "assert_within_quota (ce_quota env) (cq_user_id (effective_request env rq)) g (quota_model os ag) s")
    case (Pair r s1)
    then have "s1 = s" by (rule assert_within_quota_state)
    with Pair assms show ?thesis
      by (cases r) (auto simp: begin_turn_def mbind_def get_or_create_session_def resolve_identity_sel)
  qed
  show ?thesis
  proof (cases "rbind (resolve_dispatch_context (cq_agent_os rq) (cq_team rq) (work s)) representative")
    case (Inr r)
    with b [of "effective_groups env rq" "fst r" "fst (snd r)" "snd (snd r)"] show ?thesis
      by (simp add: turn_start_def case_prod_beta)
  qed (simp add: turn_start_def)
qed

text \<open>C34. A caller over the limit starts nothing: on both entry points the turn ends with the quota error
  before a session, a run or a message exists, and the client of a stream is sent no event.\<close>

theorem over_quota_starts_nothing:
  assumes "resolve_dispatch_context (cq_agent_os rq) (cq_team rq) (work s) = Inr ctx" "representative ctx = Inr (os, tm, ag)"
    "assert_within_quota (ce_quota env) (cq_user_id (effective_request env rq)) (effective_groups env rq) (quota_model os ag) s = (Inl e, s1)"
  shows "handle_chat env rq s = (Inl e, s) \<and>
    handle_chat_stream env rq \<lparr>tn_sess = s, tn_out = []\<rparr> = (Inl e, \<lparr>tn_sess = s, tn_out = []\<rparr>)"
  using handle_chat_start_error [OF turn_start_refused [OF assms]]
    handle_chat_stream_start_error [of env rq "\<lparr>tn_sess = s, tn_out = []\<rparr>" e s] turn_start_refused [OF assms] by simp

text \<open>C10. A session can only be continued by the user it belongs to: a request that names another user's
  session (the user being the verified one where there is a verified identity) fails and writes nothing.\<close>

theorem foreign_session_refused:
  assumes "cq_session_id rq = Some i" "repo_get i (t_sessions (work s)) = Inr (Some cs)"
    "cs_user_id cs \<noteq> fst (resolve_effective_user_id (ce_identity env) (cq_user_id rq) (ce_auth_mode env))"
  shows "\<exists>e. handle_chat env rq s = (Inl e, s) \<and>
    handle_chat_stream env rq \<lparr>tn_sess = s, tn_out = []\<rparr> = (Inl e, \<lparr>tn_sess = s, tn_out = []\<rparr>)"
proof -
  have "cs_user_id cs \<noteq> cq_user_id (effective_request env rq)"
    using assms(3) by (auto simp: effective_request_def resolve_identity_def split: prod.splits)
  from turn_start_foreign_session [OF assms(1,2) this] obtain e where
    e: "\<forall>save. turn_start env rq save s = (Inl e, s)" by blast
  with handle_chat_start_error [of env rq s e s]
    handle_chat_stream_start_error [of env rq "\<lparr>tn_sess = s, tn_out = []\<rparr>" e s]
  show ?thesis by auto
qed

text \<open>A turn answered in one piece is all or nothing: when it fails, at whatever point and for whatever
  reason, the request's transaction is rolled back and the database is as it was before the request. The
  failed run that \<open>handle_chat\<close> marks and the events it recorded are lost with it.\<close>

theorem failed_turn_leaves_no_trace:
  assumes "get_db (handle_chat env rq) s = (Inl e, s')"
  shows "durable s' = durable s \<and> work s' = durable s"
proof -
  from get_db_error_durable [OF assms] obtain s'' where
    s'': "handle_chat env rq s = (Inl e, s'')" "durable s' = durable s''" "work s' = durable s''" by blast
  with handle_chat_error [of env rq s] show ?thesis by (simp add: wp_def)
qed

lemma ignored_session_fields [simp]:
  "new_session (rq\<lparr>cq_agent := x\<rparr>) = new_session rq"
  "new_session (rq\<lparr>cq_attachments := y\<rparr>) = new_session rq"
  by (simp_all add: fun_eq_iff new_session_def)

lemma ignored_step_fields [simp]:
  "get_or_create_session (rq\<lparr>cq_agent := x\<rparr>) = get_or_create_session rq"
  "get_or_create_session (rq\<lparr>cq_attachments := y\<rparr>) = get_or_create_session rq"
  "record_turn env (rq\<lparr>cq_agent := x\<rparr>) = record_turn env rq"
  "record_turn env (rq\<lparr>cq_attachments := y\<rparr>) = record_turn env rq"
  by (intro ext, simp add: get_or_create_session_def record_turn_def cong del: option.case_cong_weak)+

lemma ignored_fields [simp]:
  "begin_turn env save (rq\<lparr>cq_agent := x\<rparr>) = begin_turn env save rq"
  "begin_turn env save (rq\<lparr>cq_attachments := y\<rparr>) = begin_turn env save rq"
  "complete_turn env save (rq\<lparr>cq_agent := x\<rparr>) = complete_turn env save rq"
  "complete_turn env save (rq\<lparr>cq_attachments := y\<rparr>) = complete_turn env save rq"
  "resolve_identity env (rq\<lparr>cq_agent := x\<rparr>) = (case resolve_identity env rq of (r, g) \<Rightarrow> (r\<lparr>cq_agent := x\<rparr>, g))"
  "resolve_identity env (rq\<lparr>cq_attachments := y\<rparr>) = (case resolve_identity env rq of (r, g) \<Rightarrow> (r\<lparr>cq_attachments := y\<rparr>, g))"
  by (auto simp: fun_eq_iff begin_turn_def complete_turn_def resolve_identity_def split: prod.split)

lemma ignored_identity [simp]:
  "effective_request env (rq\<lparr>cq_attachments := y\<rparr>) = (effective_request env rq)\<lparr>cq_attachments := y\<rparr>"
  "effective_groups env (rq\<lparr>cq_attachments := y\<rparr>) = effective_groups env rq"
  by (simp_all add: effective_request_def effective_groups_def split: prod.split)

lemma ignored_turns [simp]:
  "aggregated_turn env (rq\<lparr>cq_agent := x\<rparr>) = aggregated_turn env rq"
  "aggregated_turn env (rq\<lparr>cq_attachments := y\<rparr>) = aggregated_turn env rq"
  "text_turn env (rq\<lparr>cq_agent := x\<rparr>) = text_turn env rq"
  "streamed_turn env (rq\<lparr>cq_agent := x\<rparr>) = streamed_turn env rq"
  by (simp_all add: fun_eq_iff aggregated_turn_def text_turn_def streamed_turn_def cong del: option.case_cong_weak)

text \<open>Two fields a client may set do not reach the run. The \<open>agent\<close> of a request is ignored by both
  entry points, so the agent a caller names is not the one that answers; and \<open>handle_chat\<close> drops the
  attachments of the UI context of a request without a team, which the streaming entry point passes on.\<close>

theorem ignored_request_fields:
  "handle_chat env (rq\<lparr>cq_agent := x\<rparr>) s = handle_chat env rq s \<and>
   handle_chat_stream env (rq\<lparr>cq_agent := x\<rparr>) t = handle_chat_stream env rq t \<and>
   (cq_team rq = None \<longrightarrow> handle_chat env (rq\<lparr>cq_attachments := y\<rparr>) s = handle_chat env rq s)"
proof (intro conjI impI)
  show "handle_chat env (rq\<lparr>cq_agent := x\<rparr>) s = handle_chat env rq s"
    unfolding handle_chat_def by (simp split: prod.split cong del: dispatch_ctx.case_cong_weak)
  show "handle_chat_stream env (rq\<lparr>cq_agent := x\<rparr>) t = handle_chat_stream env rq t"
    unfolding handle_chat_stream_def by (simp split: prod.split cong del: dispatch_ctx.case_cong_weak)
  assume "cq_team rq = None"
  then have "resolve_dispatch_context os (cq_team rq) d = Inr ctx \<Longrightarrow> \<exists>c. ctx = DispatchRoot c" for os d ctx
    by (auto simp: dispatch_eq_Inr)
  then show "handle_chat env (rq\<lparr>cq_attachments := y\<rparr>) s = handle_chat env rq s"
    unfolding handle_chat_def resolve_identity_eq
    by (auto simp: resolve_identity_eq resolve_identity_sel split: sum.splits prod.splits dispatch_ctx.splits)
qed

subsection \<open>Facts about the streamed turn\<close>

lemma wp_on_db [wp_simps]:
  "wp (on_db m) P E t = wp m (\<lambda>x s. P x (t\<lparr>tn_sess := s\<rparr>)) (\<lambda>e s. E e (t\<lparr>tn_sess := s\<rparr>)) (tn_sess t)"
  by (auto simp: wp_def on_db_def split: sum.splits prod.splits)

lemma wp_myield [wp_simps]:
  "wp (myield run cs ty p) P E t = P () (t\<lparr>tn_out := tn_out t @
     [\<lparr>co_type = ty, co_run_id = row_id run, co_session_id = row_id cs, co_data = p\<rparr>]\<rparr>)"
  by (simp add: myield_def wp_mod)

lemma wp_on_redis [wp_simps]:
  "wp (on_redis f) P E s = (case f (redis s) of (r, rd) \<Rightarrow>
     (case r of Inl e \<Rightarrow> E e (s\<lparr>redis := rd\<rparr>) | Inr x \<Rightarrow> P x (s\<lparr>redis := rd\<rparr>)))"
  by (auto simp: wp_def on_redis_def split: sum.splits prod.splits)

lemma wp_pair [wp_simps]: "wp (Pair (Inr x)) P E s = P x s"
  by (simp add: wp_def)

lemma lookup_other_tables [simp]:
  "runs.lookup i (t_events_update f d) = runs.lookup i d"
  "runs.lookup i (t_messages_update g d) = runs.lookup i d"
  "runs.lookup i (t_sessions_update h d) = runs.lookup i d"
  "runs.lookup i (t_usage_update k d) = runs.lookup i d"
  by (simp_all add: runs.lookup_def)

text \<open>The last thing the client is sent agrees with the run: which end the run has come to, and the text
  or the error that is stored with it.\<close>

definition closing :: "agent_run \<Rightarrow> chat_out \<Rightarrow> bool" where
  "closing run o' \<longleftrightarrow> co_run_id o' = row_id run \<and> ar_finished_at run \<noteq> None \<and>
     (case ar_status run of
        RunCompleted \<Rightarrow> (\<exists>m. ar_output run = Some m \<and> co_type o' = ''agent_completed'' \<and> co_data o' = [(''message'', JStr m)])
      | RunFailed \<Rightarrow> (\<exists>m. ar_error_message run = Some m \<and> co_type o' = ''error'' \<and> co_data o' = [(''error'', JStr m)])
      | RunCancelled \<Rightarrow> co_type o' = ''run_cancelled'' \<and>
          dict_get (co_data o') ''partial_message'' = Some (JStr (case ar_output run of None \<Rightarrow> [] | Some m \<Rightarrow> m))
      | _ \<Rightarrow> False)"

definition settled :: "uuid \<Rightarrow> 'r turn \<Rightarrow> bool" where
  "settled i t \<longleftrightarrow> (\<exists>run. runs.lookup i (durable (tn_sess t)) = Some run \<and> row_id run = i \<and>
     tn_out t \<noteq> [] \<and> closing run (last (tn_out t)))"

definition in_progress :: "agent_run \<Rightarrow> 'r turn \<Rightarrow> bool" where
  "in_progress run t \<longleftrightarrow> runs.lookup (row_id run) (work (tn_sess t)) = Some run \<and> durable (tn_sess t) = work (tn_sess t)"

lemma wp_handle_cancellation:
  assumes "runs.lookup (row_id run) (work (tn_sess t)) = Some run"
  shows "wp (mbind (on_db (handle_cancellation env run sid parts)) (\<lambda>p. mbind (myield run cs ''run_cancelled'' p) (\<lambda>_. mret None)))
    (\<lambda>r t'. r = None \<and> settled (row_id run) t')
    (\<lambda>e t'. \<exists>r0. runs.lookup (row_id run) (work (tn_sess t')) = Some r0) t"
proof -
  have key: "\<exists>r0. runs.lookup (row_id r') (t_runs_update (put_row r') d) = Some r0"
    if "runs.lookup (row_id run) d = Some run" "row_id r' = row_id run" for d r'
    using that by (simp add: runs.lookup_save)
  show ?thesis
    using assms
    by (auto simp: handle_cancellation_def Let_def wp_simps add_message_def mark_cancelled_def clear_cancel_def
        settled_def closing_def runs.lookup_save split: prod.splits sum.splits)
qed

lemma stream_loop_spec:
  assumes "in_progress run t"
  shows "wp (stream_loop env cs run n evs acc)
    (\<lambda>r t'. case r of None \<Rightarrow> settled (row_id run) t'
       | Some acc' \<Rightarrow> in_progress run t' \<and> acc' = foldl (\<lambda>a ev. accumulate env (ee_payload ev) a) acc evs)
    (\<lambda>e t'. \<exists>r0. runs.lookup (row_id run) (work (tn_sess t')) = Some r0) t"
  using assms
proof (induction evs arbitrary: n acc t)
  case Nil
  then show ?case by (simp add: wp_simps)
next
  case (Cons ev evs)
  let ?t = "t\<lparr>tn_sess := tn_sess t\<lparr>redis := ce_others env n (redis (tn_sess t))\<rparr>\<rparr>"
  have p: "in_progress run ?t" using Cons.prems by (simp add: in_progress_def)
  show ?case
  proof (cases "rds_exists (ce_redis env) (cancel_key (row_id run)) (redis (tn_sess ?t))")
    case (Inl e)
    with Cons.prems show ?thesis by (simp add: wp_simps is_cancelled_def in_progress_def)
  next
    case (Inr stop)
    show ?thesis
    proof (cases stop)
      case True
      have "runs.lookup (row_id run) (work (tn_sess ?t)) = Some run" using p by (simp add: in_progress_def)
      from wp_handle_cancellation [OF this, of env "row_id cs" "fst acc" cs] Inr True show ?thesis
        by (auto simp: wp_simps is_cancelled_def elim!: wp_mono)
    next
      case False
      with Inr Cons.IH Cons.prems show ?thesis
        by (simp add: wp_simps is_cancelled_def in_progress_def cong del: option.case_cong_weak)
    qed
  qed
qed

lemma drive_turn_spec:
  assumes "in_progress run t"
  shows "wp (drive_turn env cs run stream)
    (\<lambda>r t'. case r of None \<Rightarrow> settled (row_id run) t' | Some acc' \<Rightarrow> in_progress run t' \<and>
        snd (stream (work (tn_sess t))) = None \<and>
        acc' = foldl (\<lambda>a ev. accumulate env (ee_payload ev) a) ([], 0, 0) (fst (stream (work (tn_sess t)))))
    (\<lambda>_ _. True) t"
proof -
  let ?P = "\<lambda>r t'. case r of None \<Rightarrow> settled (row_id run) t' | Some acc' \<Rightarrow> in_progress run t' \<and>
        snd (stream (work (tn_sess t))) = None \<and>
        acc' = foldl (\<lambda>a ev. accumulate env (ee_payload ev) a) ([], 0, 0) (fst (stream (work (tn_sess t))))"
  let ?H = "\<lambda>e. if err_class e = RuntimeExecutionError
     then mbind (on_db (mark_failed run (err_message e))) (\<lambda>_. mbind (on_db commit) (\<lambda>_.
            mbind (myield run cs ''error'' [(''error'', JStr (err_message e))]) (\<lambda>_. mret None)))
     else mraise e"
  have handler: "wp (?H e) ?P (\<lambda>_ _. True) t'"
    if "\<exists>r0. runs.lookup (row_id run) (work (tn_sess t')) = Some r0" for e t'
    using that by (auto simp: wp_simps mark_failed_def settled_def closing_def runs.lookup_save)
  have after: "wp (case r of None \<Rightarrow> mret None | Some acc \<Rightarrow> (case err of None \<Rightarrow> mret (Some acc) | Some e \<Rightarrow> mraise e)) ?P (\<lambda>e. wp (?H e) ?P (\<lambda>_ _. True)) t'"
    if "case r of None \<Rightarrow> settled (row_id run) t'
       | Some acc' \<Rightarrow> in_progress run t' \<and> acc' = foldl (\<lambda>a ev. accumulate env (ee_payload ev) a) ([], 0, 0) (fst (stream (work (tn_sess t))))"
      "err = snd (stream (work (tn_sess t)))" for r err t'
  proof (cases r)
    case None
    with that show ?thesis by (simp add: wp_basic)
  next
    case (Some acc)
    show ?thesis
    proof (cases err)
      case None
      with that \<open>r = Some acc\<close> show ?thesis by (simp add: wp_basic)
    next
      case (Some e)
      have "wp (?H e) ?P (\<lambda>_ _. True) t'"
        using that(1) \<open>r = Some acc\<close> by (intro handler) (auto simp: in_progress_def)
      then show ?thesis unfolding Some \<open>r = Some acc\<close> by (simp only: option.case prod.case wp_basic)
    qed
  qed
  show ?thesis
    unfolding drive_turn_def on_runtime_error_def wp_catch
    apply (subst wp_bind, subst wp_on_db, subst wp_basic, simp del: wp_basic, subst wp_bind)
    apply (rule wp_mono [OF stream_loop_spec [OF assms]])
     apply (rule after, assumption, rule refl)
    apply (erule handler)
    done
qed


subsection \<open>Facts about the beginning and the end of a turn\<close>

lemma run_create_run [run_simps]:
  "create_run sid aid inp s =
     (Inr (new_run sid aid inp (new_uuid (seed s)) (now s)),
      s\<lparr>seed := Suc (Suc (seed s)),
        work := t_events_update (\<lambda>es. es @ [new_event (new_uuid (seed s)) EvAgentStarted (JObj [(''input'', JStr inp)])
                  (new_uuid (Suc (seed s))) (now s)])
                (t_runs_update (\<lambda>rs. rs @ [new_run sid aid inp (new_uuid (seed s)) (now s)]) (work s))\<rparr>)"
  by (simp add: create_run_def run_simps mbind_def)

lemma run_add_message [run_simps]:
  "add_message sid rid role content s =
     (Inr (new_message sid rid role content (new_uuid (seed s)) (now s)),
      s\<lparr>seed := Suc (seed s),
        work := t_messages_update (\<lambda>ms. ms @ [new_message sid rid role content (new_uuid (seed s)) (now s)]) (work s)\<rparr>)"
  by (simp add: add_message_def run_simps)

lemma run_mark_running [run_simps]:
  "mark_running run s =
     (Inr (run\<lparr>ar_status := RunRunning, ar_started_at := Some (now s)\<rparr>),
      s\<lparr>work := t_runs_update (put_row (run\<lparr>ar_status := RunRunning, ar_started_at := Some (now s)\<rparr>)) (work s)\<rparr>)"
  by (simp add: mark_running_def run_simps)

lemma get_or_create_session_runs:
  "get_or_create_session rq os tm ag s = (r, s') \<Longrightarrow>
     t_runs (work s') = t_runs (work s) \<and> seed s \<le> seed s' \<and> durable s' = durable s \<and> t_models (work s') = t_models (work s)"
  by (auto simp: get_or_create_session_def repo_create_def repo_create_as_def mbind_def Let_def
      split: option.splits sum.splits prod.splits if_splits)

lemma lookup_run_append:
  "runs.lookup i (t_runs_update (\<lambda>rs. rs @ [r]) d) =
     (case runs.lookup i d of Some x \<Rightarrow> Some x | None \<Rightarrow> if row_id r = i then Some r else None)"
  by (simp add: runs.lookup_def find_append split: option.split)

lemma lookup_run_save_comp:
  "runs.lookup i (t_runs_update (put_row r \<circ> f) d) =
     (if i = row_id r then map_option (\<lambda>_. r) (runs.lookup i (t_runs_update f d)) else runs.lookup i (t_runs_update f d))"
  using runs.lookup_save [of i r "t_runs_update f d"] by simp

text \<open>A turn that has begun: its run is new, running and, when the steps are committed, durable.\<close>

lemma begin_turn_Inr:
  assumes b: "begin_turn env save rq g os tm ag s = (Inr (cs, run), s')" and ids: "ids_below (seed s) (t_runs (work s))"
    and save: "save = commit \<or> save = no_save"
  shows "runs.lookup (row_id run) (work s') = Some run \<and> runs.lookup (row_id run) (work s) = None \<and>
    ar_status run = RunRunning \<and> (save = commit \<longrightarrow> durable s' = work s') \<and> t_models (work s') = t_models (work s)"
proof -
  obtain r1 s1 where 1: "assert_within_quota (ce_quota env) (cq_user_id rq) g (quota_model os ag) s = (r1, s1)" by force
  obtain r2 s2 where 2: "get_or_create_session rq (row_id os) (row_id tm) (row_id ag) s = (r2, s2)" by force
  have "s1 = s" using assert_within_quota_state [OF 1] .
  note s2 = get_or_create_session_runs [OF 2]
  have fresh: "runs.lookup (new_uuid (seed s2)) (work s) = None"
    using ids s2 by (auto simp: runs.lookup_def find_None_iff ids_below_def)
  have fresh2: "runs.lookup (new_uuid (seed s2)) (work s2) = None"
    using fresh s2 by (simp add: runs.lookup_def)
  show ?thesis
    using b 1 2 \<open>s1 = s\<close> s2 fresh fresh2 save
    by (auto simp: begin_turn_def mbind_def [of "assert_within_quota e u g' m" for e u g' m]
        mbind_def [of "get_or_create_session r o' t' a'" for r o' t' a'] no_save_def run_create_run run_add_message
        run_mark_running run_bind_Inr lookup_run_save_comp lookup_run_append split: sum.splits)
qed

lemma keeps_record_usage:
  assumes K: "\<And>d f. K d \<Longrightarrow> K (t_usage_update f d)"
  shows "keeps (record_usage env run u g m inp out cost) (\<lambda>s. K (work s) \<and> K (durable s))"
proof -
  have "keeps (insert_usage env mk) (\<lambda>s. K (work s) \<and> K (durable s))" for mk
    unfolding insert_usage_def
    by (auto intro!: inv_intros keeps_create keeps_mod simp: K commit_def split: option.split)
  moreover have "keeps (charge_policy env inp out cost p) (\<lambda>s. K (work s) \<and> K (durable s))" for p
  proof -
    have two: "keeps (mbind (on_redis (rds_incrbyfloat (q_redis env) k d)) (\<lambda>_. on_redis (rds_expire (q_redis env) k t)))
        (\<lambda>s. K (work s) \<and> K (durable s))" for k d t
      by (auto intro!: inv_intros keeps_on_redis)
    show ?thesis
    proof (rule keepsI)
      show "wp (charge_policy env inp out cost p) (\<lambda>_ s. K (work s) \<and> K (durable s)) (\<lambda>_ s. K (work s) \<and> K (durable s)) s"
        if "K (work s) \<and> K (durable s)" for s
        unfolding charge_policy_def wp_def using that keepsD [OF two, of _ _ _ s]
        by (auto simp: Let_def split: prod.splits sum.splits)
    qed
  qed
  moreover have "keeps rollback (\<lambda>s. K (work s) \<and> K (durable s))"
    by (auto intro!: keeps_mod simp: rollback_def)
  ultimately show ?thesis
    unfolding record_usage_def by (auto intro!: inv_intros)
qed

lemma keeps_record_turn:
  "(\<And>d f. K d \<Longrightarrow> K (t_usage_update f d)) \<Longrightarrow>
     keeps (record_turn env rq g m run tokens) (\<lambda>s. K (work s) \<and> K (durable s))"
  unfolding record_turn_def by (auto intro!: inv_intros keeps_record_usage)

lemma complete_turn_settles:
  assumes "in_progress run t"
  shows "wp (mbind (on_db (complete_turn env commit rq g m cs run output tokens))
      (\<lambda>_. myield run cs ''agent_completed'' [(''message'', JStr output)]))
    (\<lambda>_ t'. settled (row_id run) t') (\<lambda>_ _. True) t"
proof -
  define run' where "run' = run\<lparr>ar_status := RunCompleted, ar_output := Some output, ar_finished_at := Some (now (tn_sess t))\<rparr>"
  let ?K = "\<lambda>d. runs.lookup (row_id run) d = Some run'"
  have r: "row_id run' = row_id run" "ar_status run' = RunCompleted" "ar_output run' = Some output" "ar_finished_at run' \<noteq> None"
    by (simp_all add: run'_def)
  have fin: "wp (record_turn env rq g m run' tokens)
      (\<lambda>_ s. settled (row_id run) (t\<lparr>tn_sess := s, tn_out := tn_out t @
         [\<lparr>co_type = ''agent_completed'', co_run_id = row_id run, co_session_id = row_id cs, co_data = [(''message'', JStr output)]\<rparr>]\<rparr>))
      (\<lambda>_ _. True) s" if "?K (work s)" "?K (durable s)" for s
    by (rule wp_keeps [OF keeps_record_turn [of ?K]]) (use that r in \<open>auto simp: settled_def closing_def\<close>)
  show ?thesis
    using assms
    by (simp add: complete_turn_def mark_completed_def wp_simps run_add_message add_message_def run'_def [symmetric])
       (rule fin, auto simp: in_progress_def r lookup_run_save_comp runs.lookup_save)
qed

lemma streamed_turn_settles:
  assumes ids: "ids_below (seed (tn_sess t)) (t_runs (work (tn_sess t)))"
  shows "wp (streamed_turn env rq g ctx st)
    (\<lambda>_ t'. \<exists>i. settled i t' \<and> runs.lookup i (work (tn_sess t)) = None) (\<lambda>_ _. True) t"
proof -
  have turn: "wp (mbind (myield run cs ''agent_started'' p) (\<lambda>_. mbind (drive_turn env cs run (st (row_id cs))) (\<lambda>r.
       case r of None \<Rightarrow> mret () | Some (parts, tokens) \<Rightarrow>
         (let final_output = merge_content_parts parts in
          mbind (on_db (complete_turn env commit rq g m cs run final_output tokens))
            (\<lambda>_. myield run cs ''agent_completed'' [(''message'', JStr final_output)])))))
      (\<lambda>_ t'. settled (row_id run) t') (\<lambda>_ _. True) t'" if "in_progress run t'" for run cs p m t'
  proof -
    let ?t = "t'\<lparr>tn_out := tn_out t' @ [\<lparr>co_type = ''agent_started'', co_run_id = row_id run, co_session_id = row_id cs, co_data = p\<rparr>]\<rparr>"
    have "in_progress run ?t" using that by (simp add: in_progress_def)
    from drive_turn_spec [OF this, of env cs "st (row_id cs)"] show ?thesis
      by (simp add: wp_bind wp_myield)
         (erule wp_mono, auto simp: wp_basic Let_def complete_turn_settles split: option.splits)
  qed
  have begun: "wp (begin_turn env commit rq g os tm ag)
      (\<lambda>(cs, run) s. in_progress run (t\<lparr>tn_sess := s\<rparr>) \<and> runs.lookup (row_id run) (work (tn_sess t)) = None) (\<lambda>_ _. True)
      (tn_sess t)" for os tm ag
    using begin_turn_Inr [OF _ ids] by (intro wp_mono [OF wp_run]) (auto simp: in_progress_def)
  show ?thesis
    unfolding streamed_turn_def
    by (auto simp: wp_bind [of "on_db m" for m] wp_bind [of "mlift f" for f] wp_basic wp_on_db split: sum.splits prod.splits
        intro!: wp_mono [OF begun] wp_mono [OF turn])
qed


subsection \<open>A stop, and an outage of Redis\<close>

lemma stream_errors_are_runtime_errors:
  "snd (run_stream env actx message session_id user_id attachments d) = Some e \<Longrightarrow> err_class e = RuntimeExecutionError"
  "snd (run_team_stream env ctx message session_id user_id attachments d) = Some e \<Longrightarrow> err_class e = RuntimeExecutionError"
  "snd (run_root_stream env rctx message session_id user_id attachments d) = Some e \<Longrightarrow> err_class e = RuntimeExecutionError"
  using team_run_error_class by (metis prod.collapse)+

lemma drive_turn_outage:
  assumes p: "in_progress run t" and down: "\<forall>k r. rds_exists (ce_redis env) k r = Inl e0" "err_class e0 \<noteq> RuntimeExecutionError"
    and st: "\<And>d e. snd (stream d) = Some e \<Longrightarrow> err_class e = RuntimeExecutionError"
  shows "wp (drive_turn env cs run stream) (\<lambda>r t'. case r of None \<Rightarrow> True | Some _ \<Rightarrow> in_progress run t')
    (\<lambda>e t'. runs.lookup (row_id run) (durable (tn_sess t')) = Some run) t"
proof -
  have "wp (stream_loop env cs run 0 evs acc) (\<lambda>r t'. t' = t \<and> r = Some acc)
      (\<lambda>e t'. e = e0 \<and> runs.lookup (row_id run) (durable (tn_sess t')) = Some run) t" for evs acc
    using p down by (cases evs) (auto simp: wp_simps is_cancelled_def in_progress_def)
  note loop = wp_mono [OF this]
  show ?thesis
    unfolding drive_turn_def on_runtime_error_def
    using p down(2) st by (auto simp: wp_simps mark_failed_def split: option.splits intro!: loop)
qed

lemma streamed_turn_outage:
  assumes ids: "ids_below (seed (tn_sess t)) (t_runs (work (tn_sess t)))" and o: "tn_out t = []"
    and down: "\<forall>k r. rds_exists (ce_redis env) k r = Inl e0" "err_class e0 \<noteq> RuntimeExecutionError"
    and st: "\<And>sid d e. snd (st sid d) = Some e \<Longrightarrow> err_class e = RuntimeExecutionError"
  shows "wp (streamed_turn env rq g ctx st) (\<lambda>_ _. True)
    (\<lambda>e t'. tn_out t' = [] \<or> (\<exists>run. runs.lookup (row_id run) (work (tn_sess t)) = None \<and> ar_status run = RunRunning \<and>
       runs.lookup (row_id run) (durable (tn_sess t')) = Some run)) t"
proof -
  have total: "wp (on_db (complete_turn env commit rq g m cs run x tokens)) (\<lambda>_ _. True) (\<lambda>_ _. False) t'" for m cs run x tokens t'
    by (simp add: complete_turn_def add_message_def mark_completed_def wp_simps)
       (rule wp_mono [OF record_turn_no_error], simp_all)
  have begun: "wp (begin_turn env commit rq g os tm ag)
      (\<lambda>(cs, run) s. in_progress run (t\<lparr>tn_sess := s\<rparr>) \<and> runs.lookup (row_id run) (work (tn_sess t)) = None \<and> ar_status run = RunRunning)
      (\<lambda>_ _. True) (tn_sess t)" for os tm ag
    using begin_turn_Inr [OF _ ids] by (intro wp_mono [OF wp_run]) (auto simp: in_progress_def)
  have turn: "wp (mbind (myield run cs ty p) (\<lambda>_. mbind (drive_turn env cs run (st (row_id cs))) (\<lambda>r.
       case r of None \<Rightarrow> mret () | Some (parts, tokens) \<Rightarrow>
         (let final_output = merge_content_parts parts in
          mbind (on_db (complete_turn env commit rq g m cs run final_output tokens))
            (\<lambda>_. myield run cs ''agent_completed'' [(''message'', JStr final_output)])))))
      (\<lambda>_ _. True) (\<lambda>_ t'. runs.lookup (row_id run) (durable (tn_sess t')) = Some run) t'" if "in_progress run t'" for run cs ty p m t'
  proof -
    let ?t = "t'\<lparr>tn_out := tn_out t' @ [\<lparr>co_type = ty, co_run_id = row_id run, co_session_id = row_id cs, co_data = p\<rparr>]\<rparr>"
    have "in_progress run ?t" using that by (simp add: in_progress_def)
    from drive_turn_outage [OF this down, where cs = cs and stream = "st (row_id cs)"] st show ?thesis
      by (simp add: wp_bind [of "drive_turn e c r s" for e c r s] wp_bind [of "myield r c y q" for r c y q] wp_myield)
         (erule wp_mono, auto simp: wp_basic wp_bind wp_myield Let_def split: option.splits intro!: wp_mono [OF total])
  qed
  show ?thesis
    unfolding streamed_turn_def
    by (auto simp: wp_bind [of "on_db m" for m] wp_bind [of "mlift f" for f] wp_basic wp_on_db o split: sum.splits prod.splits
        intro!: wp_mono [OF begun] wp_mono [OF turn])
qed

text \<open>When Redis does not answer the question whether the run was stopped, the stream breaks off: what was
  committed before stays, so the run is left running for good, with no terminal state, no error event
  and no answer stored.\<close>

theorem redis_outage_leaves_run_running:
  assumes "handle_chat_stream env rq t = (Inl e, t')" "tn_out t = []" "tn_out t' \<noteq> []"
    "ids_below (seed (tn_sess t)) (t_runs (work (tn_sess t)))"
    "\<forall>k r. rds_exists (ce_redis env) k r = Inl e0" "err_class e0 \<noteq> RuntimeExecutionError"
  shows "\<exists>run. runs.lookup (row_id run) (work (tn_sess t)) = None \<and>
    runs.lookup (row_id run) (durable (tn_sess t')) = Some run \<and> ar_status run = RunRunning"
proof -
  have "wp (handle_chat_stream env rq) (\<lambda>_ _. True)
    (\<lambda>e t'. tn_out t' = [] \<or> (\<exists>run. runs.lookup (row_id run) (work (tn_sess t)) = None \<and> ar_status run = RunRunning \<and>
       runs.lookup (row_id run) (durable (tn_sess t')) = Some run)) t"
    unfolding handle_chat_stream_def
    by (auto simp: wp_bind wp_on_db wp_basic Let_def assms(2) split: prod.splits sum.splits dispatch_ctx.splits
        intro!: streamed_turn_outage [OF assms(4,2,5,6)] dest: stream_errors_are_runtime_errors)
  with assms(1,3) show ?thesis by (auto simp: wp_def)
qed

text \<open>C35. A stop takes effect at the next event. If the flag of the run is first up when the event after the
  \<open>k\<close>-th arrives, the client has been sent exactly the first \<open>k\<close> events and then the cancellation, the run
  is durably cancelled with the text of those \<open>k\<close> events as its output, and no later event is processed.\<close>

theorem stop_keeps_partial_answer:
  assumes "in_progress run t" "redis_flags_ok (ce_redis env)" "k < length evs"
    and "\<forall>j < k. rds_exists (ce_redis env) (cancel_key (row_id run)) (fold (ce_others env) [n..<n + Suc j] (redis (tn_sess t))) = Inr False"
    and "rds_exists (ce_redis env) (cancel_key (row_id run)) (fold (ce_others env) [n..<n + Suc k] (redis (tn_sess t))) = Inr True"
  shows "\<exists>t' run' o'. stream_loop env cs run n evs acc t = (Inr None, t') \<and>
    map co_type (tn_out t') = map co_type (tn_out t) @ map ee_type (take k evs) @ [''run_cancelled''] \<and>
    runs.lookup (row_id run) (durable (tn_sess t')) = Some run' \<and> ar_status run' = RunCancelled \<and>
    o' = merge_content_parts (fst (foldl (\<lambda>a ev. accumulate env (ee_payload ev) a) acc (take k evs))) \<and>
    ar_output run' = (if o' = [] then None else Some o')"
  using assms
proof (induction k arbitrary: evs n acc t)
  case 0
  then obtain ev rest where evs: "evs = ev # rest" by (cases evs) auto
  obtain r2 where r2: "rds_delete (ce_redis env) (cancel_key (row_id run)) (ce_others env n (redis (tn_sess t))) = (Inr (), r2)"
    using flags_totals(2) [OF 0(2)] by blast
  show ?case
    using 0 r2 unfolding evs in_progress_def
    by (auto simp: mbind_def on_db_def is_cancelled_def handle_cancellation_def Let_def run_add_message mark_cancelled_def
        run_save run_emit_event clear_cancel_def on_redis_def myield_def runs.lookup_save lookup_run_save_comp)
next
  case (Suc k)
  then obtain ev rest where evs: "evs = ev # rest" by (cases evs) auto
  let ?s = "tn_sess t" and ?e = "\<lambda>i t0. new_event (row_id run) (safe_event_type (ee_type ev)) (JObj (ee_payload ev)) i t0"
  let ?d = "t_events_update (\<lambda>es. es @ [?e (new_uuid (seed ?s)) (now ?s)]) (work ?s)"
  let ?t = "t\<lparr>tn_sess := ?s\<lparr>redis := ce_others env n (redis ?s), seed := Suc (seed ?s), work := ?d, durable := ?d\<rparr>,
    tn_out := tn_out t @ [\<lparr>co_type = ee_type ev, co_run_id = row_id run, co_session_id = row_id cs, co_data = forwarded_payload env ev\<rparr>]\<rparr>"
  have clear: "rds_exists (ce_redis env) (cancel_key (row_id run)) (ce_others env n (redis ?s)) = Inr False"
    using Suc.prems(4) by (auto dest: spec [of _ 0])
  have step: "stream_loop env cs run n evs acc t =
      stream_loop env cs run (Suc n) rest (accumulate env (ee_payload ev) acc) ?t"
    using clear by (simp add: evs mbind_def on_db_def is_cancelled_def run_emit_event myield_def)
  have up: "[n..<n + Suc (Suc j)] = n # [Suc n..<Suc n + Suc j]" for j
    by (simp add: upt_rec)
  have "\<exists>t' run' o'. stream_loop env cs run (Suc n) rest (accumulate env (ee_payload ev) acc) ?t = (Inr None, t') \<and>
    map co_type (tn_out t') = map co_type (tn_out ?t) @ map ee_type (take k rest) @ [''run_cancelled''] \<and>
    runs.lookup (row_id run) (durable (tn_sess t')) = Some run' \<and> ar_status run' = RunCancelled \<and>
    o' = merge_content_parts (fst (foldl (\<lambda>a ev. accumulate env (ee_payload ev) a) (accumulate env (ee_payload ev) acc) (take k rest))) \<and>
    ar_output run' = (if o' = [] then None else Some o')"
  proof (rule Suc.IH)
    show "in_progress run ?t" using Suc.prems(1) by (simp add: in_progress_def)
    show "k < length rest" using Suc.prems(3) evs by simp
    show "\<forall>j<k. rds_exists (ce_redis env) (cancel_key (row_id run)) (fold (ce_others env) [Suc n..<Suc n + Suc j] (redis (tn_sess ?t))) = Inr False"
    proof (intro allI impI)
      fix j assume "j < k"
      with Suc.prems(4) have "rds_exists (ce_redis env) (cancel_key (row_id run))
          (fold (ce_others env) [n..<n + Suc (Suc j)] (redis ?s)) = Inr False" by blast
      then show "rds_exists (ce_redis env) (cancel_key (row_id run))
          (fold (ce_others env) [Suc n..<Suc n + Suc j] (redis (tn_sess ?t))) = Inr False"
        unfolding up by simp
    qed
    show "rds_exists (ce_redis env) (cancel_key (row_id run)) (fold (ce_others env) [Suc n..<Suc n + Suc k] (redis (tn_sess ?t))) = Inr True"
      using Suc.prems(5) unfolding up by simp
  qed (rule Suc.prems(2))
  then show ?case unfolding step by (simp add: evs)
qed

text \<open>The metrics of an event as Agno 1.8.4 reports them: one entry per model call, possibly with gaps.\<close>

definition metric_list :: "int option list \<Rightarrow> json" where
  "metric_list xs = JList (map (\<lambda>x. case x of None \<Rightarrow> JNull | Some i \<Rightarrow> JInt i) xs)"

definition known :: "int option list \<Rightarrow> int list" where
  "known xs = concat (map (\<lambda>x. case x of None \<Rightarrow> [] | Some i \<Rightarrow> [i]) xs)"

lemma json_sum_metric_list:
  "json_sum (map (\<lambda>x. case x of None \<Rightarrow> JNull | Some i \<Rightarrow> JInt i) xs) = Some (of_int (sum_list (known xs)))"
proof -
  have "fold (\<lambda>v acc. case (acc, json_number v) of (Some a, Some n) \<Rightarrow> Some (a + n) | _ \<Rightarrow> None)
     (filter (\<lambda>v. v \<noteq> JNull) (map (\<lambda>x. case x of None \<Rightarrow> JNull | Some i \<Rightarrow> JInt i) xs)) (Some (of_int a))
     = Some (of_int (a + sum_list (known xs)) :: real)" for a
  proof (induction xs arbitrary: a)
    case (Cons x xs)
    from Cons [of "a + (case x of None \<Rightarrow> 0 | Some i \<Rightarrow> i)"] show ?case
      by (cases x) (simp_all add: known_def add.assoc)
  qed (simp add: known_def)
  from this [of 0] show ?thesis by (simp add: json_sum_def)
qed

text \<open>Token accounting with the shape Agno 1.8.4 reports: each field is a list with one entry per
  model call, possibly with gaps, and the usage of the event is the sum of each list; an event without
  metrics counts nothing.\<close>

theorem token_usage_summed:
  "extract_token_usage parse (dict_set p ''metrics'' (JObj (dict_set (dict_set kvs ''input_tokens'' (metric_list xs)) ''output_tokens'' (metric_list ys))))
     = (sum_list (known xs), sum_list (known ys)) \<and>
   (dict_get p ''metrics'' = None \<longrightarrow> extract_token_usage parse p = (0, 0))"
  by (auto simp: extract_token_usage_def payload_get_def metric_list_def json_sum_metric_list py_trunc_def)

subsection \<open>Witnesses\<close>

definition demo_chat_env :: "mem_redis chat_env" where
  "demo_chat_env = \<lparr>ce_engine = demo_engine, ce_quota = demo_env\<lparr>feature_quota := False\<rparr>, ce_redis = mem_redis_ops,
     ce_identity = None, ce_auth_mode = TrustClientUserId, ce_int = (\<lambda>_. None), ce_str = (\<lambda>_. []), ce_others = (\<lambda>_ r. r)\<rparr>"

definition demo_request :: chat_request where
  "demo_request = \<lparr>cq_agent_os = ''acme'', cq_team = Some ''sales'', cq_agent = None, cq_message = ''Hello'',
     cq_session_id = None, cq_user_id = Some ''ann'', cq_attachments = []\<rparr>"

definition demo_turn :: "mem_redis turn" where
  "demo_turn = \<lparr>tn_sess = \<lparr>work = demo_db, durable = demo_db, now = 0, seed = 0, redis = []\<rparr>, tn_out = []\<rparr>"

lemma demo_stream_ok: "fst (handle_chat_stream demo_chat_env demo_request demo_turn) = Inr ()"
  by code_simp


definition demo_limited :: "mem_redis chat_env" where
  "demo_limited = demo_chat_env\<lparr>ce_quota := demo_env\<rparr>"

definition demo_limited_sess :: "mem_redis sess" where
  "demo_limited_sess = (tn_sess demo_turn)\<lparr>work := demo_db\<lparr>t_policies := [demo_policy ''p1'' ScopeUser ''ann'' MRequests 0 0]\<rparr>\<rparr>"

lemma demo_limited_dispatch:
  "resolve_dispatch_context (cq_agent_os demo_request) (cq_team demo_request) (work demo_limited_sess) = Inr (DispatchTeam demo_team_ctx)"
  by code_simp

lemma demo_representative: "representative (DispatchTeam demo_team_ctx) = Inr (demo_os, demo_team, demo_agent)"
  by code_simp

lemma demo_over_limit:
  "\<exists>e s1. assert_within_quota (ce_quota demo_limited) (cq_user_id (effective_request demo_limited demo_request))
     (effective_groups demo_limited demo_request) (quota_model demo_os demo_agent) demo_limited_sess = (Inl e, s1)"
  by (simp add: demo_limited_def demo_chat_env_def demo_request_def demo_limited_sess_def demo_turn_def assert_within_quota_def
      effective_request_def effective_groups_def resolve_identity_def resolve_effective_user_id_def select_effective_policies_def
      list_matching_def demo_policy_def policy_matches_def keep_best_def check_policy_def mem_redis_ops_def mbind_def mwhen_def Let_def)

theorem over_quota_starts_nothing_witness:
  "\<exists>e. handle_chat demo_limited demo_request demo_limited_sess = (Inl e, demo_limited_sess)"
proof -
  from demo_over_limit obtain e s1 where
    "assert_within_quota (ce_quota demo_limited) (cq_user_id (effective_request demo_limited demo_request))
       (effective_groups demo_limited demo_request) (quota_model demo_os demo_agent) demo_limited_sess = (Inl e, s1)" by blast
  from over_quota_starts_nothing [OF demo_limited_dispatch demo_representative this] show ?thesis by blast
qed

definition demo_owned_sess :: "mem_redis sess" where
  "demo_owned_sess = (tn_sess demo_turn)\<lparr>work := demo_db\<lparr>t_sessions :=
     [new_session (demo_request\<lparr>cq_user_id := Some ''bob''\<rparr>) ''os1'' ''t1'' ''a1'' ''s1'' 0]\<rparr>\<rparr>"

theorem foreign_session_refused_witness:
  "\<exists>e. handle_chat demo_chat_env (demo_request\<lparr>cq_session_id := Some ''s1''\<rparr>) demo_owned_sess = (Inl e, demo_owned_sess)"
  using foreign_session_refused [of "demo_request\<lparr>cq_session_id := Some ''s1''\<rparr>" "''s1''" demo_owned_sess
      "new_session (demo_request\<lparr>cq_user_id := Some ''bob''\<rparr>) ''os1'' ''t1'' ''a1'' ''s1'' 0" demo_chat_env]
  by (auto simp: demo_owned_sess_def repo_get_def new_session_def live_def demo_chat_env_def demo_request_def
      resolve_effective_user_id_def)

definition demo_broken :: "mem_redis chat_env" where
  "demo_broken = demo_chat_env\<lparr>ce_engine := demo_engine\<lparr>en_reply := (\<lambda>_ _ _ _. Inl ''model down'')\<rparr>\<rparr>"

lemma demo_failing: "isl (fst (get_db (handle_chat demo_broken demo_request) (tn_sess demo_turn)))"
  by code_simp

theorem failed_turn_leaves_no_trace_witness:
  "\<exists>e s'. get_db (handle_chat demo_broken demo_request) (tn_sess demo_turn) = (Inl e, s') \<and> durable s' = demo_db"
proof -
  obtain e s' where e: "get_db (handle_chat demo_broken demo_request) (tn_sess demo_turn) = (Inl e, s')"
    using demo_failing by (metis isl_def prod.collapse)
  from failed_turn_leaves_no_trace [OF e] e show ?thesis by (auto simp: demo_turn_def)
qed

theorem ignored_request_fields_witness:
  "handle_chat demo_chat_env (demo_request\<lparr>cq_team := None, cq_attachments := [''f1'']\<rparr>) (tn_sess demo_turn)
     = handle_chat demo_chat_env (demo_request\<lparr>cq_team := None\<rparr>) (tn_sess demo_turn)"
  using ignored_request_fields [where env = demo_chat_env and rq = "demo_request\<lparr>cq_team := None\<rparr>" and y = "[''f1'']"] by simp

definition demo_outage :: "mem_redis chat_env" where
  "demo_outage = demo_chat_env\<lparr>ce_redis := mem_redis_ops\<lparr>rds_exists := (\<lambda>_ _. Inl (mk_error (PyException ''ConnectionError'') []))\<rparr>\<rparr>"

lemma demo_outage_run:
  "isl (fst (handle_chat_stream demo_outage demo_request demo_turn)) \<and> tn_out (snd (handle_chat_stream demo_outage demo_request demo_turn)) \<noteq> []"
  by code_simp

theorem redis_outage_leaves_run_running_witness:
  "\<exists>e t' run. handle_chat_stream demo_outage demo_request demo_turn = (Inl e, t') \<and>
     runs.lookup (row_id run) (durable (tn_sess t')) = Some run \<and> ar_status run = RunRunning"
proof -
  obtain e t' where e: "handle_chat_stream demo_outage demo_request demo_turn = (Inl e, t')" "tn_out t' \<noteq> []"
    using demo_outage_run by (metis isl_def prod.collapse)
  have "\<forall>k r. rds_exists (ce_redis demo_outage) k r = Inl (mk_error (PyException ''ConnectionError'') [])"
    by (simp add: demo_outage_def)
  from redis_outage_leaves_run_running [OF e(1) _ e(2) _ this] e(1) show ?thesis by (auto simp: demo_turn_def)
qed

definition demo_stopping :: "mem_redis chat_env" where
  "demo_stopping = demo_chat_env\<lparr>ce_others := (\<lambda>n r. if n = 1 then dict_set r (cancel_key ''r1'') 1 else r)\<rparr>"

definition demo_running_turn :: "mem_redis turn" where
  "demo_running_turn = \<lparr>tn_sess = \<lparr>work = demo_run_db RunRunning, durable = demo_run_db RunRunning, now = 0, seed = 0, redis = []\<rparr>, tn_out = []\<rparr>"

theorem stop_keeps_partial_answer_witness:
  "\<exists>t'. stream_loop demo_stopping (new_session demo_request [] [] [] [] 0) (demo_agent_run RunRunning) 0
      (map (team_stream_event ''t1'') (replicate 3 (hd (rn_events demo_run)))) ([], 0, 0) demo_running_turn = (Inr None, t') \<and>
    map co_type (tn_out t') = [''agent_response'', ''run_cancelled'']"
proof -
  have "in_progress (demo_agent_run RunRunning) demo_running_turn"
    by (simp add: in_progress_def demo_running_turn_def demo_run_db_def runs.lookup_def)
  moreover have "row_id (demo_agent_run RunRunning) = ''r1''" by (simp add: demo_agent_run_def)
  ultimately show ?thesis
    using stop_keeps_partial_answer [of "demo_agent_run RunRunning" demo_running_turn demo_stopping 1
        "map (team_stream_event ''t1'') (replicate 3 (hd (rn_events demo_run)))" 0 "new_session demo_request [] [] [] [] 0" "([], 0, 0)"] mem_redis_flags_ok
    by (auto simp: demo_stopping_def demo_chat_env_def demo_running_turn_def mem_redis_ops_def demo_run_def team_stream_event_def
        mapped_type_def agno_team_event_map_def)
qed

theorem token_usage_summed_witness:
  "extract_token_usage (\<lambda>_. None) (dict_set [] ''metrics'' (JObj (dict_set (dict_set [] ''input_tokens'' (metric_list [Some 3, None, Some 4]))
      ''output_tokens'' (metric_list [Some 5])))) = (7, 5) \<and> extract_token_usage (\<lambda>_. None) [] = (0, 0)"
  using token_usage_summed [of "\<lambda>_. None" "[]" "[]" "[Some 3, None, Some 4]" "[Some 5]"] by (simp add: known_def)

end
