(* ===== verification/Workflow.thy ===== *)
theory Workflow
  imports Chat
begin

text \<open>
  Workflows: their definition (\<open>app/services/workflow_registry.py\<close>,
  \<open>app/repositories/workflow_repository.py\<close>), the tracking of their runs
  (\<open>app/services/workflow_run_service.py\<close>), the executor that threads one step's output into the next
  (\<open>app/agno_runtime/workflow_executor.py\<close>, \<open>workflow_context.py\<close>, \<open>workflow_runner.py\<close>) and the service
  that runs one (\<open>app/services/workflow_execution_service.py\<close>).
\<close>

subsection \<open>Definition\<close>

record step_definition =
  sf_type :: workflow_step_type
  sf_agent_code :: string
  sf_team_code :: string
  sf_config :: "json option"

record resolved_step =
  rs_type :: workflow_step_type
  rs_agent_id :: "uuid option"
  rs_team_id :: "uuid option"
  rs_config :: "json option"

record workflow_create =
  wcr_agent_os_id :: uuid
  wcr_code :: string
  wcr_name :: string
  wcr_description :: "string option"
  wcr_team_id :: "uuid option"
  wcr_enabled :: bool
  wcr_metadata :: "json option"
  wcr_created_by :: "string option"
  wcr_steps :: "step_definition list"

record workflow_update =
  wup_name :: "string option"
  wup_description :: "string option"
  wup_team_id :: "uuid option"
  wup_enabled :: "bool option"
  wup_metadata :: "json option"
  wup_steps :: "step_definition list option"

definition get_workflow_by_code :: "uuid \<Rightarrow> string \<Rightarrow> bool \<Rightarrow> db \<Rightarrow> app_error + workflow option" where
  "get_workflow_by_code os c include_deleted d =
     scalar_one_or_none (filter (\<lambda>w. wf_agent_os_id w = os \<and> code w = c \<and> (include_deleted \<or> live w)) (t_workflows d))"

definition list_by_workflow :: "uuid \<Rightarrow> db \<Rightarrow> workflow_step list" where
  "list_by_workflow workflow_id d = sort_key ws_step_order (filter (\<lambda>st. ws_workflow_id st = workflow_id) (t_wsteps d))"

definition get_with_steps :: "uuid \<Rightarrow> db \<Rightarrow> app_error + (workflow \<times> workflow_step list) option" where
  "get_with_steps workflow_id d =
     rbind (repo_get workflow_id (t_workflows d)) (\<lambda>r. Inr (map_option (\<lambda>w. (w, list_by_workflow workflow_id d)) r))"

text \<open>\<open>replace_steps\<close>. The delete is a plain SQL statement; the foreign key of \<open>workflow_run_steps\<close> is declared
  with ON DELETE CASCADE, so the records of past executions of the deleted steps go with them.\<close>

definition delete_steps :: "uuid \<Rightarrow> db \<Rightarrow> db" where
  "delete_steps workflow_id d =
     (let gone = row_id ` set (filter (\<lambda>st. ws_workflow_id st = workflow_id) (t_wsteps d))
      in d\<lparr>t_wsteps := filter (\<lambda>st. ws_workflow_id st \<noteq> workflow_id) (t_wsteps d),
           t_wrun_steps := filter (\<lambda>r. wrs_workflow_step_id r \<notin> gone) (t_wrun_steps d)\<rparr>)"

definition new_step :: "uuid \<Rightarrow> nat \<Rightarrow> resolved_step \<Rightarrow> uuid \<Rightarrow> time \<Rightarrow> workflow_step" where
  "new_step workflow_id order sd i t =
     \<lparr>row_id = i, created_at = t, ws_workflow_id = workflow_id, ws_step_order = int order, ws_step_type = rs_type sd,
      ws_agent_id = rs_agent_id sd, ws_team_id = rs_team_id sd, ws_step_config = rs_config sd\<rparr>"

definition replace_steps :: "uuid \<Rightarrow> resolved_step list \<Rightarrow> ('r sess, unit) prog" where
  "replace_steps workflow_id steps =
     mbind (modify_work (delete_steps workflow_id)) (\<lambda>_.
       mfor (enumerate 0 steps) (\<lambda>(order, sd).
         mbind (repo_create t_wsteps t_wsteps_update no_clash (new_step workflow_id order sd)) (\<lambda>_. mret ())))"

fun find_agent_in_teams :: "team list \<Rightarrow> string \<Rightarrow> db \<Rightarrow> app_error + agent option" where
  "find_agent_in_teams [] agent_code d = Inr None"
| "find_agent_in_teams (tm # tms) agent_code d =
     rbind (agent_by_code (row_id tm) agent_code (t_agents d)) (\<lambda>r.
       case r of Some a \<Rightarrow> Inr (Some a) | None \<Rightarrow> find_agent_in_teams tms agent_code d)"

definition find_agent_by_code_in_agent_os :: "uuid \<Rightarrow> string \<Rightarrow> db \<Rightarrow> app_error + agent option" where
  "find_agent_by_code_in_agent_os os agent_code d =
     find_agent_in_teams (fst (repo_list 0 500 [Some (\<lambda>t. tm_agent_os_id t = os)] (t_teams d))) agent_code d"

definition resolve_step_definition :: "uuid \<Rightarrow> db \<Rightarrow> step_definition \<Rightarrow> app_error + resolved_step" where
  "resolve_step_definition os d sd =
     (case sf_type sd of
        StepAgent \<Rightarrow>
          rbind (find_agent_by_code_in_agent_os os (sf_agent_code sd) d) (\<lambda>r. case r of
            None \<Rightarrow> Inl (mk_error NotFoundError
              (''No enabled agent with code '' @ quoted (sf_agent_code sd) @ '' found under this workflow's AgentOS''))
          | Some a \<Rightarrow> Inr \<lparr>rs_type = StepAgent, rs_agent_id = Some (row_id a), rs_team_id = None, rs_config = sf_config sd\<rparr>)
      | StepTeam \<Rightarrow>
          rbind (team_by_code os (sf_team_code sd) (t_teams d)) (\<lambda>r. case r of
            None \<Rightarrow> Inl (mk_error NotFoundError
              (''No team with code '' @ quoted (sf_team_code sd) @ '' found under this workflow's AgentOS''))
          | Some t \<Rightarrow> Inr \<lparr>rs_type = StepTeam, rs_agent_id = None, rs_team_id = Some (row_id t), rs_config = sf_config sd\<rparr>))"

definition resolve_step_definitions :: "uuid \<Rightarrow> step_definition list \<Rightarrow> db \<Rightarrow> app_error + resolved_step list" where
  "resolve_step_definitions os steps d = rmap (resolve_step_definition os d) steps"

text \<open>The unique constraint on the code of a workflow also covers soft-deleted rows.\<close>

definition same_workflow_code :: "workflow \<Rightarrow> workflow \<Rightarrow> bool" where
  "same_workflow_code w x = (wf_agent_os_id w = wf_agent_os_id x \<and> code w = code x)"

definition new_workflow :: "workflow_create \<Rightarrow> uuid \<Rightarrow> time \<Rightarrow> workflow" where
  "new_workflow p i t =
     \<lparr>row_id = i, created_at = t, deleted_at = None, code = wcr_code p, wf_agent_os_id = wcr_agent_os_id p,
      wf_name = wcr_name p, wf_description = wcr_description p, wf_team_id = wcr_team_id p,
      wf_enabled = wcr_enabled p, wf_metadata = wcr_metadata p, wf_created_by = wcr_created_by p\<rparr>"

definition create_workflow :: "workflow_create \<Rightarrow> ('r sess, (workflow \<times> workflow_step list) option) prog" where
  "create_workflow p =
     mbind (mlift (\<lambda>s. repo_get (wcr_agent_os_id p) (t_agent_os (work s)))) (\<lambda>os.
     if os = None then mraise (mk_error NotFoundError (''AgentOS '' @ wcr_agent_os_id p @ '' not found''))
     else mbind (mlift (\<lambda>s. get_workflow_by_code (wcr_agent_os_id p) (wcr_code p) False (work s))) (\<lambda>existing.
     if existing \<noteq> None
     then mraise (mk_error ConflictError (''Workflow with code '' @ quoted (wcr_code p) @ '' already exists under this AgentOS''))
     else mbind (mlift (\<lambda>s. case wcr_team_id p of
                    None \<Rightarrow> Inr True
                  | Some i \<Rightarrow> rbind (repo_get i (t_teams (work s)))
                      (\<lambda>t. Inr (case t of None \<Rightarrow> False | Some x \<Rightarrow> tm_agent_os_id x = wcr_agent_os_id p)))) (\<lambda>team_ok.
     if \<not> team_ok
     then mraise (mk_error ValidationFailedError ''workflows.team_id must reference a team under the same AgentOS'')
     else mbind (repo_create t_workflows t_workflows_update same_workflow_code (new_workflow p)) (\<lambda>w.
          mbind (mlift (\<lambda>s. resolve_step_definitions (wcr_agent_os_id p) (wcr_steps p) (work s))) (\<lambda>steps.
          mbind (replace_steps (row_id w) steps) (\<lambda>_.
            mlift (\<lambda>s. get_with_steps (row_id w) (work s))))))))"

definition update_workflow :: "uuid \<Rightarrow> workflow_update \<Rightarrow> ('r sess, (workflow \<times> workflow_step list) option) prog" where
  "update_workflow workflow_id p =
     mbind (mlift (\<lambda>s. repo_get_or_404 ''Workflow'' workflow_id (t_workflows (work s)))) (\<lambda>w.
     mbind (repo_save t_workflows_update
             (set_if (wup_name p) (\<lambda>v. wf_name_update (\<lambda>_. v))
             (set_if (wup_description p) (\<lambda>v. wf_description_update (\<lambda>_. Some v))
             (set_if (wup_team_id p) (\<lambda>v. wf_team_id_update (\<lambda>_. Some v))
             (set_if (wup_enabled p) (\<lambda>v. wf_enabled_update (\<lambda>_. v))
             (set_if (wup_metadata p) (\<lambda>v. wf_metadata_update (\<lambda>_. Some v)) w)))))) (\<lambda>w.
     mbind (case wup_steps p of
              None \<Rightarrow> mret ()
            | Some sds \<Rightarrow>
                mbind (mlift (\<lambda>s. resolve_step_definitions (wf_agent_os_id w) sds (work s))) (\<lambda>steps.
                  replace_steps (row_id w) steps)) (\<lambda>_.
       mlift (\<lambda>s. get_with_steps (row_id w) (work s)))))"

definition get_workflow :: "uuid \<Rightarrow> db \<Rightarrow> app_error + (workflow \<times> workflow_step list)" where
  "get_workflow workflow_id d =
     rbind (get_with_steps workflow_id d) (\<lambda>r. case r of
       None \<Rightarrow> Inl (mk_error NotFoundError (''Workflow '' @ workflow_id @ '' not found'')) | Some x \<Rightarrow> Inr x)"

definition list_workflows :: "uuid option \<Rightarrow> nat \<Rightarrow> nat \<Rightarrow> db \<Rightarrow> workflow list \<times> nat" where
  "list_workflows agent_os_id offset limit d =
     repo_list offset limit [map_option (\<lambda>i w. wf_agent_os_id w = i) agent_os_id] (t_workflows d)"

definition delete_workflow :: "uuid \<Rightarrow> ('r sess, unit) prog" where
  "delete_workflow workflow_id =
     mbind (mlift (\<lambda>s. repo_get_or_404 ''Workflow'' workflow_id (t_workflows (work s)))) (\<lambda>w.
     mbind (repo_soft_delete t_workflows_update w) (\<lambda>_. mret ()))"

subsection \<open>Tracking of workflow runs\<close>

definition new_wrun :: "uuid \<Rightarrow> uuid \<Rightarrow> string \<Rightarrow> string option \<Rightarrow> uuid \<Rightarrow> time \<Rightarrow> workflow_run" where
  "new_wrun workflow_id session_id input_text created_by i t =
     \<lparr>row_id = i, created_at = t, wr_workflow_id = workflow_id, wr_session_id = session_id, wr_status = WfPending,
      wr_input = input_text, wr_result = None, wr_error_message = None, wr_started_at = None, wr_completed_at = None,
      wr_created_by = created_by\<rparr>"

definition new_wevent :: "uuid \<Rightarrow> workflow_event_type \<Rightarrow> json \<Rightarrow> uuid \<Rightarrow> time \<Rightarrow> workflow_event" where
  "new_wevent run_id event_type p i t =
     \<lparr>row_id = i, created_at = t, we_workflow_run_id = run_id, we_event_type = event_type, we_payload = Some p\<rparr>"

definition emit_workflow_event :: "uuid \<Rightarrow> workflow_event_type \<Rightarrow> json \<Rightarrow> ('r sess, workflow_event) prog" where
  "emit_workflow_event run_id event_type p = repo_create t_wevents t_wevents_update no_clash (new_wevent run_id event_type p)"

definition create_workflow_run :: "uuid \<Rightarrow> uuid \<Rightarrow> string \<Rightarrow> string option \<Rightarrow> ('r sess, workflow_run) prog" where
  "create_workflow_run workflow_id session_id input_text created_by =
     mbind (repo_create t_wruns t_wruns_update no_clash (new_wrun workflow_id session_id input_text created_by)) (\<lambda>run.
     mbind (emit_workflow_event (row_id run) WorkflowStarted (JObj [(''input'', JStr input_text)])) (\<lambda>_. mret run))"

definition workflow_mark_running :: "workflow_run \<Rightarrow> ('r sess, workflow_run) prog" where
  "workflow_mark_running run = mbind (mget now) (\<lambda>t.
     repo_save t_wruns_update (run\<lparr>wr_status := WfRunning, wr_started_at := Some t\<rparr>))"

definition workflow_mark_completed :: "workflow_run \<Rightarrow> string \<Rightarrow> ('r sess, workflow_run) prog" where
  "workflow_mark_completed run res = mbind (mget now) (\<lambda>t.
     mbind (repo_save t_wruns_update (run\<lparr>wr_status := WfCompleted, wr_result := Some res, wr_completed_at := Some t\<rparr>)) (\<lambda>run.
     mbind (emit_workflow_event (row_id run) WorkflowCompleted (JObj [(''result_length'', JInt (int (length res)))])) (\<lambda>_.
       mret run)))"

definition workflow_mark_failed :: "workflow_run \<Rightarrow> string \<Rightarrow> ('r sess, workflow_run) prog" where
  "workflow_mark_failed run error_message = mbind (mget now) (\<lambda>t.
     mbind (repo_save t_wruns_update (run\<lparr>wr_status := WfFailed, wr_error_message := Some error_message, wr_completed_at := Some t\<rparr>)) (\<lambda>run.
     mbind (emit_workflow_event (row_id run) WorkflowFailed (JObj [(''error'', JStr error_message)])) (\<lambda>_.
       mret run)))"

definition text_json :: "string \<Rightarrow> json" where
  "text_json s = JObj [(''text'', JStr s)]"

definition new_run_step :: "uuid \<Rightarrow> workflow_step \<Rightarrow> string \<Rightarrow> uuid \<Rightarrow> time \<Rightarrow> workflow_run_step" where
  "new_run_step run_id st step_input i t =
     \<lparr>row_id = i, created_at = t, wrs_workflow_run_id = run_id, wrs_workflow_step_id = row_id st,
      wrs_step_order = ws_step_order st, wrs_status = StRunning, wrs_started_at = Some t, wrs_completed_at = None,
      wrs_input = Some (text_json step_input), wrs_output = None, wrs_error_message = None\<rparr>"

definition start_step :: "uuid \<Rightarrow> workflow_step \<Rightarrow> string \<Rightarrow> ('r sess, workflow_run_step) prog" where
  "start_step run_id st step_input =
     mbind (repo_create t_wrun_steps t_wrun_steps_update no_clash (new_run_step run_id st step_input)) (\<lambda>rs.
     mbind (emit_workflow_event run_id WorkflowStepStarted
       (JObj [(''step_order'', JInt (ws_step_order st)), (''step_type'', JStr (step_type_value (ws_step_type st)))])) (\<lambda>_.
       mret rs))"

definition complete_step :: "workflow_run_step \<Rightarrow> string \<Rightarrow> ('r sess, unit) prog" where
  "complete_step rs out = mbind (mget now) (\<lambda>t.
     mbind (repo_save t_wrun_steps_update
       (rs\<lparr>wrs_status := StCompleted, wrs_output := Some (text_json out), wrs_completed_at := Some t\<rparr>)) (\<lambda>rs.
     mbind (emit_workflow_event (wrs_workflow_run_id rs) WorkflowStepCompleted
       (JObj [(''step_order'', JInt (wrs_step_order rs))])) (\<lambda>_. mret ())))"

definition fail_step :: "workflow_run_step \<Rightarrow> string \<Rightarrow> ('r sess, unit) prog" where
  "fail_step rs error_message = mbind (mget now) (\<lambda>t.
     mbind (repo_save t_wrun_steps_update
       (rs\<lparr>wrs_status := StFailed, wrs_error_message := Some error_message, wrs_completed_at := Some t\<rparr>)) (\<lambda>_. mret ()))"

subsection \<open>The runner and the executor\<close>

text \<open>\<open>WorkflowContext.stepResults\<close> and the input a step gets.\<close>

type_synonym step_results = "(int, string) pydict"

definition previous_output :: "step_results \<Rightarrow> int \<Rightarrow> string \<Rightarrow> string" where
  "previous_output results step_order original_input =
     (if step_order = 0 then original_input
      else case dict_get results (step_order - 1) of Some out \<Rightarrow> out | None \<Rightarrow> original_input)"

definition no_target :: "workflow_step \<Rightarrow> string \<Rightarrow> app_error" where
  "no_target st what = runtime_error (''WorkflowStep '' @ row_id st @ '' is type='' @ step_type_value (ws_step_type st) @ '' but has no '' @ what)"

definition run_step ::
  "engine_env \<Rightarrow> string \<Rightarrow> string option \<Rightarrow> workflow_step \<Rightarrow> string \<Rightarrow> db \<Rightarrow> app_error + string" where
  "run_step env session_id user_id st step_input d =
     (case ws_step_type st of
        StepAgent \<Rightarrow>
          (case ws_agent_id st of
             None \<Rightarrow> Inl (no_target st ''agent_id'')
           | Some i \<Rightarrow> rbind (resolve_context_by_id i d) (\<lambda>ctx. run_agent env ctx step_input session_id user_id [] d))
      | StepTeam \<Rightarrow>
          (case ws_team_id st of
             None \<Rightarrow> Inl (no_target st ''team_id'')
           | Some i \<Rightarrow> rbind (resolve_team_context_by_id i d) (\<lambda>ctx. run_team env ctx step_input session_id user_id [] d)))"

definition run_step_stream ::
  "engine_env \<Rightarrow> string \<Rightarrow> string option \<Rightarrow> workflow_step \<Rightarrow> string \<Rightarrow> db \<Rightarrow> engine_stream" where
  "run_step_stream env session_id user_id st step_input d =
     (case ws_step_type st of
        StepAgent \<Rightarrow>
          (case ws_agent_id st of
             None \<Rightarrow> ([], Some (no_target st ''agent_id''))
           | Some i \<Rightarrow> (case resolve_context_by_id i d of
                 Inl e \<Rightarrow> ([], Some e) | Inr ctx \<Rightarrow> run_stream env ctx step_input session_id user_id [] d))
      | StepTeam \<Rightarrow>
          (case ws_team_id st of
             None \<Rightarrow> ([], Some (no_target st ''team_id''))
           | Some i \<Rightarrow> (case resolve_team_context_by_id i d of
                 Inl e \<Rightarrow> ([], Some e) | Inr ctx \<Rightarrow> run_team_stream env ctx step_input session_id user_id [] d)))"

definition step_failure :: "workflow_step \<Rightarrow> string \<Rightarrow> app_error" where
  "step_failure st m = runtime_error (''Workflow step '' @ str_int (ws_step_order st) @ '' ('' @
     step_type_value (ws_step_type st) @ '') failed: '' @ m)"

definition no_steps :: app_error where
  "no_steps = runtime_error ''Workflow has no steps to execute''"

text \<open>\<open>WorkflowExecutor.execute\<close>. What the start callback creates is handed to the one that ends the step.\<close>

fun execute_steps ::
  "('s \<Rightarrow> workflow_step \<Rightarrow> string \<Rightarrow> app_error + string) \<Rightarrow> (workflow_step \<Rightarrow> string \<Rightarrow> ('s, 'k) prog)
     \<Rightarrow> ('k \<Rightarrow> string \<Rightarrow> ('s, unit) prog) \<Rightarrow> ('k \<Rightarrow> string \<Rightarrow> ('s, unit) prog)
     \<Rightarrow> string \<Rightarrow> step_results \<Rightarrow> string \<Rightarrow> workflow_step list \<Rightarrow> ('s, string) prog" where
  "execute_steps run started completed failed initial_input results current_output [] = mret current_output"
| "execute_steps run started completed failed initial_input results current_output (st # sts) =
     (let step_input = previous_output results (ws_step_order st) initial_input in
      mbind (started st step_input) (\<lambda>k.
      mbind (mget (\<lambda>s. run s st step_input)) (\<lambda>r.
        case r of
          Inl e \<Rightarrow> mbind (failed k (err_message e)) (\<lambda>_. mraise (step_failure st (err_message e)))
        | Inr out \<Rightarrow> mbind (completed k out) (\<lambda>_.
            execute_steps run started completed failed initial_input (dict_set results (ws_step_order st) out) out sts))))"

definition execute ::
  "('s \<Rightarrow> workflow_step \<Rightarrow> string \<Rightarrow> app_error + string) \<Rightarrow> (workflow_step \<Rightarrow> string \<Rightarrow> ('s, 'k) prog)
     \<Rightarrow> ('k \<Rightarrow> string \<Rightarrow> ('s, unit) prog) \<Rightarrow> ('k \<Rightarrow> string \<Rightarrow> ('s, unit) prog)
     \<Rightarrow> string \<Rightarrow> workflow_step list \<Rightarrow> ('s, string) prog" where
  "execute run started completed failed initial_input steps =
     (if steps = [] then mraise no_steps
      else execute_steps run started completed failed initial_input [] initial_input (sort_key ws_step_order steps))"

text \<open>\<open>WorkflowExecutor.execute_stream\<close>, with what its consumer does to each item it yields; the results it
  leaves in the context are its value.\<close>

datatype marker =
    StepStarted workflow_step string
  | StepEvent workflow_step engine_event
  | StepCompleted workflow_step string
  | StepFailed workflow_step string

definition collected_text :: "(json \<Rightarrow> string) \<Rightarrow> engine_event list \<Rightarrow> string" where
  "collected_text other evs = concat (map (\<lambda>ev.
     if truthy (payload_get ''is_assistant_content'' (ee_payload ev))
     then (case dict_get (ee_payload ev) ''content'' of Some j \<Rightarrow> py_str other j | None \<Rightarrow> []) else []) evs)"

fun stream_steps ::
  "('s \<Rightarrow> workflow_step \<Rightarrow> string \<Rightarrow> engine_stream) \<Rightarrow> (json \<Rightarrow> string) \<Rightarrow> (marker \<Rightarrow> ('s, unit) prog)
     \<Rightarrow> string \<Rightarrow> step_results \<Rightarrow> workflow_step list \<Rightarrow> ('s, step_results) prog" where
  "stream_steps run other consume initial_input results [] = mret results"
| "stream_steps run other consume initial_input results (st # sts) =
     (let step_input = previous_output results (ws_step_order st) initial_input in
      mbind (consume (StepStarted st step_input)) (\<lambda>_.
      mbind (mget (\<lambda>s. run s st step_input)) (\<lambda>r.
      mbind (mfor (fst r) (\<lambda>ev. consume (StepEvent st ev))) (\<lambda>_.
        case snd r of
          Some e \<Rightarrow> mbind (consume (StepFailed st (err_message e))) (\<lambda>_. mraise (step_failure st (err_message e)))
        | None \<Rightarrow>
            (let out = collected_text other (fst r);
                 results' = dict_set results (ws_step_order st) out
             in mbind (consume (StepCompleted st out)) (\<lambda>_.
                  stream_steps run other consume initial_input results' sts))))))"

definition execute_stream ::
  "('s \<Rightarrow> workflow_step \<Rightarrow> string \<Rightarrow> engine_stream) \<Rightarrow> (json \<Rightarrow> string) \<Rightarrow> (marker \<Rightarrow> ('s, unit) prog)
     \<Rightarrow> string \<Rightarrow> workflow_step list \<Rightarrow> ('s, step_results) prog" where
  "execute_stream run other consume initial_input steps =
     (if steps = [] then mraise no_steps
      else stream_steps run other consume initial_input [] (sort_key ws_step_order steps))"

subsection \<open>Running a workflow\<close>

record workflow_request =
  wq_input :: string
  wq_session_id :: "uuid option"
  wq_user_id :: "string option"

definition new_workflow_session :: "workflow \<Rightarrow> workflow_request \<Rightarrow> uuid \<Rightarrow> time \<Rightarrow> chat_session" where
  "new_workflow_session w rq i t =
     \<lparr>row_id = i, created_at = t, deleted_at = None, cs_agent_os_id = wf_agent_os_id w, cs_team_id = wf_team_id w,
      cs_agent_id = None, cs_user_id = wq_user_id rq, cs_title = Some (''Workflow: '' @ wf_name w), cs_context = None\<rparr>"

definition workflow_session :: "uuid \<Rightarrow> workflow_request \<Rightarrow> ('r sess, chat_session) prog" where
  "workflow_session workflow_id rq =
     mbind (mlift (\<lambda>s. repo_get_or_404 ''Workflow'' workflow_id (t_workflows (work s)))) (\<lambda>w.
     case wq_session_id rq of
       Some i \<Rightarrow>
         mbind (mlift (\<lambda>s. repo_get i (t_sessions (work s)))) (\<lambda>existing.
           case existing of
             Some cs \<Rightarrow>
               if cs_user_id cs \<noteq> wq_user_id rq
               then mraise (mk_error NotFoundError (''ChatSession '' @ i @ '' not found for this user_id''))
               else mret cs
           | None \<Rightarrow> repo_create_as i t_sessions t_sessions_update same_id (new_workflow_session w rq))
     | None \<Rightarrow> repo_create t_sessions t_sessions_update no_clash (new_workflow_session w rq))"

definition workflow_message :: "uuid \<Rightarrow> message_role \<Rightarrow> string \<Rightarrow> ('r sess, chat_message) prog" where
  "workflow_message session_id role content =
     repo_create t_messages t_messages_update no_clash (\<lambda>i t.
       \<lparr>row_id = i, created_at = t, cm_session_id = session_id, cm_run_id = None, cm_role = role,
        cm_content = content, cm_metadata = None\<rparr>)"

text \<open>What both entry points do before the first step; \<open>save\<close> as in the chat service.\<close>

definition begin_workflow ::
  "('r sess, unit) prog \<Rightarrow> uuid \<Rightarrow> workflow_request \<Rightarrow> ('r sess, workflow_step list \<times> chat_session \<times> workflow_run) prog" where
  "begin_workflow save workflow_id rq =
     mbind (mlift (\<lambda>s. repo_get_or_404 ''Workflow'' workflow_id (t_workflows (work s)))) (\<lambda>w.
     if \<not> wf_enabled w then mraise (runtime_error (''Workflow '' @ workflow_id @ '' is disabled''))
     else mbind (mget (\<lambda>s. list_by_workflow workflow_id (work s))) (\<lambda>steps.
     if steps = [] then mraise (runtime_error (''Workflow '' @ workflow_id @ '' has no steps configured''))
     else mbind (workflow_session workflow_id rq) (\<lambda>cs.
     mbind (create_workflow_run workflow_id (row_id cs) (wq_input rq) (wq_user_id rq)) (\<lambda>run.
     mbind (workflow_message (row_id cs) RoleUser (wq_input rq)) (\<lambda>_.
     mbind save (\<lambda>_.
     mbind (workflow_mark_running run) (\<lambda>run.
     mbind save (\<lambda>_.
       mret (steps, cs, run)))))))))"

definition run_workflow :: "engine_env \<Rightarrow> uuid \<Rightarrow> workflow_request \<Rightarrow> ('r sess, workflow_run \<times> string) prog" where
  "run_workflow env workflow_id rq =
     mbind (begin_workflow no_save workflow_id rq) (\<lambda>(steps, cs, run).
     mbind (on_runtime_error
             (execute (\<lambda>s. \<lambda>st inp. run_step env (row_id cs) (wq_user_id rq) st inp (work s))
                (start_step (row_id run)) complete_step fail_step (wq_input rq) steps)
             (\<lambda>e. mbind (workflow_mark_failed run (err_message e)) (\<lambda>_. mraise e))) (\<lambda>res.
     mbind (workflow_message (row_id cs) RoleAssistant res) (\<lambda>_.
     mbind (workflow_mark_completed run res) (\<lambda>run.
       mret (run, res)))))"

record 'r wturn =
  wt_sess :: "'r sess"
  wt_out :: "(string \<times> payload) list"
  wt_current :: "workflow_run_step option"

definition wdb :: "('r sess, 'a) prog \<Rightarrow> ('r wturn, 'a) prog" where
  "wdb m = (\<lambda>t. case m (wt_sess t) of (r, s) \<Rightarrow> (r, t\<lparr>wt_sess := s\<rparr>))"

definition wyield :: "string \<Rightarrow> payload \<Rightarrow> ('r wturn, unit) prog" where
  "wyield ty p = mmod (\<lambda>t. t\<lparr>wt_out := wt_out t @ [(ty, p)]\<rparr>)"

text \<open>The body of the loop over the executor's items.\<close>

fun consume_marker :: "workflow_run \<Rightarrow> marker \<Rightarrow> ('r wturn, unit) prog" where
  "consume_marker run (StepStarted st step_input) =
     mbind (wdb (start_step (row_id run) st step_input)) (\<lambda>rs.
     mbind (mmod (\<lambda>t. t\<lparr>wt_current := Some rs\<rparr>)) (\<lambda>_.
     mbind (wdb commit) (\<lambda>_.
       wyield ''WorkflowStepStarted''
         [(''step_order'', JInt (ws_step_order st)), (''step_type'', JStr (step_type_value (ws_step_type st)))])))"
| "consume_marker run (StepEvent st ev) =
     wyield (''WorkflowStep:'' @ ee_type ev) (dict_update [(''step_order'', JInt (ws_step_order st))] (ee_payload ev))"
| "consume_marker run (StepCompleted st out) =
     mbind (mget wt_current) (\<lambda>c.
     mbind (case c of None \<Rightarrow> mret () | Some rs \<Rightarrow> mbind (wdb (complete_step rs out)) (\<lambda>_. wdb commit)) (\<lambda>_.
       wyield ''WorkflowStepCompleted'' [(''step_order'', JInt (ws_step_order st)), (''output'', JStr out)]))"
| "consume_marker run (StepFailed st m) =
     mbind (mget wt_current) (\<lambda>c.
     mbind (case c of None \<Rightarrow> mret () | Some rs \<Rightarrow> mbind (wdb (fail_step rs m)) (\<lambda>_. wdb commit)) (\<lambda>_.
       wyield ''WorkflowStepFailed'' [(''step_order'', JInt (ws_step_order st)), (''error'', JStr m)]))"

definition final_result :: "step_results \<Rightarrow> string" where
  "final_result results =
     (if results = [] then [] else case dict_get results (Max (fst ` set results)) of Some out \<Rightarrow> out | None \<Rightarrow> [])"

definition run_workflow_stream ::
  "engine_env \<Rightarrow> (json \<Rightarrow> string) \<Rightarrow> uuid \<Rightarrow> workflow_request \<Rightarrow> ('r wturn, unit) prog" where
  "run_workflow_stream env other workflow_id rq =
     mbind (wdb (begin_workflow commit workflow_id rq)) (\<lambda>(steps, cs, run).
     mbind (wyield ''WorkflowStarted'' [(''input'', JStr (wq_input rq))]) (\<lambda>_.
     mbind (on_runtime_error
             (mbind (execute_stream (\<lambda>t. \<lambda>st inp. run_step_stream env (row_id cs) (wq_user_id rq) st inp (work (wt_sess t)))
                      other (consume_marker run) (wq_input rq) steps) (\<lambda>results. mret (Some results)))
             (\<lambda>e. mbind (wdb (workflow_mark_failed run (err_message e))) (\<lambda>_.
                  mbind (wdb commit) (\<lambda>_.
                  mbind (wyield ''WorkflowFailed'' [(''error'', JStr (err_message e))]) (\<lambda>_. mret None))))) (\<lambda>r.
       case r of
         None \<Rightarrow> mret ()
       | Some results \<Rightarrow>
           (let final = final_result results in
            mbind (wdb (workflow_message (row_id cs) RoleAssistant final)) (\<lambda>_.
            mbind (wdb (workflow_mark_completed run final)) (\<lambda>_.
            mbind (wdb commit) (\<lambda>_.
              wyield ''WorkflowCompleted'' [(''result'', JStr final)])))))))"

subsection \<open>The step sequence\<close>

lemma replace_steps_rows:
  "mfor (enumerate k sds) (\<lambda>(order, sd).
       mbind (repo_create t_wsteps t_wsteps_update no_clash (new_step wid order sd)) (\<lambda>_. mret ())) s = (r, s') \<Longrightarrow>
   r = Inr () \<and> (\<exists>rows. t_wsteps (work s') = t_wsteps (work s) @ rows \<and> length rows = length sds \<and>
     t_wrun_steps (work s') = t_wrun_steps (work s) \<and>
     (\<forall>j < length sds. \<exists>i t. rows ! j = new_step wid (k + j) (sds ! j) i t))"
proof (induction sds arbitrary: k s)
  case (Cons sd sds)
  let ?row = "new_step wid k sd (new_uuid (seed s)) (now s)"
  let ?s = "s\<lparr>seed := Suc (seed s), work := t_wsteps_update (\<lambda>rs. rs @ [?row]) (work s)\<rparr>"
  from Cons.prems have "mfor (enumerate (Suc k) sds) (\<lambda>(order, sd).
       mbind (repo_create t_wsteps t_wsteps_update no_clash (new_step wid order sd)) (\<lambda>_. mret ())) ?s = (r, s')"
    by (simp add: mbind_def run_create_no_clash)
  from Cons.IH [OF this] obtain rows where rows: "r = Inr ()" "t_wsteps (work s') = t_wsteps (work s) @ ?row # rows"
    "length rows = length sds" "t_wrun_steps (work s') = t_wrun_steps (work s)"
    "\<forall>j < length sds. \<exists>i t. rows ! j = new_step wid (Suc k + j) (sds ! j) i t" by auto
  have "\<forall>j < length (sd # sds). \<exists>i t. (?row # rows) ! j = new_step wid (k + j) ((sd # sds) ! j) i t"
  proof (intro allI impI)
    fix j assume "j < length (sd # sds)"
    with rows(5) show "\<exists>i t. (?row # rows) ! j = new_step wid (k + j) ((sd # sds) ! j) i t"
      by (cases j) auto
  qed
  with rows show ?case by (intro conjI exI [of _ "?row # rows"]) auto
qed simp

lemma new_step_sel [simp]:
  "ws_workflow_id (new_step wid k sd i t) = wid" "ws_step_order (new_step wid k sd i t) = int k"
  "ws_step_type (new_step wid k sd i t) = rs_type sd" "ws_agent_id (new_step wid k sd i t) = rs_agent_id sd"
  "ws_team_id (new_step wid k sd i t) = rs_team_id sd" "ws_step_config (new_step wid k sd i t) = rs_config sd"
  by (simp_all add: new_step_def)

definition step_content :: "workflow_step \<Rightarrow> resolved_step" where
  "step_content st = \<lparr>rs_type = ws_step_type st, rs_agent_id = ws_agent_id st, rs_team_id = ws_team_id st, rs_config = ws_step_config st\<rparr>"

text \<open>Replacing the steps of a workflow: afterwards they are exactly the submitted steps in the submitted order,
  numbered from 0 without a gap, and the steps of every other workflow are untouched. With them goes every
  record of a past run of a replaced step: editing a workflow erases its audit trail.\<close>

theorem replaced_steps:
  assumes "replace_steps wid sds s = (r, s')"
  shows "r = Inr () \<and>
    map step_content (list_by_workflow wid (work s')) = sds \<and>
    map ws_step_order (list_by_workflow wid (work s')) = map int [0..<length sds] \<and>
    (other \<noteq> wid \<longrightarrow> list_by_workflow other (work s') = list_by_workflow other (work s)) \<and>
    t_wrun_steps (work s') = filter (\<lambda>x. wrs_workflow_step_id x \<notin> row_id ` set (list_by_workflow wid (work s))) (t_wrun_steps (work s))"
proof -
  have loop: "mfor (enumerate 0 sds) (\<lambda>(order, sd).
       mbind (repo_create t_wsteps t_wsteps_update no_clash (new_step wid order sd)) (\<lambda>_. mret ()))
       (s\<lparr>work := delete_steps wid (work s)\<rparr>) = (r, s')"
    using assms by (simp add: replace_steps_def run_modify_work mbind_def)
  from replace_steps_rows [OF loop] obtain rows where rows: "r = Inr ()"
    "t_wsteps (work s') = filter (\<lambda>st. ws_workflow_id st \<noteq> wid) (t_wsteps (work s)) @ rows" "length rows = length sds"
    "t_wrun_steps (work s') = t_wrun_steps (delete_steps wid (work s))"
    "\<forall>j < length sds. \<exists>i t. rows ! j = new_step wid j (sds ! j) i t"
    by (auto simp: delete_steps_def Let_def)
  have wid: "ws_workflow_id st = wid" if "st \<in> set rows" for st
    using that rows(3,5) by (auto simp: in_set_conv_nth)
  have orders: "map ws_step_order rows = map int [0..<length sds]"
    using rows(3,5) by (intro nth_equalityI) auto
  have content: "map step_content rows = sds"
    using rows(3,5) by (intro nth_equalityI) (auto simp: step_content_def)
  have "sorted (map ws_step_order rows)" unfolding orders by (simp add: sorted_map sorted_wrt_upt)
  then have "sort_key ws_step_order rows = rows" by (rule sort_key_id_if_sorted)
  moreover have "filter (\<lambda>st. ws_workflow_id st = wid) (t_wsteps (work s')) = rows"
    using rows(2) wid by (auto simp: filter_id_conv filter_empty_conv)
  ultimately have l: "list_by_workflow wid (work s') = rows" by (simp add: list_by_workflow_def)
  have "list_by_workflow other (work s') = list_by_workflow other (work s)" if "other \<noteq> wid"
  proof -
    have "filter (\<lambda>st. ws_workflow_id st = other) rows = []" using wid that by (auto simp: filter_empty_conv)
    moreover have "filter (\<lambda>st. ws_workflow_id st = other \<and> ws_workflow_id st \<noteq> wid) (t_wsteps (work s))
        = filter (\<lambda>st. ws_workflow_id st = other) (t_wsteps (work s))"
      using that by (intro filter_cong) auto
    ultimately show ?thesis using rows(2) by (simp add: list_by_workflow_def conj_commute)
  qed
  moreover have "t_wrun_steps (work s') = filter (\<lambda>x. wrs_workflow_step_id x \<notin> row_id ` set (list_by_workflow wid (work s))) (t_wrun_steps (work s))"
    using rows(4) by (simp add: delete_steps_def list_by_workflow_def Let_def)
  ultimately show ?thesis using rows(1) l orders content by simp
qed

text \<open>Unlike what its error message says, step resolution does not ask whether the agent is enabled: a
  disabled agent is accepted into a workflow, and every run of that step then fails.\<close>

theorem disabled_agent_accepted:
  assumes "find_agent_by_code_in_agent_os os (sf_agent_code sd) d = Inr (Some a)" "\<not> ag_enabled a"
    "repo_get (row_id a) (t_agents d) = Inr (Some a)" "sf_type sd = StepAgent"
  shows "\<exists>r e. resolve_step_definition os d sd = Inr r \<and> run_step env session_id user_id (new_step wid k r i t) inp d = Inl e"
proof -
  have "\<exists>e. resolve_context_by_id (row_id a) d = Inl e"
    using assms(2,3) by (simp add: resolve_context_by_id_def require_def usable_def)
  with assms show ?thesis by (auto simp: resolve_step_definition_def run_step_def)
qed

subsection \<open>Facts about the tracking of steps\<close>

definition steps_of :: "uuid \<Rightarrow> db \<Rightarrow> workflow_run_step list" where
  "steps_of run_id d = filter (\<lambda>r. wrs_workflow_run_id r = run_id) (t_wrun_steps d)"

lemma new_run_step_sel [simp]:
  "row_id (new_run_step R st inp i t) = i" "wrs_workflow_run_id (new_run_step R st inp i t) = R"
  "wrs_workflow_step_id (new_run_step R st inp i t) = row_id st" "wrs_step_order (new_run_step R st inp i t) = ws_step_order st"
  "wrs_input (new_run_step R st inp i t) = Some (text_json inp)" "wrs_output (new_run_step R st inp i t) = None"
  "wrs_status (new_run_step R st inp i t) = StRunning"
  by (simp_all add: new_run_step_def)

lemma run_emit_workflow_event [run_simps]:
  "emit_workflow_event i ty p s =
     (Inr (new_wevent i ty p (new_uuid (seed s)) (now s)),
      s\<lparr>seed := Suc (seed s), work := t_wevents_update (\<lambda>es. es @ [new_wevent i ty p (new_uuid (seed s)) (now s)]) (work s)\<rparr>)"
  by (simp add: emit_workflow_event_def run_simps)

lemma put_row_fresh:
  "ids_below n rows \<Longrightarrow> row_id r = new_uuid n \<Longrightarrow> row_id r' = new_uuid n \<Longrightarrow> put_row r' (rows @ [r]) = rows @ [r']"
  by (auto simp: put_row_def ids_below_def intro!: map_idI)

text \<open>One step started and then ended, by an output or an error: its record is the last of the table.\<close>

definition ended_record :: "workflow_run_step \<Rightarrow> app_error + string \<Rightarrow> time \<Rightarrow> workflow_run_step" where
  "ended_record rs r t =
     (case r of
        Inr out \<Rightarrow> rs\<lparr>wrs_status := StCompleted, wrs_output := Some (text_json out), wrs_completed_at := Some t\<rparr>
      | Inl e \<Rightarrow> rs\<lparr>wrs_status := StFailed, wrs_error_message := Some (err_message e), wrs_completed_at := Some t\<rparr>)"

definition end_step :: "workflow_run_step \<Rightarrow> app_error + string \<Rightarrow> ('r sess, unit) prog" where
  "end_step rs r = (case r of Inr out \<Rightarrow> complete_step rs out | Inl e \<Rightarrow> fail_step rs (err_message e))"

lemma start_step_run:
  "start_step R st inp s = (Inr (new_run_step R st inp (new_uuid (seed s)) (now s)), snd (start_step R st inp s))"
  "t_wrun_steps (work (snd (start_step R st inp s))) = t_wrun_steps (work s) @ [new_run_step R st inp (new_uuid (seed s)) (now s)]"
  "seed (snd (start_step R st inp s)) = Suc (Suc (seed s))" "now (snd (start_step R st inp s)) = now s"
  "t_wruns (work (snd (start_step R st inp s))) = t_wruns (work s)"
  by (auto simp: start_step_def run_simps mbind_def)

lemma end_step_run:
  assumes "ids_below n rows" "t_wrun_steps (work s) = rows @ [rs]" "row_id rs = new_uuid n" "Suc n \<le> seed s"
  shows "\<exists>s'. end_step rs r s = (Inr (), s') \<and> t_wrun_steps (work s') = rows @ [ended_record rs r (now s)] \<and>
    ids_below (seed s') (t_wrun_steps (work s')) \<and> now s' = now s \<and> t_wruns (work s') = t_wruns (work s)"
proof -
  have p: "put_row r' (rows @ [rs]) = rows @ [r']" if "row_id r' = row_id rs" for r'
    using put_row_fresh [OF assms(1,3)] that assms(3) by simp
  have below: "ids_below m (rows @ [r'])" if "row_id r' = row_id rs" "Suc n \<le> m" for r' m
    using ids_below_mono [OF ids_below_snoc [OF assms(1), of r'] that(2)] that(1) assms(3) by simp
  show ?thesis
  proof (cases r)
    case (Inl e)
    with assms(2,4) show ?thesis by (simp add: end_step_def fail_step_def run_simps mbind_def ended_record_def p below)
  next
    case (Inr out)
    with assms(2,4) show ?thesis
      by (simp add: end_step_def complete_step_def run_simps mbind_def ended_record_def p below)
  qed
qed

text \<open>The records of an execution: each step got the output of the one before, every step up to the end has
  exactly one completed record, and a failing step ends the execution with a failed record.\<close>

fun trace ::
  "(workflow_step \<Rightarrow> string \<Rightarrow> app_error + string \<Rightarrow> bool) \<Rightarrow> string \<Rightarrow> workflow_step list \<Rightarrow> workflow_run_step list
     \<Rightarrow> app_error + string \<Rightarrow> bool" where
  "trace gives inp [] [] res = (res = Inr inp)"
| "trace gives inp (st # sts) (r # rs) res =
     (wrs_workflow_step_id r = row_id st \<and> wrs_step_order r = ws_step_order st \<and> wrs_input r = Some (text_json inp) \<and>
      (if wrs_status r = StCompleted
       then \<exists>out. gives st inp (Inr out) \<and> wrs_output r = Some (text_json out) \<and> trace gives out sts rs res
       else wrs_status r = StFailed \<and> rs = [] \<and> wrs_output r = None \<and>
            (\<exists>e. gives st inp (Inl e) \<and> wrs_error_message r = Some (err_message e) \<and> res = Inl (step_failure st (err_message e)))))"
| "trace gives inp sts rs res = False"

lemma trace_mono:
  "trace gives inp sts rs res \<Longrightarrow> (\<And>st inp r. gives st inp r \<Longrightarrow> gives' st inp r) \<Longrightarrow> trace gives' inp sts rs res"
  by (induction gives inp sts rs res rule: trace.induct) (fastforce split: if_splits)+

lemma trace_error: "trace gives inp sts rs (Inl e) \<Longrightarrow> err_class e = RuntimeExecutionError"
  by (induction gives inp sts rs "Inl e :: app_error + string" rule: trace.induct)
    (auto simp: step_failure_def runtime_error_def split: if_splits)

lemma trace_failed:
  "gives st inp (Inl e) \<Longrightarrow>
     trace gives inp (st # sts) [ended_record (new_run_step R st inp i t) (Inl e) u] (Inl (step_failure st (err_message e)))"
  by (auto simp: ended_record_def)

lemma trace_completed:
  "gives st inp (Inr out) \<Longrightarrow> trace gives out sts rs res \<Longrightarrow>
     trace gives inp (st # sts) (ended_record (new_run_step R st inp i t) (Inr out) u # rs) res"
  by (auto simp: ended_record_def)

lemma ended_record_run [simp]: "wrs_workflow_run_id (ended_record rs r t) = wrs_workflow_run_id rs"
  by (simp add: ended_record_def split: sum.split)

lemma execute_steps_run:
  "execute_steps run (start_step R) complete_step fail_step inp0 results cur (st # sts) s =
     (let inp = previous_output results (ws_step_order st) inp0;
          s1 = snd (start_step R st inp s);
          rs = new_run_step R st inp (new_uuid (seed s)) (now s);
          r = run s1 st inp
      in mbind (end_step rs r) (\<lambda>_. case r of
           Inl e \<Rightarrow> mraise (step_failure st (err_message e))
         | Inr out \<Rightarrow> execute_steps run (start_step R) complete_step fail_step inp0 (dict_set results (ws_step_order st) out) out sts) s1)"
  by (simp add: Let_def run_bind_Inr [OF start_step_run(1)] end_step_def split: sum.split)

lemma execute_steps_trace:
  assumes "execute_steps run (start_step R) complete_step fail_step inp0 results cur sts s = (res, s')"
    "ids_below (seed s) (t_wrun_steps (work s))" "map ws_step_order sts = map int [k..<k + length sts]"
    "if k = 0 then cur = inp0 else dict_get results (int k - 1) = Some cur"
  shows "\<exists>recs. t_wrun_steps (work s') = t_wrun_steps (work s) @ recs \<and> trace (\<lambda>st inp r. \<exists>s. run s st inp = r) cur sts recs res \<and>
    (\<forall>r \<in> set recs. wrs_workflow_run_id r = R) \<and> t_wruns (work s') = t_wruns (work s)"
  using assms
proof (induction sts arbitrary: k results cur s)
  case Nil
  then show ?case by simp
next
  case (Cons st sts)
  have order: "ws_step_order st = int k" and orders: "map ws_step_order sts = map int [Suc k..<Suc k + length sts]"
    using Cons.prems(3) by (simp_all add: upt_rec)
  have inp: "previous_output results (ws_step_order st) inp0 = cur"
    using Cons.prems(4) order by (auto simp: previous_output_def split: if_splits)
  define s1 where "s1 = snd (start_step R st cur s)"
  define rs where "rs = new_run_step R st cur (new_uuid (seed s)) (now s)"
  have s1: "t_wrun_steps (work s1) = t_wrun_steps (work s) @ [rs]" "seed s1 = Suc (Suc (seed s))" "now s1 = now s"
    "t_wruns (work s1) = t_wruns (work s)"
    by (simp_all add: s1_def rs_def start_step_run(2-5))
  have "row_id rs = new_uuid (seed s)" by (simp add: rs_def)
  with end_step_run [OF Cons.prems(2) s1(1), of "run s1 st cur"] s1(2) obtain s2 where
    s2: "end_step rs (run s1 st cur) s1 = (Inr (), s2)"
    "t_wrun_steps (work s2) = t_wrun_steps (work s) @ [ended_record rs (run s1 st cur) (now s1)]"
    "ids_below (seed s2) (t_wrun_steps (work s2))" "t_wruns (work s2) = t_wruns (work s1)" by auto
  show ?case
  proof (cases "run s1 st cur")
    case (Inl e)
    with Cons.prems(1) s2 have res: "res = Inl (step_failure st (err_message e))" "s' = s2"
      by (simp_all add: execute_steps_run inp s1_def [symmetric] rs_def [symmetric] Let_def mbind_def del: execute_steps.simps)
    have "trace (\<lambda>st inp r. \<exists>s. run s st inp = r) cur (st # sts) [ended_record rs (Inl e) (now s1)] res"
      unfolding res(1) rs_def using Inl by (intro trace_failed) auto
    with Inl s2 s1 res(2) show ?thesis by (intro exI [of _ "[ended_record rs (Inl e) (now s1)]"]) (simp add: rs_def)
  next
    case (Inr out)
    with Cons.prems(1) s2 have rest: "execute_steps run (start_step R) complete_step fail_step inp0
        (dict_set results (ws_step_order st) out) out sts s2 = (res, s')"
      by (simp add: execute_steps_run inp s1_def [symmetric] rs_def [symmetric] Let_def mbind_def del: execute_steps.simps)
    have "if Suc k = 0 then out = inp0 else dict_get (dict_set results (ws_step_order st) out) (int (Suc k) - 1) = Some out"
      by (simp add: order)
    from Cons.IH [OF rest s2(3) orders this] obtain recs where
      recs: "t_wrun_steps (work s') = t_wrun_steps (work s2) @ recs" "trace (\<lambda>st inp r. \<exists>s. run s st inp = r) out sts recs res"
      "\<forall>r \<in> set recs. wrs_workflow_run_id r = R" "t_wruns (work s') = t_wruns (work s2)" by blast
    have "trace (\<lambda>st inp r. \<exists>s. run s st inp = r) cur (st # sts) (ended_record rs (Inr out) (now s1) # recs) res"
      unfolding rs_def using Inr recs(2) by (intro trace_completed) auto
    with Inr s2 s1 recs show ?thesis by (intro exI [of _ "ended_record rs (Inr out) (now s1) # recs"]) (simp add: rs_def)
  qed
qed

lemma workflow_session_run:
  "workflow_session wid rq s = (r, s') \<Longrightarrow>
     t_wrun_steps (work s') = t_wrun_steps (work s) \<and> t_wruns (work s') = t_wruns (work s) \<and> seed s \<le> seed s'"
  by (auto simp: workflow_session_def repo_create_def repo_create_as_def mbind_def Let_def
      split: option.splits sum.splits prod.splits if_splits)

lemma wruns_lookup_append:
  "wruns.lookup i (t_wruns_update (\<lambda>rs. rs @ [r]) d) =
     (case wruns.lookup i d of Some x \<Rightarrow> Some x | None \<Rightarrow> if row_id r = i then Some r else None)"
  by (simp add: wruns.lookup_def find_append split: option.split)

lemma wruns_lookup_save_comp:
  "wruns.lookup i (t_wruns_update (put_row r \<circ> f) d) =
     (if i = row_id r then map_option (\<lambda>_. r) (wruns.lookup i (t_wruns_update f d)) else wruns.lookup i (t_wruns_update f d))"
  using wruns.lookup_save [of i r "t_wruns_update f d"] by simp

lemma wruns_lookup_other [simp]:
  "wruns.lookup i (t_wevents_update f d) = wruns.lookup i d"
  "wruns.lookup i (t_messages_update g d) = wruns.lookup i d"
  "wruns.lookup i (t_wrun_steps_update h d) = wruns.lookup i d"
  by (simp_all add: wruns.lookup_def)

lemma new_wrun_sel [simp]: "row_id (new_wrun a b c e i t) = i" "wr_status (new_wrun a b c e i t) = WfPending"
  by (simp_all add: new_wrun_def)

lemma begin_workflow_Inr:
  assumes "begin_workflow save wid rq s = (Inr (steps, cs, run), s')" "save = commit \<or> save = no_save"
    "ids_below (seed s) (t_wruns (work s))"
  shows "steps = list_by_workflow wid (work s) \<and> steps \<noteq> [] \<and> t_wrun_steps (work s') = t_wrun_steps (work s) \<and> seed s \<le> seed s' \<and>
    wruns.lookup (row_id run) (work s') = Some run \<and> wruns.lookup (row_id run) (work s) = None \<and> (save = commit \<longrightarrow> durable s' = work s')"
proof -
  obtain r2 s2 where 2: "workflow_session wid rq s = (r2, s2)" by force
  note s2 = workflow_session_run [OF 2]
  have fresh: "wruns.lookup (new_uuid (seed s2)) (work s) = None" "wruns.lookup (new_uuid (seed s2)) (work s2) = None"
    using assms(3) s2 by (auto simp: wruns.lookup_def find_None_iff ids_below_def)
  show ?thesis
    using assms(1,2) 2 s2 fresh
    by (auto simp: begin_workflow_def mbind_def [of "workflow_session a b" for a b] create_workflow_run_def workflow_message_def
        workflow_mark_running_def run_create_no_clash run_emit_workflow_event run_save run_bind_Inr no_save_def
        wruns_lookup_save_comp wruns_lookup_append split: sum.splits if_splits)
qed

text \<open>C6. Running a workflow whose steps are numbered without a gap: the run's step records are a trace of the
  steps in order. The first step got the request's input, each later one the output of the step before;
  the result is the output of the last step; and the first failing step ends the run, with no record
  of any step after it.\<close>

theorem workflow_threads_outputs:
  fixes s :: "'r sess"
  assumes "begin_workflow no_save wid rq s = (Inr (steps, cs, run), s1)" "run_workflow env wid rq s = (res, s')"
    "ids_below (seed s) (t_wrun_steps (work s))" "ids_below (seed s) (t_wruns (work s))"
    "map ws_step_order (list_by_workflow wid (work s)) = map int [0..<length (list_by_workflow wid (work s))]"
  shows "\<exists>recs. t_wrun_steps (work s') = t_wrun_steps (work s) @ recs \<and> (\<forall>r \<in> set recs. wrs_workflow_run_id r = row_id run) \<and>
    trace (\<lambda>st inp r. \<exists>d. run_step env (row_id cs) (wq_user_id rq) st inp d = r)
      (wq_input rq) (list_by_workflow wid (work s)) recs (map_sum id snd res)"
proof -
  let ?run = "\<lambda>s st inp. run_step env (row_id cs) (wq_user_id rq) st inp (work s)"
  have b: "steps = list_by_workflow wid (work s)" "steps \<noteq> []" "t_wrun_steps (work s1) = t_wrun_steps (work s)" "seed s \<le> seed s1"
    using begin_workflow_Inr [OF assms(1) disjI2 [OF refl] assms(4)] by blast+
  have sorted: "sort_key ws_step_order steps = steps"
    using assms(5) unfolding b(1) by (intro sort_key_id_if_sorted) (simp add: sorted_map sorted_wrt_upt)
  obtain r2 s2 where 2: "execute_steps ?run (start_step (row_id run)) complete_step fail_step (wq_input rq) [] (wq_input rq) steps s1 = (r2, s2)"
    by force
  have below: "ids_below (seed s1) (t_wrun_steps (work s1))" using assms(3) b(3,4) ids_below_mono by metis
  from execute_steps_trace [OF 2 below, of 0] assms(5) b obtain recs where
    recs: "t_wrun_steps (work s2) = t_wrun_steps (work s) @ recs" "trace (\<lambda>st inp r. \<exists>s::'r sess. run_step env (row_id cs) (wq_user_id rq) st inp (work s) = r) (wq_input rq) steps recs r2"
    "\<forall>r \<in> set recs. wrs_workflow_run_id r = row_id run" by auto
  have "t_wrun_steps (work s') = t_wrun_steps (work s2) \<and> map_sum id snd res = r2"
  proof (cases r2)
    case (Inl e)
    with recs(2) trace_error have "err_class e = RuntimeExecutionError" by blast
    with Inl assms(1,2) 2 b(2) show ?thesis
      by (auto simp: run_workflow_def run_bind_Inr execute_def sorted on_runtime_error_def mcatch_def mbind_def
          workflow_mark_failed_def run_save run_emit_workflow_event)
  next
    case (Inr out)
    with assms(1,2) 2 b(2) show ?thesis
      by (auto simp: run_workflow_def run_bind_Inr execute_def sorted on_runtime_error_def mcatch_def mbind_def
          workflow_mark_completed_def workflow_message_def run_create_no_clash run_save run_emit_workflow_event)
  qed
  moreover have "trace (\<lambda>st inp r. \<exists>d. run_step env (row_id cs) (wq_user_id rq) st inp d = r) (wq_input rq) steps recs r2"
    using recs(2) by (rule trace_mono) auto
  ultimately show ?thesis using recs(1,3) b(1) by auto
qed

subsection \<open>The streamed run\<close>

lemma wp_wdb [wp_simps]:
  "wp (wdb m) P E t = wp m (\<lambda>x s. P x (t\<lparr>wt_sess := s\<rparr>)) (\<lambda>e s. E e (t\<lparr>wt_sess := s\<rparr>)) (wt_sess t)"
  by (auto simp: wp_def wdb_def split: sum.splits prod.splits)

lemma wp_wyield [wp_simps]: "wp (wyield ty p) P E t = P () (t\<lparr>wt_out := wt_out t @ [(ty, p)]\<rparr>)"
  by (simp add: wyield_def wp_mod)

lemma wp_emit_workflow_event [wp_simps]:
  "wp (emit_workflow_event i ty p) P E s = P (new_wevent i ty p (new_uuid (seed s)) (now s))
     (s\<lparr>seed := Suc (seed s), work := t_wevents_update (\<lambda>es. es @ [new_wevent i ty p (new_uuid (seed s)) (now s)]) (work s)\<rparr>)"
  by (simp add: wp_def run_emit_workflow_event)

definition wrun_open :: "workflow_run \<Rightarrow> 'r wturn \<Rightarrow> bool" where
  "wrun_open run t \<longleftrightarrow> wruns.lookup (row_id run) (work (wt_sess t)) = Some run"

lemma wp_consume_marker: "wrun_open run t \<Longrightarrow> wp (consume_marker run m) (\<lambda>_. wrun_open run) (\<lambda>_ _. False) t"
  by (cases m) (auto simp: wp_simps start_step_def complete_step_def fail_step_def wrun_open_def split: option.split)

lemma wp_consume_events:
  "wrun_open run t \<Longrightarrow> wp (mfor evs (\<lambda>ev. consume_marker run (StepEvent st ev))) (\<lambda>_. wrun_open run) (\<lambda>_ _. False) t"
proof (induction evs arbitrary: t)
  case (Cons ev evs)
  show ?case unfolding mfor.simps wp_bind by (rule wp_mono [OF wp_consume_marker [OF Cons.prems] Cons.IH])
qed (simp add: wp_basic)

lemma stream_steps_spec:
  "wrun_open run t \<Longrightarrow>
     wp (stream_steps f other (consume_marker run) inp0 results sts) (\<lambda>_. wrun_open run)
       (\<lambda>e t'. wrun_open run t' \<and> err_class e = RuntimeExecutionError) t"
proof (induction sts arbitrary: results t)
  case (Cons st sts)
  show ?case
    unfolding stream_steps.simps Let_def wp_bind
    apply (rule wp_mono [OF wp_consume_marker [OF Cons.prems]], simp_all add: wp_simps del: consume_marker.simps)
    apply (erule wp_mono [OF wp_consume_events], simp_all del: consume_marker.simps)
    apply (auto split: option.splits simp: wp_simps step_failure_def runtime_error_def Let_def simp del: consume_marker.simps
        intro!: wp_mono [OF wp_consume_marker] Cons.IH)
    done
qed (simp add: wp_basic)

text \<open>What a finished stream ends with.\<close>

definition wclosing :: "workflow_run \<Rightarrow> string \<times> payload \<Rightarrow> bool" where
  "wclosing run o' \<longleftrightarrow> wr_completed_at run \<noteq> None \<and>
     (case wr_status run of
        WfCompleted \<Rightarrow> (\<exists>m. wr_result run = Some m \<and> o' = (''WorkflowCompleted'', [(''result'', JStr m)]))
      | WfFailed \<Rightarrow> (\<exists>m. wr_error_message run = Some m \<and> o' = (''WorkflowFailed'', [(''error'', JStr m)]))
      | _ \<Rightarrow> False)"

text \<open>The three ways the stream goes on once the run has begun.\<close>

definition wsettled :: "workflow_run \<Rightarrow> 'r wturn \<Rightarrow> bool" where
  "wsettled run t \<longleftrightarrow> (\<exists>run'. row_id run' = row_id run \<and> wruns.lookup (row_id run) (durable (wt_sess t)) = Some run' \<and>
      wt_out t \<noteq> [] \<and> wclosing run' (last (wt_out t)))"

lemma execute_stream_spec:
  "wrun_open run t \<Longrightarrow>
     wp (execute_stream f other (consume_marker run) inp steps) (\<lambda>_. wrun_open run)
       (\<lambda>e t'. wrun_open run t' \<and> err_class e = RuntimeExecutionError) t"
  using stream_steps_spec by (auto simp: execute_stream_def wp_simps no_steps_def runtime_error_def)

lemma wsettled_completed:
  "wrun_open run t \<Longrightarrow>
     wp (mbind (wdb (workflow_message sid RoleAssistant x)) (\<lambda>_. mbind (wdb (workflow_mark_completed run x)) (\<lambda>_.
          mbind (wdb commit) (\<lambda>_. wyield ''WorkflowCompleted'' [(''result'', JStr x)])))) (\<lambda>_. wsettled run) (\<lambda>_ _. False) t"
  by (simp add: wp_simps workflow_message_def wp_create_no_clash workflow_mark_completed_def wrun_open_def wclosing_def
      wsettled_def wruns.lookup_save wruns_lookup_save_comp)

lemma wsettled_failed:
  "wrun_open run t \<Longrightarrow>
     wp (mbind (wdb (workflow_mark_failed run x)) (\<lambda>_. mbind (wdb commit) (\<lambda>_.
          mbind (wyield ''WorkflowFailed'' [(''error'', JStr x)]) (\<lambda>_. mret None)))) (\<lambda>r t'. r = None \<and> wsettled run t') (\<lambda>_ _. False) t"
  by (simp add: wp_simps workflow_mark_failed_def wrun_open_def wclosing_def wsettled_def wruns.lookup_save wruns_lookup_save_comp)

lemma wsettled_rest:
  assumes "wrun_open run t"
  shows "wp (mbind (on_runtime_error
             (mbind (execute_stream f other (consume_marker run) inp steps) (\<lambda>results. mret (Some results)))
             (\<lambda>e. mbind (wdb (workflow_mark_failed run (err_message e))) (\<lambda>_.
                  mbind (wdb commit) (\<lambda>_.
                  mbind (wyield ''WorkflowFailed'' [(''error'', JStr (err_message e))]) (\<lambda>_. mret None))))) (\<lambda>r.
       case r of
         None \<Rightarrow> mret ()
       | Some results \<Rightarrow>
           (let final = final_result results in
            mbind (wdb (workflow_message sid RoleAssistant final)) (\<lambda>_.
            mbind (wdb (workflow_mark_completed run final)) (\<lambda>_.
            mbind (wdb commit) (\<lambda>_.
              wyield ''WorkflowCompleted'' [(''result'', JStr final)])))))) (\<lambda>_. wsettled run) (\<lambda>_ _. False) t"
proof -
  have "wp (on_runtime_error
             (mbind (execute_stream f other (consume_marker run) inp steps) (\<lambda>results. mret (Some results)))
             (\<lambda>e. mbind (wdb (workflow_mark_failed run (err_message e))) (\<lambda>_.
                  mbind (wdb commit) (\<lambda>_.
                  mbind (wyield ''WorkflowFailed'' [(''error'', JStr (err_message e))]) (\<lambda>_. mret None)))))
      (\<lambda>r t'. case r of None \<Rightarrow> wsettled run t' | Some _ \<Rightarrow> wrun_open run t') (\<lambda>_ _. False) t"
    unfolding on_runtime_error_def wp_catch
    unfolding wp_bind wp_basic
    by (rule wp_mono [OF execute_stream_spec [OF assms]])
      (auto simp: wp_basic intro!: wp_mono [OF wsettled_failed] split: option.splits)
  then show ?thesis
    unfolding wp_bind [of "on_runtime_error a b" for a b]
    by (rule wp_mono) (auto simp: wp_basic Let_def intro!: wsettled_completed split: option.splits)
qed

text \<open>C7. A streamed workflow run that has begun always ends: it raises nothing, its run is durably completed or
  failed, and the last event the client is sent is the matching one with the stored result or error.\<close>

theorem streamed_workflow_settles:
  assumes "begin_workflow commit wid rq (wt_sess t) = (Inr (steps, cs, run), s1)" "ids_below (seed (wt_sess t)) (t_wruns (work (wt_sess t)))"
  shows "\<exists>t' run'. run_workflow_stream env other wid rq t = (Inr (), t') \<and> row_id run' = row_id run \<and>
    wruns.lookup (row_id run) (durable (wt_sess t')) = Some run' \<and> wt_out t' \<noteq> [] \<and> wclosing run' (last (wt_out t'))"
proof -
  have "wrun_open run (t\<lparr>wt_sess := s1, wt_out := out\<rparr>)" for out
    using begin_workflow_Inr [OF assms(1) disjI1 [OF refl] assms(2)] by (simp add: wrun_open_def)
  from wsettled_rest [OF this] have "wp (run_workflow_stream env other wid rq) (\<lambda>_. wsettled run) (\<lambda>_ _. False) t"
    unfolding run_workflow_stream_def wp_bind [of "wdb m" for m] wp_wdb
    by (simp add: wp_def [of "begin_workflow a b c" for a b c] assms(1) wp_bind [of "wyield a b" for a b] wp_wyield)
  then show ?thesis unfolding wsettled_def
    by (cases "run_workflow_stream env other wid rq t"; cases "fst (run_workflow_stream env other wid rq t)")
      (auto simp: wp_def)
qed

subsection \<open>A concrete workflow\<close>

definition demo_workflow :: workflow where
  "demo_workflow = \<lparr>row_id = ''w1'', created_at = 0, deleted_at = None, code = ''flow'', wf_agent_os_id = ''os1'',
     wf_name = ''Flow'', wf_description = None, wf_team_id = None, wf_enabled = True, wf_metadata = None, wf_created_by = None\<rparr>"

definition demo_step :: "uuid \<Rightarrow> nat \<Rightarrow> uuid option \<Rightarrow> workflow_step" where
  "demo_step i k a = new_step ''w1'' k \<lparr>rs_type = StepAgent, rs_agent_id = a, rs_team_id = None, rs_config = None\<rparr> i 0"

text \<open>Two good steps and one that names no agent.\<close>

definition demo_workflow_db :: db where
  "demo_workflow_db = demo_db\<lparr>t_workflows := [demo_workflow],
     t_wsteps := [demo_step ''x1'' 0 (Some ''a1''), demo_step ''x2'' 1 (Some ''a1''), demo_step ''x3'' 2 None],
     t_wrun_steps := [new_run_step ''old'' (demo_step ''x1'' 0 (Some ''a1'')) ''Hello'' ''y1'' 0]\<rparr>"

definition demo_workflow_sess :: "unit sess" where
  "demo_workflow_sess = \<lparr>work = demo_workflow_db, durable = demo_workflow_db, now = 7, seed = 0, redis = ()\<rparr>"

definition demo_workflow_engine :: engine_env where
  "demo_workflow_engine = demo_engine\<lparr>en_reply := (\<lambda>_ inp _ _. Inr \<lparr>rp_content = Some (inp @ ''!''), rp_text = []\<rparr>)\<rparr>"

definition demo_workflow_request :: workflow_request where
  "demo_workflow_request = \<lparr>wq_input = ''Hello'', wq_session_id = None, wq_user_id = Some ''ann''\<rparr>"

lemma demo_replaced:
  "fst (replace_steps ''w1'' [\<lparr>rs_type = StepTeam, rs_agent_id = None, rs_team_id = Some ''t1'', rs_config = None\<rparr>]
      demo_workflow_sess) = Inr ()"
  by code_simp

theorem replaced_steps_witness:
  "\<exists>s'. replace_steps ''w1'' [\<lparr>rs_type = StepTeam, rs_agent_id = None, rs_team_id = Some ''t1'', rs_config = None\<rparr>]
      demo_workflow_sess = (Inr (), s') \<and> map ws_step_order (list_by_workflow ''w1'' (work s')) = [0] \<and> t_wrun_steps (work s') = [] \<and>
      list_by_workflow ''w2'' (work s') = []"
proof -
  obtain s' where s': "replace_steps ''w1'' [\<lparr>rs_type = StepTeam, rs_agent_id = None, rs_team_id = Some ''t1'', rs_config = None\<rparr>]
      demo_workflow_sess = (Inr (), s')" using demo_replaced by (metis prod.collapse)
  have "filter (\<lambda>x. wrs_workflow_step_id x \<notin> row_id ` set (list_by_workflow ''w1'' (work demo_workflow_sess)))
          (t_wrun_steps (work demo_workflow_sess)) = []" "list_by_workflow ''w2'' (work demo_workflow_sess) = []"
    by code_simp+
  with replaced_steps [OF s', of "''w2''"] s' show ?thesis by simp
qed

definition demo_disabled_db :: db where
  "demo_disabled_db = demo_db\<lparr>t_agents := [demo_agent\<lparr>ag_enabled := False\<rparr>]\<rparr>"

theorem disabled_agent_accepted_witness:
  "\<exists>r e. resolve_step_definition ''os1'' demo_disabled_db
        \<lparr>sf_type = StepAgent, sf_agent_code = ''seller'', sf_team_code = [], sf_config = None\<rparr> = Inr r \<and>
      run_step demo_engine ''s1'' (Some ''ann'') (new_step ''w1'' 0 r ''x1'' 0) ''Hello'' demo_disabled_db = Inl e"
proof -
  have "find_agent_by_code_in_agent_os ''os1'' (''seller'') demo_disabled_db = Inr (Some (demo_agent\<lparr>ag_enabled := False\<rparr>))"
    "repo_get (row_id (demo_agent\<lparr>ag_enabled := False\<rparr>)) (t_agents demo_disabled_db) = Inr (Some (demo_agent\<lparr>ag_enabled := False\<rparr>))"
    by code_simp+
  then show ?thesis by (intro disabled_agent_accepted [where a = "demo_agent\<lparr>ag_enabled := False\<rparr>"]) simp_all
qed

lemma demo_begin:
  "\<not> isl (fst (begin_workflow no_save ''w1'' demo_workflow_request demo_workflow_sess))"
  "\<not> isl (fst (begin_workflow commit ''w1'' demo_workflow_request demo_workflow_sess))"
  by code_simp+

lemma demo_workflow_facts:
  "ids_below (seed demo_workflow_sess) (t_wrun_steps (work demo_workflow_sess))"
  "ids_below (seed demo_workflow_sess) (t_wruns (work demo_workflow_sess))"
  "map ws_step_order (list_by_workflow ''w1'' (work demo_workflow_sess)) = [0, 1, 2]"
  "length (list_by_workflow ''w1'' (work demo_workflow_sess)) = 3"
  "length (t_wrun_steps (work demo_workflow_sess)) = 1"
proof -
  show "ids_below (seed demo_workflow_sess) (t_wrun_steps (work demo_workflow_sess))"
    "ids_below (seed demo_workflow_sess) (t_wruns (work demo_workflow_sess))"
    by (simp_all add: demo_workflow_sess_def demo_workflow_db_def demo_db_def empty_db_def ids_below_def new_uuid_def)
qed code_simp+

lemma demo_workflow_run:
  "map wrs_output (drop 1 (t_wrun_steps (work (snd (run_workflow demo_workflow_engine ''w1'' demo_workflow_request demo_workflow_sess)))))
     = [Some (text_json ''Hello!''), Some (text_json ''Hello!!''), None]"
  by code_simp

theorem workflow_threads_outputs_witness:
  "\<exists>recs res s' cs. run_workflow demo_workflow_engine ''w1'' demo_workflow_request demo_workflow_sess = (res, s') \<and>
     trace (\<lambda>st inp r. \<exists>d. run_step demo_workflow_engine (row_id (cs :: chat_session)) (Some ''ann'') st inp d = r) ''Hello''
       (list_by_workflow ''w1'' demo_workflow_db) recs (map_sum id snd res) \<and>
     map wrs_output recs = [Some (text_json ''Hello!''), Some (text_json ''Hello!!''), None]"
proof -
  obtain steps cs run s1 where b: "begin_workflow no_save ''w1'' demo_workflow_request demo_workflow_sess = (Inr (steps, cs, run), s1)"
    using demo_begin(1) by (metis isl_def obj_sumE prod.collapse)
  obtain res s' where r: "run_workflow demo_workflow_engine ''w1'' demo_workflow_request demo_workflow_sess = (res, s')" by force
  have "map ws_step_order (list_by_workflow ''w1'' (work demo_workflow_sess)) =
      map int [0..<length (list_by_workflow ''w1'' (work demo_workflow_sess))]"
    unfolding demo_workflow_facts(3,4) by code_simp
  from workflow_threads_outputs [OF b r demo_workflow_facts(1,2) this] obtain recs where
    "t_wrun_steps (work s') = t_wrun_steps (work demo_workflow_sess) @ recs"
    "trace (\<lambda>st inp r. \<exists>d. run_step demo_workflow_engine (row_id cs) (wq_user_id demo_workflow_request) st inp d = r)
      (wq_input demo_workflow_request) (list_by_workflow ''w1'' (work demo_workflow_sess)) recs (map_sum id snd res)" by blast
  with demo_workflow_run demo_workflow_facts(5) r show ?thesis
    by (auto simp: demo_workflow_sess_def demo_workflow_request_def)
qed

definition demo_wturn :: "unit wturn" where
  "demo_wturn = \<lparr>wt_sess = demo_workflow_sess, wt_out = [], wt_current = None\<rparr>"

theorem streamed_workflow_settles_witness:
  "\<exists>t' run'. run_workflow_stream demo_engine (\<lambda>_. []) ''w1'' demo_workflow_request demo_wturn = (Inr (), t') \<and>
     wruns.lookup (row_id run') (durable (wt_sess t')) = Some run' \<and> wclosing run' (last (wt_out t'))"
proof -
  obtain steps cs run s1 where b: "begin_workflow commit ''w1'' demo_workflow_request demo_workflow_sess = (Inr (steps, cs, run), s1)"
    using demo_begin(2) by (metis isl_def obj_sumE prod.collapse)
  have "begin_workflow commit ''w1'' demo_workflow_request (wt_sess demo_wturn) = (Inr (steps, cs, run), s1)"
    "ids_below (seed (wt_sess demo_wturn)) (t_wruns (work (wt_sess demo_wturn)))"
    using b demo_workflow_facts(2) by (simp_all add: demo_wturn_def)
  from streamed_workflow_settles [OF this, where env = demo_engine and other = "\<lambda>_. []"] show ?thesis by metis
qed

end
