(* ===== verification/Schedule.thy ===== *)
theory Schedule
  imports Workflow
begin

text \<open>
  Scheduled workflows: the schedule service (\<open>app/schedule/service.py\<close>), the query for due schedules
  (\<open>app/repositories/workflow_schedule_repository.py\<close>), one tick of the polling loop
  (\<open>app/schedule/ticker.py\<close>) and, as a step relation, several replicas polling side by side. The cron
  parser (croniter) and the Redis lock command with its expiry are parameters.
\<close>

subsection \<open>The schedule service\<close>

record cron_ops =
  cron_is_valid :: "string option \<Rightarrow> bool"
  cron_get_next :: "string option \<Rightarrow> time \<Rightarrow> app_error + time"

definition compute_next_run_at :: "cron_ops \<Rightarrow> workflow_schedule \<Rightarrow> time \<Rightarrow> app_error + time" where
  "compute_next_run_at cr sd anchor =
     (case sd_schedule_type sd of
        SchedInterval \<Rightarrow>
          (case sd_interval_seconds sd of
             None \<Rightarrow> Inl (mk_error (PyException ''TypeError'') ''unsupported type for timedelta seconds component: NoneType'')
           | Some n \<Rightarrow> Inr (anchor + n))
      | SchedCron \<Rightarrow> cron_get_next cr (sd_cron_expression sd) anchor)"

record schedule_create =
  scr_schedule_type :: schedule_type
  scr_cron_expression :: "string option"
  scr_interval_seconds :: "int option"
  scr_timezone :: string
  scr_input_template :: string
  scr_user_id :: "string option"
  scr_enabled :: bool

text \<open>What \<open>WorkflowScheduleBase\<close> demands beyond the types.\<close>

definition valid_schedule :: "schedule_create \<Rightarrow> bool" where
  "valid_schedule p \<longleftrightarrow>
     (scr_schedule_type p = SchedCron \<longrightarrow> truthy_str (scr_cron_expression p)) \<and>
     (scr_schedule_type p = SchedInterval \<longrightarrow> scr_interval_seconds p \<noteq> None) \<and>
     (case scr_interval_seconds p of None \<Rightarrow> True | Some n \<Rightarrow> 10 \<le> n) \<and> scr_input_template p \<noteq> []"

definition new_schedule :: "uuid \<Rightarrow> schedule_create \<Rightarrow> uuid \<Rightarrow> time \<Rightarrow> workflow_schedule" where
  "new_schedule workflow_id p i t =
     \<lparr>row_id = i, created_at = t, deleted_at = None, sd_workflow_id = workflow_id, sd_schedule_type = scr_schedule_type p,
      sd_cron_expression = scr_cron_expression p, sd_interval_seconds = scr_interval_seconds p, sd_timezone = scr_timezone p,
      sd_input_template = scr_input_template p, sd_user_id = scr_user_id p, sd_enabled = scr_enabled p,
      sd_next_run_at = None, sd_last_run_at = None, sd_last_status = None, sd_last_error = None,
      sd_last_workflow_run_id = None\<rparr>"

text \<open>\<open>schedule.next_run_at = compute_next_run_at(schedule)\<close>, flushed.\<close>

definition set_next_run :: "cron_ops \<Rightarrow> workflow_schedule \<Rightarrow> ('r sess, workflow_schedule) prog" where
  "set_next_run cr sd =
     mbind (mlift (\<lambda>s. compute_next_run_at cr sd (now s))) (\<lambda>t.
       repo_save t_schedules_update (sd\<lparr>sd_next_run_at := Some t\<rparr>))"

definition create_schedule :: "cron_ops \<Rightarrow> uuid \<Rightarrow> schedule_create \<Rightarrow> ('r sess, workflow_schedule) prog" where
  "create_schedule cr workflow_id p =
     mbind (mlift (\<lambda>s. repo_get workflow_id (t_workflows (work s)))) (\<lambda>w.
     if w = None then mraise (mk_error NotFoundError (''Workflow '' @ workflow_id @ '' not found''))
     else if scr_schedule_type p = SchedCron \<and> \<not> cron_is_valid cr (scr_cron_expression p)
     then mraise (mk_error ValidationFailedError
            (''Invalid cron_expression: '' @ (case scr_cron_expression p of None \<Rightarrow> ''None'' | Some c \<Rightarrow> quoted c)))
     else mbind (repo_create t_schedules t_schedules_update no_clash (new_schedule workflow_id p)) (set_next_run cr))"

text \<open>A field of an update is unset, given as null, or given with a value; the generic update writes only the
  last kind, but a null counts as changed when the next run is recomputed.\<close>

record schedule_update =
  sup_cron_expression :: "string option option"
  sup_interval_seconds :: "int option option"
  sup_timezone :: "string option"
  sup_input_template :: "string option"
  sup_user_id :: "string option"
  sup_enabled :: "bool option option"

fun given :: "'a option option \<Rightarrow> 'a option" where
  "given None = None"
| "given (Some v) = v"

definition update_schedule :: "cron_ops \<Rightarrow> uuid \<Rightarrow> schedule_update \<Rightarrow> ('r sess, workflow_schedule) prog" where
  "update_schedule cr schedule_id p =
     mbind (mlift (\<lambda>s. repo_get_or_404 ''WorkflowSchedule'' schedule_id (t_schedules (work s)))) (\<lambda>sd.
     mbind (repo_save t_schedules_update
             (set_if (given (sup_cron_expression p)) (\<lambda>v. sd_cron_expression_update (\<lambda>_. Some v))
             (set_if (given (sup_interval_seconds p)) (\<lambda>v. sd_interval_seconds_update (\<lambda>_. Some v))
             (set_if (sup_timezone p) (\<lambda>v. sd_timezone_update (\<lambda>_. v))
             (set_if (sup_input_template p) (\<lambda>v. sd_input_template_update (\<lambda>_. v))
             (set_if (sup_user_id p) (\<lambda>v. sd_user_id_update (\<lambda>_. Some v))
             (set_if (given (sup_enabled p)) (\<lambda>v. sd_enabled_update (\<lambda>_. v)) sd))))))) (\<lambda>sd.
       if sup_cron_expression p \<noteq> None \<or> sup_interval_seconds p \<noteq> None \<or> sup_enabled p \<noteq> None
       then (if sd_enabled sd then set_next_run cr sd else repo_save t_schedules_update (sd\<lparr>sd_next_run_at := None\<rparr>))
       else mret sd))"

definition get_schedule :: "uuid \<Rightarrow> db \<Rightarrow> app_error + workflow_schedule" where
  "get_schedule schedule_id d = repo_get_or_404 ''WorkflowSchedule'' schedule_id (t_schedules d)"

definition list_schedules :: "uuid \<Rightarrow> nat \<Rightarrow> nat \<Rightarrow> db \<Rightarrow> workflow_schedule list \<times> nat" where
  "list_schedules workflow_id offset limit d =
     repo_list offset limit [Some (\<lambda>sd. sd_workflow_id sd = workflow_id)] (t_schedules d)"

definition delete_schedule :: "uuid \<Rightarrow> ('r sess, unit) prog" where
  "delete_schedule schedule_id =
     mbind (mlift (\<lambda>s. repo_get_or_404 ''WorkflowSchedule'' schedule_id (t_schedules (work s)))) (\<lambda>sd.
     mbind (repo_soft_delete t_schedules_update sd) (\<lambda>_. mret ()))"

definition record_fired ::
  "cron_ops \<Rightarrow> workflow_schedule \<Rightarrow> string \<Rightarrow> uuid option \<Rightarrow> string option \<Rightarrow> ('r sess, unit) prog" where
  "record_fired cr sd status workflow_run_id error =
     mbind (mget now) (\<lambda>t.
     let sd = sd\<lparr>sd_last_run_at := Some t, sd_last_status := Some status, sd_last_error := error,
                 sd_last_workflow_run_id := workflow_run_id\<rparr>
     in mbind (if sd_enabled sd then set_next_run cr sd
               else repo_save t_schedules_update (sd\<lparr>sd_next_run_at := None\<rparr>)) (\<lambda>_. mret ()))"

definition next_run_key :: "workflow_schedule \<Rightarrow> time" where
  "next_run_key sd = (case sd_next_run_at sd of Some t \<Rightarrow> t | None \<Rightarrow> 0)"

definition is_due :: "time \<Rightarrow> workflow_schedule \<Rightarrow> bool" where
  "is_due as_of sd \<longleftrightarrow> live sd \<and> sd_enabled sd \<and> (case sd_next_run_at sd of None \<Rightarrow> False | Some t \<Rightarrow> t \<le> as_of)"

definition list_due :: "time \<Rightarrow> db \<Rightarrow> workflow_schedule list" where
  "list_due as_of d = take 100 (sort_key next_run_key (filter (is_due as_of) (t_schedules d)))"

subsection \<open>Firing a schedule\<close>

fun workflow_status_value :: "workflow_run_status \<Rightarrow> string" where
  "workflow_status_value WfPending = ''PENDING''"
| "workflow_status_value WfRunning = ''RUNNING''"
| "workflow_status_value WfCompleted = ''COMPLETED''"
| "workflow_status_value WfFailed = ''FAILED''"

text \<open>\<open>WorkflowRunRequest(input=..., user_id=...)\<close>: pydantic refuses an empty input.\<close>

definition workflow_run_request :: "string \<Rightarrow> string option \<Rightarrow> app_error + workflow_request" where
  "workflow_run_request input_text user_id =
     (if input_text = [] then Inl (mk_error (PyException ''ValidationError'') ''String should have at least 1 character'')
      else Inr \<lparr>wq_input = input_text, wq_session_id = None, wq_user_id = user_id\<rparr>)"

definition run_scheduled :: "engine_env \<Rightarrow> workflow_schedule \<Rightarrow> ('r sess, workflow_run \<times> string) prog" where
  "run_scheduled env sd =
     mbind (mlift (\<lambda>_. workflow_run_request (sd_input_template sd) (sd_user_id sd))) (\<lambda>rq.
       run_workflow env (sd_workflow_id sd) rq)"

text \<open>\<open>_fire_one\<close> once the lock is held: one transaction of its own.\<close>

definition fire_locked :: "cron_ops \<Rightarrow> engine_env \<Rightarrow> uuid \<Rightarrow> ('r sess, unit) prog" where
  "fire_locked cr env schedule_id =
     session_scope (
       mbind (mlift (\<lambda>s. get_schedule schedule_id (work s))) (\<lambda>fresh.
       if \<not> sd_enabled fresh then mret ()
       else mcatch (mbind (run_scheduled env fresh) (\<lambda>(run, res).
                      record_fired cr fresh (workflow_status_value (wr_status run)) (Some (row_id run)) None))
                   (\<lambda>e. record_fired cr fresh ''FAILED'' None (Some (err_message e)))))"

text \<open>\<open>SET key 1 NX EX ttl\<close>, sent at a moment; the keys expire by themselves.\<close>

record 'r lock_ops =
  set_nx_ex :: "string \<Rightarrow> int \<Rightarrow> time \<Rightarrow> 'r \<Rightarrow> (app_error + bool) \<times> 'r"

definition lock_key :: "uuid \<Rightarrow> string" where
  "lock_key schedule_id = ''workflow_schedule:lock:'' @ schedule_id"

definition lock_ttl :: int where
  "lock_ttl = 60"

definition try_acquire_lock :: "'r lock_ops \<Rightarrow> uuid \<Rightarrow> int \<Rightarrow> ('r sess, bool) prog" where
  "try_acquire_lock ops schedule_id ttl = (\<lambda>s. on_redis (set_nx_ex ops (lock_key schedule_id) ttl (now s)) s)"

definition fire_one :: "cron_ops \<Rightarrow> 'r lock_ops \<Rightarrow> engine_env \<Rightarrow> workflow_schedule \<Rightarrow> ('r sess, unit) prog" where
  "fire_one cr ops env sd =
     mbind (try_acquire_lock ops (row_id sd) lock_ttl) (\<lambda>won.
       if \<not> won then mret () else fire_locked cr env (row_id sd))"

text \<open>One turn of the loop of \<open>run_ticker_loop\<close>: whatever goes wrong is logged.\<close>

definition ticker_tick :: "cron_ops \<Rightarrow> 'r lock_ops \<Rightarrow> engine_env \<Rightarrow> ('r sess, unit) prog" where
  "ticker_tick cr ops env =
     mcatch (mbind (session_scope (mget (\<lambda>s. list_due (now s) (work s)))) (\<lambda>due.
               mfor due (\<lambda>sd. mcatch (fire_one cr ops env sd) (\<lambda>_. mret ()))))
            (\<lambda>_. mret ())"

text \<open>\<open>POST /schedules/{id}/trigger\<close>.\<close>

definition trigger_schedule_now :: "cron_ops \<Rightarrow> engine_env \<Rightarrow> uuid \<Rightarrow> ('r sess, uuid \<times> string) prog" where
  "trigger_schedule_now cr env schedule_id =
     mbind (mlift (\<lambda>s. get_schedule schedule_id (work s))) (\<lambda>sd.
     mbind (run_scheduled env sd) (\<lambda>(run, res).
     mbind (record_fired cr sd (workflow_status_value (wr_status run)) (Some (row_id run)) None) (\<lambda>_.
       mret (row_id run, workflow_status_value (wr_status run)))))"

subsection \<open>Several replicas\<close>

text \<open>
  The world the tickers of several replicas share: the committed database, the Redis server and the clock.
  A replica has the rest of the due list it polled and, while it executes one, the schedule it holds with the
  moment it got the lock. \<open>tw_log\<close> records every lock won, newest first; no step reads it.
\<close>

record 'r tick_world =
  tw_db :: db
  tw_redis :: 'r
  tw_now :: time
  tw_seed :: nat
  tw_due :: "nat \<Rightarrow> workflow_schedule list"
  tw_firing :: "nat \<Rightarrow> (workflow_schedule \<times> time) option"
  tw_log :: "(uuid \<times> time) list"

definition transaction :: "'r tick_world \<Rightarrow> unit sess" where
  "transaction w = \<lparr>work = tw_db w, durable = tw_db w, now = tw_now w, seed = tw_seed w, redis = ()\<rparr>"

text \<open>The statements of a replica between two suspensions: it polls when it has nothing left to do, tries the lock of
  the next schedule, and ends the transaction of the one it fires, which is the moment others see its effect.
  Time passes, other requests write the database, and a replica may stop at any point.\<close>

inductive tick_step ::
  "cron_ops \<Rightarrow> 'r lock_ops \<Rightarrow> engine_env \<Rightarrow> 'r tick_world \<Rightarrow> 'r tick_world \<Rightarrow> bool"
  for cr :: cron_ops and ops :: "'r lock_ops" and env :: engine_env where
  pass: "0 \<le> d \<Longrightarrow> tick_step cr ops env w (w\<lparr>tw_now := tw_now w + d\<rparr>)"
| edit: "tick_step cr ops env w (w\<lparr>tw_db := d, tw_seed := n\<rparr>)"
| poll: "tw_due w i = [] \<Longrightarrow> tw_firing w i = None \<Longrightarrow>
    tick_step cr ops env w (w\<lparr>tw_due := (tw_due w)(i := list_due (tw_now w) (tw_db w))\<rparr>)"
| lost: "tw_due w i = sd # rest \<Longrightarrow> tw_firing w i = None \<Longrightarrow>
    set_nx_ex ops (lock_key (row_id sd)) lock_ttl (tw_now w) (tw_redis w) = (b, r) \<Longrightarrow> b \<noteq> Inr True \<Longrightarrow>
    tick_step cr ops env w (w\<lparr>tw_redis := r, tw_due := (tw_due w)(i := rest)\<rparr>)"
| won: "tw_due w i = sd # rest \<Longrightarrow> tw_firing w i = None \<Longrightarrow>
    set_nx_ex ops (lock_key (row_id sd)) lock_ttl (tw_now w) (tw_redis w) = (Inr True, r) \<Longrightarrow>
    tick_step cr ops env w (w\<lparr>tw_redis := r, tw_due := (tw_due w)(i := rest),
      tw_firing := (tw_firing w)(i := Some (sd, tw_now w)), tw_log := (row_id sd, tw_now w) # tw_log w\<rparr>)"
| fired: "tw_firing w i = Some (sd, t) \<Longrightarrow> fire_locked cr env (row_id sd) (transaction w) = (b, s) \<Longrightarrow>
    tick_step cr ops env w (w\<lparr>tw_db := durable s, tw_seed := seed s, tw_firing := (tw_firing w)(i := None)\<rparr>)"
| stop: "tick_step cr ops env w (w\<lparr>tw_due := (tw_due w)(i := []), tw_firing := (tw_firing w)(i := None)\<rparr>)"

definition tick_start :: "db \<Rightarrow> 'r \<Rightarrow> time \<Rightarrow> nat \<Rightarrow> 'r tick_world" where
  "tick_start d r t n = \<lparr>tw_db = d, tw_redis = r, tw_now = t, tw_seed = n, tw_due = (\<lambda>_. []), tw_firing = (\<lambda>_. None), tw_log = []\<rparr>"

subsection \<open>The lock\<close>

text \<open>
  What the ticker relies on about \<open>SET NX EX\<close> (the Redis documentation): \<open>held k u r\<close> says that key \<open>k\<close>
  exists at time \<open>u\<close> if nothing is sent any more. The command succeeds only when the key does not exist, and then
  the key exists for exactly \<open>ttl\<close> seconds; otherwise, an outage included, it changes nothing.
\<close>

definition lock_server_ok :: "'r lock_ops \<Rightarrow> (string \<Rightarrow> time \<Rightarrow> 'r \<Rightarrow> bool) \<Rightarrow> bool" where
  "lock_server_ok ops held \<longleftrightarrow> (\<forall>k ttl t r b r'. set_nx_ex ops k ttl t r = (b, r') \<longrightarrow>
     (b = Inr True \<longrightarrow> \<not> held k t r) \<and>
     (\<forall>k' u. t \<le> u \<longrightarrow> held k' u r' = (if b = Inr True \<and> k' = k then u < t + ttl else held k' u r)))"

text \<open>A server that also answers.\<close>

definition lock_server_up :: "'r lock_ops \<Rightarrow> (string \<Rightarrow> time \<Rightarrow> 'r \<Rightarrow> bool) \<Rightarrow> bool" where
  "lock_server_up ops held \<longleftrightarrow> lock_server_ok ops held \<and>
     (\<forall>k ttl t r. fst (set_nx_ex ops k ttl t r) = Inr (\<not> held k t r))"

lemma lock_key_inj [simp]: "lock_key a = lock_key b \<longleftrightarrow> a = b"
  by (simp add: lock_key_def)

lemma lock_refused: "lock_server_ok ops held \<Longrightarrow> set_nx_ex ops k ttl t r = (b, r') \<Longrightarrow> b \<noteq> Inr True \<Longrightarrow> t \<le> u \<Longrightarrow>
    held k' u r' = held k' u r"
  by (simp add: lock_server_ok_def)

lemma lock_won: "lock_server_ok ops held \<Longrightarrow> set_nx_ex ops k ttl t r = (Inr True, r') \<Longrightarrow>
    \<not> held k t r \<and> (\<forall>u\<ge>t. held k' u r' = (if k' = k then u < t + ttl else held k' u r))"
  by (simp add: lock_server_ok_def)

lemma lock_free: "lock_server_up ops held \<Longrightarrow> \<not> held k t r \<Longrightarrow> \<exists>r'. set_nx_ex ops k ttl t r = (Inr True, r')"
  unfolding lock_server_up_def by (cases "set_nx_ex ops k ttl t r") (metis fst_conv)

text \<open>Two triggers of one schedule are a lock life apart.\<close>

definition apart :: "uuid \<times> time \<Rightarrow> uuid \<times> time \<Rightarrow> bool" where
  "apart new old \<longleftrightarrow> (fst new = fst old \<longrightarrow> snd old + lock_ttl \<le> snd new)"

definition log_locked :: "(string \<Rightarrow> time \<Rightarrow> 'r \<Rightarrow> bool) \<Rightarrow> 'r tick_world \<Rightarrow> bool" where
  "log_locked held w \<longleftrightarrow> (\<forall>(i, t) \<in> set (tw_log w).
     t \<le> tw_now w \<and> (\<forall>u. tw_now w \<le> u \<and> u < t + lock_ttl \<longrightarrow> held (lock_key i) u (tw_redis w)))"

definition firing_logged :: "'r tick_world \<Rightarrow> bool" where
  "firing_logged w \<longleftrightarrow> (\<forall>i sd t. tw_firing w i = Some (sd, t) \<longrightarrow> (row_id sd, t) \<in> set (tw_log w))"

definition firing_apart :: "'r tick_world \<Rightarrow> bool" where
  "firing_apart w \<longleftrightarrow> (\<forall>i j sd sd' t t'. i \<noteq> j \<longrightarrow> tw_firing w i = Some (sd, t) \<longrightarrow> tw_firing w j = Some (sd', t') \<longrightarrow>
     row_id sd = row_id sd' \<longrightarrow> t + lock_ttl \<le> t' \<or> t' + lock_ttl \<le> t)"

definition ticker_inv :: "(string \<Rightarrow> time \<Rightarrow> 'r \<Rightarrow> bool) \<Rightarrow> 'r tick_world \<Rightarrow> bool" where
  "ticker_inv held w \<longleftrightarrow> sorted_wrt apart (tw_log w) \<and> log_locked held w \<and> firing_logged w \<and> firing_apart w"

lemmas ticker_inv_defs = ticker_inv_def log_locked_def firing_logged_def firing_apart_def

lemma ticker_inv_start: "ticker_inv held (tick_start d r t n)"
  by (simp add: ticker_inv_defs tick_start_def)

lemma ticker_inv_won:
  assumes "lock_server_ok ops held" "ticker_inv held w"
    "set_nx_ex ops (lock_key (row_id sd)) lock_ttl (tw_now w) (tw_redis w) = (Inr True, r)"
  shows "ticker_inv held (w\<lparr>tw_redis := r, tw_due := f, tw_firing := (tw_firing w)(i := Some (sd, tw_now w)),
      tw_log := (row_id sd, tw_now w) # tw_log w\<rparr>)"
proof -
  let ?k = "lock_key (row_id sd)"
  note won = lock_won [OF assms(1,3)]
  have old: "t + lock_ttl \<le> tw_now w" if "(row_id sd, t) \<in> set (tw_log w)" for t
  proof (rule ccontr)
    assume "\<not> t + lock_ttl \<le> tw_now w"
    with assms(2) that have "held ?k (tw_now w) (tw_redis w)" by (auto simp: ticker_inv_def log_locked_def)
    with won show False by simp
  qed
  have firing: "(row_id sd', t) \<in> set (tw_log w)" if "tw_firing w j = Some (sd', t)" for j sd' t
    using assms(2) that by (auto simp: ticker_inv_def firing_logged_def)
  have late: "t + lock_ttl \<le> tw_now w" if "tw_firing w j = Some (sd', t)" "row_id sd' = row_id sd" for j sd' t
    using old firing [OF that(1)] that(2) by simp
  let ?w = "w\<lparr>tw_redis := r, tw_due := f, tw_firing := (tw_firing w)(i := Some (sd, tw_now w)),
      tw_log := (row_id sd, tw_now w) # tw_log w\<rparr>"
  have "sorted_wrt apart (tw_log ?w)"
    using assms(2) old by (auto simp: ticker_inv_def apart_def)
  moreover have "log_locked held ?w"
    unfolding log_locked_def
  proof (rule ballI)
    fix x assume "x \<in> set (tw_log ?w)"
    then obtain j t where x: "x = (j, t)" "(j, t) \<in> set (tw_log ?w)" by (metis prod.exhaust)
    show "case x of (i, t) \<Rightarrow> t \<le> tw_now ?w \<and> (\<forall>u. tw_now ?w \<le> u \<and> u < t + lock_ttl \<longrightarrow> held (lock_key i) u (tw_redis ?w))"
    proof (cases "(j, t) \<in> set (tw_log w)")
      case True
      with assms(2) have "t \<le> tw_now w" "\<forall>u. tw_now w \<le> u \<and> u < t + lock_ttl \<longrightarrow> held (lock_key j) u (tw_redis w)"
        by (auto simp: ticker_inv_def log_locked_def)
      with won old True x(1) show ?thesis by auto
    next
      case False
      with x won show ?thesis by simp
    qed
  qed
  moreover have "firing_logged ?w"
    using firing by (auto simp: firing_logged_def)
  moreover have "firing_apart ?w"
    unfolding firing_apart_def
  proof (intro allI impI)
    fix j j' sd1 sd2 t t'
    assume *: "j \<noteq> j'" "tw_firing ?w j = Some (sd1, t)" "tw_firing ?w j' = Some (sd2, t')" "row_id sd1 = row_id sd2"
    show "t + lock_ttl \<le> t' \<or> t' + lock_ttl \<le> t"
    proof (cases "i = j \<or> i = j'")
      case True
      with * late [of j sd1 t] late [of j' sd2 t'] show ?thesis by (auto split: if_splits)
    next
      case False
      with * assms(2) show ?thesis by (auto simp: ticker_inv_def firing_apart_def)
    qed
  qed
  ultimately show ?thesis by (simp add: ticker_inv_def)
qed

lemma ticker_inv_step:
  assumes "lock_server_ok ops held" "tick_step cr ops env w w'" "ticker_inv held w"
  shows "ticker_inv held w'"
  using assms(2)
proof cases
  case (lost i sd rest b r)
  have "log_locked held w'"
    using lost(1,4,5) assms(3) lock_refused [OF assms(1)] by (auto simp: ticker_inv_def log_locked_def)
  with lost assms(3) show ?thesis by (simp add: ticker_inv_def firing_logged_def firing_apart_def)
next
  case (won i sd rest r)
  with ticker_inv_won [OF assms(1,3)] show ?thesis by simp
next
  case (fired i sd t b s)
  with assms(3) show ?thesis by (auto simp: ticker_inv_defs split: if_splits)
next
  case (stop i)
  with assms(3) show ?thesis by (auto simp: ticker_inv_defs split: if_splits)
qed (use assms(3) in \<open>auto simp: ticker_inv_defs\<close>)

text \<open>C17. The lock spaces the triggers of a schedule, whatever the replicas, crashes and edits of the database: any two
  are at least the life of the lock apart, because no replica gives a lock back. So two replicas execute one schedule at once only if the first
  has been at it for that long, and a schedule with a shorter interval never runs at its interval.\<close>

theorem triggers_spaced:
  assumes "lock_server_ok ops held" "(tick_step cr ops env)\<^sup>*\<^sup>* (tick_start d r t n) w"
  shows "sorted_wrt apart (tw_log w) \<and>
    (\<forall>i j sd sd' t t'. i \<noteq> j \<longrightarrow> tw_firing w i = Some (sd, t) \<longrightarrow> tw_firing w j = Some (sd', t') \<longrightarrow> row_id sd = row_id sd' \<longrightarrow>
       t + lock_ttl \<le> t' \<or> t' + lock_ttl \<le> t)"
proof -
  have "ticker_inv held w"
    using assms(2)
  proof (induction rule: rtranclp_induct)
    case base
    show ?case by (rule ticker_inv_start)
  next
    case (step w w')
    from ticker_inv_step [OF assms(1) step.hyps(2) step.IH] show ?case .
  qed
  then show ?thesis unfolding ticker_inv_def firing_apart_def by blast
qed

text \<open>C37. The lock does not last as long as the run it protects: when a run takes longer than the lock lives, its schedule is still due,
  since \<open>next_run_at\<close> is only advanced after the run, and a second replica starts the same occurrence again.\<close>

theorem long_run_fired_twice:
  assumes "lock_server_up ops held" "t_schedules d = [sd]" "is_due t sd" "\<not> held (lock_key (row_id sd)) t r"
  shows "\<exists>w. (tick_step cr ops env)\<^sup>*\<^sup>* (tick_start d r t n) w \<and> tw_db w = d \<and>
    tw_firing w 0 = Some (sd, t) \<and> tw_firing w 1 = Some (sd, t + lock_ttl)"
proof -
  have ok: "lock_server_ok ops held" using assms(1) by (simp add: lock_server_up_def)
  have due: "list_due u d = [sd]" if "t \<le> u" for u
    using assms(2,3) that by (auto simp: list_due_def is_due_def split: option.splits)
  obtain r1 where r1: "set_nx_ex ops (lock_key (row_id sd)) lock_ttl t r = (Inr True, r1)"
    using lock_free [of ops held, OF assms(1,4)] by blast
  have "\<not> held (lock_key (row_id sd)) (t + lock_ttl) r1"
    using lock_won [OF ok r1, of "lock_key (row_id sd)"] by (simp add: lock_ttl_def)
  then obtain r2 where r2: "set_nx_ex ops (lock_key (row_id sd)) lock_ttl (t + lock_ttl) r1 = (Inr True, r2)"
    using lock_free [of ops held, OF assms(1)] by blast
  let ?w0 = "tick_start d r t n"
  let ?w1 = "?w0\<lparr>tw_due := (\<lambda>_. [])(0 := [sd])\<rparr>"
  let ?w2 = "?w1\<lparr>tw_redis := r1, tw_due := (\<lambda>_. []), tw_firing := (\<lambda>_. None)(0 := Some (sd, t)), tw_log := [(row_id sd, t)]\<rparr>"
  let ?w3 = "?w2\<lparr>tw_now := t + lock_ttl\<rparr>"
  let ?w4 = "?w3\<lparr>tw_due := (\<lambda>_. [])(1 := [sd])\<rparr>"
  let ?w5 = "?w4\<lparr>tw_redis := r2, tw_due := (\<lambda>_. []), tw_firing := ((\<lambda>_. None)(0 := Some (sd, t)))(1 := Some (sd, t + lock_ttl)),
      tw_log := [(row_id sd, t + lock_ttl), (row_id sd, t)]\<rparr>"
  have 1: "tick_step cr ops env ?w0 ?w1"
    using poll [of ?w0 0 cr ops env] due by (simp add: tick_start_def)
  have 2: "tick_step cr ops env ?w1 ?w2"
    using won [of ?w1 0 sd "[]" ops r1 cr env] r1 by (simp add: tick_start_def fun_upd_idem)
  have 3: "tick_step cr ops env ?w2 ?w3"
    using pass [of lock_ttl cr ops env ?w2] by (simp add: tick_start_def lock_ttl_def)
  have 4: "tick_step cr ops env ?w3 ?w4"
    using poll [of ?w3 1 cr ops env] due by (simp add: tick_start_def lock_ttl_def)
  have 5: "tick_step cr ops env ?w4 ?w5"
    using won [of ?w4 1 sd "[]" ops r2 cr env] r2 by (simp add: tick_start_def fun_upd_idem)
  have "(tick_step cr ops env)\<^sup>*\<^sup>* ?w0 ?w5"
    using 1 2 3 4 5 by (meson converse_rtranclp_into_rtranclp rtranclp.rtrancl_refl)
  then show ?thesis by (rule exI [of _ ?w5, OF conjI]) (simp add: tick_start_def)
qed

subsection \<open>A tick of one replica\<close>

text \<open>What running a workflow leaves alone.\<close>

definition schedule_frame :: "workflow_schedule list \<Rightarrow> db \<Rightarrow> time \<Rightarrow> 'r \<Rightarrow> 'r sess \<Rightarrow> bool" where
  "schedule_frame rows D t r s \<longleftrightarrow> t_schedules (work s) = rows \<and> durable s = D \<and> now s = t \<and> redis s = r"

lemma keeps_pair [inv_intros]: "keeps (Pair (Inr x)) I"
  by (simp add: keeps_def wp_def)

lemma frame_workflow_tables:
  "keeps (repo_create t_wevents t_wevents_update c1 m1) (schedule_frame rows D t r)"
  "keeps (repo_create t_wruns t_wruns_update c2 m2) (schedule_frame rows D t r)"
  "keeps (repo_create t_wrun_steps t_wrun_steps_update c3 m3) (schedule_frame rows D t r)"
  "keeps (repo_create t_messages t_messages_update c4 m4) (schedule_frame rows D t r)"
  "keeps (repo_create t_sessions t_sessions_update c5 m5) (schedule_frame rows D t r)"
  "keeps (repo_create_as i t_sessions t_sessions_update c5 m5) (schedule_frame rows D t r)"
  "keeps (repo_save t_wruns_update x2) (schedule_frame rows D t r)"
  "keeps (repo_save t_wrun_steps_update x3) (schedule_frame rows D t r)"
  by (auto intro!: keeps_create keeps_create_as keeps_save simp: schedule_frame_def)

lemma frame_workflow_tracking [inv_intros]:
  "keeps (emit_workflow_event i ty p) (schedule_frame rows D t r)"
  "keeps (create_workflow_run wid sid inp u) (schedule_frame rows D t r)"
  "keeps (workflow_mark_running run) (schedule_frame rows D t r)"
  "keeps (workflow_mark_completed run res) (schedule_frame rows D t r)"
  "keeps (workflow_mark_failed run m) (schedule_frame rows D t r)"
  "keeps (start_step R st inp) (schedule_frame rows D t r)"
  "keeps (complete_step rs out) (schedule_frame rows D t r)"
  "keeps (fail_step rs m) (schedule_frame rows D t r)"
  "keeps (workflow_message sid role content) (schedule_frame rows D t r)"
  "keeps (workflow_session wid rq) (schedule_frame rows D t r)"
  unfolding emit_workflow_event_def create_workflow_run_def workflow_mark_running_def workflow_mark_completed_def
    workflow_mark_failed_def start_step_def complete_step_def fail_step_def workflow_message_def workflow_session_def
  by (auto intro!: inv_intros frame_workflow_tables split: option.split)

lemma frame_execute_steps [inv_intros]:
  "keeps (execute_steps run (start_step R) complete_step fail_step inp0 results cur sts) (schedule_frame rows D t r)"
  by (induction sts arbitrary: results cur) (auto intro!: inv_intros simp: Let_def split: sum.split)

lemma frame_run_workflow [inv_intros]: "keeps (run_workflow env wid rq) (schedule_frame rows D t r)"
  unfolding run_workflow_def begin_workflow_def execute_def on_runtime_error_def
  by (auto intro!: inv_intros simp: no_save_def split: prod.split)

lemma frame_run_scheduled: "keeps (run_scheduled env sd) (schedule_frame rows D t r)"
  unfolding run_scheduled_def by (auto intro!: inv_intros)

text \<open>How a schedule that was served stands afterwards.\<close>

definition served :: "time \<Rightarrow> workflow_schedule \<Rightarrow> workflow_schedule \<Rightarrow> bool" where
  "served t sd sd' \<longleftrightarrow> (\<exists>st err run n. t < n \<and> st \<in> {''COMPLETED'', ''FAILED''} \<and>
     sd' = sd\<lparr>sd_last_run_at := Some t, sd_last_status := Some st, sd_last_error := err, sd_last_workflow_run_id := run,
              sd_next_run_at := Some n\<rparr>)"

lemma compute_next_run_at_cong [simp]:
  "compute_next_run_at cr (sd\<lparr>sd_last_run_at := a, sd_last_status := b, sd_last_error := c, sd_last_workflow_run_id := e\<rparr>) t
     = compute_next_run_at cr sd t"
  by (simp add: compute_next_run_at_def split: schedule_type.split)

lemma run_record_fired:
  assumes "sd_enabled sd" "compute_next_run_at cr sd (now s) = Inr n"
  shows "record_fired cr sd st run err s = (Inr (), s\<lparr>work := t_schedules_update (put_row
    (sd\<lparr>sd_last_run_at := Some (now s), sd_last_status := Some st, sd_last_error := err, sd_last_workflow_run_id := run,
        sd_next_run_at := Some n\<rparr>)) (work s)\<rparr>)"
  using assms by (simp add: record_fired_def set_next_run_def run_simps mbind_def)

lemma run_workflow_status: "run_workflow env wid rq s = (Inr (run, res), s') \<Longrightarrow> wr_status run = WfCompleted"
  by (auto simp: run_workflow_def workflow_mark_completed_def mbind_def run_save run_emit_workflow_event
      split: sum.splits prod.splits)

lemma run_scheduled_status:
  "run_scheduled env sd s = (Inr (run, res), s') \<Longrightarrow> wr_status run = WfCompleted"
  by (auto simp: run_scheduled_def split: sum.splits dest: run_workflow_status)

lemma servedI:
  "t < n \<Longrightarrow> st \<in> {''COMPLETED'', ''FAILED''} \<Longrightarrow>
   served t sd (sd\<lparr>sd_last_run_at := Some t, sd_last_status := Some st, sd_last_error := err, sd_last_workflow_run_id := run,
              sd_next_run_at := Some n\<rparr>)"
  by (auto simp: served_def)

lemma run_fire_locked:
  assumes sd: "get_schedule i (work s) = Inr sd" "sd_enabled sd"
    and n: "compute_next_run_at cr sd (now s) = Inr n" "now s < n"
  shows "\<exists>s' sd'. fire_locked cr env i s = (Inr (), s') \<and> work s' = durable s' \<and> now s' = now s \<and> redis s' = redis s \<and>
    served (now s) sd sd' \<and> t_schedules (work s') = put_row sd' (t_schedules (work s))"
proof -
  obtain r1 s1 where r1: "run_scheduled env sd s = (r1, s1)" by force
  have "schedule_frame (t_schedules (work s)) (durable s) (now s) (redis s) s"
    by (simp add: schedule_frame_def)
  from keepsD [OF frame_run_scheduled r1 this] have s1: "t_schedules (work s1) = t_schedules (work s)" "now s1 = now s" "redis s1 = redis s"
    by (simp_all add: schedule_frame_def)
  have "\<exists>st err run. st \<in> {''COMPLETED'', ''FAILED''} \<and>
      fire_locked cr env i s = session_scope (record_fired cr sd st run err) s1"
  proof (cases r1)
    case (Inl e)
    with sd r1 show ?thesis
      by (intro exI [of _ "''FAILED''"] exI [of _ "Some (err_message e)"] exI [of _ None])
        (simp add: fire_locked_def session_scope_def mcatch_def mbind_def)
  next
    case (Inr x)
    obtain run res where x: "x = (run, res)" by force
    with Inr r1 have "wr_status run = WfCompleted" by (auto dest: run_scheduled_status)
    with Inr sd r1 x s1(2) n show ?thesis
      by (intro exI [of _ "''COMPLETED''"] exI [of _ None] exI [of _ "Some (row_id run)"])
        (simp add: fire_locked_def session_scope_def mcatch_def mbind_def run_record_fired [OF sd(2)])
  qed
  then obtain st err run where st: "st \<in> {''COMPLETED'', ''FAILED''}"
    "fire_locked cr env i s = session_scope (record_fired cr sd st run err) s1" by blast
  let ?sd = "sd\<lparr>sd_last_run_at := Some (now s), sd_last_status := Some st, sd_last_error := err, sd_last_workflow_run_id := run,
              sd_next_run_at := Some n\<rparr>"
  have "served (now s) sd ?sd" using n(2) st(1) by (rule servedI)
  moreover have "fire_locked cr env i s = (Inr (), s1\<lparr>work := t_schedules_update (put_row ?sd) (work s1),
      durable := t_schedules_update (put_row ?sd) (work s1)\<rparr>)"
    unfolding st(2) using n(1) s1(2) by (simp add: session_scope_def mcatch_def mbind_def run_record_fired [OF sd(2)])
  ultimately show ?thesis using s1 by (intro exI conjI) (assumption | simp)+
qed

lemma get_schedule_distinct:
  assumes "distinct (map row_id (t_schedules d))" "sd \<in> set (t_schedules d)" "live sd"
  shows "get_schedule (row_id sd) d = Inr sd"
proof -
  have "filter (\<lambda>r. row_id r = row_id sd \<and> live r) rows = [sd]"
    if "distinct (map row_id rows)" "sd \<in> set rows" for rows :: "workflow_schedule list"
    using that
  proof (induction rows)
    case (Cons r rows)
    have "filter (\<lambda>x. row_id x = row_id r \<and> live x) rows = []"
      using Cons.prems(1) by (auto simp: filter_empty_conv image_iff)
    moreover have "row_id r \<noteq> row_id sd" if "r \<noteq> sd"
      using Cons.prems that by (metis distinct.simps(2) image_eqI list.set_map list.simps(9) set_ConsD)
    ultimately show ?case using Cons assms(3) by auto
  qed simp
  with assms(1,2) show ?thesis by (simp add: get_schedule_def repo_get_or_404_def repo_get_def)
qed

lemma served_row: "served t sd sd' \<Longrightarrow> row_id sd' = row_id sd"
  by (auto simp: served_def)

lemma served_not_due: "served t sd sd' \<Longrightarrow> \<not> is_due t sd'"
  by (auto simp: served_def is_due_def)

lemma keys_put_row [simp]: "map row_id (put_row r rows) = map row_id rows"
  by (simp add: put_row_def)

lemma run_fire_one:
  assumes up: "lock_server_up ops held" and free: "\<not> held (lock_key (row_id sd)) (now s) (redis s)"
    and rows: "distinct (map row_id (t_schedules (work s)))" "sd \<in> set (t_schedules (work s))" "live sd" "sd_enabled sd"
    and n: "compute_next_run_at cr sd (now s) = Inr n" "now s < n"
  shows "\<exists>s' sd'. fire_one cr ops env sd s = (Inr (), s') \<and> work s' = durable s' \<and> now s' = now s \<and>
    (\<forall>i. i \<noteq> row_id sd \<longrightarrow> held (lock_key i) (now s) (redis s') = held (lock_key i) (now s) (redis s)) \<and>
    served (now s) sd sd' \<and> t_schedules (work s') = put_row sd' (t_schedules (work s))"
proof -
  obtain r where r: "set_nx_ex ops (lock_key (row_id sd)) lock_ttl (now s) (redis s) = (Inr True, r)"
    using lock_free [OF up free] by blast
  have ok: "lock_server_ok ops held" using up by (simp add: lock_server_up_def)
  have get: "get_schedule (row_id sd) (work (s\<lparr>redis := r\<rparr>)) = Inr sd"
    using rows by (simp add: get_schedule_distinct)
  from run_fire_locked [OF get rows(4), of cr n env] n obtain s' sd' where
    "fire_locked cr env (row_id sd) (s\<lparr>redis := r\<rparr>) = (Inr (), s')" "work s' = durable s'" "now s' = now s" "redis s' = r"
    "served (now s) sd sd'" "t_schedules (work s') = put_row sd' (t_schedules (work s))" by auto
  moreover have "held (lock_key i) (now s) r = held (lock_key i) (now s) (redis s)" if "i \<noteq> row_id sd" for i
    using lock_won [OF ok r, of "lock_key i"] that by simp
  moreover have "fire_one cr ops env sd s = fire_locked cr env (row_id sd) (s\<lparr>redis := r\<rparr>)"
    by (simp add: fire_one_def try_acquire_lock_def on_redis_def mbind_def r)
  ultimately show ?thesis by auto
qed

lemma serve_due:
  assumes up: "lock_server_up ops held"
  shows "distinct (map row_id dl) \<Longrightarrow> distinct (map row_id (t_schedules (work s))) \<Longrightarrow> work s = durable s \<Longrightarrow>
    set dl \<subseteq> set (t_schedules (work s)) \<Longrightarrow>
    (\<forall>sd \<in> set dl. live sd \<and> sd_enabled sd \<and> (\<exists>n > now s. compute_next_run_at cr sd (now s) = Inr n) \<and>
       \<not> held (lock_key (row_id sd)) (now s) (redis s)) \<Longrightarrow>
    \<exists>s'. mfor dl (\<lambda>sd. mcatch (fire_one cr ops env sd) (\<lambda>_. mret ())) s = (Inr (), s') \<and> work s' = durable s' \<and> now s' = now s \<and>
      list_all2 (\<lambda>x x'. if x \<in> set dl then served (now s) x x' else x' = x) (t_schedules (work s)) (t_schedules (work s'))"
proof (induction dl arbitrary: s)
  case Nil
  then show ?case by (simp add: list_all2_refl)
next
  case (Cons sd dl)
  from Cons.prems(5) obtain n where n: "compute_next_run_at cr sd (now s) = Inr n" "now s < n" and
    sd: "live sd" "sd_enabled sd" "\<not> held (lock_key (row_id sd)) (now s) (redis s)" by auto
  have mem: "sd \<in> set (t_schedules (work s))" using Cons.prems(4) by simp
  from run_fire_one [OF up sd(3) Cons.prems(2) mem sd(1,2) n, of env] obtain s1 sd' where
    s1: "fire_one cr ops env sd s = (Inr (), s1)" "work s1 = durable s1" "now s1 = now s"
    "\<forall>i. i \<noteq> row_id sd \<longrightarrow> held (lock_key i) (now s) (redis s1) = held (lock_key i) (now s) (redis s)"
    "served (now s) sd sd'" "t_schedules (work s1) = put_row sd' (t_schedules (work s))" by blast
  have id: "row_id sd' = row_id sd" using s1(5) by (rule served_row)
  have new: "row_id x \<noteq> row_id sd" if "x \<in> set dl" for x
    using Cons.prems(1) that by (auto simp: image_iff)
  have same: "x = sd" if "x \<in> set (t_schedules (work s))" "row_id x = row_id sd" for x
    using Cons.prems(2) mem that by (metis distinct_map inj_onD)
  have sub: "set dl \<subseteq> set (t_schedules (work s1))"
  proof
    fix x assume x: "x \<in> set dl"
    with Cons.prems(4) new [OF x] id show "x \<in> set (t_schedules (work s1))"
      unfolding s1(6) put_row_def by (auto intro!: image_eqI [of _ _ x])
  qed
  have ready: "\<forall>x \<in> set dl. live x \<and> sd_enabled x \<and> (\<exists>n > now s1. compute_next_run_at cr x (now s1) = Inr n) \<and>
      \<not> held (lock_key (row_id x)) (now s1) (redis s1)"
    using Cons.prems(5) new s1(3,4) by auto
  have "distinct (map row_id dl)" "distinct (map row_id (t_schedules (work s1)))"
    using Cons.prems(1,2) s1(6) by simp_all
  from Cons.IH [OF this s1(2) sub ready] obtain s' where
    s': "mfor dl (\<lambda>sd. mcatch (fire_one cr ops env sd) (\<lambda>_. mret ())) s1 = (Inr (), s')" "work s' = durable s'" "now s' = now s1"
    "list_all2 (\<lambda>x x'. if x \<in> set dl then served (now s1) x x' else x' = x) (t_schedules (work s1)) (t_schedules (work s'))"
    by blast
  have "list_all2 (\<lambda>x x'. if x \<in> set (sd # dl) then served (now s) x x' else x' = x) (t_schedules (work s)) (t_schedules (work s'))"
    using s'(4) unfolding s1(6) put_row_def list_all2_map1
  proof (rule list.rel_mono_strong)
    fix x x' assume x: "x \<in> set (t_schedules (work s))"
      and r: "if (if row_id x = row_id sd' then sd' else x) \<in> set dl
        then served (now s1) (if row_id x = row_id sd' then sd' else x) x' else x' = (if row_id x = row_id sd' then sd' else x)"
    show "if x \<in> set (sd # dl) then served (now s) x x' else x' = x"
    proof (cases "x = sd")
      case True
      have "sd' \<notin> set dl" using new id by metis
      with True r id s1(5) show ?thesis by simp
    next
      case False
      with same [OF x] id have "row_id x \<noteq> row_id sd'" by auto
      with False r s1(3) show ?thesis by (auto split: if_splits)
    qed
  qed
  moreover have "mcatch (fire_one cr ops env sd) (\<lambda>_. mret ()) s = (Inr (), s1)"
    using s1(1) by (rule run_catch_Inr)
  then have "mfor (sd # dl) (\<lambda>sd. mcatch (fire_one cr ops env sd) (\<lambda>_. mret ())) s = (Inr (), s')"
    unfolding mfor.simps by (simp only: run_bind_Inr s'(1))
  ultimately show ?case using s'(2,3) s1(3) by (intro exI [of _ s'] conjI) (assumption | simp)+
qed


text \<open>Firing a schedule by hand is not like a tick when its workflow fails: the request's transaction is rolled back, so
  nothing is recorded, neither the failed run nor the attempt, and the next run is not advanced.\<close>

theorem failed_manual_trigger_leaves_no_trace:
  assumes "get_db (trigger_schedule_now cr env schedule_id) s = (Inl e, s')"
  shows "durable s' = durable s"
proof -
  have fired: "keeps (record_fired cr sd st run err) (durable_is D)" for sd st run err D
    unfolding record_fired_def set_next_run_def
    by (auto intro!: inv_intros keeps_save simp: Let_def)
  have "keeps (run_scheduled env sd) (durable_is D)" for sd D
    unfolding keeps_def
  proof (intro allI impI)
    fix x assume "durable_is D x"
    then have "schedule_frame (t_schedules (work x)) D (now x) (redis x) x" by (simp add: schedule_frame_def)
    then show "wp (run_scheduled env sd) (\<lambda>_. durable_is D) (\<lambda>_. durable_is D) x"
      by (rule wp_keeps [OF frame_run_scheduled]) (simp_all add: schedule_frame_def)
  qed
  then have "keeps (trigger_schedule_now cr env schedule_id) (durable_is (durable s))"
    unfolding trigger_schedule_now_def by (auto intro!: inv_intros fired split: prod.split)
  moreover obtain s'' where "trigger_schedule_now cr env schedule_id s = (Inl e, s'')" "durable s' = durable s''"
    using get_db_error_durable [OF assms] by blast
  ultimately show ?thesis using keepsD by fastforce
qed

subsection \<open>A concrete schedule\<close>

type_synonym mem_locks = "(string, time) pydict"

definition mem_lock_ops :: "mem_locks lock_ops" where
  "mem_lock_ops = \<lparr>set_nx_ex = (\<lambda>k ttl t r. case dict_get r k of
     Some u \<Rightarrow> if t < u then (Inr False, r) else (Inr True, dict_set r k (t + ttl))
   | None \<Rightarrow> (Inr True, dict_set r k (t + ttl)))\<rparr>"

definition mem_held :: "string \<Rightarrow> time \<Rightarrow> mem_locks \<Rightarrow> bool" where
  "mem_held k t r = (case dict_get r k of None \<Rightarrow> False | Some u \<Rightarrow> t < u)"

lemma mem_locks_up: "lock_server_up mem_lock_ops mem_held"
  by (auto simp: lock_server_up_def lock_server_ok_def mem_lock_ops_def mem_held_def split: option.splits if_splits)

definition demo_cron :: cron_ops where
  "demo_cron = \<lparr>cron_is_valid = (\<lambda>_. True), cron_get_next = (\<lambda>_ t. Inr (t + 3600))\<rparr>"

definition demo_schedule :: "uuid \<Rightarrow> int \<Rightarrow> time \<Rightarrow> workflow_schedule" where
  "demo_schedule i n t = new_schedule ''w1'' \<lparr>scr_schedule_type = SchedInterval, scr_cron_expression = None,
     scr_interval_seconds = Some n, scr_timezone = ''UTC'', scr_input_template = ''Hello'', scr_user_id = None,
     scr_enabled = True\<rparr> i 0 \<lparr>sd_next_run_at := Some t\<rparr>"

definition demo_schedule_db :: db where
  "demo_schedule_db = demo_workflow_db\<lparr>t_schedules := [demo_schedule ''sd1'' 30 5, demo_schedule ''sd2'' 3600 50]\<rparr>"

definition demo_schedule_sess :: "mem_locks sess" where
  "demo_schedule_sess = \<lparr>work = demo_schedule_db, durable = demo_schedule_db, now = 7, seed = 0, redis = []\<rparr>"

theorem long_run_fired_twice_witness:
  "\<exists>w. (tick_step demo_cron mem_lock_ops demo_engine)\<^sup>*\<^sup>* (tick_start (empty_db\<lparr>t_schedules := [demo_schedule ''sd1'' 30 5]\<rparr>) [] 5 0) w \<and>
    tw_firing w 0 = Some (demo_schedule ''sd1'' 30 5, 5) \<and> tw_firing w 1 = Some (demo_schedule ''sd1'' 30 5, 65)"
  using long_run_fired_twice [OF mem_locks_up, of "empty_db\<lparr>t_schedules := [demo_schedule ''sd1'' 30 5]\<rparr>" "demo_schedule ''sd1'' 30 5" 5 "[]" demo_cron demo_engine 0]
  by (auto simp: is_due_def live_def demo_schedule_def new_schedule_def mem_held_def lock_ttl_def)

theorem triggers_spaced_witness:
  "\<exists>w. (tick_step demo_cron mem_lock_ops demo_engine)\<^sup>*\<^sup>* (tick_start (empty_db\<lparr>t_schedules := [demo_schedule ''sd1'' 30 5]\<rparr>) [] 5 0) w \<and>
    tw_log w = [(''sd1'', 5)] \<and> sorted_wrt apart (tw_log w)"
proof -
  let ?d = "empty_db\<lparr>t_schedules := [demo_schedule ''sd1'' 30 5]\<rparr>"
  let ?w0 = "tick_start ?d [] 5 0 :: mem_locks tick_world"
  let ?w1 = "?w0\<lparr>tw_due := (tw_due ?w0)(0 := list_due (tw_now ?w0) (tw_db ?w0))\<rparr>"
  have due: "tw_due ?w1 0 = [demo_schedule ''sd1'' 30 5]"
    by (simp add: tick_start_def list_due_def is_due_def live_def demo_schedule_def new_schedule_def)
  have set: "set_nx_ex mem_lock_ops (lock_key (row_id (demo_schedule ''sd1'' 30 5))) lock_ttl (tw_now ?w1) (tw_redis ?w1)
      = (Inr True, [(lock_key ''sd1'', 65)])"
    by (simp add: mem_lock_ops_def tick_start_def demo_schedule_def new_schedule_def lock_ttl_def)
  have "tick_step demo_cron mem_lock_ops demo_engine ?w0 ?w1" by (rule poll) (simp_all add: tick_start_def)
  moreover note won [OF due _ set, of demo_cron demo_engine]
  ultimately have "(tick_step demo_cron mem_lock_ops demo_engine)\<^sup>*\<^sup>* ?w0 (?w1\<lparr>tw_redis := [(lock_key ''sd1'', 65)], tw_due := (tw_due ?w1)(0 := []),
      tw_firing := (tw_firing ?w1)(0 := Some (demo_schedule ''sd1'' 30 5, tw_now ?w1)),
      tw_log := (row_id (demo_schedule ''sd1'' 30 5), tw_now ?w1) # tw_log ?w1\<rparr>)" (is "_\<^sup>*\<^sup>* _ ?w2")
    by (auto simp: tick_start_def intro: rtranclp.rtrancl_into_rtrancl)
  moreover have "lock_server_ok mem_lock_ops mem_held" using mem_locks_up by (simp add: lock_server_up_def)
  moreover have "tw_log ?w2 = [(''sd1'', 5)]" by (simp add: tick_start_def demo_schedule_def new_schedule_def)
  ultimately show ?thesis using triggers_spaced [of mem_lock_ops mem_held] by blast
qed


lemma demo_manual_fails:
  "isl (fst (get_db (trigger_schedule_now demo_cron demo_workflow_engine ''sd1'') demo_schedule_sess))"
  by code_simp

theorem failed_manual_trigger_leaves_no_trace_witness:
  "\<exists>e s'. get_db (trigger_schedule_now demo_cron demo_workflow_engine ''sd1'') demo_schedule_sess = (Inl e, s') \<and> durable s' = demo_schedule_db"
proof -
  obtain e s' where e: "get_db (trigger_schedule_now demo_cron demo_workflow_engine ''sd1'') demo_schedule_sess = (Inl e, s')"
    using demo_manual_fails by (metis isl_def prod.collapse)
  from failed_manual_trigger_leaves_no_trace [OF e] e show ?thesis by (simp add: demo_schedule_sess_def)
qed

end
