(* ===== verification/Webhook.thy ===== *)
theory Webhook
  imports Schedule
begin

text \<open>
  Webhooks: an external caller starts a workflow by an opaque token (\<open>app/webhooks/service.py\<close>,
  \<open>app/repositories/workflow_webhook_repository.py\<close>, \<open>app/api/v1/workflow_webhooks.py\<close>). The keyed hash, the JSON
  reader and Python's text of a float are parameters; \<open>json.dumps\<close> is written out.
\<close>

subsection \<open>\<open>json.dumps(x, ensure_ascii=False)\<close>\<close>

definition hex_digit :: "nat \<Rightarrow> char" where
  "hex_digit n = ''0123456789abcdef'' ! n"

definition escape_char :: "char \<Rightarrow> string" where
  "escape_char c =
     (if c = CHR 0x22 then [CHR 0x5C, CHR 0x22]
      else if c = CHR 0x5C then [CHR 0x5C, CHR 0x5C]
      else if c = CHR 0x0A then [CHR 0x5C, CHR ''n'']
      else if c = CHR 0x0D then [CHR 0x5C, CHR ''r'']
      else if c = CHR 0x09 then [CHR 0x5C, CHR ''t'']
      else if c = CHR 0x0C then [CHR 0x5C, CHR ''f'']
      else if c = CHR 0x08 then [CHR 0x5C, CHR ''b'']
      else if (of_char c :: nat) < 32
      then [CHR 0x5C, CHR ''u'', CHR ''0'', CHR ''0'', hex_digit (of_char c div 16), hex_digit (of_char c mod 16)]
      else [c])"

definition dumps_str :: "string \<Rightarrow> string" where
  "dumps_str s = [CHR 0x22] @ concat (map escape_char s) @ [CHR 0x22]"

fun json_dumps :: "(real \<Rightarrow> string) \<Rightarrow> json \<Rightarrow> string" where
  "json_dumps fl JNull = ''null''"
| "json_dumps fl (JBool b) = (if b then ''true'' else ''false'')"
| "json_dumps fl (JInt i) = str_int i"
| "json_dumps fl (JFloat r) = fl r"
| "json_dumps fl (JStr s) = dumps_str s"
| "json_dumps fl (JList xs) = ''['' @ join_str '', '' (map (json_dumps fl) xs) @ '']''"
| "json_dumps fl (JObj kvs) = ''{'' @ join_str '', '' (map (\<lambda>(k, v). dumps_str k @ '': '' @ json_dumps fl v) kvs) @ ''}''"

subsection \<open>Signature and input\<close>

record webhook_ops =
  wo_hmac :: "string \<Rightarrow> string \<Rightarrow> string"
  wo_loads :: "string \<Rightarrow> json option"
  wo_float :: "real \<Rightarrow> string"
  wo_token :: "nat \<Rightarrow> string"

definition is_ascii :: "string \<Rightarrow> bool" where
  "is_ascii s = list_all (\<lambda>c. (of_char c :: nat) < 128) s"

text \<open>\<open>hmac.compare_digest\<close> of two strings raises a \<open>TypeError\<close> when one of them is not ASCII; the expected digest is
  hexadecimal.\<close>

definition verify_signature :: "webhook_ops \<Rightarrow> string \<Rightarrow> string \<Rightarrow> string option \<Rightarrow> app_error + bool" where
  "verify_signature ops secret raw_body signature_header =
     (case signature_header of
        None \<Rightarrow> Inr False
      | Some sig \<Rightarrow>
          if sig = [] then Inr False
          else if \<not> is_ascii sig
          then Inl (mk_error (PyException ''TypeError'') ''comparing strings with non-ASCII characters is not supported'')
          else Inr (wo_hmac ops secret raw_body = sig))"

text \<open>\<open>field_path.split('.')\<close>.\<close>

fun split_on :: "char \<Rightarrow> string \<Rightarrow> string list" where
  "split_on c [] = [[]]"
| "split_on c (x # xs) =
     (if x = c then [] # split_on c xs
      else case split_on c xs of [] \<Rightarrow> [[x]] | w # ws \<Rightarrow> (x # w) # ws)"

fun resolve_path :: "json \<Rightarrow> string list \<Rightarrow> json option" where
  "resolve_path node [] = Some node"
| "resolve_path (JObj kvs) (p # ps) = (case dict_get kvs p of Some v \<Rightarrow> resolve_path v ps | None \<Rightarrow> None)"
| "resolve_path node (p # ps) = None"

fun is_container :: "json \<Rightarrow> bool" where
  "is_container (JObj _) = True"
| "is_container (JList _) = True"
| "is_container _ = False"

definition node_text :: "webhook_ops \<Rightarrow> json \<Rightarrow> string" where
  "node_text ops node =
     (if is_container node then json_dumps (wo_float ops) node
      else py_str (\<lambda>j. case j of JFloat r \<Rightarrow> wo_float ops r | _ \<Rightarrow> []) node)"

definition extract_input :: "webhook_ops \<Rightarrow> json \<Rightarrow> string option \<Rightarrow> string" where
  "extract_input ops body field_path =
     (if \<not> truthy_str field_path then json_dumps (wo_float ops) body
      else case resolve_path body (split_on (CHR ''.'') (the field_path)) of
             None \<Rightarrow> json_dumps (wo_float ops) body
           | Some node \<Rightarrow> node_text ops node)"

subsection \<open>The webhook service\<close>

record webhook_create =
  wc_input_field_path :: "string option"
  wc_allowed_source_ips :: "string list option"
  wc_user_id :: "string option"
  wc_enabled :: bool
  wc_secret :: "string option"

record webhook_update =
  wu_secret :: "string option"
  wu_input_field_path :: "string option"
  wu_allowed_source_ips :: "string list option"
  wu_user_id :: "string option"
  wu_enabled :: "bool option"

definition get_by_token :: "string \<Rightarrow> db \<Rightarrow> app_error + workflow_webhook option" where
  "get_by_token token d = scalar_one_or_none (filter (\<lambda>w. wh_webhook_token w = token \<and> live w) (t_webhooks d))"

definition generate_token :: "webhook_ops \<Rightarrow> ('r sess, string) prog" where
  "generate_token ops = (\<lambda>s. (Inr (wo_token ops (seed s)), s\<lparr>seed := Suc (seed s)\<rparr>))"

definition new_webhook :: "uuid \<Rightarrow> string \<Rightarrow> webhook_create \<Rightarrow> uuid \<Rightarrow> time \<Rightarrow> workflow_webhook" where
  "new_webhook workflow_id token p i t =
     \<lparr>row_id = i, created_at = t, deleted_at = None, wh_workflow_id = workflow_id, wh_webhook_token = token,
      wh_secret = wc_secret p, wh_input_field_path = wc_input_field_path p, wh_allowed_source_ips = wc_allowed_source_ips p,
      wh_user_id = wc_user_id p, wh_enabled = wc_enabled p\<rparr>"

definition same_token :: "workflow_webhook \<Rightarrow> workflow_webhook \<Rightarrow> bool" where
  "same_token w x = (wh_webhook_token w = wh_webhook_token x)"

definition create_webhook :: "webhook_ops \<Rightarrow> uuid \<Rightarrow> webhook_create \<Rightarrow> ('r sess, workflow_webhook) prog" where
  "create_webhook ops workflow_id p =
     mbind (mlift (\<lambda>s. repo_get workflow_id (t_workflows (work s)))) (\<lambda>w.
     if w = None then mraise (mk_error NotFoundError (''Workflow '' @ workflow_id @ '' not found''))
     else mbind (generate_token ops) (\<lambda>token.
       repo_create t_webhooks t_webhooks_update same_token (new_webhook workflow_id token p)))"

definition update_webhook :: "uuid \<Rightarrow> webhook_update \<Rightarrow> ('r sess, workflow_webhook) prog" where
  "update_webhook webhook_id p =
     mbind (mlift (\<lambda>s. repo_get_or_404 ''WorkflowWebhook'' webhook_id (t_webhooks (work s)))) (\<lambda>w.
       repo_save t_webhooks_update
         (set_if (wu_secret p) (\<lambda>v. wh_secret_update (\<lambda>_. Some v))
         (set_if (wu_input_field_path p) (\<lambda>v. wh_input_field_path_update (\<lambda>_. Some v))
         (set_if (wu_allowed_source_ips p) (\<lambda>v. wh_allowed_source_ips_update (\<lambda>_. Some v))
         (set_if (wu_user_id p) (\<lambda>v. wh_user_id_update (\<lambda>_. Some v))
         (set_if (wu_enabled p) (\<lambda>v. wh_enabled_update (\<lambda>_. v)) w))))))"

definition list_webhooks :: "uuid \<Rightarrow> nat \<Rightarrow> nat \<Rightarrow> db \<Rightarrow> workflow_webhook list \<times> nat" where
  "list_webhooks workflow_id offset limit d =
     repo_list offset limit [Some (\<lambda>w. wh_workflow_id w = workflow_id)] (t_webhooks d)"

definition delete_webhook :: "uuid \<Rightarrow> ('r sess, unit) prog" where
  "delete_webhook webhook_id =
     mbind (mlift (\<lambda>s. repo_get_or_404 ''WorkflowWebhook'' webhook_id (t_webhooks (work s)))) (\<lambda>w.
     mbind (repo_soft_delete t_webhooks_update w) (\<lambda>_. mret ()))"

text \<open>\<open>json.loads(raw_body or b'{}')\<close>, made an object.\<close>

definition webhook_body :: "webhook_ops \<Rightarrow> string \<Rightarrow> json" where
  "webhook_body ops raw_body =
     (case wo_loads ops (if raw_body = [] then ''{}'' else raw_body) of
        None \<Rightarrow> JObj []
      | Some b \<Rightarrow> if is_JObj b then b else JObj [(''value'', b)])"

definition not_allowed :: app_error where
  "not_allowed = mk_error ValidationFailedError ''Source IP not allowed for this webhook''"

definition bad_signature :: app_error where
  "bad_signature = mk_error ValidationFailedError ''Invalid or missing webhook signature''"

definition webhook_not_found :: app_error where
  "webhook_not_found = mk_error NotFoundError ''Webhook not found or disabled''"

definition trigger ::
  "webhook_ops \<Rightarrow> engine_env \<Rightarrow> string \<Rightarrow> string \<Rightarrow> string option \<Rightarrow> string option
     \<Rightarrow> ('r sess, workflow_run \<times> string) prog" where
  "trigger ops env token raw_body source_ip signature_header =
     mbind (mlift (\<lambda>s. get_by_token token (work s))) (\<lambda>found. case found of
       None \<Rightarrow> mraise webhook_not_found
     | Some w \<Rightarrow>
         if \<not> wh_enabled w then mraise webhook_not_found
         else if (case wh_allowed_source_ips w of None \<Rightarrow> False | Some ips \<Rightarrow>
                    ips \<noteq> [] \<and> (case source_ip of None \<Rightarrow> True | Some a \<Rightarrow> a \<notin> set ips))
         then mraise not_allowed
         else mbind (mlift (\<lambda>_. if truthy_str (wh_secret w)
                               then verify_signature ops (the (wh_secret w)) raw_body signature_header else Inr True)) (\<lambda>ok.
           if \<not> ok then mraise bad_signature
           else mbind (mlift (\<lambda>_. workflow_run_request (extract_input ops (webhook_body ops raw_body) (wh_input_field_path w))
                                    (wh_user_id w))) (\<lambda>rq.
             run_workflow env (wh_workflow_id w) rq)))"

definition invoke_webhook ::
  "bool \<Rightarrow> webhook_ops \<Rightarrow> engine_env \<Rightarrow> string \<Rightarrow> string \<Rightarrow> string option \<Rightarrow> string option \<Rightarrow> ('r sess, uuid \<times> string) prog" where
  "invoke_webhook feature ops env token raw_body source_ip signature_header =
     (if \<not> feature then mraise (mk_error NotFoundError ''Workflow Webhooks is not enabled on this deployment'')
      else mbind (trigger ops env token raw_body source_ip signature_header) (\<lambda>(run, res).
        mret (row_id run, workflow_status_value (wr_status run))))"

text \<open>The path the read model advertises.\<close>

definition invoke_path :: "workflow_webhook \<Rightarrow> string" where
  "invoke_path w = ''/webhooks/'' @ wh_webhook_token w"

subsection \<open>Properties\<close>

text \<open>What the caller of a webhook must show.\<close>

definition admits :: "webhook_ops \<Rightarrow> workflow_webhook \<Rightarrow> string \<Rightarrow> string option \<Rightarrow> string option \<Rightarrow> bool" where
  "admits ops w raw_body source_ip signature_header \<longleftrightarrow> wh_enabled w \<and>
     (\<forall>ips. wh_allowed_source_ips w = Some ips \<and> ips \<noteq> [] \<longrightarrow> source_ip \<in> Some ` set ips) \<and>
     (\<forall>k. wh_secret w = Some k \<and> k \<noteq> [] \<longrightarrow> signature_header = Some (wo_hmac ops k raw_body) \<and> wo_hmac ops k raw_body \<noteq> [])"

lemma verify_signature_True: "verify_signature ops k raw_body sig = Inr True \<longleftrightarrow>
    sig = Some (wo_hmac ops k raw_body) \<and> wo_hmac ops k raw_body \<noteq> [] \<and> is_ascii (wo_hmac ops k raw_body)"
  by (auto simp: verify_signature_def split: option.splits)

text \<open>C22. A webhook only acts for a caller it admits: live, enabled, with the token, from an allowed address and with a valid
  signature over the very bytes that were sent. Then it runs exactly its own workflow, as its own user, on the input extracted from the
  body; otherwise the call fails and changes nothing.\<close>

theorem webhook_guarded:
  assumes "\<forall>k. is_ascii (wo_hmac ops k raw_body)"
  shows "(case get_by_token token (work s) of
     Inr (Some w) \<Rightarrow>
       if admits ops w raw_body ip sig
       then (let input_text = extract_input ops (webhook_body ops raw_body) (wh_input_field_path w) in
             trigger ops env token raw_body ip sig s =
               (if input_text = [] then (Inl (mk_error (PyException ''ValidationError'') ''String should have at least 1 character''), s)
                else run_workflow env (wh_workflow_id w) \<lparr>wq_input = input_text, wq_session_id = None, wq_user_id = wh_user_id w\<rparr> s))
       else \<exists>e. trigger ops env token raw_body ip sig s = (Inl e, s)
   | _ \<Rightarrow> \<exists>e. trigger ops env token raw_body ip sig s = (Inl e, s))"
proof (cases "get_by_token token (work s)")
  case (Inl e)
  then show ?thesis by (simp add: trigger_def)
next
  case (Inr found)
  show ?thesis
  proof (cases found)
    case None
    with Inr show ?thesis by (simp add: trigger_def)
  next
    case (Some w)
    note found = Inr [unfolded Some]
    let ?blocked = "case wh_allowed_source_ips w of None \<Rightarrow> False | Some ips \<Rightarrow>
                    ips \<noteq> [] \<and> (case ip of None \<Rightarrow> True | Some a \<Rightarrow> a \<notin> set ips)"
    let ?check = "if truthy_str (wh_secret w) then verify_signature ops (the (wh_secret w)) raw_body sig else Inr True"
    have admits: "admits ops w raw_body ip sig \<longleftrightarrow> wh_enabled w \<and> \<not> ?blocked \<and> ?check = Inr True"
      using assms verify_signature_True [of ops "the (wh_secret w)" raw_body sig]
      by (cases "wh_secret w"; cases "wh_allowed_source_ips w"; cases ip) (auto simp: admits_def image_iff)
    have step: "trigger ops env token raw_body ip sig s = (if \<not> wh_enabled w then (Inl webhook_not_found, s)
        else if ?blocked then (Inl not_allowed, s)
        else case ?check of Inl e \<Rightarrow> (Inl e, s) | Inr ok \<Rightarrow> if \<not> ok then (Inl bad_signature, s)
          else case workflow_run_request (extract_input ops (webhook_body ops raw_body) (wh_input_field_path w)) (wh_user_id w) of
            Inl e \<Rightarrow> (Inl e, s) | Inr rq \<Rightarrow> run_workflow env (wh_workflow_id w) rq s)"
      using found by (simp add: trigger_def split: sum.splits)
    show ?thesis
    proof (cases "admits ops w raw_body ip sig")
      case True
      with admits found step show ?thesis by (simp add: Let_def workflow_run_request_def)
    next
      case False
      with admits have "\<exists>e. trigger ops env token raw_body ip sig s = (Inl e, s)"
        unfolding step by (auto split: sum.splits if_splits)
      with False found show ?thesis by simp
    qed
  qed
qed

subsubsection \<open>Extraction\<close>

lemma split_on_join:
  "ps \<noteq> [] \<Longrightarrow> \<forall>p \<in> set ps. c \<notin> set p \<Longrightarrow> split_on c (join_str [c] ps) = ps"
proof (induction "[c]" ps rule: join_str.induct)
  case (2 x)
  have "c \<notin> set x \<Longrightarrow> split_on c x = [x]" for x by (induction x) auto
  with 2 show ?case by simp
next
  case (3 x y zs)
  have "c \<notin> set x \<Longrightarrow> split_on c (x @ c # r) = x # split_on c r" for x r by (induction x) auto
  with 3 show ?case by simp
qed simp

text \<open>A value below a chain of keys.\<close>

fun nested :: "string list \<Rightarrow> json \<Rightarrow> json" where
  "nested [] v = v"
| "nested (p # ps) v = JObj [(p, nested ps v)]"

lemma resolve_nested: "resolve_path (nested ps v) ps = Some v"
  by (induction ps) auto

text \<open>The dotted path finds what lies under it: for keys without dots the extracted input is the text of the value that was put there,
  a string as it is, an object or a list as its own JSON and not, as documented, that of the whole body. A path
  that leads nowhere gives the whole body.\<close>

theorem extract_roundtrip:
  assumes "ps \<noteq> []" "ps \<noteq> [[]]" "\<forall>p \<in> set ps. CHR ''.'' \<notin> set p"
  shows "extract_input ops (nested ps v) (Some (join_str ''.'' ps)) = node_text ops v \<and>
    (resolve_path body ps = None \<longrightarrow> extract_input ops body (Some (join_str ''.'' ps)) = json_dumps (wo_float ops) body)"
proof -
  have "join_str ''.'' ps \<noteq> []"
    using assms(1,2) by (cases "(''.'', ps)" rule: join_str.cases) auto
  with assms show ?thesis by (simp add: extract_input_def split_on_join resolve_nested)
qed

text \<open>A webhook does not always degrade gracefully: when the path leads to an empty string, an admitted call is
  refused with an exception that no handler knows, and an empty string is the one input that does so.\<close>

theorem empty_input_raises:
  assumes "get_by_token token (work s) = Inr (Some w)" "admits ops w raw_body ip sig" "\<forall>k. is_ascii (wo_hmac ops k raw_body)"
    and "wh_input_field_path w = Some p" "p \<noteq> []" "CHR ''.'' \<notin> set p" "wo_loads ops raw_body = Some (JObj [(p, JStr t)])" "raw_body \<noteq> []"
  shows "(t = [] \<longrightarrow> (\<exists>e. trigger ops env token raw_body ip sig s = (Inl e, s) \<and> agno_runtime_error_handler e c = None)) \<and>
    (t \<noteq> [] \<longrightarrow> trigger ops env token raw_body ip sig s =
       run_workflow env (wh_workflow_id w) \<lparr>wq_input = t, wq_session_id = None, wq_user_id = wh_user_id w\<rparr> s)"
proof -
  have "extract_input ops (webhook_body ops raw_body) (wh_input_field_path w) = t"
    using assms(4-8) split_on_join [of "[p]" "CHR ''.''"]
    by (simp add: extract_input_def webhook_body_def node_text_def)
  moreover have "agno_runtime_error_handler (mk_error (PyException ''ValidationError'') m) c = None" for m
    by (simp add: agno_runtime_error_handler_def mk_error_def)
  ultimately show ?thesis
    using webhook_guarded [OF assms(3), where token = token and s = s and ip = ip and sig = sig and env = env] assms(1,2) by (auto simp: Let_def)
qed

text \<open>An update can set or replace a secret but not take it away.\<close>

lemma secret_sticks:
  "update_webhook i p s = (Inr w, s') \<Longrightarrow> repo_get_or_404 ''WorkflowWebhook'' i (t_webhooks (work s)) = Inr w0 \<Longrightarrow>
     wh_secret w0 \<noteq> None \<Longrightarrow> wh_secret w \<noteq> None"
  by (cases "wu_secret p"; cases "wu_input_field_path p"; cases "wu_allowed_source_ips p"; cases "wu_user_id p"; cases "wu_enabled p")
    (auto simp: update_webhook_def run_save)

subsection \<open>A concrete webhook\<close>

definition demo_webhook_ops :: webhook_ops where
  "demo_webhook_ops = \<lparr>wo_hmac = (\<lambda>k b. ''ab''), wo_loads = (\<lambda>b. if b = ''m'' then Some (JObj [(''message'', JStr ''Hello'')])
     else if b = ''e'' then Some (JObj [(''message'', JStr [])]) else None),
     wo_float = (\<lambda>_. ''0.0''), wo_token = (\<lambda>n. ''tok'')\<rparr>"

definition demo_webhook :: workflow_webhook where
  "demo_webhook = new_webhook ''w1'' ''tok'' \<lparr>wc_input_field_path = Some ''message'', wc_allowed_source_ips = Some [''10.0.0.1''],
     wc_user_id = Some ''svc'', wc_enabled = True, wc_secret = Some ''key''\<rparr> ''h1'' 0"

definition demo_webhook_sess :: "unit sess" where
  "demo_webhook_sess = \<lparr>work = demo_workflow_db\<lparr>t_webhooks := [demo_webhook]\<rparr>, durable = demo_workflow_db\<lparr>t_webhooks := [demo_webhook]\<rparr>,
     now = 7, seed = 0, redis = ()\<rparr>"

lemma demo_webhook_facts:
  "get_by_token ''tok'' (work demo_webhook_sess) = Inr (Some demo_webhook)"
  "admits demo_webhook_ops demo_webhook b (Some ''10.0.0.1'') (Some ''ab'')"
  "\<not> admits demo_webhook_ops demo_webhook b (Some ''10.0.0.2'') (Some ''ab'')"
  "is_ascii (wo_hmac demo_webhook_ops k b)"
  "wh_input_field_path demo_webhook = Some ''message''" "wh_workflow_id demo_webhook = ''w1''" "wh_user_id demo_webhook = Some ''svc''"
  by (simp_all add: demo_webhook_sess_def get_by_token_def demo_webhook_def new_webhook_def live_def admits_def demo_webhook_ops_def is_ascii_def)

theorem webhook_guarded_witness:
  "trigger demo_webhook_ops demo_engine ''tok'' ''m'' (Some ''10.0.0.1'') (Some ''ab'') demo_webhook_sess =
     run_workflow demo_engine ''w1'' \<lparr>wq_input = ''Hello'', wq_session_id = None, wq_user_id = Some ''svc''\<rparr> demo_webhook_sess \<and>
   (\<exists>e. trigger demo_webhook_ops demo_engine ''tok'' ''m'' (Some ''10.0.0.2'') (Some ''ab'') demo_webhook_sess = (Inl e, demo_webhook_sess))"
proof -
  have "extract_input demo_webhook_ops (webhook_body demo_webhook_ops ''m'') (Some ''message'') = ''Hello''" by code_simp
  then show ?thesis
    using webhook_guarded [where ops = demo_webhook_ops and raw_body = "''m''" and token = "''tok''" and s = demo_webhook_sess
        and ip = "Some ''10.0.0.1''" and sig = "Some ''ab''" and env = demo_engine]
      webhook_guarded [where ops = demo_webhook_ops and raw_body = "''m''" and token = "''tok''" and s = demo_webhook_sess
        and ip = "Some ''10.0.0.2''" and sig = "Some ''ab''" and env = demo_engine]
    by (simp add: demo_webhook_facts Let_def)
qed

theorem extract_roundtrip_witness:
  "extract_input demo_webhook_ops (nested [''data'', ''text''] (JStr ''Hi'')) (Some ''data.text'') = ''Hi'' \<and>
   extract_input demo_webhook_ops (JObj []) (Some ''data.text'') = ''{}''"
  using extract_roundtrip [of "[''data'', ''text'']" demo_webhook_ops "JStr ''Hi''" "JObj []"] by (simp add: node_text_def)

theorem empty_input_raises_witness:
  "\<exists>e. trigger demo_webhook_ops demo_engine ''tok'' ''e'' (Some ''10.0.0.1'') (Some ''ab'') demo_webhook_sess = (Inl e, demo_webhook_sess) \<and>
     agno_runtime_error_handler e None = None"
  using empty_input_raises [of "''tok''" demo_webhook_sess demo_webhook demo_webhook_ops "''e''" "Some ''10.0.0.1''" "Some ''ab''" "''message''" "[]"
      demo_engine None]
  by (simp add: demo_webhook_facts) (simp add: demo_webhook_ops_def)

end
