(* ===== verification/Registry.thy ===== *)
theory Registry
  imports Webhook
begin

text \<open>
  The versioned registries: prompts, business objects and UI metadata (their repositories and the routers
  \<open>app/api/v1/prompts.py\<close>, \<open>business_objects.py\<close> and \<open>ui_metadata.py\<close>, which hold the logic), the model registry
  (\<open>app/api/v1/models.py\<close>) and the context block built from UI metadata (\<open>app/uicontext/service.py\<close>). How versions
  are numbered is shared: the locale \<open>versioned_registry\<close> states it once and is interpreted on all three.
\<close>

subsection \<open>The numbering of versions\<close>

text \<open>\<open>ORDER BY version DESC LIMIT 1\<close>; among equals, which version numbers of one code do not have, the oldest row.\<close>

definition by_version :: "('a \<Rightarrow> int) \<Rightarrow> 'a list \<Rightarrow> 'a list" where
  "by_version v rows = sort_key (\<lambda>r. - v r) rows"

definition latest :: "('a \<Rightarrow> int) \<Rightarrow> 'a list \<Rightarrow> 'a option" where
  "latest v rows = (case by_version v rows of [] \<Rightarrow> None | r # _ \<Rightarrow> Some r)"

lemma latest_None: "latest v rows = None \<longleftrightarrow> rows = []"
proof -
  have "by_version v rows = [] \<longleftrightarrow> rows = []" unfolding by_version_def by (metis set_empty set_sort)
  then show ?thesis by (cases "by_version v rows") (auto simp: latest_def)
qed

lemma latest_Some:
  assumes "latest v rows = Some r"
  shows "r \<in> set rows \<and> (\<forall>x \<in> set rows. v x \<le> v r)"
proof -
  obtain rs where rs: "by_version v rows = r # rs"
    using assms by (auto simp: latest_def split: list.splits)
  have "sorted (map (\<lambda>r. - v r) (r # rs))" unfolding rs [symmetric] by_version_def by (rule sorted_sort_key)
  then have "\<forall>x \<in> set (r # rs). v x \<le> v r" by auto
  moreover have "set rows = set (r # rs)" by (metis rs by_version_def set_sort)
  ultimately show ?thesis by simp
qed

text \<open>
  What the numbering relies on. A registry keeps rows with a code (or a code and a kind) as their \<open>slot\<close>; the next
  version of a slot is one more than the highest version of its rows that are not soft-deleted.
\<close>

locale versioned_registry =
  fixes rows :: "db \<Rightarrow> ('a soft_row_scheme) list"
    and slot :: "('a soft_row_scheme) \<Rightarrow> 'k"
    and version :: "('a soft_row_scheme) \<Rightarrow> int"
    and next_version :: "'k \<Rightarrow> db \<Rightarrow> int"
  assumes next_empty: "(\<forall>r \<in> set (rows d). live r \<longrightarrow> slot r \<noteq> k) \<Longrightarrow> next_version k d = 1"
    and next_top: "r \<in> set (rows d) \<Longrightarrow> live r \<Longrightarrow> slot r = k \<Longrightarrow> 1 \<le> version r \<Longrightarrow>
      (\<forall>x \<in> set (rows d). live x \<and> slot x = k \<longrightarrow> version x \<le> version r) \<Longrightarrow> next_version k d = version r + 1"
begin

definition versions :: "'k \<Rightarrow> db \<Rightarrow> int set" where
  "versions k d = version ` {r \<in> set (rows d). slot r = k}"

text \<open>The versions of a slot, those of soft-deleted rows included, are 1 to \<open>n\<close>.\<close>

definition numbered :: "'k \<Rightarrow> nat \<Rightarrow> db \<Rightarrow> bool" where
  "numbered k n d \<longleftrightarrow> versions k d = {1..int n}"

text \<open>The row of the highest version is not deleted.\<close>

definition top_live :: "'k \<Rightarrow> nat \<Rightarrow> db \<Rightarrow> bool" where
  "top_live k n d \<longleftrightarrow> n = 0 \<or> (\<exists>r \<in> set (rows d). live r \<and> slot r = k \<and> version r = int n)"

lemma next_cases:
  assumes "numbered k n d"
  shows "if top_live k n d then next_version k d = int n + 1 else 1 \<le> next_version k d \<and> next_version k d \<le> int n"
proof -
  let ?live = "filter (\<lambda>r. live r \<and> slot r = k) (rows d)"
  have range: "1 \<le> version r \<and> version r \<le> int n" if "r \<in> set (rows d)" "slot r = k" for r
    using assms that by (auto simp: numbered_def versions_def)
  show ?thesis
  proof (cases "?live = []")
    case True
    then have one: "next_version k d = 1" by (intro next_empty) (auto simp: filter_empty_conv)
    show ?thesis
    proof (cases "n = 0")
      case False
      with True have "\<not> top_live k n d" by (auto simp: top_live_def filter_empty_conv)
      with one False show ?thesis by simp
    qed (simp add: one top_live_def)
  next
    case False
    then obtain r where r: "latest version ?live = Some r" by (metis latest_None option.exhaust)
    note top = latest_Some [OF r]
    then have mem: "r \<in> set (rows d)" "live r" "slot r = k" by auto
    have "next_version k d = version r + 1"
      using mem range [OF mem(1,3)] top by (intro next_top) auto
    moreover have "top_live k n d \<longleftrightarrow> version r = int n"
    proof
      assume "version r = int n"
      with mem show "top_live k n d" by (auto simp: top_live_def)
    next
      assume "top_live k n d"
      moreover have "n \<noteq> 0" using range [OF mem(1,3)] by auto
      ultimately obtain x where "x \<in> set ?live" "version x = int n" by (auto simp: top_live_def)
      with top range [OF mem(1,3)] show "version r = int n" by force
    qed
    moreover have "version r \<le> int n" "1 \<le> version r" using range [OF mem(1,3)] by auto
    ultimately show ?thesis by auto
  qed
qed

text \<open>A new version clashes with an old one exactly when the highest version is deleted.\<close>

lemma next_free_iff: "numbered k n d \<Longrightarrow> next_version k d \<notin> versions k d \<longleftrightarrow> top_live k n d"
  using next_cases [of k n d] by (auto simp: numbered_def split: if_splits)

lemma numbered_append:
  "numbered k n d \<Longrightarrow> top_live k n d \<Longrightarrow> rows d' = rows d @ [r] \<Longrightarrow> slot r = k \<Longrightarrow> version r = next_version k d \<Longrightarrow>
     numbered k (Suc n) d'"
  using next_cases [of k n d] by (auto simp: numbered_def versions_def Collect_disj_eq conj_disj_distribR image_Un)

lemma top_live_append: "numbered k n d \<Longrightarrow> top_live k n d \<Longrightarrow> rows d' = rows d @ [r] \<Longrightarrow> slot r = k \<Longrightarrow>
    version r = next_version k d \<Longrightarrow> live r \<Longrightarrow> top_live k (Suc n) d'"
  using next_cases [of k n d] by (auto simp: top_live_def)

text \<open>Creating a row of a slot: it clashes with an existing row of the same slot and version.\<close>

lemma create_cases:
  assumes "numbered k n (work s)" "\<And>r x. clash r x = (slot r = slot x \<and> version r = version x)"
    "\<And>d f. rows (upd f d) = f (rows d)"
    "\<And>i t. slot (mk i t) = k" "\<And>i t. version (mk i t) = next_version k (work s)" "\<And>i t. live (mk i t)"
  shows "if top_live k n (work s)
     then \<exists>r s'. repo_create rows upd clash mk s = (Inr r, s') \<and> slot r = k \<and> version r = int n + 1 \<and> rows (work s') = rows (work s) @ [r] \<and>
       numbered k (Suc n) (work s') \<and> top_live k (Suc n) (work s')
     else \<exists>s'. repo_create rows upd clash mk s = (Inl integrity_error, s') \<and> work s' = work s"
proof -
  let ?r = "mk (new_uuid (seed s)) (now s)"
  have hit: "list_ex (clash ?r) (rows (work s)) \<longleftrightarrow> next_version k (work s) \<in> versions k (work s)"
    by (auto simp: list_ex_iff assms versions_def)
  show ?thesis
  proof (cases "top_live k n (work s)")
    case True
    with next_free_iff [OF assms(1)] hit have "\<not> list_ex (clash ?r) (rows (work s))" by simp
    then have run: "repo_create rows upd clash mk s = (Inr ?r, s\<lparr>seed := Suc (seed s), work := upd (\<lambda>rs. rs @ [?r]) (work s)\<rparr>)"
      by (simp add: repo_create_def repo_create_as_def mbind_def Let_def)
    have "numbered k (Suc n) (upd (\<lambda>rs. rs @ [?r]) (work s))" "top_live k (Suc n) (upd (\<lambda>rs. rs @ [?r]) (work s))"
      using assms True by (auto intro: numbered_append [of k n "work s" _ ?r] top_live_append [of k n "work s" _ ?r])
    with True run assms next_cases [OF assms(1)] show ?thesis by simp
  next
    case False
    with next_free_iff [OF assms(1)] hit have "list_ex (clash ?r) (rows (work s))" by simp
    then have "repo_create rows upd clash mk s = (Inl integrity_error, s\<lparr>seed := Suc (seed s)\<rparr>)"
      by (simp add: repo_create_def repo_create_as_def mbind_def Let_def)
    with False show ?thesis by simp
  qed
qed

end

subsection \<open>Prompts\<close>

record prompt_create =
  pcr_code :: string
  pcr_name :: string
  pcr_content :: string
  pcr_status :: prompt_status

record prompt_update =
  pup_name :: "string option"
  pup_content :: "string option"
  pup_status :: "prompt_status option"

definition get_active_by_code :: "string \<Rightarrow> db \<Rightarrow> prompt option" where
  "get_active_by_code c d = latest pr_version (filter (\<lambda>p. code p = c \<and> pr_status p = PromptActive \<and> live p) (t_prompts d))"

definition list_prompt_versions :: "string \<Rightarrow> db \<Rightarrow> prompt list" where
  "list_prompt_versions c d = by_version pr_version (filter (\<lambda>p. code p = c \<and> live p) (t_prompts d))"

definition prompt_next_version :: "string \<Rightarrow> db \<Rightarrow> int" where
  "prompt_next_version c d = (case list_prompt_versions c d of [] \<Rightarrow> 1 | p # _ \<Rightarrow> pr_version p + 1)"

definition new_prompt :: "prompt_create \<Rightarrow> int \<Rightarrow> uuid \<Rightarrow> time \<Rightarrow> prompt" where
  "new_prompt p v i t =
     \<lparr>row_id = i, created_at = t, deleted_at = None, code = pcr_code p, pr_name = pcr_name p, pr_content = pcr_content p,
      pr_version = v, pr_status = pcr_status p\<rparr>"

definition same_prompt_version :: "prompt \<Rightarrow> prompt \<Rightarrow> bool" where
  "same_prompt_version p x = (code p = code x \<and> pr_version p = pr_version x)"

definition create_prompt :: "prompt_create \<Rightarrow> ('r sess, prompt) prog" where
  "create_prompt p =
     mbind (mget (\<lambda>s. prompt_next_version (pcr_code p) (work s))) (\<lambda>v.
       repo_create t_prompts t_prompts_update same_prompt_version (new_prompt p v))"

definition get_prompt :: "uuid \<Rightarrow> db \<Rightarrow> app_error + prompt" where
  "get_prompt prompt_id d = repo_get_or_404 ''Prompt'' prompt_id (t_prompts d)"

definition list_prompts :: "string option \<Rightarrow> nat \<Rightarrow> nat \<Rightarrow> db \<Rightarrow> prompt list \<times> nat" where
  "list_prompts c offset limit d = repo_list offset limit [map_option (\<lambda>c p. code p = c) c] (t_prompts d)"

definition update_prompt :: "uuid \<Rightarrow> prompt_update \<Rightarrow> ('r sess, prompt) prog" where
  "update_prompt prompt_id p =
     mbind (mlift (\<lambda>s. get_prompt prompt_id (work s))) (\<lambda>x.
       repo_save t_prompts_update
         (set_if (pup_name p) (\<lambda>v. pr_name_update (\<lambda>_. v))
         (set_if (pup_content p) (\<lambda>v. pr_content_update (\<lambda>_. v))
         (set_if (pup_status p) (\<lambda>v. pr_status_update (\<lambda>_. v)) x))))"

definition delete_prompt :: "uuid \<Rightarrow> ('r sess, unit) prog" where
  "delete_prompt prompt_id =
     mbind (mlift (\<lambda>s. get_prompt prompt_id (work s))) (\<lambda>x.
     mbind (repo_soft_delete t_prompts_update x) (\<lambda>_. mret ()))"

subsection \<open>Business objects\<close>

definition require_feature :: "bool \<Rightarrow> string \<Rightarrow> ('r sess, unit) prog" where
  "require_feature feature what =
     (if feature then mret () else mraise (mk_error NotFoundError (what @ '' is not enabled on this deployment'')))"

record bo_create =
  bcr_code :: string
  bcr_name :: string
  bcr_description :: "string option"
  bcr_payload :: json
  bcr_enabled :: bool

text \<open>The fields set in an update; a nullable field may be set to null.\<close>

record bo_update =
  bup_name :: "string option"
  bup_description :: "string option option"
  bup_payload :: "json option"
  bup_enabled :: "bool option"

definition bo_get_latest :: "string \<Rightarrow> db \<Rightarrow> business_object_definition option" where
  "bo_get_latest c d = latest bo_version (filter (\<lambda>b. code b = c \<and> live b \<and> bo_enabled b) (t_business_objects d))"

definition bo_next_version :: "string \<Rightarrow> db \<Rightarrow> int" where
  "bo_next_version c d =
     (case map_option bo_version (latest bo_version (filter (\<lambda>b. code b = c \<and> live b) (t_business_objects d))) of
        None \<Rightarrow> 1 | Some current \<Rightarrow> if current \<noteq> 0 then current + 1 else 1)"

definition new_bo :: "bo_create \<Rightarrow> int \<Rightarrow> uuid \<Rightarrow> time \<Rightarrow> business_object_definition" where
  "new_bo p v i t =
     \<lparr>row_id = i, created_at = t, deleted_at = None, code = bcr_code p, bo_name = bcr_name p, bo_description = bcr_description p,
      bo_version = v, bo_payload = bcr_payload p, bo_enabled = bcr_enabled p\<rparr>"

definition same_bo_version :: "business_object_definition \<Rightarrow> business_object_definition \<Rightarrow> bool" where
  "same_bo_version b x = (code b = code x \<and> bo_version b = bo_version x)"

definition create_business_object :: "bool \<Rightarrow> bo_create \<Rightarrow> ('r sess, business_object_definition) prog" where
  "create_business_object feature p =
     mbind (require_feature feature ''Business Object Registry'') (\<lambda>_.
     mbind (mget (\<lambda>s. bo_next_version (bcr_code p) (work s))) (\<lambda>v.
       repo_create t_business_objects t_business_objects_update same_bo_version (new_bo p v)))"

definition merge_bo :: "business_object_definition \<Rightarrow> bo_update \<Rightarrow> bo_create" where
  "merge_bo b p =
     \<lparr>bcr_code = code b, bcr_name = (case bup_name p of None \<Rightarrow> bo_name b | Some v \<Rightarrow> v),
      bcr_description = (case bup_description p of None \<Rightarrow> bo_description b | Some v \<Rightarrow> v),
      bcr_payload = (case bup_payload p of None \<Rightarrow> bo_payload b | Some v \<Rightarrow> v),
      bcr_enabled = (case bup_enabled p of None \<Rightarrow> bo_enabled b | Some v \<Rightarrow> v)\<rparr>"

definition get_business_object :: "uuid \<Rightarrow> db \<Rightarrow> app_error + business_object_definition" where
  "get_business_object object_id d = repo_get_or_404 ''BusinessObjectDefinition'' object_id (t_business_objects d)"

definition update_business_object :: "bool \<Rightarrow> uuid \<Rightarrow> bo_update \<Rightarrow> ('r sess, business_object_definition) prog" where
  "update_business_object feature object_id p =
     mbind (require_feature feature ''Business Object Registry'') (\<lambda>_.
     mbind (mlift (\<lambda>s. get_business_object object_id (work s))) (\<lambda>existing.
     mbind (mget (\<lambda>s. bo_next_version (code existing) (work s))) (\<lambda>v.
       repo_create t_business_objects t_business_objects_update same_bo_version (new_bo (merge_bo existing p) v))))"

definition get_latest_business_object :: "bool \<Rightarrow> string \<Rightarrow> ('r sess, business_object_definition) prog" where
  "get_latest_business_object feature c =
     mbind (require_feature feature ''Business Object Registry'') (\<lambda>_.
     mbind (mget (\<lambda>s. bo_get_latest c (work s))) (\<lambda>r. case r of
       None \<Rightarrow> mraise (mk_error NotFoundError (''No enabled business object found for code='' @ quoted c)) | Some b \<Rightarrow> mret b))"

definition list_business_objects :: "nat \<Rightarrow> nat \<Rightarrow> db \<Rightarrow> business_object_definition list \<times> nat" where
  "list_business_objects offset limit d = repo_list offset limit [] (t_business_objects d)"

definition delete_business_object :: "bool \<Rightarrow> uuid \<Rightarrow> ('r sess, unit) prog" where
  "delete_business_object feature object_id =
     mbind (require_feature feature ''Business Object Registry'') (\<lambda>_.
     mbind (mlift (\<lambda>s. get_business_object object_id (work s))) (\<lambda>b.
     mbind (repo_soft_delete t_business_objects_update b) (\<lambda>_. mret ())))"

subsection \<open>UI metadata\<close>

record ui_create =
  ucr_code :: string
  ucr_kind :: ui_metadata_kind
  ucr_name :: string
  ucr_description :: "string option"
  ucr_parent_code :: "string option"
  ucr_payload :: json
  ucr_schema_version :: string
  ucr_enabled :: bool

record ui_update =
  uup_name :: "string option"
  uup_description :: "string option option"
  uup_parent_code :: "string option option"
  uup_payload :: "json option"
  uup_schema_version :: "string option"
  uup_enabled :: "bool option"

definition ui_get_latest :: "string \<Rightarrow> ui_metadata_kind option \<Rightarrow> db \<Rightarrow> ui_metadata_entry option" where
  "ui_get_latest c kind d =
     latest ui_version (filter (\<lambda>e. code e = c \<and> live e \<and> ui_enabled e \<and> (kind = None \<or> kind = Some (ui_kind e))) (t_ui_metadata d))"

definition list_ui_versions :: "string \<Rightarrow> ui_metadata_kind \<Rightarrow> db \<Rightarrow> ui_metadata_entry list" where
  "list_ui_versions c kind d = by_version ui_version (filter (\<lambda>e. code e = c \<and> ui_kind e = kind \<and> live e) (t_ui_metadata d))"

definition ui_next_version :: "string \<times> ui_metadata_kind \<Rightarrow> db \<Rightarrow> int" where
  "ui_next_version ck d = (case list_ui_versions (fst ck) (snd ck) d of [] \<Rightarrow> 1 | e # _ \<Rightarrow> ui_version e + 1)"

definition list_children :: "string \<Rightarrow> db \<Rightarrow> ui_metadata_entry list" where
  "list_children parent_code d = filter (\<lambda>e. ui_parent_code e = Some parent_code \<and> live e) (t_ui_metadata d)"

definition list_ui_metadata ::
  "ui_metadata_kind option \<Rightarrow> string option \<Rightarrow> nat \<Rightarrow> nat \<Rightarrow> db \<Rightarrow> ui_metadata_entry list \<times> nat" where
  "list_ui_metadata kind parent_code offset limit d =
     (case parent_code of
        Some c \<Rightarrow> (let items = list_children c d in (page offset limit items, length items))
      | None \<Rightarrow> repo_list offset limit [map_option (\<lambda>k e. ui_kind e = k) kind] (t_ui_metadata d))"

definition new_ui_entry :: "ui_create \<Rightarrow> int \<Rightarrow> uuid \<Rightarrow> time \<Rightarrow> ui_metadata_entry" where
  "new_ui_entry p v i t =
     \<lparr>row_id = i, created_at = t, deleted_at = None, code = ucr_code p, ui_kind = ucr_kind p, ui_name = ucr_name p,
      ui_description = ucr_description p, ui_version = v, ui_parent_code = ucr_parent_code p, ui_payload = ucr_payload p,
      ui_schema_version = ucr_schema_version p, ui_enabled = ucr_enabled p\<rparr>"

definition same_ui_version :: "ui_metadata_entry \<Rightarrow> ui_metadata_entry \<Rightarrow> bool" where
  "same_ui_version e x = (code e = code x \<and> ui_kind e = ui_kind x \<and> ui_version e = ui_version x)"

definition create_ui_metadata :: "bool \<Rightarrow> ui_create \<Rightarrow> ('r sess, ui_metadata_entry) prog" where
  "create_ui_metadata feature p =
     mbind (require_feature feature ''UI Metadata Registry'') (\<lambda>_.
     mbind (mget (\<lambda>s. ui_next_version (ucr_code p, ucr_kind p) (work s))) (\<lambda>v.
       repo_create t_ui_metadata t_ui_metadata_update same_ui_version (new_ui_entry p v)))"

definition get_ui_metadata :: "uuid \<Rightarrow> db \<Rightarrow> app_error + ui_metadata_entry" where
  "get_ui_metadata entry_id d = repo_get_or_404 ''UIMetadataEntry'' entry_id (t_ui_metadata d)"

definition merge_ui :: "ui_metadata_entry \<Rightarrow> ui_update \<Rightarrow> ui_create" where
  "merge_ui e p =
     \<lparr>ucr_code = code e, ucr_kind = ui_kind e, ucr_name = (case uup_name p of None \<Rightarrow> ui_name e | Some v \<Rightarrow> v),
      ucr_description = (case uup_description p of None \<Rightarrow> ui_description e | Some v \<Rightarrow> v),
      ucr_parent_code = (case uup_parent_code p of None \<Rightarrow> ui_parent_code e | Some v \<Rightarrow> v),
      ucr_payload = (case uup_payload p of None \<Rightarrow> ui_payload e | Some v \<Rightarrow> v),
      ucr_schema_version = (case uup_schema_version p of None \<Rightarrow> ui_schema_version e | Some v \<Rightarrow> v),
      ucr_enabled = (case uup_enabled p of None \<Rightarrow> ui_enabled e | Some v \<Rightarrow> v)\<rparr>"

definition update_ui_metadata :: "bool \<Rightarrow> uuid \<Rightarrow> ui_update \<Rightarrow> ('r sess, ui_metadata_entry) prog" where
  "update_ui_metadata feature entry_id p =
     mbind (require_feature feature ''UI Metadata Registry'') (\<lambda>_.
     mbind (mlift (\<lambda>s. get_ui_metadata entry_id (work s))) (\<lambda>existing.
     mbind (mget (\<lambda>s. ui_next_version (code existing, ui_kind existing) (work s))) (\<lambda>v.
       repo_create t_ui_metadata t_ui_metadata_update same_ui_version (new_ui_entry (merge_ui existing p) v))))"

definition get_latest_ui_metadata :: "bool \<Rightarrow> string \<Rightarrow> ui_metadata_kind option \<Rightarrow> ('r sess, ui_metadata_entry) prog" where
  "get_latest_ui_metadata feature c kind =
     mbind (require_feature feature ''UI Metadata Registry'') (\<lambda>_.
     mbind (mget (\<lambda>s. ui_get_latest c kind (work s))) (\<lambda>r. case r of
       None \<Rightarrow> mraise (mk_error NotFoundError (''No enabled UI metadata found for code='' @ quoted c)) | Some e \<Rightarrow> mret e))"

definition delete_ui_metadata :: "bool \<Rightarrow> uuid \<Rightarrow> ('r sess, unit) prog" where
  "delete_ui_metadata feature entry_id =
     mbind (require_feature feature ''UI Metadata Registry'') (\<lambda>_.
     mbind (mlift (\<lambda>s. get_ui_metadata entry_id (work s))) (\<lambda>e.
     mbind (repo_soft_delete t_ui_metadata_update e) (\<lambda>_. mret ())))"

subsection \<open>The model registry\<close>

record model_create =
  mcr_provider :: string
  mcr_model :: string
  mcr_temperature :: real
  mcr_max_tokens :: int
  mcr_enabled :: bool
  mcr_base_url :: "string option"
  mcr_api_key :: "string option"
  mcr_extra :: "(string \<times> json) list option"

record model_update =
  mup_temperature :: "real option"
  mup_max_tokens :: "int option"
  mup_enabled :: "bool option"
  mup_base_url :: "string option"
  mup_api_key :: "string option"
  mup_extra :: "(string \<times> json) list option"

definition get_by_provider_model :: "string \<Rightarrow> string \<Rightarrow> db \<Rightarrow> app_error + model_registry option" where
  "get_by_provider_model provider model d =
     scalar_one_or_none (filter (\<lambda>m. mr_provider m = provider \<and> mr_model m = model \<and> live m) (t_models d))"

definition new_model :: "model_create \<Rightarrow> uuid \<Rightarrow> time \<Rightarrow> model_registry" where
  "new_model p i t =
     \<lparr>row_id = i, created_at = t, deleted_at = None, mr_provider = mcr_provider p, mr_model = mcr_model p,
      mr_temperature = mcr_temperature p, mr_max_tokens = mcr_max_tokens p, mr_enabled = mcr_enabled p,
      cost_per_1k_input_tokens = None, cost_per_1k_output_tokens = None, mr_base_url = mcr_base_url p,
      mr_api_key = mcr_api_key p, mr_extra_client_params = mcr_extra p\<rparr>"

definition same_provider_model :: "model_registry \<Rightarrow> model_registry \<Rightarrow> bool" where
  "same_provider_model m x = (mr_provider m = mr_provider x \<and> mr_model m = mr_model x)"

definition create_model :: "model_create \<Rightarrow> ('r sess, model_registry) prog" where
  "create_model p =
     mbind (mlift (\<lambda>s. get_by_provider_model (mcr_provider p) (mcr_model p) (work s))) (\<lambda>existing.
     if existing \<noteq> None
     then mraise (mk_error ConflictError (''Model '' @ quoted (mcr_provider p @ ''/'' @ mcr_model p) @ '' already registered''))
     else repo_create t_models t_models_update same_provider_model (new_model p))"

definition get_model :: "uuid \<Rightarrow> db \<Rightarrow> app_error + model_registry" where
  "get_model model_id d = repo_get_or_404 ''ModelRegistry'' model_id (t_models d)"

definition list_models :: "nat \<Rightarrow> nat \<Rightarrow> db \<Rightarrow> model_registry list \<times> nat" where
  "list_models offset limit d = repo_list offset limit [] (t_models d)"

definition update_model :: "uuid \<Rightarrow> model_update \<Rightarrow> ('r sess, model_registry) prog" where
  "update_model model_id p =
     mbind (mlift (\<lambda>s. get_model model_id (work s))) (\<lambda>m.
       repo_save t_models_update
         (set_if (mup_temperature p) (\<lambda>v. mr_temperature_update (\<lambda>_. v))
         (set_if (mup_max_tokens p) (\<lambda>v. mr_max_tokens_update (\<lambda>_. v))
         (set_if (mup_enabled p) (\<lambda>v. mr_enabled_update (\<lambda>_. v))
         (set_if (mup_base_url p) (\<lambda>v. mr_base_url_update (\<lambda>_. Some v))
         (set_if (mup_api_key p) (\<lambda>v. mr_api_key_update (\<lambda>_. Some v))
         (set_if (mup_extra p) (\<lambda>v. mr_extra_client_params_update (\<lambda>_. Some v)) m)))))))"

definition delete_model :: "uuid \<Rightarrow> ('r sess, unit) prog" where
  "delete_model model_id =
     mbind (mlift (\<lambda>s. get_model model_id (work s))) (\<lambda>m.
     mbind (repo_soft_delete t_models_update m) (\<lambda>_. mret ()))"

subsection \<open>The context block\<close>

record ui_context =
  uc_application_id :: "string option"
  uc_page_id :: "string option"
  uc_route :: "string option"
  uc_device :: "string option"
  uc_current_record :: "json option"
  uc_selected_items :: "json option"
  uc_variables :: "json option"
  uc_ui_state :: "json option"

definition or_dash :: "string option \<Rightarrow> string" where
  "or_dash x = (if truthy_str x then the x else ''-'')"

definition shown :: "(json \<Rightarrow> string) \<Rightarrow> string \<Rightarrow> json option \<Rightarrow> string list" where
  "shown str title v = (case v of Some j \<Rightarrow> if truthy j then [title @ str j] else [] | None \<Rightarrow> [])"

text \<open>\<open>build_context_block\<close>; \<open>str\<close> is Python's text of a dict or list. The locale shown is the device.\<close>

definition build_context_block :: "bool \<Rightarrow> (json \<Rightarrow> string) \<Rightarrow> ui_context option \<Rightarrow> db \<Rightarrow> string" where
  "build_context_block feature str ctx d =
     (case ctx of
        None \<Rightarrow> []
      | Some c \<Rightarrow>
          if \<not> feature then []
          else let sections =
              (if truthy_str (uc_application_id c) \<or> truthy_str (uc_page_id c) \<or> truthy_str (uc_route c)
               then [''Application: '' @ or_dash (uc_application_id c) @ '' | Page: '' @ or_dash (uc_page_id c) @ '' | Route: '' @ or_dash (uc_route c)]
               else []) @
              (if truthy_str (uc_page_id c)
               then (case ui_get_latest (the (uc_page_id c)) (Some UiPage) d of
                       None \<Rightarrow> [] | Some e \<Rightarrow> [''Page metadata ('' @ the (uc_page_id c) @ ''): '' @ str (ui_payload e)])
               else []) @
              shown str ''Current record: '' (uc_current_record c) @
              shown str ''Selected items: '' (uc_selected_items c) @
              shown str ''Session variables: '' (uc_variables c) @
              shown str ''UI state: '' (uc_ui_state c)
            in if sections = [] then []
               else let locale_name = uc_device c; device = uc_device c;
                        header = ''Runtime Context'' @
                          (if truthy_str locale_name \<or> truthy_str device
                           then '' (locale='' @ or_dash locale_name @ '', device='' @ or_dash device @ '')'' else [])
                    in join_str [CHR 0x0A] ([header, replicate 40 (CHR ''-'')] @ sections @ [replicate 40 (CHR ''-'')]))"

subsection \<open>The three registries are numbered alike\<close>

lemma by_version_top:
  assumes "r \<in> set rows" "\<forall>x \<in> set rows. v x \<le> v r"
  shows "\<exists>r' rs. by_version v rows = r' # rs \<and> v r' = v r"
proof -
  have "by_version v rows \<noteq> []" unfolding by_version_def using assms(1) by (metis empty_iff list.set(1) set_sort)
  then obtain r' rs where "by_version v rows = r' # rs" by (cases "by_version v rows") auto
  moreover from this have "latest v rows = Some r'" by (simp add: latest_def)
  with latest_Some assms have "v r' = v r" by (metis antisym)
  ultimately show ?thesis by blast
qed

lemma by_version_empty [simp]: "by_version v [] = []"
  by (simp add: by_version_def)

interpretation prompts: versioned_registry t_prompts code pr_version prompt_next_version
proof
  fix d :: db and k assume "\<forall>r \<in> set (t_prompts d). live r \<longrightarrow> code r \<noteq> k"
  then have "filter (\<lambda>p. code p = k \<and> live p) (t_prompts d) = []" by (auto simp: filter_empty_conv)
  then show "prompt_next_version k d = 1" by (simp add: prompt_next_version_def list_prompt_versions_def)
next
  fix d :: db and k r assume "r \<in> set (t_prompts d)" "live r" "code r = k" "\<forall>x \<in> set (t_prompts d). live x \<and> code x = k \<longrightarrow> pr_version x \<le> pr_version r"
  then obtain r' rs where "by_version pr_version (filter (\<lambda>p. code p = k \<and> live p) (t_prompts d)) = r' # rs" "pr_version r' = pr_version r"
    using by_version_top [of r "filter (\<lambda>p. code p = k \<and> live p) (t_prompts d)" pr_version] by auto
  then show "prompt_next_version k d = pr_version r + 1" by (simp add: prompt_next_version_def list_prompt_versions_def)
qed

interpretation business_objects: versioned_registry t_business_objects code bo_version bo_next_version
proof
  fix d :: db and k assume "\<forall>r \<in> set (t_business_objects d). live r \<longrightarrow> code r \<noteq> k"
  then have "filter (\<lambda>p. code p = k \<and> live p) (t_business_objects d) = []" by (auto simp: filter_empty_conv)
  then show "bo_next_version k d = 1" by (simp add: bo_next_version_def latest_def)
next
  fix d :: db and k r assume "r \<in> set (t_business_objects d)" "live r" "code r = k" "1 \<le> bo_version r"
    "\<forall>x \<in> set (t_business_objects d). live x \<and> code x = k \<longrightarrow> bo_version x \<le> bo_version r"
  moreover from this obtain r' rs where
    "by_version bo_version (filter (\<lambda>p. code p = k \<and> live p) (t_business_objects d)) = r' # rs" "bo_version r' = bo_version r"
    using by_version_top [of r "filter (\<lambda>p. code p = k \<and> live p) (t_business_objects d)" bo_version] by auto
  ultimately show "bo_next_version k d = bo_version r + 1" by (simp add: bo_next_version_def latest_def)
qed

interpretation ui_metadata: versioned_registry t_ui_metadata "\<lambda>e. (code e, ui_kind e)" ui_version ui_next_version
proof
  fix d :: db and k assume "\<forall>r \<in> set (t_ui_metadata d). live r \<longrightarrow> (code r, ui_kind r) \<noteq> k"
  then have "filter (\<lambda>e. code e = fst k \<and> ui_kind e = snd k \<and> live e) (t_ui_metadata d) = []" by (auto simp: filter_empty_conv)
  then show "ui_next_version k d = 1" by (simp add: ui_next_version_def list_ui_versions_def)
next
  fix d :: db and k r assume "r \<in> set (t_ui_metadata d)" "live r" "(code r, ui_kind r) = k"
    "\<forall>x \<in> set (t_ui_metadata d). live x \<and> (code x, ui_kind x) = k \<longrightarrow> ui_version x \<le> ui_version r"
  then obtain r' rs where
    "by_version ui_version (filter (\<lambda>e. code e = fst k \<and> ui_kind e = snd k \<and> live e) (t_ui_metadata d)) = r' # rs" "ui_version r' = ui_version r"
    using by_version_top [of r "filter (\<lambda>e. code e = fst k \<and> ui_kind e = snd k \<and> live e) (t_ui_metadata d)" ui_version] by auto
  then show "ui_next_version k d = ui_version r + 1" by (simp add: ui_next_version_def list_ui_versions_def)
qed

lemmas registry_rows = new_prompt_def new_bo_def new_ui_entry_def same_prompt_version_def same_bo_version_def same_ui_version_def live_def

text \<open>C33. The versions of a business object are numbered from 1 without a gap and a new version always gets the next number, as long as
  the highest version has not been deleted. Once it has, the number computed is one that is still taken, so no
  version of that code can ever be created again.\<close>

theorem business_object_numbering:
  assumes "bo_version ` {b \<in> set (t_business_objects (work s)). code b = bcr_code p} = {1..int n}"
  shows "if n = 0 \<or> (\<exists>b \<in> set (t_business_objects (work s)). live b \<and> code b = bcr_code p \<and> bo_version b = int n)
    then \<exists>b s'. create_business_object True p s = (Inr b, s') \<and> code b = bcr_code p \<and> bo_version b = int n + 1 \<and>
      t_business_objects (work s') = t_business_objects (work s) @ [b] \<and>
      bo_version ` {b \<in> set (t_business_objects (work s')). code b = bcr_code p} = {1..int n + 1}
    else \<exists>s'. create_business_object True p s = (Inl integrity_error, s') \<and> work s' = work s"
proof -
  have n: "business_objects.numbered (bcr_code p) n (work s)"
    using assms by (simp add: business_objects.numbered_def business_objects.versions_def)
  have create: "create_business_object True p s =
      repo_create t_business_objects t_business_objects_update same_bo_version (new_bo p (bo_next_version (bcr_code p) (work s))) s"
    by (simp add: create_business_object_def require_feature_def)
  have "if business_objects.top_live (bcr_code p) n (work s)
     then \<exists>r s'. create_business_object True p s = (Inr r, s') \<and> code r = bcr_code p \<and> bo_version r = int n + 1 \<and>
       t_business_objects (work s') = t_business_objects (work s) @ [r] \<and>
       business_objects.numbered (bcr_code p) (Suc n) (work s') \<and> business_objects.top_live (bcr_code p) (Suc n) (work s')
     else \<exists>s'. create_business_object True p s = (Inl integrity_error, s') \<and> work s' = work s"
    unfolding create by (rule business_objects.create_cases [OF n]) (simp_all add: registry_rows)
  then show ?thesis
    unfolding business_objects.top_live_def business_objects.numbered_def business_objects.versions_def
    by (auto split: if_splits)
qed

text \<open>Updating UI metadata rewrites nothing: it adds one row, a new version of the same code and kind that takes over every field
  the request does not set. But switching a definition off this way does not take it out of service: the new version is disabled and
  the version that was served before is served still.\<close>

theorem ui_update_appends:
  assumes "update_ui_metadata True entry_id p s = (Inr e, s')"
  shows "\<exists>old. get_ui_metadata entry_id (work s) = Inr old \<and> code e = code old \<and> ui_kind e = ui_kind old \<and> live e \<and>
    t_ui_metadata (work s') = t_ui_metadata (work s) @ [e] \<and>
    (\<forall>x \<in> set (t_ui_metadata (work s)). code x = code e \<and> ui_kind x = ui_kind e \<longrightarrow> ui_version x \<noteq> ui_version e) \<and>
    (uup_payload p = None \<longrightarrow> ui_payload e = ui_payload old) \<and>
    (uup_enabled p = Some False \<longrightarrow> ui_get_latest c kind (work s') = ui_get_latest c kind (work s))"
proof -
  obtain old where old: "get_ui_metadata entry_id (work s) = Inr old"
    using assms by (auto simp: update_ui_metadata_def require_feature_def split: sum.splits)
  let ?e = "new_ui_entry (merge_ui old p) (ui_next_version (code old, ui_kind old) (work s)) (new_uuid (seed s)) (now s)"
  have no: "\<not> list_ex (same_ui_version ?e) (t_ui_metadata (work s))" and e: "e = ?e"
    and s': "work s' = t_ui_metadata_update (\<lambda>rs. rs @ [?e]) (work s)"
    using assms old by (auto simp: update_ui_metadata_def require_feature_def repo_create_def repo_create_as_def mbind_def Let_def
        split: if_splits)
  have sel: "code e = code old" "ui_kind e = ui_kind old" "live e" by (simp_all add: e new_ui_entry_def merge_ui_def live_def)
  have fresh: "\<forall>x \<in> set (t_ui_metadata (work s)). code x = code e \<and> ui_kind x = ui_kind e \<longrightarrow> ui_version x \<noteq> ui_version e"
    using no unfolding e [symmetric] by (auto simp: list_ex_iff same_ui_version_def)
  have "ui_get_latest c kind (work s') = ui_get_latest c kind (work s)" if "uup_enabled p = Some False"
  proof -
    have "\<not> ui_enabled ?e" using that by (simp add: new_ui_entry_def merge_ui_def)
    then show ?thesis by (simp add: ui_get_latest_def s')
  qed
  moreover have "ui_payload e = ui_payload old" if "uup_payload p = None"
    using that by (simp add: e new_ui_entry_def merge_ui_def)
  ultimately show ?thesis using old sel fresh s' e by auto
qed

text \<open>Prompts are not immutable in that way: an update rewrites the version it is given.\<close>

lemma prompt_update_in_place:
  assumes "update_prompt i p s = (Inr x, s')" "pup_content p = Some c"
  shows "\<exists>old. get_prompt i (work s) = Inr old \<and> row_id x = row_id old \<and> code x = code old \<and> pr_version x = pr_version old \<and>
    pr_content x = c \<and> t_prompts (work s') = put_row x (t_prompts (work s))"
  using assms by (cases "pup_name p"; cases "pup_status p") (auto simp: update_prompt_def run_save split: sum.splits)

text \<open>What is served for a code is the enabled, undeleted row with the highest version, if there is one; for prompts that
  is the highest active one.\<close>

theorem latest_served:
  "(case bo_get_latest c d of
      None \<Rightarrow> \<forall>b \<in> set (t_business_objects d). code b = c \<longrightarrow> \<not> (live b \<and> bo_enabled b)
    | Some b \<Rightarrow> b \<in> set (t_business_objects d) \<and> code b = c \<and> live b \<and> bo_enabled b \<and>
        (\<forall>x \<in> set (t_business_objects d). code x = c \<and> live x \<and> bo_enabled x \<longrightarrow> bo_version x \<le> bo_version b)) \<and>
   (case get_active_by_code c d of
      None \<Rightarrow> \<forall>p \<in> set (t_prompts d). code p = c \<longrightarrow> \<not> (live p \<and> pr_status p = PromptActive)
    | Some p \<Rightarrow> p \<in> set (t_prompts d) \<and> code p = c \<and> live p \<and> pr_status p = PromptActive \<and>
        (\<forall>x \<in> set (t_prompts d). code x = c \<and> live x \<and> pr_status x = PromptActive \<longrightarrow> pr_version x \<le> pr_version p))"
  by (auto simp: bo_get_latest_def get_active_by_code_def latest_None filter_empty_conv dest!: latest_Some split: option.splits)

lemma context_block_off: "build_context_block False str ctx d = []"
  by (simp add: build_context_block_def split: option.split)

subsection \<open>A concrete registry\<close>

definition demo_bo :: bo_create where
  "demo_bo = \<lparr>bcr_code = ''leave'', bcr_name = ''Leave'', bcr_description = None, bcr_payload = JObj [], bcr_enabled = True\<rparr>"

definition demo_registry :: "int list \<Rightarrow> int list \<Rightarrow> unit sess" where
  "demo_registry vs gone = (let d = empty_db\<lparr>t_business_objects := map (\<lambda>v. (new_bo demo_bo v (''b'' @ str_int v) 0)
       \<lparr>deleted_at := if v \<in> set gone then Some 1 else None\<rparr>) vs\<rparr>
     in \<lparr>work = d, durable = d, now = 2, seed = 0, redis = ()\<rparr>)"

theorem business_object_numbering_witness:
  "(\<exists>b s'. create_business_object True demo_bo (demo_registry [1, 2] []) = (Inr b, s') \<and> bo_version b = 3) \<and>
   (\<exists>s'. create_business_object True demo_bo (demo_registry [1, 2] [2]) = (Inl integrity_error, s'))"
proof -
  have vs: "bo_version ` {b \<in> set (t_business_objects (work (demo_registry [1, 2] gone))). code b = bcr_code demo_bo} = {1..int 2}" for gone
  proof -
    let ?rows = "t_business_objects (work (demo_registry [1, 2] gone))"
    have "map bo_version ?rows = [1, 2]" "map code ?rows = [''leave'', ''leave'']" "bcr_code demo_bo = ''leave''"
      by (simp_all add: demo_registry_def new_bo_def demo_bo_def Let_def)
    then have "bo_version ` set ?rows = {1, 2}" "\<forall>b \<in> set ?rows. code b = bcr_code demo_bo"
      by (metis list.set_map set_simps empty_set insert_commute, auto simp: map_eq_Cons_conv)
    moreover have "{1..int 2} = {1, 2}" by auto
    ultimately show ?thesis by (metis (mono_tags, lifting) Collect_cong Collect_mem_eq)
  qed
  have live: "\<exists>b \<in> set (t_business_objects (work (demo_registry [1, 2] []))). live b \<and> code b = bcr_code demo_bo \<and> bo_version b = int 2"
    by (simp add: demo_registry_def Let_def new_bo_def live_def)
  have gone: "\<not> ((2::nat) = 0 \<or> (\<exists>b \<in> set (t_business_objects (work (demo_registry [1, 2] [2]))). live b \<and> code b = bcr_code demo_bo \<and> bo_version b = int 2))"
    by (simp add: demo_registry_def Let_def new_bo_def live_def)
  have "\<exists>b s'. create_business_object True demo_bo (demo_registry [1, 2] []) = (Inr b, s') \<and> bo_version b = 3"
    using business_object_numbering [OF vs, of "[]"] unfolding if_P [OF disjI2 [OF live]] by auto
  moreover have "\<exists>s'. create_business_object True demo_bo (demo_registry [1, 2] [2]) = (Inl integrity_error, s')"
    using business_object_numbering [OF vs, of "[2]"] unfolding if_not_P [OF gone] by blast
  ultimately show ?thesis ..
qed

definition demo_ui :: ui_metadata_entry where
  "demo_ui = new_ui_entry \<lparr>ucr_code = ''home'', ucr_kind = UiPage, ucr_name = ''Home'', ucr_description = None, ucr_parent_code = None,
     ucr_payload = JObj [], ucr_schema_version = ''1.0'', ucr_enabled = True\<rparr> 1 ''u1'' 0"

definition demo_ui_sess :: "unit sess" where
  "demo_ui_sess = \<lparr>work = empty_db\<lparr>t_ui_metadata := [demo_ui]\<rparr>, durable = empty_db, now = 2, seed = 0, redis = ()\<rparr>"

definition demo_disable :: ui_update where
  "demo_disable = \<lparr>uup_name = None, uup_description = None, uup_parent_code = None, uup_payload = None, uup_schema_version = None,
     uup_enabled = Some False\<rparr>"

lemma demo_ui_update: "\<not> isl (fst (update_ui_metadata True ''u1'' demo_disable demo_ui_sess))"
  "ui_get_latest ''home'' (Some UiPage) (work demo_ui_sess) = Some demo_ui"
  by code_simp+

theorem ui_update_appends_witness:
  "\<exists>e s'. update_ui_metadata True ''u1'' demo_disable demo_ui_sess = (Inr e, s') \<and>
     ui_get_latest ''home'' (Some UiPage) (work s') = Some demo_ui"
proof -
  obtain e s' where e: "update_ui_metadata True ''u1'' demo_disable demo_ui_sess = (Inr e, s')"
    using demo_ui_update(1) by (metis isl_def obj_sumE prod.collapse)
  have "uup_enabled demo_disable = Some False" by (simp add: demo_disable_def)
  with ui_update_appends [OF e, of "''home''" "Some UiPage"] demo_ui_update(2) e show ?thesis by auto
qed

theorem latest_served_witness:
  "\<exists>b. bo_get_latest ''leave'' (work (demo_registry [1, 2] [2])) = Some b \<and> bo_version b = 1 \<and> live b \<and> bo_enabled b"
proof -
  have "map_option bo_version (bo_get_latest ''leave'' (work (demo_registry [1, 2] [2]))) = Some 1" by code_simp
  then obtain b where b: "bo_get_latest ''leave'' (work (demo_registry [1, 2] [2])) = Some b" "bo_version b = 1" by auto
  with latest_served [where c = "''leave''" and d = "work (demo_registry [1, 2] [2])"] show ?thesis by simp
qed

end
