(* ===== verification/BusinessObjects.thy ===== *)
theory BusinessObjects
  imports Registry
begin

text \<open>
  Validation of records against a business object (\<open>app/businessobjects/validator.py\<close>) and the two tools an agent
  gets for it (\<open>app/businessobjects/service.py\<close>). Python's parser and its reader of ISO dates are parameters; a rule is the tree
  the parser returns, restricted to the nodes the evaluator distinguishes.
\<close>

subsection \<open>Rules\<close>

datatype cmp_op = Gt | GtE | Lt | LtE | CEq | NotEq | OtherCmp string

datatype bool_op = BAnd | BOr

datatype rule_expr =
    RConst json
  | RName string
  | RCompare rule_expr "(cmp_op \<times> rule_expr) list"
  | RBool bool_op "rule_expr list"
  | RNot rule_expr
  | ROther string

text \<open>A value during evaluation: what the JSON record holds, or the date a string was coerced to (its ordinal day).\<close>

datatype pyval = PJson json | PDate int

text \<open>\<open>RuleEvaluationError\<close>, or any other exception, which is a \<open>TypeError\<close> of a comparison.\<close>

datatype rule_error = RuleError string | RuleCrash string

fun json_number :: "json \<Rightarrow> real option" where
  "json_number (JBool b) = Some (of_bool b)"
| "json_number (JInt i) = Some (of_int i)"
| "json_number (JFloat r) = Some r"
| "json_number _ = None"

text \<open>\<open>a == b\<close> on JSON values: numbers (bools among them) by value, lists by their items, dicts by their keys.\<close>

function json_eq :: "json \<Rightarrow> json \<Rightarrow> bool" where
  "json_eq x y =
     (case (json_number x, json_number y) of
        (Some a, Some b) \<Rightarrow> a = b
      | _ \<Rightarrow>
          (case (x, y) of
             (JNull, JNull) \<Rightarrow> True
           | (JStr s, JStr t) \<Rightarrow> s = t
           | (JList xs, JList ys) \<Rightarrow> length xs = length ys \<and> (\<forall>p \<in> set (zip xs ys). json_eq (fst p) (snd p))
           | (JObj kvs, JObj kws) \<Rightarrow> length kvs = length kws \<and>
               (\<forall>p \<in> set kvs. case dict_get kws (fst p) of None \<Rightarrow> False | Some w \<Rightarrow> json_eq (snd p) w)
           | _ \<Rightarrow> False))"
  by pat_completeness auto

lemma size_zip_member: "(p :: json \<times> json) \<in> set (zip xs ys) \<Longrightarrow> size (fst p) < Suc (size_list size xs)"
proof (induction xs arbitrary: ys)
  case (Cons x xs)
  then show ?case by (cases ys) (auto simp: less_Suc_eq_le trans_le_add2 dest: Cons.IH)
qed simp

lemma size_obj_member:
  "(p :: string \<times> json) \<in> set kvs \<Longrightarrow> size (snd p) < Suc (size_list (size_prod (\<lambda>_. 0) size) kvs)"
  by (induction kvs) (auto split: prod.splits)

termination json_eq
  by (relation "measure (\<lambda>(x, y). size x)") (auto dest: size_zip_member size_obj_member)

declare json_eq.simps [simp del]

fun holds_between :: "cmp_op \<Rightarrow> 'a :: linorder \<Rightarrow> 'a \<Rightarrow> bool" where
  "holds_between Gt a b = (b < a)"
| "holds_between GtE a b = (b \<le> a)"
| "holds_between Lt a b = (a < b)"
| "holds_between LtE a b = (a \<le> b)"
| "holds_between CEq a b = (a = b)"
| "holds_between NotEq a b = (a \<noteq> b)"
| "holds_between (OtherCmp n) a b = False"

definition not_ordered :: rule_error where
  "not_ordered = RuleCrash ''TypeError: comparison not supported between instances''"

text \<open>\<open><\<close>, \<open><=\<close>, \<open>></\<close> and \<open>>=\<close> on JSON values; lists are ordered by their first differing items.\<close>

fun json_order :: "cmp_op \<Rightarrow> json \<Rightarrow> json \<Rightarrow> rule_error + bool" where
  "json_order op (JList (x # xs)) (JList (y # ys)) =
     (if json_eq x y then json_order op (JList xs) (JList ys) else json_order op x y)"
| "json_order op (JList xs) (JList ys) = Inr (holds_between op (length xs) (length ys))"
| "json_order op (JStr s) (JStr t) = Inr (holds_between op s t)"
| "json_order op x y =
     (case (json_number x, json_number y) of
        (Some a, Some b) \<Rightarrow> Inr (holds_between op a b) | _ \<Rightarrow> Inl not_ordered)"

fun py_equal :: "pyval \<Rightarrow> pyval \<Rightarrow> bool" where
  "py_equal (PDate a) (PDate b) = (a = b)"
| "py_equal (PJson x) (PJson y) = json_eq x y"
| "py_equal _ _ = False"

text \<open>\<open>_ALLOWED_COMPARISONS[op](left, right)\<close>; \<open>allowed\<close> is membership in that table.\<close>

fun allowed :: "cmp_op \<Rightarrow> bool" where
  "allowed (OtherCmp n) = False"
| "allowed _ = True"

fun compare_values :: "cmp_op \<Rightarrow> pyval \<Rightarrow> pyval \<Rightarrow> rule_error + bool" where
  "compare_values CEq a b = Inr (py_equal a b)"
| "compare_values NotEq a b = Inr (\<not> py_equal a b)"
| "compare_values op (PDate a) (PDate b) = Inr (holds_between op a b)"
| "compare_values op (PJson x) (PJson y) = json_order op x y"
| "compare_values op a b = Inl not_ordered"

fun pyval_truthy :: "pyval \<Rightarrow> bool" where
  "pyval_truthy (PJson j) = truthy j"
| "pyval_truthy (PDate d) = True"

definition coerce :: "(string \<Rightarrow> int option) \<Rightarrow> json \<Rightarrow> pyval" where
  "coerce isod j = (case j of JStr s \<Rightarrow> (case isod s of Some d \<Rightarrow> PDate d | None \<Rightarrow> PJson j) | _ \<Rightarrow> PJson j)"

fun cmp_name :: "cmp_op \<Rightarrow> string" where
  "cmp_name (OtherCmp n) = n"
| "cmp_name _ = []"

text \<open>\<open>_eval_node\<close>. The comparison of a chain is skipped once the result is false, its operands are evaluated all the same; all operands
  of \<open>and\<close> and \<open>or\<close> are evaluated.\<close>

fun eval_node :: "(string \<Rightarrow> int option) \<Rightarrow> (string, json) pydict \<Rightarrow> rule_expr \<Rightarrow> rule_error + pyval"
  and eval_chain :: "(string \<Rightarrow> int option) \<Rightarrow> (string, json) pydict \<Rightarrow> bool \<Rightarrow> pyval \<Rightarrow> (cmp_op \<times> rule_expr) list \<Rightarrow> rule_error + bool"
  and eval_all :: "(string \<Rightarrow> int option) \<Rightarrow> (string, json) pydict \<Rightarrow> rule_expr list \<Rightarrow> rule_error + pyval list" where
  "eval_node isod r (RConst j) = Inr (PJson j)"
| "eval_node isod r (RName n) =
     (case dict_get r n of
        None \<Rightarrow> Inl (RuleError (''Unknown field referenced in rule: '' @ quoted n))
      | Some j \<Rightarrow> Inr (coerce isod j))"
| "eval_node isod r (RCompare e cs) =
     rbind (eval_node isod r e) (\<lambda>left. rbind (eval_chain isod r True left cs) (\<lambda>b. Inr (PJson (JBool b))))"
| "eval_node isod r (RBool op es) =
     rbind (eval_all isod r es) (\<lambda>vs. Inr (PJson (JBool (case op of BAnd \<Rightarrow> list_all pyval_truthy vs | BOr \<Rightarrow> list_ex pyval_truthy vs))))"
| "eval_node isod r (RNot e) = rbind (eval_node isod r e) (\<lambda>v. Inr (PJson (JBool (\<not> pyval_truthy v))))"
| "eval_node isod r (ROther n) = Inl (RuleError (''Unsupported expression node: '' @ n))"
| "eval_chain isod r result left [] = Inr result"
| "eval_chain isod r result left ((op, e) # cs) =
     (if \<not> allowed op then Inl (RuleError (''Unsupported comparison operator: '' @ cmp_name op))
      else rbind (eval_node isod r e) (\<lambda>right.
        rbind (if result then compare_values op left right else Inr False) (\<lambda>b. eval_chain isod r b right cs)))"
| "eval_all isod r [] = Inr []"
| "eval_all isod r (e # es) = rbind (eval_node isod r e) (\<lambda>v. rbind (eval_all isod r es) (\<lambda>vs. Inr (v # vs)))"

record rule_ops =
  ro_parse :: "string \<Rightarrow> string + rule_expr"
  ro_iso :: "string \<Rightarrow> int option"

definition evaluate_rule :: "rule_ops \<Rightarrow> string \<Rightarrow> (string, json) pydict \<Rightarrow> rule_error + bool" where
  "evaluate_rule ops rule r =
     (case ro_parse ops rule of
        Inl m \<Rightarrow> Inl (RuleError (''Could not parse rule '' @ quoted rule @ '': '' @ m))
      | Inr e \<Rightarrow> rbind (eval_node (ro_iso ops) r e) (\<lambda>v. Inr (pyval_truthy v)))"

subsection \<open>Records\<close>

text \<open>The stored payload went through \<open>BusinessObjectPayload\<close>: every field has a name and a type, a rule definition is any dict
  (here its rule and message, when they are strings).\<close>

record bo_field =
  bf_name :: string
  bf_type :: string
  bf_required :: bool

record bo_rule =
  br_rule :: "string option"
  br_message :: "string option"

record bo_relationship =
  bl_name :: string
  bl_target :: string
  bl_cardinality :: string

record bo_payload_view =
  bv_fields :: "bo_field list"
  bv_relationships :: "bo_relationship list"
  bv_validation :: "bo_rule list"
  bv_meaning :: "string option"

definition missing_field :: "(string, json) pydict \<Rightarrow> bo_field \<Rightarrow> bool" where
  "missing_field r f \<longleftrightarrow> bf_required f \<and> (case dict_get r (bf_name f) of None \<Rightarrow> True | Some j \<Rightarrow> j = JNull \<or> j = JStr [])"

definition missing_message :: "bo_field \<Rightarrow> string" where
  "missing_message f = ''Field '' @ quoted (bf_name f) @ '' is required but missing.''"

definition rule_message :: "bo_rule \<Rightarrow> string" where
  "rule_message d = (case br_message d of Some m \<Rightarrow> m
     | None \<Rightarrow> ''Validation failed: '' @ (case br_rule d of Some x \<Rightarrow> x | None \<Rightarrow> ''None''))"

fun check_rules :: "rule_ops \<Rightarrow> (string, json) pydict \<Rightarrow> bo_rule list \<Rightarrow> app_error + string list" where
  "check_rules ops r [] = Inr []"
| "check_rules ops r (d # ds) =
     (if \<not> truthy_str (br_rule d) then check_rules ops r ds
      else let rule = the (br_rule d) in
        case evaluate_rule ops rule r of
          Inr True \<Rightarrow> check_rules ops r ds
        | Inr False \<Rightarrow> rbind (check_rules ops r ds) (\<lambda>vs. Inr (rule_message d # vs))
        | Inl (RuleError m) \<Rightarrow> rbind (check_rules ops r ds) (\<lambda>vs. Inr ((''Could not evaluate rule '' @ quoted rule @ '': '' @ m) # vs))
        | Inl (RuleCrash m) \<Rightarrow> Inl (mk_error (PyException ''TypeError'') m))"

definition validate_record :: "rule_ops \<Rightarrow> bo_payload_view \<Rightarrow> (string, json) pydict \<Rightarrow> app_error + string list" where
  "validate_record ops p r =
     rbind (check_rules ops r (bv_validation p)) (\<lambda>vs.
       Inr (map missing_message (filter (missing_field r) (bv_fields p)) @ vs))"

subsection \<open>The tools\<close>

text \<open>Which agents get them is \<open>business_objects_enabled\<close>. \<open>view\<close> reads a stored payload and \<open>loads\<close> a JSON object; a record that is JSON but no object is outside the model.\<close>

record bo_tool_ops =
  bt_rules :: rule_ops
  bt_view :: "json \<Rightarrow> bo_payload_view"
  bt_loads :: "string \<Rightarrow> string + (string, json) pydict"

definition bo_not_found :: "string \<Rightarrow> string" where
  "bo_not_found c = ''Kh'' @ [CHR 0xC3, CHR 0xB4] @ ''ng t'' @ [CHR 0xC3, CHR 0xAC] @ ''m th'' @ [CHR 0xE1, CHR
     0xBA, CHR 0xA5] @ ''y Business Object v'' @ [CHR 0xE1, CHR 0xBB, CHR 0x9B] @ ''i code='' @ [CHR
     0x27] @ c @ [CHR 0x27] @ ''.''"

definition section_lines :: "string \<Rightarrow> string list \<Rightarrow> string list" where
  "section_lines title ls = (if ls = [] then [] else title # ls)"

definition lookup_business_object :: "bo_tool_ops \<Rightarrow> string \<Rightarrow> db \<Rightarrow> string" where
  "lookup_business_object ops c d =
     (case bo_get_latest c d of
        None \<Rightarrow> bo_not_found c
      | Some bo \<Rightarrow>
          let p = bt_view ops (bo_payload bo) in
          join_str [CHR 0x0A]
            ([''Business Object: '' @ bo_name bo @ '' (code='' @ code bo @ '', version='' @ str_int (bo_version bo) @ '')''] @
             (if truthy_str (bv_meaning p) then [[CHR 0xC3, CHR 0x9D] @ '' ngh'' @ [CHR 0xC4, CHR 0xA9] @ ''a: '' @ the (bv_meaning p)] else []) @
             section_lines ''Fields:'' (map (\<lambda>f. ''  - '' @ bf_name f @ '' ('' @ bf_type f @ '', '' @
               (if bf_required f then ''b'' @ [CHR 0xE1, CHR 0xBA, CHR 0xAF] @ ''t bu'' @ [CHR 0xE1, CHR 0xBB, CHR 0x99] @ ''c'' else ''kh'' @ [CHR 0xC3, CHR 0xB4] @ ''ng b'' @ [CHR 0xE1, CHR 0xBA, CHR 0xAF] @ ''t bu'' @ [CHR
     0xE1, CHR 0xBB, CHR 0x99] @ ''c'') @ '')'') (bv_fields p)) @
             section_lines ''Relationships:'' (map (\<lambda>r. ''  - '' @ bl_name r @ '' -> '' @ bl_target r @ '' ('' @ bl_cardinality r @ '')'')
               (bv_relationships p)) @
             section_lines ''Validation rules:'' (map (\<lambda>v. ''  - '' @ (case br_rule v of Some x \<Rightarrow> x | None \<Rightarrow> ''None'') @ '': '' @
               (case br_message v of Some m \<Rightarrow> m | None \<Rightarrow> [])) (bv_validation p))))"

definition validate_business_object :: "bo_tool_ops \<Rightarrow> string \<Rightarrow> string \<Rightarrow> db \<Rightarrow> app_error + string" where
  "validate_business_object ops c record_json d =
     (case bo_get_latest c d of
        None \<Rightarrow> Inr (bo_not_found c)
      | Some bo \<Rightarrow>
          (case bt_loads ops record_json of
             Inl m \<Rightarrow> Inr (''record_json kh'' @ [CHR 0xC3, CHR 0xB4] @ ''ng ph'' @ [CHR 0xE1, CHR 0xBA, CHR 0xA3] @ ''i JSON h'' @ [CHR 0xE1, CHR 0xBB, CHR 0xA3] @ ''p l'' @ [CHR 0xE1, CHR 0xBB, CHR 0x87] @ '': '' @ m)
           | Inr r \<Rightarrow> rbind (validate_record (bt_rules ops) (bt_view ops (bo_payload bo)) r) (\<lambda>violations.
               Inr (if violations = [] then ''H'' @ [CHR 0xE1, CHR 0xBB, CHR 0xA3] @ ''p l'' @ [CHR 0xE1, CHR 0xBB, CHR 0x87] @ '' - record th'' @ [CHR 0xE1, CHR 0xBB, CHR 0x8F] @ ''a m'' @ [CHR 0xC3, CHR 0xA3] @ ''n m'' @ [CHR 0xE1,
     CHR 0xBB, CHR 0x8D] @ ''i field b'' @ [CHR 0xE1, CHR 0xBA, CHR 0xAF] @ ''t bu'' @ [CHR 0xE1,
     CHR 0xBB, CHR 0x99] @ ''c v'' @ [CHR 0xC3, CHR 0xA0] @ '' validation rule.''
                    else ''Kh'' @ [CHR 0xC3, CHR 0xB4] @ ''ng h'' @ [CHR 0xE1, CHR 0xBB, CHR 0xA3] @ ''p l'' @ [CHR
     0xE1, CHR 0xBB, CHR 0x87] @ '':'' @ [CHR 0x0A] @ join_str [CHR 0x0A] (map (\<lambda>v. ''- '' @ v) violations)))))"


subsection \<open>What validation promises\<close>

definition rule_crashes :: "rule_ops \<Rightarrow> (string, json) pydict \<Rightarrow> bo_rule \<Rightarrow> bool" where
  "rule_crashes ops r d \<longleftrightarrow> (case br_rule d of None \<Rightarrow> False | Some x \<Rightarrow> x \<noteq> [] \<and>
     (case evaluate_rule ops x r of Inl (RuleCrash m) \<Rightarrow> True | _ \<Rightarrow> False))"

definition rule_met :: "rule_ops \<Rightarrow> (string, json) pydict \<Rightarrow> bo_rule \<Rightarrow> bool" where
  "rule_met ops r d \<longleftrightarrow> (case br_rule d of None \<Rightarrow> True | Some x \<Rightarrow> x = [] \<or> evaluate_rule ops x r = Inr True)"

lemma rule_cases [case_names skip error crash verdict]:
  assumes "\<not> truthy_str (br_rule d) \<Longrightarrow> P"
    and "\<And>x m. br_rule d = Some x \<Longrightarrow> x \<noteq> [] \<Longrightarrow> evaluate_rule ops x r = Inl (RuleError m) \<Longrightarrow> P"
    and "\<And>x m. br_rule d = Some x \<Longrightarrow> x \<noteq> [] \<Longrightarrow> evaluate_rule ops x r = Inl (RuleCrash m) \<Longrightarrow> P"
    and "\<And>x b. br_rule d = Some x \<Longrightarrow> x \<noteq> [] \<Longrightarrow> evaluate_rule ops x r = Inr b \<Longrightarrow> P"
  shows P
proof (cases "br_rule d")
  case None
  with assms(1) show P by simp
next
  case (Some x)
  show P
  proof (cases "evaluate_rule ops x r")
    case (Inl e)
    then show P using Some assms by (cases e; cases "x = []") auto
  next
    case (Inr b)
    then show P using Some assms by (cases "x = []") auto
  qed
qed

lemma rule_met_of: "br_rule d = Some x \<Longrightarrow> rule_met ops r d \<longleftrightarrow> x = [] \<or> evaluate_rule ops x r = Inr True"
  by (simp add: rule_met_def)

lemma rule_crashes_of:
  "br_rule d = Some x \<Longrightarrow> rule_crashes ops r d \<longleftrightarrow> x \<noteq> [] \<and> (\<exists>m. evaluate_rule ops x r = Inl (RuleCrash m))"
  by (auto simp: rule_crashes_def split: sum.splits rule_error.splits)

lemma rule_skipped: "\<not> truthy_str (br_rule d) \<Longrightarrow> rule_met ops r d \<and> \<not> rule_crashes ops r d"
  by (cases "br_rule d") (auto simp: rule_met_def rule_crashes_def)

lemma check_rules_met: "check_rules ops r ds = Inr vs \<Longrightarrow> vs = [] \<longleftrightarrow> list_all (rule_met ops r) ds"
proof (induction ds arbitrary: vs)
  case (Cons d ds)
  show ?case
    by (rule rule_cases[where d = d and ops = ops and r = r])
      (use Cons in \<open>auto simp: rule_met_of Let_def rbind_def rule_skipped split: sum.splits bool.splits\<close>)
qed simp

lemma check_rules_raises: "(\<exists>e. check_rules ops r ds = Inl e) \<longleftrightarrow> list_ex (rule_crashes ops r) ds"
proof (induction ds)
  case (Cons d ds)
  show ?case
    by (rule rule_cases[where d = d and ops = ops and r = r])
      (use Cons in \<open>auto simp: rule_crashes_of Let_def rbind_def rule_skipped split: sum.splits bool.splits\<close>)
qed simp

lemma check_rules_error:
  "check_rules ops r ds = Inl e \<Longrightarrow> \<exists>m. e = mk_error (PyException ''TypeError'') m"
  by (induction ops r ds arbitrary: e rule: check_rules.induct)
    (auto simp: Let_def rbind_def split: if_splits sum.splits bool.splits rule_error.splits)

lemma filter_missing_none: "filter (missing_field r) fs = [] \<longleftrightarrow> list_all (\<lambda>f. \<not> missing_field r f) fs"
  by (induction fs) auto


text \<open>Validation raises exactly when some rule's evaluation compares values that have no order, whatever the other rules and the
  required fields say.
\<close>

theorem validation_escapes_iff:
  "(\<exists>e. validate_record ops p r = Inl e) \<longleftrightarrow>
     (\<exists>d \<in> set (bv_validation p). \<exists>x m. br_rule d = Some x \<and> x \<noteq> [] \<and> evaluate_rule ops x r = Inl (RuleCrash m))"
proof -
  have "rule_crashes ops r = (\<lambda>d. \<exists>x m. br_rule d = Some x \<and> x \<noteq> [] \<and> evaluate_rule ops x r = Inl (RuleCrash m))"
    by (auto simp: rule_crashes_def fun_eq_iff split: option.splits sum.splits rule_error.splits)
  moreover have "(\<exists>e. validate_record ops p r = Inl e) \<longleftrightarrow> (\<exists>e. check_rules ops r (bv_validation p) = Inl e)"
    by (auto simp: validate_record_def rbind_def split: sum.splits)
  ultimately show ?thesis by (simp add: check_rules_raises list_ex_iff)
qed

lemma validation_error: "validate_record ops p r = Inl e \<Longrightarrow> \<exists>m. e = mk_error (PyException ''TypeError'') m"
  by (auto simp: validate_record_def rbind_def split: sum.splits dest: check_rules_error)



subsection \<open>Rules that cannot fail\<close>

text \<open>A type for each value a comparison can order; booleans are numbers, as they are in Python.\<close>

datatype value_type = NumberT | TextT | DateT

fun type_of_value :: "pyval \<Rightarrow> value_type option" where
  "type_of_value (PDate d) = Some DateT"
| "type_of_value (PJson (JStr s)) = Some TextT"
| "type_of_value (PJson j) = (if json_number j = None then None else Some NumberT)"

fun rule_type :: "(string \<Rightarrow> value_type option) \<Rightarrow> rule_expr \<Rightarrow> value_type option"
  and chain_typed :: "(string \<Rightarrow> value_type option) \<Rightarrow> value_type \<Rightarrow> (cmp_op \<times> rule_expr) list \<Rightarrow> bool"
  and all_typed :: "(string \<Rightarrow> value_type option) \<Rightarrow> rule_expr list \<Rightarrow> bool" where
  "rule_type E (RConst j) = type_of_value (PJson j)"
| "rule_type E (RName n) = E n"
| "rule_type E (RCompare e cs) =
     (case rule_type E e of None \<Rightarrow> None | Some t \<Rightarrow> if chain_typed E t cs then Some NumberT else None)"
| "rule_type E (RBool op es) = (if all_typed E es then Some NumberT else None)"
| "rule_type E (RNot e) = (case rule_type E e of None \<Rightarrow> None | Some t \<Rightarrow> Some NumberT)"
| "rule_type E (ROther n) = None"
| "chain_typed E t [] = True"
| "chain_typed E t ((op, e) # cs) = (allowed op \<and> rule_type E e = Some t \<and> chain_typed E t cs)"
| "all_typed E [] = True"
| "all_typed E (e # es) = (rule_type E e \<noteq> None \<and> all_typed E es)"

definition record_fits :: "(string \<Rightarrow> int option) \<Rightarrow> (string \<Rightarrow> value_type option) \<Rightarrow> (string, json) pydict \<Rightarrow> bool" where
  "record_fits isod E r \<longleftrightarrow> (\<forall>n t. E n = Some t \<longrightarrow> (\<exists>j. dict_get r n = Some j \<and> type_of_value (coerce isod j) = Some t))"

lemma number_order: "json_number x = Some a \<Longrightarrow> json_number y = Some b \<Longrightarrow> json_order op x y = Inr (holds_between op a b)"
  by (cases x; cases y) auto

lemma number_typed: "type_of_value (PJson j) = Some NumberT \<Longrightarrow> \<exists>a. json_number j = Some a"
  by (cases j) auto

lemma text_typed: "type_of_value (PJson j) = Some TextT \<Longrightarrow> \<exists>s. j = JStr s"
  by (cases j) auto

lemma same_type_compares:
  assumes "type_of_value a = Some t" "type_of_value b = Some t" "allowed op"
  shows "\<exists>v. compare_values op a b = Inr v"
proof (cases a)
  case (PDate d)
  with assms(1) have "t = DateT" by simp
  with assms(2) obtain d' where "b = PDate d'"
    by (cases b rule: type_of_value.cases) (auto split: if_splits)
  with PDate assms(3) show ?thesis by (cases op) auto
next
  case (PJson x)
  with assms(1) have "t \<noteq> DateT" by (cases x) (auto split: if_splits)
  with assms(2) obtain y where b: "b = PJson y" by (cases b) auto
  consider "t = NumberT" | "t = TextT" using \<open>t \<noteq> DateT\<close> by (cases t) auto
  then have "\<exists>v. json_order op x y = Inr v"
  proof cases
    case 1
    then show ?thesis using assms PJson b number_typed number_order by metis
  next
    case 2
    then show ?thesis using assms PJson b text_typed by (metis json_order.simps)
  qed
  with PJson b assms(3) show ?thesis by (cases op) auto
qed


lemma typed_evaluates:
  shows "record_fits isod E r \<Longrightarrow> rule_type E e = Some t \<Longrightarrow> \<exists>v. eval_node isod r e = Inr v \<and> type_of_value v = Some t"
    and "record_fits isod E r \<Longrightarrow> chain_typed E t cs \<Longrightarrow> type_of_value left = Some t \<Longrightarrow> \<exists>b. eval_chain isod r res left cs = Inr b"
    and "record_fits isod E r \<Longrightarrow> all_typed E es \<Longrightarrow> \<exists>vs. eval_all isod r es = Inr vs"
proof (induction E e and E t cs and E es arbitrary: t and left res rule: rule_type_chain_typed_all_typed.induct)
  case (2 E n)
  then show ?case by (fastforce simp: record_fits_def)
next
  case (3 E e cs)
  then obtain t' where t': "rule_type E e = Some t'" "chain_typed E t' cs" "t = NumberT"
    by (auto split: option.splits if_splits)
  with 3 obtain v where "eval_node isod r e = Inr v" "type_of_value v = Some t'" by blast
  moreover obtain b where "eval_chain isod r True v cs = Inr b"
    using 3(2)[OF t'(1) 3(3) t'(2) calculation(2)] by blast
  ultimately show ?case using t'(3) by (simp add: rbind_def)
next
  case (8 E t op e cs)
  then obtain right where right: "eval_node isod r e = Inr right" "type_of_value right = Some t"
    by auto
  obtain b where "compare_values op left right = Inr b"
    using same_type_compares[OF 8(5) right(2)] 8(4) by auto
  moreover have "\<exists>c. eval_chain isod r res' right cs = Inr c" for res'
    using 8(2)[OF 8(3) _ right(2)] 8(4) by simp
  ultimately show ?case using right 8(4) by (auto simp: rbind_def)
next
  case (4 E op es)
  then show ?case by (auto simp: rbind_def split: if_splits)
next
  case (5 E e)
  then show ?case by (auto simp: rbind_def split: option.splits)
next
  case (10 E e es)
  then show ?case by (auto simp: rbind_def)
qed auto


lemma typed_rule_evaluates:
  assumes "ro_parse ops x = Inr e" "rule_type E e \<noteq> None" "record_fits (ro_iso ops) E r"
  shows "\<exists>b. evaluate_rule ops x r = Inr b"
  using assms typed_evaluates(1)[OF assms(3)] by (fastforce simp: evaluate_rule_def rbind_def)

text \<open>C28. Type soundness of the rule language: when every rule of the business object is well typed for some typing of the fields, and
  the record's values (strings read as dates where they are dates) have those types, validation of the record returns a list
  of violations, and it never reports a rule as not evaluable.
\<close>

theorem typed_rules_never_raise:
  assumes "record_fits (ro_iso ops) E r"
    and "list_all (\<lambda>d. \<exists>x e. br_rule d = Some x \<and> ro_parse ops x = Inr e \<and> rule_type E e \<noteq> None) (bv_validation p)"
  shows "validate_record ops p r = Inr
    (map missing_message (filter (missing_field r) (bv_fields p)) @
     map rule_message (filter (\<lambda>d. \<not> rule_met ops r d) (bv_validation p)))"
proof -
  have "check_rules ops r ds = Inr (map rule_message (filter (\<lambda>d. \<not> rule_met ops r d) ds))"
    if "list_all (\<lambda>d. \<exists>x e. br_rule d = Some x \<and> ro_parse ops x = Inr e \<and> rule_type E e \<noteq> None) ds" for ds
    using that
  proof (induction ds)
    case (Cons d ds)
    then obtain x e where x: "br_rule d = Some x" "ro_parse ops x = Inr e" "rule_type E e \<noteq> None" by auto
    obtain b where "evaluate_rule ops x r = Inr b" using typed_rule_evaluates[OF x(2,3) assms(1)] by blast
    with x Cons show ?case by (cases "x = []") (auto simp: rule_met_of Let_def rbind_def split: bool.splits)
  qed simp
  with assms(2) show ?thesis by (simp add: validate_record_def rbind_def)
qed

theorem typed_rules_never_raise_witness:
  "\<exists>ops p r. validate_record ops p r = Inr [''end before start'']"
proof -
  let ?ops = "\<lparr>ro_parse = \<lambda>t. Inr (RCompare (RName ''endDate'') [(GtE, RName ''startDate'')]),
     ro_iso = \<lambda>t. if t = ''2026-07-15'' then Some 739812 else if t = ''2026-07-17'' then Some 739814 else None\<rparr>"
  let ?p = "\<lparr>bv_fields = [], bv_relationships = [],
     bv_validation = [\<lparr>br_rule = Some ''endDate >= startDate'', br_message = Some ''end before start''\<rparr>], bv_meaning = None\<rparr>"
  let ?r = "[(''startDate'', JStr ''2026-07-17''), (''endDate'', JStr ''2026-07-15'')]"
  let ?E = "\<lambda>n. if n = ''startDate'' \<or> n = ''endDate'' then Some DateT else None"
  have "record_fits (ro_iso ?ops) ?E ?r" by (simp add: record_fits_def coerce_def)
  from typed_rules_never_raise[OF this, of ?p] show ?thesis
    by (intro exI[of _ ?ops] exI[of _ ?p] exI[of _ ?r])
      (simp add: rule_met_def evaluate_rule_def rbind_def coerce_def rule_message_def)
qed

text \<open>A string constant in a rule is never read as a date although a field's value is, so a rule that orders a date field against a
  date literal raises for every record whose field holds a date, and one that tests them for equality is never true.
\<close>

theorem date_literal_rules:
  assumes "dict_get r f = Some (JStr s)" and "ro_iso ops s = Some day"
    and "ro_parse ops x = Inr (RCompare (RName f) [(op, RConst (JStr literal))])"
  shows "(op \<in> {Gt, GtE, Lt, LtE} \<longrightarrow> (\<exists>m. evaluate_rule ops x r = Inl (RuleCrash m)))
    \<and> (op = CEq \<longrightarrow> evaluate_rule ops x r = Inr False)"
  using assms by (auto simp: evaluate_rule_def rbind_def coerce_def not_ordered_def)

theorem date_literal_rules_witness:
  "\<exists>ops r. (\<exists>m. evaluate_rule ops ''endDate >= '' r = Inl (RuleCrash m))"
proof -
  let ?ops = "\<lparr>ro_parse = \<lambda>t. Inr (RCompare (RName ''endDate'') [(GtE, RConst (JStr ''2026-01-01''))]), ro_iso = \<lambda>t. Some 739812\<rparr>"
  let ?r = "[(''endDate'', JStr ''2026-07-15'')]"
  have "dict_get ?r ''endDate'' = Some (JStr ''2026-07-15'')" "ro_iso ?ops ''2026-07-15'' = Some 739812"
    "ro_parse ?ops ''endDate >= '' = Inr (RCompare (RName ''endDate'') [(GtE, RConst (JStr ''2026-01-01''))])"
    by simp_all
  from date_literal_rules[OF this] show ?thesis by auto
qed

end
