(* ===== verification/Plans.thy ===== *)
theory Plans
  imports Engine
begin

text \<open>
  Execution plans: building one (\<open>app/planning/models.py\<close>, \<open>app/planning/service.py\<close>), executing it step by step with retries
  (\<open>app/execution/service.py\<close>, \<open>app/repositories/execution_plan_repository.py\<close>) and the endpoint that does both
  (\<open>app/api/v1/execution_plans.py\<close>). What the runtime answers may differ from attempt to attempt, so the engine's environment is
  a function of the step record at the attempt.
\<close>

subsection \<open>Plans\<close>

datatype plan_target = TargetAgent | TargetTeam

fun plan_target_value :: "plan_target \<Rightarrow> string" where
  "plan_target_value TargetAgent = ''AGENT''"
| "plan_target_value TargetTeam = ''TEAM''"

record plan_step =
  ps_target_type :: plan_target
  ps_agent_os_code :: string
  ps_team_code :: "string option"
  ps_agent_code :: "string option"
  ps_step_input_template :: "string option"
  ps_max_retries :: int
  ps_order :: int

record execution_plan =
  pl_original_message :: string
  pl_steps :: "plan_step list"
  pl_rationale :: string

record plan_step_request =
  pq_team_code :: "string option"
  pq_agent_code :: "string option"
  pq_input_template :: "string option"
  pq_max_retries :: int

definition target_of :: "string option \<Rightarrow> plan_target" where
  "target_of team_code = (if truthy_str team_code then TargetTeam else TargetAgent)"

definition default_step :: "string \<Rightarrow> string option \<Rightarrow> string option \<Rightarrow> plan_step" where
  "default_step os tm ag =
     \<lparr>ps_target_type = target_of tm, ps_agent_os_code = os, ps_team_code = tm, ps_agent_code = ag,
      ps_step_input_template = None, ps_max_retries = 0, ps_order = 0\<rparr>"

definition explicit_step :: "string \<Rightarrow> nat \<Rightarrow> plan_step_request \<Rightarrow> plan_step" where
  "explicit_step os i raw =
     \<lparr>ps_target_type = target_of (pq_team_code raw), ps_agent_os_code = os, ps_team_code = pq_team_code raw,
      ps_agent_code = pq_agent_code raw, ps_step_input_template = pq_input_template raw,
      ps_max_retries = pq_max_retries raw, ps_order = int i\<rparr>"

definition build_plan ::
  "bool \<Rightarrow> string \<Rightarrow> string \<Rightarrow> string option \<Rightarrow> string option \<Rightarrow> plan_step_request list option \<Rightarrow> execution_plan" where
  "build_plan feature_planning message os tm ag explicit_steps =
     (case explicit_steps of
        Some (raw # raws) \<Rightarrow>
          if feature_planning
          then \<lparr>pl_original_message = message, pl_steps = map (\<lambda>(i, x). explicit_step os i x) (enumerate 0 (raw # raws)),
                pl_rationale = ''explicit multi-step plan''\<rparr>
          else \<lparr>pl_original_message = message, pl_steps = [default_step os tm ag], pl_rationale = ''single-step (default dispatch)''\<rparr>
      | _ \<Rightarrow> \<lparr>pl_original_message = message, pl_steps = [default_step os tm ag], pl_rationale = ''single-step (default dispatch)''\<rparr>)"

subsection \<open>Running a plan\<close>

definition new_plan_run :: "execution_plan \<Rightarrow> string \<Rightarrow> uuid \<Rightarrow> time \<Rightarrow> execution_plan_run" where
  "new_plan_run plan session_id i t =
     \<lparr>row_id = i, created_at = t, ep_session_id = Some session_id, ep_input = pl_original_message plan,
      ep_rationale = Some (pl_rationale plan), ep_status = EpRunning, ep_result = None, ep_error_message = None,
      ep_started_at = Some t, ep_completed_at = None\<rparr>"

definition new_step_run :: "uuid \<Rightarrow> plan_step \<Rightarrow> string \<Rightarrow> uuid \<Rightarrow> time \<Rightarrow> execution_plan_step_run" where
  "new_step_run plan_run_id step step_input i t =
     (let target_code = (case ps_target_type step of TargetTeam \<Rightarrow> ps_team_code step | TargetAgent \<Rightarrow> ps_agent_code step) in
      \<lparr>row_id = i, created_at = t, es_plan_run_id = plan_run_id, es_step_order = ps_order step,
       es_target_type = plan_target_value (ps_target_type step),
       es_target_code = (case target_code of None \<Rightarrow> [] | Some c \<Rightarrow> c), es_status = EsRunning, es_attempt_count = 0,
       es_input = Some step_input, es_output = None, es_error_message = None, es_started_at = Some t, es_completed_at = None\<rparr>)"

definition plan_attempt ::
  "(execution_plan_step_run \<Rightarrow> engine_env) \<Rightarrow> plan_step \<Rightarrow> string \<Rightarrow> string \<Rightarrow> string option \<Rightarrow> execution_plan_step_run \<Rightarrow> db
     \<Rightarrow> app_error + string" where
  "plan_attempt envs step step_input session_id user_id sr d =
     (case ps_target_type step of
        TargetTeam \<Rightarrow>
          rbind (resolve_team_context_by_code (ps_agent_os_code step) (case ps_team_code step of None \<Rightarrow> [] | Some c \<Rightarrow> c) d) (\<lambda>ctx.
            run_team (envs sr) ctx step_input session_id user_id [] d)
      | TargetAgent \<Rightarrow>
          rbind (resolve_context (ps_agent_os_code step) (the (or_str (ps_team_code step) (Some []))) (ps_agent_code step) d) (\<lambda>ctx.
            run_agent (envs sr) ctx step_input session_id user_id [] d))"

text \<open>\<open>_execute_step_with_retry\<close>: \<open>n\<close> is the number of attempts left. The record of the step is an object of the caller, who sees
  the count of the attempts however the loop ends. One second passes before each further attempt.\<close>

definition begin_attempt :: "execution_plan_step_run \<Rightarrow> ('r sess, execution_plan_step_run) prog" where
  "begin_attempt sr =
     (let sr = sr\<lparr>es_attempt_count := es_attempt_count sr + 1\<rparr> in
      if 1 < es_attempt_count sr then repo_save t_plan_steps_update (sr\<lparr>es_status := EsRetrying\<rparr>) else mret sr)"

fun retry_loop ::
  "(execution_plan_step_run \<Rightarrow> db \<Rightarrow> app_error + string) \<Rightarrow> nat \<Rightarrow> execution_plan_step_run
     \<Rightarrow> ('r sess, execution_plan_step_run \<times> (app_error + string)) prog" where
  "retry_loop attempt 0 sr = mret (sr, Inl (runtime_error ''Execution step retry loop exited without a result''))"
| "retry_loop attempt (Suc n) sr =
     mbind (begin_attempt sr) (\<lambda>sr.
      mbind (mget (\<lambda>s. attempt sr (work s))) (\<lambda>r.
        case r of
          Inr out \<Rightarrow> mret (sr, Inr out)
        | Inl e \<Rightarrow>
            if n = 0 then mret (sr, Inl e)
            else mbind (mmod (\<lambda>s. s\<lparr>now := now s + 1\<rparr>)) (\<lambda>_. retry_loop attempt n sr)))"

definition attempts_of :: "plan_step \<Rightarrow> nat" where
  "attempts_of step = nat (max 1 (ps_max_retries step + 1))"

definition execute_step_with_retry ::
  "(execution_plan_step_run \<Rightarrow> engine_env) \<Rightarrow> plan_step \<Rightarrow> string \<Rightarrow> execution_plan_step_run \<Rightarrow> string \<Rightarrow> string option
     \<Rightarrow> ('r sess, execution_plan_step_run \<times> (app_error + string)) prog" where
  "execute_step_with_retry envs step step_input sr session_id user_id =
     retry_loop (plan_attempt envs step step_input session_id user_id) (attempts_of step) sr"

definition plan_step_failure :: "plan_step \<Rightarrow> app_error \<Rightarrow> app_error" where
  "plan_step_failure step e = runtime_error (''Execution plan step '' @ str_int (ps_order step) @ '' failed: '' @ err_message e)"

text \<open>The input of a step: its template, or what the step before it gave.\<close>

definition step_input_of :: "plan_step \<Rightarrow> string \<Rightarrow> string" where
  "step_input_of step current_output = the (or_str (ps_step_input_template step) (Some current_output))"

text \<open>The body of the loop over the steps: its value is the step's output.\<close>

definition run_plan_step ::
  "(execution_plan_step_run \<Rightarrow> engine_env) \<Rightarrow> execution_plan_run \<Rightarrow> string \<Rightarrow> string option \<Rightarrow> string \<Rightarrow> plan_step
     \<Rightarrow> ('r sess, string) prog" where
  "run_plan_step envs plan_run session_id user_id current_output step =
     (let step_input = step_input_of step current_output in
      mbind (repo_create t_plan_steps t_plan_steps_update no_clash (new_step_run (row_id plan_run) step step_input)) (\<lambda>sr.
      mbind (execute_step_with_retry envs step step_input sr session_id user_id) (\<lambda>(sr, r).
      mbind (mget now) (\<lambda>t.
        case r of
          Inl e \<Rightarrow>
            mbind (repo_save t_plan_steps_update
              (sr\<lparr>es_status := EsFailed, es_error_message := Some (err_message e), es_completed_at := Some t\<rparr>)) (\<lambda>_.
            mbind (repo_save t_plan_runs_update
              (plan_run\<lparr>ep_status := EpFailed, ep_error_message := Some (err_message e), ep_completed_at := Some t\<rparr>)) (\<lambda>_.
              mraise (plan_step_failure step e)))
        | Inr out \<Rightarrow>
            mbind (repo_save t_plan_steps_update
              (sr\<lparr>es_status := EsCompleted, es_output := Some out, es_completed_at := Some t\<rparr>)) (\<lambda>_. mret out)))))"

fun run_plan_steps ::
  "(execution_plan_step_run \<Rightarrow> engine_env) \<Rightarrow> execution_plan_run \<Rightarrow> string \<Rightarrow> string option \<Rightarrow> string \<Rightarrow> plan_step list
     \<Rightarrow> ('r sess, string) prog" where
  "run_plan_steps envs plan_run session_id user_id current_output [] = mret current_output"
| "run_plan_steps envs plan_run session_id user_id current_output (step # steps) =
     mbind (run_plan_step envs plan_run session_id user_id current_output step) (\<lambda>out.
       run_plan_steps envs plan_run session_id user_id out steps)"

definition run_plan ::
  "bool \<Rightarrow> (execution_plan_step_run \<Rightarrow> engine_env) \<Rightarrow> execution_plan \<Rightarrow> string \<Rightarrow> string option
     \<Rightarrow> ('r sess, execution_plan_run \<times> string) prog" where
  "run_plan feature_execution envs plan session_id user_id =
     (if \<not> feature_execution then mraise (runtime_error ''Execution Engine is not enabled on this deployment'')
      else if pl_steps plan = [] then mraise (runtime_error ''ExecutionPlan has no steps to execute'')
      else mbind (repo_create t_plan_runs t_plan_runs_update no_clash (new_plan_run plan session_id)) (\<lambda>plan_run.
        mbind (run_plan_steps envs plan_run session_id user_id (pl_original_message plan) (sort_key ps_order (pl_steps plan))) (\<lambda>out.
        mbind (mget now) (\<lambda>t.
        mbind (repo_save t_plan_runs_update
          (plan_run\<lparr>ep_status := EpCompleted, ep_result := Some out, ep_completed_at := Some t\<rparr>)) (\<lambda>plan_run.
          mret (plan_run, out))))))"

subsection \<open>The endpoint\<close>

record plan_request =
  pr_agent_os :: string
  pr_message :: string
  pr_steps :: "plan_step_request list"
  pr_session_id :: "uuid option"
  pr_user_id :: "string option"

definition run_execution_plan ::
  "bool \<Rightarrow> bool \<Rightarrow> (execution_plan_step_run \<Rightarrow> engine_env) \<Rightarrow> plan_request \<Rightarrow> ('r sess, execution_plan_run \<times> string) prog" where
  "run_execution_plan feature_planning feature_execution envs rq =
     (if \<not> (feature_planning \<and> feature_execution)
      then mraise (mk_error NotFoundError ''Planning/Execution Engine is not enabled on this deployment'')
      else let plan = build_plan feature_planning (pr_message rq) (pr_agent_os rq) None None
                        (if pr_steps rq = [] then None else Some (pr_steps rq))
        in mbind (case pr_session_id rq of Some i \<Rightarrow> mret i | None \<Rightarrow> uuid4) (\<lambda>session_id.
             run_plan feature_execution envs plan session_id (pr_user_id rq)))"


subsection \<open>What the retries guarantee\<close>

lemma put_row_snoc:
  "row_id r' = row_id r \<Longrightarrow> \<forall>x \<in> set rows. row_id x \<noteq> row_id r \<Longrightarrow> put_row r' (rows @ [r]) = rows @ [r']"
  by (auto simp: put_row_def intro: map_idI)

text \<open>Attempt number \<open>k\<close> of a step may give \<open>r\<close>.\<close>

definition gives :: "(execution_plan_step_run \<Rightarrow> db \<Rightarrow> app_error + string) \<Rightarrow> int \<Rightarrow> app_error + string \<Rightarrow> bool" where
  "gives attempt k r \<longleftrightarrow> (\<exists>sr d. es_attempt_count sr = k \<and> attempt sr d = r)"

lemma retry_loop_run:
  assumes "t_plan_steps (work s) = rows @ [row]" "row_id row = row_id sr" "\<forall>x \<in> set rows. row_id x \<noteq> row_id sr"
    "0 \<le> es_attempt_count sr" "0 < n"
  shows "\<exists>k st r s' row'. retry_loop attempt n sr s = (Inr (sr\<lparr>es_attempt_count := es_attempt_count sr + int k, es_status := st\<rparr>, r), s') \<and>
    1 \<le> k \<and> k \<le> n \<and>
    (\<forall>j. 1 \<le> j \<and> j < k \<longrightarrow> (\<exists>e. gives attempt (es_attempt_count sr + int j) (Inl e))) \<and>
    gives attempt (es_attempt_count sr + int k) r \<and>
    ((\<exists>e. r = Inl e) \<longrightarrow> k = n) \<and>
    s' = s\<lparr>work := t_plan_steps_update (\<lambda>_. rows @ [row']) (work s), now := now s + int (k - 1)\<rparr> \<and> row_id row' = row_id sr"
  using assms
proof (induction n arbitrary: sr s row)
  case 0
  from 0(5) have False by simp
  then show ?case ..
next
  case (Suc n)
  define sr1 where "sr1 = (if 1 < es_attempt_count sr + 1
    then sr\<lparr>es_attempt_count := es_attempt_count sr + 1, es_status := EsRetrying\<rparr>
    else sr\<lparr>es_attempt_count := es_attempt_count sr + 1\<rparr>)"
  define row1 where "row1 = (if 1 < es_attempt_count sr + 1 then sr1 else row)"
  define s1 where "s1 = s\<lparr>work := t_plan_steps_update (\<lambda>_. rows @ [row1]) (work s)\<rparr>"
  have row1: "row_id row1 = row_id sr" using Suc.prems(2) by (simp add: row1_def sr1_def)
  have sr1: "sr1 = sr\<lparr>es_attempt_count := es_attempt_count sr + 1, es_status := es_status sr1\<rparr>"
    "es_attempt_count sr1 = es_attempt_count sr + 1" "row_id sr1 = row_id sr"
    by (simp_all add: sr1_def)
  have same: "t_plan_steps_update (\<lambda>_. rows @ [row]) (work s) = work s"
    using Suc.prems(1) by (cases "work s") simp
  have touch: "begin_attempt sr s = (Inr sr1, s1)"
  proof (cases "1 < es_attempt_count sr + 1")
    case True
    moreover from this have "row1 = sr1" by (simp add: row1_def)
    moreover have "t_plan_steps_update (put_row sr1) (work s) = work s1"
      using Suc.prems(1-3) sr1(3) \<open>row1 = sr1\<close> by (cases "work s") (simp add: s1_def put_row_snoc)
    ultimately show ?thesis by (simp add: begin_attempt_def run_save s1_def sr1_def)
  next
    case False
    with same show ?thesis by (simp add: begin_attempt_def s1_def sr1_def row1_def)
  qed
  have step: "retry_loop attempt (Suc n) sr s = (case attempt sr1 (work s1) of
      Inr out \<Rightarrow> (Inr (sr1, Inr out), s1)
    | Inl e \<Rightarrow> if n = 0 then (Inr (sr1, Inl e), s1) else retry_loop attempt n sr1 (s1\<lparr>now := now s + 1\<rparr>))"
    using touch by (simp add: mbind_def [of "begin_attempt sr"] split: sum.split) (simp add: s1_def)
  show ?case
  proof (cases "(\<exists>e. attempt sr1 (work s1) = Inl e) \<and> n \<noteq> 0")
    case True
    then obtain e where e: "attempt sr1 (work s1) = Inl e" "0 < n" by auto
    have rows1: "t_plan_steps (work (s1\<lparr>now := now s + 1\<rparr>)) = rows @ [row1]" by (simp add: s1_def)
    have "row_id row1 = row_id sr1" "\<forall>x \<in> set rows. row_id x \<noteq> row_id sr1" "0 \<le> es_attempt_count sr1"
      using Suc.prems(3,4) row1 sr1(2,3) by simp_all
    from Suc.IH [OF rows1 this e(2)] obtain k st r s' row' where ih:
      "retry_loop attempt n sr1 (s1\<lparr>now := now s + 1\<rparr>) = (Inr (sr1\<lparr>es_attempt_count := es_attempt_count sr1 + int k, es_status := st\<rparr>, r), s')"
      "1 \<le> k" "k \<le> n"
      "\<forall>j. 1 \<le> j \<and> j < k \<longrightarrow> (\<exists>e. gives attempt (es_attempt_count sr1 + int j) (Inl e))"
      "gives attempt (es_attempt_count sr1 + int k) r"
      "(\<exists>e. r = Inl e) \<longrightarrow> k = n"
      "s' = (s1\<lparr>now := now s + 1\<rparr>)\<lparr>work := t_plan_steps_update (\<lambda>_. rows @ [row']) (work (s1\<lparr>now := now s + 1\<rparr>)),
        now := now (s1\<lparr>now := now s + 1\<rparr>) + int (k - 1)\<rparr>" "row_id row' = row_id sr1"
      by blast
    show ?thesis
    proof (intro exI conjI)
      show "retry_loop attempt (Suc n) sr s = (Inr (sr\<lparr>es_attempt_count := es_attempt_count sr + int (Suc k), es_status := st\<rparr>, r),
        s\<lparr>work := t_plan_steps_update (\<lambda>_. rows @ [row']) (work s), now := now s + int (Suc k - 1)\<rparr>)"
        proof -
        have "sr1\<lparr>es_attempt_count := es_attempt_count sr1 + int k, es_status := st\<rparr>
            = sr\<lparr>es_attempt_count := es_attempt_count sr + int (Suc k), es_status := st\<rparr>"
          by (simp add: sr1_def)
        moreover have "s' = s\<lparr>work := t_plan_steps_update (\<lambda>_. rows @ [row']) (work s), now := now s + int (Suc k - 1)\<rparr>"
          using ih(2,7) by (simp add: s1_def of_nat_diff)
        ultimately show ?thesis using step e ih(1) by (simp del: retry_loop.simps)
      qed
    next
      show "\<forall>j. 1 \<le> j \<and> j < Suc k \<longrightarrow> (\<exists>e. gives attempt (es_attempt_count sr + int j) (Inl e))"
      proof (intro allI impI)
        fix j assume j: "1 \<le> j \<and> j < Suc k"
        show "\<exists>e. gives attempt (es_attempt_count sr + int j) (Inl e)"
        proof (cases "j = 1")
          case True
          with e(1) sr1(2) show ?thesis by (auto simp: gives_def)
        next
          case False
          with j have "1 \<le> j - 1 \<and> j - 1 < k" by linarith
          with ih(4) have "\<exists>e. gives attempt (es_attempt_count sr1 + int (j - 1)) (Inl e)" by blast
          with j sr1(2) show ?thesis by (simp add: of_nat_diff)
        qed
      qed
      show "gives attempt (es_attempt_count sr + int (Suc k)) r"
        using ih(5) sr1(2) by (simp add: algebra_simps)
      show "(\<exists>e. r = Inl e) \<longrightarrow> Suc k = Suc n" using ih(6) by blast
      show "row_id row' = row_id sr" using ih(8) sr1(3) by simp
    qed (use ih(2,3) in simp_all)
  next
    case False
    then have "retry_loop attempt (Suc n) sr s = (Inr (sr1, attempt sr1 (work s1)), s1)"
      using step by (auto split: sum.splits simp del: retry_loop.simps)
    moreover have "(\<exists>e. attempt sr1 (work s1) = Inl e) \<longrightarrow> n = 0" using False by blast
    ultimately show ?thesis
      using sr1 row1 by (intro exI [of _ 1] exI [of _ "es_status sr1"] exI [of _ "attempt sr1 (work s1)"] exI [of _ s1] exI [of _ row1])
        (auto simp: s1_def gives_def simp del: retry_loop.simps)
  qed
qed


text \<open>The record a finished step leaves: \<open>k\<close> attempts, all but the last failed, the last gave \<open>r\<close>; a failed step used all it had.\<close>

definition plan_record ::
  "(int \<Rightarrow> app_error + string \<Rightarrow> bool) \<Rightarrow> plan_step \<Rightarrow> string \<Rightarrow> execution_plan_step_run \<Rightarrow> app_error + string \<Rightarrow> bool" where
  "plan_record g step inp rec r \<longleftrightarrow>
     es_step_order rec = ps_order step \<and> es_target_type rec = plan_target_value (ps_target_type step) \<and> es_input rec = Some inp \<and>
     (\<exists>k. 1 \<le> k \<and> int k \<le> max 1 (ps_max_retries step + 1) \<and> es_attempt_count rec = int k \<and>
        (\<forall>j. 1 \<le> j \<and> j < k \<longrightarrow> (\<exists>e. g (int j) (Inl e))) \<and> g (int k) r \<and>
        (case r of
           Inl e \<Rightarrow> int k = max 1 (ps_max_retries step + 1) \<and> es_status rec = EsFailed \<and> es_error_message rec = Some (err_message e) \<and> es_output rec = None
         | Inr out \<Rightarrow> es_status rec = EsCompleted \<and> es_output rec = Some out \<and> es_error_message rec = None))"

definition failed_plan_run :: "execution_plan_run \<Rightarrow> app_error \<Rightarrow> time \<Rightarrow> execution_plan_run" where
  "failed_plan_run plan_run e t = plan_run\<lparr>ep_status := EpFailed, ep_error_message := Some (err_message e), ep_completed_at := Some t\<rparr>"

lemma attempts_pos: "0 < attempts_of step"
  by (simp add: attempts_of_def)

lemma attempts_int: "int (attempts_of step) = max 1 (ps_max_retries step + 1)"
  by (simp add: attempts_of_def)

lemma run_plan_step_run:
  assumes "ids_below (seed s) (t_plan_steps (work s))"
  shows "\<exists>rec r s'. run_plan_step envs plan_run sid uid cur step s =
      ((case r of Inl e \<Rightarrow> Inl (plan_step_failure step e) | Inr out \<Rightarrow> Inr out), s') \<and>
    plan_record (gives (plan_attempt envs step (step_input_of step cur) sid uid)) step (step_input_of step cur) rec r \<and>
    t_plan_steps (work s') = t_plan_steps (work s) @ [rec] \<and> es_plan_run_id rec = row_id plan_run \<and>
    t_plan_runs (work s') = (case r of Inl e \<Rightarrow> put_row (failed_plan_run plan_run e (now s')) (t_plan_runs (work s)) | Inr out \<Rightarrow> t_plan_runs (work s)) \<and>
    seed s' = Suc (seed s) \<and> row_id rec = new_uuid (seed s) \<and> durable s' = durable s"
proof -
  let ?inp = "step_input_of step cur"
  let ?att = "plan_attempt envs step ?inp sid uid"
  define sr where "sr = new_step_run (row_id plan_run) step ?inp (new_uuid (seed s)) (now s)"
  define s1 where "s1 = s\<lparr>seed := Suc (seed s), work := t_plan_steps_update (\<lambda>rs. rs @ [sr]) (work s)\<rparr>"
  have sr: "row_id sr = new_uuid (seed s)" "es_attempt_count sr = 0" "es_step_order sr = ps_order step"
    "es_target_type sr = plan_target_value (ps_target_type step)" "es_input sr = Some ?inp" "es_output sr = None"
    "es_error_message sr = None" "es_plan_run_id sr = row_id plan_run"
    by (simp_all add: sr_def new_step_run_def Let_def)
  have fresh: "\<forall>x \<in> set (t_plan_steps (work s)). row_id x \<noteq> row_id sr"
    using assms sr(1) by (auto simp: ids_below_def)
  have "t_plan_steps (work s1) = t_plan_steps (work s) @ [sr]" by (simp add: s1_def)
  moreover have "0 \<le> es_attempt_count sr" using sr(2) by simp
  ultimately obtain k st r s2 row' where
    loop: "retry_loop ?att (attempts_of step) sr s1 = (Inr (sr\<lparr>es_attempt_count := int k, es_status := st\<rparr>, r), s2)"
    and k: "1 \<le> k" "k \<le> attempts_of step" "\<forall>j. 1 \<le> j \<and> j < k \<longrightarrow> (\<exists>e. gives ?att (int j) (Inl e))" "gives ?att (int k) r"
      "(\<exists>e. r = Inl e) \<longrightarrow> k = attempts_of step"
    and s2: "s2 = s1\<lparr>work := t_plan_steps_update (\<lambda>_. t_plan_steps (work s) @ [row']) (work s1), now := now s1 + int (k - 1)\<rparr>"
      "row_id row' = row_id sr"
    using retry_loop_run [OF _ refl fresh _ attempts_pos [of step], of s1 ?att, unfolded sr(2) add_0_left] sr(2) by blast
  define rec where "rec = (case r of
      Inl e \<Rightarrow> sr\<lparr>es_attempt_count := int k, es_status := EsFailed, es_error_message := Some (err_message e), es_completed_at := Some (now s2)\<rparr>
    | Inr out \<Rightarrow> sr\<lparr>es_attempt_count := int k, es_status := EsCompleted, es_output := Some out, es_completed_at := Some (now s2)\<rparr>)"
  have rec_id: "row_id rec = row_id sr" by (simp add: rec_def split: sum.split)
  have put: "t_plan_steps_update (put_row rec) (work s2) = t_plan_steps_update (\<lambda>_. t_plan_steps (work s) @ [rec]) (work s1)"
    using put_row_snoc [of rec row' "t_plan_steps (work s)"] rec_id s2 fresh by (cases "work s1") simp
  have "plan_record (gives ?att) step ?inp rec r"
    unfolding plan_record_def attempts_int [symmetric] using k sr by (intro conjI exI [of _ k]) (auto simp: rec_def split: sum.split)
  moreover have "es_plan_run_id rec = row_id plan_run" using sr(8) by (simp add: rec_def split: sum.split)
  moreover have "run_plan_step envs plan_run sid uid cur step s = (case r of
      Inl e \<Rightarrow> (Inl (plan_step_failure step e),
        s2\<lparr>work := t_plan_runs_update (put_row (failed_plan_run plan_run e (now s2))) (t_plan_steps_update (put_row rec) (work s2))\<rparr>)
    | Inr out \<Rightarrow> (Inr out, s2\<lparr>work := t_plan_steps_update (put_row rec) (work s2)\<rparr>))"
    using loop
    by (simp add: run_plan_step_def run_simps Let_def sr_def [symmetric] s1_def [symmetric]
        execute_step_with_retry_def mbind_def [of "retry_loop a b c" for a b c] rec_def failed_plan_run_def split: sum.split)
  ultimately show ?thesis
    unfolding put using sr(1) rec_id
    by (intro exI [of _ rec] exI [of _ r]) (auto simp: s2(1) s1_def split: sum.split)
qed


text \<open>The records of a run: each step got its template or the output of the step before, and a step that used up its attempts
  is the last.\<close>

fun plan_trace ::
  "(plan_step \<Rightarrow> string \<Rightarrow> int \<Rightarrow> app_error + string \<Rightarrow> bool) \<Rightarrow> string \<Rightarrow> plan_step list \<Rightarrow> execution_plan_step_run list
     \<Rightarrow> app_error + string \<Rightarrow> bool" where
  "plan_trace g cur [] [] res = (res = Inr cur)"
| "plan_trace g cur (step # steps) (rec # recs) res =
     (\<exists>r. plan_record (g step (step_input_of step cur)) step (step_input_of step cur) rec r \<and>
        (case r of Inl e \<Rightarrow> recs = [] \<and> res = Inl (plan_step_failure step e) | Inr out \<Rightarrow> plan_trace g out steps recs res))"
| "plan_trace g cur steps recs res = False"

abbreviation attempts_give ::
  "(execution_plan_step_run \<Rightarrow> engine_env) \<Rightarrow> string \<Rightarrow> string option \<Rightarrow> plan_step \<Rightarrow> string \<Rightarrow> int \<Rightarrow> app_error + string \<Rightarrow> bool" where
  "attempts_give envs sid uid step inp \<equiv> gives (plan_attempt envs step inp sid uid)"

lemma run_plan_steps_trace:
  assumes "run_plan_steps envs plan_run sid uid cur steps s = (res, s')" "ids_below (seed s) (t_plan_steps (work s))"
  shows "\<exists>recs. t_plan_steps (work s') = t_plan_steps (work s) @ recs \<and> plan_trace (attempts_give envs sid uid) cur steps recs res \<and>
    (\<forall>rec \<in> set recs. es_plan_run_id rec = row_id plan_run) \<and> durable s' = durable s \<and>
    t_plan_runs (work s') = (case res of Inl e \<Rightarrow> t_plan_runs (work s') | Inr out \<Rightarrow> t_plan_runs (work s)) \<and>
    (\<forall>e. res = Inl e \<longrightarrow> (\<exists>e' t. t_plan_runs (work s') = put_row (failed_plan_run plan_run e' t) (t_plan_runs (work s))))"
  using assms
proof (induction steps arbitrary: cur s)
  case Nil
  then show ?case by auto
next
  case (Cons step steps)
  from run_plan_step_run [OF Cons.prems(2), of envs plan_run sid uid cur step] obtain rec r s1 where
    1: "run_plan_step envs plan_run sid uid cur step s = ((case r of Inl e \<Rightarrow> Inl (plan_step_failure step e) | Inr out \<Rightarrow> Inr out), s1)"
      "plan_record (attempts_give envs sid uid step (step_input_of step cur)) step (step_input_of step cur) rec r"
      "t_plan_steps (work s1) = t_plan_steps (work s) @ [rec]" "es_plan_run_id rec = row_id plan_run"
      "t_plan_runs (work s1) = (case r of Inl e \<Rightarrow> put_row (failed_plan_run plan_run e (now s1)) (t_plan_runs (work s)) | Inr out \<Rightarrow> t_plan_runs (work s))"
      "seed s1 = Suc (seed s)" "row_id rec = new_uuid (seed s)" "durable s1 = durable s" by blast
  show ?case
  proof (cases r)
    case (Inl e)
    with 1 Cons.prems(1) have "res = Inl (plan_step_failure step e)" "s' = s1" by (simp_all add: mbind_def)
    with Inl 1 show ?thesis by (intro exI [of _ "[rec]"]) auto
  next
    case (Inr out)
    with 1 Cons.prems(1) have rest: "run_plan_steps envs plan_run sid uid out steps s1 = (res, s')" by (simp add: mbind_def)
    have "ids_below (seed s1) (t_plan_steps (work s1))"
      using ids_below_snoc [OF Cons.prems(2) 1(7)] 1(3,6) by simp
    from Cons.IH [OF rest this] obtain recs where
      "t_plan_steps (work s') = t_plan_steps (work s1) @ recs" "plan_trace (attempts_give envs sid uid) out steps recs res"
      "\<forall>rec \<in> set recs. es_plan_run_id rec = row_id plan_run" "durable s' = durable s1"
      "t_plan_runs (work s') = (case res of Inl e \<Rightarrow> t_plan_runs (work s') | Inr out \<Rightarrow> t_plan_runs (work s1))"
      "\<forall>e. res = Inl e \<longrightarrow> (\<exists>e' t. t_plan_runs (work s') = put_row (failed_plan_run plan_run e' t) (t_plan_runs (work s1)))"
      by blast
    with Inr 1 show ?thesis by (intro exI [of _ "rec # recs"]) (auto split: sum.splits)
  qed
qed

text \<open>C8. Running a plan: its step records are a trace of the steps in their order. Each step's input is its template or the output of
  the step before (the message for the first); it was attempted until an attempt succeeded and at most \<open>max_retries + 1\<close> times, its
  record counts the attempts and holds the last one's output or error; the first step whose attempts are used up ends the run. The
  run's own record is completed with the last output, or failed.\<close>

theorem plan_retries_and_threads:
  assumes "run_plan True envs plan sid uid s = (res, s')" "pl_steps plan \<noteq> []"
    "ids_below (seed s) (t_plan_steps (work s))" "ids_below (seed s) (t_plan_runs (work s))"
  shows "\<exists>recs run. t_plan_steps (work s') = t_plan_steps (work s) @ recs \<and> (\<forall>rec \<in> set recs. es_plan_run_id rec = row_id run) \<and>
    plan_trace (attempts_give envs sid uid) (pl_original_message plan) (sort_key ps_order (pl_steps plan)) recs (map_sum id snd res) \<and>
    t_plan_runs (work s') = t_plan_runs (work s) @ [run] \<and>
    (case res of Inl e \<Rightarrow> ep_status run = EpFailed \<and> ep_error_message run \<noteq> None
     | Inr (run', out) \<Rightarrow> run' = run \<and> ep_status run = EpCompleted \<and> ep_result run = Some out)"
proof -
  define run0 where "run0 = new_plan_run plan sid (new_uuid (seed s)) (now s)"
  define s1 where "s1 = s\<lparr>seed := Suc (seed s), work := t_plan_runs_update (\<lambda>rs. rs @ [run0]) (work s)\<rparr>"
  obtain r2 s2 where 2: "run_plan_steps envs run0 sid uid (pl_original_message plan) (sort_key ps_order (pl_steps plan)) s1 = (r2, s2)"
    by force
  have id0: "row_id run0 = new_uuid (seed s)" by (simp add: run0_def new_plan_run_def)
  have put: "put_row run' (t_plan_runs (work s) @ [run0]) = t_plan_runs (work s) @ [run']" if "row_id run' = row_id run0" for run'
    using put_row_snoc [OF that] assms(4) id0 by (auto simp: ids_below_def)
  have "ids_below (seed s1) (t_plan_steps (work s1))"
    using ids_below_mono [OF assms(3)] by (simp add: s1_def)
  from run_plan_steps_trace [OF 2 this] obtain recs where recs:
    "t_plan_steps (work s2) = t_plan_steps (work s) @ recs"
    "plan_trace (attempts_give envs sid uid) (pl_original_message plan) (sort_key ps_order (pl_steps plan)) recs r2"
    "\<forall>rec \<in> set recs. es_plan_run_id rec = row_id run0"
    "\<forall>out. r2 = Inr out \<longrightarrow> t_plan_runs (work s2) = t_plan_runs (work s) @ [run0]"
    "\<forall>e. r2 = Inl e \<longrightarrow> (\<exists>e' t. t_plan_runs (work s2) = put_row (failed_plan_run run0 e' t) (t_plan_runs (work s) @ [run0]))"
    by (auto simp: s1_def split: sum.splits)
  show ?thesis
  proof (cases r2)
    case (Inl e)
    with 2 assms(1,2) have "res = Inl e" "s' = s2"
      by (simp_all add: run_plan_def run_create_no_clash run_bind_Inr mbind_def [of "run_plan_steps a b c d e f" for a b c d e f]
          run0_def [symmetric] s1_def [symmetric])
    moreover obtain e' t where "t_plan_runs (work s2) = t_plan_runs (work s) @ [failed_plan_run run0 e' t]"
      using recs(5) Inl put [of "failed_plan_run run0 e' t" for e' t] by (auto simp: failed_plan_run_def)
    ultimately show ?thesis
      using recs Inl by (intro exI [of _ recs] exI [of _ "failed_plan_run run0 e' t"]) (simp add: failed_plan_run_def)
  next
    case (Inr out)
    let ?run = "run0\<lparr>ep_status := EpCompleted, ep_result := Some out, ep_completed_at := Some (now s2)\<rparr>"
    from Inr 2 assms(1,2) have "res = Inr (?run, out)" "s' = s2\<lparr>work := t_plan_runs_update (put_row ?run) (work s2)\<rparr>"
      by (simp_all add: run_plan_def run_simps mbind_def [of "run_plan_steps a b c d e f" for a b c d e f]
          run0_def [symmetric] s1_def [symmetric])
    with recs Inr put [of ?run] show ?thesis by (intro exI [of _ recs] exI [of _ ?run]) simp
  qed
qed


subsection \<open>Plans that fail\<close>

text \<open>What running a plan does not touch.\<close>

definition plan_frame :: "db \<Rightarrow> team list \<Rightarrow> 'r sess \<Rightarrow> bool" where
  "plan_frame D T s \<longleftrightarrow> durable s = D \<and> t_teams (work s) = T"

lemma frame_plan_write [inv_intros]:
  "keeps (repo_save t_plan_steps_update x) (plan_frame D T)"
  "keeps (repo_save t_plan_runs_update y) (plan_frame D T)"
  "keeps (repo_create t_plan_steps t_plan_steps_update no_clash mk) (plan_frame D T)"
  "keeps (repo_create t_plan_runs t_plan_runs_update no_clash mk') (plan_frame D T)"
  "keeps (mmod (\<lambda>s. s\<lparr>now := now s + 1\<rparr>)) (plan_frame D T)"
  "keeps uuid4 (plan_frame D T)"
  by (simp_all add: keeps_def wp_def plan_frame_def run_save run_create_no_clash)

lemma frame_begin_attempt [inv_intros]: "keeps (begin_attempt sr) (plan_frame D T)"
  unfolding begin_attempt_def Let_def by (auto intro: inv_intros)

lemma frame_retry_loop [inv_intros]: "keeps (retry_loop attempt n sr) (plan_frame D T)"
proof (induction n arbitrary: sr)
  case (Suc n)
  then show ?case by (auto intro!: inv_intros split: sum.split)
qed (simp add: keeps_ret)

lemma frame_run_plan_step [inv_intros]: "keeps (run_plan_step envs pr sid uid cur step) (plan_frame D T)"
  by (auto simp: run_plan_step_def execute_step_with_retry_def Let_def intro!: inv_intros split: sum.split prod.split)

lemma frame_run_plan_steps [inv_intros]: "keeps (run_plan_steps envs pr sid uid cur steps) (plan_frame D T)"
  by (induction steps arbitrary: cur) (auto intro: inv_intros)

lemma frame_run_execution_plan: "keeps (run_execution_plan fp fe envs rq) (plan_frame D T)"
  by (auto simp: run_execution_plan_def run_plan_def Let_def intro!: inv_intros split: option.split)

text \<open>The record of a plan that fails is written in the request's own transaction, whose rollback takes it back: after a failed
  request neither the plan's run nor any of its steps is in the database.\<close>

theorem failed_plan_leaves_no_record:
  assumes "get_db (run_execution_plan feature_planning feature_execution envs rq) s = (Inl e, s')"
  shows "durable s' = durable s \<and> work s' = durable s"
proof -
  from get_db_error_durable [OF assms] obtain s'' where
    "run_execution_plan feature_planning feature_execution envs rq s = (Inl e, s'')" "durable s' = durable s''" "work s' = durable s''"
    by blast
  with keepsD [OF frame_run_execution_plan this(1), of "durable s" "t_teams (work s)"] show ?thesis
    by (simp add: plan_frame_def)
qed

lemma retry_loop_fails:
  fixes s :: "'r sess"
  assumes "\<And>sr (s :: 'r sess). plan_frame D T s \<Longrightarrow> \<exists>e. attempt sr (work s) = Inl e" "plan_frame D T s"
  shows "wp (retry_loop attempt n sr) (\<lambda>(sr', r) s'. (\<exists>e. r = Inl e) \<and> plan_frame D T s') (\<lambda>e. plan_frame D T) s"
  using assms(2)
proof (induction n arbitrary: sr s)
  case (Suc n)
  have first: "wp (begin_attempt sr) (\<lambda>sr. plan_frame D T) (\<lambda>e. plan_frame D T) s"
    using frame_begin_attempt Suc.prems unfolding keeps_def by blast
  show ?case
    unfolding retry_loop.simps wp_bind
  proof (rule wp_mono [OF first])
    fix sr' :: execution_plan_step_run and s' :: "'r sess" assume s': "plan_frame D T s'"
    then obtain e where e: "attempt sr' (work s') = Inl e" using assms(1) by blast
    have "plan_frame D T (s'\<lparr>now := now s' + 1\<rparr>)" using s' by (simp add: plan_frame_def)
    from Suc.IH [OF this] e s' show "wp (mget (\<lambda>s. attempt sr' (work s))) (\<lambda>r. wp (case r of Inl e \<Rightarrow>
        if n = 0 then mret (sr', Inl e) else mbind (mmod (\<lambda>s. s\<lparr>now := now s + 1\<rparr>)) (\<lambda>_. retry_loop attempt n sr')
      | Inr out \<Rightarrow> mret (sr', Inr out)) (\<lambda>(sr', r) s'. (\<exists>e. r = Inl e) \<and> plan_frame D T s') (\<lambda>e. plan_frame D T))
      (\<lambda>e. plan_frame D T) s'"
      by (simp add: wp_simps)
  qed
qed (simp add: wp_simps)

text \<open>A step without a team: what it asks for is a team with the empty code.\<close>

definition teamless :: "plan_step \<Rightarrow> bool" where
  "teamless step \<longleftrightarrow> ps_target_type step = TargetAgent \<and> \<not> truthy_str (ps_team_code step)"

lemma teamless_attempt:
  assumes "teamless step" "\<forall>t \<in> set (t_teams d). code t \<noteq> []"
  shows "\<exists>e. plan_attempt envs step inp sid uid sr d = Inl e"
proof -
  have "team_by_code os [] (t_teams d) = Inr None" for os
    using assms(2) by (auto simp: team_by_code_def scalar_one_or_none_None filter_empty_conv)
  moreover have "the (or_str (ps_team_code step) (Some [])) = []"
    using assms(1) by (simp add: teamless_def or_str_def)
  ultimately have "\<exists>e. resolve_context (ps_agent_os_code step) (the (or_str (ps_team_code step) (Some []))) (ps_agent_code step) d = Inl e"
    by (cases "rbind (agent_os_by_code (ps_agent_os_code step) (t_agent_os d)) (require os_enabled (os_error (ps_agent_os_code step)))")
      (simp_all add: resolve_context_def require_def usable_def)
  then show ?thesis using assms(1) by (auto simp: plan_attempt_def teamless_def)
qed


lemma run_plan_step_teamless:
  fixes s :: "'r sess"
  assumes "teamless step" "\<forall>t \<in> set T. code t \<noteq> []" "plan_frame D T s"
  shows "\<exists>e. fst (run_plan_step envs pr sid uid cur step s) = Inl e"
proof -
  obtain sr s1 where 1: "repo_create t_plan_steps t_plan_steps_update no_clash (new_step_run (row_id pr) step (step_input_of step cur)) s = (Inr sr, s1)"
    by (simp add: run_create_no_clash)
  have s1: "plan_frame D T s1" using keepsD [OF frame_plan_write(3) 1 assms(3)] .
  have "\<exists>e. plan_attempt envs step (step_input_of step cur) sid uid sr (work s) = Inl e"
    if "plan_frame D T s" for sr and s :: "'r sess"
    using teamless_attempt [OF assms(1)] assms(2) that by (simp add: plan_frame_def)
  from retry_loop_fails [where attempt = "plan_attempt envs step (step_input_of step cur) sid uid" and n = "attempts_of step" and sr = sr, OF this s1]
  obtain sr' e s2 where
    2: "execute_step_with_retry envs step (step_input_of step cur) sr sid uid s1 = (Inr (sr', Inl e), s2) \<or>
       (\<exists>e. execute_step_with_retry envs step (step_input_of step cur) sr sid uid s1 = (Inl e, s2))"
    unfolding execute_step_with_retry_def wp_def
    by (cases "retry_loop (plan_attempt envs step (step_input_of step cur) sid uid) (attempts_of step) sr s1") (fastforce split: sum.splits)
  from 2 show ?thesis
    by (auto simp: run_plan_step_def Let_def run_bind_Inr [where m = "repo_create a b c d" for a b c d, OF 1] mbind_def [of "execute_step_with_retry a b c d e f" for a b c d e f] run_simps)
qed

lemma run_plan_steps_teamless:
  fixes s :: "'r sess"
  assumes "\<exists>step \<in> set steps. teamless step" "\<forall>t \<in> set T. code t \<noteq> []" "plan_frame D T s"
  shows "\<exists>e. fst (run_plan_steps envs pr sid uid cur steps s) = Inl e"
  using assms(1,3)
proof (induction steps arbitrary: cur s)
  case (Cons step steps)
  obtain r s1 where 1: "run_plan_step envs pr sid uid cur step s = (r, s1)" by force
  show ?case
  proof (cases r)
    case (Inl e)
    with 1 show ?thesis by (simp add: mbind_def)
  next
    case (Inr out)
    with 1 run_plan_step_teamless [OF _ assms(2) Cons.prems(2), of step envs pr sid uid cur] have "\<not> teamless step" by auto
    with Cons.prems(1) have "\<exists>step \<in> set steps. teamless step" by simp
    from Cons.IH [OF this keepsD [OF frame_run_plan_step 1 Cons.prems(2)], of out] Inr 1 show ?thesis by (simp add: mbind_def)
  qed
qed simp

lemma teamless_in_plan:
  assumes "pr_steps rq = [] \<or> (\<exists>raw \<in> set (pr_steps rq). \<not> truthy_str (pq_team_code raw))"
  shows "\<exists>step \<in> set (pl_steps (build_plan True (pr_message rq) (pr_agent_os rq) None None
           (if pr_steps rq = [] then None else Some (pr_steps rq)))). teamless step"
proof (cases "pr_steps rq")
  case (Cons raw raws)
  with assms obtain i where i: "i < length (pr_steps rq)" "\<not> truthy_str (pq_team_code (pr_steps rq ! i))"
    by (metis in_set_conv_nth list.distinct(1))
  have "(i, pr_steps rq ! i) \<in> set (enumerate 0 (pr_steps rq))"
    using i(1) by (simp add: in_set_enumerate_eq)
  then have "explicit_step (pr_agent_os rq) i (pr_steps rq ! i) \<in> set (pl_steps (build_plan True (pr_message rq) (pr_agent_os rq) None None
      (if pr_steps rq = [] then None else Some (pr_steps rq))))"
    using Cons by (force simp: build_plan_def simp del: enumerate_simps)
  then show ?thesis
    using i(2) by (intro bexI) (simp_all add: teamless_def explicit_step_def target_of_def)
qed (simp add: build_plan_def default_step_def teamless_def target_of_def)

lemma teamless_run_fails:
  assumes "\<forall>t \<in> set T. code t \<noteq> []" "plan_frame D T s" "\<exists>step \<in> set (pl_steps plan). teamless step"
  shows "\<exists>e. fst (run_plan True envs plan sid uid s) = Inl e"
proof -
  have steps: "\<exists>step \<in> set (sort_key ps_order (pl_steps plan)). teamless step" "pl_steps plan \<noteq> []" using assms(3) by auto
  obtain pr s1 where 1: "repo_create t_plan_runs t_plan_runs_update no_clash (new_plan_run plan sid) s = (Inr pr, s1)"
    by (simp add: run_create_no_clash)
  have "plan_frame D T s1" using keepsD [OF frame_plan_write(4) 1 assms(2)] .
  from run_plan_steps_teamless [OF steps(1) assms(1) this, of envs pr sid uid "pl_original_message plan"] 1 steps(2) show ?thesis
    by (auto simp: run_plan_def mbind_def [of "repo_create a b c d" for a b c d] mbind_def [of "run_plan_steps a b c d e f" for a b c d e f]
        split: sum.splits prod.splits)
qed

text \<open>Only teams can be planned for: a plan without steps, which stands for the default dispatch, and a plan with a step that names
  an agent but no team both fail, whatever the runtime answers and however often it is retried, unless some team has the empty
  code.\<close>

theorem teamless_plans_fail:
  fixes s :: "'r sess"
  assumes "\<forall>t \<in> set (t_teams (work s)). code t \<noteq> []"
    and "pr_steps rq = [] \<or> (\<exists>raw \<in> set (pr_steps rq). \<not> truthy_str (pq_team_code raw))"
  shows "\<exists>e s'. get_db (run_execution_plan feature_planning feature_execution envs rq) s = (Inl e, s') \<and> durable s' = durable s"
proof -
  let ?T = "t_teams (work s)"
  obtain r s' where run: "run_execution_plan feature_planning feature_execution envs rq s = (r, s')" by force
  note fails = teamless_run_fails [OF assms(1) _ teamless_in_plan [OF assms(2)]]
  have "\<exists>e. r = Inl e"
  proof (cases "feature_planning \<and> feature_execution")
    case True
    show ?thesis
    proof (cases "pr_session_id rq")
      case None
      with run True have "r = fst (run_plan True envs (build_plan True (pr_message rq) (pr_agent_os rq) None None
          (if pr_steps rq = [] then None else Some (pr_steps rq))) (new_uuid (seed s)) (pr_user_id rq) (s\<lparr>seed := Suc (seed s)\<rparr>))"
        by (simp add: run_execution_plan_def Let_def mbind_def uuid4_def)
      with fails [of "durable s" "s\<lparr>seed := Suc (seed s)\<rparr>"] show ?thesis by (simp add: plan_frame_def)
    next
      case (Some sid)
      with run True have "r = fst (run_plan True envs (build_plan True (pr_message rq) (pr_agent_os rq) None None
          (if pr_steps rq = [] then None else Some (pr_steps rq))) sid (pr_user_id rq) s)"
        by (simp add: run_execution_plan_def Let_def)
      with fails [of "durable s" s] show ?thesis by (simp add: plan_frame_def)
    qed
  next
    case False
    with run show ?thesis by (auto simp: run_execution_plan_def)
  qed
  with run have "\<exists>e. get_db (run_execution_plan feature_planning feature_execution envs rq) s = (Inl e, s'\<lparr>work := durable s'\<rparr>)"
    by (auto simp: get_db_Inl)
  moreover have "durable s' = durable s"
    using keepsD [OF frame_run_execution_plan run, of "durable s" ?T] by (simp add: plan_frame_def)
  ultimately show ?thesis by force
qed


subsection \<open>Witnesses\<close>

definition demo_plan :: execution_plan where
  "demo_plan = build_plan True ''Hello'' ''acme'' None None
     (Some [\<lparr>pq_team_code = Some ''sales'', pq_agent_code = None, pq_input_template = None, pq_max_retries = 2\<rparr>,
            \<lparr>pq_team_code = Some ''sales'', pq_agent_code = None, pq_input_template = Some ''Sum up'', pq_max_retries = 0\<rparr>])"

text \<open>A runtime whose very first reply fails.\<close>

definition demo_plan_envs :: "execution_plan_step_run \<Rightarrow> engine_env" where
  "demo_plan_envs sr = (if es_step_order sr = 0 \<and> es_attempt_count sr = 1
     then demo_engine\<lparr>en_reply := (\<lambda>_ _ _ _. Inl ''model down'')\<rparr> else demo_engine)"

definition demo_plan_sess :: "unit sess" where
  "demo_plan_sess = \<lparr>work = demo_db, durable = demo_db, now = 0, seed = 0, redis = ()\<rparr>"

lemma demo_plan_run:
  "map es_attempt_count (t_plan_steps (work (snd (run_plan True demo_plan_envs demo_plan ''s1'' None demo_plan_sess)))) = [2, 1]"
  "map_sum id snd (fst (run_plan True demo_plan_envs demo_plan ''s1'' None demo_plan_sess)) = Inr ''Hi''"
  by code_simp+

theorem plan_retries_and_threads_witness:
  "\<exists>(s' :: unit sess) run. t_plan_runs (work s') = [run] \<and> ep_status run = EpCompleted \<and> ep_result run = Some ''Hi'' \<and>
     map es_attempt_count (t_plan_steps (work s')) = [2, 1]"
proof -
  obtain run' out s' where run: "run_plan True demo_plan_envs demo_plan ''s1'' None demo_plan_sess = (Inr (run', out), s')"
    "map es_attempt_count (t_plan_steps (work s')) = [2, 1]" "out = ''Hi''"
  proof (cases "run_plan True demo_plan_envs demo_plan ''s1'' None demo_plan_sess")
    case (Pair r s')
    with demo_plan_run that show ?thesis by (cases r) auto
  qed
  have "pl_steps demo_plan \<noteq> []" by (simp add: demo_plan_def build_plan_def)
  moreover have "t_plan_steps demo_db = []" "t_plan_runs demo_db = []" by (simp_all add: demo_db_def empty_db_def)
  then have "ids_below (seed demo_plan_sess) (t_plan_steps (work demo_plan_sess))" "ids_below (seed demo_plan_sess) (t_plan_runs (work demo_plan_sess))"
    "t_plan_runs (work demo_plan_sess) = []"
    by (simp_all add: demo_plan_sess_def)
  ultimately show ?thesis
    using plan_retries_and_threads [OF run(1)] run(2,3) by (intro exI [of _ s'] exI [of _ run']) auto
qed

definition demo_plan_request :: plan_request where
  "demo_plan_request = \<lparr>pr_agent_os = ''acme'', pr_message = ''Hello'',
     pr_steps = [\<lparr>pq_team_code = None, pq_agent_code = Some ''seller'', pq_input_template = None, pq_max_retries = 5\<rparr>],
     pr_session_id = None, pr_user_id = None\<rparr>"

theorem teamless_plans_fail_witness:
  "\<exists>e s'. get_db (run_execution_plan True True demo_plan_envs demo_plan_request) demo_plan_sess = (Inl e, s') \<and>
     durable s' = durable demo_plan_sess"
  by (rule teamless_plans_fail) (simp_all add: demo_plan_sess_def demo_team_def demo_plan_request_def)

lemma demo_plan_fails:
  "(case get_db (run_execution_plan True True demo_plan_envs demo_plan_request) demo_plan_sess of (Inl e, s') \<Rightarrow> True | _ \<Rightarrow> False)"
  by code_simp

theorem failed_plan_leaves_no_record_witness:
  "\<exists>e s'. get_db (run_execution_plan True True demo_plan_envs demo_plan_request) demo_plan_sess = (Inl e, s') \<and>
     work s' = durable demo_plan_sess"
proof -
  obtain e s' where "get_db (run_execution_plan True True demo_plan_envs demo_plan_request) demo_plan_sess = (Inl e, s')"
    using demo_plan_fails by (auto split: prod.splits sum.splits)
  with failed_plan_leaves_no_record [OF this] show ?thesis by auto
qed

end
