(* ===== verification/Memory.thy ===== *)
theory Memory
  imports Session
begin

text \<open>
  What agents remember about users: the platform's memory table and its service (\<open>app/repositories/memory_repository.py\<close>,
  \<open>app/services/memory_service.py\<close>, \<open>app/api/v1/memories.py\<close>), the tool an agent saves an explicit fact with
  (\<open>app/agno_runtime/explicit_memory.py\<close>), and the storage Agno's own memory manager reads and writes
  (\<open>app/agno_runtime/memory_db.py\<close>). That storage has its own connection and commits every statement, so its operations are
  functions of the committed tables. The JSON parser and printer are parameters.
\<close>

subsection \<open>The memory service\<close>

definition new_memory :: "uuid \<Rightarrow> string option \<Rightarrow> memory_type \<Rightarrow> string \<Rightarrow> string option \<Rightarrow> uuid \<Rightarrow> time \<Rightarrow> agent_memory" where
  "new_memory agent_id user_id memory_type content source_memory_id i t =
     \<lparr>row_id = i, created_at = t, am_agent_id = agent_id, am_user_id = user_id, am_memory_type = memory_type,
      am_content = content, am_source_memory_id = source_memory_id\<rparr>"

text \<open>The unique constraint \<open>uq_agent_memory_source\<close>; a NULL in it makes rows different.\<close>

definition same_source :: "agent_memory \<Rightarrow> agent_memory \<Rightarrow> bool" where
  "same_source m x \<longleftrightarrow> am_agent_id m = am_agent_id x \<and> am_user_id m = am_user_id x \<and> am_source_memory_id m = am_source_memory_id x \<and>
     am_user_id m \<noteq> None \<and> am_source_memory_id m \<noteq> None"

definition record_memory ::
  "uuid \<Rightarrow> string option \<Rightarrow> memory_type \<Rightarrow> string \<Rightarrow> string option \<Rightarrow> ('r sess, agent_memory) prog" where
  "record_memory agent_id user_id memory_type content source_memory_id =
     repo_create t_memories t_memories_update same_source (new_memory agent_id user_id memory_type content source_memory_id)"

definition get_by_source_memory_id :: "uuid \<Rightarrow> string option \<Rightarrow> string \<Rightarrow> db \<Rightarrow> app_error + agent_memory option" where
  "get_by_source_memory_id agent_id user_id source_memory_id d =
     scalar_one_or_none (filter (\<lambda>m. am_agent_id m = agent_id \<and> am_user_id m = user_id \<and>
       am_source_memory_id m = Some source_memory_id) (t_memories d))"

record agno_user_memory =
  um_memory_id :: "string option"
  um_memory :: "string option"

text \<open>The body of the loop of \<open>sync_from_agno\<close>: the row that was updated, left or created, if any.\<close>

definition sync_one :: "uuid \<Rightarrow> string \<Rightarrow> agno_user_memory \<Rightarrow> ('r sess, agent_memory option) prog" where
  "sync_one agent_id user_id um =
     (if \<not> truthy_str (um_memory um) then mret None
      else let content = the (um_memory um) in
        mbind (mlift (\<lambda>s. if truthy_str (um_memory_id um)
                          then get_by_source_memory_id agent_id (Some user_id) (the (um_memory_id um)) (work s) else Inr None)) (\<lambda>existing.
        case existing of
          Some m \<Rightarrow>
            if am_content m \<noteq> content then mbind (repo_save t_memories_update (m\<lparr>am_content := content\<rparr>)) (\<lambda>m. mret (Some m))
            else mret (Some m)
        | None \<Rightarrow> mbind (record_memory agent_id (Some user_id) MemFact content (um_memory_id um)) (\<lambda>m. mret (Some m))))"

fun sync_from_agno :: "uuid \<Rightarrow> string \<Rightarrow> agno_user_memory list \<Rightarrow> ('r sess, agent_memory list) prog" where
  "sync_from_agno agent_id user_id [] = mret []"
| "sync_from_agno agent_id user_id (um # ums) =
     mbind (sync_one agent_id user_id um) (\<lambda>r.
     mbind (sync_from_agno agent_id user_id ums) (\<lambda>rs.
       mret (case r of None \<Rightarrow> rs | Some m \<Rightarrow> m # rs)))"

definition list_memories :: "uuid option \<Rightarrow> nat \<Rightarrow> nat \<Rightarrow> db \<Rightarrow> agent_memory list \<times> nat" where
  "list_memories agent_id offset limit d =
     repo_list_any offset limit [map_option (\<lambda>i m. am_agent_id m = i) agent_id] (t_memories d)"

definition delete_memory_row :: "uuid \<Rightarrow> ('r sess, unit) prog" where
  "delete_memory_row memory_id =
     mbind (mlift (\<lambda>s. repo_get_any_or_404 ''AgentMemory'' memory_id (t_memories (work s)))) (\<lambda>m.
       repo_hard_delete t_memories_update m)"

text \<open>\<open>build_remember_tool\<close>, and the tool it returns.\<close>

definition build_remember_tool :: "uuid \<Rightarrow> string option \<Rightarrow> (string \<Rightarrow> ('r sess, string) prog) option" where
  "build_remember_tool agent_id user_id =
     (if \<not> truthy_str user_id then None
      else Some (\<lambda>fact. mbind (record_memory agent_id user_id MemFact fact None) (\<lambda>_.
             mret ([CHR 0xC4, CHR 0x90, CHR 0xC3, CHR 0xA3] @ '' ghi nh'' @ [CHR 0xE1, CHR 0xBB, CHR 0x9B] @ '': '' @ fact))))"

subsection \<open>Agno's memory storage\<close>

record memory_row =
  mw_id :: string
  mw_user_id :: "string option"
  mw_memory :: "(string, json) pydict"
  mw_last_updated :: "time option"

record json_ops =
  jo_loads :: "string \<Rightarrow> json option"
  jo_dumps :: "(string, json) pydict \<Rightarrow> string"

definition from_agno :: "uuid \<Rightarrow> agent_memory \<Rightarrow> bool" where
  "from_agno agent_id m \<longleftrightarrow> am_agent_id m = agent_id \<and> am_source_memory_id m \<noteq> None"

definition has_source :: "uuid \<Rightarrow> string \<Rightarrow> agent_memory \<Rightarrow> bool" where
  "has_source agent_id source_id m \<longleftrightarrow> am_agent_id m = agent_id \<and> am_source_memory_id m = Some source_id"

definition memory_db_clear :: "uuid \<Rightarrow> db \<Rightarrow> db" where
  "memory_db_clear agent_id d = t_memories_update (filter (\<lambda>m. \<not> from_agno agent_id m)) d"

definition memory_exists :: "uuid \<Rightarrow> string \<Rightarrow> db \<Rightarrow> bool" where
  "memory_exists agent_id source_id d = list_ex (has_source agent_id source_id) (t_memories d)"

text \<open>A stored content that is JSON but no object takes no \<open>memory_id\<close>: Python raises a \<open>TypeError\<close>.\<close>

definition memory_dict :: "json_ops \<Rightarrow> agent_memory \<Rightarrow> app_error + (string, json) pydict" where
  "memory_dict jo m =
     rbind (case jo_loads jo (am_content m) of
              None \<Rightarrow> Inr [(''memory'', JStr (am_content m))]
            | Some (JObj kvs) \<Rightarrow> Inr kvs
            | Some _ \<Rightarrow> Inl (mk_error (PyException ''TypeError'') ''object does not support item assignment'')) (\<lambda>kvs.
       Inr (dict_set kvs ''memory_id'' (opt_str (am_source_memory_id m))))"

definition read_memories ::
  "json_ops \<Rightarrow> uuid \<Rightarrow> string option \<Rightarrow> nat option \<Rightarrow> string option \<Rightarrow> db \<Rightarrow> app_error + memory_row list" where
  "read_memories jo agent_id user_id limit direction d =
     (let hits = filter (\<lambda>m. from_agno agent_id m \<and> (user_id = None \<or> am_user_id m = user_id)) (t_memories d);
          ordered = (if direction = Some ''desc'' then sort_key (\<lambda>m. - created_at m) hits else sort_key created_at hits);
          rows = (case limit of None \<Rightarrow> ordered | Some n \<Rightarrow> take n ordered)
      in rmap (\<lambda>m. rbind (memory_dict jo m) (\<lambda>kvs.
           Inr \<lparr>mw_id = the (am_source_memory_id m), mw_user_id = am_user_id m, mw_memory = kvs,
                mw_last_updated = Some (created_at m)\<rparr>)) rows)"

text \<open>\<open>i\<close> is the UUID a new row gets, \<open>t\<close> the time of the call.\<close>

definition upsert_memory :: "json_ops \<Rightarrow> uuid \<Rightarrow> uuid \<Rightarrow> time \<Rightarrow> memory_row \<Rightarrow> db \<Rightarrow> db" where
  "upsert_memory jo agent_id i t mw d =
     (let content = jo_dumps jo (mw_memory mw) in
      if memory_exists agent_id (mw_id mw) d
      then t_memories_update (map (\<lambda>m. if has_source agent_id (mw_id mw) m then m\<lparr>am_content := content\<rparr> else m)) d
      else t_memories_update (\<lambda>rs. rs @ [new_memory agent_id (mw_user_id mw) MemFact content (Some (mw_id mw)) i t]) d)"

definition delete_memory :: "uuid \<Rightarrow> string \<Rightarrow> db \<Rightarrow> db" where
  "delete_memory agent_id memory_id d = t_memories_update (filter (\<lambda>m. \<not> has_source agent_id memory_id m)) d"


subsection \<open>What re-synchronising does\<close>

text \<open>The table never holds two rows for one memory of Agno: the unique constraint, as an invariant of the operations.\<close>

definition source_keys :: "agent_memory list \<Rightarrow> (uuid \<times> string option \<times> string option) list" where
  "source_keys rows = filter (\<lambda>(a, u, i). u \<noteq> None \<and> i \<noteq> None)
     (map (\<lambda>m. (am_agent_id m, am_user_id m, am_source_memory_id m)) rows)"

definition sources_unique :: "agent_memory list \<Rightarrow> bool" where
  "sources_unique rows \<longleftrightarrow> distinct (map row_id rows) \<and> distinct (source_keys rows)"

text \<open>What is stored for one memory of one user.\<close>

definition stored :: "uuid \<Rightarrow> string \<Rightarrow> string \<Rightarrow> agent_memory list \<Rightarrow> string option" where
  "stored agent_id user_id source rows =
     map_option am_content (find (\<lambda>m. am_agent_id m = agent_id \<and> am_user_id m = Some user_id \<and> am_source_memory_id m = Some source) rows)"

text \<open>The last content the list gives for a memory.\<close>

definition given_content :: "string \<Rightarrow> agno_user_memory list \<Rightarrow> string option" where
  "given_content source ums =
     map_of (rev (map (\<lambda>um. (the (um_memory_id um), the (um_memory um))) (filter (\<lambda>um. truthy_str (um_memory um)) ums))) source"

abbreviation about :: "uuid \<Rightarrow> string \<Rightarrow> string \<Rightarrow> agent_memory \<Rightarrow> bool" where
  "about agent_id user_id source m \<equiv> am_agent_id m = agent_id \<and> am_user_id m = Some user_id \<and> am_source_memory_id m = Some source"

lemma count_about: "length (filter (about a u i) rows) = count_list (source_keys rows) (a, Some u, Some i)"
  by (induction rows) (auto simp: source_keys_def)

lemma find_filter: "find P xs = (case filter P xs of [] \<Rightarrow> None | x # _ \<Rightarrow> Some x)"
  by (induction xs) auto

lemma distinct_count_list: "distinct xs \<Longrightarrow> count_list xs x \<le> 1"
  by (induction xs) (auto simp: count_notin)

lemma about_cases:
  assumes "sources_unique rows"
  obtains (none) "filter (about a u i) rows = []" | (one) m where "filter (about a u i) rows = [m]"
proof -
  have "count_list (source_keys rows) (a, Some u, Some i) \<le> 1"
    using assms unfolding sources_unique_def by (blast intro: distinct_count_list)
  then have "length (filter (about a u i) rows) \<le> 1" by (simp add: count_about)
  then show thesis using that by (cases "filter (about a u i) rows"; cases "tl (filter (about a u i) rows)") auto
qed

lemma put_row_map:
  assumes "distinct (map row_id rows)" "m \<in> set rows" "row_id m' = row_id m"
  shows "put_row m' rows = map (\<lambda>x. if x = m then m' else x) rows"
  using assms by (auto simp: put_row_def distinct_map dest: inj_onD)

lemma unique_map:
  assumes "\<And>x. row_id (f x) = row_id x \<and> am_agent_id (f x) = am_agent_id x \<and> am_user_id (f x) = am_user_id x \<and>
    am_source_memory_id (f x) = am_source_memory_id x"
  shows "sources_unique (map f rows) = sources_unique rows"
  using assms by (simp add: sources_unique_def source_keys_def comp_def)

lemma sync_one_run:
  assumes U: "sources_unique (t_memories (work s))" and I: "ids_below (seed s) (t_memories (work s))"
    and um: "um_memory_id um = Some i" "i \<noteq> []" "um_memory um = Some c" "c \<noteq> []"
  shows "\<exists>s' m. sync_one a u um s = (Inr (Some m), s') \<and> durable s' = durable s \<and>
    sources_unique (t_memories (work s')) \<and> ids_below (seed s') (t_memories (work s')) \<and>
    (\<forall>j. stored a u j (t_memories (work s')) = (if j = i then Some c else stored a u j (t_memories (work s)))) \<and>
    filter (Not \<circ> about a u i) (t_memories (work s')) = filter (Not \<circ> about a u i) (t_memories (work s)) \<and>
    length (t_memories (work s')) = length (t_memories (work s)) + (if stored a u i (t_memories (work s)) = None then 1 else 0)"
proof -
  let ?rows = "t_memories (work s)"
  have look: "sync_one a u um s = (let r = scalar_one_or_none (filter (about a u i) ?rows) in
      case r of Inl e \<Rightarrow> (Inl e, s)
      | Inr None \<Rightarrow> mbind (record_memory a (Some u) MemFact c (Some i)) (\<lambda>m. mret (Some m)) s
      | Inr (Some m) \<Rightarrow> (if am_content m \<noteq> c then mbind (repo_save t_memories_update (m\<lparr>am_content := c\<rparr>)) (\<lambda>m. mret (Some m)) else mret (Some m)) s)"
    using um by (simp add: sync_one_def get_by_source_memory_id_def Let_def split: sum.split option.split)
  from U show ?thesis
  proof (cases rule: about_cases [where a = a and u = u and i = i])
    case none
    let ?r = "new_memory a (Some u) MemFact c (Some i) (new_uuid (seed s)) (now s)"
    let ?s' = "s\<lparr>seed := Suc (seed s), work := t_memories_update (\<lambda>rs. rs @ [?r]) (work s)\<rparr>"
    have "\<not> list_ex (same_source ?r) ?rows"
      using none by (auto simp: list_ex_iff same_source_def new_memory_def filter_empty_conv)
    then have run: "sync_one a u um s = (Inr (Some ?r), ?s')"
      using none by (simp add: look record_memory_def repo_create_def repo_create_as_def mbind_def Let_def)
    have "row_id ?r \<notin> row_id ` set ?rows" using ids_below_notin [OF I] by (force simp: new_memory_def)
    moreover have "(a, Some u, Some i) \<notin> set (source_keys ?rows)"
      using none by (auto simp: source_keys_def filter_empty_conv)
    ultimately have "sources_unique (?rows @ [?r])"
      using U by (simp add: sources_unique_def source_keys_def new_memory_def)
    moreover have "ids_below (Suc (seed s)) (?rows @ [?r])"
      using I by (rule ids_below_snoc) (simp add: new_memory_def)
    moreover have "stored a u j (?rows @ [?r]) = (if j = i then Some c else stored a u j ?rows)" for j
      using none by (auto simp: stored_def find_append find_filter [of "about a u i"] new_memory_def split: option.split)
    moreover have "stored a u i ?rows = None" using none by (simp add: stored_def find_filter)
    moreover have "filter (Not \<circ> about a u i) (?rows @ [?r]) = filter (Not \<circ> about a u i) ?rows"
      by (simp add: new_memory_def)
    ultimately show ?thesis using run by (intro exI [of _ ?s'] exI [of _ ?r]) simp
  next
    case (one m)
    let ?m' = "m\<lparr>am_content := c\<rparr>"
    let ?f = "\<lambda>x. if x = m then ?m' else x"
    let ?s' = "s\<lparr>work := t_memories_update (put_row ?m') (work s)\<rparr>"
    have m: "m \<in> set ?rows" "about a u i m" using one by (auto simp: filter_eq_Cons_iff)
    have put: "put_row ?m' ?rows = map ?f ?rows" using U m(1) by (intro put_row_map) (simp_all add: sources_unique_def)
    have old: "stored a u i ?rows = Some (am_content m)" using one by (simp add: stored_def find_filter)
    have find: "find (about a u j) (map ?f ?rows) = map_option ?f (find (about a u j) ?rows)" for j
      by (rule find_map_preserve) (use m(2) in auto)
    have "stored a u j (map ?f ?rows) = (if j = i then Some c else stored a u j ?rows)" for j
    proof (cases "j = i")
      case True
      with find one show ?thesis by (simp add: stored_def find_filter)
    next
      case False
      with find m(2) show ?thesis
        by (auto simp: stored_def dest!: find_SomeD split: option.split) (cases "find (about a u j) ?rows"; auto dest: find_SomeD)
    qed
    moreover have "sources_unique (map ?f ?rows)" using U by (subst unique_map) auto
    moreover have "filter (Not \<circ> about a u i) (map ?f xs) = filter (Not \<circ> about a u i) xs" for xs
      using m(2) by (induction xs) auto
    moreover have "ids_below (seed s) (map ?f ?rows)" using I m(1) by (auto simp: ids_below_def)
    ultimately have saved: "sources_unique (t_memories (work ?s')) \<and> ids_below (seed ?s') (t_memories (work ?s')) \<and>
      (\<forall>j. stored a u j (t_memories (work ?s')) = (if j = i then Some c else stored a u j ?rows)) \<and>
      filter (Not \<circ> about a u i) (t_memories (work ?s')) = filter (Not \<circ> about a u i) ?rows \<and>
      length (t_memories (work ?s')) = length ?rows"
      by (simp add: put)
    show ?thesis
    proof (cases "am_content m = c")
      case True
      with one have "sync_one a u um s = (Inr (Some m), s)" by (simp add: look)
      with U I True old show ?thesis by (intro exI [of _ s] exI [of _ m]) auto
    next
      case False
      with one have "sync_one a u um s = (Inr (Some ?m'), ?s')" by (simp add: look run_simps)
      with saved old show ?thesis by (intro exI [of _ ?s'] exI [of _ ?m']) auto
    qed
  qed
qed

lemma stored_others:
  "filter (Not \<circ> about a u i) rows' = filter (Not \<circ> about a u i) rows \<Longrightarrow> i \<in> S \<Longrightarrow>
     filter (\<lambda>m. \<forall>i \<in> S. \<not> about a u i m) rows' = filter (\<lambda>m. \<forall>i \<in> S. \<not> about a u i m) rows"
proof -
  assume *: "filter (Not \<circ> about a u i) rows' = filter (Not \<circ> about a u i) rows" "i \<in> S"
  have "filter (\<lambda>m. \<forall>i \<in> S. \<not> about a u i m) xs = filter (\<lambda>m. \<forall>i \<in> S. \<not> about a u i m) (filter (Not \<circ> about a u i) xs)" for xs
    using *(2) by (induction xs) auto
  note split = this
  show ?thesis by (simp only: split [of rows'] split [of rows] *(1))
qed

text \<open>The memories a list of Agno's tells of.\<close>

definition named_sources :: "agno_user_memory list \<Rightarrow> string set" where
  "named_sources ums = (\<lambda>um. the (um_memory_id um)) ` set ums"

definition well_formed_memory :: "agno_user_memory \<Rightarrow> bool" where
  "well_formed_memory um \<longleftrightarrow> truthy_str (um_memory_id um) \<and> truthy_str (um_memory um)"

lemma truthy_str_iff: "truthy_str x \<longleftrightarrow> (\<exists>v. x = Some v \<and> v \<noteq> [])"
  by (cases x) simp_all

lemma given_content_Cons:
  "truthy_str (um_memory um) \<Longrightarrow> given_content i (um # ums) =
     (case given_content i ums of Some c \<Rightarrow> Some c | None \<Rightarrow> if i = the (um_memory_id um) then um_memory um else None)"
  by (auto simp: given_content_def map_add_def truthy_str_iff split: option.split)



subsection \<open>What Agno's memory manager sees\<close>

lemma read_memories_filter:
  assumes "filter (from_agno a) (t_memories d') = filter (from_agno a) (t_memories d)"
  shows "read_memories jo a v n dir d' = read_memories jo a v n dir d"
proof -
  have split: "filter (\<lambda>m. from_agno a m \<and> (v = None \<or> am_user_id m = v)) xs =
      filter (\<lambda>m. v = None \<or> am_user_id m = v) (filter (from_agno a) xs)" for xs
    by (induction xs) auto
  show ?thesis
    unfolding read_memories_def Let_def by (simp only: split [of "t_memories d'"] split [of "t_memories d"] assms)
qed

text \<open>A fact the user asked to be remembered is stored, but as a row without a source: what Agno's memory manager reads is
  the same as before, whatever it asks for, so the fact never reaches the agent again.\<close>

theorem remembered_fact_not_recalled:
  assumes "build_remember_tool a u = Some tool"
  shows "\<exists>reply s' m. tool said s = (Inr reply, s') \<and> t_memories (work s') = t_memories (work s) @ [m] \<and>
    am_agent_id m = a \<and> am_user_id m = u \<and> am_content m = said \<and>
    (\<forall>jo v n dir. read_memories jo a v n dir (work s') = read_memories jo a v n dir (work s))"
proof -
  let ?m = "new_memory a u MemFact said None (new_uuid (seed s)) (now s)"
  let ?s' = "s\<lparr>seed := Suc (seed s), work := t_memories_update (\<lambda>rs. rs @ [?m]) (work s)\<rparr>"
  have "record_memory a u MemFact said None s = (Inr ?m, ?s')"
    by (simp add: record_memory_def repo_create_def repo_create_as_def mbind_def Let_def list_ex_iff same_source_def new_memory_def)
  then obtain reply where "tool said s = (Inr reply, ?s')"
    using assms by (auto simp: build_remember_tool_def mbind_def split: if_splits)
  moreover have "read_memories jo a v n dir (work ?s') = read_memories jo a v n dir (work s)" for jo v n dir
    by (rule read_memories_filter) (simp add: from_agno_def new_memory_def)
  ultimately show ?thesis
    by (intro exI [of _ reply] exI [of _ ?s'] exI [of _ ?m]) (simp add: new_memory_def)
qed

text \<open>Agno's storage of one agent is closed to the others: clearing it, writing to it and deleting from it change nothing that
  another agent's memory manager can read.\<close>

theorem agent_memories_isolated:
  assumes "a \<noteq> b"
  shows "read_memories jo b v n dir (memory_db_clear a d) = read_memories jo b v n dir d \<and>
    read_memories jo b v n dir (upsert_memory jo a i t mw d) = read_memories jo b v n dir d \<and>
    read_memories jo b v n dir (delete_memory a source d) = read_memories jo b v n dir d"
proof -
  have map: "filter (from_agno b) (map (\<lambda>m. if has_source a k m then m\<lparr>am_content := c\<rparr> else m) xs) = filter (from_agno b) xs" for k c xs
    using assms by (induction xs) (auto simp: from_agno_def has_source_def)
  have "filter (from_agno b) (filter (\<lambda>m. \<not> from_agno a m) xs) = filter (from_agno b) xs"
    "filter (from_agno b) (filter (\<lambda>m. \<not> has_source a source m) xs) = filter (from_agno b) xs" for xs
    using assms by (induction xs) (auto simp: from_agno_def has_source_def)
  then show ?thesis
    using assms by (intro conjI read_memories_filter)
      (simp_all add: memory_db_clear_def upsert_memory_def delete_memory_def Let_def map, auto simp: from_agno_def new_memory_def)
qed

definition readable :: "json_ops \<Rightarrow> agent_memory \<Rightarrow> bool" where
  "readable jo m \<longleftrightarrow> (case jo_loads jo (am_content m) of None \<Rightarrow> True | Some (JObj kvs) \<Rightarrow> True | Some _ \<Rightarrow> False)"

lemma memory_dict_readable: "readable jo m \<Longrightarrow> \<exists>kvs. memory_dict jo m = Inr kvs"
  by (auto simp: readable_def memory_dict_def split: option.splits json.splits)

lemma rmap_total: "(\<And>x. x \<in> set xs \<Longrightarrow> \<exists>y. f x = Inr y) \<Longrightarrow> \<exists>ys. rmap f xs = Inr ys"
  by (induction xs) (auto, metis rbind_simps(2))


subsection \<open>Witnesses\<close>

definition demo_memory_sess :: "unit sess" where
  "demo_memory_sess = \<lparr>work = empty_db, durable = empty_db, now = 7, seed = 0, redis = ()\<rparr>"

definition demo_ums :: "agno_user_memory list" where
  "demo_ums = [\<lparr>um_memory_id = Some ''x1'', um_memory = Some ''likes tea''\<rparr>, \<lparr>um_memory_id = Some ''x2'', um_memory = Some ''is Ann''\<rparr>,
     \<lparr>um_memory_id = Some ''x1'', um_memory = Some ''likes coffee''\<rparr>]"


theorem remembered_fact_not_recalled_witness:
  "\<exists>tool :: string \<Rightarrow> (unit sess, string) prog. build_remember_tool ''a1'' (Some ''ann'') = Some tool \<and>
     (\<exists>reply s'. tool ''is Ann'' demo_memory_sess = (Inr reply, s') \<and> length (t_memories (work s')) = 1)"
proof -
  obtain tool :: "string \<Rightarrow> (unit sess, string) prog" where tool: "build_remember_tool ''a1'' (Some ''ann'') = Some tool"
    by (simp add: build_remember_tool_def)
  from remembered_fact_not_recalled [OF this, of "''is Ann''" demo_memory_sess] tool show ?thesis
    by (auto simp: demo_memory_sess_def empty_db_def)
qed

definition demo_json :: json_ops where
  "demo_json = \<lparr>jo_loads = (\<lambda>s. case s of [] \<Rightarrow> Some (JObj []) | _ \<Rightarrow> None), jo_dumps = (\<lambda>_. [])\<rparr>"

theorem agent_memories_isolated_witness:
  "read_memories demo_json ''a2'' None None None (upsert_memory demo_json ''a1'' ''i'' 0
     \<lparr>mw_id = ''x1'', mw_user_id = None, mw_memory = [], mw_last_updated = None\<rparr> empty_db) = Inr []"
proof -
  have "''a1'' \<noteq> ''a2''" by simp
  note isolated = agent_memories_isolated [OF this, THEN conjunct2, THEN conjunct1]
  have "read_memories demo_json ''a2'' None None None empty_db = Inr []" by (simp add: read_memories_def empty_db_def)
  then show ?thesis by (simp only: isolated)
qed


end
