(* ===== verification/Attachments.thy ===== *)
theory Attachments
  imports Engine
    "HOL-Library.Product_Lexorder"
begin

text \<open>
  Reading the text of an uploaded file (\<open>app/attachments/extractor.py\<close>, with the transport of \<open>app/attachments/ocr_client.py\<close>),
  the upload endpoint (\<open>app/api/v1/attachments.py\<close>) and what the engine makes of it in a turn. The OCR service and the two document
  libraries are parameters: what they return for a file is their answer, read into boxes, paragraphs and cells, or the
  exception they raise.
\<close>

subsection \<open>Extraction\<close>

text \<open>An answer of the OCR service: a failed HTTP exchange, an answer in which what the code reads is missing, or the JSON with its
  boxes.\<close>

datatype 'a ocr_reply = OcrFailed string | OcrMalformed string | OcrReply json 'a

record ocr_box =
  bx_x :: real
  bx_y :: real
  bx_text :: "string option"

record document =
  dc_paragraphs :: "string list"
  dc_tables :: "string list list list"

record sheet =
  sh_title :: string
  sh_rows :: "string option list list"

record extract_ops =
  xo_ocr_image :: "string \<Rightarrow> string \<Rightarrow> string \<Rightarrow> ocr_box list ocr_reply"
  xo_ocr_pdf :: "string \<Rightarrow> string \<Rightarrow> ocr_box list list ocr_reply"
  xo_docx :: "string \<Rightarrow> string + document"
  xo_xlsx :: "string \<Rightarrow> string + sheet list"

definition box_key :: "ocr_box \<Rightarrow> real \<times> real" where
  "box_key b = (bx_y b, bx_x b)"

definition render_boxes_as_text :: "ocr_box list \<Rightarrow> string" where
  "render_boxes_as_text boxes =
     join_str newline (map (the \<circ> bx_text) (filter (\<lambda>b. truthy_str (bx_text b)) (sort_key box_key boxes)))"

definition ocr_empty :: string where
  "ocr_empty = ''OCR tr'' @ [CHR 0xE1, CHR 0xBA, CHR 0xA3] @ '' v'' @ [CHR 0xE1, CHR 0xBB, CHR 0x81] @ '' r'' @
     [CHR 0xE1, CHR 0xBB, CHR 0x97] @ ''ng - kh'' @ [CHR 0xC3, CHR 0xB4] @ ''ng '' @
     [CHR 0xC4, CHR 0x91, CHR 0xE1, CHR 0xBB, CHR 0x8D] @ ''c '' @
     [CHR 0xC4, CHR 0x91, CHR 0xC6, CHR 0xB0, CHR 0xE1, CHR 0xBB, CHR 0xA3] @ ''c n'' @ [CHR 0xE1, CHR 0xBB, CHR 0x99] @
     ''i dung '' @ [CHR 0xE1, CHR 0xBA, CHR 0xA3] @ ''nh''"

definition extract_image :: "extract_ops \<Rightarrow> string \<Rightarrow> string \<Rightarrow> string \<Rightarrow> extraction" where
  "extract_image ops file_bytes filename mime =
     (case xo_ocr_image ops file_bytes filename mime of
        OcrFailed m \<Rightarrow> ExError m
      | OcrMalformed m \<Rightarrow> ExRaised m
      | OcrReply raw boxes \<Rightarrow>
          (let text = render_boxes_as_text boxes in if strip text = [] then ExError ocr_empty else ExOk text raw))"

definition page_text :: "nat \<Rightarrow> ocr_box list \<Rightarrow> string" where
  "page_text i boxes = ''--- Trang '' @ str_nat i @ '' ---'' @ newline @ render_boxes_as_text boxes"

definition extract_pdf :: "extract_ops \<Rightarrow> string \<Rightarrow> string \<Rightarrow> extraction" where
  "extract_pdf ops file_bytes filename =
     (case xo_ocr_pdf ops file_bytes filename of
        OcrFailed m \<Rightarrow> ExError m
      | OcrMalformed m \<Rightarrow> ExRaised m
      | OcrReply raw pages \<Rightarrow>
          ExOk (join_str (newline @ newline) (map (\<lambda>(i, p). page_text i p) (enumerate 1 pages)))
               (JObj [(''pages'', case raw of JList xs \<Rightarrow> raw | _ \<Rightarrow> JList [raw])]))"

definition extract_docx :: "extract_ops \<Rightarrow> string \<Rightarrow> extraction" where
  "extract_docx ops file_bytes =
     (case xo_docx ops file_bytes of
        Inl m \<Rightarrow> ExError m
      | Inr doc \<Rightarrow>
          ExOk (join_str newline (filter (\<lambda>p. strip p \<noteq> []) (dc_paragraphs doc) @
                  concat (map (map (join_str '' | '')) (dc_tables doc)))) (JObj []))"

definition sheet_lines :: "sheet \<Rightarrow> string list" where
  "sheet_lines sh = (''--- Sheet: '' @ sh_title sh @ '' ---'') #
     map (\<lambda>row. join_str '' | '' (map (\<lambda>c. case c of None \<Rightarrow> [] | Some t \<Rightarrow> t) row))
       (filter (list_ex (\<lambda>c. c \<noteq> None)) (sh_rows sh))"

definition extract_xlsx :: "extract_ops \<Rightarrow> string \<Rightarrow> extraction" where
  "extract_xlsx ops file_bytes =
     (case xo_xlsx ops file_bytes of
        Inl m \<Rightarrow> ExError m
      | Inr sheets \<Rightarrow> ExOk (join_str newline (concat (map sheet_lines sheets))) (JObj []))"

text \<open>The extractor the service calls for each kind of file.\<close>

fun extract_file :: "extract_ops \<Rightarrow> attachment_kind \<Rightarrow> string \<Rightarrow> string \<Rightarrow> string \<Rightarrow> extraction" where
  "extract_file ops KindImage file_bytes filename mime = extract_image ops file_bytes filename mime"
| "extract_file ops KindPdf file_bytes filename mime = extract_pdf ops file_bytes filename"
| "extract_file ops KindDocx file_bytes filename mime = extract_docx ops file_bytes"
| "extract_file ops KindXlsx file_bytes filename mime = extract_xlsx ops file_bytes"
| "extract_file ops KindOther file_bytes filename mime = ExUnsupported"

text \<open>The storage key (\<open>MinioStorageClient.upload\<close>): the folder is a fresh UUID; the object store may refuse the file.\<close>

definition storage_key :: "uuid \<Rightarrow> string \<Rightarrow> string" where
  "storage_key folder filename = ''attachments/'' @ folder @ ''/'' @ filename"

definition attachment_env_of ::
  "extract_ops \<Rightarrow> string \<Rightarrow> (string \<Rightarrow> string \<Rightarrow> string \<Rightarrow> app_error option) \<Rightarrow> uuid \<Rightarrow> attachment_env" where
  "attachment_env_of ops bucket put_object folder = \<lparr>ax_bucket = bucket,
     ax_store = (\<lambda>file_bytes filename mime. case put_object file_bytes (storage_key folder filename) mime of
       Some e \<Rightarrow> Inl e | None \<Rightarrow> Inr (storage_key folder filename)),
     ax_extract = extract_file ops\<rparr>"

definition upload_attachment ::
  "extract_ops \<Rightarrow> string \<Rightarrow> (string \<Rightarrow> string \<Rightarrow> string \<Rightarrow> app_error option) \<Rightarrow> string \<Rightarrow> string \<Rightarrow> string
     \<Rightarrow> uuid option \<Rightarrow> string option \<Rightarrow> ('r sess, attachment) prog" where
  "upload_attachment ops bucket put_object file_bytes filename mime session_id user_id =
     mbind uuid4 (\<lambda>folder.
       upload_and_extract (attachment_env_of ops bucket put_object folder) file_bytes filename mime session_id user_id)"


subsection \<open>What an upload leaves\<close>

lemma extract_settles:
  "at_status (settle_attachment mime r a) = (case r of ExOk t raw \<Rightarrow> AttReady | _ \<Rightarrow> AttFailed)"
  by (simp add: settle_attachment_def split: extraction.split)

text \<open>C31. An upload whose file was stored leaves exactly one new row, and never one that is still being processed: it is ready with
  the extracted text when the extractor of the file's kind succeeded, and otherwise failed with a message, also when the extractor
  raised or there is none for that kind. Nothing else in the table changes.\<close>

theorem upload_settles:
  assumes "ids_below (seed s) (t_attachments (work s))"
    and "put_object file_bytes (storage_key (new_uuid (seed s)) filename) mime = None"
  shows "\<exists>a s'. upload_attachment ops bucket put_object file_bytes filename mime session_id user_id s = (Inr a, s') \<and>
    t_attachments (work s') = t_attachments (work s) @ [a] \<and> at_user_id a = user_id \<and> at_size_bytes a = int (length file_bytes) \<and>
    (case extract_file ops (kind_by_mime mime) file_bytes filename mime of
       ExOk t raw \<Rightarrow> at_status a = AttReady \<and> at_extracted_text a = Some t \<and> at_error_message a = None
     | _ \<Rightarrow> at_status a = AttFailed \<and> at_extracted_text a = None \<and> at_error_message a \<noteq> None)"
proof -
  let ?kind = "kind_by_mime mime"
  let ?r = "extract_file ops ?kind file_bytes filename mime"
  define a0 where "a0 = \<lparr>row_id = new_uuid (Suc (seed s)), created_at = now s, at_session_id = session_id, at_user_id = user_id,
    at_filename = filename, at_mime_type = mime, at_kind = ?kind, at_size_bytes = int (length file_bytes),
    at_storage_bucket = bucket, at_storage_key = storage_key (new_uuid (seed s)) filename, at_status = AttProcessing,
    at_extracted_text = None, at_extraction_raw = None, at_error_message = None\<rparr>"
  let ?a = "settle_attachment mime ?r a0"
  have kind: "(if ?kind = KindOther then ExUnsupported else extract_file ops ?kind file_bytes filename mime) = ?r" by simp
  have id: "row_id ?a = row_id a0" by (simp add: settle_attachment_def split: extraction.split)
  have "\<forall>x \<in> set (t_attachments (work s)). row_id x \<noteq> row_id a0"
    using assms(1) by (auto simp: ids_below_def a0_def)
  then have put: "put_row ?a (t_attachments (work s) @ [a0]) = t_attachments (work s) @ [?a]"
    using id by (auto simp: put_row_def intro: map_idI)
  have "upload_attachment ops bucket put_object file_bytes filename mime session_id user_id s =
      (Inr ?a, s\<lparr>seed := Suc (Suc (seed s)),
         work := t_attachments_update (put_row ?a) (t_attachments_update (\<lambda>rs. rs @ [a0]) (work s))\<rparr>)"
    using assms(2) kind
    by (simp add: upload_attachment_def upload_and_extract_def attachment_env_of_def run_simps mbind_def [of uuid4] Let_def a0_def)
  then show ?thesis
    using put by (intro exI [of _ ?a]) (auto simp: settle_attachment_def a0_def split: extraction.split)
qed

text \<open>A page without any text on it.\<close>

definition blank_page :: "ocr_box list \<Rightarrow> bool" where
  "blank_page boxes \<longleftrightarrow> list_all (\<lambda>b. \<not> truthy_str (bx_text b)) boxes"

lemma blank_page_text: "blank_page boxes \<Longrightarrow> render_boxes_as_text boxes = []"
  by (auto simp: render_boxes_as_text_def blank_page_def list_all_iff filter_empty_conv)

text \<open>A scan without text: as an image it fails with a message that nothing was read; as a PDF it is stored as read, with a text
  made of the page markers alone.\<close>

theorem blank_scan_stored_as_read:
  assumes "list_all blank_page pages" "pages \<noteq> []"
  shows "(xo_ocr_pdf ops f name = OcrReply raw pages \<longrightarrow>
      (\<exists>raw'. extract_pdf ops f name =
         ExOk (join_str (newline @ newline) (map (\<lambda>i. ''--- Trang '' @ str_nat i @ '' ---'' @ newline) [1..<Suc (length pages)])) raw'))
    \<and> (xo_ocr_image ops f name mime = OcrReply raw (hd pages) \<longrightarrow> extract_image ops f name mime = ExError ocr_empty)"
proof (intro conjI impI)
  assume r: "xo_ocr_pdf ops f name = OcrReply raw pages"
  have "map (\<lambda>(i, p). page_text i p) (enumerate n ps) = map (\<lambda>i. ''--- Trang '' @ str_nat i @ '' ---'' @ newline) [n..<n + length ps]"
    if "list_all blank_page ps" for n ps
    using that
  proof (induction ps arbitrary: n)
    case (Cons p ps)
    then have "map (\<lambda>(i, p). page_text i p) (enumerate (Suc n) ps) =
        map (\<lambda>i. ''--- Trang '' @ str_nat i @ '' ---'' @ newline) [Suc n..<Suc n + length ps]" by simp
    moreover have "[n..<n + length (p # ps)] = n # [Suc n..<Suc n + length ps]" by (simp add: upt_rec)
    ultimately show ?case using Cons.prems by (simp add: page_text_def blank_page_text del: upt_Suc)
  qed simp
  from this [OF assms(1), of 1] r show "\<exists>raw'. extract_pdf ops f name =
      ExOk (join_str (newline @ newline) (map (\<lambda>i. ''--- Trang '' @ str_nat i @ '' ---'' @ newline) [1..<Suc (length pages)])) raw'"
    by (simp add: extract_pdf_def)
next
  assume "xo_ocr_image ops f name mime = OcrReply raw (hd pages)"
  moreover have "blank_page (hd pages)" using assms by (cases pages) simp_all
  ultimately show "extract_image ops f name mime = ExError ocr_empty"
    by (simp add: extract_image_def blank_page_text strip_def lstrip_def rstrip_def)
qed


subsection \<open>Attachments in a turn\<close>

text \<open>The byte \<open>0xA3\<close> ends the phrase's last but one letter and occurs in nothing that is written for a missing attachment.\<close>

lemma phrase_byte: "CHR 0xA3 \<in> set unreadable_phrase"
  by (simp add: unreadable_phrase_def)

lemma join_str_set: "set (join_str sep xs) \<subseteq> set sep \<union> (\<Union>x \<in> set xs. set x)"
  by (induction sep xs rule: join_str.induct) auto

lemma missing_context_byte:
  assumes "\<forall>i \<in> set ids. attachment_by_id i d = None \<and> CHR 0xA3 \<notin> set i"
  shows "CHR 0xA3 \<notin> set (render_attachments ids d)"
proof -
  have "CHR 0xA3 \<notin> set (attachment_section d i)" if "i \<in> set ids" for i
    using assms that by (simp add: attachment_section_def missing_section_def)
  then have "CHR 0xA3 \<notin> set (join_str (newline @ newline) (map (attachment_section d) ids))"
    using join_str_set [of "newline @ newline" "map (attachment_section d) ids"] by (auto simp: newline_def)
  then show ?thesis
    by (simp add: render_attachments_def attachment_header_def attachment_footer_def newline_def)
qed

text \<open>The engine takes attachments for readable unless the rendered text has the phrase of an unreadable one. A turn whose
  attachments do not exist at all has a context without that phrase, so its agent is told to answer from the contents of the
  attached file, of which there are none.\<close>

theorem missing_attachment_counts_as_readable:
  assumes "parse_attachment_ids env raw \<noteq> []"
    and "\<forall>i \<in> set (parse_attachment_ids env raw). attachment_by_id i d = None \<and> CHR 0xA3 \<notin> set i"
    and "resolve_instructions env ctx message raw d = Inr instructions"
  shows "suffix priority_note instructions"
proof -
  let ?c = "render_attachments (parse_attachment_ids env raw) d"
  have "\<not> sublist unreadable_phrase ?c"
    using missing_context_byte [OF assms(2)] phrase_byte by (meson in_mono set_mono_sublist)
  moreover have "?c \<noteq> []" using assms(1) by (simp add: render_attachments_def newline_def)
  ultimately have "\<exists>body. instructions = body @ priority_note"
    using assms(3) by (auto simp: resolve_instructions_def rbind_eq_Inr contains_str_sublist Let_def)
  then show ?thesis by (auto simp: suffix_def)
qed

lemma sublist_join: "x \<in> set xs \<Longrightarrow> sublist x (join_str sep xs)"
proof (induction sep xs rule: join_str.induct)
  case (3 sep y z zs)
  then show ?case
    by (metis join_str.simps(3) set_ConsD sublist_appendI sublist_append_leftI sublist_append_rightI sublist_order.order_trans)
qed auto

text \<open>Attachments are fetched by their identifiers alone: whoever names a ready attachment gets its text, whichever user uploaded
  it and in whichever session.\<close>

theorem attachment_open_to_anyone:
  assumes "attachment_by_id i d = Some a" "at_status a = AttReady" "at_extracted_text a = Some t" "strip t \<noteq> []"
    and "i \<in> set (parse_attachment_ids env raw)" "resolve_instructions env ctx message raw d = Inr instructions"
  shows "sublist (strip t) instructions"
proof -
  let ?c = "render_attachments (parse_attachment_ids env raw) d"
  have t: "t \<noteq> []" using assms(4) by (auto simp: strip_def lstrip_def rstrip_def)
  have "suffix (strip t) (ready_section a)"
    unfolding ready_section_def assms(3) option.sel append_assoc [symmetric] by (rule suffixI, rule refl)
  then have "sublist (strip t) (attachment_section d i)"
    using assms(1-3) t by (simp add: attachment_section_def suffix_imp_sublist)
  moreover have "attachment_section d i \<in> set (map (attachment_section d) (parse_attachment_ids env raw))"
    using assms(5) by simp
  ultimately have "sublist (strip t) (join_str (newline @ newline) (map (attachment_section d) (parse_attachment_ids env raw)))"
    using sublist_join sublist_order.order_trans by blast
  moreover have "parse_attachment_ids env raw \<noteq> []" using assms(5) by auto
  then have "sublist (join_str (newline @ newline) (map (attachment_section d) (parse_attachment_ids env raw))) ?c"
    using sublist_appendI [of "join_str (newline @ newline) (map (attachment_section d) (parse_attachment_ids env raw))"
      "attachment_header @ newline" "newline @ attachment_footer"] by (simp add: render_attachments_def)
  ultimately have c: "sublist (strip t) ?c" by (rule sublist_order.order_trans)
  then have c': "?c \<noteq> []" using assms(4) by auto
  obtain k where k: "execute_for_agent (en_knowledge env) (en_auth env) (row_id (rx_agent ctx)) message d = Inr k"
    using assms(6) by (auto simp: resolve_instructions_def rbind_eq_Inr)
  let ?parts = "filter (\<lambda>p. p \<noteq> []) [?c, k, rx_final_prompt ctx]"
  have "?parts = ?c # filter (\<lambda>p. p \<noteq> []) [k, rx_final_prompt ctx]" using c' by simp
  then have "prefix ?c (join_str (newline @ newline) ?parts)"
    by (cases "filter (\<lambda>p. p \<noteq> []) [k, rx_final_prompt ctx]") auto
  moreover have "prefix (join_str (newline @ newline) ?parts) instructions"
    using assms(6) k c' by (auto simp: resolve_instructions_def Let_def split: if_splits)
  ultimately show ?thesis
    using c by (meson prefix_imp_sublist sublist_order.order_trans)
qed

subsection \<open>Witnesses\<close>

definition demo_extract :: extract_ops where
  "demo_extract = \<lparr>xo_ocr_image = (\<lambda>_ _ _. OcrReply JNull []), xo_ocr_pdf = (\<lambda>_ _. OcrReply JNull [[]]),
     xo_docx = (\<lambda>_. Inl ''bad zip''), xo_xlsx = (\<lambda>_. Inr [])\<rparr>"

theorem upload_settles_witness:
  "\<exists>a s'. upload_attachment demo_extract ''b'' (\<lambda>_ _ _. None) ''%PDF'' ''scan.pdf'' ''application/pdf'' None None
       \<lparr>work = demo_db, durable = demo_db, now = 0, seed = 0, redis = ()\<rparr> = (Inr a, s') \<and> at_status a = AttReady"
proof -
  let ?s = "\<lparr>work = demo_db, durable = demo_db, now = 0, seed = 0, redis = ()\<rparr> :: unit sess"
  have "ids_below (seed ?s) (t_attachments (work ?s))" by (simp add: demo_db_def empty_db_def)
  from upload_settles [OF this, of "\<lambda>_ _ _. None" "''%PDF''" "''scan.pdf''" "''application/pdf''" demo_extract "''b''" None None]
  show ?thesis by (auto simp: kind_by_mime_def demo_extract_def extract_pdf_def)
qed

theorem blank_scan_stored_as_read_witness:
  "\<exists>t raw. extract_pdf demo_extract ''%PDF'' ''scan.pdf'' = ExOk t raw \<and> extract_image demo_extract ''x'' ''a.png'' ''image/png'' = ExError ocr_empty"
proof -
  have "list_all blank_page [[]]" by (simp add: blank_page_def)
  note blank = blank_scan_stored_as_read [OF this]
  have "xo_ocr_pdf demo_extract ''%PDF'' ''scan.pdf'' = OcrReply JNull [[]]"
    "xo_ocr_image demo_extract ''x'' ''a.png'' ''image/png'' = OcrReply JNull (hd [[]])" by (simp_all add: demo_extract_def)
  then show ?thesis
    using blank [of demo_extract "''%PDF''" "''scan.pdf''" JNull "''image/png''"] blank [of demo_extract "''x''" "''a.png''" JNull "''image/png''"]
    by blast
qed

definition demo_ctx :: runtime_ctx where
  "demo_ctx = \<lparr>rx_agent_os = demo_os, rx_team = demo_team, rx_agent = demo_agent, rx_final_prompt = ''Be brief'', rx_effective = []\<rparr>"

definition demo_attachment :: attachment where
  "demo_attachment = \<lparr>row_id = ''f1'', created_at = 0, at_session_id = None, at_user_id = Some ''bob'', at_filename = ''a.png'',
     at_mime_type = ''image/png'', at_kind = KindImage, at_size_bytes = 3, at_storage_bucket = ''b'', at_storage_key = ''k'',
     at_status = AttReady, at_extracted_text = Some ''secret'', at_extraction_raw = None, at_error_message = None\<rparr>"

lemma demo_instructions:
  "\<not> isl (resolve_instructions demo_engine demo_ctx ''Hi'' [''f9''] demo_db)"
  "\<not> isl (resolve_instructions demo_engine demo_ctx ''Hi'' [''f1''] (demo_db\<lparr>t_attachments := [demo_attachment]\<rparr>))"
  by code_simp+

theorem missing_attachment_counts_as_readable_witness:
  "\<exists>x. resolve_instructions demo_engine demo_ctx ''Hi'' [''f9''] demo_db = Inr x \<and> suffix priority_note x"
proof -
  obtain x where x: "resolve_instructions demo_engine demo_ctx ''Hi'' [''f9''] demo_db = Inr x"
    using demo_instructions(1) by (cases "resolve_instructions demo_engine demo_ctx ''Hi'' [''f9''] demo_db") auto
  have ids: "parse_attachment_ids demo_engine [''f9''] = [''f9'']" by (simp add: parse_attachment_ids_def demo_engine_def)
  have "attachment_by_id ''f9'' demo_db = None" by (simp add: attachment_by_id_def demo_db_def empty_db_def)
  with missing_attachment_counts_as_readable [OF _ _ x] x ids show ?thesis by simp
qed

theorem attachment_open_to_anyone_witness:
  "\<exists>x. resolve_instructions demo_engine demo_ctx ''Hi'' [''f1''] (demo_db\<lparr>t_attachments := [demo_attachment]\<rparr>) = Inr x \<and>
     sublist ''secret'' x"
proof -
  let ?d = "demo_db\<lparr>t_attachments := [demo_attachment]\<rparr>"
  obtain x where x: "resolve_instructions demo_engine demo_ctx ''Hi'' [''f1''] ?d = Inr x"
    using demo_instructions(2) by (cases "resolve_instructions demo_engine demo_ctx ''Hi'' [''f1''] ?d") auto
  have ids: "''f1'' \<in> set (parse_attachment_ids demo_engine [''f1''])" by (simp add: parse_attachment_ids_def demo_engine_def)
  have a: "attachment_by_id ''f1'' ?d = Some demo_attachment" by (simp add: attachment_by_id_def demo_attachment_def)
  have t: "at_status demo_attachment = AttReady" "at_extracted_text demo_attachment = Some ''secret''"
    by (simp_all add: demo_attachment_def)
  have s: "strip ''secret'' = ''secret''" by code_simp
  show ?thesis using attachment_open_to_anyone [OF a t _ ids x] x s by simp
qed

end
