(* ===== verification/Events.thy ===== *)
theory Events
  imports Registry
begin

text \<open>
  The two append-only logs behind feature flags: runtime observations (\<open>app/observation/service.py\<close>,
  \<open>app/repositories/observation_repository.py\<close>, \<open>app/api/v1/observations.py\<close>) and runtime events
  (\<open>app/events_v2/service.py\<close>, \<open>app/repositories/runtime_event_repository.py\<close>,
  \<open>app/api/v1/runtime_events.py\<close>), with the server-sent stream of an entity's events.
\<close>

subsection \<open>Append-only logs\<close>

text \<open>
  Both logs are tables that are only written by \<open>create\<close> and read by paged listings under a filter. The
  contract is the one of a table; the lemmas say what a creation does to every listing.
\<close>

locale append_log = table rows upd
  for rows :: "db \<Rightarrow> ('a row_scheme) list"
    and upd :: "(('a row_scheme) list \<Rightarrow> ('a row_scheme) list) \<Rightarrow> db \<Rightarrow> db"
begin

lemma log_append:
  assumes "repo_create rows upd no_clash mk s = (r, s')"
  shows "\<exists>e. r = Inr e \<and> e = mk (new_uuid (seed s)) (now s) \<and> work s' = upd (\<lambda>rs. rs @ [e]) (work s) \<and>
    durable s' = durable s \<and> redis s' = redis s \<and> now s' = now s"
  using assms by (auto simp: run_create_no_clash)

lemma log_listed:
  assumes "matches fs e"
  shows "repo_list_any (snd (repo_list_any off n fs (rows d))) (Suc m) fs (rows (upd (\<lambda>rs. rs @ [e]) d))
    = ([e], Suc (snd (repo_list_any off n fs (rows d))))"
  using assms by (simp add: repo_list_any_def rows_upd page_def Let_def)

lemma log_other:
  assumes "\<not> matches fs e"
  shows "repo_list_any off n fs (rows (upd (\<lambda>rs. rs @ [e]) d)) = repo_list_any off n fs (rows d)"
  using assms by (simp add: repo_list_any_def rows_upd)

lemma log_page_stable:
  "off + n \<le> snd (repo_list_any off n fs (rows d)) \<Longrightarrow>
     fst (repo_list_any off n fs (rows (upd (\<lambda>rs. rs @ [e]) d))) = fst (repo_list_any off n fs (rows d))"
  by (auto simp: repo_list_any_def rows_upd page_def Let_def)

end

interpretation observations: append_log t_observations t_observations_update
  by unfold_locales simp

interpretation runtime_events: append_log t_runtime_events t_runtime_events_update
  by unfold_locales simp

text \<open>\<open>PaginationParams\<close>: pages are counted from one.\<close>

definition page_offset :: "nat \<Rightarrow> nat \<Rightarrow> nat" where
  "page_offset number per_page = (number - 1) * per_page"

subsection \<open>Observations\<close>

definition new_observation ::
  "observation_type \<Rightarrow> json \<Rightarrow> uuid option \<Rightarrow> uuid option \<Rightarrow> uuid option \<Rightarrow> string option \<Rightarrow> real option
     \<Rightarrow> uuid \<Rightarrow> time \<Rightarrow> runtime_observation" where
  "new_observation ty p run_id workflow_run_id agent_id source ms i t =
     \<lparr>row_id = i, created_at = t, ob_run_id = run_id, ob_workflow_run_id = workflow_run_id, ob_agent_id = agent_id,
      ob_type = ty, ob_source = source, ob_payload = p, ob_execution_time_ms = ms\<rparr>"

text \<open>\<open>ObservationEngineService.record\<close> with \<open>FEATURE_OBSERVATION_ENGINE\<close> as \<open>feature\<close>.\<close>

definition observe ::
  "bool \<Rightarrow> observation_type \<Rightarrow> json \<Rightarrow> uuid option \<Rightarrow> uuid option \<Rightarrow> uuid option \<Rightarrow> string option \<Rightarrow> real option
     \<Rightarrow> ('r sess, runtime_observation option) prog" where
  "observe feature ty p run_id workflow_run_id agent_id source ms =
     (if \<not> feature then mret None
      else mbind (repo_create t_observations t_observations_update no_clash
                    (new_observation ty p run_id workflow_run_id agent_id source ms)) (\<lambda>ob. mret (Some ob)))"

definition observations_of_run :: "uuid \<Rightarrow> nat \<Rightarrow> nat \<Rightarrow> db \<Rightarrow> runtime_observation list \<times> nat" where
  "observations_of_run run_id offset limit d =
     repo_list_any offset limit [Some (\<lambda>x. ob_run_id x = Some run_id)] (t_observations d)"

definition observations_of_workflow_run :: "uuid \<Rightarrow> nat \<Rightarrow> nat \<Rightarrow> db \<Rightarrow> runtime_observation list \<times> nat" where
  "observations_of_workflow_run workflow_run_id offset limit d =
     repo_list_any offset limit [Some (\<lambda>x. ob_workflow_run_id x = Some workflow_run_id)] (t_observations d)"

definition list_observations ::
  "bool \<Rightarrow> uuid option \<Rightarrow> uuid option \<Rightarrow> nat \<Rightarrow> nat \<Rightarrow> ('r sess, (runtime_observation list \<times> nat) \<times> bool) prog" where
  "list_observations feature run_id workflow_run_id number per_page =
     mbind (require_feature feature ''Observation Engine'') (\<lambda>_.
     mbind (mget (\<lambda>s. repo_list_any (page_offset number per_page) per_page
                        [map_option (\<lambda>i x. ob_run_id x = Some i) run_id,
                         map_option (\<lambda>i x. ob_workflow_run_id x = Some i) workflow_run_id] (t_observations (work s)))) (\<lambda>r.
       mret (r, has_next (page_offset number per_page) per_page (snd r))))"

subsection \<open>Runtime events\<close>

definition new_runtime_event ::
  "string \<Rightarrow> string \<Rightarrow> string \<Rightarrow> json \<Rightarrow> string option \<Rightarrow> uuid \<Rightarrow> time \<Rightarrow> runtime_event" where
  "new_runtime_event entity_type entity_id event_name p correlation_id i t =
     \<lparr>row_id = i, created_at = t, re_entity_type = entity_type, re_entity_id = entity_id, re_event_name = event_name,
      re_payload = p, re_correlation_id = correlation_id\<rparr>"

text \<open>\<open>EventEngineService.emit\<close>: \<open>payload or {}\<close>.\<close>

definition emit_runtime ::
  "bool \<Rightarrow> string \<Rightarrow> string \<Rightarrow> string \<Rightarrow> (string \<times> json) list option \<Rightarrow> string option
     \<Rightarrow> ('r sess, runtime_event option) prog" where
  "emit_runtime feature entity_type entity_id event_name p correlation_id =
     (if \<not> feature then mret None
      else mbind (repo_create t_runtime_events t_runtime_events_update no_clash
             (new_runtime_event entity_type entity_id event_name
                (JObj (case p of None \<Rightarrow> [] | Some kvs \<Rightarrow> kvs)) correlation_id)) (\<lambda>e. mret (Some e)))"

definition list_by_entity :: "string \<Rightarrow> string \<Rightarrow> nat \<Rightarrow> nat \<Rightarrow> db \<Rightarrow> runtime_event list \<times> nat" where
  "list_by_entity entity_type entity_id offset limit d =
     repo_list_any offset limit [Some (\<lambda>x. re_entity_type x = entity_type), Some (\<lambda>x. re_entity_id x = entity_id)]
       (t_runtime_events d)"

text \<open>\<open>RuntimeEventRepository.list_since\<close>: the id after which to continue is accepted and not used.\<close>

definition list_since :: "string \<Rightarrow> string \<Rightarrow> string option \<Rightarrow> nat \<Rightarrow> db \<Rightarrow> runtime_event list" where
  "list_since entity_type entity_id since_id_str limit d =
     take limit (sort_key created_at
       (filter (\<lambda>x. re_entity_type x = entity_type \<and> re_entity_id x = entity_id) (t_runtime_events d)))"

record runtime_event_create =
  rec_entity_type :: string
  rec_entity_id :: string
  rec_event_name :: string
  rec_payload :: "(string \<times> json) list"
  rec_correlation_id :: "string option"

definition emit_runtime_event :: "bool \<Rightarrow> runtime_event_create \<Rightarrow> ('r sess, runtime_event) prog" where
  "emit_runtime_event feature p =
     mbind (require_feature feature ''Event Engine'') (\<lambda>_.
       repo_create t_runtime_events t_runtime_events_update no_clash
         (new_runtime_event (rec_entity_type p) (rec_entity_id p) (rec_event_name p) (JObj (rec_payload p)) (rec_correlation_id p)))"

definition list_runtime_events ::
  "bool \<Rightarrow> string \<Rightarrow> string \<Rightarrow> nat \<Rightarrow> nat \<Rightarrow> ('r sess, (runtime_event list \<times> nat) \<times> bool) prog" where
  "list_runtime_events feature entity_type entity_id number per_page =
     mbind (require_feature feature ''Event Engine'') (\<lambda>_.
     mbind (mget (\<lambda>s. list_by_entity entity_type entity_id (page_offset number per_page) per_page (work s))) (\<lambda>r.
       mret (r, has_next (page_offset number per_page) per_page (snd r))))"

subsection \<open>The stream of an entity's events\<close>

text \<open>
  The generator iterates over what \<open>list_by_entity\<close> returns. That is the pair of the page and the total, so
  the items of the iteration are a list and a number; \<open>event.id\<close> is asked of each. The frames carry the
  event's name and the document of its data; \<open>iso_of\<close> is \<open>datetime.isoformat\<close>.
\<close>

datatype listing_part = PageItems "runtime_event list" | TotalCount nat

fun attribute_error :: "listing_part \<Rightarrow> app_error" where
  "attribute_error (PageItems _) = mk_error (PyException ''AttributeError'') (quoted ''list'' @ '' object has no attribute '' @ quoted ''id'')"
| "attribute_error (TotalCount _) = mk_error (PyException ''AttributeError'') (quoted ''int'' @ '' object has no attribute '' @ quoted ''id'')"

definition event_of_part :: "listing_part \<Rightarrow> app_error + runtime_event" where
  "event_of_part x = Inl (attribute_error x)"

definition listing_parts :: "runtime_event list \<times> nat \<Rightarrow> listing_part list" where
  "listing_parts r = [PageItems (fst r), TotalCount (snd r)]"

definition runtime_frame :: "(time \<Rightarrow> string) \<Rightarrow> runtime_event \<Rightarrow> string \<times> json" where
  "runtime_frame iso_of e =
     (re_event_name e,
      JObj [(''id'', JStr (row_id e)), (''entity_type'', JStr (re_entity_type e)), (''entity_id'', JStr (re_entity_id e)),
            (''event_name'', JStr (re_event_name e)), (''payload'', re_payload e), (''created_at'', JStr (iso_of (created_at e)))])"

text \<open>One poll: the body of the \<open>for\<close> loop, over the items and what attribute access gives on each; the
  frames sent, the identifiers seen and the exception that ended it.\<close>

fun send_unseen ::
  "(time \<Rightarrow> string) \<Rightarrow> ('i \<Rightarrow> app_error + runtime_event) \<Rightarrow> uuid list \<Rightarrow> 'i list
     \<Rightarrow> (string \<times> json) list \<times> (app_error + uuid list)" where
  "send_unseen iso_of attr seen [] = ([], Inr seen)"
| "send_unseen iso_of attr seen (x # xs) =
     (case attr x of
        Inl err \<Rightarrow> ([], Inl err)
      | Inr e \<Rightarrow>
          (if row_id e \<in> set seen then send_unseen iso_of attr seen xs
           else case send_unseen iso_of attr (row_id e # seen) xs of (out, r) \<Rightarrow> (runtime_frame iso_of e # out, r)))"

text \<open>The \<open>while True\<close> loop, over what the database holds at each poll: the frames sent so far, and the
  exception that ended the stream, if any.\<close>

fun poll_stream ::
  "(time \<Rightarrow> string) \<Rightarrow> ('i \<Rightarrow> app_error + runtime_event) \<Rightarrow> (db \<Rightarrow> 'i list) \<Rightarrow> uuid list \<Rightarrow> db list
     \<Rightarrow> (string \<times> json) list \<times> app_error option" where
  "poll_stream iso_of attr fetch seen [] = ([], None)"
| "poll_stream iso_of attr fetch seen (d # polls) =
     (case send_unseen iso_of attr seen (fetch d) of
        (out, Inl err) \<Rightarrow> (out, Some err)
      | (out, Inr seen') \<Rightarrow> (case poll_stream iso_of attr fetch seen' polls of (rest, e) \<Rightarrow> (out @ rest, e)))"

definition stream_runtime_events ::
  "bool \<Rightarrow> (time \<Rightarrow> string) \<Rightarrow> string \<Rightarrow> string \<Rightarrow> db list \<Rightarrow> (string \<times> json) list \<times> app_error option" where
  "stream_runtime_events feature iso_of entity_type entity_id polls =
     (if \<not> feature then ([], Some (mk_error NotFoundError ''Event Engine is not enabled on this deployment''))
      else poll_stream iso_of event_of_part (\<lambda>d. listing_parts (list_by_entity entity_type entity_id 0 200 d)) [] polls)"

subsection \<open>What the logs promise\<close>

lemma run_require_feature [simp, run_simps]:
  "require_feature f what s =
     (if f then (Inr (), s) else (Inl (mk_error NotFoundError (what @ '' is not enabled on this deployment'')), s))"
  by (simp add: require_feature_def)

text \<open>An event posted to the Event Engine is there to be read: it is added at the end of the log with the
  fields of the request, it is the one row of the page that starts behind the entity's earlier events, the
  entity's total goes up by one, and what every other entity's listing shows is unchanged.\<close>

theorem posted_event_listed:
  assumes "emit_runtime_event feature p s = (Inr e, s')" "0 < n"
  shows "work s' = t_runtime_events_update (\<lambda>es. es @ [e]) (work s) \<and>
    re_event_name e = rec_event_name p \<and> re_payload e = JObj (rec_payload p) \<and>
    (let before = snd (list_by_entity (rec_entity_type p) (rec_entity_id p) 0 0 (work s)) in
     list_by_entity (rec_entity_type p) (rec_entity_id p) before n (work s') = ([e], Suc before)) \<and>
    (\<forall>ty i off m. (ty, i) \<noteq> (rec_entity_type p, rec_entity_id p) \<longrightarrow>
       list_by_entity ty i off m (work s') = list_by_entity ty i off m (work s))"
proof -
  let ?mk = "new_runtime_event (rec_entity_type p) (rec_entity_id p) (rec_event_name p) (JObj (rec_payload p)) (rec_correlation_id p)"
  have e: "e = ?mk (new_uuid (seed s)) (now s)" and w: "work s' = t_runtime_events_update (\<lambda>es. es @ [e]) (work s)"
    using assms(1) by (auto simp: emit_runtime_event_def mbind_def run_create_no_clash split: if_splits)
  obtain m where m: "n = Suc m" using assms(2) by (cases n) auto
  have "matches [Some (\<lambda>x. re_entity_type x = rec_entity_type p), Some (\<lambda>x. re_entity_id x = rec_entity_id p)] e"
    by (simp add: matches_def e new_runtime_event_def)
  from runtime_events.log_listed [OF this, of 0 0 "work s" m] have listed:
    "let before = snd (list_by_entity (rec_entity_type p) (rec_entity_id p) 0 0 (work s)) in
     list_by_entity (rec_entity_type p) (rec_entity_id p) before n (work s') = ([e], Suc before)"
    by (simp add: list_by_entity_def w m Let_def)
  have other: "list_by_entity ty i off k (work s') = list_by_entity ty i off k (work s)"
    if "(ty, i) \<noteq> (rec_entity_type p, rec_entity_id p)" for ty i off k
  proof -
    have "\<not> matches [Some (\<lambda>x. re_entity_type x = ty), Some (\<lambda>x. re_entity_id x = i)] e"
      using that by (auto simp: matches_def e new_runtime_event_def)
    from runtime_events.log_other [OF this] show ?thesis by (simp add: list_by_entity_def w)
  qed
  have sel: "re_event_name e = rec_event_name p" "re_payload e = JObj (rec_payload p)"
    by (simp_all add: e new_runtime_event_def)
  from w sel listed other show ?thesis by blast
qed

text \<open>The event stream never delivers anything: its loop runs over the pair of page and total that the
  repository returns, the first item is the page itself, and asking it for \<open>id\<close> raises \<open>AttributeError\<close> at
  the first poll - whatever events the entity has, at that poll or later.\<close>

theorem event_stream_dies_at_first_poll:
  "stream_runtime_events True iso_of entity_type entity_id (d # polls) =
     ([], Some (mk_error (PyException ''AttributeError'') (quoted ''list'' @ '' object has no attribute '' @ quoted ''id'')))"
  by (simp add: stream_runtime_events_def listing_parts_def event_of_part_def)

text \<open>With their flag off both logs are silent: recording is a no-op that returns nothing, and the endpoints
  answer 404; nothing is read or written.\<close>

theorem disabled_logs_are_silent:
  "observe False ty p r w a src ms s = (Inr None, s) \<and>
   emit_runtime False et ei nm kvs c s = (Inr None, s) \<and>
   (\<exists>m. emit_runtime_event False q s = (Inl (mk_error NotFoundError m), s)) \<and>
   (\<exists>m. list_observations False r w k n s = (Inl (mk_error NotFoundError m), s)) \<and>
   (\<exists>m. list_runtime_events False et ei k n s = (Inl (mk_error NotFoundError m), s))"
  by (simp add: observe_def emit_runtime_def emit_runtime_event_def list_observations_def list_runtime_events_def mbind_def)

text \<open>What is recorded about a run is found under it, after what was recorded before, and only there.\<close>

theorem observation_filed_under_its_run:
  assumes "observe True ty p (Some run_id) w a src ms s = (Inr (Some ob), s')"
  shows "(let before = snd (observations_of_run run_id 0 0 (work s)) in
     observations_of_run run_id before 1 (work s') = ([ob], Suc before)) \<and>
    (\<forall>i off m. i \<noteq> run_id \<longrightarrow> observations_of_run i off m (work s') = observations_of_run i off m (work s)) \<and>
    (w = None \<longrightarrow> (\<forall>i off m. observations_of_workflow_run i off m (work s') = observations_of_workflow_run i off m (work s)))"
proof -
  let ?mk = "new_observation ty p (Some run_id) w a src ms"
  have ob: "ob = ?mk (new_uuid (seed s)) (now s)" and wk: "work s' = t_observations_update (\<lambda>es. es @ [ob]) (work s)"
    using assms by (auto simp: observe_def mbind_def run_create_no_clash)
  have "matches [Some (\<lambda>x. ob_run_id x = Some run_id)] ob" by (simp add: matches_def ob new_observation_def)
  from observations.log_listed [OF this, of 0 0 "work s" 0] have 1:
    "let before = snd (observations_of_run run_id 0 0 (work s)) in
     observations_of_run run_id before 1 (work s') = ([ob], Suc before)"
    by (simp add: observations_of_run_def wk Let_def)
  have 2: "observations_of_run i off m (work s') = observations_of_run i off m (work s)" if "i \<noteq> run_id" for i off m
  proof -
    have "\<not> matches [Some (\<lambda>x. ob_run_id x = Some i)] ob" using that by (simp add: matches_def ob new_observation_def)
    from observations.log_other [OF this] show ?thesis by (simp add: observations_of_run_def wk)
  qed
  have 3: "observations_of_workflow_run i off m (work s') = observations_of_workflow_run i off m (work s)" if "w = None" for i off m
  proof -
    have "\<not> matches [Some (\<lambda>x. ob_workflow_run_id x = Some i)] ob" using that by (simp add: matches_def ob new_observation_def)
    from observations.log_other [OF this] show ?thesis by (simp add: observations_of_workflow_run_def wk)
  qed
  from 1 2 3 show ?thesis by blast
qed

subsection \<open>Witnesses\<close>

definition demo_page_opened :: runtime_event_create where
  "demo_page_opened = \<lparr>rec_entity_type = ''page'', rec_entity_id = ''p1'', rec_event_name = ''PageOpened'', rec_payload = [], rec_correlation_id = None\<rparr>"

theorem posted_event_listed_witness:
  "\<exists>e s'. emit_runtime_event True demo_page_opened \<lparr>work = empty_db, durable = empty_db, now = 0, seed = 0, redis = ()\<rparr> = (Inr e, s') \<and>
     list_by_entity ''page'' ''p1'' 0 10 (work s') = ([e], 1)"
proof -
  let ?s = "\<lparr>work = empty_db, durable = empty_db, now = 0, seed = 0, redis = ()\<rparr>"
  obtain e s' where r: "emit_runtime_event True demo_page_opened ?s = (Inr e, s')"
    by (simp add: emit_runtime_event_def mbind_def run_create_no_clash)
  have none: "snd (list_by_entity (rec_entity_type demo_page_opened) (rec_entity_id demo_page_opened) 0 0 (work ?s)) = 0"
    by (simp add: list_by_entity_def repo_list_any_def empty_db_def)
  have "(0::nat) < 10" by simp
  from posted_event_listed [OF r this, unfolded none Let_def] have "list_by_entity ''page'' ''p1'' 0 10 (work s') = ([e], 1)"
    by (elim conjE) (simp only: demo_page_opened_def runtime_event_create.simps One_nat_def)
  with r show ?thesis by blast
qed

theorem observation_filed_under_its_run_witness:
  "\<exists>ob s'. observe True ObsWarning JNull (Some ''r1'') None None None None
       \<lparr>work = empty_db, durable = empty_db, now = 0, seed = 0, redis = ()\<rparr> = (Inr (Some ob), s') \<and>
     observations_of_run ''r1'' 0 1 (work s') = ([ob], 1)"
proof -
  let ?s = "\<lparr>work = empty_db, durable = empty_db, now = 0, seed = 0, redis = ()\<rparr>"
  obtain ob s' where r: "observe True ObsWarning JNull (Some ''r1'') None None None None ?s = (Inr (Some ob), s')"
    by (simp add: observe_def mbind_def run_create_no_clash)
  from observation_filed_under_its_run [OF r] have "observations_of_run ''r1'' 0 1 (work s') = ([ob], 1)"
    by (simp add: observations_of_run_def repo_list_any_def empty_db_def Let_def)
  with r show ?thesis by blast
qed

end
