(* ===== verification/Admin.thy ===== *)
theory Admin
  imports Events Knowledge Plans
begin

text \<open>
  The administration endpoints of the metadata hierarchy: \<open>app/api/v1/agent_os.py\<close>, \<open>teams.py\<close>,
  \<open>agents.py\<close>, \<open>skills.py\<close> and \<open>capabilities.py\<close>, with the request models of \<open>app/schemas\<close> that have rules
  of their own. Each operation is the handler of one route, run by \<open>get_db\<close> in a transaction of its own.
\<close>

subsection \<open>Constraints of the database\<close>

text \<open>A foreign key that names no row makes the statement fail like a violated unique constraint does. An
  update or a soft delete never removes a row, so a key once valid stays valid.\<close>

definition foreign_key_error :: app_error where
  "foreign_key_error = mk_error (PyException ''IntegrityError'') ''insert or update on table violates foreign key constraint''"

definition foreign_keys :: "(db \<Rightarrow> bool) \<Rightarrow> ('r sess, unit) prog" where
  "foreign_keys ok = mlift (\<lambda>s. if ok (work s) then Inr () else Inl foreign_key_error)"

definition has_row :: "uuid \<Rightarrow> ('a row_scheme) list \<Rightarrow> bool" where
  "has_row i rows = list_ex (\<lambda>r. row_id r = i) rows"

definition has_row_opt :: "uuid option \<Rightarrow> ('a row_scheme) list \<Rightarrow> bool" where
  "has_row_opt i rows = (case i of None \<Rightarrow> True | Some j \<Rightarrow> has_row j rows)"

definition conflict :: "string \<Rightarrow> ('r sess, 'a) prog" where
  "conflict m = mraise (mk_error ConflictError m)"

text \<open>The pattern of the \<open>code\<close> fields, \<open>^[a-z0-9][a-z0-9\-_]*$\<close>, of at most 128 characters.\<close>

definition code_char :: "char \<Rightarrow> bool" where
  "code_char c = (c \<in> set ''abcdefghijklmnopqrstuvwxyz0123456789'')"

definition valid_code :: "string \<Rightarrow> bool" where
  "valid_code c = (c \<noteq> [] \<and> length c \<le> 128 \<and> code_char (hd c) \<and> list_all (\<lambda>x. code_char x \<or> x \<in> set ''-_'') c)"

text \<open>FastAPI validates the request model before the handler runs and answers 422 when it is not valid.\<close>

definition request_error :: "string \<Rightarrow> app_error" where
  "request_error m = mk_error (PyException ''RequestValidationError'') m"

definition valid_request :: "bool \<Rightarrow> string \<Rightarrow> ('r sess, unit) prog" where
  "valid_request b field = (if b then mret () else mraise (request_error field))"

subsection \<open>AgentOS\<close>

record os_create =
  oscr_code :: string
  oscr_name :: string
  oscr_description :: "string option"
  oscr_default_model_id :: "uuid option"
  oscr_shared_prompt_id :: "uuid option"
  oscr_enabled :: bool

record os_update =
  osup_name :: "string option"
  osup_description :: "string option"
  osup_default_model_id :: "uuid option"
  osup_shared_prompt_id :: "uuid option"
  osup_enabled :: "bool option"

definition new_os :: "os_create \<Rightarrow> uuid \<Rightarrow> time \<Rightarrow> agent_os" where
  "new_os p i t =
     \<lparr>row_id = i, created_at = t, deleted_at = None, code = oscr_code p, os_name = oscr_name p,
      os_description = oscr_description p, default_model_id = oscr_default_model_id p,
      shared_prompt_id = oscr_shared_prompt_id p, os_enabled = oscr_enabled p\<rparr>"

definition same_code :: "('a coded_row_scheme) \<Rightarrow> ('a coded_row_scheme) \<Rightarrow> bool" where
  "same_code r x \<longleftrightarrow> code r = code x"

definition create_agent_os :: "os_create \<Rightarrow> ('r sess, agent_os) prog" where
  "create_agent_os p =
     mbind (valid_request (valid_code (oscr_code p)) ''code'') (\<lambda>_.
     mbind (mlift (\<lambda>s. agent_os_by_code (oscr_code p) (t_agent_os (work s)))) (\<lambda>existing.
     if existing \<noteq> None then conflict (''AgentOS with code '' @ quoted (oscr_code p) @ '' already exists'')
     else mbind (foreign_keys (\<lambda>d. has_row_opt (oscr_default_model_id p) (t_models d) \<and>
                                    has_row_opt (oscr_shared_prompt_id p) (t_prompts d))) (\<lambda>_.
       repo_create t_agent_os t_agent_os_update same_code (new_os p))))"

definition list_agent_os :: "nat \<Rightarrow> nat \<Rightarrow> db \<Rightarrow> (agent_os list \<times> nat) \<times> bool" where
  "list_agent_os offset limit d =
     (let r = repo_list offset limit [] (t_agent_os d) in (r, has_next offset limit (snd r)))"

definition get_agent_os :: "uuid \<Rightarrow> db \<Rightarrow> app_error + agent_os" where
  "get_agent_os i d = repo_get_or_404 ''AgentOS'' i (t_agent_os d)"

definition update_agent_os :: "uuid \<Rightarrow> os_update \<Rightarrow> ('r sess, agent_os) prog" where
  "update_agent_os i p =
     mbind (mlift (\<lambda>s. get_agent_os i (work s))) (\<lambda>r.
     mbind (foreign_keys (\<lambda>d. has_row_opt (osup_default_model_id p) (t_models d) \<and>
                               has_row_opt (osup_shared_prompt_id p) (t_prompts d))) (\<lambda>_.
       repo_save t_agent_os_update
         (set_if (osup_name p) (\<lambda>v. os_name_update (\<lambda>_. v))
         (set_if (osup_description p) (\<lambda>v. os_description_update (\<lambda>_. Some v))
         (set_if (osup_default_model_id p) (\<lambda>v. default_model_id_update (\<lambda>_. Some v))
         (set_if (osup_shared_prompt_id p) (\<lambda>v. shared_prompt_id_update (\<lambda>_. Some v))
         (set_if (osup_enabled p) (\<lambda>v. os_enabled_update (\<lambda>_. v)) r)))))))"

definition delete_agent_os :: "uuid \<Rightarrow> ('r sess, unit) prog" where
  "delete_agent_os i =
     mbind (mlift (\<lambda>s. get_agent_os i (work s))) (\<lambda>r.
     mbind (repo_soft_delete t_agent_os_update r) (\<lambda>_. mret ()))"

subsection \<open>Teams\<close>

record team_create =
  tmcr_agent_os_id :: uuid
  tmcr_code :: string
  tmcr_name :: string
  tmcr_description :: "string option"
  tmcr_team_prompt_id :: "uuid option"
  tmcr_enabled :: bool

record team_update =
  tmup_name :: "string option"
  tmup_description :: "string option"
  tmup_team_prompt_id :: "uuid option"
  tmup_enabled :: "bool option"

definition new_team :: "team_create \<Rightarrow> uuid \<Rightarrow> time \<Rightarrow> team" where
  "new_team p i t =
     \<lparr>row_id = i, created_at = t, deleted_at = None, code = tmcr_code p, tm_agent_os_id = tmcr_agent_os_id p,
      tm_name = tmcr_name p, tm_description = tmcr_description p, team_prompt_id = tmcr_team_prompt_id p,
      tm_enabled = tmcr_enabled p\<rparr>"

definition same_team_code :: "team \<Rightarrow> team \<Rightarrow> bool" where
  "same_team_code r x \<longleftrightarrow> tm_agent_os_id r = tm_agent_os_id x \<and> code r = code x"

definition create_team :: "team_create \<Rightarrow> ('r sess, team) prog" where
  "create_team p =
     mbind (valid_request (valid_code (tmcr_code p)) ''code'') (\<lambda>_.
     mbind (mlift (\<lambda>s. repo_get (tmcr_agent_os_id p) (t_agent_os (work s)))) (\<lambda>os.
     if os = None then mraise (mk_error NotFoundError (''AgentOS '' @ tmcr_agent_os_id p @ '' not found''))
     else mbind (mlift (\<lambda>s. team_by_code (tmcr_agent_os_id p) (tmcr_code p) (t_teams (work s)))) (\<lambda>existing.
     if existing \<noteq> None then conflict (''Team with code '' @ quoted (tmcr_code p) @ '' already exists under this AgentOS'')
     else mbind (foreign_keys (\<lambda>d. has_row_opt (tmcr_team_prompt_id p) (t_prompts d))) (\<lambda>_.
       repo_create t_teams t_teams_update same_team_code (new_team p)))))"

definition list_teams :: "uuid option \<Rightarrow> nat \<Rightarrow> nat \<Rightarrow> db \<Rightarrow> (team list \<times> nat) \<times> bool" where
  "list_teams agent_os_id offset limit d =
     (let r = repo_list offset limit [map_option (\<lambda>i x. tm_agent_os_id x = i) agent_os_id] (t_teams d)
      in (r, has_next offset limit (snd r)))"

definition get_team :: "uuid \<Rightarrow> db \<Rightarrow> app_error + team" where
  "get_team i d = repo_get_or_404 ''Team'' i (t_teams d)"

definition update_team :: "uuid \<Rightarrow> team_update \<Rightarrow> ('r sess, team) prog" where
  "update_team i p =
     mbind (mlift (\<lambda>s. get_team i (work s))) (\<lambda>r.
     mbind (foreign_keys (\<lambda>d. has_row_opt (tmup_team_prompt_id p) (t_prompts d))) (\<lambda>_.
       repo_save t_teams_update
         (set_if (tmup_name p) (\<lambda>v. tm_name_update (\<lambda>_. v))
         (set_if (tmup_description p) (\<lambda>v. tm_description_update (\<lambda>_. Some v))
         (set_if (tmup_team_prompt_id p) (\<lambda>v. team_prompt_id_update (\<lambda>_. Some v))
         (set_if (tmup_enabled p) (\<lambda>v. tm_enabled_update (\<lambda>_. v)) r))))))"

definition delete_team :: "uuid \<Rightarrow> ('r sess, unit) prog" where
  "delete_team i =
     mbind (mlift (\<lambda>s. get_team i (work s))) (\<lambda>r.
     mbind (repo_soft_delete t_teams_update r) (\<lambda>_. mret ()))"

subsection \<open>Agents\<close>

record agent_create =
  agcr_team_id :: uuid
  agcr_code :: string
  agcr_name :: string
  agcr_description :: "string option"
  agcr_prompt_id :: "uuid option"
  agcr_model_id :: "uuid option"
  agcr_temperature :: "real option"
  agcr_enabled :: bool

record agent_update =
  agup_name :: "string option"
  agup_description :: "string option"
  agup_prompt_id :: "uuid option"
  agup_model_id :: "uuid option"
  agup_temperature :: "real option"
  agup_enabled :: "bool option"

definition new_agent :: "agent_create \<Rightarrow> uuid \<Rightarrow> time \<Rightarrow> agent" where
  "new_agent p i t =
     \<lparr>row_id = i, created_at = t, deleted_at = None, code = agcr_code p, ag_team_id = agcr_team_id p,
      ag_name = agcr_name p, ag_description = agcr_description p, ag_prompt_id = agcr_prompt_id p,
      ag_model_id = agcr_model_id p, ag_temperature = agcr_temperature p, ag_enabled = agcr_enabled p\<rparr>"

definition same_agent_code :: "agent \<Rightarrow> agent \<Rightarrow> bool" where
  "same_agent_code r x \<longleftrightarrow> ag_team_id r = ag_team_id x \<and> code r = code x"

definition create_agent :: "agent_create \<Rightarrow> ('r sess, agent) prog" where
  "create_agent p =
     mbind (valid_request (valid_code (agcr_code p)) ''code'') (\<lambda>_.
     mbind (mlift (\<lambda>s. repo_get (agcr_team_id p) (t_teams (work s)))) (\<lambda>tm.
     if tm = None then mraise (mk_error NotFoundError (''Team '' @ agcr_team_id p @ '' not found''))
     else mbind (mlift (\<lambda>s. agent_by_code (agcr_team_id p) (agcr_code p) (t_agents (work s)))) (\<lambda>existing.
     if existing \<noteq> None then conflict (''Agent with code '' @ quoted (agcr_code p) @ '' already exists under this Team'')
     else mbind (foreign_keys (\<lambda>d. has_row_opt (agcr_prompt_id p) (t_prompts d) \<and> has_row_opt (agcr_model_id p) (t_models d))) (\<lambda>_.
       repo_create t_agents t_agents_update same_agent_code (new_agent p)))))"

definition list_agents :: "uuid option \<Rightarrow> nat \<Rightarrow> nat \<Rightarrow> db \<Rightarrow> (agent list \<times> nat) \<times> bool" where
  "list_agents team_id offset limit d =
     (let r = repo_list offset limit [map_option (\<lambda>i x. ag_team_id x = i) team_id] (t_agents d)
      in (r, has_next offset limit (snd r)))"

definition get_agent :: "uuid \<Rightarrow> db \<Rightarrow> app_error + agent" where
  "get_agent i d = repo_get_or_404 ''Agent'' i (t_agents d)"

definition update_agent :: "uuid \<Rightarrow> agent_update \<Rightarrow> ('r sess, agent) prog" where
  "update_agent i p =
     mbind (mlift (\<lambda>s. get_agent i (work s))) (\<lambda>r.
     mbind (foreign_keys (\<lambda>d. has_row_opt (agup_prompt_id p) (t_prompts d) \<and> has_row_opt (agup_model_id p) (t_models d))) (\<lambda>_.
       repo_save t_agents_update
         (set_if (agup_name p) (\<lambda>v. ag_name_update (\<lambda>_. v))
         (set_if (agup_description p) (\<lambda>v. ag_description_update (\<lambda>_. Some v))
         (set_if (agup_prompt_id p) (\<lambda>v. ag_prompt_id_update (\<lambda>_. Some v))
         (set_if (agup_model_id p) (\<lambda>v. ag_model_id_update (\<lambda>_. Some v))
         (set_if (agup_temperature p) (\<lambda>v. ag_temperature_update (\<lambda>_. Some v))
         (set_if (agup_enabled p) (\<lambda>v. ag_enabled_update (\<lambda>_. v)) r))))))))"

definition delete_agent :: "uuid \<Rightarrow> ('r sess, unit) prog" where
  "delete_agent i =
     mbind (mlift (\<lambda>s. get_agent i (work s))) (\<lambda>r.
     mbind (repo_soft_delete t_agents_update r) (\<lambda>_. mret ()))"

subsection \<open>Skills\<close>

record skill_create =
  skcr_code :: string
  skcr_name :: string
  skcr_description :: "string option"
  skcr_instructions :: "string option"
  skcr_type :: skill_type
  skcr_config :: "(string \<times> json) list option"
  skcr_capability_codes :: "string list"

record skill_update =
  skup_name :: "string option"
  skup_description :: "string option"
  skup_instructions :: "string option"
  skup_config :: "(string \<times> json) list option"
  skup_capability_codes :: "string list option"

text \<open>The validator of \<open>SkillCreate\<close>; \<open>SkillUpdate\<close> has none.\<close>

definition validate_skill_create :: "pydantic_ops \<Rightarrow> skill_create \<Rightarrow> app_error + unit" where
  "validate_skill_create pd p =
     (if \<not> valid_code (skcr_code p) then Inl (request_error ''code'')
      else rbind
        (if skcr_type p \<noteq> SkKnowledge then Inr ()
         else case skcr_config p of
                None \<Rightarrow> Inl (request_error ''config is required when skill_type=KNOWLEDGE'')
              | Some kvs \<Rightarrow>
                  if kvs = [] then Inl (request_error ''config is required when skill_type=KNOWLEDGE'')
                  else (case validate_knowledge_config pd (JObj kvs) of
                          Inl e \<Rightarrow> Inl (request_error (err_message e)) | Inr _ \<Rightarrow> Inr ()))
        (\<lambda>_. if skcr_capability_codes p \<noteq> [] \<and> skcr_type p \<noteq> SkMcp
              then Inl (request_error ''capability_codes is only meaningful for skill_type=MCP'') else Inr ()))"

definition new_skill :: "skill_create \<Rightarrow> uuid \<Rightarrow> time \<Rightarrow> skill" where
  "new_skill p i t =
     \<lparr>row_id = i, created_at = t, deleted_at = None, code = skcr_code p, sk_name = skcr_name p,
      sk_description = skcr_description p, sk_instructions = skcr_instructions p, sk_type = skcr_type p,
      sk_config = map_option JObj (skcr_config p)\<rparr>"

text \<open>\<open>skill_to_read_model\<close>: the row and the capability codes it bundles.\<close>

definition skill_to_read_model :: "skill \<Rightarrow> db \<Rightarrow> skill \<times> string list" where
  "skill_to_read_model k d = (k, skill_capability_codes (row_id k) d)"

definition list_skills :: "nat \<Rightarrow> nat \<Rightarrow> db \<Rightarrow> ((skill \<times> string list) list \<times> nat) \<times> bool" where
  "list_skills offset limit d =
     (let r = repo_list offset limit [] (t_skills d)
      in ((map (\<lambda>k. skill_to_read_model k d) (fst r), snd r), has_next offset limit (snd r)))"

definition create_skill :: "pydantic_ops \<Rightarrow> skill_create \<Rightarrow> ('r sess, skill \<times> string list) prog" where
  "create_skill pd p =
     mbind (mlift (\<lambda>_. validate_skill_create pd p)) (\<lambda>_.
     mbind (mlift (\<lambda>s. skill_by_code (skcr_code p) (t_skills (work s)))) (\<lambda>existing.
     if existing \<noteq> None then conflict (''Skill with code '' @ quoted (skcr_code p) @ '' already exists'')
     else mbind (repo_create t_skills t_skills_update same_code (new_skill p)) (\<lambda>k.
          mbind (set_capability_codes (row_id k) (skcr_capability_codes p)) (\<lambda>_.
            mget (\<lambda>s. skill_to_read_model k (work s))))))"

definition get_skill :: "uuid \<Rightarrow> db \<Rightarrow> app_error + skill" where
  "get_skill i d = repo_get_or_404 ''Skill'' i (t_skills d)"

definition read_skill :: "uuid \<Rightarrow> db \<Rightarrow> app_error + (skill \<times> string list)" where
  "read_skill i d = rbind (get_skill i d) (\<lambda>k. Inr (skill_to_read_model k d))"

definition merge_skill :: "skill_update \<Rightarrow> skill \<Rightarrow> skill" where
  "merge_skill p k =
     set_if (skup_name p) (\<lambda>v. sk_name_update (\<lambda>_. v))
     (set_if (skup_description p) (\<lambda>v. sk_description_update (\<lambda>_. Some v))
     (set_if (skup_instructions p) (\<lambda>v. sk_instructions_update (\<lambda>_. Some v))
     (set_if (skup_config p) (\<lambda>v. sk_config_update (\<lambda>_. Some (JObj v))) k)))"

definition update_skill :: "uuid \<Rightarrow> skill_update \<Rightarrow> ('r sess, skill \<times> string list) prog" where
  "update_skill i p =
     mbind (mlift (\<lambda>s. get_skill i (work s))) (\<lambda>k.
     mbind (repo_save t_skills_update (merge_skill p k)) (\<lambda>k.
     mbind (case skup_capability_codes p of None \<Rightarrow> mret () | Some cs \<Rightarrow> set_capability_codes (row_id k) cs) (\<lambda>_.
       mget (\<lambda>s. skill_to_read_model k (work s)))))"

definition delete_skill :: "uuid \<Rightarrow> ('r sess, unit) prog" where
  "delete_skill i =
     mbind (mlift (\<lambda>s. get_skill i (work s))) (\<lambda>k.
     mbind (repo_soft_delete t_skills_update k) (\<lambda>_. mret ()))"

definition list_agents_for_skill :: "uuid \<Rightarrow> nat \<Rightarrow> nat \<Rightarrow> db \<Rightarrow> agent list \<times> nat" where
  "list_agents_for_skill sk offset limit d =
     (let hits = filter live (concat (map (\<lambda>l. filter (\<lambda>a. row_id a = as_agent_id l) (t_agents d))
                   (filter (\<lambda>l. as_skill_id l = sk) (t_agent_skills d))))
      in (page offset limit (sort_key created_at hits), length hits))"

definition list_skill_agents :: "uuid \<Rightarrow> nat \<Rightarrow> nat \<Rightarrow> db \<Rightarrow> app_error + (agent list \<times> nat) \<times> bool" where
  "list_skill_agents i offset limit d =
     rbind (get_skill i d) (\<lambda>_.
       let r = list_agents_for_skill i offset limit d in Inr (r, has_next offset limit (snd r)))"

definition list_agent_skills :: "uuid \<Rightarrow> db \<Rightarrow> app_error + (skill \<times> string list) list" where
  "list_agent_skills i d =
     rbind (get_agent i d) (\<lambda>_. Inr (map (\<lambda>k. skill_to_read_model k d) (list_skills_for_agent i d)))"

text \<open>\<open>POST /skills/assign\<close> checks that the skill exists; that the agent does is left to the foreign key.\<close>

definition assign_skill_to_agent :: "uuid \<Rightarrow> uuid \<Rightarrow> ('r sess, unit) prog" where
  "assign_skill_to_agent agent_id skill_id =
     mbind (mlift (\<lambda>s. get_skill skill_id (work s))) (\<lambda>_.
     mbind (foreign_keys (\<lambda>d. has_row agent_id (t_agents d))) (\<lambda>_.
     mbind (assign_to_agent agent_id skill_id) (\<lambda>_. mret ())))"

definition unassign_skill_from_agent :: "uuid \<Rightarrow> uuid \<Rightarrow> ('r sess, unit) prog" where
  "unassign_skill_from_agent agent_id skill_id = unassign_from_agent agent_id skill_id"

record skill_test_response =
  str_skill_code :: string
  str_ok :: bool
  str_context :: "string option"
  str_chunk_count :: nat
  str_error :: "string option"

definition test_skill ::
  "knowledge_env \<Rightarrow> propagated_auth \<Rightarrow> uuid \<Rightarrow> string \<Rightarrow> db \<Rightarrow> app_error + skill_test_response" where
  "test_skill env auth i query d =
     (if query = [] then Inl (request_error ''query'')
      else rbind (get_skill i d) (\<lambda>k. rbind (execute_by_skill env auth k query) (\<lambda>r.
        Inr \<lparr>str_skill_code = code k, str_ok = kx_ok r,
             str_context = (if kx_context r = [] then None else Some (kx_context r)),
             str_chunk_count = kx_chunk_count r, str_error = kx_error r\<rparr>)))"

subsection \<open>Capability assignments\<close>

datatype capability_level = LevelAgentOs | LevelTeam | LevelAgent

fun level_codes :: "capability_level \<Rightarrow> uuid \<Rightarrow> db \<Rightarrow> string list" where
  "level_codes LevelAgentOs = agent_os_capabilities"
| "level_codes LevelTeam = team_capabilities"
| "level_codes LevelAgent = agent_capabilities"

fun set_level_codes :: "capability_level \<Rightarrow> uuid \<Rightarrow> string list \<Rightarrow> ('r sess, unit) prog" where
  "set_level_codes LevelAgentOs = set_agent_os_capabilities"
| "set_level_codes LevelTeam = set_team_capabilities"
| "set_level_codes LevelAgent = set_agent_capabilities"

fun has_target :: "capability_level \<Rightarrow> uuid \<Rightarrow> db \<Rightarrow> bool" where
  "has_target LevelAgentOs i d = has_row i (t_agent_os d)"
| "has_target LevelTeam i d = has_row i (t_teams d)"
| "has_target LevelAgent i d = has_row i (t_agents d)"

definition get_assignment :: "capability_level \<Rightarrow> uuid \<Rightarrow> db \<Rightarrow> string list" where
  "get_assignment level target_id d = level_codes level target_id d"

text \<open>The answer to a new assignment repeats the request's codes, not what was stored.\<close>

definition set_assignment :: "capability_level \<Rightarrow> uuid \<Rightarrow> string list \<Rightarrow> ('r sess, string list) prog" where
  "set_assignment level target_id codes =
     mbind (valid_request (codes \<noteq> []) ''capability_codes'') (\<lambda>_.
     mbind (foreign_keys (has_target level target_id)) (\<lambda>_.
     mbind (set_level_codes level target_id codes) (\<lambda>_. mret codes)))"

subsection \<open>Requests\<close>

datatype admin_request =
    CreateOs os_create | UpdateOs uuid os_update | DeleteOs uuid
  | CreateTeam team_create | UpdateTeam uuid team_update | DeleteTeam uuid
  | CreateAgent agent_create | UpdateAgent uuid agent_update | DeleteAgent uuid
  | CreateSkill skill_create | UpdateSkill uuid skill_update | DeleteSkill uuid
  | AssignSkill uuid uuid | UnassignSkill uuid uuid
  | SetAssignment capability_level uuid "string list"

definition discard :: "('r sess, 'a) prog \<Rightarrow> ('r sess, unit) prog" where
  "discard m = mbind m (\<lambda>_. mret ())"

fun serve_admin :: "pydantic_ops \<Rightarrow> admin_request \<Rightarrow> ('r sess, unit) prog" where
  "serve_admin pd (CreateOs p) = discard (create_agent_os p)"
| "serve_admin pd (UpdateOs i p) = discard (update_agent_os i p)"
| "serve_admin pd (DeleteOs i) = delete_agent_os i"
| "serve_admin pd (CreateTeam p) = discard (create_team p)"
| "serve_admin pd (UpdateTeam i p) = discard (update_team i p)"
| "serve_admin pd (DeleteTeam i) = delete_team i"
| "serve_admin pd (CreateAgent p) = discard (create_agent p)"
| "serve_admin pd (UpdateAgent i p) = discard (update_agent i p)"
| "serve_admin pd (DeleteAgent i) = delete_agent i"
| "serve_admin pd (CreateSkill p) = discard (create_skill pd p)"
| "serve_admin pd (UpdateSkill i p) = discard (update_skill i p)"
| "serve_admin pd (DeleteSkill i) = delete_skill i"
| "serve_admin pd (AssignSkill a k) = assign_skill_to_agent a k"
| "serve_admin pd (UnassignSkill a k) = unassign_skill_from_agent a k"
| "serve_admin pd (SetAssignment l i cs) = discard (set_assignment l i cs)"

text \<open>One request after the other, each in its own transaction.\<close>

fun serve_all :: "pydantic_ops \<Rightarrow> admin_request list \<Rightarrow> 'r sess \<Rightarrow> 'r sess" where
  "serve_all pd [] s = s"
| "serve_all pd (q # qs) s = serve_all pd qs (snd (get_db (serve_admin pd q) s))"

subsection \<open>Tables with a unique slot\<close>

text \<open>
  What the four catalogue tables have in common: an identifier and a slot (the columns of the unique
  constraint) that occur once among all rows, soft-deleted ones included. The lemmas are what the endpoints
  need of it: a create the constraint lets through and a save that keeps the slot leave the table in order,
  and a look-up of a live row by its slot finds at most one.
\<close>

locale slot_table = table rows upd
  for rows :: "db \<Rightarrow> ('a soft_row_scheme) list"
    and upd :: "(('a soft_row_scheme) list \<Rightarrow> ('a soft_row_scheme) list) \<Rightarrow> db \<Rightarrow> db" +
  fixes slot :: "('a soft_row_scheme) \<Rightarrow> 'k"
    and clash :: "('a soft_row_scheme) \<Rightarrow> ('a soft_row_scheme) \<Rightarrow> bool"
  assumes clash_slot: "clash r x \<longleftrightarrow> slot r = slot x"
begin

definition tidy :: "nat \<Rightarrow> db \<Rightarrow> bool" where
  "tidy n d \<longleftrightarrow> ids_below n (rows d) \<and> distinct (map row_id (rows d)) \<and> distinct (map slot (rows d))"

lemma tidy_mono: "tidy n d \<Longrightarrow> n \<le> m \<Longrightarrow> tidy m d"
  by (auto simp: tidy_def intro: ids_below_mono)

lemma tidy_cong: "rows d' = rows d \<Longrightarrow> tidy n d' = tidy n d"
  by (simp add: tidy_def)

lemma tidy_create:
  assumes "tidy n d" "row_id r = new_uuid n" "\<not> list_ex (clash r) (rows d)"
  shows "tidy (Suc n) (upd (\<lambda>rs. rs @ [r]) d)"
proof -
  have "row_id x \<noteq> new_uuid n" if "x \<in> set (rows d)" for x
    using assms(1) that ids_below_notin by (auto simp: tidy_def)
  then have "new_uuid n \<notin> row_id ` set (rows d)" by (metis imageE)
  moreover have "slot r \<notin> slot ` set (rows d)" using assms(3) by (auto simp: clash_slot list_ex_iff)
  moreover have "ids_below (Suc n) (rows d @ [r])" using assms(1,2) by (auto simp: tidy_def intro: ids_below_snoc)
  ultimately show ?thesis using assms(1,2) by (simp add: tidy_def rows_upd)
qed

lemma tidy_save:
  assumes "tidy n d" "r0 \<in> set (rows d)" "row_id r = row_id r0" "slot r = slot r0"
  shows "tidy n (upd (put_row r) d)"
proof -
  have "x = r0" if "x \<in> set (rows d)" "row_id x = row_id r" for x
    using assms that by (auto simp: tidy_def distinct_map inj_on_def)
  then have "map slot (put_row r (rows d)) = map slot (rows d)"
    using assms(4) by (auto simp: put_row_def)
  moreover have "ids_below n [r]" using assms(1-3) by (auto simp: tidy_def ids_below_def)
  ultimately show ?thesis using assms(1) ids_below_save [of n d r] keys_save [of r d] by (simp add: tidy_def rows_upd)
qed

lemma slot_unambiguous:
  assumes "tidy n d" "\<And>x. x \<in> set (rows d) \<Longrightarrow> p x \<Longrightarrow> slot x = k"
  shows "\<exists>r. scalar_one_or_none (filter p (rows d)) = Inr r"
proof -
  have "distinct (map slot xs) \<Longrightarrow> (\<And>x. x \<in> set xs \<Longrightarrow> p x \<Longrightarrow> slot x = k) \<Longrightarrow> length (filter p xs) \<le> 1" for xs
  proof (induction xs)
    case (Cons x xs)
    show ?case
    proof (cases "p x")
      case True
      have "filter p xs = []" using Cons.prems True by (force simp: filter_empty_conv)
      then show ?thesis by simp
    next
      case False
      then show ?thesis using Cons by simp
    qed
  qed simp
  then have "length (filter p (rows d)) \<le> 1" using assms by (simp add: tidy_def)
  then show ?thesis by (cases "filter p (rows d)" rule: scalar_one_or_none.cases) auto
qed

end

interpretation os_slots: slot_table t_agent_os t_agent_os_update code same_code
  by unfold_locales (simp_all add: same_code_def)

interpretation team_slots: slot_table t_teams t_teams_update "\<lambda>t. (tm_agent_os_id t, code t)" same_team_code
  by unfold_locales (simp_all add: same_team_code_def)

interpretation agent_slots: slot_table t_agents t_agents_update "\<lambda>a. (ag_team_id a, code a)" same_agent_code
  by unfold_locales (simp_all add: same_agent_code_def)

interpretation skill_slots: slot_table t_skills t_skills_update code same_code
  by unfold_locales (simp_all add: same_code_def)

subsection \<open>The catalogue stays consistent\<close>

text \<open>Every table in order, every team under an AgentOS and every agent under a team, no assignment of a skill
  twice or to something that does not exist, and no empty code.\<close>

definition links_ok :: "db \<Rightarrow> bool" where
  "links_ok d \<longleftrightarrow>
     (\<forall>t \<in> set (t_teams d). has_row (tm_agent_os_id t) (t_agent_os d) \<and> code t \<noteq> []) \<and>
     (\<forall>a \<in> set (t_agents d). has_row (ag_team_id a) (t_teams d) \<and> code a \<noteq> []) \<and>
     (\<forall>l \<in> set (t_agent_skills d). has_row (as_agent_id l) (t_agents d) \<and> has_row (as_skill_id l) (t_skills d)) \<and>
     distinct (map (\<lambda>l. (as_agent_id l, as_skill_id l)) (t_agent_skills d))"

definition catalogue_ok :: "nat \<Rightarrow> db \<Rightarrow> bool" where
  "catalogue_ok n d \<longleftrightarrow> os_slots.tidy n d \<and> team_slots.tidy n d \<and> agent_slots.tidy n d \<and> skill_slots.tidy n d \<and> links_ok d"


lemmas catalogue_defs = catalogue_ok_def links_ok_def

lemma has_row_iff: "has_row i rows \<longleftrightarrow> i \<in> row_id ` set rows"
  by (auto simp: has_row_def list_ex_iff)

lemma has_row_more [simp]: "has_row i (rs @ [r]) \<longleftrightarrow> has_row i rs \<or> i = row_id r"
  "has_row i (put_row r rs) \<longleftrightarrow> has_row i rs"
proof -
  have "set (map row_id (put_row r rs)) = set (map row_id rs)" 
    by (rule arg_cong [where f = set]) (simp add: put_row_def)
  then show "has_row i (put_row r rs) \<longleftrightarrow> has_row i rs"
    by (simp only: has_row_iff set_map)
qed (auto simp: has_row_iff)

text \<open>A served request keeps the catalogue in order when it succeeds; otherwise nothing it did is kept.\<close>

definition serves :: "('r sess, 'a) prog \<Rightarrow> bool" where
  "serves m \<longleftrightarrow> (\<forall>s. catalogue_ok (seed s) (work s) \<longrightarrow>
     wp m (\<lambda>_ s'. catalogue_ok (seed s') (work s') \<and> durable s' = durable s \<and> seed s \<le> seed s')
          (\<lambda>_ s'. durable s' = durable s \<and> seed s \<le> seed s') s)"

lemma serves_discard: "serves m \<Longrightarrow> serves (discard m)"
  unfolding serves_def discard_def wp_simps by (blast intro: wp_mono)

lemmas tidy_congs = os_slots.tidy_cong team_slots.tidy_cong agent_slots.tidy_cong skill_slots.tidy_cong

lemma catalogue_mono: "catalogue_ok n d \<Longrightarrow> n \<le> m \<Longrightarrow> catalogue_ok m d"
  by (auto simp: catalogue_ok_def os_slots.tidy_mono team_slots.tidy_mono agent_slots.tidy_mono skill_slots.tidy_mono)

text \<open>What a new row and a saved row of each table do to the catalogue.\<close>

lemma catalogue_add_os:
  assumes "catalogue_ok n d" "row_id r = new_uuid n" "\<not> list_ex (same_code r) (t_agent_os d)"
  shows "catalogue_ok (Suc n) (t_agent_os_update (\<lambda>rs. rs @ [r]) d)"
  using os_slots.tidy_create [of n d r] catalogue_mono [OF assms(1), of "Suc n"] assms
  by (simp add: catalogue_defs tidy_congs [of "t_agent_os_update f d" d for f])

lemma catalogue_add_team:
  assumes "catalogue_ok n d" "row_id r = new_uuid n" "\<not> list_ex (same_team_code r) (t_teams d)"
    and "has_row (tm_agent_os_id r) (t_agent_os d)" "code r \<noteq> []"
  shows "catalogue_ok (Suc n) (t_teams_update (\<lambda>rs. rs @ [r]) d)"
  using team_slots.tidy_create [of n d r] catalogue_mono [OF assms(1), of "Suc n"] assms
  by (simp add: catalogue_defs tidy_congs [of "t_teams_update f d" d for f])

lemma catalogue_add_agent:
  assumes "catalogue_ok n d" "row_id r = new_uuid n" "\<not> list_ex (same_agent_code r) (t_agents d)"
    and "has_row (ag_team_id r) (t_teams d)" "code r \<noteq> []"
  shows "catalogue_ok (Suc n) (t_agents_update (\<lambda>rs. rs @ [r]) d)"
  using agent_slots.tidy_create [of n d r] catalogue_mono [OF assms(1), of "Suc n"] assms
  by (simp add: catalogue_defs tidy_congs [of "t_agents_update f d" d for f])

lemma catalogue_add_skill:
  assumes "catalogue_ok n d" "row_id r = new_uuid n" "\<not> list_ex (same_code r) (t_skills d)"
  shows "catalogue_ok (Suc n) (t_skills_update (\<lambda>rs. rs @ [r]) d)"
  using skill_slots.tidy_create [of n d r] catalogue_mono [OF assms(1), of "Suc n"] assms
  by (simp add: catalogue_defs tidy_congs [of "t_skills_update f d" d for f])

lemma catalogue_add_link:
  assumes "catalogue_ok n d" "has_row (as_agent_id l) (t_agents d)" "has_row (as_skill_id l) (t_skills d)"
    and "\<forall>x \<in> set (t_agent_skills d). (as_agent_id x, as_skill_id x) \<noteq> (as_agent_id l, as_skill_id l)"
  shows "catalogue_ok n (t_agent_skills_update (\<lambda>rs. rs @ [l]) d)"
  using assms by (auto simp: catalogue_defs tidy_congs [of "t_agent_skills_update f d" d for f])

lemma catalogue_drop_links:
  "catalogue_ok n d \<Longrightarrow> catalogue_ok n (t_agent_skills_update (filter p) d)"
  by (auto simp: catalogue_defs tidy_congs [of "t_agent_skills_update f d" d for f] distinct_map intro: inj_on_subset)

lemma put_row_member: "x \<in> set (put_row r rs) \<Longrightarrow> x = r \<or> x \<in> set rs"
  by (auto simp: put_row_def)

lemma catalogue_put_os:
  assumes "catalogue_ok n d" "r0 \<in> set (t_agent_os d)" "row_id r = row_id r0" "code r = code r0"
  shows "catalogue_ok n (t_agent_os_update (put_row r) d)"
  using os_slots.tidy_save [of n d r0 r] assms
  by (simp add: catalogue_defs tidy_congs [of "t_agent_os_update f d" d for f])

lemma catalogue_put_team:
  assumes "catalogue_ok n d" "r0 \<in> set (t_teams d)" "row_id r = row_id r0" "code r = code r0" "tm_agent_os_id r = tm_agent_os_id r0"
  shows "catalogue_ok n (t_teams_update (put_row r) d)"
  using team_slots.tidy_save [of n d r0 r] assms
  by (auto simp: catalogue_defs tidy_congs [of "t_teams_update f d" d for f] dest!: put_row_member)

lemma catalogue_put_agent:
  assumes "catalogue_ok n d" "r0 \<in> set (t_agents d)" "row_id r = row_id r0" "code r = code r0" "ag_team_id r = ag_team_id r0"
  shows "catalogue_ok n (t_agents_update (put_row r) d)"
  using agent_slots.tidy_save [of n d r0 r] assms
  by (auto simp: catalogue_defs tidy_congs [of "t_agents_update f d" d for f] dest!: put_row_member)

lemma catalogue_put_skill:
  assumes "catalogue_ok n d" "r0 \<in> set (t_skills d)" "row_id r = row_id r0" "code r = code r0"
  shows "catalogue_ok n (t_skills_update (put_row r) d)"
  using skill_slots.tidy_save [of n d r0 r] assms
  by (simp add: catalogue_defs tidy_congs [of "t_skills_update f d" d for f])

lemma catalogue_caps [simp]:
  "catalogue_ok n (t_os_caps_update f d) = catalogue_ok n d" "catalogue_ok n (t_team_caps_update g d) = catalogue_ok n d"
  "catalogue_ok n (t_agent_caps_update h d) = catalogue_ok n d" "catalogue_ok n (t_skill_caps_update k d) = catalogue_ok n d"
  by (simp_all add: catalogue_defs tidy_congs [of "t_os_caps_update f d" d] tidy_congs [of "t_team_caps_update g d" d]
      tidy_congs [of "t_agent_caps_update h d" d] tidy_congs [of "t_skill_caps_update k d" d])

lemma run_create:
  "repo_create tbl upd clash mk s =
     (let r = mk (new_uuid (seed s)) (now s); s' = s\<lparr>seed := Suc (seed s)\<rparr> in
      if list_ex (clash r) (tbl (work s)) then (Inl integrity_error, s')
      else (Inr r, s'\<lparr>work := upd (\<lambda>rs. rs @ [r]) (work s)\<rparr>))"
  by (simp add: repo_create_def repo_create_as_def mbind_def Let_def)

lemma wp_create [wp_simps]:
  "wp (repo_create tbl upd clash mk) P E s =
     (let r = mk (new_uuid (seed s)) (now s); s' = s\<lparr>seed := Suc (seed s)\<rparr> in
      if list_ex (clash r) (tbl (work s)) then E integrity_error s'
      else P r (s'\<lparr>work := upd (\<lambda>rs. rs @ [r]) (work s)\<rparr>))"
  by (simp add: wp_def run_create Let_def)

lemma wp_valid_request [wp_simps]: "wp (valid_request b f) P E s = (if b then P () s else E (request_error f) s)"
  by (simp add: valid_request_def wp_simps)

lemma wp_foreign_keys [wp_simps]:
  "wp (foreign_keys ok) P E s = (if ok (work s) then P () s else E foreign_key_error s)"
  by (simp add: foreign_keys_def wp_simps)

lemma wp_conflict [wp_simps]: "wp (conflict m) P E s = E (mk_error ConflictError m) s"
  by (simp add: conflict_def wp_simps)

lemma wp_soft_delete [wp_simps]:
  "wp (repo_soft_delete upd r) P E s =
     P (r\<lparr>deleted_at := Some (now s)\<rparr>) (s\<lparr>work := upd (put_row (r\<lparr>deleted_at := Some (now s)\<rparr>)) (work s)\<rparr>)"
  by (simp add: repo_soft_delete_def wp_def run_save)

lemma get_or_404_row: "repo_get_or_404 cls i rows = Inr r \<Longrightarrow> r \<in> set rows \<and> row_id r = i"
  by (auto simp: repo_get_or_404_def dest: repo_get_member split: sum.splits option.splits)

lemma valid_code_not_Nil: "valid_code c \<Longrightarrow> c \<noteq> []"
  by (simp add: valid_code_def)


subsection \<open>Every endpoint serves\<close>

named_theorems serves_intros "endpoints that keep the catalogue in order"

lemma new_rows_sel [simp]:
  "row_id (new_os a i t) = i" "code (new_os a i t) = oscr_code a"
  "row_id (new_team b i t) = i" "code (new_team b i t) = tmcr_code b" "tm_agent_os_id (new_team b i t) = tmcr_agent_os_id b"
  "row_id (new_agent c i t) = i" "code (new_agent c i t) = agcr_code c" "ag_team_id (new_agent c i t) = agcr_team_id c"
  "row_id (new_skill k i t) = i" "code (new_skill k i t) = skcr_code k"
  by (simp_all add: new_os_def new_team_def new_agent_def new_skill_def)

lemma repo_get_has_row: "repo_get i rows = Inr (Some r) \<Longrightarrow> has_row i rows"
  by (auto simp: has_row_iff dest: repo_get_member)

lemma serves_creates [serves_intros]:
  "serves (create_agent_os p)" "serves (create_team q)" "serves (create_agent a)"
  by (auto simp: serves_def create_agent_os_def create_team_def create_agent_def wp_simps Let_def valid_code_not_Nil
      intro!: catalogue_add_os catalogue_add_team catalogue_add_agent dest: repo_get_has_row split: sum.splits)

text \<open>What \<open>set_if\<close> does not set stays.\<close>

lemma set_if_sel: "(\<And>v y. f (h v y) = f y) \<Longrightarrow> f (set_if x h y) = f y"
  by (cases x) simp_all

lemma merge_skill_sel [simp]: "row_id (merge_skill p k) = row_id k" "code (merge_skill p k) = code k" "deleted_at (merge_skill p k) = deleted_at k" "sk_type (merge_skill p k) = sk_type k"
  by (simp_all add: merge_skill_def set_if_sel)

lemma serves_updates [serves_intros]:
  "serves (update_agent_os i p)" "serves (update_team j q)" "serves (update_agent k a)"
  by (auto simp: serves_def update_agent_os_def update_team_def update_agent_def get_agent_os_def get_team_def get_agent_def
      wp_simps set_if_sel dest!: get_or_404_row
      intro: catalogue_put_os catalogue_put_team catalogue_put_agent split: sum.splits)

lemma serves_deletes [serves_intros]:
  "serves (delete_agent_os i)" "serves (delete_team i)" "serves (delete_agent i)" "serves (delete_skill i)"
  by (auto simp: serves_def delete_agent_os_def delete_team_def delete_agent_def delete_skill_def
      get_agent_os_def get_team_def get_agent_def get_skill_def wp_simps dest!: get_or_404_row
      intro: catalogue_put_os catalogue_put_team catalogue_put_agent catalogue_put_skill split: sum.splits)

lemma serves_bind:
  fixes m :: "('r sess, 'a) prog" and k :: "'a \<Rightarrow> ('r sess, 'b) prog"
  assumes "serves m" "\<And>x. serves (k x)"
  shows "serves (mbind m k)"
  unfolding serves_def wp_bind
proof (intro allI impI)
  fix s :: "'r sess"
  assume s: "catalogue_ok (seed s) (work s)"
  show "wp m (\<lambda>x. wp (k x)
      (\<lambda>_ s'. catalogue_ok (seed s') (work s') \<and> durable s' = durable s \<and> seed s \<le> seed s')
      (\<lambda>_ s'. durable s' = durable s \<and> seed s \<le> seed s'))
    (\<lambda>_ s'. durable s' = durable s \<and> seed s \<le> seed s') s"
  proof (rule wp_mono [OF assms(1) [unfolded serves_def, rule_format, OF s]])
    fix x and s' :: "'r sess"
    assume *: "catalogue_ok (seed s') (work s') \<and> durable s' = durable s \<and> seed s \<le> seed s'"
    then have "wp (k x) (\<lambda>_ s''. catalogue_ok (seed s'') (work s'') \<and> durable s'' = durable s' \<and> seed s' \<le> seed s'')
      (\<lambda>_ s''. durable s'' = durable s' \<and> seed s' \<le> seed s'') s'"
      by (intro assms(2) [unfolded serves_def, rule_format]) blast
    then show "wp (k x) (\<lambda>_ s''. catalogue_ok (seed s'') (work s'') \<and> durable s'' = durable s \<and> seed s \<le> seed s'')
      (\<lambda>_ s''. durable s'' = durable s \<and> seed s \<le> seed s'') s'"
      by (rule wp_mono) (use * in auto)
  qed
qed

lemma serves_if: "serves a \<Longrightarrow> serves b \<Longrightarrow> serves (if c then a else b)"
  by simp

lemma serves_ret: "serves (mret x)" "serves (mraise e)" "serves (mget f)" "serves (mlift g)" "serves (valid_request b m)" "serves (foreign_keys ok)"
  by (auto simp: serves_def wp_simps split: sum.splits)

lemma serves_replace:
  assumes "\<And>f n d. catalogue_ok n (upd f d) = catalogue_ok n d"
  shows "serves (replace_codes tbl upd owner mk o' cs)"
proof -
  have "serves (mbind (repo_create tbl upd no_clash (mk o' c)) (\<lambda>_. mret ()))" for c
    by (auto simp: serves_def wp_simps Let_def assms no_clash_def list_ex_iff intro: catalogue_mono)
  then have "serves (mfor xs (\<lambda>c. mbind (repo_create tbl upd no_clash (mk o' c)) (\<lambda>_. mret ())))" for xs
    by (induction xs) (auto intro: serves_bind serves_ret)
  moreover have "serves (modify_work (upd f))" for f
    by (simp add: serves_def wp_simps assms)
  ultimately show ?thesis
    unfolding replace_codes_def by (blast intro: serves_bind)
qed

lemma serves_set_codes [serves_intros]:
  "serves (set_capability_codes i cs)" "serves (set_level_codes l j ds)"
  by (cases l; simp add: set_capability_codes_def set_agent_os_capabilities_def set_team_capabilities_def
      set_agent_capabilities_def serves_replace)+

lemma serves_create_skill [serves_intros]: "serves (create_skill pd p)"
proof -
  have "serves (repo_create t_skills t_skills_update same_code (new_skill p))"
    by (auto simp: serves_def wp_simps Let_def intro!: catalogue_add_skill)
  then show ?thesis
    unfolding create_skill_def conflict_def
    by (intro serves_bind serves_if serves_ret serves_set_codes)
qed

lemma serves_update_skill [serves_intros]: "serves (update_skill i p)"
proof -
  have put: "serves (mbind (mlift (\<lambda>s. get_skill i (work s))) (\<lambda>k. repo_save t_skills_update (merge_skill p k)))"
    by (auto simp: serves_def get_skill_def wp_simps dest!: get_or_404_row intro: catalogue_put_skill split: sum.splits)
  have "serves (case skup_capability_codes p of None \<Rightarrow> mret () | Some cs \<Rightarrow> set_capability_codes j cs)" for j
    by (cases "skup_capability_codes p") (simp_all add: serves_ret serves_set_codes)
  then have "serves (mbind (mbind (mlift (\<lambda>s. get_skill i (work s))) (\<lambda>k. repo_save t_skills_update (merge_skill p k)))
      (\<lambda>k. mbind (case skup_capability_codes p of None \<Rightarrow> mret () | Some cs \<Rightarrow> set_capability_codes (row_id k) cs) (\<lambda>_.
        mget (\<lambda>s. skill_to_read_model k (work s)))))"
    by (intro serves_bind put serves_ret)
  then show ?thesis by (simp add: update_skill_def mbind_assoc)
qed

lemma serves_links [serves_intros]:
  "serves (assign_skill_to_agent a k)" "serves (unassign_skill_from_agent a k)" "serves (set_assignment l i cs)"
proof -
  show "serves (assign_skill_to_agent a k)"
    by (auto simp: serves_def assign_skill_to_agent_def assign_to_agent_def get_skill_def wp_simps Let_def has_row_iff list_ex_iff
        dest!: get_or_404_row intro!: catalogue_add_link intro: catalogue_mono split: sum.splits)
  show "serves (unassign_skill_from_agent a k)"
    by (auto simp: serves_def unassign_skill_from_agent_def unassign_from_agent_def wp_simps intro: catalogue_drop_links)
  show "serves (set_assignment l i cs)"
    unfolding set_assignment_def by (intro serves_bind serves_ret serves_set_codes)
qed

lemma serves_admin: "serves (serve_admin pd q)"
  by (cases q) (simp_all add: serves_discard serves_intros)

lemma served_transaction:
  assumes "catalogue_ok (seed s) (durable s)" "work s = durable s" "serves m" "get_db m s = (r, s')"
  shows "catalogue_ok (seed s') (durable s') \<and> work s' = durable s'"
proof -
  obtain x s1 where run: "m s = (x, s1)" by force
  with assms(3) [unfolded serves_def, rule_format, of s] assms(1,2) assms(4) show ?thesis
    by (cases x) (auto simp: wp_def get_db_Inr get_db_Inl intro: catalogue_mono)
qed

lemma serve_all_ok:
  "catalogue_ok (seed s) (durable s) \<Longrightarrow> work s = durable s \<Longrightarrow>
     catalogue_ok (seed (serve_all pd qs s)) (durable (serve_all pd qs s)) \<and>
     work (serve_all pd qs s) = durable (serve_all pd qs s)"
proof (induction qs arbitrary: s)
  case (Cons q qs)
  obtain r s' where "get_db (serve_admin pd q) s = (r, s')" by force
  with Cons served_transaction [OF Cons.prems serves_admin this] show ?case by simp
qed simp

text \<open>C11. Whatever administration requests are served, in whatever order and whether they succeed or not, the stored
  catalogue stays consistent: codes are unique per AgentOS, per team of an AgentOS and per agent of a team, soft-deleted
  rows included; every team hangs under an AgentOS and every agent under a team; and so every look-up by code that
  dispatch makes finds at most one row - it never raises \<open>MultipleResultsFound\<close>.\<close>

theorem catalogue_stays_consistent:
  assumes "catalogue_ok (seed s) (durable s)" "work s = durable s"
  shows "let d = durable (serve_all pd qs s) in catalogue_ok (seed (serve_all pd qs s)) d \<and>
    (\<forall>c. \<exists>r. agent_os_by_code c (t_agent_os d) = Inr r) \<and> (\<forall>os c. \<exists>r. team_by_code os c (t_teams d) = Inr r) \<and>
    (\<forall>tm c. \<exists>r. agent_by_code tm c (t_agents d) = Inr r) \<and> (\<forall>c. \<exists>r. skill_by_code c (t_skills d) = Inr r)"
proof -
  let ?d = "durable (serve_all pd qs s)" and ?n = "seed (serve_all pd qs s)"
  have ok: "catalogue_ok ?n ?d" using serve_all_ok [OF assms] by blast
  then have t: "os_slots.tidy ?n ?d" "team_slots.tidy ?n ?d" "agent_slots.tidy ?n ?d" "skill_slots.tidy ?n ?d"
    by (simp_all add: catalogue_ok_def)
  have "\<exists>r. agent_os_by_code c (t_agent_os ?d) = Inr r" for c
    unfolding agent_os_by_code_def by (rule os_slots.slot_unambiguous [OF t(1), where k = c]) simp
  moreover have "\<exists>r. team_by_code os c (t_teams ?d) = Inr r" for os c
    unfolding team_by_code_def by (rule team_slots.slot_unambiguous [OF t(2), where k = "(os, c)"]) simp
  moreover have "\<exists>r. agent_by_code tm c (t_agents ?d) = Inr r" for tm c
    unfolding agent_by_code_def by (rule agent_slots.slot_unambiguous [OF t(3), where k = "(tm, c)"]) simp
  moreover have "\<exists>r. skill_by_code c (t_skills ?d) = Inr r" for c
    unfolding skill_by_code_def by (rule skill_slots.slot_unambiguous [OF t(4), where k = c]) simp
  ultimately show ?thesis using ok by (simp add: Let_def)
qed

text \<open>A code is used up for good. Deleting an AgentOS takes it out of every look-up, but its row still holds the code: the
  check for an existing one passes, the insert then violates the unique constraint, and the caller gets an unhandled
  database error in place of a conflict. Nothing is stored.\<close>

theorem deleted_code_not_reusable:
  assumes "catalogue_ok (seed s) (work s)" "r \<in> set (t_agent_os (work s))" "\<not> live r"
    and "oscr_code p = code r" "valid_code (code r)"
  shows "\<exists>e s'. get_db (create_agent_os p) s = (Inl e, s') \<and> durable s' = durable s \<and>
    agent_os_by_code (code r) (t_agent_os (work s)) = Inr None \<and> agno_runtime_error_handler e c = None"
proof -
  have slots: "distinct (map code (t_agent_os (work s)))"
    using assms(1) by (simp add: catalogue_ok_def os_slots.tidy_def)
  have "x = r" if "x \<in> set (t_agent_os (work s))" "code x = code r" for x
    using slots assms(2) that by (auto simp: distinct_map inj_on_def)
  then have none: "agent_os_by_code (code r) (t_agent_os (work s)) = Inr None"
    using assms(3) unfolding agent_os_by_code_def by (auto simp: scalar_one_or_none_None filter_empty_conv)
  have clash: "list_ex (same_code (new_os p i t)) (t_agent_os (work s))" for i t
    using assms(2,4) by (auto simp: list_ex_iff same_code_def)
  have "\<exists>e s'. create_agent_os p s = (Inl e, s') \<and> durable s' = durable s \<and> \<not> is_domain_error e"
    using none assms(4,5) clash
    by (auto simp: create_agent_os_def valid_request_def foreign_keys_def foreign_key_error_def integrity_error_def mk_error_def
        repo_create_def repo_create_as_def mbind_def Let_def)
  then show ?thesis using none by (auto simp: get_db_Inl agno_runtime_error_handler_def)
qed

text \<open>The endpoints never store an empty code, so whatever has been administered, an execution plan that names no team - the
  empty plan, documented as the normal dispatch, or a plan with an agent step - always fails: its step is resolved with the
  empty team code. Nothing of it is stored.\<close>

theorem plans_without_teams_always_fail:
  assumes "catalogue_ok (seed s) (durable s)" "work s = durable s"
    and "pr_steps rq = [] \<or> (\<exists>raw \<in> set (pr_steps rq). \<not> truthy_str (pq_team_code raw))"
  shows "\<exists>e s'. get_db (run_execution_plan feature_planning feature_execution envs rq) (serve_all pd qs s) = (Inl e, s') \<and>
    durable s' = durable (serve_all pd qs s)"
proof (rule teamless_plans_fail)
  show "\<forall>t \<in> set (t_teams (work (serve_all pd qs s))). code t \<noteq> []"
    using serve_all_ok [OF assms(1,2), of pd qs] by (simp add: catalogue_defs)
qed (rule assms(3))

lemma get_row_by_id:
  "distinct (map row_id rows) \<Longrightarrow> r \<in> set rows \<Longrightarrow> live r \<Longrightarrow> repo_get_or_404 cls (row_id r) rows = Inr r"
proof -
  have "filter (\<lambda>x. row_id x = row_id r \<and> live x) rows = [r]"
    if "distinct (map row_id rows)" "r \<in> set rows" "live r" for rows
    using that
  proof (induction rows)
    case (Cons a rows)
    show ?case
    proof (cases "a = r")
      case True
      then have "filter (\<lambda>x. row_id x = row_id r \<and> live x) rows = []" using Cons.prems(1) by (auto simp: filter_empty_conv image_iff)
      with True Cons.prems show ?thesis by simp
    next
      case False
      with Cons show ?thesis by auto
    qed
  qed simp
  then show "distinct (map row_id rows) \<Longrightarrow> r \<in> set rows \<Longrightarrow> live r \<Longrightarrow> repo_get_or_404 cls (row_id r) rows = Inr r"
    by (simp add: repo_get_or_404_def repo_get_def)
qed

lemma set_codes_keep_skills: "keeps (set_capability_codes i cs) (\<lambda>s. t_skills (work s) = rows)"
proof -
  have "keeps (modify_work (t_skill_caps_update f)) (\<lambda>s. t_skills (work s) = rows)" for f
    by (simp add: keeps_def wp_simps)
  moreover have "keeps (repo_create t_skill_caps t_skill_caps_update no_clash mk) (\<lambda>s. t_skills (work s) = rows)" for mk
    by (simp add: keeps_def wp_simps Let_def no_clash_def)
  ultimately show ?thesis
    unfolding set_capability_codes_def replace_codes_def by (intro keeps_bind keeps_for keeps_ret)
qed

text \<open>A skill is read back as it was created: the fields of the request, and its capability codes without repetitions. Other
  skills keep their codes, and what was not valid or already taken is not created at all.\<close>

theorem created_skill_read_back:
  assumes "catalogue_ok (seed s) (work s)" "create_skill pd p s = (Inr (k, cs), s')"
  shows "read_skill (row_id k) (work s') = Inr (k, cs) \<and> cs = remdups (skcr_capability_codes p) \<and>
    k = new_skill p (row_id k) (now s) \<and> (\<forall>x \<in> set (t_skills (work s)). code x \<noteq> code k) \<and>
    (\<forall>i. i \<noteq> row_id k \<longrightarrow> skill_capability_codes i (work s') = skill_capability_codes i (work s)) \<and>
    (sk_type k = SkKnowledge \<longrightarrow> cs = [] \<and> (\<exists>j c. sk_config k = Some j \<and> validate_knowledge_config pd j = Inr c))"
proof -
  let ?k = "new_skill p (new_uuid (seed s)) (now s)"
  let ?s1 = "s\<lparr>seed := Suc (seed s), work := t_skills_update (\<lambda>rs. rs @ [?k]) (work s)\<rparr>"
  have valid: "validate_skill_create pd p = Inr ()" and free: "\<not> list_ex (same_code ?k) (t_skills (work s))"
    and set: "mbind (set_capability_codes (row_id ?k) (skcr_capability_codes p)) (\<lambda>_. mget (\<lambda>s. skill_to_read_model ?k (work s))) ?s1 = (Inr (k, cs), s')"
    using assms(2)
    by (auto simp: create_skill_def conflict_def run_create mbind_def [of "repo_create a b c d" for a b c d] Let_def split: sum.splits if_splits)
  obtain s2 where s2: "set_capability_codes (row_id ?k) (skcr_capability_codes p) ?s1 = (Inr (), s2)"
    "skill_caps.codes (row_id ?k) (work s2) = remdups (skcr_capability_codes p)"
    "\<forall>i. i \<noteq> row_id ?k \<longrightarrow> skill_caps.codes i (work s2) = skill_caps.codes i (work ?s1)"
    using skill_caps.replace_codes_spec [of "row_id ?k" "skcr_capability_codes p" ?s1] by (auto simp: set_capability_codes_def)
  have codes: "skill_capability_codes i d = skill_caps.codes i d" for i d
    by (simp add: skill_capability_codes_def skill_caps.codes_def)
  from set s2 have k: "k = ?k" "cs = remdups (skcr_capability_codes p)" "s' = s2"
    by (auto simp: mbind_def skill_to_read_model_def codes)
  from keepsD [OF set_codes_keep_skills s2(1)] have rows: "t_skills (work s2) = t_skills (work s) @ [?k]" by simp
  have "skill_slots.tidy (Suc (seed s)) (work ?s1)"
    using skill_slots.tidy_create [of "seed s" "work s" ?k] assms(1) free by (simp add: catalogue_ok_def)
  then have "distinct (map row_id (t_skills (work s2)))" by (simp add: skill_slots.tidy_def rows)
  then have "get_skill (row_id ?k) (work s2) = Inr ?k"
    unfolding get_skill_def by (rule get_row_by_id) (simp_all add: rows live_def new_skill_def)
  then have "read_skill (row_id k) (work s') = Inr (k, cs)"
    using s2(2) by (simp add: read_skill_def k skill_to_read_model_def codes)
  moreover have "\<forall>i. i \<noteq> row_id k \<longrightarrow> skill_capability_codes i (work s') = skill_capability_codes i (work s)"
    using s2(3) by (simp add: k codes) (simp add: skill_caps.codes_def)
  moreover have "\<forall>x \<in> set (t_skills (work s)). code x \<noteq> code k"
    using free by (auto simp: list_ex_iff same_code_def k)
  moreover have "sk_type k = SkKnowledge \<longrightarrow> cs = [] \<and> (\<exists>j c. sk_config k = Some j \<and> validate_knowledge_config pd j = Inr c)"
    using valid by (auto simp: validate_skill_create_def k new_skill_def split: if_splits option.splits sum.splits)
  ultimately show ?thesis using k by simp
qed


text \<open>Assigning a skill makes it show up on both sides, in the agent's skills and among the skill's agents; the agent's
  capabilities gain exactly the skill's codes. Doing it again fails without an effect, and unassigning takes it back.\<close>

theorem assigned_skill_listed_both_ways:
  assumes ok: "catalogue_ok (seed s) (work s)" and run: "assign_skill_to_agent a k s = (Inr (), s')"
  shows "(\<exists>x \<in> set (list_skills_for_agent a (work s')). row_id x = k) \<and>
    (\<forall>x. get_agent a (work s) = Inr x \<longrightarrow> x \<in> set (fst (list_agents_for_skill k 0 (snd (list_agents_for_skill k 0 0 (work s'))) (work s')))) \<and>
    set (capability_codes_for_agent a (work s')) = set (capability_codes_for_agent a (work s)) \<union> set (skill_capability_codes k (work s)) \<and>
    (\<exists>e. get_db (assign_skill_to_agent a k) (s'\<lparr>durable := work s'\<rparr>) = (Inl e, s'\<lparr>durable := work s', seed := Suc (seed s')\<rparr>)) \<and>
    (\<exists>s''. unassign_skill_from_agent a k s' = (Inr (), s'') \<and> t_agent_skills (work s'') = t_agent_skills (work s))"
proof -
  let ?l = "\<lparr>row_id = new_uuid (seed s), created_at = now s, as_agent_id = a, as_skill_id = k\<rparr>"
  obtain sk where sk: "get_skill k (work s) = Inr sk" and ag: "has_row a (t_agents (work s))"
    and free: "\<forall>x \<in> set (t_agent_skills (work s)). \<not> (as_agent_id x = a \<and> as_skill_id x = k)"
    and s': "s' = s\<lparr>seed := Suc (seed s), work := t_agent_skills_update (\<lambda>ls. ls @ [?l]) (work s)\<rparr>"
    using run by (auto simp: assign_skill_to_agent_def foreign_keys_def assign_to_agent_def run_create Let_def list_ex_iff
        mbind_def [of "repo_create x b c d" for x b c d] split: sum.splits if_splits)
  have sk_row: "sk \<in> set (t_skills (work s))" "row_id sk = k" "live sk"
    using sk by (auto simp: get_skill_def repo_get_or_404_def dest: repo_get_member split: sum.splits option.splits)
  have listed: "sk \<in> set (list_skills_for_agent a (work s'))"
    using sk_row by (auto simp: list_skills_for_agent_def s')
  have agents: "x \<in> set (fst (list_agents_for_skill k 0 (snd (list_agents_for_skill k 0 0 (work s'))) (work s')))"
    if "get_agent a (work s) = Inr x" for x
  proof -
    have "x \<in> set (t_agents (work s))" "row_id x = a" "live x"
      using that by (auto simp: get_agent_def repo_get_or_404_def dest: repo_get_member split: sum.splits option.splits)
    then show ?thesis by (auto simp: list_agents_for_skill_def Let_def page_def s')
  qed
  have codes: "set (capability_codes_for_agent a (work s')) = set (capability_codes_for_agent a (work s)) \<union> set (skill_capability_codes k (work s))"
    by (auto simp: capability_codes_for_agent_def skill_capability_codes_def s')
  have again: "\<exists>e. get_db (assign_skill_to_agent a k) (s'\<lparr>durable := work s'\<rparr>) = (Inl e, s'\<lparr>durable := work s', seed := Suc (seed s')\<rparr>)"
  proof -
    have "repo_create t_agent_skills t_agent_skills_update (\<lambda>r x. as_agent_id x = as_agent_id r \<and> as_skill_id x = as_skill_id r)
        (\<lambda>i t. \<lparr>row_id = i, created_at = t, as_agent_id = a, as_skill_id = k\<rparr>) (s'\<lparr>durable := work s'\<rparr>)
        = (Inl integrity_error, s'\<lparr>durable := work s', seed := Suc (seed s')\<rparr>)"
      by (simp add: run_create s' Let_def)
    then have "assign_skill_to_agent a k (s'\<lparr>durable := work s'\<rparr>) = (Inl integrity_error, s'\<lparr>durable := work s', seed := Suc (seed s')\<rparr>)"
      using sk ag by (simp add: assign_skill_to_agent_def foreign_keys_def assign_to_agent_def get_skill_def
          mbind_def [of "repo_create x b c d" for x b c d] s')
    from get_db_Inl [where m = "assign_skill_to_agent a k", OF this] show ?thesis by simp
  qed
  have undo: "\<exists>s''. unassign_skill_from_agent a k s' = (Inr (), s'') \<and> t_agent_skills (work s'') = t_agent_skills (work s)"
    using free by (auto simp: unassign_skill_from_agent_def unassign_from_agent_def s' filter_id_conv)
  from listed sk_row(2) agents codes again undo show ?thesis by blast
qed


subsection \<open>Witnesses\<close>

lemma returnedE: "\<not> isl (fst (m s)) \<Longrightarrow> (\<And>x s'. m s = (Inr x, s') \<Longrightarrow> P) \<Longrightarrow> P"
  by (cases "fst (m s)") (auto simp: prod_eq_iff)

text \<open>The small platform, its AgentOS live or deleted.\<close>

definition demo_catalogue :: "time option \<Rightarrow> unit sess" where
  "demo_catalogue gone =
     (let d = empty_db\<lparr>t_agent_os := [demo_os\<lparr>deleted_at := gone\<rparr>], t_teams := [demo_team], t_agents := [demo_agent], t_skills := [demo_skill]\<rparr>
      in \<lparr>work = d, durable = d, now = 9, seed = 0, redis = ()\<rparr>)"

lemma demo_ids: "''os1'' \<noteq> new_uuid n" "''t1'' \<noteq> new_uuid n" "''a1'' \<noteq> new_uuid n" "''k1'' \<noteq> new_uuid n"
  by (simp_all add: new_uuid_def)

lemma demo_catalogue_ok: "catalogue_ok (seed (demo_catalogue g)) (work (demo_catalogue g))"
  by (simp add: catalogue_defs os_slots.tidy_def team_slots.tidy_def agent_slots.tidy_def skill_slots.tidy_def
      demo_catalogue_def ids_below_def demo_rows demo_ids empty_db_def has_row_def Let_def)

lemma demo_catalogue_sel [simp]: "work (demo_catalogue g) = durable (demo_catalogue g)"
  by (simp add: demo_catalogue_def Let_def)

definition demo_os_request :: os_create where
  "demo_os_request = \<lparr>oscr_code = ''acme'', oscr_name = ''Acme again'', oscr_description = None, oscr_default_model_id = None,
     oscr_shared_prompt_id = None, oscr_enabled = True\<rparr>"

definition demo_admin_requests :: "admin_request list" where
  "demo_admin_requests = [DeleteTeam ''t1'', CreateOs demo_os_request, AssignSkill ''a1'' ''k1'', DeleteOs ''os1'']"

theorem catalogue_stays_consistent_witness:
  "\<exists>r. agent_os_by_code ''acme'' (t_agent_os (durable (serve_all demo_pydantic demo_admin_requests (demo_catalogue None)))) = Inr r"
  using catalogue_stays_consistent [of "demo_catalogue None" demo_pydantic demo_admin_requests] demo_catalogue_ok [of None]
  by (simp add: Let_def)

theorem deleted_code_not_reusable_witness:
  "\<exists>e s'. get_db (create_agent_os demo_os_request) (demo_catalogue (Some 5)) = (Inl e, s') \<and> agno_runtime_error_handler e None = None"
proof -
  have "demo_os\<lparr>deleted_at := Some 5\<rparr> \<in> set (t_agent_os (work (demo_catalogue (Some 5))))" by (simp add: demo_catalogue_def Let_def)
  moreover have "\<not> live (demo_os\<lparr>deleted_at := Some 5\<rparr>)" "valid_code (code (demo_os\<lparr>deleted_at := Some 5\<rparr>))"
    by (simp_all add: live_def demo_os_def valid_code_def code_char_def)
  moreover have "oscr_code demo_os_request = code (demo_os\<lparr>deleted_at := Some 5\<rparr>)" by (simp add: demo_os_request_def demo_os_def)
  ultimately show ?thesis
    using deleted_code_not_reusable [OF demo_catalogue_ok, of "demo_os\<lparr>deleted_at := Some 5\<rparr>" "Some 5" demo_os_request None] by blast
qed

theorem plans_without_teams_always_fail_witness:
  "\<exists>e s'. get_db (run_execution_plan True True demo_plan_envs demo_plan_request)
     (serve_all demo_pydantic demo_admin_requests (demo_catalogue None)) = (Inl e, s')"
  using plans_without_teams_always_fail [of "demo_catalogue None" demo_plan_request True True demo_plan_envs demo_pydantic demo_admin_requests]
    demo_catalogue_ok [of None]
  by (auto simp: demo_plan_request_def)

definition demo_skill_request :: skill_create where
  "demo_skill_request = \<lparr>skcr_code = ''orders'', skcr_name = ''Orders'', skcr_description = None, skcr_instructions = None,
     skcr_type = SkMcp, skcr_config = None, skcr_capability_codes = [''order.read'', ''order.read'']\<rparr>"

lemma demo_skill_created: "\<not> isl (fst (create_skill demo_pydantic demo_skill_request (demo_catalogue None)))"
  by code_simp

theorem created_skill_read_back_witness:
  "\<exists>k s'. create_skill demo_pydantic demo_skill_request (demo_catalogue None) = (Inr (k, [''order.read'']), s') \<and>
     read_skill (row_id k) (work s') = Inr (k, [''order.read''])"
proof -
  obtain k cs s' where r: "create_skill demo_pydantic demo_skill_request (demo_catalogue None) = (Inr (k, cs), s')"
    using demo_skill_created by (rule returnedE) (auto split: prod.splits)
  from created_skill_read_back [OF demo_catalogue_ok r] r show ?thesis by (auto simp: demo_skill_request_def)
qed

lemma demo_assigned: "\<not> isl (fst (assign_skill_to_agent ''a1'' ''k1'' (demo_catalogue None)))"
  by code_simp

theorem assigned_skill_listed_both_ways_witness:
  "\<exists>s'. assign_skill_to_agent ''a1'' ''k1'' (demo_catalogue None) = (Inr (), s') \<and>
     (\<exists>x \<in> set (list_skills_for_agent ''a1'' (work s')). row_id x = ''k1'')"
proof -
  obtain s' where r: "assign_skill_to_agent ''a1'' ''k1'' (demo_catalogue None) = (Inr (), s')"
    using demo_assigned by (rule returnedE) auto
  from assigned_skill_listed_both_ways [OF demo_catalogue_ok r] r show ?thesis by blast
qed

end
