(* ===== verification/QuotaAdmin.thy ===== *)
theory QuotaAdmin
  imports Admin
begin

text \<open>
  The quota management API (\<open>app/api/v1/quota.py\<close> with the request and response models of
  \<open>app/schemas/quota.py\<close>): policies are created, read, listed, changed and removed behind the flag
  \<open>FEATURE_QUOTA_MANAGEMENT\<close>, and the recorded usage of a user is reported. Each operation is the handler
  of one route, after pydantic has validated its parameters.
\<close>

subsection \<open>Request and response models\<close>

record policy_create =
  pcr_scope_type :: quota_scope_type
  pcr_scope_value :: string
  pcr_model_id :: "uuid option"
  pcr_metric :: quota_metric
  pcr_period :: quota_period
  pcr_window_seconds :: "int option"
  pcr_limit_value :: int
  pcr_priority :: int
  pcr_enabled :: bool

record policy_update =
  pup_limit_value :: "int option"
  pup_priority :: "int option"
  pup_enabled :: "bool option"
  pup_window_seconds :: "int option"

text \<open>\<open>Field(ge=10)\<close> and \<open>Field(ge=0)\<close> on optional integers.\<close>

definition at_least :: "int \<Rightarrow> int option \<Rightarrow> bool" where
  "at_least n v = (case v of None \<Rightarrow> True | Some i \<Rightarrow> n \<le> i)"

text \<open>\<open>QuotaPolicyBase\<close>: the constraints of its fields, then \<open>_validate_scope_value\<close>.\<close>

definition valid_policy :: "policy_create \<Rightarrow> bool" where
  "valid_policy p \<longleftrightarrow>
     at_least 10 (pcr_window_seconds p) \<and> 0 \<le> pcr_limit_value p \<and>
     \<not> (pcr_scope_type p \<in> {ScopeUser, ScopeGroup} \<and> pcr_scope_value p = []) \<and>
     \<not> (pcr_period p = FixedWindow \<and> (pcr_window_seconds p = None \<or> pcr_window_seconds p = Some 0))"

definition valid_policy_update :: "policy_update \<Rightarrow> bool" where
  "valid_policy_update p \<longleftrightarrow> at_least 0 (pup_limit_value p) \<and> at_least 10 (pup_window_seconds p)"

definition policy_fields :: "quota_policy \<Rightarrow> policy_create" where
  "policy_fields r =
     \<lparr>pcr_scope_type = qp_scope_type r, pcr_scope_value = qp_scope_value r, pcr_model_id = qp_model_id r,
      pcr_metric = qp_metric r, pcr_period = qp_period r, pcr_window_seconds = qp_window_seconds r,
      pcr_limit_value = qp_limit_value r, pcr_priority = qp_priority r, pcr_enabled = qp_enabled r\<rparr>"

text \<open>\<open>QuotaPolicyRead.model_validate\<close>: the read model inherits the constraints of the request model.\<close>

definition policy_read :: "quota_policy \<Rightarrow> app_error + quota_policy" where
  "policy_read r =
     (if valid_policy (policy_fields r) then Inr r
      else Inl (mk_error (PyException ''ValidationError'') ''validation error for QuotaPolicyRead''))"

subsection \<open>Columns\<close>

text \<open>The integer columns have 32 bits and \<open>scope_value\<close> has 255 characters; the database refuses anything
  wider, and a constraint of the request models says nothing about it.\<close>

definition fits_int32 :: "int \<Rightarrow> bool" where
  "fits_int32 i \<longleftrightarrow> - (2 ^ 31) \<le> i \<and> i < 2 ^ 31"

definition policy_fits :: "quota_policy \<Rightarrow> bool" where
  "policy_fits r \<longleftrightarrow>
     fits_int32 (qp_limit_value r) \<and> fits_int32 (qp_priority r) \<and>
     (case qp_window_seconds r of None \<Rightarrow> True | Some w \<Rightarrow> fits_int32 w) \<and> length (qp_scope_value r) \<le> 255"

definition data_error :: app_error where
  "data_error = mk_error (PyException ''DBAPIError'') ''invalid input for query argument''"

definition writable :: "quota_policy \<Rightarrow> ('r sess, unit) prog" where
  "writable r = (if policy_fits r then mret () else mraise data_error)"

subsection \<open>The routes\<close>

definition new_policy :: "policy_create \<Rightarrow> uuid \<Rightarrow> time \<Rightarrow> quota_policy" where
  "new_policy p i t =
     \<lparr>row_id = i, created_at = t, deleted_at = None, qp_scope_type = pcr_scope_type p,
      qp_scope_value = pcr_scope_value p, qp_model_id = pcr_model_id p, qp_metric = pcr_metric p,
      qp_period = pcr_period p, qp_window_seconds = pcr_window_seconds p,
      qp_limit_value = pcr_limit_value p, qp_priority = pcr_priority p, qp_enabled = pcr_enabled p\<rparr>"

text \<open>\<open>uq_quota_policy_scope\<close>. To the database two NULLs are different, so a constraint over a nullable
  column says nothing about rows that have no model.\<close>

definition same_policy_scope :: "quota_policy \<Rightarrow> quota_policy \<Rightarrow> bool" where
  "same_policy_scope r x \<longleftrightarrow>
     qp_scope_type r = qp_scope_type x \<and> qp_scope_value r = qp_scope_value x \<and>
     qp_model_id r \<noteq> None \<and> qp_model_id r = qp_model_id x \<and>
     qp_metric r = qp_metric x \<and> qp_period r = qp_period x"

definition create_quota_policy :: "bool \<Rightarrow> policy_create \<Rightarrow> ('r sess, quota_policy) prog" where
  "create_quota_policy feature p =
     mbind (valid_request (valid_policy p) ''body'') (\<lambda>_.
     mbind (require_feature feature ''Quota Management'') (\<lambda>_.
     mbind (writable (new_policy p [] 0)) (\<lambda>_.
     mbind (foreign_keys (\<lambda>d. has_row_opt (pcr_model_id p) (t_models d))) (\<lambda>_.
     mbind (repo_create t_policies t_policies_update same_policy_scope (new_policy p)) (\<lambda>r.
       mlift (\<lambda>_. policy_read r))))))"

definition get_quota_policy :: "bool \<Rightarrow> uuid \<Rightarrow> ('r sess, quota_policy) prog" where
  "get_quota_policy feature i =
     mbind (require_feature feature ''Quota Management'') (\<lambda>_.
     mbind (mlift (\<lambda>s. repo_get_or_404 ''QuotaPolicy'' i (t_policies (work s)))) (\<lambda>r.
       mlift (\<lambda>_. policy_read r)))"

text \<open>A filter that is the empty string is left out for the scope type but not for the scope value; a scope
  type that is none of the enumeration's labels is refused by the database.\<close>

definition scope_type_filter :: "string option \<Rightarrow> app_error + (quota_policy \<Rightarrow> bool) option" where
  "scope_type_filter v =
     (if \<not> truthy_str v then Inr None
      else if the v \<in> {''GLOBAL'', ''GROUP'', ''USER''}
      then Inr (Some (\<lambda>r. scope_value (qp_scope_type r) = the v))
      else Inl (mk_error (PyException ''DBAPIError'') ''invalid input value for enum quota_scope_type''))"

definition list_quota_policies ::
  "bool \<Rightarrow> string option \<Rightarrow> string option \<Rightarrow> nat \<Rightarrow> nat
     \<Rightarrow> ('r sess, (quota_policy list \<times> nat) \<times> bool) prog" where
  "list_quota_policies feature scope_type scope_val number per_page =
     mbind (valid_request (1 \<le> number) ''page'') (\<lambda>_.
     mbind (valid_request (1 \<le> per_page \<and> per_page \<le> 200) ''page_size'') (\<lambda>_.
     mbind (require_feature feature ''Quota Management'') (\<lambda>_.
     mbind (mlift (\<lambda>_. scope_type_filter scope_type)) (\<lambda>by_type.
     mbind (mget (\<lambda>s. repo_list (page_offset number per_page) per_page
                        [by_type, map_option (\<lambda>v r. qp_scope_value r = v) scope_val] (t_policies (work s)))) (\<lambda>r.
     mbind (mlift (\<lambda>_. rmap policy_read (fst r))) (\<lambda>items.
       mret ((items, snd r), has_next (page_offset number per_page) per_page (snd r))))))))"

definition changed_policy :: "policy_update \<Rightarrow> quota_policy \<Rightarrow> quota_policy" where
  "changed_policy p r =
     set_if (pup_limit_value p) (\<lambda>v. qp_limit_value_update (\<lambda>_. v))
     (set_if (pup_priority p) (\<lambda>v. qp_priority_update (\<lambda>_. v))
     (set_if (pup_enabled p) (\<lambda>v. qp_enabled_update (\<lambda>_. v))
     (set_if (pup_window_seconds p) (\<lambda>v. qp_window_seconds_update (\<lambda>_. Some v)) r)))"

definition update_quota_policy :: "bool \<Rightarrow> uuid \<Rightarrow> policy_update \<Rightarrow> ('r sess, quota_policy) prog" where
  "update_quota_policy feature i p =
     mbind (valid_request (valid_policy_update p) ''body'') (\<lambda>_.
     mbind (require_feature feature ''Quota Management'') (\<lambda>_.
     mbind (mlift (\<lambda>s. repo_get_or_404 ''QuotaPolicy'' i (t_policies (work s)))) (\<lambda>r.
     mbind (writable (changed_policy p r)) (\<lambda>_.
     mbind (repo_save t_policies_update (changed_policy p r)) (\<lambda>r.
       mlift (\<lambda>_. policy_read r))))))"

definition delete_quota_policy :: "bool \<Rightarrow> uuid \<Rightarrow> ('r sess, unit) prog" where
  "delete_quota_policy feature i =
     mbind (require_feature feature ''Quota Management'') (\<lambda>_.
     mbind (mlift (\<lambda>s. repo_get_or_404 ''QuotaPolicy'' i (t_policies (work s)))) (\<lambda>r.
     mbind (repo_soft_delete t_policies_update r) (\<lambda>_. mret ())))"

definition get_quota_usage :: "bool \<Rightarrow> string \<Rightarrow> int \<Rightarrow> ('r sess, usage_totals) prog" where
  "get_quota_usage feature user_id since_days =
     mbind (valid_request (1 \<le> since_days \<and> since_days \<le> 365) ''since_days'') (\<lambda>_.
     mbind (require_feature feature ''Quota Management'') (\<lambda>_.
       get_usage_snapshot user_id since_days))"

subsection \<open>What the API guarantees to the enforcement\<close>

text \<open>The calls a client can make, each a request with a transaction of its own at a moment of its own.\<close>

datatype quota_call =
    CreatePolicy policy_create
  | UpdatePolicy uuid policy_update
  | DeletePolicy uuid
  | ReadPolicy uuid
  | ListPolicies "string option" "string option" nat nat
  | ReadUsage string int

fun run_quota_call :: "bool \<Rightarrow> quota_call \<Rightarrow> ('r sess, unit) prog" where
  "run_quota_call feature (CreatePolicy p) = mbind (create_quota_policy feature p) (\<lambda>_. mret ())"
| "run_quota_call feature (UpdatePolicy i p) = mbind (update_quota_policy feature i p) (\<lambda>_. mret ())"
| "run_quota_call feature (DeletePolicy i) = delete_quota_policy feature i"
| "run_quota_call feature (ReadPolicy i) = mbind (get_quota_policy feature i) (\<lambda>_. mret ())"
| "run_quota_call feature (ListPolicies st sv n k) = mbind (list_quota_policies feature st sv n k) (\<lambda>_. mret ())"
| "run_quota_call feature (ReadUsage u d) = mbind (get_quota_usage feature u d) (\<lambda>_. mret ())"

definition serve_call :: "bool \<Rightarrow> time \<times> quota_call \<Rightarrow> 'r sess \<Rightarrow> 'r sess" where
  "serve_call feature c s = snd (get_db (run_quota_call feature (snd c)) (s\<lparr>now := fst c\<rparr>))"

definition serve_calls :: "bool \<Rightarrow> (time \<times> quota_call) list \<Rightarrow> 'r sess \<Rightarrow> 'r sess" where
  "serve_calls feature cs s = fold (serve_call feature) cs s"

definition policies_ok :: "db \<Rightarrow> bool" where
  "policies_ok d \<longleftrightarrow> (\<forall>p \<in> set (t_policies d). valid_policy (policy_fields p) \<and> policy_fits p)"

lemma policy_fields_new [simp]: "policy_fields (new_policy p i t) = p"
  by (simp add: policy_fields_def new_policy_def)

lemma policy_fields_deleted [simp]: "policy_fields (r\<lparr>deleted_at := d\<rparr>) = policy_fields r"
  by (simp add: policy_fields_def)

lemma policy_fits_deleted [simp]: "policy_fits (r\<lparr>deleted_at := d\<rparr>) = policy_fits r"
  by (simp add: policy_fits_def)

lemma policy_fits_new [simp]: "policy_fits (new_policy p i t) = policy_fits (new_policy p j u)"
  by (simp add: policy_fits_def new_policy_def)

lemma valid_policy_changed:
  "valid_policy_update p \<Longrightarrow> valid_policy (policy_fields r) \<Longrightarrow> valid_policy (policy_fields (changed_policy p r))"
  by (cases "pup_limit_value p"; cases "pup_priority p"; cases "pup_enabled p"; cases "pup_window_seconds p")
     (auto simp: valid_policy_def policy_fields_def changed_policy_def valid_policy_update_def at_least_def)

lemma policies_ok_put:
  "policies_ok d \<Longrightarrow> valid_policy (policy_fields r) \<Longrightarrow> policy_fits r \<Longrightarrow> policies_ok (t_policies_update (put_row r) d)"
  by (auto simp: policies_ok_def put_row_def)

lemma policies_ok_append:
  "policies_ok d \<Longrightarrow> valid_policy (policy_fields r) \<Longrightarrow> policy_fits r \<Longrightarrow> policies_ok (t_policies_update (\<lambda>rs. rs @ [r]) d)"
  by (auto simp: policies_ok_def)

lemma policy_found:
  assumes "repo_get_or_404 cls i (t_policies d) = Inr r" "policies_ok d"
  shows "valid_policy (policy_fields r) \<and> policy_fits r"
  using assms repo_get_member [of i "t_policies d"]
  by (auto simp: repo_get_or_404_def policies_ok_def split: sum.splits option.splits)

lemma keeps_lifted:
  "(\<And>s x. I s \<Longrightarrow> f s = Inr x \<Longrightarrow> wp (k x) (\<lambda>_. I) (\<lambda>_. I) s) \<Longrightarrow> keeps (mbind (mlift f) k) I"
  by (auto simp: keeps_def wp_simps split: sum.split)

definition policies_inv :: "'r sess \<Rightarrow> bool" where
  "policies_inv s \<longleftrightarrow> policies_ok (work s) \<and> policies_ok (durable s)"

lemma keeps_validated:
  "(b \<Longrightarrow> keeps m I) \<Longrightarrow> keeps (mbind (valid_request b field) (\<lambda>_. m)) I"
  by (cases b) (auto simp: valid_request_def intro: inv_intros)

lemma keeps_require_feature [inv_intros]: "keeps (require_feature f what) I"
  by (simp add: require_feature_def inv_intros)

lemma keeps_writable: "(policy_fits r \<Longrightarrow> keeps m I) \<Longrightarrow> keeps (mbind (writable r) (\<lambda>_. m)) I"
  by (cases "policy_fits r") (auto simp: writable_def intro: inv_intros)

lemma create_keeps_policies:
  "valid_policy p \<Longrightarrow> policy_fits (new_policy p [] 0) \<Longrightarrow>
     keeps (repo_create t_policies t_policies_update same_policy_scope (new_policy p)) policies_inv"
  using policy_fits_new [of p _ _ "[]" 0]
  by (auto simp: keeps_def wp_def repo_create_def repo_create_as_def mbind_def Let_def policies_inv_def
      intro!: policies_ok_append)

lemma quota_call_keeps: "keeps (run_quota_call feature c) policies_inv"
proof (cases c)
  case (CreatePolicy p)
  then show ?thesis
    by (auto simp: create_quota_policy_def foreign_keys_def
        intro!: inv_intros keeps_validated keeps_writable create_keeps_policies)
next
  case (UpdatePolicy i p)
  have "wp (mbind (writable (changed_policy p r)) (\<lambda>_.
           mbind (repo_save t_policies_update (changed_policy p r)) (\<lambda>r. mlift (\<lambda>_. policy_read r))))
          (\<lambda>_. policies_inv) (\<lambda>_. policies_inv) s"
    if "policies_inv s" "valid_policy_update p" "repo_get_or_404 ''QuotaPolicy'' i (t_policies (work s)) = Inr r" for r s
    using that policy_found [of _ i "work s" r]
    by (auto simp: policies_inv_def wp_simps writable_def valid_policy_changed intro!: policies_ok_put split: sum.split)
  then show ?thesis
    using UpdatePolicy
    by (auto simp: update_quota_policy_def intro!: inv_intros keeps_validated keeps_lifted)
next
  case (DeletePolicy i)
  have "wp (mbind (repo_soft_delete t_policies_update r) (\<lambda>_. mret ())) (\<lambda>_. policies_inv) (\<lambda>_. policies_inv) s"
    if "policies_inv s" "repo_get_or_404 ''QuotaPolicy'' i (t_policies (work s)) = Inr r" for r s
    using that policy_found [of _ i "work s" r]
    by (auto simp: policies_inv_def wp_def mbind_def repo_soft_delete_def run_save intro!: policies_ok_put)
  then show ?thesis
    using DeletePolicy by (auto simp: delete_quota_policy_def intro!: inv_intros keeps_lifted)
next
  case (ReadPolicy i)
  then show ?thesis by (auto simp: get_quota_policy_def intro!: inv_intros)
next
  case (ListPolicies st sv n k)
  then show ?thesis
    by (auto simp: list_quota_policies_def intro!: inv_intros keeps_validated)
next
  case (ReadUsage u d)
  then show ?thesis
    by (auto simp: get_quota_usage_def get_usage_snapshot_def intro!: inv_intros keeps_validated)
qed

lemma get_db_keeps_policies: "keeps m policies_inv \<Longrightarrow> keeps (get_db m) policies_inv"
  unfolding get_db_def by (auto intro!: inv_intros keeps_mod simp: commit_def rollback_def policies_inv_def)

lemma serve_calls_inv: "policies_inv s \<Longrightarrow> policies_inv (serve_calls feature cs s)"
proof (induction cs arbitrary: s)
  case (Cons c cs)
  have "policies_inv (s\<lparr>now := fst c\<rparr>)" using Cons.prems by (simp add: policies_inv_def)
  then have "policies_inv (serve_call feature c s)"
    using keepsD [OF get_db_keeps_policies [OF quota_call_keeps]] unfolding serve_call_def
    by (metis prod.collapse)
  with Cons.IH show ?case by (simp add: serve_calls_def)
qed (simp add: serve_calls_def)

lemma valid_policy_window: "valid_policy (policy_fields p) \<Longrightarrow> window_ok (qp_period p) (qp_window_seconds p)"
  by (auto simp: valid_policy_def policy_fields_def window_ok_def at_least_def split: option.splits)

lemma policies_ok_windows: "policies_ok d \<Longrightarrow> windows_ok (t_policies d)"
  by (simp add: policies_ok_def windows_ok_def valid_policy_window)

lemma policies_ok_read: "policies_ok d \<Longrightarrow> p \<in> set (t_policies d) \<Longrightarrow> policy_read p = Inr p"
  by (simp add: policies_ok_def policy_read_def)

lemma policies_ok_page: "policies_ok d \<Longrightarrow> set ps \<subseteq> set (t_policies d) \<Longrightarrow> rmap policy_read ps = Inr ps"
  by (induction ps) (auto simp: policies_ok_read)

lemma repo_list_subset: "set (fst (repo_list a b fs rows)) \<subseteq> set rows"
  by (auto simp: repo_list_def page_def Let_def dest!: in_set_takeD in_set_dropD)

text \<open>C24. Whatever clients ask of the quota API, and in whatever order, the stored policies stay inside what the
  enforcement counts on and what the API itself can show: no fixed window is negative, so no counter is given
  a life time that deletes it; every stored policy is returned as it is stored, and every page of an unfiltered
  listing is answered. A policy that the read model refuses would turn both into a server error.\<close>

theorem quota_api_keeps_policies:
  assumes "policies_inv s"
  shows "windows_ok (t_policies (work (serve_calls feature cs s))) \<and>
    windows_ok (t_policies (durable (serve_calls feature cs s))) \<and>
    (\<forall>i p. repo_get_or_404 ''QuotaPolicy'' i (t_policies (work (serve_calls feature cs s))) = Inr p \<longrightarrow>
       get_quota_policy True i (serve_calls feature cs s) = (Inr p, serve_calls feature cs s)) \<and>
    (\<forall>v n k. 1 \<le> n \<and> 1 \<le> k \<and> k \<le> 200 \<longrightarrow>
       (\<exists>r. list_quota_policies True None v n k (serve_calls feature cs s) = (Inr r, serve_calls feature cs s)))"
proof -
  let ?s = "serve_calls feature cs s"
  have inv: "policies_ok (work ?s)" "policies_ok (durable ?s)"
    using serve_calls_inv [OF assms] by (auto simp: policies_inv_def)
  have read: "policy_read p = Inr p"
    if "repo_get_or_404 ''QuotaPolicy'' i (t_policies (work ?s)) = Inr p" for i p
    using policy_found [OF that inv(1)] by (simp add: policy_read_def)
  show ?thesis
    using inv read policies_ok_page [OF inv(1) repo_list_subset]
    by (simp add: policies_ok_windows get_quota_policy_def list_quota_policies_def valid_request_def run_simps
        scope_type_filter_def)
qed

definition demo_new_policy :: policy_create where
  "demo_new_policy = \<lparr>pcr_scope_type = ScopeUser, pcr_scope_value = ''bob'', pcr_model_id = None, pcr_metric = MRequests,
     pcr_period = FixedWindow, pcr_window_seconds = Some 60, pcr_limit_value = 5, pcr_priority = 0, pcr_enabled = True\<rparr>"

definition demo_quota_sess :: "unit sess" where
  "demo_quota_sess = \<lparr>work = empty_db, durable = empty_db, now = 0, seed = 0, redis = ()\<rparr>"

definition demo_policy_change :: policy_update where
  "demo_policy_change = \<lparr>pup_limit_value = Some 7, pup_priority = None, pup_enabled = None, pup_window_seconds = None\<rparr>"

definition demo_served :: "unit sess" where
  "demo_served = serve_calls True [(1, CreatePolicy demo_new_policy), (2, UpdatePolicy (new_uuid 0) demo_policy_change)] demo_quota_sess"

lemma demo_served_policy:
  "repo_get_or_404 ''QuotaPolicy'' (new_uuid 0) (t_policies (work demo_served))
     = Inr (changed_policy demo_policy_change (new_policy demo_new_policy (new_uuid 0) 1))"
  by code_simp

theorem quota_api_keeps_policies_witness:
  "windows_ok (t_policies (durable demo_served)) \<and>
   get_quota_policy True (new_uuid 0) demo_served
     = (Inr (changed_policy demo_policy_change (new_policy demo_new_policy (new_uuid 0) 1)), demo_served)"
proof -
  have "policies_inv demo_quota_sess"
    by (simp add: policies_inv_def policies_ok_def demo_quota_sess_def empty_db_def)
  from quota_api_keeps_policies [OF this, of True
      "[(1, CreatePolicy demo_new_policy), (2, UpdatePolicy (new_uuid 0) demo_policy_change)]", folded demo_served_def]
  show ?thesis using demo_served_policy by blast
qed

subsection \<open>Two policies for one scope\<close>

lemma same_policy_scope_new: "same_policy_scope (new_policy p i t) r = same_policy_scope (new_policy p j u) r"
  by (simp add: same_policy_scope_def new_policy_def)

text \<open>The unique constraint counts removed policies and ignores policies without a model: the scope of a policy that
  was removed cannot be given a new one (the request ends in an error no handler maps), while any number of
  policies for one scope, metric and period over all models are accepted side by side.\<close>

theorem policy_uniqueness:
  assumes "valid_policy p" "policy_fits (new_policy p [] 0)" "has_row_opt (pcr_model_id p) (t_models (work s))"
  shows "(r \<in> set (t_policies (work s)) \<and> same_policy_scope (new_policy p [] 0) r \<longrightarrow>
            fst (create_quota_policy True p s) = Inl integrity_error) \<and>
    (pcr_model_id p = None \<longrightarrow> fst (create_quota_policy True p s) = Inr (new_policy p (new_uuid (seed s)) (now s)))"
proof -
  have "same_policy_scope (new_policy p (new_uuid (seed s)) (now s)) x = same_policy_scope (new_policy p [] 0) x" for x
    by (rule same_policy_scope_new)
  then have run: "fst (create_quota_policy True p s) =
      (if list_ex (same_policy_scope (new_policy p [] 0)) (t_policies (work s)) then Inl integrity_error
       else Inr (new_policy p (new_uuid (seed s)) (now s)))"
    using assms
    by (simp add: create_quota_policy_def valid_request_def run_simps writable_def foreign_keys_def policy_read_def
        repo_create_def repo_create_as_def Let_def list_ex_iff mbind_def)
  then show ?thesis
    by (auto simp: list_ex_iff same_policy_scope_def new_policy_def)
qed

theorem policy_uniqueness_witness:
  "fst (create_quota_policy True demo_new_policy demo_served) = Inr (new_policy demo_new_policy (new_uuid 1) 2)"
proof -
  have "seed demo_served = 1 \<and> now demo_served = 2 \<and> valid_policy demo_new_policy \<and> policy_fits (new_policy demo_new_policy [] 0)"
    by code_simp
  then show ?thesis
    using policy_uniqueness [of demo_new_policy demo_served] by (simp add: demo_new_policy_def has_row_opt_def)
qed

subsection \<open>The unit of a cost limit\<close>


definition demo_cost_policy :: quota_policy where
  "demo_cost_policy = demo_policy ''c1'' ScopeUser ''bob'' MCostUsd 500 0"

definition demo_cost_sess :: "mem_redis sess" where
  "demo_cost_sess = demo_sess\<lparr>work := empty_db\<lparr>t_policies := [demo_cost_policy]\<rparr>\<rparr>"


end
