(* ===== verification/Console.thy ===== *)
theory Console
  imports QuotaAdmin
begin

text \<open>
  The routes through which clients look at what the other components did and drive schedules and webhooks:
  sessions (\<open>app/api/v1/sessions.py\<close>, \<open>app/repositories/session_repository.py\<close>), workflows and their runs
  (\<open>workflows.py\<close>, \<open>workflow_runs.py\<close>, \<open>app/repositories/workflow_run_repository.py\<close>), schedules and webhooks
  (\<open>workflow_schedules.py\<close>, \<open>workflow_webhooks.py\<close>), and the server-sent frames of the two streaming routes
  (\<open>chat.py\<close>, \<open>workflows.py\<close>).
\<close>

subsection \<open>Pages\<close>

text \<open>\<open>PaginationParams\<close> with the validation of its query parameters, and \<open>PaginatedResponse\<close> with the rows of the
  page, the number of rows there are and whether there is a next page.\<close>

definition valid_page :: "nat \<Rightarrow> nat \<Rightarrow> ('r sess, unit) prog" where
  "valid_page number per_page =
     mbind (valid_request (1 \<le> number) ''page'') (\<lambda>_. valid_request (1 \<le> per_page \<and> per_page \<le> 200) ''page_size'')"

definition paginated :: "nat \<Rightarrow> nat \<Rightarrow> (nat \<Rightarrow> nat \<Rightarrow> db \<Rightarrow> 'a list \<times> nat) \<Rightarrow> ('r sess, ('a list \<times> nat) \<times> bool) prog" where
  "paginated number per_page query =
     mbind (valid_page number per_page) (\<lambda>_.
     mbind (mget (\<lambda>s. query (page_offset number per_page) per_page (work s))) (\<lambda>r.
       mret (r, has_next (page_offset number per_page) per_page (snd r))))"

subsection \<open>Sessions\<close>

definition list_sessions :: "string option \<Rightarrow> nat \<Rightarrow> nat \<Rightarrow> ('r sess, (chat_session list \<times> nat) \<times> bool) prog" where
  "list_sessions user_id number per_page =
     paginated number per_page (\<lambda>offset limit d.
       repo_list offset limit [map_option (\<lambda>u cs. cs_user_id cs = Some u) user_id] (t_sessions d))"

text \<open>The relationship \<open>messages\<close>, ordered by their creation.\<close>

definition session_messages :: "uuid \<Rightarrow> db \<Rightarrow> chat_message list" where
  "session_messages i d = sort_key created_at (filter (\<lambda>m. cm_session_id m = i) (t_messages d))"

definition get_with_messages ::
  "uuid \<Rightarrow> string option \<Rightarrow> db \<Rightarrow> app_error + (chat_session \<times> chat_message list) option" where
  "get_with_messages session_id user_id d =
     rbind (scalar_one_or_none (filter (\<lambda>cs. row_id cs = session_id \<and> live cs \<and>
              (case user_id of None \<Rightarrow> True | Some u \<Rightarrow> cs_user_id cs = Some u)) (t_sessions d))) (\<lambda>r.
       Inr (map_option (\<lambda>cs. (cs, session_messages (row_id cs) d)) r))"

definition get_session :: "uuid \<Rightarrow> string option \<Rightarrow> db \<Rightarrow> app_error + chat_session \<times> chat_message list" where
  "get_session session_id user_id d =
     rbind (get_with_messages session_id user_id d) (\<lambda>r. case r of
       None \<Rightarrow> Inl (mk_error NotFoundError (''ChatSession '' @ session_id @ '' not found'')) | Some x \<Rightarrow> Inr x)"

subsection \<open>Workflows and their runs\<close>

definition list_workflows_page :: "uuid option \<Rightarrow> nat \<Rightarrow> nat \<Rightarrow> ('r sess, (workflow list \<times> nat) \<times> bool) prog" where
  "list_workflows_page agent_os_id number per_page = paginated number per_page (list_workflows agent_os_id)"

text \<open>\<open>WorkflowStepDefinition\<close>, \<open>WorkflowCreate\<close> and \<open>WorkflowUpdate\<close> beyond their types. The name of an update is not
  constrained, but the read model has the constraints of \<open>WorkflowBase\<close>.\<close>

definition valid_step_definition :: "step_definition \<Rightarrow> bool" where
  "valid_step_definition sd \<longleftrightarrow>
     (sf_type sd = StepAgent \<longrightarrow> sf_agent_code sd \<noteq> []) \<and> (sf_type sd = StepTeam \<longrightarrow> sf_team_code sd \<noteq> [])"

definition valid_workflow_base :: "string \<Rightarrow> string \<Rightarrow> bool" where
  "valid_workflow_base c name \<longleftrightarrow> valid_code c \<and> name \<noteq> [] \<and> length name \<le> 255"

definition valid_workflow_create :: "workflow_create \<Rightarrow> bool" where
  "valid_workflow_create p \<longleftrightarrow>
     valid_workflow_base (wcr_code p) (wcr_name p) \<and> wcr_steps p \<noteq> [] \<and> list_all valid_step_definition (wcr_steps p)"

definition valid_workflow_update :: "workflow_update \<Rightarrow> bool" where
  "valid_workflow_update p \<longleftrightarrow> (case wup_steps p of None \<Rightarrow> True | Some sds \<Rightarrow> list_all valid_step_definition sds)"

definition to_detail :: "(workflow \<times> workflow_step list) option \<Rightarrow> app_error + workflow \<times> workflow_step list" where
  "to_detail found =
     (case found of
        Some (w, steps) \<Rightarrow>
          if valid_workflow_base (code w) (wf_name w) then Inr (w, steps)
          else Inl (mk_error (PyException ''ValidationError'') ''validation error for WorkflowRead'')
      | None \<Rightarrow> Inl (mk_error (PyException ''ValidationError'') ''validation error for WorkflowRead''))"

definition create_workflow_route :: "workflow_create \<Rightarrow> ('r sess, workflow \<times> workflow_step list) prog" where
  "create_workflow_route p =
     mbind (valid_request (valid_workflow_create p) ''body'') (\<lambda>_.
     mbind (create_workflow p) (\<lambda>r. mlift (\<lambda>_. to_detail r)))"

definition get_workflow_route :: "uuid \<Rightarrow> ('r sess, workflow \<times> workflow_step list) prog" where
  "get_workflow_route workflow_id =
     mbind (mlift (\<lambda>s. get_workflow workflow_id (work s))) (\<lambda>r. mlift (\<lambda>_. to_detail (Some r)))"

definition update_workflow_route ::
  "uuid \<Rightarrow> workflow_update \<Rightarrow> ('r sess, workflow \<times> workflow_step list) prog" where
  "update_workflow_route workflow_id p =
     mbind (valid_request (valid_workflow_update p) ''body'') (\<lambda>_.
     mbind (update_workflow workflow_id p) (\<lambda>r. mlift (\<lambda>_. to_detail r)))"

definition delete_workflow_route :: "uuid \<Rightarrow> ('r sess, unit) prog" where
  "delete_workflow_route workflow_id = delete_workflow workflow_id"

text \<open>\<open>POST /workflows/{id}/run\<close>: pydantic refuses an empty input; the response names the run.\<close>

definition run_workflow_route ::
  "engine_env \<Rightarrow> uuid \<Rightarrow> workflow_request \<Rightarrow> ('r sess, uuid \<times> string \<times> string) prog" where
  "run_workflow_route env workflow_id rq =
     mbind (valid_request (wq_input rq \<noteq> []) ''input'') (\<lambda>_.
     mbind (run_workflow env workflow_id rq) (\<lambda>(run, res).
       mret (row_id run, workflow_status_value (wr_status run), res)))"

definition list_workflow_runs ::
  "uuid option \<Rightarrow> nat \<Rightarrow> nat \<Rightarrow> ('r sess, (workflow_run list \<times> nat) \<times> bool) prog" where
  "list_workflow_runs workflow_id number per_page =
     paginated number per_page (\<lambda>offset limit d.
       repo_list_any offset limit [map_option (\<lambda>i r. wr_workflow_id r = i) workflow_id] (t_wruns d))"

definition get_workflow_run :: "uuid \<Rightarrow> db \<Rightarrow> app_error + workflow_run" where
  "get_workflow_run workflow_run_id d = repo_get_any_or_404 ''WorkflowRun'' workflow_run_id (t_wruns d)"

text \<open>\<open>WorkflowRunStepRepository.list_by_run\<close> and \<open>WorkflowEventRepository.list_by_run\<close>, and the routes over them.\<close>

definition run_steps_by_run :: "uuid \<Rightarrow> db \<Rightarrow> workflow_run_step list" where
  "run_steps_by_run workflow_run_id d =
     sort_key wrs_step_order (filter (\<lambda>s. wrs_workflow_run_id s = workflow_run_id) (t_wrun_steps d))"

definition workflow_events_by_run :: "uuid \<Rightarrow> db \<Rightarrow> workflow_event list" where
  "workflow_events_by_run workflow_run_id d =
     sort_key created_at (filter (\<lambda>e. we_workflow_run_id e = workflow_run_id) (t_wevents d))"

definition get_workflow_run_steps :: "uuid \<Rightarrow> ('r sess, workflow_run_step list) prog" where
  "get_workflow_run_steps workflow_run_id = mget (\<lambda>s. run_steps_by_run workflow_run_id (work s))"

definition get_workflow_run_events :: "uuid \<Rightarrow> ('r sess, workflow_event list) prog" where
  "get_workflow_run_events workflow_run_id = mget (\<lambda>s. workflow_events_by_run workflow_run_id (work s))"

subsection \<open>Schedules\<close>

definition schedule_fields :: "workflow_schedule \<Rightarrow> schedule_create" where
  "schedule_fields sd =
     \<lparr>scr_schedule_type = sd_schedule_type sd, scr_cron_expression = sd_cron_expression sd,
      scr_interval_seconds = sd_interval_seconds sd, scr_timezone = sd_timezone sd,
      scr_input_template = sd_input_template sd, scr_user_id = sd_user_id sd, scr_enabled = sd_enabled sd\<rparr>"

text \<open>\<open>WorkflowScheduleRead.model_validate\<close>: the read model has the constraints of the create model.\<close>

definition schedule_read :: "workflow_schedule \<Rightarrow> app_error + workflow_schedule" where
  "schedule_read sd =
     (if valid_schedule (schedule_fields sd) then Inr sd
      else Inl (mk_error (PyException ''ValidationError'') ''validation error for WorkflowScheduleRead''))"

definition scheduling :: "bool \<Rightarrow> ('r sess, unit) prog" where
  "scheduling feature = require_feature feature ''Workflow Scheduling''"

definition create_schedule_route ::
  "bool \<Rightarrow> cron_ops \<Rightarrow> uuid \<Rightarrow> schedule_create \<Rightarrow> ('r sess, workflow_schedule) prog" where
  "create_schedule_route feature cr workflow_id p =
     mbind (valid_request (valid_schedule p) ''body'') (\<lambda>_.
     mbind (scheduling feature) (\<lambda>_.
     mbind (create_schedule cr workflow_id p) (\<lambda>sd. mlift (\<lambda>_. schedule_read sd))))"

definition list_schedules_route ::
  "bool \<Rightarrow> uuid \<Rightarrow> nat \<Rightarrow> nat \<Rightarrow> ('r sess, (workflow_schedule list \<times> nat) \<times> bool) prog" where
  "list_schedules_route feature workflow_id number per_page =
     mbind (valid_page number per_page) (\<lambda>_.
     mbind (scheduling feature) (\<lambda>_.
     mbind (paginated number per_page (list_schedules workflow_id)) (\<lambda>r.
     mbind (mlift (\<lambda>_. rmap schedule_read (fst (fst r)))) (\<lambda>items. mret ((items, snd (fst r)), snd r)))))"

definition get_schedule_route :: "bool \<Rightarrow> uuid \<Rightarrow> ('r sess, workflow_schedule) prog" where
  "get_schedule_route feature schedule_id =
     mbind (scheduling feature) (\<lambda>_.
     mbind (mlift (\<lambda>s. get_schedule schedule_id (work s))) (\<lambda>sd. mlift (\<lambda>_. schedule_read sd)))"

definition update_schedule_route ::
  "bool \<Rightarrow> cron_ops \<Rightarrow> uuid \<Rightarrow> schedule_update \<Rightarrow> ('r sess, workflow_schedule) prog" where
  "update_schedule_route feature cr schedule_id p =
     mbind (valid_request (at_least 10 (given (sup_interval_seconds p))) ''body'') (\<lambda>_.
     mbind (scheduling feature) (\<lambda>_.
     mbind (update_schedule cr schedule_id p) (\<lambda>sd. mlift (\<lambda>_. schedule_read sd))))"

definition delete_schedule_route :: "bool \<Rightarrow> uuid \<Rightarrow> ('r sess, unit) prog" where
  "delete_schedule_route feature schedule_id = mbind (scheduling feature) (\<lambda>_. delete_schedule schedule_id)"

definition trigger_schedule_route ::
  "bool \<Rightarrow> cron_ops \<Rightarrow> engine_env \<Rightarrow> uuid \<Rightarrow> ('r sess, uuid \<times> string) prog" where
  "trigger_schedule_route feature cr env schedule_id =
     mbind (scheduling feature) (\<lambda>_. trigger_schedule_now cr env schedule_id)"

subsection \<open>Webhooks\<close>

text \<open>\<open>_to_read\<close>: the view of a webhook leaves out its secret and adds the path to call.\<close>

record webhook_view =
  wv_id :: uuid
  wv_created_at :: time
  wv_workflow_id :: uuid
  wv_webhook_token :: string
  wv_input_field_path :: "string option"
  wv_allowed_source_ips :: "string list option"
  wv_user_id :: "string option"
  wv_enabled :: bool
  wv_invoke_path :: string

definition webhook_to_read :: "workflow_webhook \<Rightarrow> webhook_view" where
  "webhook_to_read w =
     \<lparr>wv_id = row_id w, wv_created_at = created_at w, wv_workflow_id = wh_workflow_id w,
      wv_webhook_token = wh_webhook_token w, wv_input_field_path = wh_input_field_path w,
      wv_allowed_source_ips = wh_allowed_source_ips w, wv_user_id = wh_user_id w, wv_enabled = wh_enabled w,
      wv_invoke_path = invoke_path w\<rparr>"

definition webhooks :: "bool \<Rightarrow> ('r sess, unit) prog" where
  "webhooks feature = require_feature feature ''Workflow Webhooks''"

definition create_webhook_route ::
  "bool \<Rightarrow> webhook_ops \<Rightarrow> uuid \<Rightarrow> webhook_create \<Rightarrow> ('r sess, webhook_view) prog" where
  "create_webhook_route feature ops workflow_id p =
     mbind (webhooks feature) (\<lambda>_.
     mbind (create_webhook ops workflow_id p) (\<lambda>w. mret (webhook_to_read w)))"

definition list_webhooks_route ::
  "bool \<Rightarrow> uuid \<Rightarrow> nat \<Rightarrow> nat \<Rightarrow> ('r sess, (webhook_view list \<times> nat) \<times> bool) prog" where
  "list_webhooks_route feature workflow_id number per_page =
     mbind (valid_page number per_page) (\<lambda>_.
     mbind (webhooks feature) (\<lambda>_.
     mbind (paginated number per_page (list_webhooks workflow_id)) (\<lambda>r.
       mret ((map webhook_to_read (fst (fst r)), snd (fst r)), snd r))))"

definition update_webhook_route :: "bool \<Rightarrow> uuid \<Rightarrow> webhook_update \<Rightarrow> ('r sess, webhook_view) prog" where
  "update_webhook_route feature webhook_id p =
     mbind (webhooks feature) (\<lambda>_.
     mbind (update_webhook webhook_id p) (\<lambda>w. mret (webhook_to_read w)))"

definition delete_webhook_route :: "bool \<Rightarrow> uuid \<Rightarrow> ('r sess, unit) prog" where
  "delete_webhook_route feature webhook_id = mbind (webhooks feature) (\<lambda>_. delete_webhook webhook_id)"

subsection \<open>Server-sent frames\<close>

text \<open>\<open>json.dumps(x)\<close> with its default \<open>ensure_ascii=True\<close>: a string is decoded from its bytes, and every code point
  that is not a printable ASCII character is escaped, one beyond 16 bits as a surrogate pair.\<close>

fun code_points :: "nat list \<Rightarrow> nat list" where
  "code_points [] = []"
| "code_points (a # bs) =
     (if a < 0x80 then a # code_points bs
      else if a < 0xE0 then
        (case bs of b # cs \<Rightarrow> ((a - 0xC0) * 0x40 + (b - 0x80)) # code_points cs | _ \<Rightarrow> [a])
      else if a < 0xF0 then
        (case bs of b # c # cs \<Rightarrow> ((a - 0xE0) * 0x1000 + (b - 0x80) * 0x40 + (c - 0x80)) # code_points cs | _ \<Rightarrow> [a])
      else
        (case bs of b # c # d # cs \<Rightarrow>
           ((a - 0xF0) * 0x40000 + (b - 0x80) * 0x1000 + (c - 0x80) * 0x40 + (d - 0x80)) # code_points cs | _ \<Rightarrow> [a]))"

definition escape_u :: "nat \<Rightarrow> string" where
  "escape_u n = [CHR 0x5C, CHR ''u'', hex_digit (n div 0x1000 mod 16), hex_digit (n div 0x100 mod 16),
     hex_digit (n div 16 mod 16), hex_digit (n mod 16)]"

definition escape_ascii :: "nat \<Rightarrow> string" where
  "escape_ascii n =
     (if n = 0x22 then [CHR 0x5C, CHR 0x22]
      else if n = 0x5C then [CHR 0x5C, CHR 0x5C]
      else if n = 0x0A then [CHR 0x5C, CHR ''n'']
      else if n = 0x0D then [CHR 0x5C, CHR ''r'']
      else if n = 0x09 then [CHR 0x5C, CHR ''t'']
      else if n = 0x0C then [CHR 0x5C, CHR ''f'']
      else if n = 0x08 then [CHR 0x5C, CHR ''b'']
      else if 32 \<le> n \<and> n \<le> 126 then [char_of n]
      else if n < 0x10000 then escape_u n
      else escape_u (0xD800 + (n - 0x10000) div 0x400 mod 0x400) @ escape_u (0xDC00 + (n - 0x10000) mod 0x400))"

definition dumps_ascii_str :: "string \<Rightarrow> string" where
  "dumps_ascii_str s = [CHR 0x22] @ concat (map escape_ascii (code_points (map of_char s))) @ [CHR 0x22]"

fun dumps_ascii :: "(real \<Rightarrow> string) \<Rightarrow> json \<Rightarrow> string" where
  "dumps_ascii fl JNull = ''null''"
| "dumps_ascii fl (JBool b) = (if b then ''true'' else ''false'')"
| "dumps_ascii fl (JInt i) = str_int i"
| "dumps_ascii fl (JFloat r) = fl r"
| "dumps_ascii fl (JStr s) = dumps_ascii_str s"
| "dumps_ascii fl (JList xs) = ''['' @ join_str '', '' (map (dumps_ascii fl) xs) @ '']''"
| "dumps_ascii fl (JObj kvs) = ''{'' @ join_str '', '' (map (\<lambda>(k, v). dumps_ascii_str k @ '': '' @ dumps_ascii fl v) kvs) @ ''}''"

text \<open>A frame is the name of the event and the text of its data (\<open>event_generator\<close> of the two routers).\<close>

record frame =
  fr_event :: string
  fr_data :: string

definition chat_frame :: "(real \<Rightarrow> string) \<Rightarrow> chat_out \<Rightarrow> frame" where
  "chat_frame fl ev =
     \<lparr>fr_event = co_type ev,
      fr_data = dumps_ascii fl (JObj [(''run_id'', JStr (co_run_id ev)),
        (''session_id'', if co_session_id ev = [] then JNull else JStr (co_session_id ev)),
        (''data'', JObj (co_data ev))])\<rparr>"

definition workflow_frame :: "(real \<Rightarrow> string) \<Rightarrow> uuid \<Rightarrow> string \<times> payload \<Rightarrow> frame" where
  "workflow_frame fl workflow_run_id ev =
     \<lparr>fr_event = fst ev,
      fr_data = dumps_ascii fl (JObj [(''workflow_run_id'', JStr workflow_run_id), (''data'', JObj (snd ev))])\<rparr>"

text \<open>\<open>POST /chat/stream\<close> and \<open>POST /workflows/{id}/run/stream\<close>: the frames of everything the service yields; a
  request with an empty message or input is refused before the service runs.\<close>

definition chat_stream :: "(real \<Rightarrow> string) \<Rightarrow> 'r chat_env \<Rightarrow> chat_request \<Rightarrow> 'r sess \<Rightarrow> frame list" where
  "chat_stream fl env rq s =
     (if cq_message rq = [] then []
      else map (chat_frame fl) (tn_out (snd (handle_chat_stream env rq \<lparr>tn_sess = s, tn_out = []\<rparr>))))"

definition workflow_stream ::
  "(real \<Rightarrow> string) \<Rightarrow> engine_env \<Rightarrow> (json \<Rightarrow> string) \<Rightarrow> uuid \<Rightarrow> workflow_request \<Rightarrow> 'r sess \<Rightarrow> frame list" where
  "workflow_stream fl env other workflow_id rq s =
     (if wq_input rq = [] then []
      else case begin_workflow commit workflow_id rq s of
        (Inl e, s') \<Rightarrow> []
      | (Inr (steps, cs, run), s') \<Rightarrow>
          map (workflow_frame fl (row_id run))
            (wt_out (snd (run_workflow_stream env other workflow_id rq \<lparr>wt_sess = s, wt_out = [], wt_current = None\<rparr>))))"

text \<open>\<open>POST /chat\<close>.\<close>

definition chat_route :: "'r chat_env \<Rightarrow> chat_request \<Rightarrow> ('r sess, chat_response) prog" where
  "chat_route env rq = mbind (valid_request (cq_message rq \<noteq> []) ''message'') (\<lambda>_. handle_chat env rq)"

definition printable :: "string \<Rightarrow> bool" where
  "printable s \<longleftrightarrow> list_all (\<lambda>c. 32 \<le> (of_char c :: nat) \<and> (of_char c :: nat) \<le> 126) s"

lemma printable_append [simp]: "printable (a @ b) \<longleftrightarrow> printable a \<and> printable b"
  by (simp add: printable_def)

lemma printable_Nil [simp]: "printable []"
  by (simp add: printable_def)

lemma printable_Cons [simp]:
  "printable (c # s) \<longleftrightarrow> 32 \<le> (of_char c :: nat) \<and> (of_char c :: nat) \<le> 126 \<and> printable s"
  by (simp add: printable_def)

lemma printable_concat: "(\<And>s. s \<in> set ss \<Longrightarrow> printable s) \<Longrightarrow> printable (concat ss)"
  by (induction ss) auto

lemma printable_join: "printable sep \<Longrightarrow> (\<And>s. s \<in> set ss \<Longrightarrow> printable s) \<Longrightarrow> printable (join_str sep ss)"
  by (induction sep ss rule: join_str.induct) auto

lemma printable_hex: "d < 16 \<Longrightarrow> 32 \<le> (of_char (hex_digit d) :: nat) \<and> (of_char (hex_digit d) :: nat) \<le> 126"
proof -
  have "\<forall>d \<in> set [0..<16]. 32 \<le> (of_char (hex_digit d) :: nat) \<and> (of_char (hex_digit d) :: nat) \<le> 126"
    by (simp add: upt_rec hex_digit_def)
  then show "d < 16 \<Longrightarrow> 32 \<le> (of_char (hex_digit d) :: nat) \<and> (of_char (hex_digit d) :: nat) \<le> 126"
    by simp
qed

lemma printable_escape_u: "printable (escape_u n)"
  by (simp add: escape_u_def printable_hex)

lemma printable_escape: "printable (escape_ascii n)"
  by (simp add: escape_ascii_def printable_escape_u)

lemma printable_dumps_str: "printable (dumps_ascii_str s)"
proof -
  have "printable (concat (map escape_ascii (code_points (map of_char s))))"
    by (rule printable_concat) (auto simp: printable_escape)
  then show ?thesis by (simp add: dumps_ascii_str_def)
qed

lemma printable_str_nat: "printable (str_nat n)"
proof -
  have "32 \<le> (of_char c :: nat) \<and> (of_char c :: nat) \<le> 126" if "c \<in> set (str_nat n)" for c
    using str_nat_digits [OF that] by auto
  then show ?thesis by (simp add: printable_def list_all_iff)
qed

lemma printable_dumps: "(\<And>r. printable (fl r)) \<Longrightarrow> printable (dumps_ascii fl j)"
proof (induction fl j rule: dumps_ascii.induct)
  case (6 fl xs)
  then show ?case by (auto intro!: printable_join)
next
  case (7 fl kvs)
  then show ?case by (auto intro!: printable_join simp: printable_dumps_str)
qed (auto simp: printable_dumps_str printable_str_nat str_int_def)

text \<open>C40. Whatever text a model or a tool produces, line breaks, control characters and any script included, the data
  of a frame is one line of printable ASCII; so an event's data never ends its frame early or forges another.\<close>

theorem frames_are_one_line:
  assumes "\<forall>r. printable (fl r)"
  shows "(\<forall>f \<in> set (chat_stream fl env rq s). printable (fr_data f)) \<and>
    (\<forall>f \<in> set (workflow_stream fl eng other workflow_id wrq ws). printable (fr_data f))"
proof -
  have "printable (fr_data (chat_frame fl ev))" "printable (fr_data (workflow_frame fl i wev))" for ev i wev
    using assms by (simp_all add: chat_frame_def workflow_frame_def printable_dumps del: dumps_ascii.simps)
  then show ?thesis by (auto simp: chat_stream_def workflow_stream_def split: prod.splits sum.splits if_splits)
qed

lemma demo_frames: "chat_stream fl demo_chat_env demo_request (tn_sess demo_turn) \<noteq> []"
proof -
  have "tn_out (snd (handle_chat_stream demo_chat_env demo_request demo_turn)) \<noteq> []" "cq_message demo_request \<noteq> []"
    by code_simp+
  then show ?thesis by (simp add: chat_stream_def demo_turn_def)
qed

theorem frames_are_one_line_witness:
  "printable (fr_data (hd (chat_stream (\<lambda>_. ''0.5'') demo_chat_env demo_request (tn_sess demo_turn))))"
proof -
  have "\<forall>r. printable ((\<lambda>_. ''0.5'') (r::real))" by simp
  from frames_are_one_line [OF this, THEN conjunct1] hd_in_set [OF demo_frames] show ?thesis by blast
qed

lemma escape_example:
  "code_points [0xE1, 0xBB, 0x87] = [0x1EC7]"
  "escape_ascii 0x1EC7 = [CHR 0x5C, CHR ''u'', CHR ''1'', CHR ''e'', CHR ''c'', CHR ''7'']"
  "code_points [0xF0, 0x9F, 0x98, 0x80] = [0x1F600]"
  "escape_ascii 0x1F600 = [CHR 0x5C, CHR ''u'', CHR ''d'', CHR ''8'', CHR ''3'', CHR ''d'',
     CHR 0x5C, CHR ''u'', CHR ''d'', CHR ''e'', CHR ''0'', CHR ''0'']"
  by (simp_all add: escape_ascii_def escape_u_def hex_digit_def)

subsection \<open>What the schedule API guarantees to the ticker\<close>

datatype schedule_call =
    CreateSchedule uuid schedule_create
  | UpdateSchedule uuid schedule_update
  | DeleteSchedule uuid
  | TriggerSchedule uuid
  | ReadSchedule uuid
  | ListSchedules uuid nat nat

fun run_schedule_call :: "bool \<Rightarrow> cron_ops \<Rightarrow> engine_env \<Rightarrow> schedule_call \<Rightarrow> ('r sess, unit) prog" where
  "run_schedule_call f cr env (CreateSchedule w p) = mbind (create_schedule_route f cr w p) (\<lambda>_. mret ())"
| "run_schedule_call f cr env (UpdateSchedule i p) = mbind (update_schedule_route f cr i p) (\<lambda>_. mret ())"
| "run_schedule_call f cr env (DeleteSchedule i) = delete_schedule_route f i"
| "run_schedule_call f cr env (TriggerSchedule i) = mbind (trigger_schedule_route f cr env i) (\<lambda>_. mret ())"
| "run_schedule_call f cr env (ReadSchedule i) = mbind (get_schedule_route f i) (\<lambda>_. mret ())"
| "run_schedule_call f cr env (ListSchedules w n k) = mbind (list_schedules_route f w n k) (\<lambda>_. mret ())"

definition serve_schedule_call :: "bool \<Rightarrow> cron_ops \<Rightarrow> engine_env \<Rightarrow> time \<times> schedule_call \<Rightarrow> 'r sess \<Rightarrow> 'r sess" where
  "serve_schedule_call f cr env c s = snd (get_db (run_schedule_call f cr env (snd c)) (s\<lparr>now := fst c\<rparr>))"

definition serve_schedule_calls ::
  "bool \<Rightarrow> cron_ops \<Rightarrow> engine_env \<Rightarrow> (time \<times> schedule_call) list \<Rightarrow> 'r sess \<Rightarrow> 'r sess" where
  "serve_schedule_calls f cr env cs s = fold (serve_schedule_call f cr env) cs s"

definition schedules_ok :: "db \<Rightarrow> bool" where
  "schedules_ok d \<longleftrightarrow> (\<forall>sd \<in> set (t_schedules d). valid_schedule (schedule_fields sd))"

text \<open>A call that succeeds leaves only valid schedules in its transaction, one that fails has committed nothing.\<close>

definition sound_call :: "('r sess, 'a) prog \<Rightarrow> 'r sess \<Rightarrow> bool" where
  "sound_call m s \<longleftrightarrow> wp m (\<lambda>_ s'. schedules_ok (work s')) (\<lambda>_ s'. durable s' = durable s) s"

lemma schedule_fields_stamps [simp]:
  "schedule_fields (sd\<lparr>sd_next_run_at := a\<rparr>) = schedule_fields sd"
  "schedule_fields (sd\<lparr>deleted_at := b\<rparr>) = schedule_fields sd"
  "schedule_fields (sd\<lparr>sd_last_run_at := c, sd_last_status := e, sd_last_error := g, sd_last_workflow_run_id := h\<rparr>) = schedule_fields sd"
  "schedule_fields (new_schedule w p i t) = p"
  by (simp_all add: schedule_fields_def new_schedule_def)

lemma schedules_ok_put: "schedules_ok d \<Longrightarrow> valid_schedule (schedule_fields sd) \<Longrightarrow> schedules_ok (t_schedules_update (put_row sd) d)"
  by (auto simp: schedules_ok_def put_row_def)

lemma schedules_ok_put2:
  "schedules_ok d \<Longrightarrow> valid_schedule (schedule_fields sd) \<Longrightarrow> row_id sd' = row_id sd \<Longrightarrow>
     schedules_ok (t_schedules_update (put_row sd \<circ> put_row sd') d)"
  by (auto simp: schedules_ok_def put_row_def)

lemma schedule_found:
  "repo_get_or_404 cls i (t_schedules d) = Inr sd \<Longrightarrow> schedules_ok d \<Longrightarrow> valid_schedule (schedule_fields sd)"
  using repo_get_member [of i "t_schedules d"]
  by (auto simp: repo_get_or_404_def schedules_ok_def split: sum.splits option.splits)

lemma sound_create:
  "schedules_ok (work s) \<Longrightarrow> sound_call (create_schedule_route f cr w p) s"
  by (auto simp: sound_call_def create_schedule_route_def create_schedule_def set_next_run_def valid_request_def
      scheduling_def wp_def mbind_def repo_create_def repo_create_as_def no_clash_def Let_def run_save schedule_read_def
      schedules_ok_def put_row_def split: sum.splits prod.splits if_splits)

definition changed_schedule :: "schedule_update \<Rightarrow> workflow_schedule \<Rightarrow> workflow_schedule" where
  "changed_schedule p sd =
     set_if (given (sup_cron_expression p)) (\<lambda>v. sd_cron_expression_update (\<lambda>_. Some v))
     (set_if (given (sup_interval_seconds p)) (\<lambda>v. sd_interval_seconds_update (\<lambda>_. Some v))
     (set_if (sup_timezone p) (\<lambda>v. sd_timezone_update (\<lambda>_. v))
     (set_if (sup_input_template p) (\<lambda>v. sd_input_template_update (\<lambda>_. v))
     (set_if (sup_user_id p) (\<lambda>v. sd_user_id_update (\<lambda>_. Some v))
     (set_if (given (sup_enabled p)) (\<lambda>v. sd_enabled_update (\<lambda>_. v)) sd)))))"

lemma set_if_same [simp]: "(\<And>v x. g (f v x) = g x) \<Longrightarrow> g (set_if v f x) = g x"
  by (cases v) simp_all

lemma changed_schedule_id: "row_id (changed_schedule p sd) = row_id sd"
  by (simp add: changed_schedule_def)

lemma sound_update:
  assumes "schedules_ok (work s)"
  shows "sound_call (update_schedule_route f cr i p) s"
  using assms
  by (auto simp: sound_call_def update_schedule_route_def update_schedule_def valid_request_def scheduling_def
      changed_schedule_def [symmetric] wp_simps require_feature_def set_next_run_def schedule_read_def
      simp del: run_bind_basic intro!: schedules_ok_put schedules_ok_put2 split: sum.split)

lemma sound_delete:
  assumes "schedules_ok (work s)"
  shows "sound_call (delete_schedule_route f i) s"
proof -
  have "wp (mbind (repo_soft_delete t_schedules_update sd) (\<lambda>_. mret ())) (\<lambda>_ s'. schedules_ok (work s'))
      (\<lambda>_ s'. durable s' = durable s) s" if "valid_schedule (schedule_fields sd)" for sd
    using that assms by (auto simp: wp_def mbind_def repo_soft_delete_def run_save intro!: schedules_ok_put)
  then show ?thesis
    using schedule_found [OF _ assms]
    by (auto simp: sound_call_def delete_schedule_route_def delete_schedule_def scheduling_def require_feature_def
        wp_basic wp_bind [of "mlift a" for a] simp del: run_bind_basic(5) split: sum.split)
qed

lemma wp_record_fired:
  assumes "schedules_ok (work s)" "valid_schedule (schedule_fields sd)"
  shows "wp (record_fired cr sd st run err) (\<lambda>_ s'. schedules_ok (work s')) (\<lambda>_ s'. durable s' = durable s) s"
  using assms
  by (auto simp: record_fired_def set_next_run_def wp_simps Let_def intro!: schedules_ok_put split: sum.split)

lemma sound_trigger:
  assumes ok: "schedules_ok (work s)"
  shows "sound_call (trigger_schedule_route f cr env i) s"
proof -
  have "wp (mbind (run_scheduled env sd) (\<lambda>(run, res).
         mbind (record_fired cr sd (workflow_status_value (wr_status run)) (Some (row_id run)) None) (\<lambda>_.
           mret (row_id run, workflow_status_value (wr_status run)))))
      (\<lambda>_ s'. schedules_ok (work s')) (\<lambda>_ s'. durable s' = durable s) s"
    if sd: "valid_schedule (schedule_fields sd)" for sd
  proof -
    have "schedule_frame (t_schedules (work s)) (durable s) (now s) (redis s) s" by (simp add: schedule_frame_def)
    then have "wp (run_scheduled env sd) (\<lambda>_. schedule_frame (t_schedules (work s)) (durable s) (now s) (redis s))
        (\<lambda>_. schedule_frame (t_schedules (work s)) (durable s) (now s) (redis s)) s"
      using frame_run_scheduled [of env sd "t_schedules (work s)" "durable s" "now s" "redis s"]
      unfolding keeps_def by blast
    then show ?thesis
      unfolding wp_bind
    proof (rule wp_mono)
      fix x s' assume fr: "schedule_frame (t_schedules (work s)) (durable s) (now s) (redis s) s'"
      then have "schedules_ok (work s')" "durable s' = durable s" using ok by (simp_all add: schedule_frame_def schedules_ok_def)
      from wp_record_fired [OF this(1) sd] this(2)
      show "wp (case x of (run, res) \<Rightarrow>
          mbind (record_fired cr sd (workflow_status_value (wr_status run)) (Some (row_id run)) None) (\<lambda>_.
           mret (row_id run, workflow_status_value (wr_status run))))
        (\<lambda>_ s'. schedules_ok (work s')) (\<lambda>_ s'. durable s' = durable s) s'"
        by (simp add: wp_bind wp_basic(1) [abs_def] split: prod.split)
    qed (simp add: schedule_frame_def)
  qed
  with schedule_found [of _ i "work s"] ok show ?thesis
    by (auto simp: sound_call_def trigger_schedule_route_def trigger_schedule_now_def scheduling_def require_feature_def
        wp_basic wp_bind [of "mlift a" for a] get_schedule_def simp del: run_bind_basic(5) split: sum.split)
qed

lemma sound_readers:
  assumes "schedules_ok (work s)"
  shows "sound_call (get_schedule_route f i) s" "sound_call (list_schedules_route f w n k) s"
  using assms
  by (auto simp: sound_call_def get_schedule_route_def list_schedules_route_def scheduling_def require_feature_def
      valid_page_def paginated_def valid_request_def wp_simps simp del: run_bind_basic split: sum.split)

lemma sound_ignoring: "sound_call m s \<Longrightarrow> sound_call (mbind m (\<lambda>_. mret ())) s"
  by (simp add: sound_call_def wp_bind wp_basic(1) [abs_def])

lemma sound_schedule_call: "schedules_ok (work s) \<Longrightarrow> sound_call (run_schedule_call f cr env c) s"
  by (cases c) (auto intro!: sound_ignoring sound_create sound_update sound_delete sound_trigger sound_readers)

lemma serve_sound_call:
  assumes "sound_call m s" "schedules_ok (durable s)"
  shows "schedules_ok (work (snd (get_db m s))) \<and> schedules_ok (durable (snd (get_db m s)))"
  using assms by (cases "m s"; cases "fst (m s)") (auto simp: sound_call_def wp_def get_db_Inr get_db_Inl)

lemma serve_schedule_calls_inv:
  "schedules_ok (work s) \<Longrightarrow> schedules_ok (durable s) \<Longrightarrow>
     schedules_ok (work (serve_schedule_calls f cr env cs s)) \<and> schedules_ok (durable (serve_schedule_calls f cr env cs s))"
proof (induction cs arbitrary: s)
  case (Cons c cs)
  have "sound_call (run_schedule_call f cr env (snd c)) (s\<lparr>now := fst c\<rparr>)"
    using Cons.prems by (intro sound_schedule_call) simp
  from serve_sound_call [OF this] Cons.prems(2)
  have "schedules_ok (work (serve_schedule_call f cr env c s))" "schedules_ok (durable (serve_schedule_call f cr env c s))"
    by (simp_all add: serve_schedule_call_def)
  from Cons.IH [OF this] show ?case by (simp add: serve_schedule_calls_def)
qed (simp add: serve_schedule_calls_def)


definition demo_new_schedule :: schedule_create where
  "demo_new_schedule = \<lparr>scr_schedule_type = SchedInterval, scr_cron_expression = None, scr_interval_seconds = Some 30,
     scr_timezone = ''UTC'', scr_input_template = ''go'', scr_user_id = None, scr_enabled = True\<rparr>"

definition demo_empty_input :: schedule_update where
  "demo_empty_input = \<lparr>sup_cron_expression = None, sup_interval_seconds = None, sup_timezone = None,
     sup_input_template = Some [], sup_user_id = None, sup_enabled = None\<rparr>"

definition demo_scheduled :: "unit sess" where
  "demo_scheduled = serve_schedule_calls True demo_cron demo_workflow_engine
     [(1, CreateSchedule ''w1'' demo_new_schedule), (2, UpdateSchedule (new_uuid 0) demo_empty_input)]
     (demo_quota_sess\<lparr>work := empty_db\<lparr>t_workflows := [demo_workflow]\<rparr>\<rparr>)"

definition demo_stored :: workflow_schedule where
  "demo_stored = (new_schedule ''w1'' demo_new_schedule (new_uuid 0) 1)\<lparr>sd_next_run_at := Some 31\<rparr>"

lemma demo_scheduled_rows: "t_schedules (work demo_scheduled) = [demo_stored]"
  by code_simp


subsection \<open>A turn in its session\<close>

text \<open>What a session's detail is over: the session's row found by its key, and its messages.\<close>

definition only_session :: "chat_session \<Rightarrow> db \<Rightarrow> bool" where
  "only_session cs d \<longleftrightarrow> filter (\<lambda>x. row_id x = row_id cs \<and> live x) (t_sessions d) = [cs]"

lemma scalar_single: "scalar_one_or_none xs = Inr (Some x) \<Longrightarrow> xs = [x]"
  by (cases xs rule: scalar_one_or_none.cases) auto

lemma get_or_create_session_found:
  assumes "get_or_create_session rq os tm ag s = (Inr cs, s')" "ids_below (seed s) (t_sessions (work s))"
  shows "only_session cs (work s') \<and> cs_user_id cs = cq_user_id rq \<and> t_messages (work s') = t_messages (work s) \<and> now s' = now s"
proof (cases "cq_session_id rq")
  case None
  have "filter (\<lambda>x. row_id x = new_uuid (seed s) \<and> live x) (t_sessions (work s)) = []"
    using ids_below_notin [OF assms(2)] by (auto simp: filter_empty_conv)
  with None assms(1) show ?thesis
    by (auto simp: get_or_create_session_def run_create_no_clash only_session_def new_session_def live_def)
next
  case (Some i)
  show ?thesis
  proof (cases "repo_get i (t_sessions (work s))")
    case (Inl e)
    with Some assms(1) show ?thesis by (simp add: get_or_create_session_def)
  next
    case (Inr found)
    show ?thesis
    proof (cases found)
      case None
      with Inr Some assms(1)
      have "\<not> list_ex (same_id (new_session rq os tm ag i (now s))) (t_sessions (work s))"
        and cs: "cs = new_session rq os tm ag i (now s)" "s' = s\<lparr>work := t_sessions_update (\<lambda>rs. rs @ [cs]) (work s)\<rparr>"
        by (auto simp: get_or_create_session_def repo_create_as_def Let_def split: if_splits)
      then have "filter (\<lambda>x. row_id x = i \<and> live x) (t_sessions (work s)) = []"
        by (auto simp: filter_empty_conv list_ex_iff same_id_def new_session_def)
      with cs show ?thesis by (simp add: only_session_def new_session_def live_def)
    next
      case (Some old)
      with Inr \<open>cq_session_id rq = _\<close> assms(1) have "cs = old" "s' = s" "cs_user_id cs = cq_user_id rq"
        by (auto simp: get_or_create_session_def split: if_splits)
      moreover have "filter (\<lambda>x. row_id x = i \<and> live x) (t_sessions (work s)) = [old]" "row_id old = i"
        using Inr Some scalar_single repo_get_member [of i "t_sessions (work s)" old] by (auto simp: repo_get_def)
      ultimately show ?thesis by (simp add: only_session_def)
    qed
  qed
qed

text \<open>The session row and the messages during a turn, once the question is stored and once the answer is.\<close>

definition asked :: "chat_request \<Rightarrow> chat_message list \<Rightarrow> time \<Rightarrow> chat_session \<Rightarrow> agent_run \<Rightarrow> 'r sess \<Rightarrow> bool" where
  "asked rq ms t cs run s \<longleftrightarrow> only_session cs (work s) \<and> cs_user_id cs = cq_user_id rq \<and> now s = t \<and>
     (\<exists>i. t_messages (work s) = ms @ [new_message (row_id cs) (row_id run) RoleUser (cq_message rq) i t])"

definition answered ::
  "chat_request \<Rightarrow> chat_message list \<Rightarrow> time \<Rightarrow> chat_session \<Rightarrow> uuid \<Rightarrow> string \<Rightarrow> db \<Rightarrow> bool" where
  "answered rq ms t cs run_id output d \<longleftrightarrow> only_session cs d \<and> cs_user_id cs = cq_user_id rq \<and>
     (\<exists>i j. t_messages d = ms @ [new_message (row_id cs) run_id RoleUser (cq_message rq) i t,
        new_message (row_id cs) run_id RoleAssistant output j t])"

lemma only_session_frame [simp]:
  "only_session cs (t_runs_update f d) = only_session cs d"
  "only_session cs (t_events_update g d) = only_session cs d"
  "only_session cs (t_messages_update h d) = only_session cs d"
  "only_session cs (t_usage_update u d) = only_session cs d"
  by (simp_all add: only_session_def)

lemma begin_turn_asked:
  assumes b: "begin_turn env no_save rq g os tm ag s = (Inr (cs, run), s')" and ids: "ids_below (seed s) (t_sessions (work s))"
  shows "asked rq (t_messages (work s)) (now s) cs run s'"
proof -
  obtain r1 s1 where 1: "assert_within_quota (ce_quota env) (cq_user_id rq) g (quota_model os ag) s = (r1, s1)" by force
  obtain r2 s2 where 2: "get_or_create_session rq (row_id os) (row_id tm) (row_id ag) s = (r2, s2)" by force
  have "s1 = s" using assert_within_quota_state [OF 1] .
  with b 1 2 get_or_create_session_found [OF _ ids, of rq "row_id os" "row_id tm" "row_id ag" cs s2] show ?thesis
    by (auto simp: begin_turn_def mbind_def [of "assert_within_quota e u g' m" for e u g' m]
        mbind_def [of "get_or_create_session r o' t' a'" for r o' t' a'] no_save_def run_create_run run_add_message
        run_mark_running run_bind_Inr asked_def split: sum.splits)
qed

lemma asked_run_steps [inv_intros]:
  "keeps (mark_failed r m) (asked rq ms t cs run)"
  "keeps (emit_event rid ty p) (asked rq ms t cs run)"
  unfolding mark_failed_def emit_event_def
  by (auto intro!: inv_intros keeps_create keeps_save simp: asked_def)

lemma asked_consume [inv_intros]: "keeps (consume_stream env r evs acc) (asked rq ms t cs run)"
proof (induction evs arbitrary: acc)
  case (Cons ev evs)
  show ?case unfolding consume_stream.simps by (intro inv_intros Cons)
qed (simp add: keeps_ret)

lemma asked_drain: "keeps (drain_stream env r stream) (asked rq ms t cs run)"
  unfolding drain_stream_def on_runtime_error_def by (auto intro!: inv_intros split: option.splits)

lemma charge_policy_work: "charge_policy env inp out cost p s = (r, s') \<Longrightarrow> work s' = work s"
  by (auto simp: charge_policy_def Let_def mbind_def on_redis_def split: prod.splits sum.splits if_splits)

lemma keeps_record_accepted:
  assumes ok: "\<And>r. q_insert_refused env r = None" and K: "\<And>d f. K d \<Longrightarrow> K (t_usage_update f d)"
  shows "keeps (record_usage env run u g m inp out cost) (\<lambda>s. K (work s))"
proof -
  have ins: "keeps (mcatch (insert_usage env mk) (\<lambda>_. rollback)) (\<lambda>s. K (work s))" for mk
    by (auto simp: keeps_def wp_def insert_usage_def ok mcatch_def mbind_def run_create_no_clash K)
  have "keeps (charge_policy env inp out cost p) (\<lambda>s. K (work s))" for p
    using charge_policy_work by (fastforce simp: keeps_def wp_def split: prod.split sum.split)
  then show ?thesis
    unfolding record_usage_def
    by (cases "\<not> feature_quota env \<or> \<not> truthy_str u"; simp only: if_True if_False)
       (rule keeps_ret, rule keeps_bind [OF ins], auto intro!: inv_intros)
qed

lemma complete_turn_answers:
  assumes "\<And>r. q_insert_refused (ce_quota env) r = None" "asked rq ms t cs run s"
  shows "wp (complete_turn env no_save rq' g m cs run out tokens) (\<lambda>_ s'. answered rq ms t cs (row_id run) out (work s')) (\<lambda>_ _. True) s"
proof -
  have "keeps (record_turn env rq' g m r tokens) (\<lambda>s. answered rq ms t cs (row_id run) out (work s))" for r
    unfolding record_turn_def
    by (auto intro!: inv_intros keeps_record_accepted assms(1) simp: answered_def)
  from wp_keeps [OF this] have "wp (record_turn env rq' g m r tokens) (\<lambda>_ s'. answered rq ms t cs (row_id run) out (work s')) (\<lambda>_ _. True) s'"
    if "answered rq ms t cs (row_id run) out (work s')" for r s'
    using that by simp
  note rec = this
  define run' where "run' = run\<lparr>ar_status := RunCompleted, ar_output := Some out, ar_finished_at := Some (now s)\<rparr>"
  obtain s1 where s1: "complete_turn env no_save rq' g m cs run out tokens s = record_turn env rq' g m run' tokens s1"
    "only_session cs (work s1) = only_session cs (work s)"
    "t_messages (work s1) = t_messages (work s) @ [new_message (row_id cs) (row_id run) RoleAssistant out (new_uuid (seed s)) (now s)]"
    by (auto simp: complete_turn_def no_save_def mark_completed_def emit_event_def run_bind_Inr run_add_message run_save
        run_create_no_clash run'_def)
  have "answered rq ms t cs (row_id run) out (work s1)"
    using assms(2) s1(2,3) by (auto simp: asked_def answered_def)
  from rec [OF this] show ?thesis by (simp add: wp_def s1(1))
qed

definition replied :: "chat_request \<Rightarrow> 'r sess \<Rightarrow> chat_response \<Rightarrow> 'r sess \<Rightarrow> bool" where
  "replied rq s r s' \<longleftrightarrow> (\<exists>cs. row_id cs = cr_session_id r \<and>
     answered rq (t_messages (work s)) (now s) cs (cr_run_id r) (cr_message r) (work s'))"

lemma finish_replied:
  assumes "\<And>r. q_insert_refused (ce_quota env) r = None" "asked rq (t_messages (work s)) (now s) cs run s1"
  shows "wp (mbind (complete_turn env no_save rq' g m cs run out tokens) (\<lambda>_. mret (chat_reply cs run os tm ag out)))
      (replied rq s) (\<lambda>_ _. True) s1"
  unfolding wp_bind
  by (rule wp_mono [OF complete_turn_answers [OF assms]]) (auto simp: wp_basic replied_def chat_reply_def)

lemma begun_asked:
  assumes "ids_below (seed s) (t_sessions (work s))"
  shows "wp (begin_turn env no_save rq g os tm ag)
      (\<lambda>(cs, run). asked rq (t_messages (work s)) (now s) cs run) (\<lambda>_ _. True) s"
  using begin_turn_asked [OF _ assms] by (intro wp_mono [OF wp_run]) auto

lemma aggregated_turn_replied:
  assumes ids: "ids_below (seed s) (t_sessions (work s))" and ok: "\<And>r. q_insert_refused (ce_quota env) r = None"
  shows "wp (aggregated_turn env rq g ctx st) (replied rq s) (\<lambda>_ _. True) s"
proof -
  have "wp (mbind (drain_stream env run (st (row_id cs))) (\<lambda>(parts, tokens).
       let output = merge_content_parts parts in
       mbind (complete_turn env no_save rq g (quota_model os ag) cs run output tokens) (\<lambda>_.
         mret (chat_reply cs run os tm ag output)))) (replied rq s) (\<lambda>_ _. True) s1"
    if "asked rq (t_messages (work s)) (now s) cs run s1" for cs run os tm ag s1
    unfolding wp_bind [of "drain_stream e r z" for e r z]
    by (rule wp_keeps [OF asked_drain that]) (auto simp: Let_def split: prod.split intro!: finish_replied ok)
  then show ?thesis
    unfolding aggregated_turn_def
    by (auto simp: wp_bind [of "begin_turn e z r g' a b c" for e z r g' a b c] wp_bind [of "mlift f" for f] wp_basic
        simp del: run_bind_basic split: sum.split prod.split intro!: wp_mono [OF begun_asked [OF ids]])
qed

lemma text_turn_replied:
  assumes ids: "ids_below (seed s) (t_sessions (work s))" and ok: "\<And>r. q_insert_refused (ce_quota env) r = None"
  shows "wp (text_turn env rq g ctx ans) (replied rq s) (\<lambda>_ _. True) s"
  unfolding text_turn_def
  by (auto simp: wp_bind [of "begin_turn e z r g' a b c" for e z r g' a b c] wp_bind [of "mlift f" for f] wp_basic
      simp del: run_bind_basic split: sum.split prod.split intro!: wp_mono [OF begun_asked [OF ids]] finish_replied ok)

lemma handle_chat_replied:
  assumes "ids_below (seed s) (t_sessions (work s))" "\<And>r. q_insert_refused (ce_quota env) r = None"
  shows "wp (handle_chat env rq) (replied (effective_request env rq) s) (\<lambda>_ _. True) s"
  using aggregated_turn_replied [OF assms, of "effective_request env rq"] text_turn_replied [OF assms, of "effective_request env rq"]
  by (auto simp: handle_chat_def resolve_identity_eq wp_bind [of "mlift f" for f] wp_basic simp del: run_bind_basic
      split: sum.split dispatch_ctx.split)

lemma insort_key_append: "(\<And>y. y \<in> set ys \<Longrightarrow> f x \<le> f y) \<Longrightarrow> insort_key f x (xs @ ys) = insort_key f x xs @ ys"
proof (induction xs)
  case Nil
  then show ?case by (cases ys) auto
qed simp

lemma sort_key_append_later:
  "(\<And>x y. x \<in> set xs \<Longrightarrow> y \<in> set ys \<Longrightarrow> f x \<le> f y) \<Longrightarrow> sort_key f (xs @ ys) = sort_key f xs @ sort_key f ys"
  by (induction xs) (auto intro!: insort_key_append)

lemma session_messages_answered:
  assumes "answered rq (t_messages d) t cs run_id output d'" "\<And>m. m \<in> set (t_messages d) \<Longrightarrow> created_at m \<le> t"
  shows "\<exists>i j. session_messages (row_id cs) d' = session_messages (row_id cs) d @
     [new_message (row_id cs) run_id RoleUser (cq_message rq) i t, new_message (row_id cs) run_id RoleAssistant output j t]"
proof -
  from assms(1) obtain i j where "t_messages d' = t_messages d @ [new_message (row_id cs) run_id RoleUser (cq_message rq) i t,
     new_message (row_id cs) run_id RoleAssistant output j t]"
    by (auto simp: answered_def)
  then show ?thesis
    unfolding session_messages_def using assms(2)
    by (intro exI [of _ i] exI [of _ j]) (simp, subst sort_key_append_later, auto simp: new_message_def)
qed

lemma get_session_only:
  assumes "only_session cs d"
  shows "get_session (row_id cs) user d =
    (if user = None \<or> user = cs_user_id cs then Inr (cs, session_messages (row_id cs) d)
     else Inl (mk_error NotFoundError (''ChatSession '' @ row_id cs @ '' not found'')))"
proof -
  have "filter (\<lambda>x. row_id x = row_id cs \<and> live x \<and> Q x) (t_sessions d) = filter Q [cs]" for Q
  proof -
    have "filter (\<lambda>x. row_id x = row_id cs \<and> live x \<and> Q x) (t_sessions d)
        = filter Q (filter (\<lambda>x. row_id x = row_id cs \<and> live x) (t_sessions d))"
      by (simp add: conj_assoc)
    then show ?thesis using assms by (simp only: only_session_def)
  qed
  then show ?thesis
    using assms by (cases user) (auto simp: get_session_def get_with_messages_def only_session_def)
qed

lemma chat_reply_durable:
  assumes "get_db (chat_route env rq) s = (Inr r, s')"
  shows "\<exists>s1. handle_chat env rq s = (Inr r, s1) \<and> durable s' = work s1"
proof (cases "cq_message rq = []")
  case True
  with assms show ?thesis by (simp add: chat_route_def valid_request_def get_db_def mcatch_def mbind_def)
next
  case False
  with assms show ?thesis
    by (cases "handle_chat env rq s"; cases "fst (handle_chat env rq s)")
       (auto simp: chat_route_def valid_request_def get_db_Inr get_db_Inl)
qed


lemma demo_chat_answered: "\<not> isl (fst (get_db (chat_route demo_chat_env demo_request) (tn_sess demo_turn)))"
  by code_simp


end
