(* ===== verification/Triggers.thy ===== *)
theory Triggers
  imports Skills Workflow
begin

text \<open>
  The tool through which an agent starts a workflow (\<open>WorkflowSkillService._make_trigger_tool\<close> in
  \<open>app/workflowskill/service.py\<close>): the guard of \<open>Skills\<close> around a run of \<open>Workflow\<close>, inside the transaction of the
  agent's own turn.
\<close>

subsection \<open>The tool\<close>

text \<open>\<open>Khong the chay workflow '...': ...\<close>, in Vietnamese script.\<close>

definition cannot_run :: "string \<Rightarrow> string \<Rightarrow> string" where
  "cannot_run workflow_code m =
     ''Kh'' @ [CHR 0xC3, CHR 0xB4] @ ''ng th'' @ [CHR 0xE1, CHR 0xBB, CHR 0x83] @ '' ch'' @ [CHR 0xE1, CHR 0xBA, CHR 0xA1] @
     ''y workflow '' @ quoted workflow_code @ '': '' @ m"

definition trigger_request :: "trigger_tool \<Rightarrow> string \<Rightarrow> app_error + workflow_request" where
  "trigger_request tool input_text =
     (if input_text = [] then Inl (mk_error (PyException ''ValidationError'') ''String should have at least 1 character'')
      else Inr \<lparr>wq_input = input_text,
                wq_session_id = (if tt_session_id tool = [] then None else Some (tt_session_id tool)),
                wq_user_id = tt_user_id tool\<rparr>)"

definition shown_result :: "string \<Rightarrow> string" where
  "shown_result res = (if res = [] then ''(workflow completed with empty result)'' else res)"

text \<open>The agents of the workflow run in the context the guard sets, so the engine's environment depends on it.\<close>

definition trigger_workflow ::
  "(trigger_ctx \<Rightarrow> engine_env) \<Rightarrow> trigger_tool \<Rightarrow> string \<Rightarrow> trigger_ctx \<Rightarrow> ('r sess, string) prog" where
  "trigger_workflow env tool input_text ctx =
     on_runtime_error
       (mbind (mlift (\<lambda>_. enter_workflow_trigger (tt_workflow_code tool) (tt_max_depth tool) ctx)) (\<lambda>ctx'.
        mbind (mlift (\<lambda>_. trigger_request tool input_text)) (\<lambda>rq.
        mbind (run_workflow (env ctx') (tt_workflow_id tool) rq) (\<lambda>(run, res).
          mret (shown_result res)))))
       (\<lambda>e. mret (cannot_run (tt_workflow_code tool) (err_message e)))"

subsection \<open>What the agent is told\<close>


text \<open>While the steps run, the record of the run and what is committed stay as they are, and the only error that can end
  the loop is the failure of a step.\<close>

definition run_open :: "workflow_run \<Rightarrow> db \<Rightarrow> 'r sess \<Rightarrow> bool" where
  "run_open run D s \<longleftrightarrow> wruns.lookup (row_id run) (work s) = Some run \<and> durable s = D"

lemma wp_open_steps:
  "run_open run D s \<Longrightarrow> wp (start_step R st inp) (\<lambda>_. run_open run D) (\<lambda>_ _. False) s"
  "run_open run D s \<Longrightarrow> wp (complete_step rs out) (\<lambda>_. run_open run D) (\<lambda>_ _. False) s"
  "run_open run D s \<Longrightarrow> wp (fail_step rs m) (\<lambda>_. run_open run D) (\<lambda>_ _. False) s"
  by (auto simp: run_open_def start_step_def complete_step_def fail_step_def wp_simps)

lemma wp_execute_steps:
  "run_open run D s \<Longrightarrow>
     wp (execute_steps f (start_step R) complete_step fail_step inp0 results cur sts) (\<lambda>_. run_open run D)
       (\<lambda>e s'. run_open run D s' \<and> err_class e = RuntimeExecutionError) s"
proof (induction sts arbitrary: results cur s)
  case (Cons st sts)
  show ?case
    unfolding execute_steps.simps Let_def wp_bind
    by (rule wp_mono [OF wp_open_steps(1) [OF Cons.prems]])
      (auto simp: wp_simps step_failure_def runtime_error_def split: sum.split
        intro!: wp_mono [OF wp_open_steps(2)] wp_mono [OF wp_open_steps(3)] Cons.IH)
qed (simp add: wp_basic)

lemma wp_execute:
  "run_open run D s \<Longrightarrow>
     wp (execute f (start_step R) complete_step fail_step inp sts) (\<lambda>_. run_open run D)
       (\<lambda>e s'. run_open run D s' \<and> err_class e = RuntimeExecutionError) s"
  using wp_execute_steps by (auto simp: execute_def wp_simps no_steps_def runtime_error_def)

text \<open>How a run of a workflow that was begun ends, and how one that was not: with nothing written.\<close>

definition recorded_run :: "'r sess \<Rightarrow> 'r sess \<Rightarrow> workflow_run \<Rightarrow> bool" where
  "recorded_run s s' run \<longleftrightarrow> wruns.lookup (row_id run) (work s) = None \<and> wruns.lookup (row_id run) (work s') = Some run"

lemma durable_begin_workflow: "keeps (begin_workflow no_save wid rq) (durable_is D)"
  unfolding begin_workflow_def workflow_session_def create_workflow_run_def workflow_message_def emit_workflow_event_def
    workflow_mark_running_def
  by (auto intro!: inv_intros keeps_create keeps_create_as keeps_save split: option.splits)

lemma workflow_session_refused: "workflow_session wid rq s = (Inl e, s') \<Longrightarrow> s' = s"
  by (auto simp: workflow_session_def repo_create_as_def run_create_no_clash mbind_def Let_def
      split: option.splits sum.splits prod.splits if_splits)

lemma begin_workflow_refused: "begin_workflow no_save wid rq s = (Inl e, s') \<Longrightarrow> s' = s"
  by (cases "workflow_session wid rq s"; cases "fst (workflow_session wid rq s)")
    (auto simp: begin_workflow_def mbind_def [of "workflow_session a b" for a b] create_workflow_run_def workflow_message_def
      workflow_mark_running_def run_create_no_clash run_emit_workflow_event run_save run_bind_Inr no_save_def
      split: sum.splits if_splits dest: workflow_session_refused)

lemma wp_begin_workflow:
  assumes "ids_below (seed s) (t_wruns (work s))"
  shows "wp (begin_workflow no_save wid rq)
    (\<lambda>(steps, cs, run) s1. wruns.lookup (row_id run) (work s) = None \<and> run_open run (durable s) s1) (\<lambda>e s1. s1 = s) s"
proof (cases "begin_workflow no_save wid rq s")
  case run: (Pair r s1)
  have "durable s1 = durable s"
    using keepsD [OF durable_begin_workflow run, of "durable s"] by simp
  with run begin_workflow_refused [of wid rq s] begin_workflow_Inr [OF _ _ assms, of no_save wid rq] show ?thesis
    by (cases r) (force simp: wp_def run_open_def)+
qed

text \<open>The record of a run in one of its two ends.\<close>

definition ended :: "'r sess \<Rightarrow> 'r sess \<Rightarrow> workflow_run_status \<Rightarrow> string \<Rightarrow> bool" where
  "ended s s' st m \<longleftrightarrow> (\<exists>run. recorded_run s s' run \<and> wr_status run = st \<and> wr_completed_at run = Some (now s') \<and>
     (if st = WfCompleted then wr_result run else wr_error_message run) = Some m)"

lemma wp_workflow_completed:
  assumes "run_open run (durable s) s1" "wruns.lookup (row_id run) (work s) = None"
  shows "wp (mbind (workflow_message i RoleAssistant x) (\<lambda>_. mbind (workflow_mark_completed run x) (\<lambda>run. mret (run, x))))
    (\<lambda>(run, res) s'. ended s s' WfCompleted res \<and> durable s' = durable s) (\<lambda>_ _. False) s1"
  using assms
  by (auto simp: wp_simps workflow_message_def wp_create_no_clash workflow_mark_completed_def run_open_def recorded_run_def
      ended_def wruns.lookup_save wruns_lookup_save_comp intro!: exI [of _ "run\<lparr>wr_status := WfCompleted, wr_result := Some x,
        wr_completed_at := Some (now s1)\<rparr>"])

lemma wp_workflow_failed:
  assumes "run_open run (durable s) s1" "wruns.lookup (row_id run) (work s) = None"
  shows "wp (mbind (workflow_mark_failed run m) (\<lambda>_. mraise e))
    (\<lambda>_ _. False) (\<lambda>e' s'. e' = e \<and> ended s s' WfFailed m \<and> durable s' = durable s) s1"
  using assms
  by (auto simp: wp_simps workflow_mark_failed_def run_open_def recorded_run_def ended_def wruns.lookup_save
      wruns_lookup_save_comp intro!: exI [of _ "run\<lparr>wr_status := WfFailed, wr_error_message := Some m,
        wr_completed_at := Some (now s1)\<rparr>"])

lemma wp_executed:
  assumes "run_open run (durable s) s1" "wruns.lookup (row_id run) (work s) = None"
  shows "wp (on_runtime_error (execute f (start_step R) complete_step fail_step inp steps)
             (\<lambda>e. mbind (workflow_mark_failed run (err_message e)) (\<lambda>_. mraise e)))
    (\<lambda>_. run_open run (durable s))
    (\<lambda>e s'. err_class e = RuntimeExecutionError \<and> ended s s' WfFailed (err_message e) \<and> durable s' = durable s) s1"
  unfolding on_runtime_error_def wp_catch
  by (rule wp_mono [OF wp_execute [OF assms(1)]]) (auto intro!: wp_mono [OF wp_workflow_failed] simp: assms(2))

lemma wp_run_workflow:
  assumes "ids_below (seed s) (t_wruns (work s))"
  shows "wp (run_workflow env wid rq) (\<lambda>(run, res) s'. ended s s' WfCompleted res \<and> durable s' = durable s)
    (\<lambda>e s'. s' = s \<or> err_class e = RuntimeExecutionError \<and> ended s s' WfFailed (err_message e) \<and> durable s' = durable s) s"
  unfolding run_workflow_def wp_bind [of "begin_workflow a b c" for a b c]
  by (rule wp_mono [OF wp_begin_workflow [OF assms]])
    (auto simp: wp_bind [of "on_runtime_error a b" for a b] intro!: wp_mono [OF wp_executed] wp_mono [OF wp_workflow_completed])


definition demo_trigger :: trigger_tool where
  "demo_trigger = \<lparr>tt_workflow_id = ''w1'', tt_workflow_code = ''flow'', tt_max_depth = 1, tt_session_id = [],
     tt_user_id = Some ''ann''\<rparr>"

lemma demo_triggered:
  "map wr_status (t_wruns (work (snd (trigger_workflow (\<lambda>_. demo_workflow_engine) demo_trigger ''Hello''
     initial_trigger_ctx demo_workflow_sess)))) = [WfFailed]"
  by code_simp


end
