(* ===== verification/Routes.thy ===== *)
theory Routes
  imports Console
begin

text \<open>
  The routes of the service: the routers of \<open>app/api/v1\<close> with their prefixes, the order \<open>app/api/v1/router.py\<close> and
  \<open>app/main.py\<close> include them in, and which route a request reaches: the first whose method and path match.
\<close>

subsection \<open>Paths\<close>

datatype http_method = Get | Post | Put | Delete

datatype segment = Lit string | Param string

text \<open>A route is a method, a path and the name of its handler.\<close>

type_synonym route = "http_method \<times> segment list \<times> string"
type_synonym router = "route list"

definition prefixed :: "segment list \<Rightarrow> router \<Rightarrow> router" where
  "prefixed pre rs = map (\<lambda>(m, p, h). (m, pre @ p, h)) rs"

text \<open>A parameter of a path stands for one segment that is not empty. FastAPI checks its type only after the route is
  chosen. The redirect of a path that differs from a route by a slash at the end is left out.\<close>

fun match_path :: "segment list \<Rightarrow> string list \<Rightarrow> bool" where
  "match_path [] [] = True"
| "match_path (Lit a # ps) (s # ss) = (s = a \<and> match_path ps ss)"
| "match_path (Param x # ps) (s # ss) = (s \<noteq> [] \<and> match_path ps ss)"
| "match_path _ _ = False"

datatype resolution = Found string | MethodNotAllowed | NoRoute

definition takes :: "http_method \<Rightarrow> string list \<Rightarrow> route \<Rightarrow> bool" where
  "takes m ss r = (fst r = m \<and> match_path (fst (snd r)) ss)"

definition resolve :: "router \<Rightarrow> http_method \<Rightarrow> string list \<Rightarrow> resolution" where
  "resolve rs m ss =
     (case find (takes m ss) rs of
        Some r \<Rightarrow> Found (snd (snd r))
      | None \<Rightarrow> if list_ex (\<lambda>r. match_path (fst (snd r)) ss) rs then MethodNotAllowed else NoRoute)"

definition path_segments :: "string \<Rightarrow> string list" where
  "path_segments path = (if path = ''/'' then [] else split_on (CHR 0x2F) (drop 1 path))"

subsection \<open>The routers\<close>

definition agent_os_router :: router where
  "agent_os_router = prefixed [Lit ''agent-os'']
     [(Get, [], ''agent_os.list_agent_os''),
      (Post, [], ''agent_os.create_agent_os''),
      (Get, [Param ''agent_os_id''], ''agent_os.get_agent_os''),
      (Put, [Param ''agent_os_id''], ''agent_os.update_agent_os''),
      (Delete, [Param ''agent_os_id''], ''agent_os.delete_agent_os'')]"

definition teams_router :: router where
  "teams_router = prefixed [Lit ''teams'']
     [(Get, [], ''teams.list_teams''),
      (Post, [], ''teams.create_team''),
      (Get, [Param ''team_id''], ''teams.get_team''),
      (Put, [Param ''team_id''], ''teams.update_team''),
      (Delete, [Param ''team_id''], ''teams.delete_team'')]"

definition agents_router :: router where
  "agents_router = prefixed [Lit ''agents'']
     [(Get, [], ''agents.list_agents''),
      (Post, [], ''agents.create_agent''),
      (Get, [Param ''agent_id''], ''agents.get_agent''),
      (Put, [Param ''agent_id''], ''agents.update_agent''),
      (Delete, [Param ''agent_id''], ''agents.delete_agent''),
      (Get, [Param ''agent_id'', Lit ''skills''], ''agents.list_agent_skills'')]"

definition prompts_router :: router where
  "prompts_router = prefixed [Lit ''prompts'']
     [(Get, [], ''prompts.list_prompts''),
      (Post, [], ''prompts.create_prompt''),
      (Get, [Param ''prompt_id''], ''prompts.get_prompt''),
      (Put, [Param ''prompt_id''], ''prompts.update_prompt''),
      (Delete, [Param ''prompt_id''], ''prompts.delete_prompt'')]"

definition skills_router :: router where
  "skills_router = prefixed [Lit ''skills'']
     [(Get, [], ''skills.list_skills''),
      (Post, [], ''skills.create_skill''),
      (Get, [Param ''skill_id''], ''skills.get_skill''),
      (Put, [Param ''skill_id''], ''skills.update_skill''),
      (Delete, [Param ''skill_id''], ''skills.delete_skill''),
      (Get, [Param ''skill_id'', Lit ''agents''], ''skills.list_skill_agents''),
      (Post, [Lit ''assign''], ''skills.assign_skill_to_agent''),
      (Post, [Lit ''unassign''], ''skills.unassign_skill_from_agent''),
      (Post, [Param ''skill_id'', Lit ''test''], ''skills.test_skill'')]"

definition capabilities_router :: router where
  "capabilities_router = prefixed [Lit ''capabilities'']
     [(Get, [Lit ''assignments''], ''capabilities.get_assignment''),
      (Post, [Lit ''assignments''], ''capabilities.set_assignment''),
      (Post, [Lit ''resolve''], ''capabilities.resolve_capabilities'')]"

definition models_router :: router where
  "models_router = prefixed [Lit ''models'']
     [(Get, [], ''models.list_models''),
      (Post, [], ''models.create_model''),
      (Get, [Param ''model_id''], ''models.get_model''),
      (Put, [Param ''model_id''], ''models.update_model''),
      (Delete, [Param ''model_id''], ''models.delete_model'')]"

definition chat_router :: router where
  "chat_router = prefixed [Lit ''chat'']
     [(Post, [], ''chat.chat''),
      (Post, [Lit ''stream''], ''chat.chat_stream'')]"

definition sessions_router :: router where
  "sessions_router = prefixed [Lit ''sessions'']
     [(Get, [], ''sessions.list_sessions''),
      (Get, [Param ''session_id''], ''sessions.get_session'')]"

definition runs_router :: router where
  "runs_router = prefixed [Lit ''runs'']
     [(Get, [], ''runs.list_runs''),
      (Get, [Param ''run_id''], ''runs.get_run''),
      (Get, [Param ''run_id'', Lit ''events''], ''runs.list_run_events''),
      (Post, [Param ''run_id'', Lit ''cancel''], ''runs.cancel_run''),
      (Get, [Param ''run_id'', Lit ''stream''], ''runs.stream_run_events'')]"

definition memories_router :: router where
  "memories_router = prefixed []
     [(Get, [Lit ''memories''], ''memories.list_memories''),
      (Get, [Lit ''agents'', Param ''agent_id'', Lit ''memories''], ''memories.list_agent_memories''),
      (Delete, [Lit ''memories'', Param ''memory_id''], ''memories.delete_memory'')]"

definition workflows_router :: router where
  "workflows_router = prefixed [Lit ''workflows'']
     [(Get, [], ''workflows.list_workflows''),
      (Post, [], ''workflows.create_workflow''),
      (Get, [Param ''workflow_id''], ''workflows.get_workflow''),
      (Put, [Param ''workflow_id''], ''workflows.update_workflow''),
      (Delete, [Param ''workflow_id''], ''workflows.delete_workflow''),
      (Post, [Param ''workflow_id'', Lit ''run''], ''workflows.run_workflow''),
      (Post, [Param ''workflow_id'', Lit ''run'', Lit ''stream''], ''workflows.run_workflow_stream'')]"

definition workflow_runs_router :: router where
  "workflow_runs_router = prefixed [Lit ''workflow-runs'']
     [(Get, [], ''workflow_runs.list_workflow_runs''),
      (Get, [Param ''workflow_run_id''], ''workflow_runs.get_workflow_run''),
      (Get, [Param ''workflow_run_id'', Lit ''steps''], ''workflow_runs.get_workflow_run_steps''),
      (Get, [Param ''workflow_run_id'', Lit ''events''], ''workflow_runs.get_workflow_run_events'')]"

definition attachments_router :: router where
  "attachments_router = prefixed [Lit ''attachments'']
     [(Post, [Lit ''upload''], ''attachments.upload_attachment'')]"

definition ui_metadata_router :: router where
  "ui_metadata_router = prefixed [Lit ''ui-metadata'']
     [(Get, [], ''ui_metadata.list_ui_metadata''),
      (Post, [], ''ui_metadata.create_ui_metadata''),
      (Get, [Param ''entry_id''], ''ui_metadata.get_ui_metadata''),
      (Get, [Lit ''by-code'', Param ''code'', Lit ''latest''], ''ui_metadata.get_latest_ui_metadata''),
      (Put, [Param ''entry_id''], ''ui_metadata.update_ui_metadata''),
      (Delete, [Param ''entry_id''], ''ui_metadata.delete_ui_metadata'')]"

definition business_objects_router :: router where
  "business_objects_router = prefixed [Lit ''business-objects'']
     [(Get, [], ''business_objects.list_business_objects''),
      (Post, [], ''business_objects.create_business_object''),
      (Get, [Param ''object_id''], ''business_objects.get_business_object''),
      (Get, [Lit ''by-code'', Param ''code'', Lit ''latest''], ''business_objects.get_latest_business_object''),
      (Put, [Param ''object_id''], ''business_objects.update_business_object''),
      (Delete, [Param ''object_id''], ''business_objects.delete_business_object'')]"

definition observations_router :: router where
  "observations_router = prefixed [Lit ''observations'']
     [(Get, [], ''observations.list_observations'')]"

definition runtime_events_router :: router where
  "runtime_events_router = prefixed [Lit ''runtime-events'']
     [(Post, [], ''runtime_events.emit_runtime_event''),
      (Get, [], ''runtime_events.list_runtime_events''),
      (Get, [Lit ''stream''], ''runtime_events.stream_runtime_events'')]"

definition execution_plans_router :: router where
  "execution_plans_router = prefixed [Lit ''execution-plans'']
     [(Post, [Lit ''run''], ''execution_plans.run_execution_plan'')]"

definition workflow_schedules_router :: router where
  "workflow_schedules_router = prefixed []
     [(Post, [Lit ''workflows'', Param ''workflow_id'', Lit ''schedules''], ''workflow_schedules.create_schedule''),
      (Get, [Lit ''workflows'', Param ''workflow_id'', Lit ''schedules''], ''workflow_schedules.list_schedules''),
      (Get, [Lit ''schedules'', Param ''schedule_id''], ''workflow_schedules.get_schedule''),
      (Put, [Lit ''schedules'', Param ''schedule_id''], ''workflow_schedules.update_schedule''),
      (Delete, [Lit ''schedules'', Param ''schedule_id''], ''workflow_schedules.delete_schedule''),
      (Post, [Lit ''schedules'', Param ''schedule_id'', Lit ''trigger''], ''workflow_schedules.trigger_schedule_now'')]"

definition workflow_webhooks_router :: router where
  "workflow_webhooks_router = prefixed []
     [(Post, [Lit ''workflows'', Param ''workflow_id'', Lit ''webhooks''], ''workflow_webhooks.create_webhook''),
      (Get, [Lit ''workflows'', Param ''workflow_id'', Lit ''webhooks''], ''workflow_webhooks.list_webhooks''),
      (Put, [Lit ''webhooks'', Param ''webhook_id''], ''workflow_webhooks.update_webhook''),
      (Delete, [Lit ''webhooks'', Param ''webhook_id''], ''workflow_webhooks.delete_webhook''),
      (Post, [Lit ''webhooks'', Param ''token'', Lit ''invoke''], ''workflow_webhooks.invoke_webhook'')]"

definition quota_router :: router where
  "quota_router = prefixed [Lit ''quota'']
     [(Get, [Lit ''policies''], ''quota.list_quota_policies''),
      (Post, [Lit ''policies''], ''quota.create_quota_policy''),
      (Get, [Lit ''policies'', Param ''policy_id''], ''quota.get_quota_policy''),
      (Put, [Lit ''policies'', Param ''policy_id''], ''quota.update_quota_policy''),
      (Delete, [Lit ''policies'', Param ''policy_id''], ''quota.delete_quota_policy''),
      (Get, [Lit ''usage''], ''quota.get_quota_usage'')]"

text \<open>\<open>app/observability/health.py\<close>, \<open>app/api/v1/router.py\<close> and the application.\<close>

definition health_router :: router where
  "health_router =
     [(Get, [Lit ''health''], ''health.health''), (Get, [Lit ''ready''], ''health.ready''),
      (Get, [Lit ''version''], ''health.version'')]"

definition included_routers :: "router list" where
  "included_routers =
     [agent_os_router, teams_router, agents_router, prompts_router,
      skills_router, capabilities_router, models_router, chat_router,
      sessions_router, runs_router, memories_router, workflows_router,
      workflow_runs_router, attachments_router, ui_metadata_router, business_objects_router,
      observations_router, runtime_events_router, execution_plans_router, workflow_schedules_router,
      workflow_webhooks_router, quota_router]"

definition v1_routers :: router where
  "v1_routers = concat included_routers"

definition api_router :: router where
  "api_router = prefixed (map Lit [''api'', ''v1'']) v1_routers"

definition app_routes :: router where
  "app_routes = health_router @ api_router @ [(Get, [], ''main.root'')]"

lemmas router_defs =
  api_router_def v1_routers_def included_routers_def
  agent_os_router_def teams_router_def agents_router_def prompts_router_def
  skills_router_def capabilities_router_def models_router_def chat_router_def
  sessions_router_def runs_router_def memories_router_def workflows_router_def
  workflow_runs_router_def attachments_router_def ui_metadata_router_def business_objects_router_def
  observations_router_def runtime_events_router_def execution_plans_router_def workflow_schedules_router_def
  workflow_webhooks_router_def quota_router_def

subsection \<open>Every route is reachable\<close>

text \<open>A request for a route with some text in the place of its parameters.\<close>

fun fill :: "string \<Rightarrow> segment \<Rightarrow> string" where
  "fill v (Lit a) = a"
| "fill v (Param x) = v"

fun literals :: "segment list \<Rightarrow> string list" where
  "literals [] = []"
| "literals (Lit a # ps) = a # literals ps"
| "literals (Param x # ps) = literals ps"

text \<open>An earlier path takes every request of a later one.\<close>

fun covers :: "segment list \<Rightarrow> segment list \<Rightarrow> bool" where
  "covers [] [] = True"
| "covers (Param x # ps) (Lit a # qs) = (a \<noteq> [] \<and> covers ps qs)"
| "covers (Param x # ps) (Param y # qs) = covers ps qs"
| "covers (Lit a # ps) (Lit b # qs) = (if a = b then covers ps qs else False)"
| "covers _ _ = False"

fun unshadowed :: "router \<Rightarrow> bool" where
  "unshadowed [] = True"
| "unshadowed (r # rs) =
     (list_all (\<lambda>q. \<not> (fst q = fst r \<and> covers (fst (snd r)) (fst (snd q)))) rs \<and> unshadowed rs)"

lemma covers_length: "covers ps qs \<Longrightarrow> length qs = length ps"
  by (induction ps qs rule: covers.induct) (auto split: if_splits)

lemma match_fill: "v \<noteq> [] \<Longrightarrow> v \<notin> set (literals ps) \<Longrightarrow> match_path ps (map (fill v) qs) = covers ps qs"
  by (induction ps qs rule: covers.induct) auto

lemma covers_refl: "[] \<notin> set (literals ps) \<Longrightarrow> covers ps ps"
proof (induction ps)
  case (Cons p ps)
  then show ?case by (cases p) auto
qed simp

lemma find_unshadowed:
  assumes "unshadowed rs" "r \<in> set rs" "v \<noteq> []" "\<forall>q \<in> set rs. v \<notin> set (literals (fst (snd q))) \<and> [] \<notin> set (literals (fst (snd q)))"
  shows "find (takes (fst r) (map (fill v) (fst (snd r)))) rs = Some r"
  using assms
proof (induction rs)
  case (Cons q rs)
  have q: "takes (fst r) (map (fill v) (fst (snd r))) q \<longleftrightarrow> fst q = fst r \<and> covers (fst (snd q)) (fst (snd r))"
    using Cons.prems(3,4) by (auto simp: takes_def match_fill)
  show ?case
  proof (cases "r = q")
    case True
    with q Cons.prems(4) show ?thesis by (simp add: covers_refl)
  next
    case False
    with Cons.prems(1,2) have "\<not> (fst q = fst r \<and> covers (fst (snd q)) (fst (snd r)))"
      by (auto simp: list_all_iff)
    with q False Cons show ?thesis by simp
  qed
qed simp

lemma covers_prefixed: "covers (map Lit as @ ps) (map Lit as @ qs) = covers ps qs"
  by (induction as) auto

lemma unshadowed_prefixed: "unshadowed (prefixed (map Lit as) rs) = unshadowed rs"
  unfolding prefixed_def
  by (induction rs) (auto simp: list_all_iff covers_prefixed case_prod_beta)

lemma prefixed_length: "r \<in> set (prefixed pre rs) \<Longrightarrow> length pre \<le> length (fst (snd r))"
  by (auto simp: prefixed_def)

text \<open>The same check as it is computed. Two routers whose paths begin with different words cannot be in each other's
  way.\<close>

fun in_the_way :: "route \<Rightarrow> route \<Rightarrow> bool" where
  "in_the_way (m, p, h) (m', p', h') = (if m = m' then covers p p' else False)"

fun no_way :: "router \<Rightarrow> bool" where
  "no_way [] = True"
| "no_way (r # rs) = (if list_ex (in_the_way r) rs then False else no_way rs)"

fun first_word :: "route \<Rightarrow> string" where
  "first_word (m, Lit a # p, h) = a"
| "first_word (m, p, h) = []"

definition first_words :: "router \<Rightarrow> string list" where
  "first_words rs = remdups (map first_word rs)"

fun apart :: "string list \<times> router \<Rightarrow> string list \<times> router \<Rightarrow> bool" where
  "apart (as, rs) (bs, qs) =
     (if list_ex (\<lambda>a. if a = [] then True else list_ex (\<lambda>b. a = b \<or> b = []) bs) as
      then list_all (\<lambda>r. \<not> list_ex (in_the_way r) qs) rs else True)"

fun all_apart :: "(string list \<times> router) list \<Rightarrow> bool" where
  "all_apart [] = True"
| "all_apart (x # xs) = (if list_all (apart x) xs then all_apart xs else False)"

lemma in_the_way_iff: "in_the_way r q \<longleftrightarrow> fst q = fst r \<and> covers (fst (snd r)) (fst (snd q))"
  by (cases r; cases q) auto

lemma no_way_unshadowed: "no_way rs \<Longrightarrow> unshadowed rs"
  by (induction rs) (auto simp: in_the_way_iff list_all_iff list_ex_iff split: if_splits)

lemma unshadowed_append:
  "unshadowed (xs @ ys) \<longleftrightarrow> unshadowed xs \<and> unshadowed ys \<and> (\<forall>r \<in> set xs. \<forall>q \<in> set ys. \<not> in_the_way r q)"
  by (induction xs) (auto simp: list_all_iff in_the_way_iff)

lemma in_the_way_words:
  "in_the_way r q \<Longrightarrow> first_word r = [] \<or> first_word q = [] \<or> first_word r = first_word q"
  by (cases "(r, q)" rule: prod.exhaust, cases r rule: first_word.cases; cases q rule: first_word.cases)
    (auto split: if_splits)

lemma apartD:
  assumes "apart (first_words rs, rs) (first_words qs, qs)" "r \<in> set rs" "q \<in> set qs"
  shows "\<not> in_the_way r q"
  using assms in_the_way_words [of r q]
  by (force simp: first_words_def list_all_iff list_ex_iff split: if_splits)

lemma all_apart_unshadowed:
  "all_apart (map (\<lambda>rs. (first_words rs, rs)) rss) \<Longrightarrow> list_all unshadowed rss \<Longrightarrow> unshadowed (concat rss)"
proof (induction rss)
  case (Cons rs rss)
  have "\<not> in_the_way r q" if "r \<in> set rs" "q \<in> set (concat rss)" for r q
  proof -
    from that(2) obtain qs where "qs \<in> set rss" "q \<in> set qs" by auto
    with Cons.prems(1) that(1) show ?thesis
      by (intro apartD [of rs qs]) (auto simp: list_all_iff split: if_splits)
  qed
  with Cons show ?case by (auto simp: unshadowed_append split: if_splits)
qed simp

lemma routers_apart: "all_apart (map (\<lambda>rs. (first_words rs, rs)) included_routers)"
  by code_simp

lemma routers_unshadowed: "list_all no_way included_routers"
  by code_simp

lemma v1_routers_unshadowed: "unshadowed v1_routers"
  unfolding v1_routers_def using routers_unshadowed
  by (intro all_apart_unshadowed routers_apart) (auto simp: list_all_iff intro: no_way_unshadowed)

lemma unshadowed_lengths:
  "unshadowed xs \<Longrightarrow> unshadowed ys \<Longrightarrow>
     (\<And>r q. r \<in> set xs \<Longrightarrow> q \<in> set ys \<Longrightarrow> length (fst (snd q)) \<noteq> length (fst (snd r))) \<Longrightarrow> unshadowed (xs @ ys)"
  unfolding unshadowed_append in_the_way_iff using covers_length by blast

lemma health_lengths: "r \<in> set health_router \<Longrightarrow> length (fst (snd r)) = 1"
  by (auto simp: health_router_def)

lemma api_lengths: "r \<in> set api_router \<Longrightarrow> 2 \<le> length (fst (snd r))"
  using prefixed_length [of r "map Lit [''api'', ''v1'']" v1_routers] by (simp add: api_router_def)

lemma app_routes_unshadowed: "unshadowed app_routes"
proof -
  have "unshadowed api_router"
    unfolding api_router_def unshadowed_prefixed by (rule v1_routers_unshadowed)
  then have "unshadowed (api_router @ [(Get, [], ''main.root'')])"
    by (rule unshadowed_lengths) (auto dest: api_lengths)
  moreover have "unshadowed health_router" by (simp add: health_router_def)
  moreover have "length (fst (snd q)) \<noteq> 1" if "q \<in> set (api_router @ [(Get, [], ''main.root'')])" for q
    using that api_lengths [of q] by auto
  ultimately show ?thesis
    unfolding app_routes_def by - (rule unshadowed_lengths; simp add: health_lengths)
qed

definition route_literals :: "router \<Rightarrow> string list" where
  "route_literals rs = concat (map (\<lambda>r. literals (fst (snd r))) rs)"

lemma route_literals_nonempty: "[] \<notin> set (route_literals app_routes)"
  by code_simp

text \<open>C21. No route is shadowed by another: whatever text that is not itself a word of some route's path stands for its
  parameters, a request reaches the handler its route names, although fixed words (\<open>/skills/assign\<close>,
  \<open>/runtime-events/stream\<close>) and parameters (\<open>/skills/{skill_id}\<close>) share places in the table.\<close>

theorem every_route_reachable:
  assumes "(m, p, h) \<in> set app_routes" "v \<noteq> []" "v \<notin> set (route_literals app_routes)"
  shows "resolve app_routes m (map (fill v) p) = Found h"
proof -
  have "\<forall>q \<in> set app_routes. v \<notin> set (literals (fst (snd q))) \<and> [] \<notin> set (literals (fst (snd q)))"
    using assms(3) route_literals_nonempty by (auto simp: route_literals_def)
  from find_unshadowed [OF app_routes_unshadowed assms(1,2) this] show ?thesis
    by (simp add: resolve_def)
qed

theorem every_route_reachable_witness:
  "resolve app_routes Post [''api'', ''v1'', ''skills'', ''42'', ''test''] = Found ''skills.test_skill''"
proof -
  let ?p = "[Lit ''api'', Lit ''v1'', Lit ''skills'', Param ''skill_id'', Lit ''test'']"
  have "(Post, ?p, ''skills.test_skill'') \<in> set app_routes"
    by (simp add: app_routes_def router_defs prefixed_def health_router_def)
  moreover have "''42'' \<notin> set (route_literals app_routes)" by code_simp
  ultimately show ?thesis
    using every_route_reachable [of Post ?p "''skills.test_skill''" "''42''"] by simp
qed

subsection \<open>The address of a webhook\<close>

lemma path_segments_join:
  assumes "ps \<noteq> []" "\<forall>p \<in> set ps. p \<noteq> [] \<and> CHR 0x2F \<notin> set p"
  shows "path_segments (CHR 0x2F # join_str [CHR 0x2F] ps) = ps"
proof -
  have "join_str [CHR 0x2F] ps \<noteq> []" using assms by (cases ps; cases "tl ps") auto
  with split_on_join [of ps "CHR 0x2F"] assms show ?thesis by (simp add: path_segments_def)
qed

lemma webhook_routes:
  assumes "tok \<noteq> []"
  shows "resolve app_routes Post [''webhooks'', tok] = NoRoute"
    "resolve app_routes Post [''api'', ''v1'', ''webhooks'', tok] = MethodNotAllowed"
    "resolve app_routes Post [''api'', ''v1'', ''webhooks'', tok, ''invoke''] = Found ''workflow_webhooks.invoke_webhook''"
  using assms
  by (simp_all add: resolve_def takes_def app_routes_def router_defs prefixed_def health_router_def)

text \<open>The address the API reports for a webhook leads nowhere: a request posted to the reported path reaches no
  route, under the prefix of the API it is refused as a method that is not allowed (the path belongs to the management
  of webhooks), and only with \<open>/invoke\<close> after the token it reaches the handler.\<close>

theorem reported_webhook_path_is_dead:
  assumes "wh_webhook_token w \<noteq> []" "CHR 0x2F \<notin> set (wh_webhook_token w)"
  shows "resolve app_routes Post (path_segments (invoke_path w)) = NoRoute \<and>
    resolve app_routes Post (path_segments (''/api/v1'' @ invoke_path w)) = MethodNotAllowed \<and>
    resolve app_routes Post (path_segments (''/api/v1'' @ invoke_path w @ ''/invoke'')) =
      Found ''workflow_webhooks.invoke_webhook''"
proof -
  let ?t = "wh_webhook_token w"
  have "path_segments (invoke_path w) = [''webhooks'', ?t]"
    using path_segments_join [of "[''webhooks'', ?t]"] assms by (simp add: invoke_path_def)
  moreover have "path_segments (''/api/v1'' @ invoke_path w) = [''api'', ''v1'', ''webhooks'', ?t]"
    using path_segments_join [of "[''api'', ''v1'', ''webhooks'', ?t]"] assms by (simp add: invoke_path_def)
  moreover have "path_segments (''/api/v1'' @ invoke_path w @ ''/invoke'') = [''api'', ''v1'', ''webhooks'', ?t, ''invoke'']"
    using path_segments_join [of "[''api'', ''v1'', ''webhooks'', ?t, ''invoke'']"] assms by (simp add: invoke_path_def)
  ultimately show ?thesis using webhook_routes [OF assms(1)] by simp
qed

theorem reported_webhook_path_is_dead_witness:
  "resolve app_routes Post (path_segments ''/webhooks/tok'') = NoRoute"
  using reported_webhook_path_is_dead [of demo_webhook]
  by (simp add: demo_webhook_def new_webhook_def invoke_path_def)

end
