(* ===== verification/Schema.thy ===== *)
theory Schema
  imports Prelude
begin

text \<open>
  The language the migration scripts under \<open>alembic/versions\<close> are written in: a database schema (enumeration types,
  tables with their columns and constraints, indexes), the operations of Alembic's \<open>op\<close> the scripts call, each with
  the effect and the refusals PostgreSQL documents for the statement it emits, and the execution of a list of them.
  Only the schema is modelled; no operation of the scripts writes rows.
\<close>

subsection \<open>Schemas\<close>

datatype sql_type = SqlUuid | SqlVarchar nat | SqlText | SqlFloat | SqlInteger | SqlBigInt | SqlBoolean
  | SqlTimestamptz | SqlJsonb | SqlEnum string

text \<open>A server default is a literal or an expression (\<open>sa.text\<close>, \<open>sa.true()\<close>).\<close>

datatype server_default = Literal string | Expression string

text \<open>A foreign key names a table, its column and the \<open>ON DELETE\<close> rule, \<open>''''\<close> for none.\<close>

record column =
  cl_name :: string
  cl_type :: sql_type
  cl_nullable :: bool
  cl_default :: "server_default option"
  cl_references :: "(string \<times> string \<times> string) option"

type_synonym named_columns = "string \<times> string list"

record table_def =
  tb_name :: string
  tb_columns :: "column list"
  tb_pkey :: "named_columns option"
  tb_uniques :: "named_columns list"

record index_def =
  ix_name :: string
  ix_table :: string
  ix_columns :: "string list"

record schema =
  sc_enums :: "(string \<times> string list) list"
  sc_tables :: "table_def list"
  sc_indexes :: "index_def list"

definition empty_schema :: schema where
  "empty_schema = \<lparr>sc_enums = [], sc_tables = [], sc_indexes = []\<rparr>"

text \<open>The ways a column is declared.\<close>

definition required :: "string \<Rightarrow> sql_type \<Rightarrow> column" where
  "required c t = \<lparr>cl_name = c, cl_type = t, cl_nullable = False, cl_default = None, cl_references = None\<rparr>"

definition nullable :: "string \<Rightarrow> sql_type \<Rightarrow> column" where
  "nullable c t = \<lparr>cl_name = c, cl_type = t, cl_nullable = True, cl_default = None, cl_references = None\<rparr>"

definition refers :: "string \<Rightarrow> string \<Rightarrow> string \<Rightarrow> column \<Rightarrow> column" where
  "refers t k on_delete c = c\<lparr>cl_references := Some (t, k, on_delete)\<rparr>"

definition defaults :: "server_default \<Rightarrow> column \<Rightarrow> column" where
  "defaults d c = c\<lparr>cl_default := Some d\<rparr>"

definition index_on :: "string \<Rightarrow> string \<Rightarrow> string list \<Rightarrow> index_def" where
  "index_on n t cs = \<lparr>ix_name = n, ix_table = t, ix_columns = cs\<rparr>"

text \<open>Columns that return in most tables, as every script spells them.\<close>

definition id_column :: column where
  "id_column = required ''id'' SqlUuid"

definition timestamp_columns :: "column list" where
  "timestamp_columns =
     [defaults (Expression ''now()'') (required ''created_at'' SqlTimestamptz),
      defaults (Expression ''now()'') (required ''updated_at'' SqlTimestamptz)]"

definition deleted_column :: column where
  "deleted_column = nullable ''deleted_at'' SqlTimestamptz"

subsection \<open>What a statement checks\<close>

text \<open>Tables and indexes, those of the constraints included, share one name space.\<close>

definition table_relations :: "table_def \<Rightarrow> string list" where
  "table_relations t = tb_name t # (case tb_pkey t of None \<Rightarrow> [] | Some k \<Rightarrow> [fst k]) @ map fst (tb_uniques t)"

definition relation_names :: "schema \<Rightarrow> string list" where
  "relation_names s = concat (map table_relations (sc_tables s)) @ map ix_name (sc_indexes s)"

definition find_table :: "string \<Rightarrow> schema \<Rightarrow> table_def option" where
  "find_table t s = find (\<lambda>x. tb_name x = t) (sc_tables s)"

definition has_column :: "table_def \<Rightarrow> string \<Rightarrow> bool" where
  "has_column t c \<longleftrightarrow> list_ex (\<lambda>x. cl_name x = c) (tb_columns t)"

fun type_exists :: "schema \<Rightarrow> sql_type \<Rightarrow> bool" where
  "type_exists s (SqlEnum e) = list_ex (\<lambda>x. fst x = e) (sc_enums s)"
| "type_exists s t = True"

definition table_ok :: "table_def \<Rightarrow> bool" where
  "table_ok t \<longleftrightarrow> list_all (\<lambda>u. list_all (has_column t) (snd u)) (tb_uniques t) \<and>
     (case tb_pkey t of None \<Rightarrow> True | Some k \<Rightarrow> list_all (has_column t) (snd k))"

text \<open>A foreign key needs a unique key on the column it refers to.\<close>

definition is_key :: "string \<Rightarrow> table_def \<Rightarrow> bool" where
  "is_key c t \<longleftrightarrow> (case tb_pkey t of None \<Rightarrow> False | Some k \<Rightarrow> snd k = [c]) \<or> list_ex (\<lambda>u. snd u = [c]) (tb_uniques t)"

definition reference_ok :: "table_def list \<Rightarrow> column \<Rightarrow> bool" where
  "reference_ok ts c = (case cl_references c of
     None \<Rightarrow> True
   | Some (t, k, _) \<Rightarrow> list_ex (\<lambda>x. tb_name x = t \<and> is_key k x) ts)"

definition references_ok :: "schema \<Rightarrow> bool" where
  "references_ok s \<longleftrightarrow> list_all (\<lambda>t. list_all (reference_ok (sc_tables s)) (tb_columns t)) (sc_tables s)"

definition types_ok :: "schema \<Rightarrow> bool" where
  "types_ok s \<longleftrightarrow> list_all (\<lambda>t. list_all (\<lambda>c. type_exists s (cl_type c)) (tb_columns t)) (sc_tables s)"

definition set_table :: "table_def \<Rightarrow> schema \<Rightarrow> schema" where
  "set_table t s = s\<lparr>sc_tables := map (\<lambda>x. if tb_name x = tb_name t then t else x) (sc_tables s)\<rparr>"

subsection \<open>Statements\<close>

datatype ddl_error =
    DuplicateRelation string
  | UndefinedTable string
  | DuplicateColumn string string
  | UndefinedColumn string string
  | UndefinedObject string
  | DependentObjects string

text \<open>
  \<open>ENUM.create\<close> and \<open>ENUM.drop\<close> are always called with \<open>checkfirst=True\<close>; \<open>AddEnumValue\<close> is
  \<open>ALTER TYPE ... ADD VALUE IF NOT EXISTS\<close>; \<open>DropDefault\<close> is \<open>alter_column(server_default=None)\<close>.
\<close>

datatype statement =
    CreateEnum string "string list"
  | DropEnum string
  | AddEnumValue string string
  | CreateTable table_def
  | DropTable string
  | CreateIndex index_def
  | DropIndex string
  | AddColumn string column
  | DropColumn string string
  | DropDefault string string
  | AddUnique string named_columns
  | DropUnique string string

text \<open>A removal that leaves a reference or a column type dangling is refused.\<close>

definition unless_needed :: "string \<Rightarrow> schema \<Rightarrow> ddl_error + schema" where
  "unless_needed n s = (if references_ok s \<and> types_ok s then Inr s else Inl (DependentObjects n))"

fun add_value :: "string \<Rightarrow> string \<Rightarrow> (string \<times> string list) list \<Rightarrow> (string \<times> string list) list" where
  "add_value e v [] = []"
| "add_value e v ((n, vs) # es) = (if n = e then (n, if v \<in> set vs then vs else vs @ [v]) # es else (n, vs) # add_value e v es)"

fun apply_statement :: "statement \<Rightarrow> schema \<Rightarrow> ddl_error + schema" where
  "apply_statement (CreateEnum e vs) s =
     (if type_exists s (SqlEnum e) then Inr s else Inr (s\<lparr>sc_enums := sc_enums s @ [(e, vs)]\<rparr>))"
| "apply_statement (DropEnum e) s = unless_needed e (s\<lparr>sc_enums := filter (\<lambda>x. fst x \<noteq> e) (sc_enums s)\<rparr>)"
| "apply_statement (AddEnumValue e v) s =
     (if type_exists s (SqlEnum e) then Inr (s\<lparr>sc_enums := add_value e v (sc_enums s)\<rparr>) else Inl (UndefinedObject e))"
| "apply_statement (CreateTable t) s =
     (let s' = s\<lparr>sc_tables := sc_tables s @ [t]\<rparr> in
      if list_ex (\<lambda>n. n \<in> set (relation_names s)) (table_relations t) then Inl (DuplicateRelation (tb_name t))
      else if \<not> table_ok t then Inl (UndefinedColumn (tb_name t) [])
      else if \<not> list_all (\<lambda>c. type_exists s (cl_type c)) (tb_columns t) then Inl (UndefinedObject (tb_name t))
      else if \<not> list_all (reference_ok (sc_tables s')) (tb_columns t) then Inl (UndefinedTable (tb_name t))
      else Inr s')"
| "apply_statement (DropTable t) s =
     (if find_table t s = None then Inl (UndefinedTable t)
      else unless_needed t (s\<lparr>sc_tables := filter (\<lambda>x. tb_name x \<noteq> t) (sc_tables s),
                              sc_indexes := filter (\<lambda>i. ix_table i \<noteq> t) (sc_indexes s)\<rparr>))"
| "apply_statement (CreateIndex i) s = (case find_table (ix_table i) s of
     None \<Rightarrow> Inl (UndefinedTable (ix_table i))
   | Some t \<Rightarrow>
       if ix_name i \<in> set (relation_names s) then Inl (DuplicateRelation (ix_name i))
       else if \<not> list_all (has_column t) (ix_columns i) then Inl (UndefinedColumn (ix_table i) (ix_name i))
       else Inr (s\<lparr>sc_indexes := sc_indexes s @ [i]\<rparr>))"
| "apply_statement (DropIndex n) s =
     (if list_ex (\<lambda>i. ix_name i = n) (sc_indexes s) then Inr (s\<lparr>sc_indexes := filter (\<lambda>i. ix_name i \<noteq> n) (sc_indexes s)\<rparr>)
      else Inl (UndefinedObject n))"
| "apply_statement (AddColumn n c) s = (case find_table n s of
     None \<Rightarrow> Inl (UndefinedTable n)
   | Some t \<Rightarrow>
       if has_column t (cl_name c) then Inl (DuplicateColumn n (cl_name c))
       else if \<not> type_exists s (cl_type c) then Inl (UndefinedObject (cl_name c))
       else if \<not> reference_ok (sc_tables s) c then Inl (UndefinedTable (cl_name c))
       else Inr (set_table (t\<lparr>tb_columns := tb_columns t @ [c]\<rparr>) s))"
| "apply_statement (DropColumn n c) s = (case find_table n s of
     None \<Rightarrow> Inl (UndefinedTable n)
   | Some t \<Rightarrow>
       if \<not> has_column t c then Inl (UndefinedColumn n c)
       else let t' = t\<lparr>tb_columns := filter (\<lambda>x. cl_name x \<noteq> c) (tb_columns t),
                       tb_pkey := (case tb_pkey t of None \<Rightarrow> None | Some k \<Rightarrow> if c \<in> set (snd k) then None else Some k),
                       tb_uniques := filter (\<lambda>u. c \<notin> set (snd u)) (tb_uniques t)\<rparr>
            in unless_needed c (set_table t' (s\<lparr>sc_indexes := filter (\<lambda>i. ix_table i \<noteq> n \<or> c \<notin> set (ix_columns i)) (sc_indexes s)\<rparr>)))"
| "apply_statement (DropDefault n c) s = (case find_table n s of
     None \<Rightarrow> Inl (UndefinedTable n)
   | Some t \<Rightarrow>
       if \<not> has_column t c then Inl (UndefinedColumn n c)
       else Inr (set_table (t\<lparr>tb_columns := map (\<lambda>x. if cl_name x = c then x\<lparr>cl_default := None\<rparr> else x) (tb_columns t)\<rparr>) s))"
| "apply_statement (AddUnique n u) s = (case find_table n s of
     None \<Rightarrow> Inl (UndefinedTable n)
   | Some t \<Rightarrow>
       if fst u \<in> set (relation_names s) then Inl (DuplicateRelation (fst u))
       else if \<not> list_all (has_column t) (snd u) then Inl (UndefinedColumn n (fst u))
       else Inr (set_table (t\<lparr>tb_uniques := tb_uniques t @ [u]\<rparr>) s))"
| "apply_statement (DropUnique n u) s = (case find_table n s of
     None \<Rightarrow> Inl (UndefinedTable n)
   | Some t \<Rightarrow>
       if \<not> list_ex (\<lambda>x. fst x = u) (tb_uniques t) then Inl (UndefinedObject u)
       else unless_needed u (set_table (t\<lparr>tb_uniques := filter (\<lambda>x. fst x \<noteq> u) (tb_uniques t)\<rparr>) s))"

fun apply_all :: "statement list \<Rightarrow> schema \<Rightarrow> ddl_error + schema" where
  "apply_all [] s = Inr s"
| "apply_all (st # sts) s = (case apply_statement st s of Inl e \<Rightarrow> Inl e | Inr s' \<Rightarrow> apply_all sts s')"

text \<open>A table with its indexes, the form nearly all scripts use.\<close>

definition create :: "table_def \<Rightarrow> index_def list \<Rightarrow> statement list" where
  "create t is = CreateTable t # map CreateIndex is"

subsection \<open>Revisions and runs of Alembic\<close>

text \<open>
  A revision's \<open>upgrade\<close> is a list of blocks: statements of the run's transaction, and \<open>autocommit_block\<close>s, which
  commit that transaction first and then every statement of theirs. \<open>env.py\<close> runs all revisions of a command
  in one transaction (\<open>transaction_per_migration\<close> is not set); after each revision the version table is stamped.
  A run is the list of its actions; one that is interrupted executes a prefix of them.
\<close>

datatype block = Transactional "statement list" | Autocommit "statement list"

record revision =
  rv_revision :: string
  rv_down_revision :: "string option"
  rv_upgrade :: "block list"
  rv_downgrade :: "statement list"

record database =
  db_schema :: schema
  db_version :: "string option"

definition fresh_database :: database where
  "fresh_database = \<lparr>db_schema = empty_schema, db_version = None\<rparr>"

datatype action = Execute statement | Commit | Stamp "string option"

fun block_actions :: "block \<Rightarrow> action list" where
  "block_actions (Transactional sts) = map Execute sts"
| "block_actions (Autocommit sts) = Commit # concat (map (\<lambda>st. [Execute st, Commit]) sts)"

definition upgrade_actions :: "revision \<Rightarrow> action list" where
  "upgrade_actions r = concat (map block_actions (rv_upgrade r)) @ [Stamp (Some (rv_revision r))]"

definition downgrade_actions :: "revision \<Rightarrow> action list" where
  "downgrade_actions r = map Execute (rv_downgrade r) @ [Stamp (rv_down_revision r)]"

text \<open>The revisions from a version to the head, found by their \<open>down_revision\<close>, and those from a version down to
  another.\<close>

fun path_up :: "nat \<Rightarrow> revision list \<Rightarrow> string option \<Rightarrow> revision list" where
  "path_up 0 rs v = []"
| "path_up (Suc n) rs v = (case find (\<lambda>r. rv_down_revision r = v) rs of
     None \<Rightarrow> []
   | Some r \<Rightarrow> r # path_up n rs (Some (rv_revision r)))"

fun path_down :: "nat \<Rightarrow> revision list \<Rightarrow> string option \<Rightarrow> string option \<Rightarrow> revision list" where
  "path_down 0 rs goal v = []"
| "path_down (Suc n) rs goal v =
     (if v = goal then [] else case find (\<lambda>r. Some (rv_revision r) = v) rs of
        None \<Rightarrow> []
      | Some r \<Rightarrow> r # path_down n rs goal (rv_down_revision r))"

text \<open>What is committed when the actions are done or one of them fails, the state the transaction sees, and the error.\<close>

fun run_actions :: "action list \<Rightarrow> database \<Rightarrow> database \<Rightarrow> database \<times> (ddl_error + database)" where
  "run_actions [] committed d = (committed, Inr d)"
| "run_actions (Execute st # acts) committed d = (case apply_statement st (db_schema d) of
     Inl e \<Rightarrow> (committed, Inl e)
   | Inr s \<Rightarrow> run_actions acts committed (d\<lparr>db_schema := s\<rparr>))"
| "run_actions (Commit # acts) committed d = run_actions acts d d"
| "run_actions (Stamp v # acts) committed d = run_actions acts committed (d\<lparr>db_version := v\<rparr>)"

definition head_actions :: "revision list \<Rightarrow> string option \<Rightarrow> action list" where
  "head_actions rs v = concat (map upgrade_actions (path_up (length rs) rs v)) @ [Commit]"

definition upgrade_head :: "revision list \<Rightarrow> database \<Rightarrow> database \<times> (ddl_error + database)" where
  "upgrade_head rs d = run_actions (head_actions rs (db_version d)) d d"

text \<open>\<open>alembic upgrade head\<close> whose process dies after \<open>k\<close> actions: only what was committed remains.\<close>

definition interrupted_upgrade :: "nat \<Rightarrow> revision list \<Rightarrow> database \<Rightarrow> database" where
  "interrupted_upgrade k rs d = fst (run_actions (take k (head_actions rs (db_version d))) d d)"

definition downgrade_to :: "string option \<Rightarrow> revision list \<Rightarrow> database \<Rightarrow> database \<times> (ddl_error + database)" where
  "downgrade_to goal rs d =
     run_actions (concat (map downgrade_actions (path_down (length rs) rs goal (db_version d))) @ [Commit]) d d"

lemma run_actions_append:
  "run_actions (a @ b) c d = (case run_actions a c d of (c', Inl e) \<Rightarrow> (c', Inl e) | (c', Inr d') \<Rightarrow> run_actions b c' d')"
  by (induction a c d rule: run_actions.induct) (auto split: sum.splits prod.splits)

subsection \<open>Consistent schemas\<close>

definition index_ok :: "table_def list \<Rightarrow> index_def \<Rightarrow> bool" where
  "index_ok ts i \<longleftrightarrow> list_ex (\<lambda>t. tb_name t = ix_table i \<and> list_all (has_column t) (ix_columns i)) ts"

definition schema_ok :: "schema \<Rightarrow> bool" where
  "schema_ok s \<longleftrightarrow> distinct (map tb_name (sc_tables s)) \<and> list_all table_ok (sc_tables s) \<and>
     list_all (index_ok (sc_tables s)) (sc_indexes s) \<and> references_ok s \<and> types_ok s"

fun block_statements :: "block \<Rightarrow> statement list" where
  "block_statements (Transactional sts) = sts"
| "block_statements (Autocommit sts) = sts"

definition upgrade_statements :: "revision \<Rightarrow> statement list" where
  "upgrade_statements r = concat (map block_statements (rv_upgrade r))"

text \<open>The enumerations a list of statements creates.\<close>

fun created_enum :: "statement \<Rightarrow> string list" where
  "created_enum (CreateEnum e vs) = [e]"
| "created_enum st = []"

definition created_enums :: "statement list \<Rightarrow> string list" where
  "created_enums sts = concat (map created_enum sts)"

definition new_enums :: "statement list \<Rightarrow> schema \<Rightarrow> bool" where
  "new_enums sts s \<longleftrightarrow> list_all (\<lambda>e. \<not> type_exists s (SqlEnum e)) (created_enums sts)"

lemma apply_all_append:
  "apply_all (a @ b) s = (case apply_all a s of Inl e \<Rightarrow> Inl e | Inr s' \<Rightarrow> apply_all b s')"
  by (induction a arbitrary: s) (auto split: sum.splits)

lemma created_enums_append [simp]: "created_enums (a @ b) = created_enums a @ created_enums b"
  by (simp add: created_enums_def)

lemma created_enums_create [simp]: "created_enums (create t is) = []"
  by (induction "is") (simp_all add: created_enums_def create_def)

lemma find_tableD: "find_table n s = Some t \<Longrightarrow> t \<in> set (sc_tables s) \<and> tb_name t = n"
  by (auto simp: find_table_def find_Some_iff)

lemma find_table_None: "find_table n s = None \<longleftrightarrow> n \<notin> tb_name ` set (sc_tables s)"
  by (auto simp: find_table_def find_None_iff)

lemma same_table: "find_table n s = Some t \<Longrightarrow> distinct (map tb_name (sc_tables s)) \<Longrightarrow> x \<in> set (sc_tables s) \<Longrightarrow>
  tb_name x = n \<Longrightarrow> x = t"
  by (auto dest!: find_tableD simp: distinct_map inj_on_def)

lemma set_table_sel [simp]:
  "sc_enums (set_table t s) = sc_enums s" "sc_indexes (set_table t s) = sc_indexes s"
  "sc_tables (set_table t s) = map (\<lambda>x. if tb_name x = tb_name t then t else x) (sc_tables s)"
  by (simp_all add: set_table_def)

lemma set_table_back:
  assumes "find_table n s = Some t" "distinct (map tb_name (sc_tables s))" "tb_name t' = n"
  shows "set_table t (set_table t' s) = s"
proof -
  have n: "tb_name t = n" using find_tableD [OF assms(1)] by simp
  have "(if tb_name (if tb_name x = n then t' else x) = n then t else if tb_name x = n then t' else x) = x"
    if "x \<in> set (sc_tables s)" for x
    using same_table [OF assms(1,2) that] assms(3) by simp
  then have "sc_tables (set_table t (set_table t' s)) = sc_tables s"
    unfolding set_table_sel map_map n assms(3) by (intro map_idI) (simp add: comp_def)
  then show ?thesis by (simp add: set_table_def)
qed

lemma find_set_table:
  assumes "find_table n s = Some t" "tb_name t' = n"
  shows "find_table n (set_table t' s) = Some t'"
proof -
  have "find (\<lambda>x. tb_name x = n) (map (\<lambda>x. if tb_name x = tb_name t' then t' else x) ts) = Some t'"
    if "find (\<lambda>x. tb_name x = n) ts = Some t" for ts
    using that assms(2) by (induction ts) (auto split: if_splits)
  then show ?thesis using assms(1) by (simp add: find_table_def)
qed

lemma table_names_set_table [simp]: "map tb_name (sc_tables (set_table t s)) = map tb_name (sc_tables s)"
  by auto

lemma type_exists_cong: "sc_enums s = sc_enums s' \<Longrightarrow> type_exists s ty = type_exists s' ty"
  by (cases ty) simp_all

lemma reference_mono:
  assumes "reference_ok ts c" "\<And>x k. x \<in> set ts \<Longrightarrow> is_key k x \<Longrightarrow> \<exists>y \<in> set ts'. tb_name y = tb_name x \<and> is_key k y"
  shows "reference_ok ts' c"
proof (cases "cl_references c")
  case (Some r)
  obtain t k d where r: "r = (t, k, d)" by (cases r)
  from assms(1) Some r obtain x where x: "x \<in> set ts" "tb_name x = t" "is_key k x"
    by (auto simp: reference_ok_def list_ex_iff)
  from assms(2) [OF x(1,3)] x(2) show ?thesis
    using Some r by (auto simp: reference_ok_def list_ex_iff)
qed (simp add: reference_ok_def)

subsection \<open>What undoes what\<close>

text \<open>On every consistent schema that has none of the enumerations they create: when the statements \<open>b\<close> succeed, the
  schema is consistent again and the statements \<open>d\<close> take it undo to exactly what it was.\<close>

definition undone_by :: "statement list \<Rightarrow> statement list \<Rightarrow> bool" where
  "undone_by b d \<longleftrightarrow> (\<forall>s s'. schema_ok s \<longrightarrow> new_enums b s \<longrightarrow> apply_all b s = Inr s' \<longrightarrow>
     schema_ok s' \<and> apply_all d s' = Inr s \<and> fst ` set (sc_enums s') \<subseteq> fst ` set (sc_enums s) \<union> set (created_enums b))"

lemma undoneI:
  assumes "\<And>s s'. schema_ok s \<Longrightarrow> new_enums b s \<Longrightarrow> apply_all b s = Inr s' \<Longrightarrow>
     schema_ok s' \<and> apply_all d s' = Inr s \<and> fst ` set (sc_enums s') \<subseteq> fst ` set (sc_enums s) \<union> set (created_enums b)"
  shows "undone_by b d"
  using assms by (simp add: undone_by_def)

lemma undone_append:
  assumes "undone_by a c" "undone_by b d" "set (created_enums a) \<inter> set (created_enums b) = {}"
  shows "undone_by (a @ b) (d @ c)"
proof (rule undoneI)
  fix s s'
  assume s: "schema_ok s" "new_enums (a @ b) s" "apply_all (a @ b) s = Inr s'"
  from s(3) obtain s1 where 1: "apply_all a s = Inr s1" "apply_all b s1 = Inr s'"
    by (auto simp: apply_all_append split: sum.splits)
  have a: "schema_ok s1" "apply_all c s1 = Inr s" "fst ` set (sc_enums s1) \<subseteq> fst ` set (sc_enums s) \<union> set (created_enums a)"
    using assms(1) s(1,2) 1(1) by (simp_all add: undone_by_def new_enums_def)
  have "new_enums b s1"
    using s(2) a(3) assms(3) by (fastforce simp: new_enums_def list_all_iff list_ex_iff)
  then have b: "schema_ok s'" "apply_all d s' = Inr s1" "fst ` set (sc_enums s') \<subseteq> fst ` set (sc_enums s1) \<union> set (created_enums b)"
    using assms(2) a(1) 1(2) by (simp_all add: undone_by_def)
  have "fst ` set (sc_enums s') \<subseteq> fst ` set (sc_enums s) \<union> set (created_enums (a @ b))"
    using a(3) b(3) by simp blast
  then show "schema_ok s' \<and> apply_all (d @ c) s' = Inr s \<and>
      fst ` set (sc_enums s') \<subseteq> fst ` set (sc_enums s) \<union> set (created_enums (a @ b))"
    using a(2) b(1,2) by (simp add: apply_all_append)
qed

lemma unless_needed_ok: "schema_ok s \<Longrightarrow> unless_needed n s = Inr s"
  by (simp add: unless_needed_def schema_ok_def)

lemma undone_enum: "undone_by [CreateEnum e vs] [DropEnum e]"
proof (rule undoneI)
  fix s s'
  assume s: "schema_ok s" "new_enums [CreateEnum e vs] s" "apply_all [CreateEnum e vs] s = Inr s'"
  then have s': "s' = s\<lparr>sc_enums := sc_enums s @ [(e, vs)]\<rparr>" and e: "e \<notin> fst ` set (sc_enums s)"
    by (auto simp: new_enums_def created_enums_def list_ex_iff)
  have "type_exists s t \<Longrightarrow> type_exists s' t" for t by (cases t) (simp_all add: s')
  then have "schema_ok s'" using s(1) by (auto simp: schema_ok_def s' references_ok_def types_ok_def list_all_iff)
  moreover have "filter (\<lambda>x. fst x \<noteq> e) (sc_enums s) = sc_enums s" using e by (auto simp: filter_id_conv)
  ultimately show "schema_ok s' \<and> apply_all [DropEnum e] s' = Inr s \<and>
      fst ` set (sc_enums s') \<subseteq> fst ` set (sc_enums s) \<union> set (created_enums [CreateEnum e vs])"
    using unless_needed_ok [OF s(1)] by (simp add: s' created_enums_def)
qed

lemma undone_index: "undone_by [CreateIndex i] [DropIndex (ix_name i)]"
proof (rule undoneI)
  fix s s'
  assume s: "schema_ok s" "apply_all [CreateIndex i] s = Inr s'"
  then obtain t where t: "find_table (ix_table i) s = Some t" "ix_name i \<notin> set (relation_names s)"
    "list_all (has_column t) (ix_columns i)" and s': "s' = s\<lparr>sc_indexes := sc_indexes s @ [i]\<rparr>"
    by (auto split: option.splits if_splits)
  have "index_ok (sc_tables s) i" using find_tableD [OF t(1)] t(3) by (auto simp: index_ok_def list_ex_iff)
  moreover have "type_exists s' = type_exists s" by (intro ext type_exists_cong) (simp add: s')
  ultimately have "schema_ok s'" using s(1) by (simp add: schema_ok_def s' references_ok_def types_ok_def)
  moreover have "filter (\<lambda>x. ix_name x \<noteq> ix_name i) (sc_indexes s) = sc_indexes s"
    using t(2) by (simp add: filter_id_conv relation_names_def) (metis image_eqI)
  ultimately show "schema_ok s' \<and> apply_all [DropIndex (ix_name i)] s' = Inr s \<and>
      fst ` set (sc_enums s') \<subseteq> fst ` set (sc_enums s) \<union> set (created_enums [CreateIndex i])"
    by (simp add: s')
qed

lemma schema_okD:
  assumes "schema_ok s"
  shows "distinct (map tb_name (sc_tables s))" "\<And>t. t \<in> set (sc_tables s) \<Longrightarrow> table_ok t"
    "\<And>i. i \<in> set (sc_indexes s) \<Longrightarrow> index_ok (sc_tables s) i"
    "\<And>t c. t \<in> set (sc_tables s) \<Longrightarrow> c \<in> set (tb_columns t) \<Longrightarrow> reference_ok (sc_tables s) c"
    "\<And>t c. t \<in> set (sc_tables s) \<Longrightarrow> c \<in> set (tb_columns t) \<Longrightarrow> type_exists s (cl_type c)"
  using assms by (auto simp: schema_ok_def references_ok_def types_ok_def list_all_iff)

lemma schema_okI:
  assumes "distinct (map tb_name (sc_tables s))" "\<And>t. t \<in> set (sc_tables s) \<Longrightarrow> table_ok t"
    "\<And>i. i \<in> set (sc_indexes s) \<Longrightarrow> index_ok (sc_tables s) i"
    "\<And>t c. t \<in> set (sc_tables s) \<Longrightarrow> c \<in> set (tb_columns t) \<Longrightarrow> reference_ok (sc_tables s) c"
    "\<And>t c. t \<in> set (sc_tables s) \<Longrightarrow> c \<in> set (tb_columns t) \<Longrightarrow> type_exists s (cl_type c)"
  shows "schema_ok s"
  using assms by (auto simp: schema_ok_def references_ok_def types_ok_def list_all_iff)

lemma index_mono:
  "index_ok ts i \<Longrightarrow> (\<And>t. t \<in> set ts \<Longrightarrow> \<exists>t' \<in> set ts'. tb_name t' = tb_name t \<and> (\<forall>c. has_column t c \<longrightarrow> has_column t' c)) \<Longrightarrow>
     index_ok ts' i"
  by (fastforce simp: index_ok_def list_ex_iff list_all_iff)

text \<open>A table is dropped with its indexes.\<close>

lemma create_indexes:
  "apply_all (map CreateIndex is) s = Inr s' \<Longrightarrow> s' = s\<lparr>sc_indexes := sc_indexes s @ is\<rparr> \<and>
     (\<forall>i \<in> set is. \<exists>t \<in> set (sc_tables s). tb_name t = ix_table i \<and> list_all (has_column t) (ix_columns i))"
proof (induction "is" arbitrary: s)
  case (Cons i "is")
  then obtain t where t: "find_table (ix_table i) s = Some t" "list_all (has_column t) (ix_columns i)"
    and rest: "apply_all (map CreateIndex is) (s\<lparr>sc_indexes := sc_indexes s @ [i]\<rparr>) = Inr s'"
    by (auto split: option.splits if_splits)
  from Cons.IH [OF rest] find_tableD [OF t(1)] t(2) show ?case by auto
qed simp

lemma undone_table:
  assumes "list_all (\<lambda>i. ix_table i = tb_name t) is"
  shows "undone_by (create t is) [DropTable (tb_name t)]"
proof (rule undoneI)
  fix s s'
  assume s: "schema_ok s" "apply_all (create t is) s = Inr s'"
  let ?s1 = "s\<lparr>sc_tables := sc_tables s @ [t]\<rparr>"
  from s(2) have t: "list_all (\<lambda>n. n \<notin> set (relation_names s)) (table_relations t)" "table_ok t"
    "list_all (\<lambda>c. type_exists s (cl_type c)) (tb_columns t)" "list_all (reference_ok (sc_tables ?s1)) (tb_columns t)"
    and 1: "apply_all (map CreateIndex is) ?s1 = Inr s'"
    by (auto simp: create_def Let_def list_ex_iff list_all_iff split: if_splits)
  note ixs = create_indexes [OF 1]
  from ixs have s': "s' = s\<lparr>sc_tables := sc_tables s @ [t], sc_indexes := sc_indexes s @ is\<rparr>" by simp
  have "tb_name t \<notin> tb_name ` set (sc_tables s)"
    using t(1) by (auto simp: table_relations_def relation_names_def)
  then have new: "tb_name x \<noteq> tb_name t" if "x \<in> set (sc_tables s)" for x
    using that by (metis image_eqI)
  have no_index: "ix_table i \<noteq> tb_name t" if "i \<in> set (sc_indexes s)" for i
    using schema_okD(3) [OF s(1) that] new by (auto simp: index_ok_def list_ex_iff)
  note ok = schema_okD [OF s(1)]
  have "schema_ok s'"
  proof (rule schema_okI)
    show "distinct (map tb_name (sc_tables s'))" using ok(1) new by (simp add: s') (metis imageE)
  next
    fix x assume "x \<in> set (sc_tables s')" then show "table_ok x" using ok(2) t(2) by (auto simp: s')
  next
    fix i assume "i \<in> set (sc_indexes s')"
    then show "index_ok (sc_tables s') i"
      using ixs index_mono [OF ok(3), where ts' = "sc_tables s'"] by (auto simp: s' index_ok_def list_ex_iff)
  next
    fix x c assume xc: "x \<in> set (sc_tables s')" "c \<in> set (tb_columns x)"
    then show "reference_ok (sc_tables s') c"
      using t(4) reference_mono [OF ok(4), where ts' = "sc_tables s'"] by (auto simp: s' list_all_iff)
    have "type_exists s' = type_exists s" by (intro ext type_exists_cong) (simp add: s')
    then show "type_exists s' (cl_type c)" using xc ok(5) t(3) by (auto simp: s' list_all_iff)
  qed
  moreover have "apply_all [DropTable (tb_name t)] s' = Inr s"
  proof -
    have "filter (\<lambda>x. tb_name x \<noteq> tb_name t) (sc_tables s') = sc_tables s" using new by (auto simp: s' filter_id_conv)
    moreover have "filter (\<lambda>i. ix_table i \<noteq> tb_name t) (sc_indexes s') = sc_indexes s"
      using no_index assms by (auto simp: s' filter_id_conv list_all_iff filter_empty_conv)
    moreover have "find_table (tb_name t) s' \<noteq> None" by (auto simp: find_table_None s')
    ultimately show ?thesis using unless_needed_ok [OF s(1)] by (simp add: s')
  qed
  ultimately show "schema_ok s' \<and> apply_all [DropTable (tb_name t)] s' = Inr s \<and>
      fst ` set (sc_enums s') \<subseteq> fst ` set (sc_enums s) \<union> set (created_enums (create t is))" by (simp add: s')
qed

text \<open>Columns and unique constraints of an existing table.\<close>

lemma has_column_member: "has_column t c \<longleftrightarrow> c \<in> cl_name ` set (tb_columns t)"
  by (auto simp: has_column_def list_ex_iff)

text \<open>A table that is replaced by one with more columns and keys.\<close>

lemma schema_ok_widen:
  assumes s: "schema_ok s" "find_table n s = Some t" and n: "tb_name t' = n"
    and cols: "\<And>c. has_column t c \<Longrightarrow> has_column t' c" and keys: "\<And>k. is_key k t \<Longrightarrow> is_key k t'"
    and ok: "table_ok t'"
      "\<And>c. c \<in> set (tb_columns t') \<Longrightarrow> c \<in> set (tb_columns t) \<or> type_exists s (cl_type c) \<and> reference_ok (sc_tables s) c"
  shows "schema_ok (set_table t' s)"
proof (rule schema_okI)
  let ?s' = "set_table t' s"
  have mem: "t' \<in> set (sc_tables ?s')" using find_tableD [OF s(2)] n by (auto simp: image_iff)
  have grow: "\<exists>y \<in> set (sc_tables ?s'). tb_name y = tb_name x \<and> (\<forall>c. has_column x c \<longrightarrow> has_column y c) \<and> (\<forall>k. is_key k x \<longrightarrow> is_key k y)"
    if "x \<in> set (sc_tables s)" for x
  proof (cases "tb_name x = n")
    case True
    then have "x = t" using same_table [OF s(2) schema_okD(1) [OF s(1)] that] by simp
    then show ?thesis using True n cols keys mem by blast
  next
    case False
    then have "x \<in> set (sc_tables ?s')" using that n by (auto simp: image_iff)
    then show ?thesis by blast
  qed
  have old: "x = t' \<or> x \<in> set (sc_tables s)" if "x \<in> set (sc_tables ?s')" for x using that by (auto split: if_splits)
  have types: "type_exists ?s' = type_exists s" by (intro ext type_exists_cong) simp
  have refs: "reference_ok (sc_tables ?s') c" if "reference_ok (sc_tables s) c" for c
    using that by (rule reference_mono) (use grow in blast)
  have t: "t \<in> set (sc_tables s)" using find_tableD [OF s(2)] by simp
  show "distinct (map tb_name (sc_tables ?s'))" unfolding table_names_set_table by (rule schema_okD(1) [OF s(1)])
  show "table_ok x" if "x \<in> set (sc_tables ?s')" for x using old [OF that] ok(1) schema_okD(2) [OF s(1)] by auto
  show "index_ok (sc_tables ?s') i" if "i \<in> set (sc_indexes ?s')" for i
  proof -
    have "i \<in> set (sc_indexes s)" using that by simp
    from schema_okD(3) [OF s(1) this] show ?thesis by (rule index_mono) (use grow in blast)
  qed
  show "reference_ok (sc_tables ?s') c" if "x \<in> set (sc_tables ?s')" "c \<in> set (tb_columns x)" for x c
    using old [OF that(1)] that(2) ok(2) t schema_okD(4) [OF s(1)] by (intro refs) blast
  show "type_exists ?s' (cl_type c)" if "x \<in> set (sc_tables ?s')" "c \<in> set (tb_columns x)" for x c
    using old [OF that(1)] that(2) ok(2) t schema_okD(5) [OF s(1)] unfolding types by blast
qed

lemma undone_column: "undone_by [AddColumn n c] [DropColumn n (cl_name c)]"
proof (rule undoneI)
  fix s s'
  assume s: "schema_ok s" "apply_all [AddColumn n c] s = Inr s'"
  then obtain t where t: "find_table n s = Some t" "\<not> has_column t (cl_name c)" "type_exists s (cl_type c)"
    "reference_ok (sc_tables s) c" and s': "s' = set_table (t\<lparr>tb_columns := tb_columns t @ [c]\<rparr>) s"
    by (auto split: option.splits if_splits)
  let ?t' = "t\<lparr>tb_columns := tb_columns t @ [c]\<rparr>"
  have mem: "t \<in> set (sc_tables s)" "tb_name t = n" using find_tableD [OF t(1)] by simp_all
  have t_ok: "table_ok t" using schema_okD(2) [OF s(1) mem(1)] .
  have fresh: "cl_name c \<notin> set (snd u)" if "u \<in> set (tb_uniques t)" for u
    using t_ok t(2) that by (auto simp: table_ok_def list_all_iff)
  have fresh_pk: "cl_name c \<notin> set (snd k)" if "tb_pkey t = Some k" for k
    using t_ok t(2) that by (auto simp: table_ok_def list_all_iff)
  have fresh_ix: "ix_table i \<noteq> n \<or> cl_name c \<notin> set (ix_columns i)" if "i \<in> set (sc_indexes s)" for i
  proof -
    from schema_okD(3) [OF s(1) that] obtain x where x: "x \<in> set (sc_tables s)" "tb_name x = ix_table i" "list_all (has_column x) (ix_columns i)"
      by (auto simp: index_ok_def list_ex_iff)
    show ?thesis using same_table [OF t(1) schema_okD(1) [OF s(1)] x(1)] x(2,3) t(2) by (auto simp: list_all_iff)
  qed
  have "schema_ok s'"
    unfolding s'
  proof (rule schema_ok_widen [OF s(1) t(1)])
    show "table_ok ?t'" using t_ok by (auto simp: table_ok_def list_all_iff has_column_member split: option.splits)
  qed (use mem t in \<open>auto simp: has_column_member is_key_def\<close>)
  moreover have "apply_all [DropColumn n (cl_name c)] s' = Inr s"
  proof -
    have "filter (\<lambda>x. cl_name x \<noteq> cl_name c) (tb_columns t) = tb_columns t"
      using t(2) by (simp add: filter_id_conv has_column_member) (metis image_eqI)
    moreover have "filter (\<lambda>u. cl_name c \<notin> set (snd u)) (tb_uniques t) = tb_uniques t"
      using fresh by (auto simp: filter_id_conv)
    moreover have "(case tb_pkey t of None \<Rightarrow> None | Some k \<Rightarrow> if cl_name c \<in> set (snd k) then None else Some k) = tb_pkey t"
      using fresh_pk by (auto split: option.splits)
    moreover have "filter (\<lambda>i. ix_table i \<noteq> n \<or> cl_name c \<notin> set (ix_columns i)) (sc_indexes s') = sc_indexes s'"
      using fresh_ix by (auto simp: filter_id_conv s')
    moreover have "find_table n s' = Some ?t'" unfolding s' by (rule find_set_table [OF t(1)]) (simp add: mem)
    moreover have "set_table t s' = s" unfolding s' by (rule set_table_back [OF t(1) schema_okD(1) [OF s(1)]]) (simp add: mem)
    ultimately show ?thesis using unless_needed_ok [OF s(1)] by (simp add: has_column_member cong: if_cong)
  qed
  ultimately show "schema_ok s' \<and> apply_all [DropColumn n (cl_name c)] s' = Inr s \<and>
      fst ` set (sc_enums s') \<subseteq> fst ` set (sc_enums s) \<union> set (created_enums [AddColumn n c])" by (simp add: s')
qed

lemma undone_unique: "undone_by [AddUnique n u] [DropUnique n (fst u)]"
proof (rule undoneI)
  fix s s'
  assume s: "schema_ok s" "apply_all [AddUnique n u] s = Inr s'"
  then obtain t where t: "find_table n s = Some t" "fst u \<notin> set (relation_names s)" "list_all (has_column t) (snd u)"
    and s': "s' = set_table (t\<lparr>tb_uniques := tb_uniques t @ [u]\<rparr>) s"
    by (auto split: option.splits if_splits)
  let ?t' = "t\<lparr>tb_uniques := tb_uniques t @ [u]\<rparr>"
  have mem: "t \<in> set (sc_tables s)" "tb_name t = n" using find_tableD [OF t(1)] by simp_all
  have fresh: "fst x \<noteq> fst u" if "x \<in> set (tb_uniques t)" for x
    using t(2) mem(1) that by (simp add: relation_names_def table_relations_def) (metis image_eqI)
  have cols: "has_column ?t' = has_column t" by (intro ext) (simp add: has_column_def)
  have "schema_ok s'"
    unfolding s'
  proof (rule schema_ok_widen [OF s(1) t(1)])
    show "table_ok ?t'"
      using schema_okD(2) [OF s(1) mem(1)] t(3) unfolding table_ok_def cols by (simp split: option.splits)
  qed (use mem in \<open>auto simp: has_column_member is_key_def\<close>)
  moreover have "apply_all [DropUnique n (fst u)] s' = Inr s"
  proof -
    have "filter (\<lambda>x. fst x \<noteq> fst u) (tb_uniques t) = tb_uniques t" using fresh by (simp add: filter_id_conv)
    moreover have "find_table n s' = Some ?t'" unfolding s' by (rule find_set_table [OF t(1)]) (simp add: mem)
    moreover have "set_table t s' = s" unfolding s' by (rule set_table_back [OF t(1) schema_okD(1) [OF s(1)]]) (simp add: mem)
    ultimately show ?thesis using unless_needed_ok [OF s(1)] by simp
  qed
  ultimately show "schema_ok s' \<and> apply_all [DropUnique n (fst u)] s' = Inr s \<and>
      fst ` set (sc_enums s') \<subseteq> fst ` set (sc_enums s) \<union> set (created_enums [AddUnique n u])" by (simp add: s')
qed

text \<open>A default that is dropped again might as well not have been declared.\<close>

lemma relation_names_widen:
  assumes "find_table n s = Some t" "distinct (map tb_name (sc_tables s))" "tb_name t' = n" "table_relations t' = table_relations t"
  shows "relation_names (set_table t' s) = relation_names s"
proof -
  have "table_relations (if tb_name x = n then t' else x) = table_relations x" if "x \<in> set (sc_tables s)" for x
    using same_table [OF assms(1,2) that] assms(4) by simp
  then have "map table_relations (sc_tables (set_table t' s)) = map table_relations (sc_tables s)"
    unfolding set_table_sel map_map comp_def assms(3) by (intro map_cong refl)
  then show ?thesis by (simp only: relation_names_def set_table_sel)
qed

lemma set_table_id:
  assumes "find_table n s = Some t" "distinct (map tb_name (sc_tables s))"
  shows "set_table t s = s"
proof -
  have n: "tb_name t = n" using find_tableD [OF assms(1)] by simp
  have "map (\<lambda>x. if tb_name x = n then t else x) (sc_tables s) = sc_tables s"
    using same_table [OF assms] by (intro map_idI) auto
  then show ?thesis by (simp add: set_table_def n)
qed

lemma set_table_twice [simp]: "tb_name t' = tb_name t \<Longrightarrow> set_table t' (set_table t s) = set_table t' s"
  by (auto simp: set_table_def)

lemma default_dropped:
  assumes "schema_ok s" "ix_table i = n"
  shows "apply_all [AddColumn n c, AddColumn n c', CreateIndex i, DropDefault n (cl_name c)] s =
    apply_all [AddColumn n (c\<lparr>cl_default := None\<rparr>), AddColumn n c', CreateIndex i] s"
proof (cases "find_table n s")
  case (Some t)
  have n: "tb_name t = n" using find_tableD [OF Some] by simp
  note d = schema_okD(1) [OF assms(1)]
  let ?W = "\<lambda>cs. set_table (t\<lparr>tb_columns := cs\<rparr>) s"
  have W: "?W (tb_columns t) = s" using set_table_id [OF Some d] by simp
  have find: "find_table n (?W cs) = Some (t\<lparr>tb_columns := cs\<rparr>)" for cs
    by (rule find_set_table [OF Some]) (simp add: n)
  have rel: "relation_names (?W cs) = relation_names s" for cs
    by (rule relation_names_widen [OF Some d]) (simp_all add: n table_relations_def)
  have types: "type_exists (?W cs) = type_exists s" for cs by (intro ext type_exists_cong) simp
  have refs: "reference_ok (sc_tables (?W cs)) y = reference_ok (sc_tables s) y" for cs y
  proof -
    have "\<exists>x' \<in> set (sc_tables (?W cs)). tb_name x' = tb_name x \<and> is_key k x'" if "x \<in> set (sc_tables s)" "is_key k x" for x k
      using that same_table [OF Some d that(1)] n
      by (intro bexI [of _ "if tb_name x = n then t\<lparr>tb_columns := cs\<rparr> else x"]) (auto simp: is_key_def)
    moreover have "\<exists>x' \<in> set (sc_tables s). tb_name x' = tb_name x \<and> is_key k x'" if "x \<in> set (sc_tables (?W cs))" "is_key k x" for x k
      using that find_tableD [OF Some] by (auto simp: is_key_def split: if_splits)
    ultimately show ?thesis using reference_mono by meson
  qed
  have add: "apply_statement (AddColumn n a) (?W cs) =
      (if cl_name a \<in> cl_name ` set cs then Inl (DuplicateColumn n (cl_name a))
       else if \<not> type_exists s (cl_type a) then Inl (UndefinedObject (cl_name a))
       else if \<not> reference_ok (sc_tables s) a then Inl (UndefinedTable (cl_name a))
       else Inr (?W (cs @ [a])))" for a cs
    unfolding apply_statement.simps find types refs by (simp add: has_column_member del: set_table_sel)
  have idx: "apply_statement (CreateIndex i) (?W cs) =
      (if ix_name i \<in> set (relation_names s) then Inl (DuplicateRelation (ix_name i))
       else if \<not> list_all (\<lambda>x. x \<in> cl_name ` set cs) (ix_columns i) then Inl (UndefinedColumn n (ix_name i))
       else Inr (?W cs\<lparr>sc_indexes := sc_indexes s @ [i]\<rparr>))" for cs
    unfolding apply_statement.simps assms(2) find rel by (simp add: has_column_member list_all_iff)
  have drop: "apply_statement (DropDefault n x) (?W cs\<lparr>sc_indexes := is\<rparr>) =
      (if x \<notin> cl_name ` set cs then Inl (UndefinedColumn n x)
       else Inr (?W (map (\<lambda>y. if cl_name y = x then y\<lparr>cl_default := None\<rparr> else y) cs)\<lparr>sc_indexes := is\<rparr>))" for x cs "is"
  proof -
    have "find_table n (?W cs\<lparr>sc_indexes := is\<rparr>) = Some (t\<lparr>tb_columns := cs\<rparr>)" using find by (simp add: find_table_def)
    moreover have "set_table y (?W cs\<lparr>sc_indexes := is\<rparr>) = set_table y (?W cs)\<lparr>sc_indexes := is\<rparr>" for y by (simp add: set_table_def)
    ultimately show ?thesis by (simp add: has_column_member del: set_table_sel)
  qed
  have keep: "map (\<lambda>x. if cl_name x = cl_name c then x\<lparr>cl_default := None\<rparr> else x) cs = cs"
    if "cl_name c \<notin> cl_name ` set cs" for cs
  proof -
    have "cl_name x \<noteq> cl_name c" if "x \<in> set cs" for x
      using that \<open>cl_name c \<notin> cl_name ` set cs\<close> by (metis image_eqI)
    then show ?thesis by (intro map_idI) simp
  qed
  have ref_default: "reference_ok ts (c\<lparr>cl_default := None\<rparr>) = reference_ok ts c" for ts by (simp add: reference_ok_def)
  have "apply_all [AddColumn n c, AddColumn n c', CreateIndex i, DropDefault n (cl_name c)] (?W cs) =
      apply_all [AddColumn n (c\<lparr>cl_default := None\<rparr>), AddColumn n c', CreateIndex i] (?W cs)" for cs
    by (simp add: add idx drop ref_default keep del: apply_statement.simps set_table_sel split: if_split)
  from this [of "tb_columns t"] show ?thesis unfolding W .
next
  case None
  then show ?thesis by simp
qed

text \<open>Values added to enumerations change neither their names nor what the other statements do.\<close>

lemma add_value_names [simp]: "map fst (add_value e v es) = map fst es"
  by (induction e v es rule: add_value.induct) auto

fun touches_enums :: "statement \<Rightarrow> bool" where
  "touches_enums (CreateEnum e vs) = True"
| "touches_enums (DropEnum e) = True"
| "touches_enums (AddEnumValue e v) = True"
| "touches_enums st = False"

lemma apply_other_enums:
  assumes "\<not> touches_enums st" "map fst es = map fst (sc_enums s)"
  shows "apply_statement st (s\<lparr>sc_enums := es\<rparr>) = map_sum id (\<lambda>s'. s'\<lparr>sc_enums := es\<rparr>) (apply_statement st s)"
proof -
  let ?u = "\<lambda>s'. s'\<lparr>sc_enums := es\<rparr>"
  have te: "type_exists (?u s') ty = type_exists s' ty" if "sc_enums s' = sc_enums s" for s' ty
  proof (cases ty)
    case (SqlEnum e)
    have "fst ` set es = fst ` set (sc_enums s)" using assms(2) by (metis set_map)
    moreover have "list_ex (\<lambda>x. fst x = e) xs \<longleftrightarrow> e \<in> fst ` set xs" for xs :: "(string \<times> string list) list"
      by (auto simp: list_ex_iff)
    ultimately show ?thesis using SqlEnum that by simp
  qed simp_all
  have ft: "find_table n (?u s) = find_table n s" "relation_names (?u s) = relation_names s" for n
    by (simp_all add: find_table_def relation_names_def)
  have un: "unless_needed n (?u s') = map_sum id ?u (unless_needed n s')" if "sc_enums s' = sc_enums s" for n s'
    using te [OF that] by (simp add: unless_needed_def references_ok_def types_ok_def)
  have st': "set_table t (?u s') = ?u (set_table t s')" for t s' by (simp add: set_table_def)
  show ?thesis
  proof (cases st)
    case (DropTable n)
    have "unless_needed n (s\<lparr>sc_enums := es, sc_tables := a, sc_indexes := b\<rparr>) =
        map_sum id ?u (unless_needed n (s\<lparr>sc_tables := a, sc_indexes := b\<rparr>))" for a b
      using un [of "s\<lparr>sc_tables := a, sc_indexes := b\<rparr>" n] by (cases s) simp
    then show ?thesis using DropTable by (simp add: ft)
  next
    case (DropColumn n c)
    have "unless_needed c (set_table t (s\<lparr>sc_enums := es, sc_indexes := b\<rparr>)) =
        map_sum id ?u (unless_needed c (set_table t (s\<lparr>sc_indexes := b\<rparr>)))" for t b
      using un [of "set_table t (s\<lparr>sc_indexes := b\<rparr>)" c] by (cases s) (simp add: set_table_def)
    then show ?thesis using DropColumn by (simp add: ft Let_def split: option.split)
  qed (use assms(1) in \<open>auto simp: Let_def ft te un st' split: option.split\<close>)
qed

lemma apply_all_other_enums:
  assumes "list_all (\<lambda>st. \<not> touches_enums st) sts" "map fst es = map fst (sc_enums s)" "apply_all sts s = Inr s'"
  shows "apply_all sts (s\<lparr>sc_enums := es\<rparr>) = Inr (s'\<lparr>sc_enums := es\<rparr>)"
  using assms
proof (induction sts arbitrary: s)
  case (Cons st sts)
  then obtain s1 where 1: "apply_statement st s = Inr s1" "apply_all sts s1 = Inr s'" by (auto split: sum.splits)
  from Cons.prems(1) have st: "\<not> touches_enums st" by simp
  have "sc_enums s1 = sc_enums s"
    using 1(1) st by (cases st) (auto simp: Let_def unless_needed_def split: if_splits option.splits)
  then show ?case using Cons 1 apply_other_enums [OF st Cons.prems(2)] by simp
qed simp

text \<open>A check of a script against its downgrade, given in reverse: every statement of the upgrade is answered by the removal of what it
  made, an index of a new table at the latest by the removal of the table.\<close>

fun index_of :: "string \<Rightarrow> statement \<Rightarrow> bool" where
  "index_of n (CreateIndex i) = (ix_table i = n)"
| "index_of n st = False"

fun drops_index :: "statement list \<Rightarrow> bool" where
  "drops_index (DropIndex n # d) = True"
| "drops_index d = False"

fun removal :: "statement \<Rightarrow> statement option" where
  "removal (CreateEnum e vs) = Some (DropEnum e)"
| "removal (CreateTable t) = Some (DropTable (tb_name t))"
| "removal (CreateIndex i) = Some (DropIndex (ix_name i))"
| "removal (AddColumn n c) = Some (DropColumn n (cl_name c))"
| "removal (AddUnique n u) = Some (DropUnique n (fst u))"
| "removal st = None"

fun without_indexes :: "statement \<Rightarrow> statement list \<Rightarrow> statement list \<Rightarrow> statement list" where
  "without_indexes (CreateTable t) d b = (if drops_index d then b else dropWhile (index_of (tb_name t)) b)"
| "without_indexes st d b = b"

lemma without_indexes_shorter [termination_simp]: "length (without_indexes st d b) < Suc (length b)"
  by (cases "(st, d, b)" rule: without_indexes.cases) (simp_all add: less_Suc_eq_le length_dropWhile_le)

fun undoes :: "statement list \<Rightarrow> statement list \<Rightarrow> bool" where
  "undoes [] d = (d = [])"
| "undoes (st # b) [] = False"
| "undoes (st # b) (st' # d) =
     (removal st = Some st' \<and> list_all (\<lambda>e. e \<notin> set (created_enums b)) (created_enum st) \<and> undoes (without_indexes st d b) d)"

lemma undone_Nil: "undone_by [] []"
  by (rule undoneI) (simp add: created_enums_def)

lemma undone_Cons:
  "undone_by [st] [st'] \<Longrightarrow> undone_by b d \<Longrightarrow> set (created_enum st) \<inter> set (created_enums b) = {} \<Longrightarrow> undone_by (st # b) (d @ [st'])"
  using undone_append [of "[st]" "[st']" b d] by (simp add: created_enums_def)

lemma undone_removal: "removal st = Some st' \<Longrightarrow> undone_by [st] [st']"
  using undone_table [of _ "[]"]
  by (cases st) (auto simp: undone_enum undone_index undone_column create_def undone_unique [where u = "(a, c)" for a c, simplified])

lemma indexes_of: "\<exists>is. takeWhile (index_of n) b = map CreateIndex is \<and> list_all (\<lambda>i. ix_table i = n) is"
proof (induction b)
  case (Cons st b)
  then obtain "is" where "takeWhile (index_of n) b = map CreateIndex is" "list_all (\<lambda>i. ix_table i = n) is" by blast
  then show ?case by (cases st) (auto intro: exI [of _ "[]"] exI [of _ "_ # is"])
qed simp

theorem undoes_sound: "undoes b d \<Longrightarrow> undone_by b (rev d)"
proof (induction b d rule: undoes.induct)
  case (3 st b st' d)
  then have r: "undone_by [st] [st']" "removal st = Some st'" and rest: "undone_by (without_indexes st d b) (rev d)"
    and es: "set (created_enum st) \<inter> set (created_enums b) = {}" by (auto simp: undone_removal list_all_iff)
  show ?case
  proof (cases "without_indexes st d b = b")
    case True
    then show ?thesis using undone_Cons [OF r(1) _ es] rest by simp
  next
    case False
    then obtain t where t: "st = CreateTable t" "without_indexes st d b = dropWhile (index_of (tb_name t)) b"
      by (cases st) (auto split: if_splits)
    from indexes_of obtain "is" where ixs: "takeWhile (index_of (tb_name t)) b = map CreateIndex is" "list_all (\<lambda>i. ix_table i = tb_name t) is"
      by blast
    have "undone_by (create t is @ dropWhile (index_of (tb_name t)) b) (rev d @ [DropTable (tb_name t)])"
      using rest t(2) undone_table [OF ixs(2)] by (intro undone_append) auto
    moreover have "create t is @ dropWhile (index_of (tb_name t)) b = CreateTable t # b"
      by (simp add: create_def ixs(1) [symmetric])
    ultimately show ?thesis using r(2) t(1) by auto
  qed
qed (auto simp: undone_Nil)

text \<open>A script: statements that are undone, then perhaps values for enumerations, which stay.\<close>

lemma add_values_run:
  assumes "list_all (\<lambda>st. \<exists>e v. st = AddEnumValue e v) vs" "apply_all vs s = Inr s'"
  shows "\<exists>es. s' = s\<lparr>sc_enums := es\<rparr> \<and> map fst es = map fst (sc_enums s)"
  using assms
proof (induction vs arbitrary: s)
  case Nil
  then show ?case by (intro exI [of _ "sc_enums s"]) simp
next
  case (Cons st vs)
  then obtain e v where st: "st = AddEnumValue e v" by auto
  with Cons.prems have "apply_all vs (s\<lparr>sc_enums := add_value e v (sc_enums s)\<rparr>) = Inr s'" by (auto split: if_splits)
  from Cons.IH [OF _ this] Cons.prems(1) obtain es where "s' = s\<lparr>sc_enums := es\<rparr>" "map fst es = map fst (sc_enums s)"
    by auto
  then show ?case by blast
qed

lemma script_undone:
  assumes "undone_by b d" "list_all (\<lambda>st. \<exists>e v. st = AddEnumValue e v) vs" "list_all (\<lambda>st. \<not> touches_enums st) d \<or> vs = []"
    and s: "schema_ok s" "new_enums (b @ vs) s" "apply_all (b @ vs) s = Inr s'"
  shows "\<exists>s''. apply_all d s' = Inr s'' \<and> sc_tables s'' = sc_tables s \<and> sc_indexes s'' = sc_indexes s \<and>
    (vs = [] \<longrightarrow> s'' = s)"
proof -
  from s(3) obtain s1 where 1: "apply_all b s = Inr s1" "apply_all vs s1 = Inr s'" by (auto simp: apply_all_append split: sum.splits)
  have "new_enums b s" using s(2) by (simp add: new_enums_def)
  then have undo: "apply_all d s1 = Inr s" using assms(1) s(1) 1(1) by (simp add: undone_by_def)
  show ?thesis
  proof (cases "vs = []")
    case True
    then show ?thesis using undo 1(2) by simp
  next
    case False
    from add_values_run [OF assms(2) 1(2)] obtain es where "s' = s1\<lparr>sc_enums := es\<rparr>" "map fst es = map fst (sc_enums s1)" by blast
    with apply_all_other_enums [OF _ this(2) undo] False assms(3) show ?thesis by auto
  qed
qed


subsection \<open>Runs that build a schema\<close>

text \<open>Names aside, what a statement does when it succeeds; a run whose statements create only fresh names is one of these.\<close>

definition grown :: "(string \<times> string list) list \<Rightarrow> table_def list \<Rightarrow> index_def list \<Rightarrow> schema" where
  "grown es ts is = \<lparr>sc_enums = es, sc_tables = ts, sc_indexes = is\<rparr>"

fun step_unnamed :: "statement \<Rightarrow> schema \<Rightarrow> schema option" where
  "step_unnamed (CreateTable t) s =
     (if table_ok t \<and> list_all (\<lambda>c. type_exists s (cl_type c)) (tb_columns t) \<and>
         list_all (reference_ok (sc_tables s @ [t])) (tb_columns t)
      then Some (s\<lparr>sc_tables := sc_tables s @ [t]\<rparr>) else None)"
| "step_unnamed (CreateIndex i) s = (case find_table (ix_table i) s of
     None \<Rightarrow> None
   | Some t \<Rightarrow> if list_all (has_column t) (ix_columns i) then Some (s\<lparr>sc_indexes := sc_indexes s @ [i]\<rparr>) else None)"
| "step_unnamed (AddUnique n u) s = (case find_table n s of
     None \<Rightarrow> None
   | Some t \<Rightarrow> if list_all (has_column t) (snd u) then Some (set_table (t\<lparr>tb_uniques := tb_uniques t @ [u]\<rparr>) s) else None)"
| "step_unnamed st s = (case apply_statement st s of Inl e \<Rightarrow> None | Inr s' \<Rightarrow> Some s')"

fun run_unnamed :: "statement list \<Rightarrow> schema \<Rightarrow> schema option" where
  "run_unnamed [] s = Some s"
| "run_unnamed (st # sts) s = (case step_unnamed st s of None \<Rightarrow> None | Some s' \<Rightarrow> run_unnamed sts s')"

fun created_relations :: "statement \<Rightarrow> string list" where
  "created_relations (CreateTable t) = table_relations t"
| "created_relations (CreateIndex i) = [ix_name i]"
| "created_relations (AddUnique n u) = [fst u]"
| "created_relations st = []"

lemma run_unnamed_append: "run_unnamed (a @ b) s = (case run_unnamed a s of None \<Rightarrow> None | Some s' \<Rightarrow> run_unnamed b s')"
  by (induction a arbitrary: s) (auto split: option.splits)

lemma set_table_relations:
  "find_table n s = Some t \<Longrightarrow> tb_name t' = n \<Longrightarrow> set (relation_names (set_table t' s)) \<subseteq> set (relation_names s) \<union> set (table_relations t')"
  by (auto simp: relation_names_def split: if_splits)

lemma table_relations_found: "find_table n s = Some t \<Longrightarrow> set (table_relations t) \<subseteq> set (relation_names s)"
  using find_tableD by (fastforce simp: relation_names_def)

fun builds :: "statement \<Rightarrow> bool" where
  "builds (CreateEnum e vs) = True"
| "builds (AddEnumValue e v) = True"
| "builds (CreateTable t) = True"
| "builds (CreateIndex i) = True"
| "builds (AddColumn n c) = True"
| "builds (AddUnique n u) = True"
| "builds (DropDefault n c) = True"
| "builds st = False"

lemma table_relations_columns [simp]: "table_relations (t\<lparr>tb_columns := cs\<rparr>) = table_relations t"
  by (simp add: table_relations_def)

lemma table_relations_unique: "set (table_relations (t\<lparr>tb_uniques := tb_uniques t @ [u]\<rparr>)) = insert (fst u) (set (table_relations t))"
  by (auto simp: table_relations_def)

lemma step_unnamed_relations:
  assumes "step_unnamed st s = Some s'" "builds st"
  shows "set (relation_names s') \<subseteq> set (relation_names s) \<union> set (created_relations st)"
proof (cases st)
  case (AddColumn n c)
  with assms(1) obtain t where t: "find_table n s = Some t" "s' = set_table (t\<lparr>tb_columns := tb_columns t @ [c]\<rparr>) s"
    by (auto split: option.splits if_splits)
  with set_table_relations [OF t(1), of "t\<lparr>tb_columns := tb_columns t @ [c]\<rparr>"] table_relations_found [OF t(1)] find_tableD [OF t(1)]
  show ?thesis by auto
next
  case (DropDefault n c)
  with assms(1) obtain t cs where t: "find_table n s = Some t" "s' = set_table (t\<lparr>tb_columns := cs\<rparr>) s"
    by (auto split: option.splits if_splits)
  with set_table_relations [OF t(1), of "t\<lparr>tb_columns := cs\<rparr>"] table_relations_found [OF t(1)] find_tableD [OF t(1)]
  show ?thesis by auto
next
  case (AddUnique n u)
  with assms(1) obtain t where t: "find_table n s = Some t" "s' = set_table (t\<lparr>tb_uniques := tb_uniques t @ [u]\<rparr>) s"
    by (auto split: option.splits if_splits)
  with set_table_relations [OF t(1), of "t\<lparr>tb_uniques := tb_uniques t @ [u]\<rparr>"] table_relations_found [OF t(1)] find_tableD [OF t(1)]
  show ?thesis by (auto simp: AddUnique table_relations_unique)
qed (use assms in \<open>auto simp: relation_names_def split: option.splits if_splits\<close>)

lemma step_named:
  assumes "step_unnamed st s = Some s'" "builds st" "set (created_relations st) \<inter> set (relation_names s) = {}"
  shows "apply_statement st s = Inr s'"
  using assms by (cases st) (auto simp: Let_def list_ex_iff split: option.splits if_splits sum.splits)

text \<open>Statements that only build and whose relations are all named differently run as if names were not checked.\<close>

lemma run_named:
  assumes "run_unnamed sts s = Some s'" "list_all builds sts" "distinct (concat (map created_relations sts))"
    "set (concat (map created_relations sts)) \<inter> set (relation_names s) = {}"
  shows "apply_all sts s = Inr s'"
  using assms
proof (induction sts arbitrary: s)
  case (Cons st sts)
  then obtain s1 where 1: "step_unnamed st s = Some s1" "run_unnamed sts s1 = Some s'" by (auto split: option.splits)
  have st: "builds st" "set (created_relations st) \<inter> set (relation_names s) = {}" using Cons.prems(2,4) by auto
  have "set (concat (map created_relations sts)) \<inter> set (relation_names s1) = {}"
    using step_unnamed_relations [OF 1(1) st(1)] Cons.prems(3,4) by fastforce
  with Cons.IH [OF 1(2)] Cons.prems(2,3) step_named [OF 1(1) st] show ?case by simp
qed simp

text \<open>New tables with their indexes: all a run needs of the schema are the enumerations \<open>es\<close> and the tables \<open>ns\<close> that are referred
  to by their \<open>id\<close>.\<close>

definition has_id :: "schema \<Rightarrow> string \<Rightarrow> bool" where
  "has_id s n \<longleftrightarrow> (\<exists>t \<in> set (sc_tables s). tb_name t = n \<and> is_key ''id'' t)"

fun enum_known :: "string list \<Rightarrow> sql_type \<Rightarrow> bool" where
  "enum_known es (SqlEnum e) = (e \<in> set es)"
| "enum_known es t = True"

definition reference_known :: "string list \<Rightarrow> column \<Rightarrow> bool" where
  "reference_known ns c = (case cl_references c of None \<Rightarrow> True | Some (t, k, _) \<Rightarrow> k = ''id'' \<and> t \<in> set ns)"

definition with_id :: "table_def \<Rightarrow> string list \<Rightarrow> string list" where
  "with_id t ns = (if is_key ''id'' t then tb_name t # ns else ns)"

fun buildable :: "string list \<Rightarrow> string list \<Rightarrow> (table_def \<times> index_def list) list \<Rightarrow> bool" where
  "buildable es ns [] = True"
| "buildable es ns ((t, is) # bs) =
     (table_ok t \<and> list_all (\<lambda>c. enum_known es (cl_type c) \<and> reference_known (with_id t ns) c) (tb_columns t) \<and>
      list_all (\<lambda>i. ix_table i = tb_name t \<and> list_all (has_column t) (ix_columns i)) is \<and> buildable es (with_id t ns) bs)"

definition create_all :: "(table_def \<times> index_def list) list \<Rightarrow> statement list" where
  "create_all bs = concat (map (\<lambda>(t, is). create t is) bs)"

lemma run_indexes:
  "list_all (\<lambda>i. ix_table i = n \<and> list_all (has_column t) (ix_columns i)) is \<Longrightarrow> find_table n s = Some t \<Longrightarrow>
     run_unnamed (map CreateIndex is) s = Some (s\<lparr>sc_indexes := sc_indexes s @ is\<rparr>)"
proof (induction "is" arbitrary: s)
  case (Cons i "is")
  have "find_table n (s\<lparr>sc_indexes := sc_indexes s @ [i]\<rparr>) = Some t" using Cons.prems(2) by (simp add: find_table_def)
  then show ?case using Cons by simp
qed simp

lemma run_blocks:
  assumes "buildable es ns bs" "set es \<subseteq> fst ` set (sc_enums s)" "\<forall>n \<in> set ns. has_id s n"
    "distinct (map (tb_name \<circ> fst) bs)" "set (map (tb_name \<circ> fst) bs) \<inter> tb_name ` set (sc_tables s) = {}"
  shows "run_unnamed (create_all bs) s = Some (s\<lparr>sc_tables := sc_tables s @ map fst bs, sc_indexes := sc_indexes s @ concat (map snd bs)\<rparr>)"
  using assms
proof (induction es ns bs arbitrary: s rule: buildable.induct)
  case (2 es ns t "is" bs)
  let ?s1 = "s\<lparr>sc_tables := sc_tables s @ [t]\<rparr>" and ?s2 = "s\<lparr>sc_tables := sc_tables s @ [t], sc_indexes := sc_indexes s @ is\<rparr>"
  have types: "type_exists s ty" if "enum_known es ty" for ty
    using 2(3) that by (cases ty) (auto simp: list_ex_iff)
  have ids: "\<forall>n \<in> set (with_id t ns). has_id ?s1 n"
    using 2(4) by (auto simp: with_id_def has_id_def)
  have refs: "reference_ok (sc_tables ?s1) c" if "reference_known (with_id t ns) c" for c
    using that ids by (fastforce simp: reference_known_def reference_ok_def has_id_def list_ex_iff split: option.splits)
  have one: "step_unnamed (CreateTable t) s = Some ?s1"
    using 2(2) types refs by (auto simp: list_all_iff)
  have "find_table (tb_name t) s = None" unfolding find_table_None using 2(6) by auto
  then have "find_table (tb_name t) ?s1 = Some t" by (simp add: find_table_def find_append)
  from run_indexes [OF _ this] 2(2) have two: "run_unnamed (map CreateIndex is) ?s1 = Some ?s2" by simp
  have "run_unnamed (create_all bs) ?s2 = Some (?s2\<lparr>sc_tables := sc_tables ?s2 @ map fst bs, sc_indexes := sc_indexes ?s2 @ concat (map snd bs)\<rparr>)"
  proof (rule 2(1))
    show "\<forall>n \<in> set (with_id t ns). has_id ?s2 n" using ids by (simp add: has_id_def)
    show "set (map (tb_name \<circ> fst) bs) \<inter> tb_name ` set (sc_tables ?s2) = {}" using 2(5,6) by auto
  qed (use 2 in auto)
  with one two show ?case by (simp add: create_all_def create_def run_unnamed_append)
qed (simp add: create_all_def)

text \<open>A column statement on a table somewhere in the schema.\<close>

lemma find_grown:
  assumes "tb_name t = n" "n \<notin> tb_name ` set pre"
  shows "find_table n (grown es (pre @ t # post) is) = Some t"
proof -
  have "find (\<lambda>x. tb_name x = n) pre = None" using assms(2) by (auto simp: find_None_iff)
  then show ?thesis using assms(1) by (simp add: find_table_def grown_def find_append)
qed

lemma set_grown:
  assumes "tb_name t' = n" "tb_name t = n" "n \<notin> tb_name ` set pre" "n \<notin> tb_name ` set post"
  shows "set_table t' (grown es (pre @ t # post) is) = grown es (pre @ t' # post) is"
proof -
  have "map (\<lambda>x. if tb_name x = n then t' else x) xs = xs" if "n \<notin> tb_name ` set xs" for xs
    using that by (intro map_idI) auto
  then show ?thesis using assms by (simp add: set_table_def grown_def)
qed

lemma columns_grown:
  assumes "tb_name t = n" "n \<notin> tb_name ` set pre" "n \<notin> tb_name ` set post"
  shows "\<not> has_column t (cl_name c) \<Longrightarrow> type_exists (grown es [] []) (cl_type c) \<Longrightarrow> cl_references c = None \<Longrightarrow>
      step_unnamed (AddColumn n c) (grown es (pre @ t # post) is) = Some (grown es (pre @ t\<lparr>tb_columns := tb_columns t @ [c]\<rparr> # post) is)"
    "ix_table i = n \<Longrightarrow> list_all (has_column t) (ix_columns i) \<Longrightarrow>
      step_unnamed (CreateIndex i) (grown es (pre @ t # post) is) = Some (grown es (pre @ t # post) (is @ [i]))"
    "list_all (has_column t) (snd u) \<Longrightarrow>
      step_unnamed (AddUnique n u) (grown es (pre @ t # post) is) = Some (grown es (pre @ t\<lparr>tb_uniques := tb_uniques t @ [u]\<rparr> # post) is)"
    "has_column t x \<Longrightarrow> step_unnamed (DropDefault n x) (grown es (pre @ t # post) is) =
      Some (grown es (pre @ t\<lparr>tb_columns := map (\<lambda>y. if cl_name y = x then y\<lparr>cl_default := None\<rparr> else y) (tb_columns t)\<rparr> # post) is)"
proof -
  note f = find_grown [OF assms(1,2)] and s = set_grown [OF _ assms]
  have te: "type_exists (grown es (pre @ t # post) is) ty = type_exists (grown es [] []) ty" for ty
    by (rule type_exists_cong) (simp add: grown_def)
  show "\<not> has_column t (cl_name c) \<Longrightarrow> type_exists (grown es [] []) (cl_type c) \<Longrightarrow> cl_references c = None \<Longrightarrow>
      step_unnamed (AddColumn n c) (grown es (pre @ t # post) is) = Some (grown es (pre @ t\<lparr>tb_columns := tb_columns t @ [c]\<rparr> # post) is)"
    using assms(1) by (simp add: f s te reference_ok_def)
  show "ix_table i = n \<Longrightarrow> list_all (has_column t) (ix_columns i) \<Longrightarrow>
      step_unnamed (CreateIndex i) (grown es (pre @ t # post) is) = Some (grown es (pre @ t # post) (is @ [i]))"
    by (simp add: f) (simp add: grown_def)
  show "list_all (has_column t) (snd u) \<Longrightarrow>
      step_unnamed (AddUnique n u) (grown es (pre @ t # post) is) = Some (grown es (pre @ t\<lparr>tb_uniques := tb_uniques t @ [u]\<rparr> # post) is)"
    using assms(1) by (simp add: f s)
  show "has_column t x \<Longrightarrow> step_unnamed (DropDefault n x) (grown es (pre @ t # post) is) =
      Some (grown es (pre @ t\<lparr>tb_columns := map (\<lambda>y. if cl_name y = x then y\<lparr>cl_default := None\<rparr> else y) (tb_columns t)\<rparr> # post) is)"
    using assms(1) by (simp add: f s)
qed

lemma enum_grown:
  "e \<notin> fst ` set es \<Longrightarrow> step_unnamed (CreateEnum e vs) (grown es ts is) = Some (grown (es @ [(e, vs)]) ts is)"
  "e \<in> fst ` set es \<Longrightarrow> step_unnamed (AddEnumValue e v) (grown es ts is) = Some (grown (add_value e v es) ts is)"
  by (auto simp: grown_def list_ex_iff)

lemma blocks_grown:
  assumes "buildable ens ns bs" "set ens \<subseteq> fst ` set es" "\<forall>n \<in> set ns. \<exists>t \<in> set ts. tb_name t = n \<and> is_key ''id'' t"
    "distinct (map (tb_name \<circ> fst) bs)" "set (map (tb_name \<circ> fst) bs) \<inter> tb_name ` set ts = {}"
  shows "run_unnamed (create_all bs) (grown es ts is) = Some (grown es (ts @ map fst bs) (is @ concat (map snd bs)))"
  using run_blocks [OF assms(1), of "grown es ts is"] assms(2-5) by (simp add: grown_def has_id_def)

lemma run_enums:
  "distinct (map fst new) \<Longrightarrow> set (map fst new) \<inter> fst ` set es = {} \<Longrightarrow>
     run_unnamed (map (\<lambda>(e, vs). CreateEnum e vs) new) (grown es ts is) = Some (grown (es @ new) ts is)"
proof (induction new arbitrary: es)
  case (Cons x new)
  obtain e vs where x: "x = (e, vs)" by force
  have "e \<notin> fst ` set es" using Cons.prems(2) x by auto
  moreover have "run_unnamed (map (\<lambda>(e, vs). CreateEnum e vs) new) (grown (es @ [(e, vs)]) ts is) = Some (grown ((es @ [(e, vs)]) @ new) ts is)"
    by (rule Cons.IH) (use Cons.prems x in auto)
  ultimately show ?case by (simp add: x enum_grown(1) del: step_unnamed.simps)
qed simp

text \<open>The tables that can be referred to by \<open>id\<close>.\<close>

definition id_names :: "table_def list \<Rightarrow> string list" where
  "id_names ts = map tb_name (filter (is_key ''id'') ts)"

lemma id_names_simps [simp]:
  "id_names [] = []" "id_names (a @ b) = id_names a @ id_names b"
  "id_names (t # ts) = (if is_key ''id'' t then tb_name t # id_names ts else id_names ts)"
  by (simp_all add: id_names_def)

text \<open>A revision that creates enumerations and tables with their indexes.\<close>

lemma run_creation:
  assumes "sts = map (\<lambda>(e, vs). CreateEnum e vs) new @ create_all bs" "buildable (map fst new) ns bs"
    "distinct (map fst new)" "distinct (map (tb_name \<circ> fst) bs)"
    and "set (map fst new) \<inter> fst ` set es = {}" "set ns \<subseteq> set (id_names ts)"
    "set (map (tb_name \<circ> fst) bs) \<inter> tb_name ` set ts = {}"
  shows "run_unnamed sts (grown es ts is) = Some (grown (es @ new) (ts @ map fst bs) (is @ concat (map snd bs)))"
proof -
  have "set (map fst new) \<subseteq> fst ` set (es @ new)" by auto
  moreover have "\<forall>n \<in> set ns. \<exists>t \<in> set ts. tb_name t = n \<and> is_key ''id'' t"
    using assms(6) by (fastforce simp: id_names_def)
  ultimately have "run_unnamed (create_all bs) (grown (es @ new) ts is) =
      Some (grown (es @ new) (ts @ map fst bs) (is @ concat (map snd bs)))" for "is"
    using blocks_grown [OF assms(2) _ _ assms(4,7)] by blast
  then show ?thesis
    by (simp add: assms(1) run_unnamed_append run_enums [OF assms(3,5)])
qed

lemma add_value_fst [simp]: "fst ` set (add_value e v es) = fst ` set es"
  by (metis add_value_names set_map)

end
