(* ===== verification/Metadata.thy ===== *)
theory Metadata
  imports Schema
begin

text \<open>
  The schema the ORM models declare (\<open>app/models\<close>, with the mixins of \<open>app/db/base.py\<close>): per model its table, columns,
  foreign keys, unique constraints, the columns declared with \<open>index=True\<close> and the enumerations it uses, and
  \<open>Base.metadata\<close> as \<open>app/models/__init__.py\<close> fills it. A \<open>Mapped[str]\<close> without a type is an unbounded string, the same
  type as \<open>Text\<close>. An enumeration is stored by the values of its members where the column passes
  \<open>values_callable\<close>, otherwise by their names.
\<close>

record model_table =
  mt_name :: string
  mt_columns :: "column list"
  mt_enums :: "(string \<times> string list) list"
  mt_uniques :: "named_columns list"
  mt_indexed :: "string list"

text \<open>\<open>TimestampMixin\<close>: both columns with a server default.\<close>

definition model_timestamps :: "column list" where
  "model_timestamps =
     [defaults (Expression ''now()'') (required ''created_at'' SqlTimestamptz),
      defaults (Expression ''now()'') (required ''updated_at'' SqlTimestamptz)]"

subsection \<open>Enumerations\<close>

definition orm_attachment_kind :: "string \<times> string list" where
  "orm_attachment_kind = (''attachment_kind'',
     [''IMAGE'', ''PDF'', ''DOCX'', ''XLSX'', ''OTHER''])"

definition orm_attachment_status :: "string \<times> string list" where
  "orm_attachment_status = (''attachment_status'',
     [''UPLOADED'', ''PROCESSING'', ''READY'', ''FAILED''])"

definition orm_event_type :: "string \<times> string list" where
  "orm_event_type = (''event_type'',
     [''agent_started'', ''reasoning_started'', ''tool_selected'',
             ''tool_call_started'', ''tool_call_completed'', ''agent_response'',
             ''agent_completed'', ''memory_update_started'', ''memory_update_completed'',
             ''error'', ''run_cancelled''])"

definition orm_execution_plan_run_status :: "string \<times> string list" where
  "orm_execution_plan_run_status = (''execution_plan_run_status'',
     [''PENDING'', ''RUNNING'', ''COMPLETED'', ''FAILED''])"

definition orm_execution_step_status :: "string \<times> string list" where
  "orm_execution_step_status = (''execution_step_status'',
     [''PENDING'', ''RUNNING'', ''RETRYING'', ''COMPLETED'', ''FAILED''])"

definition orm_memory_type :: "string \<times> string list" where
  "orm_memory_type = (''memory_type'',
     [''conversation'', ''summary'', ''fact'', ''preference'', ''working_memory''])"

definition orm_message_role :: "string \<times> string list" where
  "orm_message_role = (''message_role'',
     [''user'', ''assistant'', ''system'', ''tool''])"

definition orm_observation_type :: "string \<times> string list" where
  "orm_observation_type = (''observation_type'',
     [''KNOWLEDGE_RETRIEVAL'', ''SKILL_OUTPUT'', ''BUSINESS_RESPONSE'',
             ''UI_RESULT'', ''WARNING'', ''ERROR''])"

definition orm_prompt_status :: "string \<times> string list" where
  "orm_prompt_status = (''prompt_status'',
     [''draft'', ''active'', ''archived''])"

definition orm_quota_metric :: "string \<times> string list" where
  "orm_quota_metric = (''quota_metric'',
     [''REQUESTS'', ''TOKENS'', ''COST_USD''])"

definition orm_quota_period :: "string \<times> string list" where
  "orm_quota_period = (''quota_period'',
     [''DAILY'', ''MONTHLY'', ''FIXED_WINDOW''])"

definition orm_quota_scope_type :: "string \<times> string list" where
  "orm_quota_scope_type = (''quota_scope_type'',
     [''GLOBAL'', ''GROUP'', ''USER''])"

definition orm_run_status :: "string \<times> string list" where
  "orm_run_status = (''run_status'',
     [''pending'', ''running'', ''tool_calling'', ''waiting'', ''completed'',
             ''failed'', ''cancelled''])"

definition orm_schedule_type :: "string \<times> string list" where
  "orm_schedule_type = (''schedule_type'',
     [''CRON'', ''INTERVAL''])"

definition orm_skill_type :: "string \<times> string list" where
  "orm_skill_type = (''skill_type'',
     [''MCP'', ''WORKFLOW'', ''PROMPT'', ''CUSTOM'', ''KNOWLEDGE'', ''UI''])"

definition orm_ui_metadata_kind :: "string \<times> string list" where
  "orm_ui_metadata_kind = (''ui_metadata_kind'',
     [''APPLICATION'', ''PAGE'', ''FORM'', ''DIALOG'', ''GRID'', ''BUSINESS_OBJECT'',
             ''FIELD'', ''VALIDATION_RULE'', ''LOOKUP'', ''BUSINESS_RULE'', ''COMPONENT'',
             ''PERMISSION'', ''EVENT''])"

definition orm_workflow_event_type :: "string \<times> string list" where
  "orm_workflow_event_type = (''workflow_event_type'',
     [''WorkflowStarted'', ''WorkflowStepStarted'', ''WorkflowStepCompleted'',
             ''WorkflowCompleted'', ''WorkflowFailed''])"

definition orm_workflow_run_status :: "string \<times> string list" where
  "orm_workflow_run_status = (''workflow_run_status'',
     [''PENDING'', ''RUNNING'', ''COMPLETED'', ''FAILED''])"

definition orm_workflow_step_status :: "string \<times> string list" where
  "orm_workflow_step_status = (''workflow_step_status'',
     [''PENDING'', ''RUNNING'', ''COMPLETED'', ''FAILED''])"

definition orm_workflow_step_type :: "string \<times> string list" where
  "orm_workflow_step_type = (''workflow_step_type'',
     [''AGENT'', ''TEAM''])"

subsection \<open>Models\<close>

definition orm_model_registry :: model_table where
  "orm_model_registry =
     \<lparr>mt_name = ''model_registry'', mt_columns =
       id_column #
       [required ''provider'' (SqlVarchar 64),
        required ''model'' (SqlVarchar 128),
        required ''temperature'' SqlFloat,
        required ''max_tokens'' SqlInteger,
        required ''enabled'' SqlBoolean,
        nullable ''cost_per_1k_input_tokens'' SqlFloat,
        nullable ''cost_per_1k_output_tokens'' SqlFloat,
        nullable ''base_url'' SqlText,
        nullable ''api_key'' SqlText,
        nullable ''extra_client_params'' SqlJsonb] @
       model_timestamps @ [deleted_column],
      mt_enums = [],
      mt_uniques = [(''uq_model_provider_model'', [''provider'', ''model''])],
      mt_indexed = []\<rparr>"

definition orm_prompts :: model_table where
  "orm_prompts =
     \<lparr>mt_name = ''prompts'', mt_columns =
       id_column #
       [required ''code'' (SqlVarchar 128),
        required ''name'' (SqlVarchar 255),
        required ''content'' SqlText,
        required ''version'' SqlInteger,
        required ''status'' (SqlEnum ''prompt_status'')] @
       model_timestamps @ [deleted_column],
      mt_enums = [orm_prompt_status],
      mt_uniques = [(''uq_prompt_code_version'', [''code'', ''version''])],
      mt_indexed = [''code'']\<rparr>"

definition orm_agent_os :: model_table where
  "orm_agent_os =
     \<lparr>mt_name = ''agent_os'', mt_columns =
       id_column #
       [required ''code'' (SqlVarchar 128),
        required ''name'' (SqlVarchar 255),
        nullable ''description'' SqlText,
        refers ''model_registry'' ''id'' [] (nullable ''default_model_id'' SqlUuid),
        refers ''prompts'' ''id'' [] (nullable ''shared_prompt_id'' SqlUuid),
        required ''enabled'' SqlBoolean] @
       model_timestamps @ [deleted_column],
      mt_enums = [],
      mt_uniques = [(''uq_agent_os_code'', [''code''])],
      mt_indexed = [''code'']\<rparr>"

definition orm_teams :: model_table where
  "orm_teams =
     \<lparr>mt_name = ''teams'', mt_columns =
       id_column #
       [required ''code'' (SqlVarchar 128),
        refers ''agent_os'' ''id'' ''CASCADE'' (required ''agent_os_id'' SqlUuid),
        required ''name'' (SqlVarchar 255),
        nullable ''description'' SqlText,
        refers ''prompts'' ''id'' [] (nullable ''team_prompt_id'' SqlUuid),
        required ''enabled'' SqlBoolean] @
       model_timestamps @ [deleted_column],
      mt_enums = [],
      mt_uniques = [(''uq_team_agent_os_code'', [''agent_os_id'', ''code''])],
      mt_indexed = [''code'', ''agent_os_id'']\<rparr>"

definition orm_agents :: model_table where
  "orm_agents =
     \<lparr>mt_name = ''agents'', mt_columns =
       id_column #
       [required ''code'' (SqlVarchar 128),
        refers ''teams'' ''id'' ''CASCADE'' (required ''team_id'' SqlUuid),
        required ''name'' (SqlVarchar 255),
        nullable ''description'' SqlText,
        refers ''prompts'' ''id'' [] (nullable ''prompt_id'' SqlUuid),
        refers ''model_registry'' ''id'' [] (nullable ''model_id'' SqlUuid),
        nullable ''temperature'' SqlFloat,
        required ''enabled'' SqlBoolean] @
       model_timestamps @ [deleted_column],
      mt_enums = [],
      mt_uniques = [(''uq_agent_team_code'', [''team_id'', ''code''])],
      mt_indexed = [''code'', ''team_id'']\<rparr>"

definition orm_attachments :: model_table where
  "orm_attachments =
     \<lparr>mt_name = ''attachments'', mt_columns =
       id_column #
       [nullable ''session_id'' SqlUuid,
        nullable ''user_id'' (SqlVarchar 255),
        required ''filename'' (SqlVarchar 500),
        required ''mime_type'' (SqlVarchar 128),
        required ''kind'' (SqlEnum ''attachment_kind''),
        required ''size_bytes'' SqlBigInt,
        required ''storage_bucket'' (SqlVarchar 255),
        required ''storage_key'' (SqlVarchar 1000),
        required ''status'' (SqlEnum ''attachment_status''),
        nullable ''extracted_text'' SqlText,
        nullable ''extraction_raw'' SqlJsonb,
        nullable ''error_message'' SqlText] @
       model_timestamps,
      mt_enums = [orm_attachment_kind, orm_attachment_status],
      mt_uniques = [],
      mt_indexed = [''session_id'', ''user_id'', ''status'']\<rparr>"

definition orm_business_object_definitions :: model_table where
  "orm_business_object_definitions =
     \<lparr>mt_name = ''business_object_definitions'', mt_columns =
       id_column #
       [required ''code'' (SqlVarchar 128),
        required ''name'' (SqlVarchar 255),
        nullable ''description'' SqlText,
        required ''version'' SqlInteger,
        required ''payload'' SqlJsonb,
        required ''enabled'' SqlBoolean] @
       model_timestamps @ [deleted_column],
      mt_enums = [],
      mt_uniques = [(''uq_business_object_code_version'', [''code'', ''version''])],
      mt_indexed = [''code'']\<rparr>"

definition orm_agent_os_capabilities :: model_table where
  "orm_agent_os_capabilities =
     \<lparr>mt_name = ''agent_os_capabilities'', mt_columns =
       id_column #
       [refers ''agent_os'' ''id'' ''CASCADE'' (required ''agent_os_id'' SqlUuid),
        required ''capability_code'' (SqlVarchar 255)] @
       model_timestamps,
      mt_enums = [],
      mt_uniques = [(''uq_agent_os_capability'', [''agent_os_id'', ''capability_code''])],
      mt_indexed = [''agent_os_id'', ''capability_code'']\<rparr>"

definition orm_team_capabilities :: model_table where
  "orm_team_capabilities =
     \<lparr>mt_name = ''team_capabilities'', mt_columns =
       id_column #
       [refers ''teams'' ''id'' ''CASCADE'' (required ''team_id'' SqlUuid),
        required ''capability_code'' (SqlVarchar 255)] @
       model_timestamps,
      mt_enums = [],
      mt_uniques = [(''uq_team_capability'', [''team_id'', ''capability_code''])],
      mt_indexed = [''team_id'', ''capability_code'']\<rparr>"

definition orm_agent_capabilities :: model_table where
  "orm_agent_capabilities =
     \<lparr>mt_name = ''agent_capabilities'', mt_columns =
       id_column #
       [refers ''agents'' ''id'' ''CASCADE'' (required ''agent_id'' SqlUuid),
        required ''capability_code'' (SqlVarchar 255)] @
       model_timestamps,
      mt_enums = [],
      mt_uniques = [(''uq_agent_capability'', [''agent_id'', ''capability_code''])],
      mt_indexed = [''agent_id'', ''capability_code'']\<rparr>"

definition orm_execution_plan_runs :: model_table where
  "orm_execution_plan_runs =
     \<lparr>mt_name = ''execution_plan_runs'', mt_columns =
       id_column #
       [nullable ''session_id'' SqlUuid,
        required ''input'' SqlText,
        nullable ''rationale'' SqlText,
        required ''status'' (SqlEnum ''execution_plan_run_status''),
        nullable ''result'' SqlText,
        nullable ''error_message'' SqlText,
        nullable ''started_at'' SqlTimestamptz,
        nullable ''completed_at'' SqlTimestamptz] @
       model_timestamps,
      mt_enums = [orm_execution_plan_run_status],
      mt_uniques = [],
      mt_indexed = [''session_id'', ''status'']\<rparr>"

definition orm_execution_plan_step_runs :: model_table where
  "orm_execution_plan_step_runs =
     \<lparr>mt_name = ''execution_plan_step_runs'', mt_columns =
       id_column #
       [refers ''execution_plan_runs'' ''id'' ''CASCADE'' (required ''plan_run_id'' SqlUuid),
        required ''step_order'' SqlInteger,
        required ''target_type'' (SqlVarchar 16),
        required ''target_code'' (SqlVarchar 255),
        required ''status'' (SqlEnum ''execution_step_status''),
        required ''attempt_count'' SqlInteger,
        nullable ''input'' SqlText,
        nullable ''output'' SqlText,
        nullable ''error_message'' SqlText,
        nullable ''started_at'' SqlTimestamptz,
        nullable ''completed_at'' SqlTimestamptz] @
       model_timestamps,
      mt_enums = [orm_execution_step_status],
      mt_uniques = [],
      mt_indexed = [''plan_run_id'', ''status'']\<rparr>"

definition orm_agent_memories :: model_table where
  "orm_agent_memories =
     \<lparr>mt_name = ''agent_memories'', mt_columns =
       id_column #
       [refers ''agents'' ''id'' ''CASCADE'' (required ''agent_id'' SqlUuid),
        nullable ''user_id'' (SqlVarchar 255),
        required ''memory_type'' (SqlEnum ''memory_type''),
        required ''content'' SqlText,
        nullable ''source_memory_id'' (SqlVarchar 255)] @
       model_timestamps,
      mt_enums = [orm_memory_type],
      mt_uniques = [(''uq_agent_memory_source'', [''agent_id'', ''user_id'', ''source_memory_id''])],
      mt_indexed = [''agent_id'', ''user_id'', ''memory_type'', ''source_memory_id'']\<rparr>"

definition orm_runtime_observations :: model_table where
  "orm_runtime_observations =
     \<lparr>mt_name = ''runtime_observations'', mt_columns =
       id_column #
       [nullable ''run_id'' SqlUuid,
        nullable ''workflow_run_id'' SqlUuid,
        nullable ''agent_id'' SqlUuid,
        required ''observation_type'' (SqlEnum ''observation_type''),
        nullable ''source'' (SqlVarchar 255),
        required ''payload'' SqlJsonb,
        nullable ''execution_time_ms'' SqlFloat] @
       model_timestamps,
      mt_enums = [orm_observation_type],
      mt_uniques = [],
      mt_indexed = [''run_id'', ''workflow_run_id'', ''agent_id'', ''observation_type'']\<rparr>"

definition orm_quota_policies :: model_table where
  "orm_quota_policies =
     \<lparr>mt_name = ''quota_policies'', mt_columns =
       id_column #
       [required ''scope_type'' (SqlEnum ''quota_scope_type''),
        required ''scope_value'' (SqlVarchar 255),
        refers ''model_registry'' ''id'' ''CASCADE'' (nullable ''model_id'' SqlUuid),
        required ''metric'' (SqlEnum ''quota_metric''),
        required ''period'' (SqlEnum ''quota_period''),
        nullable ''window_seconds'' SqlInteger,
        required ''limit_value'' SqlInteger,
        required ''priority'' SqlInteger,
        required ''enabled'' SqlBoolean] @
       model_timestamps @ [deleted_column],
      mt_enums = [orm_quota_scope_type, orm_quota_metric, orm_quota_period],
      mt_uniques = [(''uq_quota_policy_scope'', [''scope_type'', ''scope_value'', ''model_id'', ''metric'', ''period''])],
      mt_indexed = [''scope_type'', ''scope_value'', ''model_id'']\<rparr>"

definition orm_quota_usage_events :: model_table where
  "orm_quota_usage_events =
     \<lparr>mt_name = ''quota_usage_events'', mt_columns =
       id_column #
       [nullable ''run_id'' SqlUuid,
        required ''user_id'' (SqlVarchar 255),
        required ''groups'' SqlJsonb,
        refers ''model_registry'' ''id'' ''SET NULL'' (nullable ''model_id'' SqlUuid),
        required ''input_tokens'' SqlInteger,
        required ''output_tokens'' SqlInteger,
        nullable ''cost_usd'' SqlFloat] @
       model_timestamps,
      mt_enums = [],
      mt_uniques = [],
      mt_indexed = [''run_id'', ''user_id'', ''model_id'']\<rparr>"

definition orm_agent_runs :: model_table where
  "orm_agent_runs =
     \<lparr>mt_name = ''agent_runs'', mt_columns =
       id_column #
       [refers ''chat_sessions'' ''id'' ''CASCADE'' (required ''session_id'' SqlUuid),
        refers ''agents'' ''id'' ''CASCADE'' (required ''agent_id'' SqlUuid),
        required ''status'' (SqlEnum ''run_status''),
        required ''input'' SqlText,
        nullable ''output'' SqlText,
        nullable ''error_message'' SqlText,
        nullable ''started_at'' SqlTimestamptz,
        nullable ''finished_at'' SqlTimestamptz] @
       model_timestamps,
      mt_enums = [orm_run_status],
      mt_uniques = [],
      mt_indexed = [''session_id'', ''agent_id'', ''status'']\<rparr>"

definition orm_agent_events :: model_table where
  "orm_agent_events =
     \<lparr>mt_name = ''agent_events'', mt_columns =
       id_column #
       [refers ''agent_runs'' ''id'' ''CASCADE'' (required ''run_id'' SqlUuid),
        required ''event_type'' (SqlEnum ''event_type''),
        nullable ''payload'' SqlJsonb] @
       model_timestamps,
      mt_enums = [orm_event_type],
      mt_uniques = [],
      mt_indexed = [''run_id'', ''event_type'']\<rparr>"

definition orm_runtime_events :: model_table where
  "orm_runtime_events =
     \<lparr>mt_name = ''runtime_events'', mt_columns =
       id_column #
       [required ''entity_type'' (SqlVarchar 64),
        required ''entity_id'' (SqlVarchar 128),
        required ''event_name'' (SqlVarchar 128),
        required ''payload'' SqlJsonb,
        nullable ''correlation_id'' (SqlVarchar 128)] @
       model_timestamps,
      mt_enums = [],
      mt_uniques = [],
      mt_indexed = [''entity_type'', ''entity_id'', ''event_name'', ''correlation_id'']\<rparr>"

definition orm_chat_sessions :: model_table where
  "orm_chat_sessions =
     \<lparr>mt_name = ''chat_sessions'', mt_columns =
       id_column #
       [refers ''agent_os'' ''id'' ''CASCADE'' (required ''agent_os_id'' SqlUuid),
        refers ''teams'' ''id'' ''SET NULL'' (nullable ''team_id'' SqlUuid),
        refers ''agents'' ''id'' ''SET NULL'' (nullable ''agent_id'' SqlUuid),
        nullable ''user_id'' (SqlVarchar 255),
        nullable ''title'' (SqlVarchar 255),
        nullable ''context'' SqlJsonb] @
       model_timestamps @ [deleted_column],
      mt_enums = [],
      mt_uniques = [],
      mt_indexed = [''agent_os_id'', ''team_id'', ''agent_id'', ''user_id'']\<rparr>"

definition orm_chat_messages :: model_table where
  "orm_chat_messages =
     \<lparr>mt_name = ''chat_messages'', mt_columns =
       id_column #
       [refers ''chat_sessions'' ''id'' ''CASCADE'' (required ''session_id'' SqlUuid),
        refers ''agent_runs'' ''id'' ''SET NULL'' (nullable ''run_id'' SqlUuid),
        required ''role'' (SqlEnum ''message_role''),
        required ''content'' SqlText,
        nullable ''message_metadata'' SqlJsonb] @
       model_timestamps,
      mt_enums = [orm_message_role],
      mt_uniques = [],
      mt_indexed = [''session_id'', ''run_id'']\<rparr>"

definition orm_skills :: model_table where
  "orm_skills =
     \<lparr>mt_name = ''skills'', mt_columns =
       id_column #
       [required ''code'' (SqlVarchar 128),
        required ''name'' (SqlVarchar 255),
        nullable ''description'' SqlText,
        nullable ''instructions'' SqlText,
        required ''skill_type'' (SqlEnum ''skill_type''),
        nullable ''config'' SqlJsonb] @
       model_timestamps @ [deleted_column],
      mt_enums = [orm_skill_type],
      mt_uniques = [(''uq_skill_code'', [''code''])],
      mt_indexed = [''code'', ''skill_type'']\<rparr>"

definition orm_skill_capabilities :: model_table where
  "orm_skill_capabilities =
     \<lparr>mt_name = ''skill_capabilities'', mt_columns =
       id_column #
       [refers ''skills'' ''id'' ''CASCADE'' (required ''skill_id'' SqlUuid),
        required ''capability_code'' (SqlVarchar 255)] @
       model_timestamps,
      mt_enums = [],
      mt_uniques = [(''uq_skill_capability'', [''skill_id'', ''capability_code''])],
      mt_indexed = [''skill_id'', ''capability_code'']\<rparr>"

definition orm_agent_skills :: model_table where
  "orm_agent_skills =
     \<lparr>mt_name = ''agent_skills'', mt_columns =
       id_column #
       [refers ''agents'' ''id'' ''CASCADE'' (required ''agent_id'' SqlUuid),
        refers ''skills'' ''id'' ''CASCADE'' (required ''skill_id'' SqlUuid)] @
       model_timestamps,
      mt_enums = [],
      mt_uniques = [(''uq_agent_skill'', [''agent_id'', ''skill_id''])],
      mt_indexed = [''agent_id'', ''skill_id'']\<rparr>"

definition orm_ui_metadata_entries :: model_table where
  "orm_ui_metadata_entries =
     \<lparr>mt_name = ''ui_metadata_entries'', mt_columns =
       id_column #
       [required ''code'' (SqlVarchar 128),
        required ''kind'' (SqlEnum ''ui_metadata_kind''),
        required ''name'' (SqlVarchar 255),
        nullable ''description'' SqlText,
        required ''version'' SqlInteger,
        nullable ''parent_code'' (SqlVarchar 128),
        required ''payload'' SqlJsonb,
        required ''schema_version'' (SqlVarchar 32),
        required ''enabled'' SqlBoolean] @
       model_timestamps @ [deleted_column],
      mt_enums = [orm_ui_metadata_kind],
      mt_uniques = [(''uq_ui_metadata_code_kind_version'', [''code'', ''kind'', ''version''])],
      mt_indexed = [''code'', ''kind'', ''parent_code'']\<rparr>"

definition orm_workflows :: model_table where
  "orm_workflows =
     \<lparr>mt_name = ''workflows'', mt_columns =
       id_column #
       [required ''code'' (SqlVarchar 128),
        refers ''agent_os'' ''id'' ''CASCADE'' (required ''agent_os_id'' SqlUuid),
        required ''name'' (SqlVarchar 255),
        nullable ''description'' SqlText,
        refers ''teams'' ''id'' ''SET NULL'' (nullable ''team_id'' SqlUuid),
        required ''enabled'' SqlBoolean,
        nullable ''workflow_metadata'' SqlJsonb,
        nullable ''created_by'' (SqlVarchar 255)] @
       model_timestamps @ [deleted_column],
      mt_enums = [],
      mt_uniques = [(''uq_workflow_agent_os_code'', [''agent_os_id'', ''code''])],
      mt_indexed = [''code'', ''agent_os_id'']\<rparr>"

definition orm_workflow_steps :: model_table where
  "orm_workflow_steps =
     \<lparr>mt_name = ''workflow_steps'', mt_columns =
       id_column #
       [refers ''workflows'' ''id'' ''CASCADE'' (required ''workflow_id'' SqlUuid),
        required ''step_order'' SqlInteger,
        required ''step_type'' (SqlEnum ''workflow_step_type''),
        refers ''agents'' ''id'' ''CASCADE'' (nullable ''agent_id'' SqlUuid),
        refers ''teams'' ''id'' ''CASCADE'' (nullable ''team_id'' SqlUuid),
        nullable ''step_config'' SqlJsonb] @
       model_timestamps,
      mt_enums = [orm_workflow_step_type],
      mt_uniques = [(''uq_workflow_step_order'', [''workflow_id'', ''step_order''])],
      mt_indexed = [''workflow_id'', ''agent_id'', ''team_id'']\<rparr>"

definition orm_workflow_runs :: model_table where
  "orm_workflow_runs =
     \<lparr>mt_name = ''workflow_runs'', mt_columns =
       id_column #
       [refers ''workflows'' ''id'' ''CASCADE'' (required ''workflow_id'' SqlUuid),
        refers ''chat_sessions'' ''id'' ''CASCADE'' (required ''session_id'' SqlUuid),
        required ''status'' (SqlEnum ''workflow_run_status''),
        required ''input'' SqlText,
        nullable ''result'' SqlText,
        nullable ''error_message'' SqlText,
        nullable ''started_at'' SqlTimestamptz,
        nullable ''completed_at'' SqlTimestamptz,
        nullable ''created_by'' (SqlVarchar 255)] @
       model_timestamps,
      mt_enums = [orm_workflow_run_status],
      mt_uniques = [],
      mt_indexed = [''workflow_id'', ''session_id'', ''status'']\<rparr>"

definition orm_workflow_events :: model_table where
  "orm_workflow_events =
     \<lparr>mt_name = ''workflow_events'', mt_columns =
       id_column #
       [refers ''workflow_runs'' ''id'' ''CASCADE'' (required ''workflow_run_id'' SqlUuid),
        required ''event_type'' (SqlEnum ''workflow_event_type''),
        nullable ''payload'' SqlJsonb] @
       model_timestamps,
      mt_enums = [orm_workflow_event_type],
      mt_uniques = [],
      mt_indexed = [''workflow_run_id'']\<rparr>"

definition orm_workflow_run_steps :: model_table where
  "orm_workflow_run_steps =
     \<lparr>mt_name = ''workflow_run_steps'', mt_columns =
       id_column #
       [refers ''workflow_runs'' ''id'' ''CASCADE'' (required ''workflow_run_id'' SqlUuid),
        refers ''workflow_steps'' ''id'' ''CASCADE'' (required ''workflow_step_id'' SqlUuid),
        required ''step_order'' SqlInteger,
        required ''status'' (SqlEnum ''workflow_step_status''),
        nullable ''started_at'' SqlTimestamptz,
        nullable ''completed_at'' SqlTimestamptz,
        nullable ''input'' SqlJsonb,
        nullable ''output'' SqlJsonb,
        nullable ''error_message'' SqlText] @
       model_timestamps,
      mt_enums = [orm_workflow_step_status],
      mt_uniques = [],
      mt_indexed = [''workflow_run_id'', ''workflow_step_id'', ''status'']\<rparr>"

definition orm_workflow_schedules :: model_table where
  "orm_workflow_schedules =
     \<lparr>mt_name = ''workflow_schedules'', mt_columns =
       id_column #
       [refers ''workflows'' ''id'' ''CASCADE'' (required ''workflow_id'' SqlUuid),
        required ''schedule_type'' (SqlEnum ''schedule_type''),
        nullable ''cron_expression'' (SqlVarchar 128),
        nullable ''interval_seconds'' SqlInteger,
        required ''timezone'' (SqlVarchar 64),
        required ''input_template'' SqlText,
        nullable ''user_id'' (SqlVarchar 255),
        required ''enabled'' SqlBoolean,
        nullable ''next_run_at'' SqlTimestamptz,
        nullable ''last_run_at'' SqlTimestamptz,
        nullable ''last_status'' (SqlVarchar 32),
        nullable ''last_error'' SqlText,
        nullable ''last_workflow_run_id'' SqlUuid] @
       model_timestamps @ [deleted_column],
      mt_enums = [orm_schedule_type],
      mt_uniques = [],
      mt_indexed = [''workflow_id'', ''next_run_at'']\<rparr>"

definition orm_workflow_webhooks :: model_table where
  "orm_workflow_webhooks =
     \<lparr>mt_name = ''workflow_webhooks'', mt_columns =
       id_column #
       [refers ''workflows'' ''id'' ''CASCADE'' (required ''workflow_id'' SqlUuid),
        required ''webhook_token'' (SqlVarchar 64),
        nullable ''secret'' SqlText,
        nullable ''input_field_path'' (SqlVarchar 255),
        nullable ''allowed_source_ips'' SqlJsonb,
        nullable ''user_id'' (SqlVarchar 255),
        required ''enabled'' SqlBoolean] @
       model_timestamps @ [deleted_column],
      mt_enums = [],
      mt_uniques = [(''uq_workflow_webhook_token'', [''webhook_token''])],
      mt_indexed = [''workflow_id'', ''webhook_token'']\<rparr>"

definition metadata :: "model_table list" where
  "metadata =
    [orm_model_registry, orm_prompts, orm_agent_os, orm_teams,
     orm_agents, orm_business_object_definitions, orm_agent_os_capabilities, orm_team_capabilities,
     orm_agent_capabilities, orm_execution_plan_runs, orm_execution_plan_step_runs, orm_agent_memories,
     orm_runtime_observations, orm_agent_runs, orm_agent_events, orm_runtime_events,
     orm_chat_sessions, orm_chat_messages, orm_skills, orm_skill_capabilities,
     orm_agent_skills, orm_ui_metadata_entries, orm_workflows, orm_workflow_steps,
     orm_workflow_runs, orm_workflow_events, orm_workflow_run_steps, orm_workflow_schedules,
     orm_workflow_webhooks]"

definition unregistered_models :: "model_table list" where
  "unregistered_models = [orm_attachments, orm_quota_policies, orm_quota_usage_events]"

end
