(* ===== verification/Migrations.thy ===== *)
theory Migrations
  imports Metadata
begin

text \<open>
  The revisions under \<open>alembic/versions\<close>, each script's \<open>upgrade\<close> and \<open>downgrade\<close> as the statements it issues in their
  order, the chain they form, and what running them does: the head revision's schema is the one the models of
  \<open>app/models\<close> declare, every downgrade takes back what its upgrade did, and an interrupted upgrade.
\<close>

subsection \<open>0001: initial schema\<close>

definition enums_0001 :: "statement list" where
  "enums_0001 =
    [CreateEnum ''prompt_status'' [''draft'', ''active'', ''archived''],
      CreateEnum ''message_role'' [''user'', ''assistant'', ''system'', ''tool''],
      CreateEnum ''run_status'' [''pending'', ''running'', ''tool_calling'', ''waiting'', ''completed'',
             ''failed''],
      CreateEnum ''event_type'' [''agent_started'', ''reasoning_started'', ''tool_selected'',
             ''tool_call_started'', ''tool_call_completed'', ''agent_response'',
             ''agent_completed'', ''error''],
      CreateEnum ''memory_type'' [''conversation'', ''summary'', ''fact'', ''preference'', ''working_memory'']]"

definition table_model_registry :: table_def where
  "table_model_registry =
     \<lparr>tb_name = ''model_registry'', tb_columns =
         [id_column,
          required ''provider'' (SqlVarchar 64),
          required ''model'' (SqlVarchar 128),
          required ''temperature'' SqlFloat,
          required ''max_tokens'' SqlInteger,
          required ''enabled'' SqlBoolean] @ timestamp_columns @ [deleted_column],
      tb_pkey = Some (''model_registry_pkey'', [''id'']),
      tb_uniques = [(''uq_model_provider_model'', [''provider'', ''model''])]\<rparr>"

definition indexes_model_registry :: "index_def list" where
  "indexes_model_registry =
    [index_on ''ix_model_registry_deleted_at'' ''model_registry'' [''deleted_at'']]"

definition table_prompts :: table_def where
  "table_prompts =
     \<lparr>tb_name = ''prompts'', tb_columns =
         [id_column,
          required ''code'' (SqlVarchar 128),
          required ''name'' (SqlVarchar 255),
          required ''content'' SqlText,
          required ''version'' SqlInteger,
          required ''status'' (SqlEnum ''prompt_status'')] @ timestamp_columns @ [deleted_column],
      tb_pkey = Some (''prompts_pkey'', [''id'']),
      tb_uniques = [(''uq_prompt_code_version'', [''code'', ''version''])]\<rparr>"

definition indexes_prompts :: "index_def list" where
  "indexes_prompts =
    [index_on ''ix_prompts_code'' ''prompts'' [''code''],
     index_on ''ix_prompts_deleted_at'' ''prompts'' [''deleted_at'']]"

definition table_agent_os :: table_def where
  "table_agent_os =
     \<lparr>tb_name = ''agent_os'', tb_columns =
         [id_column,
          required ''code'' (SqlVarchar 128),
          required ''name'' (SqlVarchar 255),
          nullable ''description'' SqlText,
          refers ''model_registry'' ''id'' [] (nullable ''default_model_id'' SqlUuid),
          refers ''prompts'' ''id'' [] (nullable ''shared_prompt_id'' SqlUuid),
          required ''enabled'' SqlBoolean] @ timestamp_columns @ [deleted_column],
      tb_pkey = Some (''agent_os_pkey'', [''id'']),
      tb_uniques = [(''uq_agent_os_code'', [''code''])]\<rparr>"

definition indexes_agent_os :: "index_def list" where
  "indexes_agent_os =
    [index_on ''ix_agent_os_code'' ''agent_os'' [''code''],
     index_on ''ix_agent_os_deleted_at'' ''agent_os'' [''deleted_at'']]"

definition table_teams :: table_def where
  "table_teams =
     \<lparr>tb_name = ''teams'', tb_columns =
         [id_column,
          refers ''agent_os'' ''id'' ''CASCADE'' (required ''agent_os_id'' SqlUuid),
          required ''code'' (SqlVarchar 128),
          required ''name'' (SqlVarchar 255),
          nullable ''description'' SqlText,
          refers ''prompts'' ''id'' [] (nullable ''team_prompt_id'' SqlUuid),
          required ''enabled'' SqlBoolean] @ timestamp_columns @ [deleted_column],
      tb_pkey = Some (''teams_pkey'', [''id'']),
      tb_uniques = [(''uq_team_agent_os_code'', [''agent_os_id'', ''code''])]\<rparr>"

definition indexes_teams :: "index_def list" where
  "indexes_teams =
    [index_on ''ix_teams_agent_os_id'' ''teams'' [''agent_os_id''],
     index_on ''ix_teams_code'' ''teams'' [''code''],
     index_on ''ix_teams_deleted_at'' ''teams'' [''deleted_at'']]"

definition table_agents :: table_def where
  "table_agents =
     \<lparr>tb_name = ''agents'', tb_columns =
         [id_column,
          refers ''teams'' ''id'' ''CASCADE'' (required ''team_id'' SqlUuid),
          required ''code'' (SqlVarchar 128),
          required ''name'' (SqlVarchar 255),
          nullable ''description'' SqlText,
          refers ''prompts'' ''id'' [] (nullable ''prompt_id'' SqlUuid),
          refers ''model_registry'' ''id'' [] (nullable ''model_id'' SqlUuid),
          nullable ''temperature'' SqlFloat,
          required ''enabled'' SqlBoolean] @ timestamp_columns @ [deleted_column],
      tb_pkey = Some (''agents_pkey'', [''id'']),
      tb_uniques = [(''uq_agent_team_code'', [''team_id'', ''code''])]\<rparr>"

definition indexes_agents :: "index_def list" where
  "indexes_agents =
    [index_on ''ix_agents_team_id'' ''agents'' [''team_id''],
     index_on ''ix_agents_code'' ''agents'' [''code''],
     index_on ''ix_agents_deleted_at'' ''agents'' [''deleted_at'']]"

definition table_skills :: table_def where
  "table_skills =
     \<lparr>tb_name = ''skills'', tb_columns =
         [id_column,
          required ''code'' (SqlVarchar 128),
          required ''name'' (SqlVarchar 255),
          nullable ''description'' SqlText,
          nullable ''instructions'' SqlText] @ timestamp_columns @ [deleted_column],
      tb_pkey = Some (''skills_pkey'', [''id'']),
      tb_uniques = [(''uq_skill_code'', [''code''])]\<rparr>"

definition indexes_skills :: "index_def list" where
  "indexes_skills =
    [index_on ''ix_skills_code'' ''skills'' [''code''],
     index_on ''ix_skills_deleted_at'' ''skills'' [''deleted_at'']]"

definition table_skill_capabilities :: table_def where
  "table_skill_capabilities =
     \<lparr>tb_name = ''skill_capabilities'', tb_columns =
         [id_column,
          refers ''skills'' ''id'' ''CASCADE'' (required ''skill_id'' SqlUuid),
          required ''capability_code'' (SqlVarchar 255)] @ timestamp_columns,
      tb_pkey = Some (''skill_capabilities_pkey'', [''id'']),
      tb_uniques = [(''uq_skill_capability'', [''skill_id'', ''capability_code''])]\<rparr>"

definition indexes_skill_capabilities :: "index_def list" where
  "indexes_skill_capabilities =
    [index_on ''ix_skill_capabilities_skill_id'' ''skill_capabilities'' [''skill_id''],
     index_on ''ix_skill_capabilities_capability_code'' ''skill_capabilities'' [''capability_code'']]"

definition table_agent_skills :: table_def where
  "table_agent_skills =
     \<lparr>tb_name = ''agent_skills'', tb_columns =
         [id_column,
          refers ''agents'' ''id'' ''CASCADE'' (required ''agent_id'' SqlUuid),
          refers ''skills'' ''id'' ''CASCADE'' (required ''skill_id'' SqlUuid)] @ timestamp_columns,
      tb_pkey = Some (''agent_skills_pkey'', [''id'']),
      tb_uniques = [(''uq_agent_skill'', [''agent_id'', ''skill_id''])]\<rparr>"

definition indexes_agent_skills :: "index_def list" where
  "indexes_agent_skills =
    [index_on ''ix_agent_skills_agent_id'' ''agent_skills'' [''agent_id''],
     index_on ''ix_agent_skills_skill_id'' ''agent_skills'' [''skill_id'']]"

definition table_agent_os_capabilities :: table_def where
  "table_agent_os_capabilities =
     \<lparr>tb_name = ''agent_os_capabilities'', tb_columns =
         [id_column,
          refers ''agent_os'' ''id'' ''CASCADE'' (required ''agent_os_id'' SqlUuid),
          required ''capability_code'' (SqlVarchar 255)] @ timestamp_columns,
      tb_pkey = Some (''agent_os_capabilities_pkey'', [''id'']),
      tb_uniques = [(''uq_agent_os_capability'', [''agent_os_id'', ''capability_code''])]\<rparr>"

definition indexes_agent_os_capabilities :: "index_def list" where
  "indexes_agent_os_capabilities =
    [index_on ''ix_agent_os_capabilities_agent_os_id'' ''agent_os_capabilities'' [''agent_os_id''],
     index_on ''ix_agent_os_capabilities_capability_code'' ''agent_os_capabilities'' [''capability_code'']]"

definition table_team_capabilities :: table_def where
  "table_team_capabilities =
     \<lparr>tb_name = ''team_capabilities'', tb_columns =
         [id_column,
          refers ''teams'' ''id'' ''CASCADE'' (required ''team_id'' SqlUuid),
          required ''capability_code'' (SqlVarchar 255)] @ timestamp_columns,
      tb_pkey = Some (''team_capabilities_pkey'', [''id'']),
      tb_uniques = [(''uq_team_capability'', [''team_id'', ''capability_code''])]\<rparr>"

definition indexes_team_capabilities :: "index_def list" where
  "indexes_team_capabilities =
    [index_on ''ix_team_capabilities_team_id'' ''team_capabilities'' [''team_id''],
     index_on ''ix_team_capabilities_capability_code'' ''team_capabilities'' [''capability_code'']]"

definition table_agent_capabilities :: table_def where
  "table_agent_capabilities =
     \<lparr>tb_name = ''agent_capabilities'', tb_columns =
         [id_column,
          refers ''agents'' ''id'' ''CASCADE'' (required ''agent_id'' SqlUuid),
          required ''capability_code'' (SqlVarchar 255)] @ timestamp_columns,
      tb_pkey = Some (''agent_capabilities_pkey'', [''id'']),
      tb_uniques = [(''uq_agent_capability'', [''agent_id'', ''capability_code''])]\<rparr>"

definition indexes_agent_capabilities :: "index_def list" where
  "indexes_agent_capabilities =
    [index_on ''ix_agent_capabilities_agent_id'' ''agent_capabilities'' [''agent_id''],
     index_on ''ix_agent_capabilities_capability_code'' ''agent_capabilities'' [''capability_code'']]"

definition table_chat_sessions :: table_def where
  "table_chat_sessions =
     \<lparr>tb_name = ''chat_sessions'', tb_columns =
         [id_column,
          refers ''agent_os'' ''id'' ''CASCADE'' (required ''agent_os_id'' SqlUuid),
          refers ''teams'' ''id'' ''SET NULL'' (nullable ''team_id'' SqlUuid),
          refers ''agents'' ''id'' ''SET NULL'' (nullable ''agent_id'' SqlUuid),
          nullable ''user_id'' (SqlVarchar 255),
          nullable ''title'' (SqlVarchar 255),
          nullable ''context'' SqlJsonb] @ timestamp_columns @ [deleted_column],
      tb_pkey = Some (''chat_sessions_pkey'', [''id'']),
      tb_uniques = []\<rparr>"

definition indexes_chat_sessions :: "index_def list" where
  "indexes_chat_sessions =
    [index_on ''ix_chat_sessions_agent_os_id'' ''chat_sessions'' [''agent_os_id''],
     index_on ''ix_chat_sessions_team_id'' ''chat_sessions'' [''team_id''],
     index_on ''ix_chat_sessions_agent_id'' ''chat_sessions'' [''agent_id''],
     index_on ''ix_chat_sessions_user_id'' ''chat_sessions'' [''user_id''],
     index_on ''ix_chat_sessions_deleted_at'' ''chat_sessions'' [''deleted_at'']]"

definition table_agent_runs :: table_def where
  "table_agent_runs =
     \<lparr>tb_name = ''agent_runs'', tb_columns =
         [id_column,
          refers ''chat_sessions'' ''id'' ''CASCADE'' (required ''session_id'' SqlUuid),
          refers ''agents'' ''id'' ''CASCADE'' (required ''agent_id'' SqlUuid),
          required ''status'' (SqlEnum ''run_status''),
          required ''input'' SqlText,
          nullable ''output'' SqlText,
          nullable ''error_message'' SqlText,
          nullable ''started_at'' SqlTimestamptz,
          nullable ''finished_at'' SqlTimestamptz] @ timestamp_columns,
      tb_pkey = Some (''agent_runs_pkey'', [''id'']),
      tb_uniques = []\<rparr>"

definition indexes_agent_runs :: "index_def list" where
  "indexes_agent_runs =
    [index_on ''ix_agent_runs_session_id'' ''agent_runs'' [''session_id''],
     index_on ''ix_agent_runs_agent_id'' ''agent_runs'' [''agent_id''],
     index_on ''ix_agent_runs_status'' ''agent_runs'' [''status''],
     index_on ''ix_agent_runs_session_created'' ''agent_runs'' [''session_id'', ''created_at'']]"

definition table_chat_messages :: table_def where
  "table_chat_messages =
     \<lparr>tb_name = ''chat_messages'', tb_columns =
         [id_column,
          refers ''chat_sessions'' ''id'' ''CASCADE'' (required ''session_id'' SqlUuid),
          refers ''agent_runs'' ''id'' ''SET NULL'' (nullable ''run_id'' SqlUuid),
          required ''role'' (SqlEnum ''message_role''),
          required ''content'' SqlText,
          nullable ''message_metadata'' SqlJsonb] @ timestamp_columns,
      tb_pkey = Some (''chat_messages_pkey'', [''id'']),
      tb_uniques = []\<rparr>"

definition indexes_chat_messages :: "index_def list" where
  "indexes_chat_messages =
    [index_on ''ix_chat_messages_session_id'' ''chat_messages'' [''session_id''],
     index_on ''ix_chat_messages_run_id'' ''chat_messages'' [''run_id''],
     index_on ''ix_chat_messages_session_created'' ''chat_messages'' [''session_id'', ''created_at'']]"

definition table_agent_events :: table_def where
  "table_agent_events =
     \<lparr>tb_name = ''agent_events'', tb_columns =
         [id_column,
          refers ''agent_runs'' ''id'' ''CASCADE'' (required ''run_id'' SqlUuid),
          required ''event_type'' (SqlEnum ''event_type''),
          nullable ''payload'' SqlJsonb] @ timestamp_columns,
      tb_pkey = Some (''agent_events_pkey'', [''id'']),
      tb_uniques = []\<rparr>"

definition indexes_agent_events :: "index_def list" where
  "indexes_agent_events =
    [index_on ''ix_agent_events_run_id'' ''agent_events'' [''run_id''],
     index_on ''ix_agent_events_event_type'' ''agent_events'' [''event_type''],
     index_on ''ix_agent_events_run_created'' ''agent_events'' [''run_id'', ''created_at'']]"

definition table_agent_memories :: table_def where
  "table_agent_memories =
     \<lparr>tb_name = ''agent_memories'', tb_columns =
         [id_column,
          refers ''agents'' ''id'' ''CASCADE'' (required ''agent_id'' SqlUuid),
          nullable ''user_id'' (SqlVarchar 255),
          required ''memory_type'' (SqlEnum ''memory_type''),
          required ''content'' SqlText] @ timestamp_columns,
      tb_pkey = Some (''agent_memories_pkey'', [''id'']),
      tb_uniques = []\<rparr>"

definition indexes_agent_memories :: "index_def list" where
  "indexes_agent_memories =
    [index_on ''ix_agent_memories_agent_id'' ''agent_memories'' [''agent_id''],
     index_on ''ix_agent_memories_user_id'' ''agent_memories'' [''user_id''],
     index_on ''ix_agent_memories_memory_type'' ''agent_memories'' [''memory_type'']]"

definition downgrade_0001 :: "statement list" where
  "downgrade_0001 =
    [DropTable ''agent_memories'',
      DropTable ''agent_events'',
      DropTable ''chat_messages'',
      DropTable ''agent_runs'',
      DropTable ''chat_sessions'',
      DropTable ''agent_capabilities'',
      DropTable ''team_capabilities'',
      DropTable ''agent_os_capabilities'',
      DropTable ''agent_skills'',
      DropTable ''skill_capabilities'',
      DropTable ''skills'',
      DropTable ''agents'',
      DropTable ''teams'',
      DropTable ''agent_os'',
      DropTable ''prompts'',
      DropTable ''model_registry'',
      DropEnum ''memory_type'',
      DropEnum ''event_type'',
      DropEnum ''run_status'',
      DropEnum ''message_role'',
      DropEnum ''prompt_status'']"

definition revision_0001 :: revision where
  "revision_0001 =
     \<lparr>rv_revision = ''0001_initial_schema'', rv_down_revision = None,
      rv_upgrade = [Transactional
          (enums_0001 @
           create table_model_registry indexes_model_registry @
           create table_prompts indexes_prompts @
           create table_agent_os indexes_agent_os @
           create table_teams indexes_teams @
           create table_agents indexes_agents @
           create table_skills indexes_skills @
           create table_skill_capabilities indexes_skill_capabilities @
           create table_agent_skills indexes_agent_skills @
           create table_agent_os_capabilities indexes_agent_os_capabilities @
           create table_team_capabilities indexes_team_capabilities @
           create table_agent_capabilities indexes_agent_capabilities @
           create table_chat_sessions indexes_chat_sessions @
           create table_agent_runs indexes_agent_runs @
           create table_chat_messages indexes_chat_messages @
           create table_agent_events indexes_agent_events @
           create table_agent_memories indexes_agent_memories)],
      rv_downgrade = downgrade_0001\<rparr>"

subsection \<open>0002: endpoint columns of the model registry\<close>

definition columns_0002 :: "statement list" where
  "columns_0002 =
    [AddColumn ''model_registry'' (nullable ''base_url'' SqlText),
      AddColumn ''model_registry'' (nullable ''api_key'' SqlText),
      AddColumn ''model_registry'' (nullable ''extra_client_params'' SqlJsonb)]"

definition downgrade_0002 :: "statement list" where
  "downgrade_0002 =
    [DropColumn ''model_registry'' ''extra_client_params'',
      DropColumn ''model_registry'' ''api_key'',
      DropColumn ''model_registry'' ''base_url'']"

definition revision_0002 :: revision where
  "revision_0002 =
     \<lparr>rv_revision = ''0002_model_registry_base_url'', rv_down_revision = Some ''0001_initial_schema'',
      rv_upgrade = [Transactional
          (columns_0002)],
      rv_downgrade = downgrade_0002\<rparr>"

subsection \<open>0003: agentic memory\<close>

definition columns_0003 :: "statement list" where
  "columns_0003 =
    [AddColumn ''agent_memories'' (nullable ''source_memory_id'' (SqlVarchar 255)),
      CreateIndex (index_on ''ix_agent_memories_source_memory_id'' ''agent_memories'' [''source_memory_id'']),
      AddUnique ''agent_memories'' (''uq_agent_memory_source'', [''agent_id'', ''user_id'', ''source_memory_id''])]"

definition added_values_0003 :: "statement list" where
  "added_values_0003 =
    [AddEnumValue ''event_type'' ''memory_update_started'',
      AddEnumValue ''event_type'' ''memory_update_completed'']"

definition downgrade_0003 :: "statement list" where
  "downgrade_0003 =
    [DropUnique ''agent_memories'' ''uq_agent_memory_source'',
      DropIndex ''ix_agent_memories_source_memory_id'',
      DropColumn ''agent_memories'' ''source_memory_id'']"

definition revision_0003 :: revision where
  "revision_0003 =
     \<lparr>rv_revision = ''0003_agentic_memory'', rv_down_revision = Some ''0002_model_registry_base_url'',
      rv_upgrade = [Transactional
          (columns_0003),
                    Autocommit added_values_0003],
      rv_downgrade = downgrade_0003\<rparr>"

subsection \<open>0004: workflows\<close>

definition enums_0004 :: "statement list" where
  "enums_0004 =
    [CreateEnum ''workflow_step_type'' [''AGENT'', ''TEAM''],
      CreateEnum ''workflow_run_status'' [''PENDING'', ''RUNNING'', ''COMPLETED'', ''FAILED''],
      CreateEnum ''workflow_step_status'' [''PENDING'', ''RUNNING'', ''COMPLETED'', ''FAILED''],
      CreateEnum ''workflow_event_type'' [''WorkflowStarted'', ''WorkflowStepStarted'', ''WorkflowStepCompleted'',
             ''WorkflowCompleted'', ''WorkflowFailed'']]"

definition table_workflows :: table_def where
  "table_workflows =
     \<lparr>tb_name = ''workflows'', tb_columns =
         [id_column,
          refers ''agent_os'' ''id'' ''CASCADE'' (required ''agent_os_id'' SqlUuid),
          required ''code'' (SqlVarchar 128),
          required ''name'' (SqlVarchar 255),
          nullable ''description'' SqlText,
          refers ''teams'' ''id'' ''SET NULL'' (nullable ''team_id'' SqlUuid),
          required ''enabled'' SqlBoolean,
          nullable ''workflow_metadata'' SqlJsonb,
          nullable ''created_by'' (SqlVarchar 255)] @ timestamp_columns @ [deleted_column],
      tb_pkey = Some (''workflows_pkey'', [''id'']),
      tb_uniques = [(''uq_workflow_agent_os_code'', [''agent_os_id'', ''code''])]\<rparr>"

definition indexes_workflows :: "index_def list" where
  "indexes_workflows =
    [index_on ''ix_workflows_agent_os_id'' ''workflows'' [''agent_os_id''],
     index_on ''ix_workflows_code'' ''workflows'' [''code''],
     index_on ''ix_workflows_deleted_at'' ''workflows'' [''deleted_at'']]"

definition table_workflow_steps :: table_def where
  "table_workflow_steps =
     \<lparr>tb_name = ''workflow_steps'', tb_columns =
         [id_column,
          refers ''workflows'' ''id'' ''CASCADE'' (required ''workflow_id'' SqlUuid),
          required ''step_order'' SqlInteger,
          required ''step_type'' (SqlEnum ''workflow_step_type''),
          refers ''agents'' ''id'' ''CASCADE'' (nullable ''agent_id'' SqlUuid),
          refers ''teams'' ''id'' ''CASCADE'' (nullable ''team_id'' SqlUuid),
          nullable ''step_config'' SqlJsonb] @ timestamp_columns,
      tb_pkey = Some (''workflow_steps_pkey'', [''id'']),
      tb_uniques = [(''uq_workflow_step_order'', [''workflow_id'', ''step_order''])]\<rparr>"

definition indexes_workflow_steps :: "index_def list" where
  "indexes_workflow_steps =
    [index_on ''ix_workflow_steps_workflow_id'' ''workflow_steps'' [''workflow_id''],
     index_on ''ix_workflow_steps_agent_id'' ''workflow_steps'' [''agent_id''],
     index_on ''ix_workflow_steps_team_id'' ''workflow_steps'' [''team_id'']]"

definition table_workflow_runs :: table_def where
  "table_workflow_runs =
     \<lparr>tb_name = ''workflow_runs'', tb_columns =
         [id_column,
          refers ''workflows'' ''id'' ''CASCADE'' (required ''workflow_id'' SqlUuid),
          refers ''chat_sessions'' ''id'' ''CASCADE'' (required ''session_id'' SqlUuid),
          required ''status'' (SqlEnum ''workflow_run_status''),
          required ''input'' SqlText,
          nullable ''result'' SqlText,
          nullable ''error_message'' SqlText,
          nullable ''started_at'' SqlTimestamptz,
          nullable ''completed_at'' SqlTimestamptz,
          nullable ''created_by'' (SqlVarchar 255)] @ timestamp_columns,
      tb_pkey = Some (''workflow_runs_pkey'', [''id'']),
      tb_uniques = []\<rparr>"

definition indexes_workflow_runs :: "index_def list" where
  "indexes_workflow_runs =
    [index_on ''ix_workflow_runs_workflow_id'' ''workflow_runs'' [''workflow_id''],
     index_on ''ix_workflow_runs_session_id'' ''workflow_runs'' [''session_id''],
     index_on ''ix_workflow_runs_status'' ''workflow_runs'' [''status'']]"

definition table_workflow_run_steps :: table_def where
  "table_workflow_run_steps =
     \<lparr>tb_name = ''workflow_run_steps'', tb_columns =
         [id_column,
          refers ''workflow_runs'' ''id'' ''CASCADE'' (required ''workflow_run_id'' SqlUuid),
          refers ''workflow_steps'' ''id'' ''CASCADE'' (required ''workflow_step_id'' SqlUuid),
          required ''step_order'' SqlInteger,
          required ''status'' (SqlEnum ''workflow_step_status''),
          nullable ''started_at'' SqlTimestamptz,
          nullable ''completed_at'' SqlTimestamptz,
          nullable ''input'' SqlJsonb,
          nullable ''output'' SqlJsonb,
          nullable ''error_message'' SqlText] @ timestamp_columns,
      tb_pkey = Some (''workflow_run_steps_pkey'', [''id'']),
      tb_uniques = []\<rparr>"

definition indexes_workflow_run_steps :: "index_def list" where
  "indexes_workflow_run_steps =
    [index_on ''ix_workflow_run_steps_workflow_run_id'' ''workflow_run_steps'' [''workflow_run_id''],
     index_on ''ix_workflow_run_steps_workflow_step_id'' ''workflow_run_steps'' [''workflow_step_id''],
     index_on ''ix_workflow_run_steps_status'' ''workflow_run_steps'' [''status''],
     index_on ''ix_workflow_run_steps_run_order'' ''workflow_run_steps'' [''workflow_run_id'', ''step_order'']]"

definition table_workflow_events :: table_def where
  "table_workflow_events =
     \<lparr>tb_name = ''workflow_events'', tb_columns =
         [id_column,
          refers ''workflow_runs'' ''id'' ''CASCADE'' (required ''workflow_run_id'' SqlUuid),
          required ''event_type'' (SqlEnum ''workflow_event_type''),
          nullable ''payload'' SqlJsonb] @ timestamp_columns,
      tb_pkey = Some (''workflow_events_pkey'', [''id'']),
      tb_uniques = []\<rparr>"

definition indexes_workflow_events :: "index_def list" where
  "indexes_workflow_events =
    [index_on ''ix_workflow_events_workflow_run_id'' ''workflow_events'' [''workflow_run_id''],
     index_on ''ix_workflow_events_event_type'' ''workflow_events'' [''event_type''],
     index_on ''ix_workflow_events_run_created'' ''workflow_events'' [''workflow_run_id'', ''created_at'']]"

definition downgrade_0004 :: "statement list" where
  "downgrade_0004 =
    [DropTable ''workflow_events'',
      DropTable ''workflow_run_steps'',
      DropTable ''workflow_runs'',
      DropTable ''workflow_steps'',
      DropTable ''workflows'',
      DropEnum ''workflow_event_type'',
      DropEnum ''workflow_step_status'',
      DropEnum ''workflow_run_status'',
      DropEnum ''workflow_step_type'']"

definition revision_0004 :: revision where
  "revision_0004 =
     \<lparr>rv_revision = ''0004_workflows'', rv_down_revision = Some ''0003_agentic_memory'',
      rv_upgrade = [Transactional
          (enums_0004 @
           create table_workflows indexes_workflows @
           create table_workflow_steps indexes_workflow_steps @
           create table_workflow_runs indexes_workflow_runs @
           create table_workflow_run_steps indexes_workflow_run_steps @
           create table_workflow_events indexes_workflow_events)],
      rv_downgrade = downgrade_0004\<rparr>"

subsection \<open>0005: Agno agent sessions\<close>

definition table_agno_agent_sessions :: table_def where
  "table_agno_agent_sessions =
     \<lparr>tb_name = ''agno_agent_sessions'', tb_columns =
         [required ''session_id'' SqlText,
          nullable ''user_id'' SqlText,
          nullable ''memory'' SqlJsonb,
          nullable ''session_data'' SqlJsonb,
          nullable ''extra_data'' SqlJsonb,
          defaults (Expression ''(extract(epoch from now()))::bigint'') (nullable ''created_at'' SqlBigInt),
          nullable ''updated_at'' SqlBigInt,
          nullable ''agent_id'' SqlText,
          nullable ''team_session_id'' SqlText,
          nullable ''agent_data'' SqlJsonb],
      tb_pkey = Some (''agno_agent_sessions_pkey'', [''session_id'']),
      tb_uniques = []\<rparr>"

definition indexes_agno_agent_sessions :: "index_def list" where
  "indexes_agno_agent_sessions =
    [index_on ''ix_agno_agent_sessions_user_id'' ''agno_agent_sessions'' [''user_id''],
     index_on ''ix_agno_agent_sessions_agent_id'' ''agno_agent_sessions'' [''agent_id''],
     index_on ''ix_agno_agent_sessions_team_session_id'' ''agno_agent_sessions'' [''team_session_id'']]"

definition downgrade_0005 :: "statement list" where
  "downgrade_0005 =
    [DropIndex ''ix_agno_agent_sessions_team_session_id'',
      DropIndex ''ix_agno_agent_sessions_agent_id'',
      DropIndex ''ix_agno_agent_sessions_user_id'',
      DropTable ''agno_agent_sessions'']"

definition revision_0005 :: revision where
  "revision_0005 =
     \<lparr>rv_revision = ''0005_agno_agent_sessions'', rv_down_revision = Some ''0004_workflows'',
      rv_upgrade = [Transactional
          (create table_agno_agent_sessions indexes_agno_agent_sessions)],
      rv_downgrade = downgrade_0005\<rparr>"

subsection \<open>0006: Agno team sessions\<close>

definition table_agno_team_sessions :: table_def where
  "table_agno_team_sessions =
     \<lparr>tb_name = ''agno_team_sessions'', tb_columns =
         [required ''session_id'' SqlText,
          nullable ''user_id'' SqlText,
          nullable ''memory'' SqlJsonb,
          nullable ''session_data'' SqlJsonb,
          nullable ''extra_data'' SqlJsonb,
          defaults (Expression ''(extract(epoch from now()))::bigint'') (nullable ''created_at'' SqlBigInt),
          nullable ''updated_at'' SqlBigInt,
          nullable ''team_id'' SqlText,
          nullable ''team_session_id'' SqlText,
          nullable ''team_data'' SqlJsonb],
      tb_pkey = Some (''agno_team_sessions_pkey'', [''session_id'']),
      tb_uniques = []\<rparr>"

definition indexes_agno_team_sessions :: "index_def list" where
  "indexes_agno_team_sessions =
    [index_on ''ix_agno_team_sessions_user_id'' ''agno_team_sessions'' [''user_id''],
     index_on ''ix_agno_team_sessions_team_id'' ''agno_team_sessions'' [''team_id''],
     index_on ''ix_agno_team_sessions_team_session_id'' ''agno_team_sessions'' [''team_session_id'']]"

definition downgrade_0006 :: "statement list" where
  "downgrade_0006 =
    [DropIndex ''ix_agno_team_sessions_team_session_id'',
      DropIndex ''ix_agno_team_sessions_team_id'',
      DropIndex ''ix_agno_team_sessions_user_id'',
      DropTable ''agno_team_sessions'']"

definition revision_0006 :: revision where
  "revision_0006 =
     \<lparr>rv_revision = ''0006_agno_team_sessions'', rv_down_revision = Some ''0005_agno_agent_sessions'',
      rv_upgrade = [Transactional
          (create table_agno_team_sessions indexes_agno_team_sessions)],
      rv_downgrade = downgrade_0006\<rparr>"

subsection \<open>0007: skill types\<close>

definition enums_0007 :: "statement list" where
  "enums_0007 =
    [CreateEnum ''skill_type'' [''MCP'', ''WORKFLOW'', ''PROMPT'', ''CUSTOM'', ''KNOWLEDGE'']]"

definition columns_0007 :: "statement list" where
  "columns_0007 =
    [AddColumn ''skills'' (defaults (Literal ''MCP'') (required ''skill_type'' (SqlEnum ''skill_type''))),
      AddColumn ''skills'' (nullable ''config'' SqlJsonb),
      CreateIndex (index_on ''ix_skills_skill_type'' ''skills'' [''skill_type'']),
      DropDefault ''skills'' ''skill_type'']"

definition downgrade_0007 :: "statement list" where
  "downgrade_0007 =
    [DropIndex ''ix_skills_skill_type'',
      DropColumn ''skills'' ''config'',
      DropColumn ''skills'' ''skill_type'',
      DropEnum ''skill_type'']"

definition revision_0007 :: revision where
  "revision_0007 =
     \<lparr>rv_revision = ''0007_knowledge_skills'', rv_down_revision = Some ''0006_agno_team_sessions'',
      rv_upgrade = [Transactional
          (enums_0007 @
           columns_0007)],
      rv_downgrade = downgrade_0007\<rparr>"

subsection \<open>0008: run control\<close>

definition added_values_0008 :: "statement list" where
  "added_values_0008 =
    [AddEnumValue ''run_status'' ''cancelled'',
      AddEnumValue ''event_type'' ''run_cancelled'']"

definition downgrade_0008 :: "statement list" where
  "downgrade_0008 =
    []"

definition revision_0008 :: revision where
  "revision_0008 =
     \<lparr>rv_revision = ''0008_run_control'', rv_down_revision = Some ''0007_knowledge_skills'',
      rv_upgrade = [Autocommit added_values_0008],
      rv_downgrade = downgrade_0008\<rparr>"

subsection \<open>0009: UI metadata\<close>

definition enums_0009 :: "statement list" where
  "enums_0009 =
    [CreateEnum ''ui_metadata_kind'' [''APPLICATION'', ''PAGE'', ''FORM'', ''DIALOG'', ''GRID'', ''BUSINESS_OBJECT'',
             ''FIELD'', ''VALIDATION_RULE'', ''LOOKUP'', ''BUSINESS_RULE'', ''COMPONENT'',
             ''PERMISSION'', ''EVENT'']]"

definition table_ui_metadata_entries :: table_def where
  "table_ui_metadata_entries =
     \<lparr>tb_name = ''ui_metadata_entries'', tb_columns =
         [id_column,
          required ''code'' (SqlVarchar 128),
          required ''kind'' (SqlEnum ''ui_metadata_kind''),
          required ''name'' (SqlVarchar 255),
          nullable ''description'' SqlText,
          required ''version'' SqlInteger,
          nullable ''parent_code'' (SqlVarchar 128),
          required ''payload'' SqlJsonb,
          defaults (Literal ''1.0'') (required ''schema_version'' (SqlVarchar 32)),
          defaults (Expression ''true'') (required ''enabled'' SqlBoolean)] @ timestamp_columns @ [deleted_column],
      tb_pkey = Some (''ui_metadata_entries_pkey'', [''id'']),
      tb_uniques = [(''uq_ui_metadata_code_kind_version'', [''code'', ''kind'', ''version''])]\<rparr>"

definition indexes_ui_metadata_entries :: "index_def list" where
  "indexes_ui_metadata_entries =
    [index_on ''ix_ui_metadata_entries_code'' ''ui_metadata_entries'' [''code''],
     index_on ''ix_ui_metadata_entries_kind'' ''ui_metadata_entries'' [''kind''],
     index_on ''ix_ui_metadata_entries_parent_code'' ''ui_metadata_entries'' [''parent_code''],
     index_on ''ix_ui_metadata_entries_deleted_at'' ''ui_metadata_entries'' [''deleted_at'']]"

definition downgrade_0009 :: "statement list" where
  "downgrade_0009 =
    [DropTable ''ui_metadata_entries'',
      DropEnum ''ui_metadata_kind'']"

definition revision_0009 :: revision where
  "revision_0009 =
     \<lparr>rv_revision = ''0009_ui_metadata_registry'', rv_down_revision = Some ''0008_run_control'',
      rv_upgrade = [Transactional
          (enums_0009 @
           create table_ui_metadata_entries indexes_ui_metadata_entries)],
      rv_downgrade = downgrade_0009\<rparr>"

subsection \<open>0010: UI skills\<close>

definition added_values_0010 :: "statement list" where
  "added_values_0010 =
    [AddEnumValue ''skill_type'' ''UI'']"

definition downgrade_0010 :: "statement list" where
  "downgrade_0010 =
    []"

definition revision_0010 :: revision where
  "revision_0010 =
     \<lparr>rv_revision = ''0010_ui_skill_type'', rv_down_revision = Some ''0009_ui_metadata_registry'',
      rv_upgrade = [Autocommit added_values_0010],
      rv_downgrade = downgrade_0010\<rparr>"

subsection \<open>0011: business objects\<close>

definition table_business_object_definitions :: table_def where
  "table_business_object_definitions =
     \<lparr>tb_name = ''business_object_definitions'', tb_columns =
         [id_column,
          required ''code'' (SqlVarchar 128),
          required ''name'' (SqlVarchar 255),
          nullable ''description'' SqlText,
          required ''version'' SqlInteger,
          required ''payload'' SqlJsonb,
          defaults (Expression ''true'') (required ''enabled'' SqlBoolean)] @ timestamp_columns @ [deleted_column],
      tb_pkey = Some (''business_object_definitions_pkey'', [''id'']),
      tb_uniques = [(''uq_business_object_code_version'', [''code'', ''version''])]\<rparr>"

definition indexes_business_object_definitions :: "index_def list" where
  "indexes_business_object_definitions =
    [index_on ''ix_business_object_definitions_code'' ''business_object_definitions'' [''code''],
     index_on ''ix_business_object_definitions_deleted_at'' ''business_object_definitions'' [''deleted_at'']]"

definition downgrade_0011 :: "statement list" where
  "downgrade_0011 =
    [DropTable ''business_object_definitions'']"

definition revision_0011 :: revision where
  "revision_0011 =
     \<lparr>rv_revision = ''0011_business_objects'', rv_down_revision = Some ''0010_ui_skill_type'',
      rv_upgrade = [Transactional
          (create table_business_object_definitions indexes_business_object_definitions)],
      rv_downgrade = downgrade_0011\<rparr>"

subsection \<open>0012: observations and runtime events\<close>

definition enums_0012 :: "statement list" where
  "enums_0012 =
    [CreateEnum ''observation_type'' [''KNOWLEDGE_RETRIEVAL'', ''SKILL_OUTPUT'', ''BUSINESS_RESPONSE'',
             ''UI_RESULT'', ''WARNING'', ''ERROR'']]"

definition table_runtime_observations :: table_def where
  "table_runtime_observations =
     \<lparr>tb_name = ''runtime_observations'', tb_columns =
         [id_column,
          nullable ''run_id'' SqlUuid,
          nullable ''workflow_run_id'' SqlUuid,
          nullable ''agent_id'' SqlUuid,
          required ''observation_type'' (SqlEnum ''observation_type''),
          nullable ''source'' (SqlVarchar 255),
          required ''payload'' SqlJsonb,
          nullable ''execution_time_ms'' SqlFloat] @ timestamp_columns,
      tb_pkey = Some (''runtime_observations_pkey'', [''id'']),
      tb_uniques = []\<rparr>"

definition indexes_runtime_observations :: "index_def list" where
  "indexes_runtime_observations =
    [index_on ''ix_runtime_observations_run_id'' ''runtime_observations'' [''run_id''],
     index_on ''ix_runtime_observations_workflow_run_id'' ''runtime_observations'' [''workflow_run_id''],
     index_on ''ix_runtime_observations_agent_id'' ''runtime_observations'' [''agent_id''],
     index_on ''ix_runtime_observations_observation_type'' ''runtime_observations'' [''observation_type'']]"

definition table_runtime_events :: table_def where
  "table_runtime_events =
     \<lparr>tb_name = ''runtime_events'', tb_columns =
         [id_column,
          required ''entity_type'' (SqlVarchar 64),
          required ''entity_id'' (SqlVarchar 128),
          required ''event_name'' (SqlVarchar 128),
          required ''payload'' SqlJsonb,
          nullable ''correlation_id'' (SqlVarchar 128)] @ timestamp_columns,
      tb_pkey = Some (''runtime_events_pkey'', [''id'']),
      tb_uniques = []\<rparr>"

definition indexes_runtime_events :: "index_def list" where
  "indexes_runtime_events =
    [index_on ''ix_runtime_events_entity_type'' ''runtime_events'' [''entity_type''],
     index_on ''ix_runtime_events_entity_id'' ''runtime_events'' [''entity_id''],
     index_on ''ix_runtime_events_event_name'' ''runtime_events'' [''event_name''],
     index_on ''ix_runtime_events_correlation_id'' ''runtime_events'' [''correlation_id'']]"

definition downgrade_0012 :: "statement list" where
  "downgrade_0012 =
    [DropTable ''runtime_events'',
      DropTable ''runtime_observations'',
      DropEnum ''observation_type'']"

definition revision_0012 :: revision where
  "revision_0012 =
     \<lparr>rv_revision = ''0012_obs_events'', rv_down_revision = Some ''0011_business_objects'',
      rv_upgrade = [Transactional
          (enums_0012 @
           create table_runtime_observations indexes_runtime_observations @
           create table_runtime_events indexes_runtime_events)],
      rv_downgrade = downgrade_0012\<rparr>"

subsection \<open>0013: execution plans\<close>

definition enums_0013 :: "statement list" where
  "enums_0013 =
    [CreateEnum ''execution_plan_run_status'' [''PENDING'', ''RUNNING'', ''COMPLETED'', ''FAILED''],
      CreateEnum ''execution_step_status'' [''PENDING'', ''RUNNING'', ''RETRYING'', ''COMPLETED'', ''FAILED'']]"

definition table_execution_plan_runs :: table_def where
  "table_execution_plan_runs =
     \<lparr>tb_name = ''execution_plan_runs'', tb_columns =
         [id_column,
          nullable ''session_id'' SqlUuid,
          required ''input'' SqlText,
          nullable ''rationale'' SqlText,
          required ''status'' (SqlEnum ''execution_plan_run_status''),
          nullable ''result'' SqlText,
          nullable ''error_message'' SqlText,
          nullable ''started_at'' SqlTimestamptz,
          nullable ''completed_at'' SqlTimestamptz] @ timestamp_columns,
      tb_pkey = Some (''execution_plan_runs_pkey'', [''id'']),
      tb_uniques = []\<rparr>"

definition indexes_execution_plan_runs :: "index_def list" where
  "indexes_execution_plan_runs =
    [index_on ''ix_execution_plan_runs_session_id'' ''execution_plan_runs'' [''session_id''],
     index_on ''ix_execution_plan_runs_status'' ''execution_plan_runs'' [''status'']]"

definition table_execution_plan_step_runs :: table_def where
  "table_execution_plan_step_runs =
     \<lparr>tb_name = ''execution_plan_step_runs'', tb_columns =
         [id_column,
          refers ''execution_plan_runs'' ''id'' ''CASCADE'' (required ''plan_run_id'' SqlUuid),
          required ''step_order'' SqlInteger,
          required ''target_type'' (SqlVarchar 16),
          required ''target_code'' (SqlVarchar 255),
          required ''status'' (SqlEnum ''execution_step_status''),
          defaults (Literal ''0'') (required ''attempt_count'' SqlInteger),
          nullable ''input'' SqlText,
          nullable ''output'' SqlText,
          nullable ''error_message'' SqlText,
          nullable ''started_at'' SqlTimestamptz,
          nullable ''completed_at'' SqlTimestamptz] @ timestamp_columns,
      tb_pkey = Some (''execution_plan_step_runs_pkey'', [''id'']),
      tb_uniques = []\<rparr>"

definition indexes_execution_plan_step_runs :: "index_def list" where
  "indexes_execution_plan_step_runs =
    [index_on ''ix_execution_plan_step_runs_plan_run_id'' ''execution_plan_step_runs'' [''plan_run_id''],
     index_on ''ix_execution_plan_step_runs_status'' ''execution_plan_step_runs'' [''status'']]"

definition downgrade_0013 :: "statement list" where
  "downgrade_0013 =
    [DropTable ''execution_plan_step_runs'',
      DropTable ''execution_plan_runs'',
      DropEnum ''execution_step_status'',
      DropEnum ''execution_plan_run_status'']"

definition revision_0013 :: revision where
  "revision_0013 =
     \<lparr>rv_revision = ''0013_execution_engine'', rv_down_revision = Some ''0012_obs_events'',
      rv_upgrade = [Transactional
          (enums_0013 @
           create table_execution_plan_runs indexes_execution_plan_runs @
           create table_execution_plan_step_runs indexes_execution_plan_step_runs)],
      rv_downgrade = downgrade_0013\<rparr>"

subsection \<open>0014: attachments\<close>

definition enums_0014 :: "statement list" where
  "enums_0014 =
    [CreateEnum ''attachment_kind'' [''IMAGE'', ''PDF'', ''DOCX'', ''XLSX'', ''OTHER''],
      CreateEnum ''attachment_status'' [''UPLOADED'', ''PROCESSING'', ''READY'', ''FAILED'']]"

definition table_attachments :: table_def where
  "table_attachments =
     \<lparr>tb_name = ''attachments'', tb_columns =
         [id_column,
          nullable ''session_id'' SqlUuid,
          nullable ''user_id'' (SqlVarchar 255),
          required ''filename'' (SqlVarchar 500),
          required ''mime_type'' (SqlVarchar 128),
          required ''kind'' (SqlEnum ''attachment_kind''),
          required ''size_bytes'' SqlBigInt,
          required ''storage_bucket'' (SqlVarchar 255),
          required ''storage_key'' (SqlVarchar 1000),
          required ''status'' (SqlEnum ''attachment_status''),
          nullable ''extracted_text'' SqlText,
          nullable ''extraction_raw'' SqlJsonb,
          nullable ''error_message'' SqlText] @ timestamp_columns,
      tb_pkey = Some (''attachments_pkey'', [''id'']),
      tb_uniques = []\<rparr>"

definition indexes_attachments :: "index_def list" where
  "indexes_attachments =
    [index_on ''ix_attachments_session_id'' ''attachments'' [''session_id''],
     index_on ''ix_attachments_user_id'' ''attachments'' [''user_id''],
     index_on ''ix_attachments_status'' ''attachments'' [''status'']]"

definition downgrade_0014 :: "statement list" where
  "downgrade_0014 =
    [DropTable ''attachments'',
      DropEnum ''attachment_status'',
      DropEnum ''attachment_kind'']"

definition revision_0014 :: revision where
  "revision_0014 =
     \<lparr>rv_revision = ''0014_attachments'', rv_down_revision = Some ''0013_execution_engine'',
      rv_upgrade = [Transactional
          (enums_0014 @
           create table_attachments indexes_attachments)],
      rv_downgrade = downgrade_0014\<rparr>"

subsection \<open>0015: schedules and webhooks\<close>

definition enums_0015 :: "statement list" where
  "enums_0015 =
    [CreateEnum ''schedule_type'' [''CRON'', ''INTERVAL'']]"

definition table_workflow_schedules :: table_def where
  "table_workflow_schedules =
     \<lparr>tb_name = ''workflow_schedules'', tb_columns =
         [id_column,
          refers ''workflows'' ''id'' ''CASCADE'' (required ''workflow_id'' SqlUuid),
          required ''schedule_type'' (SqlEnum ''schedule_type''),
          nullable ''cron_expression'' (SqlVarchar 128),
          nullable ''interval_seconds'' SqlInteger,
          defaults (Literal ''UTC'') (required ''timezone'' (SqlVarchar 64)),
          required ''input_template'' SqlText,
          nullable ''user_id'' (SqlVarchar 255),
          defaults (Expression ''true'') (required ''enabled'' SqlBoolean),
          nullable ''next_run_at'' SqlTimestamptz,
          nullable ''last_run_at'' SqlTimestamptz,
          nullable ''last_status'' (SqlVarchar 32),
          nullable ''last_error'' SqlText,
          nullable ''last_workflow_run_id'' SqlUuid] @ timestamp_columns @ [deleted_column],
      tb_pkey = Some (''workflow_schedules_pkey'', [''id'']),
      tb_uniques = []\<rparr>"

definition indexes_workflow_schedules :: "index_def list" where
  "indexes_workflow_schedules =
    [index_on ''ix_workflow_schedules_workflow_id'' ''workflow_schedules'' [''workflow_id''],
     index_on ''ix_workflow_schedules_next_run_at'' ''workflow_schedules'' [''next_run_at''],
     index_on ''ix_workflow_schedules_deleted_at'' ''workflow_schedules'' [''deleted_at'']]"

definition table_workflow_webhooks :: table_def where
  "table_workflow_webhooks =
     \<lparr>tb_name = ''workflow_webhooks'', tb_columns =
         [id_column,
          refers ''workflows'' ''id'' ''CASCADE'' (required ''workflow_id'' SqlUuid),
          required ''webhook_token'' (SqlVarchar 64),
          nullable ''secret'' SqlText,
          nullable ''input_field_path'' (SqlVarchar 255),
          nullable ''allowed_source_ips'' SqlJsonb,
          nullable ''user_id'' (SqlVarchar 255),
          defaults (Expression ''true'') (required ''enabled'' SqlBoolean)] @ timestamp_columns @ [deleted_column],
      tb_pkey = Some (''workflow_webhooks_pkey'', [''id'']),
      tb_uniques = [(''uq_workflow_webhook_token'', [''webhook_token''])]\<rparr>"

definition indexes_workflow_webhooks :: "index_def list" where
  "indexes_workflow_webhooks =
    [index_on ''ix_workflow_webhooks_workflow_id'' ''workflow_webhooks'' [''workflow_id''],
     index_on ''ix_workflow_webhooks_webhook_token'' ''workflow_webhooks'' [''webhook_token''],
     index_on ''ix_workflow_webhooks_deleted_at'' ''workflow_webhooks'' [''deleted_at'']]"

definition downgrade_0015 :: "statement list" where
  "downgrade_0015 =
    [DropTable ''workflow_webhooks'',
      DropTable ''workflow_schedules'',
      DropEnum ''schedule_type'']"

definition revision_0015 :: revision where
  "revision_0015 =
     \<lparr>rv_revision = ''0015_workflow_schedule_webhook'', rv_down_revision = Some ''0014_attachments'',
      rv_upgrade = [Transactional
          (enums_0015 @
           create table_workflow_schedules indexes_workflow_schedules @
           create table_workflow_webhooks indexes_workflow_webhooks)],
      rv_downgrade = downgrade_0015\<rparr>"

subsection \<open>0016: quotas\<close>

definition enums_0016 :: "statement list" where
  "enums_0016 =
    [CreateEnum ''quota_scope_type'' [''GLOBAL'', ''GROUP'', ''USER''],
      CreateEnum ''quota_period'' [''DAILY'', ''MONTHLY'', ''FIXED_WINDOW''],
      CreateEnum ''quota_metric'' [''REQUESTS'', ''TOKENS'', ''COST_USD'']]"

definition columns_0016 :: "statement list" where
  "columns_0016 =
    [AddColumn ''model_registry'' (nullable ''cost_per_1k_input_tokens'' SqlFloat),
      AddColumn ''model_registry'' (nullable ''cost_per_1k_output_tokens'' SqlFloat)]"

definition table_quota_policies :: table_def where
  "table_quota_policies =
     \<lparr>tb_name = ''quota_policies'', tb_columns =
         [id_column,
          required ''scope_type'' (SqlEnum ''quota_scope_type''),
          defaults (Literal []) (required ''scope_value'' (SqlVarchar 255)),
          refers ''model_registry'' ''id'' ''CASCADE'' (nullable ''model_id'' SqlUuid),
          required ''metric'' (SqlEnum ''quota_metric''),
          required ''period'' (SqlEnum ''quota_period''),
          nullable ''window_seconds'' SqlInteger,
          required ''limit_value'' SqlInteger,
          defaults (Literal ''0'') (required ''priority'' SqlInteger),
          defaults (Expression ''true'') (required ''enabled'' SqlBoolean)] @ timestamp_columns @ [deleted_column],
      tb_pkey = Some (''quota_policies_pkey'', [''id'']),
      tb_uniques = [(''uq_quota_policy_scope'', [''scope_type'', ''scope_value'', ''model_id'', ''metric'', ''period''])]\<rparr>"

definition indexes_quota_policies :: "index_def list" where
  "indexes_quota_policies =
    [index_on ''ix_quota_policies_scope_type'' ''quota_policies'' [''scope_type''],
     index_on ''ix_quota_policies_scope_value'' ''quota_policies'' [''scope_value''],
     index_on ''ix_quota_policies_model_id'' ''quota_policies'' [''model_id''],
     index_on ''ix_quota_policies_deleted_at'' ''quota_policies'' [''deleted_at'']]"

definition table_quota_usage_events :: table_def where
  "table_quota_usage_events =
     \<lparr>tb_name = ''quota_usage_events'', tb_columns =
         [id_column,
          nullable ''run_id'' SqlUuid,
          required ''user_id'' (SqlVarchar 255),
          defaults (Literal ''[]'') (required ''groups'' SqlJsonb),
          refers ''model_registry'' ''id'' ''SET NULL'' (nullable ''model_id'' SqlUuid),
          defaults (Literal ''0'') (required ''input_tokens'' SqlInteger),
          defaults (Literal ''0'') (required ''output_tokens'' SqlInteger),
          nullable ''cost_usd'' SqlFloat] @ timestamp_columns,
      tb_pkey = Some (''quota_usage_events_pkey'', [''id'']),
      tb_uniques = []\<rparr>"

definition indexes_quota_usage_events :: "index_def list" where
  "indexes_quota_usage_events =
    [index_on ''ix_quota_usage_events_run_id'' ''quota_usage_events'' [''run_id''],
     index_on ''ix_quota_usage_events_user_id'' ''quota_usage_events'' [''user_id''],
     index_on ''ix_quota_usage_events_model_id'' ''quota_usage_events'' [''model_id''],
     index_on ''ix_quota_usage_events_user_created'' ''quota_usage_events'' [''user_id'', ''created_at'']]"

definition downgrade_0016 :: "statement list" where
  "downgrade_0016 =
    [DropTable ''quota_usage_events'',
      DropTable ''quota_policies'',
      DropColumn ''model_registry'' ''cost_per_1k_output_tokens'',
      DropColumn ''model_registry'' ''cost_per_1k_input_tokens'',
      DropEnum ''quota_metric'',
      DropEnum ''quota_period'',
      DropEnum ''quota_scope_type'']"

definition revision_0016 :: revision where
  "revision_0016 =
     \<lparr>rv_revision = ''0016_quota_management'', rv_down_revision = Some ''0015_workflow_schedule_webhook'',
      rv_upgrade = [Transactional
          (enums_0016 @
           columns_0016 @
           create table_quota_policies indexes_quota_policies @
           create table_quota_usage_events indexes_quota_usage_events)],
      rv_downgrade = downgrade_0016\<rparr>"

subsection \<open>The versions directory\<close>

definition revisions :: "revision list" where
  "revisions =
     [revision_0001, revision_0002, revision_0003, revision_0004, revision_0005, revision_0006, revision_0007, revision_0008,
      revision_0009, revision_0010, revision_0011, revision_0012, revision_0013, revision_0014, revision_0015, revision_0016]"

subsection \<open>Every downgrade takes back its upgrade\<close>

lemma script_checked:
  assumes "undoes b (rev d)" "list_all (\<lambda>st. \<exists>e v. st = AddEnumValue e v) vs" "list_all (\<lambda>st. \<not> touches_enums st) d \<or> vs = []"
    and "upgrade_statements r = b @ vs" "rv_downgrade r = d"
    and "schema_ok s" "new_enums (upgrade_statements r) s" "apply_all (upgrade_statements r) s = Inr s'"
  shows "\<exists>s''. apply_all (rv_downgrade r) s' = Inr s'' \<and> sc_tables s'' = sc_tables s \<and> sc_indexes s'' = sc_indexes s \<and>
    ((\<forall>e v. AddEnumValue e v \<notin> set (upgrade_statements r)) \<longrightarrow> s'' = s)"
proof -
  have "undone_by b d" using undoes_sound [OF assms(1)] by simp
  from script_undone [OF this assms(2,3,6)] assms(4,5,7,8) obtain s'' where
    "apply_all d s' = Inr s''" "sc_tables s'' = sc_tables s" "sc_indexes s'' = sc_indexes s" "vs = [] \<longrightarrow> s'' = s" by auto
  moreover have "vs = []" if "\<forall>e v. AddEnumValue e v \<notin> set (upgrade_statements r)"
    using that assms(2,4) by (cases vs) auto
  ultimately show ?thesis using assms(5) by blast
qed

text \<open>The revisions without \<open>autocommit_block\<close> and without a default that is dropped again.\<close>

lemma plain_scripts:
  "list_all (\<lambda>r. undoes (upgrade_statements r) (rev (rv_downgrade r)))
     [revision_0001, revision_0002, revision_0004, revision_0005, revision_0006, revision_0009, revision_0011, revision_0012,
      revision_0013, revision_0014, revision_0015, revision_0016]"
  by code_simp

lemma script_0003:
  "undoes columns_0003 (rev downgrade_0003)" "upgrade_statements revision_0003 = columns_0003 @ added_values_0003"
  "upgrade_statements revision_0008 = [] @ added_values_0008" "upgrade_statements revision_0010 = [] @ added_values_0010"
  by (code_simp, simp_all add: upgrade_statements_def revision_0003_def revision_0008_def revision_0010_def)

lemma added_values:
  "list_all (\<lambda>st. \<exists>e v. st = AddEnumValue e v) added_values_0003" "list_all (\<lambda>st. \<exists>e v. st = AddEnumValue e v) added_values_0008"
  "list_all (\<lambda>st. \<exists>e v. st = AddEnumValue e v) added_values_0010" "list_all (\<lambda>st. \<not> touches_enums st) downgrade_0003"
  by (simp_all add: added_values_0003_def added_values_0008_def added_values_0010_def downgrade_0003_def)

lemma downgrades:
  "rv_downgrade revision_0003 = downgrade_0003" "rv_downgrade revision_0007 = downgrade_0007"
  "rv_downgrade revision_0008 = []" "rv_downgrade revision_0010 = []"
  by (simp_all add: revision_0003_def revision_0007_def revision_0008_def revision_0010_def downgrade_0008_def downgrade_0010_def)

lemma script_0007: "upgrade_statements revision_0007 = enums_0007 @ columns_0007"
  by (simp add: upgrade_statements_def revision_0007_def)

text \<open>Revision 0007 declares a default only to fill the existing rows.\<close>

definition columns_0007_without_default :: "statement list" where
  "columns_0007_without_default =
     [AddColumn ''skills'' (required ''skill_type'' (SqlEnum ''skill_type'')),
      AddColumn ''skills'' (nullable ''config'' SqlJsonb),
      CreateIndex (index_on ''ix_skills_skill_type'' ''skills'' [''skill_type''])]"

lemma undone_0007: "undone_by (enums_0007 @ columns_0007) downgrade_0007"
proof (rule undoneI)
  fix s s'
  assume s: "schema_ok s" "new_enums (enums_0007 @ columns_0007) s" "apply_all (enums_0007 @ columns_0007) s = Inr s'"
  from s(3) obtain s1 where 1: "apply_all enums_0007 s = Inr s1" "apply_all columns_0007 s1 = Inr s'"
    by (auto simp: apply_all_append split: sum.splits)
  have same: "created_enums (enums_0007 @ columns_0007) = created_enums (enums_0007 @ columns_0007_without_default)"
    by (simp add: created_enums_def columns_0007_def columns_0007_without_default_def)
  have "undone_by enums_0007 [DropEnum ''skill_type'']" unfolding enums_0007_def by (rule undone_enum)
  moreover have "new_enums enums_0007 s" using s(2) by (simp add: new_enums_def)
  ultimately have "schema_ok s1" using s(1) 1(1) by (simp add: undone_by_def)
  then have "apply_all columns_0007 s1 = apply_all columns_0007_without_default s1"
    using default_dropped [of s1 "index_on ''ix_skills_skill_type'' ''skills'' [''skill_type'']" "''skills''"
        "defaults (Literal ''MCP'') (required ''skill_type'' (SqlEnum ''skill_type''))" "nullable ''config'' SqlJsonb"]
    by (simp add: columns_0007_def columns_0007_without_default_def index_on_def required_def defaults_def del: apply_all.simps apply_statement.simps)
  then have "apply_all (enums_0007 @ columns_0007_without_default) s = Inr s'" using 1 by (simp add: apply_all_append)
  moreover have "undoes (enums_0007 @ columns_0007_without_default) (rev downgrade_0007)" by code_simp
  from undoes_sound [OF this] have "undone_by (enums_0007 @ columns_0007_without_default) downgrade_0007" by simp
  moreover have "new_enums (enums_0007 @ columns_0007_without_default) s" using s(2) same by (simp add: new_enums_def)
  ultimately show "schema_ok s' \<and> apply_all downgrade_0007 s' = Inr s \<and>
      fst ` set (sc_enums s') \<subseteq> fst ` set (sc_enums s) \<union> set (created_enums (enums_0007 @ columns_0007))"
    using s(1) unfolding undone_by_def same by blast
qed

text \<open>C13. Downgrading a revision takes back what upgrading to it did, on every database schema it can be applied to: whatever
  consistent schema has none of the enumerations the revision creates, when its upgrade succeeds on it then its downgrade succeeds
  afterwards and leaves the tables, columns, constraints and indexes exactly as they were, in their order. Only the values an upgrade
  adds to an existing enumeration stay behind; a revision that adds none is taken back without a trace.\<close>

theorem downgrade_undoes_upgrade:
  assumes "r \<in> set revisions" "schema_ok s" "new_enums (upgrade_statements r) s" "apply_all (upgrade_statements r) s = Inr s'"
  shows "\<exists>s''. apply_all (rv_downgrade r) s' = Inr s'' \<and> sc_tables s'' = sc_tables s \<and> sc_indexes s'' = sc_indexes s \<and>
    ((\<forall>e v. AddEnumValue e v \<notin> set (upgrade_statements r)) \<longrightarrow> s'' = s)"
proof -
  consider "undoes (upgrade_statements r) (rev (rv_downgrade r))"
    | "r = revision_0003" | "r = revision_0007" | "r = revision_0008" | "r = revision_0010"
    using assms(1) plain_scripts by (auto simp: revisions_def)
  then show ?thesis
  proof cases
    case 1
    show ?thesis by (rule script_checked [OF 1, where vs = "[]"]) (simp_all add: assms)
  next
    case 2
    from assms(2-4) show ?thesis
      unfolding 2 by (intro script_checked [OF script_0003(1) added_values(1)]) (simp_all add: script_0003(2) added_values(4) downgrades)
  next
    case 3
    have "apply_all downgrade_0007 s' = Inr s" using undone_0007 assms(2-4) unfolding undone_by_def 3 script_0007 by blast
    then show ?thesis by (simp add: 3 downgrades)
  next
    case 4
    from assms(2-4) show ?thesis
      unfolding 4 by (intro script_checked [where b = "[]" and d = "[]", OF _ added_values(2)]) (simp_all add: script_0003(3) downgrades)
  next
    case 5
    from assms(2-4) show ?thesis
      unfolding 5 by (intro script_checked [where b = "[]" and d = "[]", OF _ added_values(3)]) (simp_all add: script_0003(4) downgrades)
  qed
qed

theorem downgrade_undoes_upgrade_witness:
  "\<exists>s' s''. apply_all (upgrade_statements revision_0009) empty_schema = Inr s' \<and> s' \<noteq> empty_schema \<and>
     apply_all (rv_downgrade revision_0009) s' = Inr s'' \<and> sc_tables s'' = []"
proof -
  have "\<not> isl (apply_all (upgrade_statements revision_0009) empty_schema)" by code_simp
  then obtain s' where s': "apply_all (upgrade_statements revision_0009) empty_schema = Inr s'"
    by (cases "apply_all (upgrade_statements revision_0009) empty_schema") auto
  have "schema_ok empty_schema" "new_enums (upgrade_statements revision_0009) empty_schema" by code_simp+
  from downgrade_undoes_upgrade [OF _ this s'] obtain s'' where
    "apply_all (rv_downgrade revision_0009) s' = Inr s''" "sc_tables s'' = sc_tables empty_schema"
    by (auto simp: revisions_def)
  moreover have "apply_all (upgrade_statements revision_0009) empty_schema \<noteq> Inr empty_schema" by code_simp
  ultimately show ?thesis using s' by (intro exI [of _ s'] exI [of _ s'']) (auto simp: empty_schema_def)
qed

lemma table_names [simp]:
  "tb_name table_model_registry = ''model_registry''"
  "tb_name table_prompts = ''prompts''"
  "tb_name table_agent_os = ''agent_os''"
  "tb_name table_teams = ''teams''"
  "tb_name table_agents = ''agents''"
  "tb_name table_skills = ''skills''"
  "tb_name table_skill_capabilities = ''skill_capabilities''"
  "tb_name table_agent_skills = ''agent_skills''"
  "tb_name table_agent_os_capabilities = ''agent_os_capabilities''"
  "tb_name table_team_capabilities = ''team_capabilities''"
  "tb_name table_agent_capabilities = ''agent_capabilities''"
  "tb_name table_chat_sessions = ''chat_sessions''"
  "tb_name table_agent_runs = ''agent_runs''"
  "tb_name table_chat_messages = ''chat_messages''"
  "tb_name table_agent_events = ''agent_events''"
  "tb_name table_agent_memories = ''agent_memories''"
  "tb_name table_workflows = ''workflows''"
  "tb_name table_workflow_steps = ''workflow_steps''"
  "tb_name table_workflow_runs = ''workflow_runs''"
  "tb_name table_workflow_run_steps = ''workflow_run_steps''"
  "tb_name table_workflow_events = ''workflow_events''"
  "tb_name table_agno_agent_sessions = ''agno_agent_sessions''"
  "tb_name table_agno_team_sessions = ''agno_team_sessions''"
  "tb_name table_ui_metadata_entries = ''ui_metadata_entries''"
  "tb_name table_business_object_definitions = ''business_object_definitions''"
  "tb_name table_runtime_observations = ''runtime_observations''"
  "tb_name table_runtime_events = ''runtime_events''"
  "tb_name table_execution_plan_runs = ''execution_plan_runs''"
  "tb_name table_execution_plan_step_runs = ''execution_plan_step_runs''"
  "tb_name table_attachments = ''attachments''"
  "tb_name table_workflow_schedules = ''workflow_schedules''"
  "tb_name table_workflow_webhooks = ''workflow_webhooks''"
  "tb_name table_quota_policies = ''quota_policies''"
  "tb_name table_quota_usage_events = ''quota_usage_events''"
  by code_simp+

lemma table_keys [simp]:
  "is_key ''id'' table_model_registry"
  "is_key ''id'' table_prompts"
  "is_key ''id'' table_agent_os"
  "is_key ''id'' table_teams"
  "is_key ''id'' table_agents"
  "is_key ''id'' table_skills"
  "is_key ''id'' table_skill_capabilities"
  "is_key ''id'' table_agent_skills"
  "is_key ''id'' table_agent_os_capabilities"
  "is_key ''id'' table_team_capabilities"
  "is_key ''id'' table_agent_capabilities"
  "is_key ''id'' table_chat_sessions"
  "is_key ''id'' table_agent_runs"
  "is_key ''id'' table_chat_messages"
  "is_key ''id'' table_agent_events"
  "is_key ''id'' table_agent_memories"
  "is_key ''id'' table_workflows"
  "is_key ''id'' table_workflow_steps"
  "is_key ''id'' table_workflow_runs"
  "is_key ''id'' table_workflow_run_steps"
  "is_key ''id'' table_workflow_events"
  "is_key ''id'' table_ui_metadata_entries"
  "is_key ''id'' table_business_object_definitions"
  "is_key ''id'' table_runtime_observations"
  "is_key ''id'' table_runtime_events"
  "is_key ''id'' table_execution_plan_runs"
  "is_key ''id'' table_execution_plan_step_runs"
  "is_key ''id'' table_attachments"
  "is_key ''id'' table_workflow_schedules"
  "is_key ''id'' table_workflow_webhooks"
  "is_key ''id'' table_quota_policies"
  "is_key ''id'' table_quota_usage_events"
  by code_simp+

definition blocks_0001 :: "(table_def \<times> index_def list) list" where
  "blocks_0001 =
    [(table_model_registry, indexes_model_registry), (table_prompts, indexes_prompts),
     (table_agent_os, indexes_agent_os), (table_teams, indexes_teams), (table_agents, indexes_agents),
     (table_skills, indexes_skills), (table_skill_capabilities, indexes_skill_capabilities),
     (table_agent_skills, indexes_agent_skills), (table_agent_os_capabilities, indexes_agent_os_capabilities),
     (table_team_capabilities, indexes_team_capabilities), (table_agent_capabilities, indexes_agent_capabilities),
     (table_chat_sessions, indexes_chat_sessions), (table_agent_runs, indexes_agent_runs),
     (table_chat_messages, indexes_chat_messages), (table_agent_events, indexes_agent_events),
     (table_agent_memories, indexes_agent_memories)]"

definition new_enums_0001 :: "(string \<times> string list) list" where
  "new_enums_0001 =
    [(''prompt_status'', [''draft'', ''active'', ''archived'']),
     (''message_role'', [''user'', ''assistant'', ''system'', ''tool'']),
     (''run_status'', [''pending'', ''running'', ''tool_calling'', ''waiting'', ''completed'',
             ''failed'']),
     (''event_type'', [''agent_started'', ''reasoning_started'', ''tool_selected'',
             ''tool_call_started'', ''tool_call_completed'', ''agent_response'',
             ''agent_completed'', ''error'']),
     (''memory_type'', [''conversation'', ''summary'', ''fact'', ''preference'', ''working_memory''])]"

lemma blocks_0001: "buildable (map fst new_enums_0001) [] blocks_0001"
    "map (tb_name \<circ> fst) blocks_0001 = [''model_registry'', ''prompts'', ''agent_os'', ''teams'', ''agents'',
             ''skills'', ''skill_capabilities'', ''agent_skills'',
             ''agent_os_capabilities'', ''team_capabilities'', ''agent_capabilities'',
             ''chat_sessions'', ''agent_runs'', ''chat_messages'', ''agent_events'',
             ''agent_memories'']"
    "map fst new_enums_0001 = [''prompt_status'', ''message_role'', ''run_status'', ''event_type'',
             ''memory_type'']"
  by (code_simp, simp_all add: blocks_0001_def new_enums_0001_def)

lemma block_sets_0001 [simp]: "tb_name ` fst ` set blocks_0001 = set [''model_registry'', ''prompts'', ''agent_os'', ''teams'', ''agents'',
             ''skills'', ''skill_capabilities'', ''agent_skills'',
             ''agent_os_capabilities'', ''team_capabilities'', ''agent_capabilities'',
             ''chat_sessions'', ''agent_runs'', ''chat_messages'', ''agent_events'',
             ''agent_memories'']"
    "fst ` set new_enums_0001 = set [''prompt_status'', ''message_role'', ''run_status'', ''event_type'',
             ''memory_type'']"
  by (simp_all add: blocks_0001_def new_enums_0001_def)

lemma upgrade_0001: "upgrade_statements revision_0001 = map (\<lambda>(e, vs). CreateEnum e vs) new_enums_0001 @ create_all blocks_0001"
  by (simp add: upgrade_statements_def revision_0001_def blocks_0001_def create_all_def enums_0001_def new_enums_0001_def)

definition blocks_0004 :: "(table_def \<times> index_def list) list" where
  "blocks_0004 =
    [(table_workflows, indexes_workflows), (table_workflow_steps, indexes_workflow_steps),
     (table_workflow_runs, indexes_workflow_runs), (table_workflow_run_steps, indexes_workflow_run_steps),
     (table_workflow_events, indexes_workflow_events)]"

definition new_enums_0004 :: "(string \<times> string list) list" where
  "new_enums_0004 =
    [(''workflow_step_type'', [''AGENT'', ''TEAM'']),
     (''workflow_run_status'', [''PENDING'', ''RUNNING'', ''COMPLETED'', ''FAILED'']),
     (''workflow_step_status'', [''PENDING'', ''RUNNING'', ''COMPLETED'', ''FAILED'']),
     (''workflow_event_type'', [''WorkflowStarted'', ''WorkflowStepStarted'', ''WorkflowStepCompleted'',
             ''WorkflowCompleted'', ''WorkflowFailed''])]"

lemma blocks_0004: "buildable (map fst new_enums_0004) [''agent_os'', ''agents'', ''chat_sessions'', ''teams''] blocks_0004"
    "map (tb_name \<circ> fst) blocks_0004 = [''workflows'', ''workflow_steps'', ''workflow_runs'', ''workflow_run_steps'',
             ''workflow_events'']"
    "map fst new_enums_0004 = [''workflow_step_type'', ''workflow_run_status'', ''workflow_step_status'',
             ''workflow_event_type'']"
  by (code_simp, simp_all add: blocks_0004_def new_enums_0004_def)

lemma block_sets_0004 [simp]: "tb_name ` fst ` set blocks_0004 = set [''workflows'', ''workflow_steps'', ''workflow_runs'', ''workflow_run_steps'',
             ''workflow_events'']"
    "fst ` set new_enums_0004 = set [''workflow_step_type'', ''workflow_run_status'', ''workflow_step_status'',
             ''workflow_event_type'']"
  by (simp_all add: blocks_0004_def new_enums_0004_def)

lemma upgrade_0004: "upgrade_statements revision_0004 = map (\<lambda>(e, vs). CreateEnum e vs) new_enums_0004 @ create_all blocks_0004"
  by (simp add: upgrade_statements_def revision_0004_def blocks_0004_def create_all_def enums_0004_def new_enums_0004_def)

definition blocks_0005 :: "(table_def \<times> index_def list) list" where
  "blocks_0005 =
    [(table_agno_agent_sessions, indexes_agno_agent_sessions)]"

lemma blocks_0005: "buildable (map fst []) [] blocks_0005"
    "map (tb_name \<circ> fst) blocks_0005 = [''agno_agent_sessions'']"
  by (code_simp, simp_all add: blocks_0005_def)

lemma block_sets_0005 [simp]: "tb_name ` fst ` set blocks_0005 = set [''agno_agent_sessions'']"
  by (simp_all add: blocks_0005_def)

lemma upgrade_0005: "upgrade_statements revision_0005 = map (\<lambda>(e, vs). CreateEnum e vs) [] @ create_all blocks_0005"
  by (simp add: upgrade_statements_def revision_0005_def blocks_0005_def create_all_def)

definition blocks_0006 :: "(table_def \<times> index_def list) list" where
  "blocks_0006 =
    [(table_agno_team_sessions, indexes_agno_team_sessions)]"

lemma blocks_0006: "buildable (map fst []) [] blocks_0006"
    "map (tb_name \<circ> fst) blocks_0006 = [''agno_team_sessions'']"
  by (code_simp, simp_all add: blocks_0006_def)

lemma block_sets_0006 [simp]: "tb_name ` fst ` set blocks_0006 = set [''agno_team_sessions'']"
  by (simp_all add: blocks_0006_def)

lemma upgrade_0006: "upgrade_statements revision_0006 = map (\<lambda>(e, vs). CreateEnum e vs) [] @ create_all blocks_0006"
  by (simp add: upgrade_statements_def revision_0006_def blocks_0006_def create_all_def)

definition blocks_0009 :: "(table_def \<times> index_def list) list" where
  "blocks_0009 =
    [(table_ui_metadata_entries, indexes_ui_metadata_entries)]"

definition new_enums_0009 :: "(string \<times> string list) list" where
  "new_enums_0009 =
    [(''ui_metadata_kind'', [''APPLICATION'', ''PAGE'', ''FORM'', ''DIALOG'', ''GRID'', ''BUSINESS_OBJECT'',
             ''FIELD'', ''VALIDATION_RULE'', ''LOOKUP'', ''BUSINESS_RULE'', ''COMPONENT'',
             ''PERMISSION'', ''EVENT''])]"

lemma blocks_0009: "buildable (map fst new_enums_0009) [] blocks_0009"
    "map (tb_name \<circ> fst) blocks_0009 = [''ui_metadata_entries'']"
    "map fst new_enums_0009 = [''ui_metadata_kind'']"
  by (code_simp, simp_all add: blocks_0009_def new_enums_0009_def)

lemma block_sets_0009 [simp]: "tb_name ` fst ` set blocks_0009 = set [''ui_metadata_entries'']"
    "fst ` set new_enums_0009 = set [''ui_metadata_kind'']"
  by (simp_all add: blocks_0009_def new_enums_0009_def)

lemma upgrade_0009: "upgrade_statements revision_0009 = map (\<lambda>(e, vs). CreateEnum e vs) new_enums_0009 @ create_all blocks_0009"
  by (simp add: upgrade_statements_def revision_0009_def blocks_0009_def create_all_def enums_0009_def new_enums_0009_def)

definition blocks_0011 :: "(table_def \<times> index_def list) list" where
  "blocks_0011 =
    [(table_business_object_definitions, indexes_business_object_definitions)]"

lemma blocks_0011: "buildable (map fst []) [] blocks_0011"
    "map (tb_name \<circ> fst) blocks_0011 = [''business_object_definitions'']"
  by (code_simp, simp_all add: blocks_0011_def)

lemma block_sets_0011 [simp]: "tb_name ` fst ` set blocks_0011 = set [''business_object_definitions'']"
  by (simp_all add: blocks_0011_def)

lemma upgrade_0011: "upgrade_statements revision_0011 = map (\<lambda>(e, vs). CreateEnum e vs) [] @ create_all blocks_0011"
  by (simp add: upgrade_statements_def revision_0011_def blocks_0011_def create_all_def)

definition blocks_0012 :: "(table_def \<times> index_def list) list" where
  "blocks_0012 =
    [(table_runtime_observations, indexes_runtime_observations), (table_runtime_events, indexes_runtime_events)]"

definition new_enums_0012 :: "(string \<times> string list) list" where
  "new_enums_0012 =
    [(''observation_type'', [''KNOWLEDGE_RETRIEVAL'', ''SKILL_OUTPUT'', ''BUSINESS_RESPONSE'',
             ''UI_RESULT'', ''WARNING'', ''ERROR''])]"

lemma blocks_0012: "buildable (map fst new_enums_0012) [] blocks_0012"
    "map (tb_name \<circ> fst) blocks_0012 = [''runtime_observations'', ''runtime_events'']"
    "map fst new_enums_0012 = [''observation_type'']"
  by (code_simp, simp_all add: blocks_0012_def new_enums_0012_def)

lemma block_sets_0012 [simp]: "tb_name ` fst ` set blocks_0012 = set [''runtime_observations'', ''runtime_events'']"
    "fst ` set new_enums_0012 = set [''observation_type'']"
  by (simp_all add: blocks_0012_def new_enums_0012_def)

lemma upgrade_0012: "upgrade_statements revision_0012 = map (\<lambda>(e, vs). CreateEnum e vs) new_enums_0012 @ create_all blocks_0012"
  by (simp add: upgrade_statements_def revision_0012_def blocks_0012_def create_all_def enums_0012_def new_enums_0012_def)

definition blocks_0013 :: "(table_def \<times> index_def list) list" where
  "blocks_0013 =
    [(table_execution_plan_runs, indexes_execution_plan_runs),
     (table_execution_plan_step_runs, indexes_execution_plan_step_runs)]"

definition new_enums_0013 :: "(string \<times> string list) list" where
  "new_enums_0013 =
    [(''execution_plan_run_status'', [''PENDING'', ''RUNNING'', ''COMPLETED'', ''FAILED'']),
     (''execution_step_status'', [''PENDING'', ''RUNNING'', ''RETRYING'', ''COMPLETED'', ''FAILED''])]"

lemma blocks_0013: "buildable (map fst new_enums_0013) [] blocks_0013"
    "map (tb_name \<circ> fst) blocks_0013 = [''execution_plan_runs'', ''execution_plan_step_runs'']"
    "map fst new_enums_0013 = [''execution_plan_run_status'', ''execution_step_status'']"
  by (code_simp, simp_all add: blocks_0013_def new_enums_0013_def)

lemma block_sets_0013 [simp]: "tb_name ` fst ` set blocks_0013 = set [''execution_plan_runs'', ''execution_plan_step_runs'']"
    "fst ` set new_enums_0013 = set [''execution_plan_run_status'', ''execution_step_status'']"
  by (simp_all add: blocks_0013_def new_enums_0013_def)

lemma upgrade_0013: "upgrade_statements revision_0013 = map (\<lambda>(e, vs). CreateEnum e vs) new_enums_0013 @ create_all blocks_0013"
  by (simp add: upgrade_statements_def revision_0013_def blocks_0013_def create_all_def enums_0013_def new_enums_0013_def)

definition blocks_0014 :: "(table_def \<times> index_def list) list" where
  "blocks_0014 =
    [(table_attachments, indexes_attachments)]"

definition new_enums_0014 :: "(string \<times> string list) list" where
  "new_enums_0014 =
    [(''attachment_kind'', [''IMAGE'', ''PDF'', ''DOCX'', ''XLSX'', ''OTHER'']),
     (''attachment_status'', [''UPLOADED'', ''PROCESSING'', ''READY'', ''FAILED''])]"

lemma blocks_0014: "buildable (map fst new_enums_0014) [] blocks_0014"
    "map (tb_name \<circ> fst) blocks_0014 = [''attachments'']"
    "map fst new_enums_0014 = [''attachment_kind'', ''attachment_status'']"
  by (code_simp, simp_all add: blocks_0014_def new_enums_0014_def)

lemma block_sets_0014 [simp]: "tb_name ` fst ` set blocks_0014 = set [''attachments'']"
    "fst ` set new_enums_0014 = set [''attachment_kind'', ''attachment_status'']"
  by (simp_all add: blocks_0014_def new_enums_0014_def)

lemma upgrade_0014: "upgrade_statements revision_0014 = map (\<lambda>(e, vs). CreateEnum e vs) new_enums_0014 @ create_all blocks_0014"
  by (simp add: upgrade_statements_def revision_0014_def blocks_0014_def create_all_def enums_0014_def new_enums_0014_def)

definition blocks_0015 :: "(table_def \<times> index_def list) list" where
  "blocks_0015 =
    [(table_workflow_schedules, indexes_workflow_schedules), (table_workflow_webhooks, indexes_workflow_webhooks)]"

definition new_enums_0015 :: "(string \<times> string list) list" where
  "new_enums_0015 =
    [(''schedule_type'', [''CRON'', ''INTERVAL''])]"

lemma blocks_0015: "buildable (map fst new_enums_0015) [''workflows''] blocks_0015"
    "map (tb_name \<circ> fst) blocks_0015 = [''workflow_schedules'', ''workflow_webhooks'']"
    "map fst new_enums_0015 = [''schedule_type'']"
  by (code_simp, simp_all add: blocks_0015_def new_enums_0015_def)

lemma block_sets_0015 [simp]: "tb_name ` fst ` set blocks_0015 = set [''workflow_schedules'', ''workflow_webhooks'']"
    "fst ` set new_enums_0015 = set [''schedule_type'']"
  by (simp_all add: blocks_0015_def new_enums_0015_def)

lemma upgrade_0015: "upgrade_statements revision_0015 = map (\<lambda>(e, vs). CreateEnum e vs) new_enums_0015 @ create_all blocks_0015"
  by (simp add: upgrade_statements_def revision_0015_def blocks_0015_def create_all_def enums_0015_def new_enums_0015_def)

definition blocks_0016 :: "(table_def \<times> index_def list) list" where
  "blocks_0016 =
    [(table_quota_policies, indexes_quota_policies), (table_quota_usage_events, indexes_quota_usage_events)]"

definition new_enums_0016 :: "(string \<times> string list) list" where
  "new_enums_0016 =
    [(''quota_scope_type'', [''GLOBAL'', ''GROUP'', ''USER'']),
     (''quota_period'', [''DAILY'', ''MONTHLY'', ''FIXED_WINDOW'']),
     (''quota_metric'', [''REQUESTS'', ''TOKENS'', ''COST_USD''])]"

lemma blocks_0016: "buildable (map fst new_enums_0016) [''model_registry''] blocks_0016"
    "map (tb_name \<circ> fst) blocks_0016 = [''quota_policies'', ''quota_usage_events'']"
    "map fst new_enums_0016 = [''quota_scope_type'', ''quota_period'', ''quota_metric'']"
  by (code_simp, simp_all add: blocks_0016_def new_enums_0016_def)

lemma block_sets_0016 [simp]: "tb_name ` fst ` set blocks_0016 = set [''quota_policies'', ''quota_usage_events'']"
    "fst ` set new_enums_0016 = set [''quota_scope_type'', ''quota_period'', ''quota_metric'']"
  by (simp_all add: blocks_0016_def new_enums_0016_def)

text \<open>The tables that revisions extend, and the others of the first revision.\<close>

definition model_registry_0002 :: table_def where
  "model_registry_0002 = table_model_registry\<lparr>tb_columns := tb_columns table_model_registry @
     [nullable ''base_url'' SqlText, nullable ''api_key'' SqlText, nullable ''extra_client_params'' SqlJsonb]\<rparr>"

definition agent_memories_0003 :: table_def where
  "agent_memories_0003 = table_agent_memories\<lparr>
     tb_columns := tb_columns table_agent_memories @ [nullable ''source_memory_id'' (SqlVarchar 255)],
     tb_uniques := tb_uniques table_agent_memories @ [(''uq_agent_memory_source'', [''agent_id'', ''user_id'', ''source_memory_id''])]\<rparr>"

definition skills_0007 :: table_def where
  "skills_0007 = table_skills\<lparr>tb_columns := tb_columns table_skills @
     [required ''skill_type'' (SqlEnum ''skill_type''), nullable ''config'' SqlJsonb]\<rparr>"

definition model_registry_0016 :: table_def where
  "model_registry_0016 = model_registry_0002\<lparr>tb_columns := tb_columns model_registry_0002 @
     [nullable ''cost_per_1k_input_tokens'' SqlFloat, nullable ''cost_per_1k_output_tokens'' SqlFloat]\<rparr>"

definition hierarchy_tables :: "table_def list" where
  "hierarchy_tables = [table_prompts, table_agent_os, table_teams, table_agents]"

definition runtime_tables :: "table_def list" where
  "runtime_tables =
     [table_skill_capabilities, table_agent_skills, table_agent_os_capabilities, table_team_capabilities, table_agent_capabilities,
      table_chat_sessions, table_agent_runs, table_chat_messages, table_agent_events]"

lemma tables_0001: "map fst blocks_0001 =
    table_model_registry # hierarchy_tables @ table_skills # runtime_tables @ [table_agent_memories]"
  by (simp add: blocks_0001_def hierarchy_tables_def runtime_tables_def)

lemma extended_tables [simp]:
  "tb_name model_registry_0002 = ''model_registry''" "tb_name agent_memories_0003 = ''agent_memories''"
  "tb_name skills_0007 = ''skills''" "tb_name model_registry_0016 = ''model_registry''" "is_key ''id'' model_registry_0002"
  "is_key ''id'' model_registry_0016"
  by code_simp+

lemma first_tables [simp]:
  "id_names hierarchy_tables = [''prompts'', ''agent_os'', ''teams'', ''agents'']"
  "id_names runtime_tables = [''skill_capabilities'', ''agent_skills'', ''agent_os_capabilities'', ''team_capabilities'',
     ''agent_capabilities'', ''chat_sessions'', ''agent_runs'', ''chat_messages'', ''agent_events'']"
  "tb_name ` set hierarchy_tables = {''prompts'', ''agent_os'', ''teams'', ''agents''}"
  "tb_name ` set runtime_tables = {''skill_capabilities'', ''agent_skills'', ''agent_os_capabilities'', ''team_capabilities'',
     ''agent_capabilities'', ''chat_sessions'', ''agent_runs'', ''chat_messages'', ''agent_events''}"
  by (simp_all add: hierarchy_tables_def runtime_tables_def)

text \<open>The revisions that extend tables.\<close>

lemma run_0002:
  assumes "''model_registry'' \<notin> tb_name ` set ts"
  shows "run_unnamed (upgrade_statements revision_0002) (grown es (table_model_registry # ts) is) =
    Some (grown es (model_registry_0002 # ts) is)"
proof -
  let ?c = "\<lambda>n. nullable n SqlText" and ?t = "\<lambda>cs. table_model_registry\<lparr>tb_columns := tb_columns table_model_registry @ cs\<rparr>"
  have *: "step_unnamed (AddColumn ''model_registry'' c) (grown es (t # ts) is) =
      Some (grown es (t\<lparr>tb_columns := tb_columns t @ [c]\<rparr> # ts) is)"
    if "tb_name t = ''model_registry''" "\<not> has_column t (cl_name c)" "type_exists (grown es [] []) (cl_type c)" "cl_references c = None" for t c
    using columns_grown(1) [of t "''model_registry''" "[]" ts c es "is"] that assms by simp
  have no: "\<not> has_column table_model_registry ''base_url''" "\<not> has_column table_model_registry ''api_key''"
    "\<not> has_column table_model_registry ''extra_client_params''" by code_simp+
  have up: "upgrade_statements revision_0002 = columns_0002" by (simp add: upgrade_statements_def revision_0002_def)
  show ?thesis
    using no by (simp add: up columns_0002_def * nullable_def has_column_def model_registry_0002_def del: step_unnamed.simps)
qed

lemma run_0016_columns:
  assumes "''model_registry'' \<notin> tb_name ` set ts"
  shows "run_unnamed columns_0016 (grown es (model_registry_0002 # ts) is) = Some (grown es (model_registry_0016 # ts) is)"
proof -
  have *: "step_unnamed (AddColumn ''model_registry'' c) (grown es (t # ts) is) =
      Some (grown es (t\<lparr>tb_columns := tb_columns t @ [c]\<rparr> # ts) is)"
    if "tb_name t = ''model_registry''" "\<not> has_column t (cl_name c)" "type_exists (grown es [] []) (cl_type c)" "cl_references c = None" for t c
    using columns_grown(1) [of t "''model_registry''" "[]" ts c es "is"] that assms by simp
  have no: "\<not> has_column model_registry_0002 ''cost_per_1k_input_tokens''" "\<not> has_column model_registry_0002 ''cost_per_1k_output_tokens''"
    by code_simp+
  show ?thesis
    using no by (simp add: columns_0016_def * nullable_def has_column_def model_registry_0016_def del: step_unnamed.simps)
qed

lemma run_0003_columns:
  assumes "''agent_memories'' \<notin> tb_name ` set pre" "''agent_memories'' \<notin> tb_name ` set post"
  shows "run_unnamed columns_0003 (grown es (pre @ table_agent_memories # post) is) =
    Some (grown es (pre @ agent_memories_0003 # post)
      (is @ [index_on ''ix_agent_memories_source_memory_id'' ''agent_memories'' [''source_memory_id'']]))"
proof -
  have no: "\<not> has_column table_agent_memories ''source_memory_id''"
    and has: "has_column table_agent_memories ''agent_id''" "has_column table_agent_memories ''user_id''" by code_simp+
  show ?thesis
    using no has assms
    by (simp add: columns_0003_def columns_grown nullable_def index_on_def has_column_def agent_memories_0003_def del: step_unnamed.simps)
qed

lemma run_0003:
  assumes "''agent_memories'' \<notin> tb_name ` set pre" "''agent_memories'' \<notin> tb_name ` set post" "''event_type'' \<in> fst ` set es"
  shows "run_unnamed (upgrade_statements revision_0003) (grown es (pre @ table_agent_memories # post) is) =
    Some (grown (add_value ''event_type'' ''memory_update_completed'' (add_value ''event_type'' ''memory_update_started'' es))
      (pre @ agent_memories_0003 # post) (is @ [index_on ''ix_agent_memories_source_memory_id'' ''agent_memories'' [''source_memory_id'']]))"
  using assms(3)
  by (simp add: script_0003(2) run_unnamed_append run_0003_columns [OF assms(1,2)] added_values_0003_def enum_grown del: step_unnamed.simps)

lemma run_0007:
  assumes "''skills'' \<notin> tb_name ` set pre" "''skills'' \<notin> tb_name ` set post" "''skill_type'' \<notin> fst ` set es"
  shows "run_unnamed (upgrade_statements revision_0007) (grown es (pre @ table_skills # post) is) =
    Some (grown (es @ [(''skill_type'', [''MCP'', ''WORKFLOW'', ''PROMPT'', ''CUSTOM'', ''KNOWLEDGE''])])
      (pre @ skills_0007 # post) (is @ [index_on ''ix_skills_skill_type'' ''skills'' [''skill_type'']]))"
proof -
  have no: "\<not> has_column table_skills ''skill_type''" "\<not> has_column table_skills ''config''" by code_simp+
  have "map (\<lambda>y. if cl_name y = ''skill_type'' then y\<lparr>cl_default := None\<rparr> else y) (tb_columns table_skills) = tb_columns table_skills"
    by code_simp
  moreover have "type_exists (grown (es @ [(''skill_type'', vs)]) [] []) (SqlEnum ''skill_type'')" for vs by (simp add: grown_def)
  ultimately show ?thesis
    using no assms
    by (simp add: script_0007 run_unnamed_append enums_0007_def columns_0007_def columns_grown enum_grown nullable_def required_def
        defaults_def index_on_def has_column_def skills_0007_def
        del: step_unnamed.simps type_exists.simps(1))
qed

lemma run_values:
  "''run_status'' \<in> fst ` set es \<Longrightarrow> ''event_type'' \<in> fst ` set es \<Longrightarrow> run_unnamed (upgrade_statements revision_0008) (grown es ts is) =
     Some (grown (add_value ''event_type'' ''run_cancelled'' (add_value ''run_status'' ''cancelled'' es)) ts is)"
  "''skill_type'' \<in> fst ` set es \<Longrightarrow> run_unnamed (upgrade_statements revision_0010) (grown es ts is) =
     Some (grown (add_value ''skill_type'' ''UI'' es) ts is)"
  by (simp_all add: script_0003 added_values_0008_def added_values_0010_def enum_grown del: step_unnamed.simps)

subsection \<open>The schema of the head revision\<close>

definition head_enums :: "(string \<times> string list) list" where
  "head_enums =
     add_value ''skill_type'' ''UI''
       (add_value ''event_type'' ''run_cancelled'' (add_value ''run_status'' ''cancelled''
          (add_value ''event_type'' ''memory_update_completed'' (add_value ''event_type'' ''memory_update_started'' new_enums_0001) @
           new_enums_0004 @ [(''skill_type'', [''MCP'', ''WORKFLOW'', ''PROMPT'', ''CUSTOM'', ''KNOWLEDGE''])])) @ new_enums_0009) @
     new_enums_0012 @ new_enums_0013 @ new_enums_0014 @ new_enums_0015 @ new_enums_0016"

definition later_tables :: "table_def list" where
  "later_tables = map fst (blocks_0004 @ blocks_0005 @ blocks_0006 @ blocks_0009 @ blocks_0011 @ blocks_0012 @ blocks_0013 @
     blocks_0014 @ blocks_0015 @ blocks_0016)"

definition head_tables :: "table_def list" where
  "head_tables = model_registry_0016 # hierarchy_tables @ skills_0007 # runtime_tables @ agent_memories_0003 # later_tables"

definition head_indexes :: "index_def list" where
  "head_indexes = concat (map snd blocks_0001) @
     [index_on ''ix_agent_memories_source_memory_id'' ''agent_memories'' [''source_memory_id'']] @
     concat (map snd (blocks_0004 @ blocks_0005 @ blocks_0006)) @ [index_on ''ix_skills_skill_type'' ''skills'' [''skill_type'']] @
     concat (map snd (blocks_0009 @ blocks_0011 @ blocks_0012 @ blocks_0013 @ blocks_0014 @ blocks_0015 @ blocks_0016))"

lemma run_0001: "run_unnamed (upgrade_statements revision_0001) empty_schema =
    Some (grown new_enums_0001 (table_model_registry # hierarchy_tables @ table_skills # runtime_tables @ [table_agent_memories])
      (concat (map snd blocks_0001)))"
  using run_creation [OF upgrade_0001 blocks_0001(1), of "[]" "[]" "[]", unfolded blocks_0001(2,3)]
  by (simp add: tables_0001 empty_schema_def grown_def)

lemma run_first_half:
  "run_unnamed (concat (map upgrade_statements [revision_0001, revision_0002, revision_0003, revision_0004])) empty_schema =
    Some (grown (add_value ''event_type'' ''memory_update_completed'' (add_value ''event_type'' ''memory_update_started'' new_enums_0001) @ new_enums_0004)
      (model_registry_0002 # hierarchy_tables @ table_skills # runtime_tables @ agent_memories_0003 # map fst blocks_0004)
      (concat (map snd blocks_0001) @ [index_on ''ix_agent_memories_source_memory_id'' ''agent_memories'' [''source_memory_id'']] @ concat (map snd blocks_0004)))"
proof -
  have 3: "run_unnamed (upgrade_statements revision_0003)
      (grown new_enums_0001 (model_registry_0002 # hierarchy_tables @ table_skills # runtime_tables @ [table_agent_memories]) is) =
      Some (grown (add_value ''event_type'' ''memory_update_completed'' (add_value ''event_type'' ''memory_update_started'' new_enums_0001))
        (model_registry_0002 # hierarchy_tables @ table_skills # runtime_tables @ [agent_memories_0003])
        (is @ [index_on ''ix_agent_memories_source_memory_id'' ''agent_memories'' [''source_memory_id'']]))" for "is"
    using run_0003 [of "model_registry_0002 # hierarchy_tables @ table_skills # runtime_tables" "[]" new_enums_0001 "is"]
    by (simp add: image_Un)
  let ?e3 = "add_value ''event_type'' ''memory_update_completed'' (add_value ''event_type'' ''memory_update_started'' new_enums_0001)"
  have 4: "run_unnamed (upgrade_statements revision_0004)
      (grown ?e3 (model_registry_0002 # hierarchy_tables @ table_skills # runtime_tables @ [agent_memories_0003]) is) =
      Some (grown (?e3 @ new_enums_0004)
        (model_registry_0002 # hierarchy_tables @ table_skills # runtime_tables @ agent_memories_0003 # map fst blocks_0004)
        (is @ concat (map snd blocks_0004)))" for "is"
  proof -
    from run_creation [OF upgrade_0004 blocks_0004(1), of ?e3, unfolded blocks_0004(2,3)] show ?thesis
      by (simp add: image_Un)
  qed
  show ?thesis
    using 3 4 run_0002 [of "hierarchy_tables @ table_skills # runtime_tables @ [table_agent_memories]" new_enums_0001]
    by (simp add: run_0001 run_unnamed_append image_Un)
qed

text \<open>The remaining revisions, on whatever enumerations and indexes there are.\<close>

lemma run_plain:
  assumes "tb_name ` set ts \<inter> set names = {}" "map (tb_name \<circ> fst) bs = names" "distinct names"
    "sts = map (\<lambda>(e, vs). CreateEnum e vs) new @ create_all bs" "buildable (map fst new) ns bs"
    "map fst new = es'" "distinct es'" "fst ` set es \<inter> set es' = {}" "set ns \<subseteq> set (id_names ts)"
  shows "run_unnamed sts (grown es ts is) = Some (grown (es @ new) (ts @ map fst bs) (is @ concat (map snd bs)))"
  using assms by (intro run_creation [OF assms(4,5)]) (auto simp del: map_map)

lemma run_second_half:
  assumes "fst ` set es = fst ` set (new_enums_0001 @ new_enums_0004)"
  shows "run_unnamed (concat (map upgrade_statements
      [revision_0005, revision_0006, revision_0007, revision_0008, revision_0009, revision_0010, revision_0011, revision_0012,
       revision_0013, revision_0014, revision_0015]))
    (grown es (model_registry_0002 # hierarchy_tables @ table_skills # runtime_tables @ agent_memories_0003 # map fst blocks_0004) is) =
    Some (grown (add_value ''skill_type'' ''UI'' (add_value ''event_type'' ''run_cancelled'' (add_value ''run_status'' ''cancelled''
        (es @ [(''skill_type'', [''MCP'', ''WORKFLOW'', ''PROMPT'', ''CUSTOM'', ''KNOWLEDGE''])])) @ new_enums_0009) @
        new_enums_0012 @ new_enums_0013 @ new_enums_0014 @ new_enums_0015)
      (model_registry_0002 # hierarchy_tables @ skills_0007 # runtime_tables @ agent_memories_0003 #
        map fst (blocks_0004 @ blocks_0005 @ blocks_0006 @ blocks_0009 @ blocks_0011 @ blocks_0012 @ blocks_0013 @ blocks_0014 @ blocks_0015))
      (is @ concat (map snd (blocks_0005 @ blocks_0006)) @ [index_on ''ix_skills_skill_type'' ''skills'' [''skill_type'']] @
        concat (map snd (blocks_0009 @ blocks_0011 @ blocks_0012 @ blocks_0013 @ blocks_0014 @ blocks_0015))))"
proof -
  note new = run_plain [OF _ blocks_0005(2) _ upgrade_0005 blocks_0005(1), simplified] run_plain [OF _ blocks_0006(2) _ upgrade_0006 blocks_0006(1), simplified]
    run_plain [OF _ blocks_0009(2) _ upgrade_0009 blocks_0009(1,3), simplified] run_plain [OF _ blocks_0011(2) _ upgrade_0011 blocks_0011(1), simplified]
    run_plain [OF _ blocks_0012(2) _ upgrade_0012 blocks_0012(1,3), simplified] run_plain [OF _ blocks_0013(2) _ upgrade_0013 blocks_0013(1,3), simplified]
    run_plain [OF _ blocks_0014(2) _ upgrade_0014 blocks_0014(1,3), simplified] run_plain [OF _ blocks_0015(2) _ upgrade_0015 blocks_0015(1,3), simplified]
  have workflows: "''workflows'' \<in> set (id_names (map fst blocks_0004))" by (simp add: blocks_0004_def)
  have 7: "run_unnamed (upgrade_statements revision_0007)
      (grown es (model_registry_0002 # hierarchy_tables @ table_skills # runtime_tables @ agent_memories_0003 # map fst blocks_0004 @ map fst blocks_0005 @ map fst blocks_0006) is) =
      Some (grown (es @ [(''skill_type'', [''MCP'', ''WORKFLOW'', ''PROMPT'', ''CUSTOM'', ''KNOWLEDGE''])])
        (model_registry_0002 # hierarchy_tables @ skills_0007 # runtime_tables @ agent_memories_0003 # map fst blocks_0004 @ map fst blocks_0005 @ map fst blocks_0006)
        (is @ [index_on ''ix_skills_skill_type'' ''skills'' [''skill_type'']]))" for "is"
    using run_0007 [of "model_registry_0002 # hierarchy_tables" "runtime_tables @ agent_memories_0003 # map fst blocks_0004 @ map fst blocks_0005 @ map fst blocks_0006" es "is"]
    by (simp add: assms image_Un)
  show ?thesis
    by (simp add: run_unnamed_append assms image_Un new 7 run_values workflows)
qed

lemma run_0016:
  assumes "fst ` set es \<inter> {''quota_scope_type'', ''quota_period'', ''quota_metric''} = {}"
    and "''model_registry'' \<notin> tb_name ` set ts" "''quota_policies'' \<notin> tb_name ` set ts" "''quota_usage_events'' \<notin> tb_name ` set ts"
  shows "run_unnamed (upgrade_statements revision_0016) (grown es (model_registry_0002 # ts) is) =
    Some (grown (es @ new_enums_0016) (model_registry_0016 # ts @ map fst blocks_0016) (is @ concat (map snd blocks_0016)))"
proof -
  have up: "upgrade_statements revision_0016 =
      map (\<lambda>(e, vs). CreateEnum e vs) new_enums_0016 @ columns_0016 @ create_all blocks_0016"
    by (simp add: upgrade_statements_def revision_0016_def blocks_0016_def create_all_def enums_0016_def new_enums_0016_def)
  have 1: "run_unnamed (map (\<lambda>(e, vs). CreateEnum e vs) new_enums_0016) (grown es (model_registry_0002 # ts) is) =
      Some (grown (es @ new_enums_0016) (model_registry_0002 # ts) is)"
    by (rule run_enums) (use assms(1) in \<open>auto simp: blocks_0016(3) image_Un simp del: set_map\<close>)
  have "run_unnamed (create_all blocks_0016) (grown (es @ new_enums_0016) (model_registry_0016 # ts) is) =
      Some (grown (es @ new_enums_0016) ((model_registry_0016 # ts) @ map fst blocks_0016) (is @ concat (map snd blocks_0016)))"
    by (rule blocks_grown [OF blocks_0016(1)])
      (use assms(3,4) in \<open>simp_all add: blocks_0016(2,3) image_Un\<close>)
  with 1 show ?thesis by (simp add: up run_unnamed_append run_0016_columns [OF assms(2)])
qed

lemma run_head: "run_unnamed (concat (map upgrade_statements revisions)) empty_schema = Some (grown head_enums head_tables head_indexes)"
proof -
  let ?e = "add_value ''event_type'' ''memory_update_completed'' (add_value ''event_type'' ''memory_update_started'' new_enums_0001) @ new_enums_0004"
  have "fst ` set ?e = fst ` set (new_enums_0001 @ new_enums_0004)" by (simp add: image_Un)
  note 2 = run_second_half [OF this]
  have split: "concat (map upgrade_statements revisions) =
      concat (map upgrade_statements [revision_0001, revision_0002, revision_0003, revision_0004]) @
      concat (map upgrade_statements [revision_0005, revision_0006, revision_0007, revision_0008, revision_0009, revision_0010,
        revision_0011, revision_0012, revision_0013, revision_0014, revision_0015]) @ upgrade_statements revision_0016"
    by (simp add: revisions_def)
  show ?thesis
    unfolding split run_unnamed_append run_first_half option.case 2
    by (subst run_0016) (simp_all add: image_Un head_enums_def head_tables_def head_indexes_def later_tables_def)
qed

text \<open>No name is given twice.\<close>

definition constraint_names :: "string list" where
  "constraint_names =
    [''model_registry'', ''model_registry_pkey'', ''uq_model_provider_model'', ''prompts'', ''prompts_pkey'',
     ''uq_prompt_code_version'', ''agent_os'', ''agent_os_pkey'', ''uq_agent_os_code'', ''teams'', ''teams_pkey'',
     ''uq_team_agent_os_code'', ''agents'', ''agents_pkey'', ''uq_agent_team_code'', ''skills'', ''skills_pkey'',
     ''uq_skill_code'', ''skill_capabilities'', ''skill_capabilities_pkey'', ''uq_skill_capability'',
     ''agent_skills'', ''agent_skills_pkey'', ''uq_agent_skill'', ''agent_os_capabilities'',
     ''agent_os_capabilities_pkey'', ''uq_agent_os_capability'', ''team_capabilities'',
     ''team_capabilities_pkey'', ''uq_team_capability'', ''agent_capabilities'', ''agent_capabilities_pkey'',
     ''uq_agent_capability'', ''chat_sessions'', ''chat_sessions_pkey'', ''agent_runs'', ''agent_runs_pkey'',
     ''chat_messages'', ''chat_messages_pkey'', ''agent_events'', ''agent_events_pkey'', ''agent_memories'',
     ''agent_memories_pkey'', ''uq_agent_memory_source'', ''workflows'', ''workflows_pkey'',
     ''uq_workflow_agent_os_code'', ''workflow_steps'', ''workflow_steps_pkey'', ''uq_workflow_step_order'',
     ''workflow_runs'', ''workflow_runs_pkey'', ''workflow_run_steps'', ''workflow_run_steps_pkey'',
     ''workflow_events'', ''workflow_events_pkey'', ''agno_agent_sessions'', ''agno_agent_sessions_pkey'',
     ''agno_team_sessions'', ''agno_team_sessions_pkey'', ''ui_metadata_entries'', ''ui_metadata_entries_pkey'',
     ''uq_ui_metadata_code_kind_version'', ''business_object_definitions'', ''business_object_definitions_pkey'',
     ''uq_business_object_code_version'', ''runtime_observations'', ''runtime_observations_pkey'',
     ''runtime_events'', ''runtime_events_pkey'', ''execution_plan_runs'', ''execution_plan_runs_pkey'',
     ''execution_plan_step_runs'', ''execution_plan_step_runs_pkey'', ''attachments'', ''attachments_pkey'',
     ''workflow_schedules'', ''workflow_schedules_pkey'', ''workflow_webhooks'', ''workflow_webhooks_pkey'',
     ''uq_workflow_webhook_token'', ''quota_policies'', ''quota_policies_pkey'', ''uq_quota_policy_scope'',
     ''quota_usage_events'', ''quota_usage_events_pkey'']"

definition first_indexes :: "string list" where
  "first_indexes =
    [''ix_model_registry_deleted_at'', ''ix_prompts_code'', ''ix_prompts_deleted_at'', ''ix_agent_os_code'',
     ''ix_agent_os_deleted_at'', ''ix_teams_agent_os_id'', ''ix_teams_code'', ''ix_teams_deleted_at'',
     ''ix_agents_team_id'', ''ix_agents_code'', ''ix_agents_deleted_at'', ''ix_skills_code'',
     ''ix_skills_deleted_at'', ''ix_skill_capabilities_skill_id'', ''ix_skill_capabilities_capability_code'',
     ''ix_agent_skills_agent_id'', ''ix_agent_skills_skill_id'', ''ix_agent_os_capabilities_agent_os_id'',
     ''ix_agent_os_capabilities_capability_code'', ''ix_team_capabilities_team_id'',
     ''ix_team_capabilities_capability_code'', ''ix_agent_capabilities_agent_id'',
     ''ix_agent_capabilities_capability_code'', ''ix_chat_sessions_agent_os_id'', ''ix_chat_sessions_team_id'',
     ''ix_chat_sessions_agent_id'', ''ix_chat_sessions_user_id'', ''ix_chat_sessions_deleted_at'',
     ''ix_agent_runs_session_id'', ''ix_agent_runs_agent_id'', ''ix_agent_runs_status'',
     ''ix_agent_runs_session_created'', ''ix_chat_messages_session_id'', ''ix_chat_messages_run_id'',
     ''ix_chat_messages_session_created'', ''ix_agent_events_run_id'', ''ix_agent_events_event_type'',
     ''ix_agent_events_run_created'', ''ix_agent_memories_agent_id'', ''ix_agent_memories_user_id'',
     ''ix_agent_memories_memory_type'', ''ix_agent_memories_source_memory_id'', ''ix_workflows_agent_os_id'',
     ''ix_workflows_code'', ''ix_workflows_deleted_at'', ''ix_workflow_steps_workflow_id'',
     ''ix_workflow_steps_agent_id'', ''ix_workflow_steps_team_id'', ''ix_workflow_runs_workflow_id'',
     ''ix_workflow_runs_session_id'']"

definition other_indexes :: "string list" where
  "other_indexes =
    [''ix_workflow_runs_status'', ''ix_workflow_run_steps_workflow_run_id'',
     ''ix_workflow_run_steps_workflow_step_id'', ''ix_workflow_run_steps_status'',
     ''ix_workflow_run_steps_run_order'', ''ix_workflow_events_workflow_run_id'',
     ''ix_workflow_events_event_type'', ''ix_workflow_events_run_created'', ''ix_agno_agent_sessions_user_id'',
     ''ix_agno_agent_sessions_agent_id'', ''ix_agno_agent_sessions_team_session_id'',
     ''ix_agno_team_sessions_user_id'', ''ix_agno_team_sessions_team_id'',
     ''ix_agno_team_sessions_team_session_id'', ''ix_skills_skill_type'', ''ix_ui_metadata_entries_code'',
     ''ix_ui_metadata_entries_kind'', ''ix_ui_metadata_entries_parent_code'',
     ''ix_ui_metadata_entries_deleted_at'', ''ix_business_object_definitions_code'',
     ''ix_business_object_definitions_deleted_at'', ''ix_runtime_observations_run_id'',
     ''ix_runtime_observations_workflow_run_id'', ''ix_runtime_observations_agent_id'',
     ''ix_runtime_observations_observation_type'', ''ix_runtime_events_entity_type'',
     ''ix_runtime_events_entity_id'', ''ix_runtime_events_event_name'', ''ix_runtime_events_correlation_id'',
     ''ix_execution_plan_runs_session_id'', ''ix_execution_plan_runs_status'',
     ''ix_execution_plan_step_runs_plan_run_id'', ''ix_execution_plan_step_runs_status'',
     ''ix_attachments_session_id'', ''ix_attachments_user_id'', ''ix_attachments_status'',
     ''ix_workflow_schedules_workflow_id'', ''ix_workflow_schedules_next_run_at'',
     ''ix_workflow_schedules_deleted_at'', ''ix_workflow_webhooks_workflow_id'',
     ''ix_workflow_webhooks_webhook_token'', ''ix_workflow_webhooks_deleted_at'',
     ''ix_quota_policies_scope_type'', ''ix_quota_policies_scope_value'', ''ix_quota_policies_model_id'',
     ''ix_quota_policies_deleted_at'', ''ix_quota_usage_events_run_id'', ''ix_quota_usage_events_user_id'',
     ''ix_quota_usage_events_model_id'', ''ix_quota_usage_events_user_created'']"

definition head_relations :: "string list" where
  "head_relations = concat (map created_relations (concat (map upgrade_statements revisions)))"

definition is_index_name :: "string \<Rightarrow> bool" where
  "is_index_name n \<longleftrightarrow> take 3 n = ''ix_''"

lemma head_relations_split:
  "filter is_index_name head_relations = first_indexes @ other_indexes"
  "filter (\<lambda>n. \<not> is_index_name n) head_relations = constraint_names"
  by code_simp+

lemma distinct_names:
  "distinct constraint_names" "distinct first_indexes" "distinct other_indexes"
  by (simp_all add: constraint_names_def first_indexes_def other_indexes_def)

lemma distinct_indexes: "set first_indexes \<inter> set other_indexes = {}"
  by (simp add: first_indexes_def other_indexes_def)

lemma distinct_filter_split: "distinct (filter P xs) \<Longrightarrow> distinct (filter (\<lambda>x. \<not> P x) xs) \<Longrightarrow> distinct xs"
  by (induction xs) (auto split: if_splits)

lemma distinct_relations: "distinct head_relations"
  by (rule distinct_filter_split [of is_index_name])
    (simp_all add: head_relations_split distinct_names distinct_indexes)

lemma builds_all: "list_all builds (concat (map upgrade_statements revisions))"
  by code_simp

lemma upgrade_succeeds: "apply_all (concat (map upgrade_statements revisions)) empty_schema = Inr (grown head_enums head_tables head_indexes)"
  by (rule run_named [OF run_head builds_all])
    (use distinct_relations in \<open>simp_all add: head_relations_def relation_names_def empty_schema_def\<close>)

text \<open>A model is served by a schema that has its table with its columns (up to server defaults), keys and unique constraints, an index
  on each column it declares indexed, and its enumerations with their values.\<close>

definition no_default :: "column \<Rightarrow> column" where
  "no_default c = c\<lparr>cl_default := None\<rparr>"

definition table_fits :: "model_table \<Rightarrow> table_def \<Rightarrow> bool" where
  "table_fits m t \<longleftrightarrow> set (map no_default (tb_columns t)) = set (map no_default (mt_columns m)) \<and>
     set (tb_uniques t) = set (mt_uniques m) \<and> map_option snd (tb_pkey t) = Some [''id'']"

definition indexes_fit :: "model_table \<Rightarrow> index_def list \<Rightarrow> bool" where
  "indexes_fit m is \<longleftrightarrow> list_all (\<lambda>c. list_ex (\<lambda>i. ix_table i = mt_name m \<and> ix_columns i = [c]) is) (mt_indexed m)"

definition enums_fit :: "model_table \<Rightarrow> (string \<times> string list) list \<Rightarrow> bool" where
  "enums_fit m es \<longleftrightarrow> list_all (\<lambda>x. list_ex (\<lambda>y. fst y = fst x \<and> set (snd y) = set (snd x)) es) (mt_enums m)"

definition fits :: "schema \<Rightarrow> model_table \<Rightarrow> bool" where
  "fits s m \<longleftrightarrow> (case find_table (mt_name m) s of None \<Rightarrow> False | Some t \<Rightarrow> table_fits m t) \<and>
     indexes_fit m (sc_indexes s) \<and> enums_fit m (sc_enums s)"

text \<open>Which table and indexes serve which model.\<close>

definition model_tables :: "(model_table \<times> table_def \<times> index_def list) list" where
  "model_tables =
    [(orm_model_registry, model_registry_0016, indexes_model_registry),
     (orm_prompts, table_prompts, indexes_prompts),
     (orm_agent_os, table_agent_os, indexes_agent_os),
     (orm_teams, table_teams, indexes_teams),
     (orm_agents, table_agents, indexes_agents),
     (orm_attachments, table_attachments, indexes_attachments),
     (orm_business_object_definitions, table_business_object_definitions, indexes_business_object_definitions),
     (orm_agent_os_capabilities, table_agent_os_capabilities, indexes_agent_os_capabilities),
     (orm_team_capabilities, table_team_capabilities, indexes_team_capabilities),
     (orm_agent_capabilities, table_agent_capabilities, indexes_agent_capabilities),
     (orm_execution_plan_runs, table_execution_plan_runs, indexes_execution_plan_runs),
     (orm_execution_plan_step_runs, table_execution_plan_step_runs, indexes_execution_plan_step_runs),
     (orm_agent_memories, agent_memories_0003, indexes_agent_memories @ [index_on ''ix_agent_memories_source_memory_id'' ''agent_memories'' [''source_memory_id'']]),
     (orm_runtime_observations, table_runtime_observations, indexes_runtime_observations),
     (orm_quota_policies, table_quota_policies, indexes_quota_policies),
     (orm_quota_usage_events, table_quota_usage_events, indexes_quota_usage_events),
     (orm_agent_runs, table_agent_runs, indexes_agent_runs),
     (orm_agent_events, table_agent_events, indexes_agent_events),
     (orm_runtime_events, table_runtime_events, indexes_runtime_events),
     (orm_chat_sessions, table_chat_sessions, indexes_chat_sessions),
     (orm_chat_messages, table_chat_messages, indexes_chat_messages),
     (orm_skills, skills_0007, indexes_skills @ [index_on ''ix_skills_skill_type'' ''skills'' [''skill_type'']]),
     (orm_skill_capabilities, table_skill_capabilities, indexes_skill_capabilities),
     (orm_agent_skills, table_agent_skills, indexes_agent_skills),
     (orm_ui_metadata_entries, table_ui_metadata_entries, indexes_ui_metadata_entries),
     (orm_workflows, table_workflows, indexes_workflows),
     (orm_workflow_steps, table_workflow_steps, indexes_workflow_steps),
     (orm_workflow_runs, table_workflow_runs, indexes_workflow_runs),
     (orm_workflow_events, table_workflow_events, indexes_workflow_events),
     (orm_workflow_run_steps, table_workflow_run_steps, indexes_workflow_run_steps),
     (orm_workflow_schedules, table_workflow_schedules, indexes_workflow_schedules),
     (orm_workflow_webhooks, table_workflow_webhooks, indexes_workflow_webhooks)]"

lemma model_tables_fit:
  "list_all (\<lambda>(m, t, is). mt_name m = tb_name t \<and> table_fits m t \<and> indexes_fit m is) model_tables"
  "list_all (\<lambda>(m, t, is). enums_fit m head_enums) model_tables"
  by code_simp+

lemma model_tables_all: "set (map fst model_tables) = set (metadata @ unregistered_models)"
  by (auto simp: model_tables_def metadata_def unregistered_models_def)

lemma model_tables_there: "list_all (\<lambda>(m, t, is). t \<in> set head_tables) model_tables"
  by (simp add: model_tables_def head_tables_def hierarchy_tables_def runtime_tables_def later_tables_def
      blocks_0004_def blocks_0009_def blocks_0011_def blocks_0012_def blocks_0013_def blocks_0014_def blocks_0015_def blocks_0016_def)

lemma model_indexes_there: "list_all (\<lambda>(m, t, is). set is \<subseteq> set head_indexes) model_tables"
  by (simp add: model_tables_def head_indexes_def blocks_0001_def blocks_0004_def blocks_0009_def blocks_0011_def blocks_0012_def
      blocks_0013_def blocks_0014_def blocks_0015_def blocks_0016_def, intro conjI; blast)

lemma head_names: "map tb_name head_tables =
    [''model_registry'', ''prompts'', ''agent_os'', ''teams'', ''agents'', ''skills'', ''skill_capabilities'', ''agent_skills'',
     ''agent_os_capabilities'', ''team_capabilities'', ''agent_capabilities'', ''chat_sessions'', ''agent_runs'', ''chat_messages'',
     ''agent_events'', ''agent_memories'', ''workflows'', ''workflow_steps'', ''workflow_runs'', ''workflow_run_steps'',
     ''workflow_events'', ''agno_agent_sessions'', ''agno_team_sessions'', ''ui_metadata_entries'', ''business_object_definitions'',
     ''runtime_observations'', ''runtime_events'', ''execution_plan_runs'', ''execution_plan_step_runs'', ''attachments'',
     ''workflow_schedules'', ''workflow_webhooks'', ''quota_policies'', ''quota_usage_events'']"
  by (simp add: head_tables_def hierarchy_tables_def runtime_tables_def later_tables_def
      blocks_0004_def blocks_0005_def blocks_0006_def blocks_0009_def blocks_0011_def blocks_0012_def blocks_0013_def blocks_0014_def
      blocks_0015_def blocks_0016_def)

lemma head_names_distinct: "distinct (map tb_name head_tables)"
  by (simp add: head_names)

lemma find_head: "t \<in> set head_tables \<Longrightarrow> find_table (tb_name t) (grown es head_tables is) = Some t"
proof -
  assume t: "t \<in> set head_tables"
  then have "find_table (tb_name t) (grown es head_tables is) \<noteq> None" by (auto simp: find_table_None grown_def)
  then obtain t' where t': "find_table (tb_name t) (grown es head_tables is) = Some t'" by blast
  have "t = t'" by (rule same_table [OF t']) (use t head_names_distinct in \<open>simp_all add: grown_def\<close>)
  then show ?thesis using t' by simp
qed

lemma head_fits:
  assumes "m \<in> set (metadata @ unregistered_models)"
  shows "fits (grown head_enums head_tables head_indexes) m"
proof -
  from assms obtain t "is" where p: "(m, t, is) \<in> set model_tables" unfolding model_tables_all [symmetric] by auto
  then have *: "mt_name m = tb_name t" "table_fits m t" "indexes_fit m is" "enums_fit m head_enums" "t \<in> set head_tables" "set is \<subseteq> set head_indexes"
    using model_tables_fit model_tables_there model_indexes_there by (auto simp: list_all_iff)
  have "indexes_fit m head_indexes" using *(3,6) by (auto simp: indexes_fit_def list_all_iff list_ex_iff)
  with * find_head [OF *(5)] show ?thesis by (simp add: fits_def grown_def)
qed

text \<open>Running the actions of revisions whose statements succeed.\<close>

lemma revision_ids [simp]:
  "rv_revision revision_0001 = ''0001_initial_schema''" "rv_down_revision revision_0001 = None"
  "rv_revision revision_0002 = ''0002_model_registry_base_url''" "rv_down_revision revision_0002 = Some ''0001_initial_schema''"
  "rv_revision revision_0003 = ''0003_agentic_memory''" "rv_down_revision revision_0003 = Some ''0002_model_registry_base_url''"
  "rv_revision revision_0004 = ''0004_workflows''" "rv_down_revision revision_0004 = Some ''0003_agentic_memory''"
  "rv_revision revision_0005 = ''0005_agno_agent_sessions''" "rv_down_revision revision_0005 = Some ''0004_workflows''"
  "rv_revision revision_0006 = ''0006_agno_team_sessions''" "rv_down_revision revision_0006 = Some ''0005_agno_agent_sessions''"
  "rv_revision revision_0007 = ''0007_knowledge_skills''" "rv_down_revision revision_0007 = Some ''0006_agno_team_sessions''"
  "rv_revision revision_0008 = ''0008_run_control''" "rv_down_revision revision_0008 = Some ''0007_knowledge_skills''"
  "rv_revision revision_0009 = ''0009_ui_metadata_registry''" "rv_down_revision revision_0009 = Some ''0008_run_control''"
  "rv_revision revision_0010 = ''0010_ui_skill_type''" "rv_down_revision revision_0010 = Some ''0009_ui_metadata_registry''"
  "rv_revision revision_0011 = ''0011_business_objects''" "rv_down_revision revision_0011 = Some ''0010_ui_skill_type''"
  "rv_revision revision_0012 = ''0012_obs_events''" "rv_down_revision revision_0012 = Some ''0011_business_objects''"
  "rv_revision revision_0013 = ''0013_execution_engine''" "rv_down_revision revision_0013 = Some ''0012_obs_events''"
  "rv_revision revision_0014 = ''0014_attachments''" "rv_down_revision revision_0014 = Some ''0013_execution_engine''"
  "rv_revision revision_0015 = ''0015_workflow_schedule_webhook''" "rv_down_revision revision_0015 = Some ''0014_attachments''"
  "rv_revision revision_0016 = ''0016_quota_management''" "rv_down_revision revision_0016 = Some ''0015_workflow_schedule_webhook''"
  by (simp_all add: revision_0001_def revision_0002_def revision_0003_def revision_0004_def revision_0005_def revision_0006_def revision_0007_def revision_0008_def 
      revision_0009_def revision_0010_def revision_0011_def revision_0012_def revision_0013_def revision_0014_def revision_0015_def revision_0016_def)

lemma run_block:
  "apply_all (block_statements b) (db_schema d) = Inr s \<Longrightarrow> \<exists>c'. run_actions (block_actions b) c d = (c', Inr (d\<lparr>db_schema := s\<rparr>))"
proof -
  have plain: "run_actions (map Execute sts) c d = (c, Inr (d\<lparr>db_schema := s\<rparr>))"
    if "apply_all sts (db_schema d) = Inr s" for sts c d
    using that by (induction sts arbitrary: d) (auto split: sum.splits)
  have auto: "\<exists>c'. run_actions (concat (map (\<lambda>st. [Execute st, Commit]) sts)) c d = (c', Inr (d\<lparr>db_schema := s\<rparr>))"
    if "apply_all sts (db_schema d) = Inr s" for sts c d
    using that
  proof (induction sts arbitrary: c d)
    case (Cons st sts)
    then obtain s1 where "apply_statement st (db_schema d) = Inr s1" "apply_all sts s1 = Inr s" by (auto split: sum.splits)
    with Cons.IH [of "d\<lparr>db_schema := s1\<rparr>" "d\<lparr>db_schema := s1\<rparr>"] show ?case by simp
  qed simp
  show "apply_all (block_statements b) (db_schema d) = Inr s \<Longrightarrow> ?thesis"
    using plain auto by (cases b) auto
qed

lemma run_upgrade:
  assumes "apply_all (upgrade_statements r) (db_schema d) = Inr s"
  shows "\<exists>c'. run_actions (upgrade_actions r) c d = (c', Inr \<lparr>db_schema = s, db_version = Some (rv_revision r)\<rparr>)"
proof -
  have "\<exists>c'. run_actions (concat (map block_actions bs)) c d = (c', Inr (d\<lparr>db_schema := s\<rparr>))"
    if "apply_all (concat (map block_statements bs)) (db_schema d) = Inr s" for bs c d
    using that
  proof (induction bs arbitrary: c d)
    case (Cons b bs)
    then obtain s1 where 1: "apply_all (block_statements b) (db_schema d) = Inr s1" "apply_all (concat (map block_statements bs)) s1 = Inr s"
      by (auto simp: apply_all_append split: sum.splits)
    from run_block [OF 1(1)] obtain c1 where "run_actions (block_actions b) c d = (c1, Inr (d\<lparr>db_schema := s1\<rparr>))" by blast
    moreover obtain c2 where "run_actions (concat (map block_actions bs)) c1 (d\<lparr>db_schema := s1\<rparr>) = (c2, Inr (d\<lparr>db_schema := s\<rparr>))"
      using Cons.IH [of "d\<lparr>db_schema := s1\<rparr>" c1] 1(2) by auto
    ultimately show ?case by (simp add: run_actions_append)
  qed (simp add: exI)
  from this [of "rv_upgrade r" d c] assms show ?thesis
    by (cases d) (auto simp: upgrade_actions_def upgrade_statements_def run_actions_append)
qed

lemma run_upgrades:
  assumes "apply_all (concat (map upgrade_statements rs)) (db_schema d) = Inr s" "rs \<noteq> []"
  shows "\<exists>c'. run_actions (concat (map upgrade_actions rs)) c d = (c', Inr \<lparr>db_schema = s, db_version = Some (rv_revision (last rs))\<rparr>)"
  using assms
proof (induction rs arbitrary: c d)
  case (Cons r rs)
  then obtain s1 where 1: "apply_all (upgrade_statements r) (db_schema d) = Inr s1" "apply_all (concat (map upgrade_statements rs)) s1 = Inr s"
    by (auto simp: apply_all_append split: sum.splits)
  let ?d = "\<lparr>db_schema = s1, db_version = Some (rv_revision r)\<rparr>"
  from run_upgrade [OF 1(1)] obtain c1 where *: "run_actions (upgrade_actions r) c d = (c1, Inr ?d)" by blast
  show ?case
  proof (cases "rs = []")
    case True
    then show ?thesis using * 1(2) by (simp add: run_actions_append)
  next
    case False
    then obtain c2 where "run_actions (concat (map upgrade_actions rs)) c1 ?d = (c2, Inr \<lparr>db_schema = s, db_version = Some (rv_revision (last rs))\<rparr>)"
      using Cons.IH [of ?d c1] 1(2) by auto
    then show ?thesis using * False by (simp add: run_actions_append)
  qed
qed simp

lemma path_from_base: "path_up (length revisions) revisions None = revisions"
  by (simp add: revisions_def)

lemma path_from_0002: "\<exists>rs. path_up (length revisions) revisions (Some ''0002_model_registry_base_url'') = revision_0003 # rs"
  by (simp add: revisions_def)

lemma metadata_tables:
  "tb_name ` set head_tables = mt_name ` set metadata \<union>
    {''agno_agent_sessions'', ''agno_team_sessions'', ''attachments'', ''quota_policies'', ''quota_usage_events''}"
  "mt_name ` set metadata \<inter> {''agno_agent_sessions'', ''agno_team_sessions'', ''attachments'', ''quota_policies'', ''quota_usage_events''} = {}"
proof -
  have "set (map tb_name head_tables) = set (map mt_name metadata) \<union>
      {''agno_agent_sessions'', ''agno_team_sessions'', ''attachments'', ''quota_policies'', ''quota_usage_events''}"
    unfolding head_names by code_simp
  then show "tb_name ` set head_tables = mt_name ` set metadata \<union>
      {''agno_agent_sessions'', ''agno_team_sessions'', ''attachments'', ''quota_policies'', ''quota_usage_events''}" by simp
  have "list_all (\<lambda>m. mt_name m \<notin>
      {''agno_agent_sessions'', ''agno_team_sessions'', ''attachments'', ''quota_policies'', ''quota_usage_events''}) metadata" by code_simp
  then show "mt_name ` set metadata \<inter>
      {''agno_agent_sessions'', ''agno_team_sessions'', ''attachments'', ''quota_policies'', ''quota_usage_events''} = {}"
    unfolding list_all_iff by blast
qed

text \<open>C12. \<open>alembic upgrade head\<close> builds the database the code works on. On a new database it succeeds and ends at the head revision; every ORM
  model finds its table there, with its columns, nullability and foreign keys, its unique constraints, its indexes and its enumerations.
  The tables of the schema are those of \<open>Base.metadata\<close> and five it does not know: Agno's two session tables, and
  \<open>attachments\<close>, \<open>quota_policies\<close> and \<open>quota_usage_events\<close>, whose models \<open>app/models/__init__.py\<close> forgets to import.\<close>

theorem migrations_build_the_models:
  "\<exists>s. upgrade_head revisions fresh_database =
      (\<lparr>db_schema = s, db_version = Some ''0016_quota_management''\<rparr>, Inr \<lparr>db_schema = s, db_version = Some ''0016_quota_management''\<rparr>) \<and>
    list_all (fits s) (metadata @ unregistered_models) \<and>
    tb_name ` set (sc_tables s) = mt_name ` set metadata \<union>
      {''agno_agent_sessions'', ''agno_team_sessions'', ''attachments'', ''quota_policies'', ''quota_usage_events''} \<and>
    mt_name ` set metadata \<inter> {''agno_agent_sessions'', ''agno_team_sessions'', ''attachments'', ''quota_policies'', ''quota_usage_events''} = {}"
proof -
  let ?s = "grown head_enums head_tables head_indexes"
  have "apply_all (concat (map upgrade_statements revisions)) (db_schema fresh_database) = Inr ?s"
    using upgrade_succeeds by (simp add: fresh_database_def)
  from run_upgrades [OF this, of fresh_database] obtain c where
    "run_actions (concat (map upgrade_actions revisions)) fresh_database fresh_database =
      (c, Inr \<lparr>db_schema = ?s, db_version = Some ''0016_quota_management''\<rparr>)" by (auto simp: revisions_def)
  then have "upgrade_head revisions fresh_database =
      (\<lparr>db_schema = ?s, db_version = Some ''0016_quota_management''\<rparr>, Inr \<lparr>db_schema = ?s, db_version = Some ''0016_quota_management''\<rparr>)"
    using path_from_base by (simp add: upgrade_head_def head_actions_def run_actions_append fresh_database_def)
  moreover have "list_all (fits ?s) (metadata @ unregistered_models)" using head_fits by (simp add: list_all_iff)
  moreover have "tb_name ` set (sc_tables ?s) = mt_name ` set metadata \<union>
      {''agno_agent_sessions'', ''agno_team_sessions'', ''attachments'', ''quota_policies'', ''quota_usage_events''}"
    using metadata_tables(1) by (simp add: grown_def)
  moreover note metadata_tables(2)
  ultimately show ?thesis by (intro exI [of _ ?s]) simp
qed

subsection \<open>An interrupted upgrade\<close>

definition half_upgraded :: schema where
  "half_upgraded = grown new_enums_0001
     ((model_registry_0002 # hierarchy_tables @ table_skills # runtime_tables) @ agent_memories_0003 # [])
     (concat (map snd blocks_0001) @ [index_on ''ix_agent_memories_source_memory_id'' ''agent_memories'' [''source_memory_id'']])"

lemma half_upgraded_run:
  "apply_all (concat (map upgrade_statements [revision_0001, revision_0002]) @ columns_0003) empty_schema = Inr half_upgraded"
proof (rule run_named)
  let ?sts = "concat (map upgrade_statements [revision_0001, revision_0002]) @ columns_0003"
  have all: "concat (map upgrade_statements revisions) = ?sts @ added_values_0003 @ concat (map upgrade_statements (drop 3 revisions))"
    by (simp add: revisions_def script_0003(2))
  show "list_all builds ?sts" using builds_all unfolding all list_all_append by blast
  show "distinct (concat (map created_relations ?sts))"
    using distinct_relations unfolding head_relations_def all map_append concat_append distinct_append by blast
  show "run_unnamed ?sts empty_schema = Some half_upgraded"
    using run_0002 [of "hierarchy_tables @ table_skills # runtime_tables @ [table_agent_memories]" new_enums_0001]
      run_0003_columns [of "model_registry_0002 # hierarchy_tables @ table_skills # runtime_tables" "[]" new_enums_0001]
    by (simp add: run_0001 run_unnamed_append image_Un half_upgraded_def)
qed (simp add: relation_names_def empty_schema_def)

lemma actions_0003: "\<exists>acts. upgrade_actions revision_0003 = map Execute columns_0003 @ Commit # acts"
  by (simp add: upgrade_actions_def revision_0003_def)

text \<open>C39. An upgrade that is interrupted cannot always be resumed. The whole of \<open>alembic upgrade head\<close> is one transaction
  (\<open>transaction_per_migration\<close> is not set), but \<open>autocommit_block\<close> in revision 0003 commits what the revision has done while the
  version table still names 0002. A process that dies there leaves a database that every later \<open>upgrade head\<close> refuses, because the
  column it is to add exists already; nothing it does is kept, so the database stays in this state.\<close>

theorem interrupted_upgrade_cannot_resume:
  "\<exists>k. let d = interrupted_upgrade k revisions fresh_database in
     db_version d = Some ''0002_model_registry_base_url'' \<and>
     upgrade_head revisions d = (d, Inl (DuplicateColumn ''agent_memories'' ''source_memory_id''))"
proof -
  let ?d = "\<lparr>db_schema = half_upgraded, db_version = Some ''0002_model_registry_base_url''\<rparr>"
  let ?acts = "concat (map upgrade_actions [revision_0001, revision_0002]) @ map Execute columns_0003 @ [Commit]"
  obtain a3 where a3: "upgrade_actions revision_0003 = map Execute columns_0003 @ Commit # a3"
    using actions_0003 by blast
  then obtain rest where rest: "head_actions revisions None = ?acts @ rest"
    using path_from_base unfolding head_actions_def by (simp add: revisions_def)
  from half_upgraded_run obtain s2 where 2: "apply_all (concat (map upgrade_statements [revision_0001, revision_0002])) (db_schema fresh_database) = Inr s2"
    "apply_all columns_0003 s2 = Inr half_upgraded" by (auto simp: apply_all_append fresh_database_def split: sum.splits)
  from run_upgrades [OF 2(1), of fresh_database] obtain c where
    3: "run_actions (concat (map upgrade_actions [revision_0001, revision_0002])) fresh_database fresh_database =
      (c, Inr \<lparr>db_schema = s2, db_version = Some ''0002_model_registry_base_url''\<rparr>)" by auto
  obtain c' where "run_actions (map Execute columns_0003) c \<lparr>db_schema = s2, db_version = Some ''0002_model_registry_base_url''\<rparr> = (c', Inr ?d)"
    using run_block [of "Transactional columns_0003" "\<lparr>db_schema = s2, db_version = Some ''0002_model_registry_base_url''\<rparr>" half_upgraded c] 2(2) by auto
  with 3 have "interrupted_upgrade (length ?acts) revisions fresh_database = ?d"
    unfolding interrupted_upgrade_def fresh_database_def database.select_convs rest
    by (simp add: run_actions_append del: map_append concat.simps list.map(2))
  moreover have "upgrade_head revisions ?d = (?d, Inl (DuplicateColumn ''agent_memories'' ''source_memory_id''))"
  proof -
    obtain rs where "path_up (length revisions) revisions (Some ''0002_model_registry_base_url'') = revision_0003 # rs"
      using path_from_0002 by blast
    then obtain acts where "head_actions revisions (Some ''0002_model_registry_base_url'') =
        Execute (AddColumn ''agent_memories'' (nullable ''source_memory_id'' (SqlVarchar 255))) # acts"
      by (simp add: head_actions_def a3 columns_0003_def)
    moreover have "find_table ''agent_memories'' half_upgraded = Some agent_memories_0003"
      unfolding half_upgraded_def by (rule find_grown) (simp_all add: image_Un)
    moreover have "has_column agent_memories_0003 ''source_memory_id''" by code_simp
    ultimately show ?thesis by (simp add: upgrade_head_def nullable_def)
  qed
  ultimately show ?thesis by (intro exI [of _ "length ?acts"]) (simp del: map_append concat.simps)
qed

end
