(* ===== verification/Spec2Isabelle.thy ===== *)
theory Spec2Isabelle
  imports Prelude Effects Models Session Calendar Quota Hierarchy Identity Knowledge Skills Engine Agui Runs Chat Workflow Schedule Webhook Registry BusinessObjects Plans Memory Attachments Events Admin QuotaAdmin Console Triggers Routes Deployment Schema Metadata Migrations
begin

text \<open>
  The Agno runtime platform: a FastAPI service that turns metadata (AgentOS, teams, agents, prompts, skills,
  capabilities, models, workflows) into running agents of the Agno library, answers chat turns and workflow runs,
  and keeps their history in PostgreSQL and their short-lived signals, counters and locks in Redis. Tools are
  called through an MCP gateway with the caller's own credentials. This development models the service's Python code
  under \<open>app/\<close> and its migrations under \<open>alembic/\<close>, one theory per component, each definition named after the
  function, method or class it translates.

  \<^bold>\<open>How the parts interact.\<close> A request enters a router (\<open>app/api/v1\<close>), which opens a transaction (\<open>get_db\<close>), calls one
  service and serialises its result. A chat turn (\<open>Chat\<close>) settles who the caller is (\<open>Identity\<close>), resolves the target in
  the hierarchy (\<open>Hierarchy\<close>), checks the quota (\<open>Quota\<close>), records a run (\<open>Runs\<close>), lets the engine (\<open>Engine\<close>) build and run
  the agent with its knowledge, tools and trigger tools (\<open>Knowledge\<close>, \<open>Skills\<close>, \<open>BusinessObjects\<close>, \<open>Memory\<close>), turns the
  engine's events into stored events and server-sent frames (\<open>Agui\<close>, \<open>Console\<close>) and charges the quota. A workflow
  (\<open>Workflow\<close>) chains such runs; schedules (\<open>Schedule\<close>), webhooks (\<open>Webhook\<close>) and the trigger tools of an agent start one; a
  plan (\<open>Plans\<close>) chains runs with retries. The remaining theories are the administration of the metadata (\<open>Admin\<close>,
  \<open>Registry\<close>, \<open>QuotaAdmin\<close>), uploads (\<open>Attachments\<close>), the two append-only logs (\<open>Events\<close>), and the schema the database has
  (\<open>Schema\<close>, \<open>Metadata\<close>, \<open>Migrations\<close>).

  \<^bold>\<open>Theories and code.\<close>

  \<^item> \<open>Prelude\<close>: strings, decimal numerals, Python dicts as association lists, the collections of hints.
  \<^item> \<open>Effects\<close>: JSON values, the exceptions of \<open>core/exceptions.py\<close> and \<open>knowledge/exceptions.py\<close> with the handler of
    \<open>main.py\<close>, and the type of every stateful operation, \<open>('s, 'a) prog\<close>: from a state to an error or a value and the
    state it leaves, with weakest preconditions (\<open>wp\<close>) and kept predicates (\<open>keeps\<close>).
  \<^item> \<open>Models\<close>: a record per table of \<open>models/\<close>, the mixins as record extensions, the enumerations as datatypes, and the
    record \<open>db\<close> of all tables.
  \<^item> \<open>Session\<close>: \<open>db/session.py\<close> and \<open>repositories/base.py\<close>. A session holds \<open>work\<close> (what the transaction sees) and \<open>durable\<close>
    (what is committed), the request's time, a supply of UUIDs and the Redis server; locale \<open>table\<close> is the contract of
    a table, interpreted on the tables the services track runs in.
  \<^item> \<open>Calendar\<close>, \<open>Quota\<close>: \<open>services/quota_service.py\<close>, \<open>repositories/quota_repository.py\<close>, the \<open>datetime\<close> arithmetic of the
    period buckets; locale \<open>preference\<close> is the selection loop over any strict order. \<open>QuotaAdmin\<close>: \<open>api/v1/quota.py\<close> and
    \<open>schemas/quota.py\<close>.
  \<^item> \<open>Hierarchy\<close>: the repositories of the metadata, \<open>capability_service.py\<close>, \<open>prompt_service.py\<close>, \<open>model_service.py\<close>; locale
    \<open>assignment_table\<close>, interpreted on the four capability tables. \<open>Admin\<close>: the routers of AgentOS, teams, agents, skills
    and capabilities; locale \<open>slot_table\<close> (unique slots), interpreted on four tables.
  \<^item> \<open>Identity\<close>: \<open>core/identity.py\<close>, \<open>identity_context.py\<close>, \<open>auth_context.py\<close>, \<open>middleware.py\<close>.
  \<^item> \<open>Knowledge\<close>: \<open>knowledge/\<close>. \<open>Skills\<close>: \<open>uiaction/\<close>, \<open>workflowskill/\<close>, \<open>attachments/service.py\<close>,
    \<open>core/workflow_trigger_context.py\<close>. \<open>BusinessObjects\<close>: \<open>businessobjects/\<close>. \<open>Memory\<close>: \<open>services/memory_service.py\<close>,
    \<open>agno_runtime/memory_db.py\<close>, \<open>explicit_memory.py\<close>, \<open>api/v1/memories.py\<close>. \<open>Attachments\<close>: \<open>attachments/\<close> and its router.
  \<^item> \<open>Engine\<close>: \<open>agno_runtime/engine.py\<close>, \<open>mcp_client.py\<close>, \<open>tool_adapter.py\<close>. \<open>Agui\<close>: \<open>agui_interface.py\<close>.
  \<^item> \<open>Runs\<close>: \<open>services/run_service.py\<close>, \<open>core/run_control.py\<close>, \<open>api/v1/runs.py\<close>. \<open>Chat\<close>: \<open>services/chat_service.py\<close>.
  \<^item> \<open>Workflow\<close>: \<open>services/workflow_registry.py\<close>, \<open>workflow_run_service.py\<close>, \<open>workflow_execution_service.py\<close>,
    \<open>agno_runtime/workflow_*.py\<close>. \<open>Schedule\<close>: \<open>schedule/\<close>, with several replicas as the step relation \<open>tick_step\<close>. \<open>Webhook\<close>:
    \<open>webhooks/\<close>. \<open>Plans\<close>: \<open>planning/\<close>, \<open>execution/\<close>, \<open>api/v1/execution_plans.py\<close>.
  \<^item> \<open>Registry\<close>: prompts, business objects, UI metadata and models; locale \<open>versioned_registry\<close>, interpreted on three
    tables. \<open>Events\<close>: \<open>observation/\<close>, \<open>events_v2/\<close>; locale \<open>append_log\<close>.
  \<^item> \<open>Triggers\<close>: the tool of \<open>workflowskill/service.py\<close> through which an agent runs a workflow, on \<open>Skills\<close> and \<open>Workflow\<close>.
  \<^item> \<open>Routes\<close>: the routers of \<open>api/v1\<close> and \<open>router.py\<close> as one table, and the route a request reaches. \<open>Deployment\<close>:
    \<open>core/config.py\<close>, the lifespan of \<open>main.py\<close>, \<open>observability/health.py\<close>, and the environment the settings and the
    middleware make for a chat request.
  \<^item> \<open>Console\<close>: the routes over sessions, workflows, runs, schedules and webhooks, and the frames of the two streams.
  \<^item> \<open>Schema\<close>, \<open>Metadata\<close>, \<open>Migrations\<close>: the schema language of Alembic's operations, the schema the ORM classes declare,
    and the sixteen revisions with upgrade, downgrade and interruption.

  \<^bold>\<open>What the lemmas show.\<close> Outcomes of a turn, a workflow and a plan: a streamed turn that ends has settled its run and
  told its client which way, an answered turn is read back from its session, steps and retries thread the texts they
  are documented to, and a workflow that an agent starts never breaks the agent's turn. Every route is reachable.
  Admission: tools only within the effective capabilities and with the caller's credentials, verified identities,
  sessions of their owner, webhooks past their guards, quotas checked before anything is written and counted after.
  Invariants over whole sequences of requests: the catalogue, the quota policies, the schedules, the version numbers.
  Refinements of an abstract specification: a workflow run against the trace of its steps, a plan against its
  attempts, the synchronisation of memories against a map update. The trigger chain of workflows is bounded and cannot
  run forever. Schedules: locks keep runs apart for the life of a lock, and a tick serves what is due. Migrations: the
  chain builds the declared schema and every downgrade undoes its upgrade. Error behaviour, where it is not what a
  comment or the evident intention says, is stated as a theorem of its own.

  \<^bold>\<open>Bounds.\<close> No definition takes fuel: loops over rows, events and steps recurse on their lists, the retry loop on the
  number of attempts, calendar and rule evaluation have measures, the nesting of triggers is bounded by the ceiling the
  code reads. Polling loops (the SSE tails, the ticker) are functions of the list of states their polls see.

  \<^bold>\<open>Parameters.\<close> What is not under \<open>src/\<close> is an argument of the model: Agno (a run is the list of events it yields and the
  exception it ends with), Redis (\<open>redis_ops\<close>, \<open>lock_ops\<close>, with their documented laws as named hypotheses and an
  instance that satisfies them), the MCP gateway, the Knowledge Platform, the OCR service and document readers, MinIO, JOSE, HMAC,
  croniter, JSON and Python's expression parser, the text of a float. PostgreSQL is the tables, the unique keys checked
  by \<open>create\<close>, transactions, and in \<open>Admin\<close> and \<open>QuotaAdmin\<close> the foreign keys and column widths; a query without ORDER BY
  returns rows in insertion order.

  \<^bold>\<open>Idealisations.\<close> Strings are UTF-8 bytes. A request sees one moment of the clock (a plan's retries one second
  later each). Of other requests, a turn sees what they do to Redis and not to the tables. A client reads its stream to the
  end. A scheduled run takes effect at the end of its transaction. Type names of PostgreSQL and tables do not clash.

  \<^bold>\<open>Not modelled.\<close> Logging and tracing (no other part reads them); how pydantic reads the environment; connection pooling; FastAPI's parsing of requests and pydantic's coercion of types (validation rules are modelled
  where a schema states them); the construction of Agno's storage and model objects
  (\<open>agent_storage.py\<close>, the client options of \<open>engine.py\<close>), whose behaviour is Agno's; \<open>alembic/env.py\<close>; documentation
  strings of tools. The migrations change no rows, and none are modelled there.
\<close>

end
